(* ===== verification/Gateway_Contract.thy ===== *)
theory Gateway_Contract
  imports Prelude
begin

text \<open>
  The packet layer of the TCP gateway (\<open>src/src/tcp_gateway/gateway_contracts.rs\<close>): the
  packet identifiers, the contract enum, the parser of one inner frame body and the
  serialiser. Indexing without a length check is a panic in the source and \<^const>\<open>Panic\<close>
  here. Lemmas: what the serialiser writes the parser reads back, what the parser accepts is
  well formed, and exactly which bodies make it panic.
\<close>

section \<open>Packet identifiers and contract\<close>

definition PING :: u8 where "PING = 0"
definition PONG :: u8 where "PONG = 1"
definition CONNECT_PACKET_ID :: u8 where "CONNECT_PACKET_ID = 3"
definition CONNECT_OK_PACKET_ID :: u8 where "CONNECT_OK_PACKET_ID = 4"
definition CONNECTION_ERROR_PACKET_ID :: u8 where "CONNECTION_ERROR_PACKET_ID = 5"
definition SEND_PAYLOAD_PACKET_ID :: u8 where "SEND_PAYLOAD_PACKET_ID = 6"
definition RECEIVE_PAYLOAD_PACKET_ID :: u8 where "RECEIVE_PAYLOAD_PACKET_ID = 7"
definition UPDATE_PING_TIME_PACKET_ID :: u8 where "UPDATE_PING_TIME_PACKET_ID = 8"
definition GET_FILE_REQUEST_PACKET_ID :: u8 where "GET_FILE_REQUEST_PACKET_ID = 9"
definition GET_FILE_RESPONSE_PACKET_ID :: u8 where "GET_FILE_RESPONSE_PACKET_ID = 10"
definition SYNC_SSL_CERTIFICATES_PACKET_ID :: u8 where "SYNC_SSL_CERTIFICATES_PACKET_ID = 11"
definition SYNC_SSL_CERTIFICATES_REQUEST_PACKET_ID :: u8 where
  "SYNC_SSL_CERTIFICATES_REQUEST_PACKET_ID = 12"
definition SYNC_SSL_CERTIFICATE_NOT_FOUND_PACKET_ID :: u8 where
  "SYNC_SSL_CERTIFICATE_NOT_FOUND_PACKET_ID = 13"
definition COMPRESSED_BATCH_PACKET_ID :: u8 where "COMPRESSED_BATCH_PACKET_ID = 20"
definition COMPRESSION_ALGO_ZSTD :: u8 where "COMPRESSION_ALGO_ZSTD = 0"

lemmas packet_ids =
  PING_def PONG_def CONNECT_PACKET_ID_def CONNECT_OK_PACKET_ID_def
  CONNECTION_ERROR_PACKET_ID_def SEND_PAYLOAD_PACKET_ID_def RECEIVE_PAYLOAD_PACKET_ID_def
  UPDATE_PING_TIME_PACKET_ID_def GET_FILE_REQUEST_PACKET_ID_def GET_FILE_RESPONSE_PACKET_ID_def
  SYNC_SSL_CERTIFICATES_PACKET_ID_def SYNC_SSL_CERTIFICATES_REQUEST_PACKET_ID_def
  SYNC_SSL_CERTIFICATE_NOT_FOUND_PACKET_ID_def COMPRESSED_BATCH_PACKET_ID_def
  COMPRESSION_ALGO_ZSTD_def

datatype GetFileStatus = StatusOk | StatusError

fun status_as_u8 :: "GetFileStatus \<Rightarrow> u8" where
  "status_as_u8 StatusOk = 0"
| "status_as_u8 StatusError = 1"

definition status_from_u8 :: "u8 \<Rightarrow> GetFileStatus" where
  "status_from_u8 v = (if v = 0 then StatusOk else StatusError)"

text \<open>A \<open>Duration\<close> is its number of nanoseconds.\<close>

type_synonym duration = nat

definition as_secs :: "duration \<Rightarrow> u64" where
  "as_secs d = of_nat (d div 10 ^ 9)"

definition from_secs :: "u64 \<Rightarrow> duration" where
  "from_secs s = unat s * 10 ^ 9"

definition as_micros_u64 :: "duration \<Rightarrow> u64" where
  "as_micros_u64 d = of_nat (d div 1000)"

definition from_micros :: "u64 \<Rightarrow> duration" where
  "from_micros m = unat m * 1000"

datatype TcpGatewayContract =
    Connect u32 duration string
  | Connected u32
  | ConnectionError u32 string
  | ForwardPayload u32 bytes
  | BackwardPayload u32 bytes
  | Ping
  | Pong
  | UpdatePingTime duration
  | GetFileRequest string u32
  | GetFileResponse u32 GetFileStatus bytes
  | SyncSslCertificates string bytes bytes
  | SyncSslCertificatesRequest "string list"
  | SyncSslCertificateNotFound string

datatype contract_error =
    EmptyPacket
  | TruncatedU32
  | TruncatedField string
  | InvalidUtf8 string
  | CanNotConvert string
  | BatchNotUnwrapped
  | UnknownPacketType u8

type_synonym 'a parsed = "(contract_error, 'a) outcome"

section \<open>Parsing\<close>

text \<open>\<open>u32::from_le_bytes([payload[0], payload[1], payload[2], payload[3]])\<close>: four unchecked indexings.\<close>

definition index_u32 :: "bytes \<Rightarrow> ('e, u32) outcome" where
  "index_u32 payload =
     rbind (idx payload 0) (\<lambda>a. rbind (idx payload 1) (\<lambda>b.
     rbind (idx payload 2) (\<lambda>c. rbind (idx payload 3) (\<lambda>d.
       Ok (from_le_bytes [a, b, c, d])))))"

definition index_u64 :: "bytes \<Rightarrow> ('e, u64) outcome" where
  "index_u64 payload =
     rbind (idx payload 0) (\<lambda>a. rbind (idx payload 1) (\<lambda>b.
     rbind (idx payload 2) (\<lambda>c. rbind (idx payload 3) (\<lambda>d.
     rbind (idx payload 4) (\<lambda>e. rbind (idx payload 5) (\<lambda>f.
     rbind (idx payload 6) (\<lambda>g. rbind (idx payload 7) (\<lambda>h.
       Ok (from_le_bytes [a, b, c, d, e, f, g, h])))))))))"

definition read_u32 :: "bytes \<Rightarrow> nat \<Rightarrow> u32 parsed" where
  "read_u32 payload offset =
     (if length payload < offset + 4 then Err TruncatedU32
      else rbind (slice_from payload offset) index_u32)"

definition convert_to_string :: "bytes \<Rightarrow> string \<Rightarrow> string parsed" where
  "convert_to_string payload packet_type =
     (if payload = [] then Ok [] else ok_or (CanNotConvert packet_type) (from_utf8 payload))"

text \<open>
  One length-prefixed field: \<open>read_u32\<close>, the truncation check, the slice; the result is the
  field and the offset behind it.
\<close>

definition read_field :: "string \<Rightarrow> bytes \<Rightarrow> nat \<Rightarrow> (bytes \<times> nat) parsed" where
  "read_field name payload offset =
     rbind (read_u32 payload offset) (\<lambda>len.
       let start = offset + 4; fin = start + unat len in
       if length payload < fin then Err (TruncatedField name)
       else rbind (slice payload start fin) (\<lambda>field. Ok (field, fin)))"

definition parse_cert_not_found :: "bytes \<Rightarrow> TcpGatewayContract parsed" where
  "parse_cert_not_found payload =
     rbind (read_field ''SYNC_SSL_CERTIFICATE_NOT_FOUND: cert_id'' payload 0) (\<lambda>(id_bytes, _).
     rbind (ok_or (InvalidUtf8 ''SYNC_SSL_CERTIFICATE_NOT_FOUND'') (from_utf8 id_bytes)) (\<lambda>cert_id.
       Ok (SyncSslCertificateNotFound cert_id)))"

fun parse_cert_ids :: "bytes \<Rightarrow> nat \<Rightarrow> nat \<Rightarrow> string list parsed" where
  "parse_cert_ids payload 0 offset = Ok []"
| "parse_cert_ids payload (Suc count) offset =
     rbind (read_field ''CLIENT_SSL_CERT_REQUEST: cert_id'' payload offset) (\<lambda>(id_bytes, id_end).
     rbind (ok_or (InvalidUtf8 ''CLIENT_SSL_CERT_REQUEST'') (from_utf8 id_bytes)) (\<lambda>id.
     rbind (parse_cert_ids payload count id_end) (\<lambda>ids.
       Ok (id # ids))))"

definition parse_cert_request :: "bytes \<Rightarrow> TcpGatewayContract parsed" where
  "parse_cert_request payload =
     rbind (read_u32 payload 0) (\<lambda>count.
     rbind (parse_cert_ids payload (unat count) 4) (\<lambda>ids.
       Ok (SyncSslCertificatesRequest ids)))"

definition parse_cert_push :: "bytes \<Rightarrow> TcpGatewayContract parsed" where
  "parse_cert_push payload =
     rbind (read_field ''SERVER_SSL_CERT_PUSH: cert_id'' payload 0) (\<lambda>(id_bytes, id_end).
     rbind (ok_or (InvalidUtf8 ''SERVER_SSL_CERT_PUSH'') (from_utf8 id_bytes)) (\<lambda>cert_id.
     rbind (read_field ''SERVER_SSL_CERT_PUSH: cert_pem'' payload id_end) (\<lambda>(cert_pem, pem_end).
     rbind (read_field ''SERVER_SSL_CERT_PUSH: private_key_pem'' payload pem_end) (\<lambda>(private_key_pem, _).
       Ok (SyncSslCertificates cert_id cert_pem private_key_pem)))))"

definition parse_connect :: "bytes \<Rightarrow> TcpGatewayContract parsed" where
  "parse_connect payload =
     rbind (index_u32 payload) (\<lambda>connection_id.
     rbind (idx payload 4) (\<lambda>timeout.
     rbind (slice_from payload 5) (\<lambda>rest.
     rbind (convert_to_string rest ''CONNECT'') (\<lambda>remote_host.
       Ok (Connect connection_id (from_secs (ucast timeout)) remote_host)))))"

definition parse_file_response :: "bytes \<Rightarrow> TcpGatewayContract parsed" where
  "parse_file_response payload =
     rbind (index_u32 payload) (\<lambda>request_id.
     rbind (idx payload 4) (\<lambda>status.
     rbind (slice_from payload 5) (\<lambda>content.
       Ok (GetFileResponse request_id (status_from_u8 status) content))))"

text \<open>\<open>TcpGatewayContract::parse\<close>: the body is \<open>[u8 TYPE][PAYLOAD]\<close>.\<close>

fun parse :: "bytes \<Rightarrow> TcpGatewayContract parsed" where
  "parse [] = Err EmptyPacket"
| "parse (packet_type # payload) =
     (if packet_type = CONNECT_PACKET_ID then parse_connect payload
      else if packet_type = CONNECT_OK_PACKET_ID then
        rbind (index_u32 payload) (\<lambda>connection_id. Ok (Connected connection_id))
      else if packet_type = CONNECTION_ERROR_PACKET_ID then
        rbind (index_u32 payload) (\<lambda>connection_id.
        rbind (slice_from payload 4) (\<lambda>rest.
        rbind (convert_to_string rest ''CONNECTION'') (\<lambda>error.
          Ok (ConnectionError connection_id error))))
      else if packet_type = SEND_PAYLOAD_PACKET_ID then
        rbind (index_u32 payload) (\<lambda>connection_id.
        rbind (slice_from payload 4) (\<lambda>payload_bytes.
          Ok (ForwardPayload connection_id payload_bytes)))
      else if packet_type = RECEIVE_PAYLOAD_PACKET_ID then
        rbind (index_u32 payload) (\<lambda>connection_id.
        rbind (slice_from payload 4) (\<lambda>payload_bytes.
          Ok (BackwardPayload connection_id payload_bytes)))
      else if packet_type = UPDATE_PING_TIME_PACKET_ID then
        rbind (index_u64 payload) (\<lambda>micros. Ok (UpdatePingTime (from_micros micros)))
      else if packet_type = GET_FILE_REQUEST_PACKET_ID then
        rbind (index_u32 payload) (\<lambda>request_id.
        rbind (slice_from payload 4) (\<lambda>rest.
        rbind (convert_to_string rest ''GET_FILE_REQUEST'') (\<lambda>path.
          Ok (GetFileRequest path request_id))))
      else if packet_type = GET_FILE_RESPONSE_PACKET_ID then parse_file_response payload
      else if packet_type = SYNC_SSL_CERTIFICATE_NOT_FOUND_PACKET_ID then
        parse_cert_not_found payload
      else if packet_type = SYNC_SSL_CERTIFICATES_REQUEST_PACKET_ID then
        parse_cert_request payload
      else if packet_type = SYNC_SSL_CERTIFICATES_PACKET_ID then parse_cert_push payload
      else if packet_type = PING then Ok Ping
      else if packet_type = PONG then Ok Pong
      else if packet_type = COMPRESSED_BATCH_PACKET_ID then Err BatchNotUnwrapped
      else Err (UnknownPacketType packet_type))"

section \<open>Serialising\<close>

definition push_u32 :: "bytes \<Rightarrow> u32 \<Rightarrow> bytes" where
  "push_u32 result value = result @ to_le_bytes 4 value"

definition push_field :: "bytes \<Rightarrow> bytes \<Rightarrow> bytes" where
  "push_field body field = push_u32 body (of_nat (length field)) @ field"

fun contract_body :: "TcpGatewayContract \<Rightarrow> bytes" where
  "contract_body (Connect connection_id timeout remote_host) =
     push_u32 [CONNECT_PACKET_ID] connection_id @ [ucast (as_secs timeout)] @ as_bytes remote_host"
| "contract_body (Connected connection_id) = push_u32 [CONNECT_OK_PACKET_ID] connection_id"
| "contract_body (ConnectionError connection_id error) =
     push_u32 [CONNECTION_ERROR_PACKET_ID] connection_id @ as_bytes error"
| "contract_body (ForwardPayload connection_id payload) =
     push_u32 [SEND_PAYLOAD_PACKET_ID] connection_id @ payload"
| "contract_body (BackwardPayload connection_id payload) =
     push_u32 [RECEIVE_PAYLOAD_PACKET_ID] connection_id @ payload"
| "contract_body (UpdatePingTime duration) =
     UPDATE_PING_TIME_PACKET_ID # to_le_bytes 8 (as_micros_u64 duration)"
| "contract_body (GetFileRequest path request_id) =
     push_u32 [GET_FILE_REQUEST_PACKET_ID] request_id @ as_bytes path"
| "contract_body (GetFileResponse request_id status content) =
     push_u32 [GET_FILE_RESPONSE_PACKET_ID] request_id @ [status_as_u8 status] @ content"
| "contract_body (SyncSslCertificates cert_id cert_pem private_key_pem) =
     push_field (push_field (push_field [SYNC_SSL_CERTIFICATES_PACKET_ID] (as_bytes cert_id))
       cert_pem) private_key_pem"
| "contract_body (SyncSslCertificatesRequest cert_ids) =
     foldl (\<lambda>body id. push_field body (as_bytes id))
       (push_u32 [SYNC_SSL_CERTIFICATES_REQUEST_PACKET_ID] (of_nat (length cert_ids))) cert_ids"
| "contract_body (SyncSslCertificateNotFound cert_id) =
     push_field [SYNC_SSL_CERTIFICATE_NOT_FOUND_PACKET_ID] (as_bytes cert_id)"
| "contract_body Ping = [PING]"
| "contract_body Pong = [PONG]"

definition to_plain_frame :: "TcpGatewayContract \<Rightarrow> bytes" where
  "to_plain_frame c =
     (let body = contract_body c in to_le_bytes 4 (of_nat (length body) :: u32) @ body)"

section \<open>Well-formed contracts\<close>

text \<open>
  What the Rust types guarantee (every \<open>&str\<close> is UTF-8) and what the 32-bit length prefixes
  can carry.
\<close>

fun contract_wf :: "TcpGatewayContract \<Rightarrow> bool" where
  "contract_wf (Connect _ _ remote_host) = is_str remote_host"
| "contract_wf (ConnectionError _ error) = is_str error"
| "contract_wf (GetFileRequest path _) = is_str path"
| "contract_wf (SyncSslCertificates cert_id cert_pem private_key_pem) =
     (is_str cert_id \<and> length cert_id < 2 ^ 32 \<and> length cert_pem < 2 ^ 32 \<and>
      length private_key_pem < 2 ^ 32)"
| "contract_wf (SyncSslCertificatesRequest cert_ids) =
     (length cert_ids < 2 ^ 32 \<and> list_all (\<lambda>id. is_str id \<and> length id < 2 ^ 32) cert_ids)"
| "contract_wf (SyncSslCertificateNotFound cert_id) = (is_str cert_id \<and> length cert_id < 2 ^ 32)"
| "contract_wf _ = True"

text \<open>
  The part of a contract the wire carries: the connect timeout as whole seconds in one byte,
  the ping time as whole microseconds in eight.
\<close>

fun wire_norm :: "TcpGatewayContract \<Rightarrow> TcpGatewayContract" where
  "wire_norm (Connect connection_id timeout remote_host) =
     Connect connection_id (timeout div 10 ^ 9 mod 256 * 10 ^ 9) remote_host"
| "wire_norm (UpdatePingTime duration) = UpdatePingTime (duration div 1000 mod 2 ^ 64 * 1000)"
| "wire_norm c = c"

section \<open>Lemmas on the readers\<close>

lemma index_u32_eq:
  "index_u32 payload = (if 4 \<le> length payload then Ok (from_le_bytes (take 4 payload)) else Panic)"
proof (cases "4 \<le> length payload")
  case True
  then obtain a b c d rest where "payload = a # b # c # d # rest"
    by (auto simp: numeral_eq_Suc Suc_le_length_iff)
  then show ?thesis by (simp add: index_u32_def idx_def numeral_eq_Suc)
next
  case False
  then show ?thesis by (auto simp: index_u32_def idx_def)
qed

lemma index_u64_eq:
  "index_u64 payload = (if 8 \<le> length payload then Ok (from_le_bytes (take 8 payload)) else Panic)"
proof (cases "8 \<le> length payload")
  case True
  then obtain a b c d e f g h rest where "payload = a # b # c # d # e # f # g # h # rest"
    by (auto simp: numeral_eq_Suc Suc_le_length_iff)
  then show ?thesis by (simp add: index_u64_def idx_def numeral_eq_Suc)
next
  case False
  then show ?thesis by (auto simp: index_u64_def idx_def)
qed

lemma read_u32_eq:
  "read_u32 payload offset =
     (if length payload < offset + 4 then Err TruncatedU32
      else Ok (from_le_bytes (take 4 (drop offset payload))))"
  by (auto simp: read_u32_def index_u32_eq)

lemma read_field_not_Panic [simp]: "read_field name payload offset \<noteq> Panic"
  by (auto simp: read_field_def read_u32_eq Let_def)

lemma read_field_hit:
  assumes "length field < 2 ^ 32"
  shows "read_field name (pre @ to_le_bytes 4 (of_nat (length field) :: u32) @ field @ rest) (length pre) =
    Ok (field, length pre + 4 + length field)"
  using assms by (simp add: read_field_def read_u32_eq Let_def unat_of_nat)

lemma read_field_Ok:
  "read_field name payload offset = Ok (field, fin) \<Longrightarrow>
     length field < 2 ^ 32 \<and> length field \<le> length payload"
  by (auto simp: read_field_def read_u32_eq Let_def split: if_splits)

section \<open>Round trip of one frame\<close>

definition enc_field :: "bytes \<Rightarrow> bytes" where
  "enc_field field = to_le_bytes 4 (of_nat (length field) :: u32) @ field"

lemma push_field_eq: "push_field body field = body @ enc_field field"
  by (simp add: push_field_def push_u32_def enc_field_def)

lemma length_enc_field [simp]: "length (enc_field field) = 4 + length field"
  by (simp add: enc_field_def)

lemma foldl_push_field:
  "foldl (\<lambda>body id. push_field body (as_bytes id)) body ids =
     body @ concat (map (\<lambda>id. enc_field (as_bytes id)) ids)"
  by (simp add: push_field_eq foldl_append_concat)

lemma read_enc_field:
  "length field < 2 ^ 32 \<Longrightarrow>
     read_field name (pre @ enc_field field @ rest) (length pre) = Ok (field, length pre + 4 + length field)"
  unfolding enc_field_def append_assoc by (rule read_field_hit)

lemma parse_cert_ids_hit:
  "list_all (\<lambda>id. is_str id \<and> length id < 2 ^ 32) ids \<Longrightarrow>
     parse_cert_ids (pre @ concat (map (\<lambda>id. enc_field (as_bytes id)) ids)) (length ids) (length pre) = Ok ids"
proof (induction ids arbitrary: pre)
  case Nil
  then show ?case by simp
next
  case (Cons id ids)
  let ?tl = "concat (map (\<lambda>id. enc_field (as_bytes id)) ids)"
  from Cons.prems have id: "is_str id" "length (as_bytes id) < 2 ^ 32"
    and tl: "list_all (\<lambda>id. is_str id \<and> length id < 2 ^ 32) ids" by auto
  have "parse_cert_ids ((pre @ enc_field (as_bytes id)) @ ?tl) (length ids)
      (length (pre @ enc_field (as_bytes id))) = Ok ids"
    by (rule Cons.IH [OF tl])
  then show ?case
    using id read_enc_field [OF id(2), of _ pre ?tl] by (simp add: add.assoc)
qed

lemma parse_file_contracts:
  "parse (contract_body (GetFileResponse request_id status content)) =
     Ok (GetFileResponse request_id status content)"
  by (cases status)
     (auto simp: push_u32_def packet_ids parse_file_response_def index_u32_eq nth_append status_from_u8_def)

lemma parse_connect_body:
  "is_str remote_host \<Longrightarrow>
     parse (contract_body (Connect connection_id timeout remote_host)) =
       Ok (wire_norm (Connect connection_id timeout remote_host))"
  by (auto simp: push_u32_def packet_ids parse_connect_def index_u32_eq nth_append convert_to_string_def
      from_secs_def as_secs_def unsigned_ucast_eq unat_of_nat take_bit_eq_mod mod_mod_cancel)

lemma parse_cert_contracts:
  "contract_wf (SyncSslCertificates i c k) \<Longrightarrow>
     parse (contract_body (SyncSslCertificates i c k)) = Ok (SyncSslCertificates i c k)"
  "contract_wf (SyncSslCertificatesRequest ids) \<Longrightarrow>
     parse (contract_body (SyncSslCertificatesRequest ids)) = Ok (SyncSslCertificatesRequest ids)"
  "contract_wf (SyncSslCertificateNotFound i) \<Longrightarrow>
     parse (contract_body (SyncSslCertificateNotFound i)) = Ok (SyncSslCertificateNotFound i)"
proof -
  assume wf: "contract_wf (SyncSslCertificates i c k)"
  then show "parse (contract_body (SyncSslCertificates i c k)) = Ok (SyncSslCertificates i c k)"
    using read_enc_field [of "as_bytes i" _ "[]" "enc_field c @ enc_field k"]
      read_enc_field [of c _ "enc_field (as_bytes i)" "enc_field k"]
      read_enc_field [of k _ "enc_field (as_bytes i) @ enc_field c" "[]"]
    by (simp add: push_field_eq packet_ids parse_cert_push_def add.assoc)
next
  assume wf: "contract_wf (SyncSslCertificatesRequest ids)"
  then show "parse (contract_body (SyncSslCertificatesRequest ids)) = Ok (SyncSslCertificatesRequest ids)"
    using parse_cert_ids_hit [of ids "to_le_bytes 4 (of_nat (length ids) :: u32)"]
    by (simp add: foldl_push_field push_u32_def packet_ids parse_cert_request_def read_u32_eq unat_of_nat)
next
  assume wf: "contract_wf (SyncSslCertificateNotFound i)"
  then show "parse (contract_body (SyncSslCertificateNotFound i)) = Ok (SyncSslCertificateNotFound i)"
    using read_enc_field [of "as_bytes i" _ "[]" "[]"]
    by (simp add: push_field_eq packet_ids parse_cert_not_found_def)
qed

lemma parse_contract_body: "contract_wf c \<Longrightarrow> parse (contract_body c) = Ok (wire_norm c)"
proof (cases c)
  case (UpdatePingTime d)
  then show ?thesis
    by (simp add: packet_ids index_u64_eq from_micros_def as_micros_u64_def unat_of_nat)
qed (use parse_connect_body parse_cert_contracts in
     \<open>auto simp: push_u32_def packet_ids index_u32_eq convert_to_string_def parse_file_contracts
        simp del: contract_body.simps(1,8,9,10,11)\<close>)

section \<open>What the parser accepts, and where it panics\<close>

lemma parse_cert_ids_not_Panic [simp]: "parse_cert_ids payload count offset \<noteq> Panic"
  by (induction payload count offset rule: parse_cert_ids.induct) (auto simp: rust_simps)

lemma parse_cert_ids_Ok:
  "parse_cert_ids payload count offset = Ok ids \<Longrightarrow>
     length ids = count \<and> list_all (\<lambda>id. is_str id \<and> length id < 2 ^ 32) ids"
proof (induction payload count offset arbitrary: ids rule: parse_cert_ids.induct)
  case (1 payload offset)
  then show ?case by simp
next
  case (2 payload count offset)
  then show ?case
    by (fastforce simp: rust_simps dest!: from_utf8_Some read_field_Ok
        dest: arg_cong [where f = length])
qed

lemma convert_to_string_Ok: "convert_to_string payload name = Ok s \<Longrightarrow> is_str s"
  by (auto simp: convert_to_string_def is_str_def as_bytes_def dest: from_utf8_Some split: if_splits)

lemma convert_to_string_not_Panic [simp]: "convert_to_string payload name \<noteq> Panic"
  by (simp add: convert_to_string_def)

lemma parse_cert_Ok_wf:
  "parse_cert_not_found payload = Ok c \<Longrightarrow> contract_wf c"
  "parse_cert_request payload = Ok c \<Longrightarrow> contract_wf c"
  "parse_cert_push payload = Ok c \<Longrightarrow> contract_wf c"
  by (fastforce simp: parse_cert_not_found_def parse_cert_request_def parse_cert_push_def rust_simps
      dest!: from_utf8_Some read_field_Ok parse_cert_ids_Ok dest: arg_cong [where f = length])+

lemma parse_Ok_wf: "parse body = Ok c \<Longrightarrow> contract_wf c"
  by (cases body)
     (auto simp: rust_simps parse_connect_def parse_file_response_def
       dest: parse_cert_Ok_wf convert_to_string_Ok split: if_splits)

text \<open>The shortest payload each packet type indexes without a check.\<close>

definition min_payload :: "u8 \<Rightarrow> nat" where
  "min_payload t =
     (if t \<in> {CONNECT_PACKET_ID, GET_FILE_RESPONSE_PACKET_ID} then 5
      else if t \<in> {CONNECT_OK_PACKET_ID, CONNECTION_ERROR_PACKET_ID, SEND_PAYLOAD_PACKET_ID,
                    RECEIVE_PAYLOAD_PACKET_ID, GET_FILE_REQUEST_PACKET_ID} then 4
      else if t = UPDATE_PING_TIME_PACKET_ID then 8
      else 0)"

lemma parse_parts_Panic:
  "parse_cert_not_found payload \<noteq> Panic"
  "parse_cert_request payload \<noteq> Panic"
  "parse_cert_push payload \<noteq> Panic"
  "parse_connect payload = Panic \<longleftrightarrow> length payload < 5"
  "parse_file_response payload = Panic \<longleftrightarrow> length payload < 5"
  by (auto simp: parse_cert_not_found_def parse_cert_request_def parse_cert_push_def rust_simps read_u32_eq
      parse_connect_def parse_file_response_def index_u32_eq idx_def slice_from_def split: if_splits)

lemma parse_Cons_Panic: "parse (t # payload) = Panic \<longleftrightarrow> length payload < min_payload t"
  by (simp add: rust_simps parse_parts_Panic index_u32_eq index_u64_eq min_payload_def packet_ids)

lemma contract_body_head:
  "\<exists>t payload. contract_body c = t # payload \<and> t \<noteq> COMPRESSED_BATCH_PACKET_ID"
  by (cases c) (auto simp: push_u32_def push_field_eq foldl_append_concat packet_ids)

section \<open>Properties\<close>

text \<open>
  C19. A well-formed contract survives the wire: the frame \<open>to_plain_frame\<close> builds carries its
  own body length as a little-endian \<open>u32\<close>, and parsing the body gives back the contract up
  to the precision of the two duration fields (whole seconds modulo 256 for the connect
  timeout, whole microseconds for the ping time).
\<close>

theorem contract_roundtrip:
  assumes "contract_wf c" and "length (contract_body c) < 2 ^ 32"
  shows "unat (from_le_bytes (take 4 (to_plain_frame c)) :: u32) = length (contract_body c) \<and>
    parse (drop 4 (to_plain_frame c)) = Ok (wire_norm c)"
  using assms parse_contract_body by (simp add: to_plain_frame_def Let_def unat_of_nat)

theorem contract_roundtrip_witness:
  "parse (drop 4 (to_plain_frame (Connect 7 (5 * 10 ^ 9) ''db:5432''))) = Ok (Connect 7 (5 * 10 ^ 9) ''db:5432'')"
proof -
  let ?c = "Connect 7 (5 * 10 ^ 9) ''db:5432''"
  have "contract_wf ?c" by (simp add: is_str_def as_bytes_def)
  moreover have "length (contract_body ?c) < 2 ^ 32" by (simp add: push_u32_def)
  ultimately show ?thesis using contract_roundtrip [of ?c] by simp
qed

text \<open>
  C38. Whatever bytes arrive, a contract the parser returns satisfies the invariants of the
  Rust types: every string field is well-formed UTF-8 and every length-prefixed field has a
  length below 2^32, so it can be serialised again and parsed back unchanged up to the wire
  precision.
\<close>

theorem parse_sound:
  assumes "parse body = Ok c"
  shows "contract_wf c \<and> parse (contract_body c) = Ok (wire_norm c)"
  using parse_Ok_wf [OF assms] parse_contract_body by blast

theorem parse_sound_witness:
  "contract_wf (ForwardPayload 1 [9, 9]) \<and>
   parse (contract_body (ForwardPayload 1 [9, 9])) = Ok (wire_norm (ForwardPayload 1 [9, 9]))"
proof (rule parse_sound)
  show "parse [6, 1, 0, 0, 0, 9, 9] = Ok (ForwardPayload 1 [9, 9])"
    by (simp add: packet_ids index_u32_eq)
qed

text \<open>
  The parser panics (indexes out of range, taking its task down) exactly on the bodies
  whose payload is shorter than the fixed fields of their packet type; on every other body,
  however malformed, it returns a contract or an error value.
\<close>

theorem parse_panic_iff:
  "parse body = Panic \<longleftrightarrow> (\<exists>t payload. body = t # payload \<and> length payload < min_payload t)"
  by (cases body) (simp_all add: parse_Cons_Panic del: parse.simps(2))

end
