(* ===== verification/Gateway_Wire.thy ===== *)
theory Gateway_Wire
  imports Gateway_Contract
begin

text \<open>
  The wire layer of a gateway session: \<open>encrypt_frame\<close>
  (\<open>src/src/tcp_gateway/gateway_contracts.rs\<close>), the flush-time encoders of
  \<open>src/src/tcp_gateway/session/write_loop.rs\<close> and the unpacking of a compressed batch in
  \<open>src/src/tcp_gateway/gateway_read_loop.rs\<close>. The AES cipher and zstd are code outside the
  repository: they are the arguments \<open>aes\<close>, \<open>zstd_encode\<close> and \<open>zstd_decode\<close>. The packet
  handler is the trait object of the source, a state transformer, and its contract is the
  locale \<open>packet_handler\<close>.
\<close>

section \<open>Encoders\<close>

definition encrypt_frame :: "(bytes \<Rightarrow> bytes) \<Rightarrow> bytes \<Rightarrow> bytes" where
  "encrypt_frame aes body =
     (let encrypted = aes body
      in to_le_bytes 4 (of_nat (length encrypted) :: u32) @ encrypted)"

text \<open>The 32-bit length at \<open>offset\<close>, read under the guard \<open>offset + 4 \<le> len\<close>.\<close>

definition len_at :: "bytes \<Rightarrow> nat \<Rightarrow> nat" where
  "len_at data offset = unat (from_le_bytes (take 4 (drop offset data)) :: u32)"

function individual_loop :: "(bytes \<Rightarrow> bytes) \<Rightarrow> bytes \<Rightarrow> nat \<Rightarrow> bytes \<Rightarrow> bytes" where
  "individual_loop aes plaintext offset out =
     (if offset + 4 \<le> length plaintext then
        let inner_len = len_at plaintext offset; offset = offset + 4 in
        if offset + inner_len > length plaintext then out
        else
          let body = take inner_len (drop offset plaintext)
          in individual_loop aes plaintext (offset + inner_len) (out @ encrypt_frame aes body)
      else out)"
  by pat_completeness auto
termination
  by (relation "measure (\<lambda>(aes, plaintext, offset, out). length plaintext - offset)") auto

declare individual_loop.simps [simp del]

definition encode_individual_frames :: "(bytes \<Rightarrow> bytes) \<Rightarrow> bytes \<Rightarrow> bytes" where
  "encode_individual_frames aes plaintext = individual_loop aes plaintext 0 []"

definition encode_compressed_batch ::
  "(bytes \<Rightarrow> bytes option) \<Rightarrow> (bytes \<Rightarrow> bytes) \<Rightarrow> bytes \<Rightarrow> bytes" where
  "encode_compressed_batch zstd_encode aes plaintext =
     (case zstd_encode plaintext of
        None \<Rightarrow> encode_individual_frames aes plaintext
      | Some compressed \<Rightarrow>
          encrypt_frame aes ([COMPRESSED_BATCH_PACKET_ID, COMPRESSION_ALGO_ZSTD] @ compressed))"

definition build_wire ::
  "(bytes \<Rightarrow> bytes option) \<Rightarrow> (bytes \<Rightarrow> bytes) \<Rightarrow> bool \<Rightarrow> bytes \<Rightarrow> bytes" where
  "build_wire zstd_encode aes compress_outbound plaintext =
     (if compress_outbound then encode_compressed_batch zstd_encode aes plaintext
      else encode_individual_frames aes plaintext)"

section \<open>Unpacking a compressed batch\<close>

definition MAX_PAYLOAD_SIZE :: nat where "MAX_PAYLOAD_SIZE = 1024 * 1024 * 5"
definition MAX_DECOMPRESSED_BATCH_SIZE :: nat where
  "MAX_DECOMPRESSED_BATCH_SIZE = 16 * 1024 * 1024"

datatype batch_error =
    MissingAlgo
  | UnknownAlgo u8
  | DecompressFailed
  | DecompressedTooLarge nat
  | TruncatedInnerFrame
  | EmptyInnerFrame
  | NestedBatch
  | InnerParseFailed contract_error
  | HandlerFailed string
  | TrailingBytes

type_synonym 's handler = "TcpGatewayContract \<Rightarrow> 's \<Rightarrow> (string, unit) outcome \<times> 's"

fun dispatch_inner :: "'s handler \<Rightarrow> bytes \<Rightarrow> 's \<Rightarrow> (batch_error, unit) outcome \<times> 's" where
  "dispatch_inner handle [] s = (Err EmptyInnerFrame, s)"
| "dispatch_inner handle (t # payload) s =
     (if t = COMPRESSED_BATCH_PACKET_ID then (Err NestedBatch, s)
      else case parse (t # payload) of
        Panic \<Rightarrow> (Panic, s)
      | Err e \<Rightarrow> (Err (InnerParseFailed e), s)
      | Ok packet \<Rightarrow> (case handle packet s of (r, s') \<Rightarrow> (map_err HandlerFailed r, s')))"

function batch_loop :: "'s handler \<Rightarrow> bytes \<Rightarrow> nat \<Rightarrow> 's \<Rightarrow> (batch_error, unit) outcome \<times> 's" where
  "batch_loop handle decompressed offset s =
     (if offset + 4 \<le> length decompressed then
        let inner_len = len_at decompressed offset; offset = offset + 4 in
        if offset + inner_len > length decompressed then (Err TruncatedInnerFrame, s)
        else
          case dispatch_inner handle (take inner_len (drop offset decompressed)) s of
            (Ok _, s') \<Rightarrow> batch_loop handle decompressed (offset + inner_len) s'
          | (Err e, s') \<Rightarrow> (Err e, s')
          | (Panic, s') \<Rightarrow> (Panic, s')
      else if offset \<noteq> length decompressed then (Err TrailingBytes, s)
      else (Ok (), s))"
  by pat_completeness auto
termination
  by (relation "measure (\<lambda>(handle, decompressed, offset, s). length decompressed - offset)") auto

declare batch_loop.simps [simp del]

definition handle_compressed_batch ::
  "(bytes \<Rightarrow> bytes option) \<Rightarrow> 's handler \<Rightarrow> bytes \<Rightarrow> 's \<Rightarrow> (batch_error, unit) outcome \<times> 's" where
  "handle_compressed_batch zstd_decode handle decrypted s =
     (if length decrypted < 2 then (Err MissingAlgo, s)
      else
        let algo = decrypted ! 1 in
        if algo \<noteq> COMPRESSION_ALGO_ZSTD then (Err (UnknownAlgo algo), s)
        else case zstd_decode (drop 2 decrypted) of
          None \<Rightarrow> (Err DecompressFailed, s)
        | Some decompressed \<Rightarrow>
            if length decompressed > MAX_DECOMPRESSED_BATCH_SIZE
            then (Err (DecompressedTooLarge (length decompressed)), s)
            else batch_loop handle decompressed 0 s)"

section \<open>Frames in sequence\<close>

text \<open>The accumulator of the writer after queueing the contracts \<open>cs\<close>, and the handler run over them.\<close>

definition plain_frames :: "TcpGatewayContract list \<Rightarrow> bytes" where
  "plain_frames cs = concat (map to_plain_frame cs)"

definition handle_all :: "'s handler \<Rightarrow> TcpGatewayContract list \<Rightarrow> 's \<Rightarrow> 's" where
  "handle_all handle cs s = fold (\<lambda>c s. snd (handle c s)) cs s"

definition sendable :: "TcpGatewayContract \<Rightarrow> bool" where
  "sendable c \<longleftrightarrow> contract_wf c \<and> length (contract_body c) < 2 ^ 32"

lemma sendable_len [dest]: "sendable c \<Longrightarrow> length (contract_body c) < 2 ^ 32"
  by (simp add: sendable_def)

lemma plain_frames_simps [simp]:
  "plain_frames [] = []" "plain_frames (c # cs) = to_plain_frame c @ plain_frames cs"
  "plain_frames (cs @ ds) = plain_frames cs @ plain_frames ds"
  by (simp_all add: plain_frames_def)

lemma handle_all_simps [simp]:
  "handle_all handle [] s = s"
  "handle_all handle (c # cs) s = handle_all handle cs (snd (handle c s))"
  by (simp_all add: handle_all_def)

text \<open>At a frame boundary the reader finds exactly the frame that was written there.\<close>

lemma frame_at_boundary:
  assumes "length (contract_body c) < 2 ^ 32"
  shows "len_at (pre @ to_plain_frame c @ rest) (length pre) = length (contract_body c)"
    and "take (length (contract_body c)) (drop (length pre + 4) (pre @ to_plain_frame c @ rest)) = contract_body c"
    and "length (to_plain_frame c) = 4 + length (contract_body c)"
  using assms by (simp_all add: len_at_def to_plain_frame_def Let_def unat_of_nat)

lemma individual_loop_frames:
  "list_all sendable cs \<Longrightarrow>
     individual_loop aes (pre @ plain_frames cs) (length pre) out =
       out @ concat (map (\<lambda>c. encrypt_frame aes (contract_body c)) cs)"
proof (induction cs arbitrary: pre out)
  case Nil
  then show ?case by (simp add: individual_loop.simps)
next
  case (Cons c cs)
  then have len: "length (contract_body c) < 2 ^ 32" and tl: "list_all sendable cs"
    using sendable_len by auto
  note fb = frame_at_boundary(1,2) [OF len, of pre "plain_frames cs"] frame_at_boundary(3) [OF len]
  have "individual_loop aes ((pre @ to_plain_frame c) @ plain_frames cs) (length (pre @ to_plain_frame c)) out' =
      out' @ concat (map (\<lambda>c. encrypt_frame aes (contract_body c)) cs)" for out'
    by (rule Cons.IH [OF tl])
  with fb show ?case
    by (subst individual_loop.simps) (simp add: Let_def add.assoc)
qed

lemma encode_individual_frames_plain:
  "list_all sendable cs \<Longrightarrow>
     encode_individual_frames aes (plain_frames cs) = concat (map (\<lambda>c. encrypt_frame aes (contract_body c)) cs)"
  using individual_loop_frames [of cs aes "[]" "[]"] by (simp add: encode_individual_frames_def)

section \<open>The packet handler contract\<close>

text \<open>
  What the read loop relies on of a \<open>TcpGatewayPacketHandler\<close>: handling a packet ends with
  \<open>Ok(())\<close>, so that no packet makes the loop drop the session.
\<close>

locale packet_handler =
  fixes handle :: "'s handler"
  assumes handle_Ok: "fst (handle c s) = Ok ()"
begin

lemma handle_eq: "handle c s = (Ok (), snd (handle c s))"
  by (metis handle_Ok prod.collapse)

lemma dispatch_inner_body:
  "sendable c \<Longrightarrow> dispatch_inner handle (contract_body c) s = (Ok (), snd (handle (wire_norm c) s))"
  using contract_body_head [of c] parse_contract_body [of c] handle_Ok [of "wire_norm c" s]
  by (auto simp: sendable_def simp del: parse.simps split: prod.splits)

lemma batch_loop_frames:
  "list_all sendable cs \<Longrightarrow>
     batch_loop handle (pre @ plain_frames cs) (length pre) s = (Ok (), handle_all handle (map wire_norm cs) s)"
proof (induction cs arbitrary: pre s)
  case Nil
  then show ?case by (simp add: batch_loop.simps)
next
  case (Cons c cs)
  then have c: "sendable c" and len: "length (contract_body c) < 2 ^ 32" and tl: "list_all sendable cs"
    using sendable_len by auto
  note fb = frame_at_boundary(1,2) [OF len, of pre "plain_frames cs"] frame_at_boundary(3) [OF len]
  have "batch_loop handle ((pre @ to_plain_frame c) @ plain_frames cs) (length (pre @ to_plain_frame c)) s' =
      (Ok (), handle_all handle (map wire_norm cs) s')" for s'
    by (rule Cons.IH [OF tl])
  with fb dispatch_inner_body [OF c] show ?case
    by (subst batch_loop.simps) (simp add: Let_def add.assoc)
qed

lemma compressed_batch_delivers:
  assumes "list_all sendable cs" and "zstd_decode compressed = Some (plain_frames cs)"
    and "length (plain_frames cs) \<le> MAX_DECOMPRESSED_BATCH_SIZE"
  shows "handle_compressed_batch zstd_decode handle
      ([COMPRESSED_BATCH_PACKET_ID, COMPRESSION_ALGO_ZSTD] @ compressed) s =
    (Ok (), handle_all handle (map wire_norm cs) s)"
  using assms batch_loop_frames [of cs "[]" s]
  by (simp add: handle_compressed_batch_def)

end

end
