(* ===== verification/Gateway_Connection.thy ===== *)
theory Gateway_Connection
  imports Gateway_Wire
begin

text \<open>
  The state of one gateway connection and its operations:
  \<open>tcp_connection_inner/inner.rs\<close>, \<open>tcp_gateway_connection/file_requests.rs\<close>,
  \<open>tcp_gateway_connection/tcp_gateway_connection.rs\<close>,
  \<open>forwarded_connection/proxy_connection/*.rs\<close> and \<open>scripts/*.rs\<close> under
  \<open>src/src/tcp_gateway\<close>. Objects the source shares through an \<open>Arc\<close> after they left a map
  (receive buffers, writer wrappers of forwarded sockets) live in stores of the connection
  record and are named by an address. A spawned task is an entry of \<open>gc_tasks\<close>; its body is
  a definition of its own. Arithmetic on counters wraps, as it does in a release build.
\<close>

section \<open>Channel-backed writer: TcpConnectionInner\<close>

text \<open>
  \<open>ci_sender\<close> is the content of the bounded channel, \<open>None\<close> once the sender was taken;
  \<open>ci_receiver\<close> says whether the writer task still holds the receiver.
\<close>

record conn_inner =
  ci_sender :: "bytes list option"
  ci_connected :: bool
  ci_receiver :: bool

definition WRITE_CHANNEL_CAPACITY :: nat where "WRITE_CHANNEL_CAPACITY = 1024"

definition new_inner :: conn_inner where
  "new_inner = \<lparr>ci_sender = Some [], ci_connected = True, ci_receiver = True\<rparr>"

definition inner_send_payload :: "bytes \<Rightarrow> conn_inner \<Rightarrow> bool \<times> conn_inner" where
  "inner_send_payload payload c =
     (if \<not> ci_connected c then (False, c)
      else case ci_sender c of
        None \<Rightarrow> (False, c)
      | Some queue \<Rightarrow>
          if ci_receiver c \<and> length queue < WRITE_CHANNEL_CAPACITY
          then (True, c\<lparr>ci_sender := Some (queue @ [payload])\<rparr>)
          else (False, c))"

definition inner_disconnect :: "conn_inner \<Rightarrow> bool \<times> conn_inner" where
  "inner_disconnect c = (ci_connected c, c\<lparr>ci_connected := False, ci_sender := None\<rparr>)"

section \<open>Receive buffer of a proxied connection\<close>

record awaiting_content =
  ac_buffer :: bytes
  ac_awaiter :: bool
  ac_disconnected :: bool

definition new_receive_buffer :: awaiting_content where
  "new_receive_buffer = \<lparr>ac_buffer = [], ac_awaiter = False, ac_disconnected = False\<rparr>"

datatype get_data_result = GetErr | GetOk bytes | GetWait

text \<open>One turn of the loop of \<open>get_data\<close>, under the lock; \<open>GetWait\<close> is awaiting the next event.\<close>

definition get_data :: "nat \<Rightarrow> awaiting_content \<Rightarrow> get_data_result \<times> awaiting_content" where
  "get_data out_len b =
     (if ac_disconnected b then (GetErr, b)
      else if 0 < length (ac_buffer b) then
        (if length (ac_buffer b) > out_len
         then (GetOk (take out_len (ac_buffer b)), b\<lparr>ac_buffer := drop out_len (ac_buffer b)\<rparr>)
         else (GetOk (ac_buffer b), b\<lparr>ac_buffer := []\<rparr>))
      else (GetWait, b\<lparr>ac_awaiter := True\<rparr>))"

definition buffer_extend :: "bytes \<Rightarrow> awaiting_content \<Rightarrow> awaiting_content" where
  "buffer_extend payload b = b\<lparr>ac_buffer := ac_buffer b @ payload, ac_awaiter := False\<rparr>"

definition buffer_disconnect :: "awaiting_content \<Rightarrow> bool \<times> awaiting_content" where
  "buffer_disconnect b =
     (if ac_disconnected b then (False, b)
      else (True, b\<lparr>ac_disconnected := True, ac_awaiter := False\<rparr>))"

section \<open>File requests\<close>

datatype FileRequestError = FileNotFound | GatewayDisconnected

text \<open>
  The calls made on the task completions, in order; a completion is named by a token that is
  fresh for every request. \<open>Dropped\<close> is a completion dropped because its map entry was
  replaced.
\<close>

datatype completion_event = TrySetOk nat bytes | TrySetError nat FileRequestError | Dropped nat

record file_requests =
  fr_requests :: "u32 \<rightharpoonup> nat"
  fr_next_request_id :: u32
  fr_next_token :: nat
  fr_events :: "completion_event list"

definition new_file_requests :: file_requests where
  "new_file_requests = \<lparr>fr_requests = Map.empty, fr_next_request_id = 0, fr_next_token = 0, fr_events = []\<rparr>"

definition start_request :: "file_requests \<Rightarrow> (nat \<times> u32) \<times> file_requests" where
  "start_request f =
     (let token = fr_next_token f;
          request_id = fr_next_request_id f + 1;
          dropped = (case fr_requests f request_id of None \<Rightarrow> [] | Some t \<Rightarrow> [Dropped t])
      in ((token, request_id),
          f\<lparr>fr_next_token := Suc token, fr_next_request_id := request_id,
            fr_requests := (fr_requests f)(request_id \<mapsto> token),
            fr_events := fr_events f @ dropped\<rparr>))"

definition set_content :: "u32 \<Rightarrow> bytes \<Rightarrow> file_requests \<Rightarrow> file_requests" where
  "set_content request_id content f =
     (case fr_requests f request_id of
        None \<Rightarrow> f
      | Some t \<Rightarrow> f\<lparr>fr_requests := (fr_requests f)(request_id := None),
                     fr_events := fr_events f @ [TrySetOk t content]\<rparr>)"

definition set_error :: "u32 \<Rightarrow> FileRequestError \<Rightarrow> file_requests \<Rightarrow> file_requests" where
  "set_error request_id error f =
     (case fr_requests f request_id of
        None \<Rightarrow> f
      | Some t \<Rightarrow> f\<lparr>fr_requests := (fr_requests f)(request_id := None),
                     fr_events := fr_events f @ [TrySetError t error]\<rparr>)"

section \<open>The connection\<close>

datatype proxy_status = AcknowledgingConnection | ProxyConnected | ProxyDisconnected string

record proxy_handler =
  ph_status :: proxy_status
  ph_connection_id :: u32
  ph_buffer :: nat
  ph_remote_host :: string

record forward_connection =
  fc_inner :: nat
  fc_remote_endpoint :: string

datatype gateway_task =
    TaskForwardConnect u32 string duration
  | TaskServeFile u32 string
  | TaskReplySslSync "string list"
  | TaskRemoveProxyHandler u32

record gateway_connection =
  gc_gateway_id :: string
  gc_inner :: conn_inner
  gc_last_incoming :: i64
  gc_forward :: "u32 \<rightharpoonup> forward_connection"
  gc_fwd_inners :: "nat \<rightharpoonup> conn_inner"
  gc_next_inner :: nat
  gc_proxy :: "u32 \<rightharpoonup> proxy_handler"
  gc_buffers :: "nat \<rightharpoonup> awaiting_content"
  gc_next_buffer :: nat
  gc_allow_incoming :: bool
  gc_last_ping :: duration
  gc_files :: file_requests
  gc_in_per_second :: u64
  gc_out_per_second :: u64
  gc_timestamp :: i64
  gc_tasks :: "gateway_task list"

definition new_connection :: "bool \<Rightarrow> i64 \<Rightarrow> gateway_connection" where
  "new_connection allow now =
     \<lparr>gc_gateway_id = [], gc_inner = new_inner, gc_last_incoming = now,
      gc_forward = Map.empty, gc_fwd_inners = Map.empty, gc_next_inner = 0,
      gc_proxy = Map.empty, gc_buffers = Map.empty, gc_next_buffer = 0,
      gc_allow_incoming = allow, gc_last_ping = 0, gc_files = new_file_requests,
      gc_in_per_second = 0, gc_out_per_second = 0, gc_timestamp = 0, gc_tasks = []\<rparr>"

definition has_handshake :: "gateway_connection \<Rightarrow> bool" where
  "has_handshake g \<longleftrightarrow> sint (gc_timestamp g) > 0"

definition set_connection_timestamp :: "i64 \<Rightarrow> gateway_connection \<Rightarrow> gateway_connection" where
  "set_connection_timestamp value g = g\<lparr>gc_timestamp := value\<rparr>"

definition set_gateway_id :: "string \<Rightarrow> gateway_connection \<Rightarrow> gateway_connection" where
  "set_gateway_id gateway_id g = g\<lparr>gc_gateway_id := gateway_id\<rparr>"

definition spawn_task :: "gateway_task \<Rightarrow> gateway_connection \<Rightarrow> gateway_connection" where
  "spawn_task t g = g\<lparr>gc_tasks := gc_tasks g @ [t]\<rparr>"

definition send_payload :: "TcpGatewayContract \<Rightarrow> gateway_connection \<Rightarrow> bool \<times> gateway_connection" where
  "send_payload contract g =
     (let vec = to_plain_frame contract in
      case inner_send_payload vec (gc_inner g) of
        (True, inner) \<Rightarrow>
          (True, g\<lparr>gc_inner := inner, gc_out_per_second := gc_out_per_second g + of_nat (length vec)\<rparr>)
      | (False, inner) \<Rightarrow> (False, g\<lparr>gc_inner := inner\<rparr>))"

definition disconnect_gateway :: "gateway_connection \<Rightarrow> gateway_connection" where
  "disconnect_gateway g = g\<lparr>gc_inner := snd (inner_disconnect (gc_inner g))\<rparr>"

definition add_forward_connection :: "u32 \<Rightarrow> forward_connection \<Rightarrow> gateway_connection \<Rightarrow> gateway_connection" where
  "add_forward_connection connection_id fc g = g\<lparr>gc_forward := (gc_forward g)(connection_id \<mapsto> fc)\<rparr>"

definition has_forward_connection :: "u32 \<Rightarrow> gateway_connection \<Rightarrow> bool" where
  "has_forward_connection connection_id g \<longleftrightarrow> gc_forward g connection_id \<noteq> None"

definition remove_forward_connection ::
  "u32 \<Rightarrow> gateway_connection \<Rightarrow> forward_connection option \<times> gateway_connection" where
  "remove_forward_connection connection_id g =
     (gc_forward g connection_id, g\<lparr>gc_forward := (gc_forward g)(connection_id := None)\<rparr>)"

definition update_buffer :: "nat \<Rightarrow> (awaiting_content \<Rightarrow> awaiting_content) \<Rightarrow> gateway_connection \<Rightarrow> gateway_connection" where
  "update_buffer addr f g = g\<lparr>gc_buffers := (gc_buffers g)(addr := map_option f (gc_buffers g addr))\<rparr>"

definition update_fwd_inner :: "nat \<Rightarrow> (conn_inner \<Rightarrow> conn_inner) \<Rightarrow> gateway_connection \<Rightarrow> gateway_connection" where
  "update_fwd_inner addr f g =
     g\<lparr>gc_fwd_inners := (gc_fwd_inners g)(addr := map_option f (gc_fwd_inners g addr))\<rparr>"

section \<open>Proxied connections\<close>

definition set_connected :: "proxy_handler \<Rightarrow> proxy_handler" where
  "set_connected h = (if ph_status h = AcknowledgingConnection then h\<lparr>ph_status := ProxyConnected\<rparr> else h)"

definition set_connection_error :: "string \<Rightarrow> proxy_handler \<Rightarrow> proxy_handler" where
  "set_connection_error error h =
     (case ph_status h of
        AcknowledgingConnection \<Rightarrow> h\<lparr>ph_status := ProxyDisconnected error\<rparr>
      | ProxyConnected \<Rightarrow> h\<lparr>ph_status := ProxyDisconnected error\<rparr>
      | ProxyDisconnected _ \<Rightarrow> h)"

datatype connect_error = NoHandshake | EndpointLost | GatewayLost | SomehowClosed | Refused string

text \<open>
  \<open>connect_to_forward_proxy_connection\<close> up to the wait for the acknowledgement: register a
  handler with a fresh receive buffer, send the \<open>Connect\<close> packet.
\<close>

definition proxy_connect_start ::
  "u32 \<Rightarrow> duration \<Rightarrow> string \<Rightarrow> gateway_connection \<Rightarrow> (connect_error, unit) outcome \<times> gateway_connection" where
  "proxy_connect_start connection_id timeout remote_host g =
     (if \<not> has_handshake g then (Err NoHandshake, g)
      else
        let addr = gc_next_buffer g;
            h = \<lparr>ph_status = AcknowledgingConnection, ph_connection_id = connection_id,
                 ph_buffer = addr, ph_remote_host = remote_host\<rparr>;
            g1 = g\<lparr>gc_next_buffer := Suc addr, gc_buffers := (gc_buffers g)(addr \<mapsto> new_receive_buffer),
                   gc_proxy := (gc_proxy g)(connection_id \<mapsto> h)\<rparr>
        in case send_payload (Connect connection_id timeout remote_host) g1 of
             (False, g2) \<Rightarrow> (Err EndpointLost, g2)
           | (True, g2) \<Rightarrow> (Ok (), g2))"

text \<open>
  One turn of \<open>ack_connection\<close> (\<open>None\<close>: still acknowledging, sleep and look again); the
  address is the receive buffer of the stream handed out. On an error the caller removes the
  handler.
\<close>

definition ack_poll :: "u32 \<Rightarrow> gateway_connection \<Rightarrow> (connect_error, nat) outcome option" where
  "ack_poll connection_id g =
     (if \<not> ci_connected (gc_inner g) then Some (Err GatewayLost)
      else case gc_proxy g connection_id of
        None \<Rightarrow> Some (Err SomehowClosed)
      | Some h \<Rightarrow>
          (case ph_status h of
             AcknowledgingConnection \<Rightarrow> None
           | ProxyConnected \<Rightarrow> Some (Ok (ph_buffer h))
           | ProxyDisconnected err \<Rightarrow> Some (Err (Refused err))))"

definition proxy_connect_finish ::
  "u32 \<Rightarrow> (connect_error, nat) outcome \<Rightarrow> gateway_connection \<Rightarrow> gateway_connection" where
  "proxy_connect_finish connection_id r g =
     (case r of Ok _ \<Rightarrow> g | _ \<Rightarrow> g\<lparr>gc_proxy := (gc_proxy g)(connection_id := None)\<rparr>)"

definition notify_accepted :: "u32 \<Rightarrow> gateway_connection \<Rightarrow> gateway_connection" where
  "notify_accepted connection_id g =
     g\<lparr>gc_proxy := (gc_proxy g)(connection_id := map_option set_connected (gc_proxy g connection_id))\<rparr>"

definition incoming_payload :: "u32 \<Rightarrow> bytes \<Rightarrow> gateway_connection \<Rightarrow> gateway_connection" where
  "incoming_payload connection_id payload g =
     (case gc_proxy g connection_id of
        None \<Rightarrow> g
      | Some h \<Rightarrow>
          (case ph_status h of
             AcknowledgingConnection \<Rightarrow> g
           | ProxyConnected \<Rightarrow> update_buffer (ph_buffer h) (buffer_extend payload) g
           | ProxyDisconnected _ \<Rightarrow> g))"

definition disconnect_forward_proxy_connection :: "u32 \<Rightarrow> string \<Rightarrow> gateway_connection \<Rightarrow> gateway_connection" where
  "disconnect_forward_proxy_connection connection_id message g =
     (let g1 =
        (case gc_proxy g connection_id of
           None \<Rightarrow> g
         | Some h \<Rightarrow> update_buffer (ph_buffer (set_connection_error message h)) (snd \<circ> buffer_disconnect)
                      (g\<lparr>gc_proxy := (gc_proxy g)(connection_id := None)\<rparr>))
      in case remove_forward_connection connection_id g1 of
           (None, g2) \<Rightarrow> g2
         | (Some fc, g2) \<Rightarrow> update_fwd_inner (fc_inner fc) (snd \<circ> inner_disconnect) g2)"

text \<open>Methods of the stream the connect hands out (\<open>TcpGatewayProxyForwardStream\<close>).\<close>

definition stream_send_payload :: "u32 \<Rightarrow> bytes \<Rightarrow> gateway_connection \<Rightarrow> bool \<times> gateway_connection" where
  "stream_send_payload connection_id payload g =
     (case inner_send_payload (to_plain_frame (ForwardPayload connection_id payload)) (gc_inner g) of
        (ok, inner) \<Rightarrow> (ok, g\<lparr>gc_inner := inner\<rparr>))"

definition stream_disconnect :: "u32 \<Rightarrow> nat \<Rightarrow> gateway_connection \<Rightarrow> gateway_connection" where
  "stream_disconnect connection_id addr g =
     (case gc_buffers g addr of
        None \<Rightarrow> g
      | Some b \<Rightarrow>
          (case buffer_disconnect b of
             (False, _) \<Rightarrow> g
           | (True, b') \<Rightarrow>
               let g1 = g\<lparr>gc_buffers := (gc_buffers g)(addr \<mapsto> b')\<rparr>;
                   g2 = g1\<lparr>gc_inner :=
                     snd (inner_send_payload (to_plain_frame (ConnectionError connection_id [])) (gc_inner g1))\<rparr>
               in spawn_task (TaskRemoveProxyHandler connection_id) g2))"

section \<open>Files and pings\<close>

definition request_file ::
  "string \<Rightarrow> gateway_connection \<Rightarrow> (FileRequestError + nat) \<times> gateway_connection" where
  "request_file path g =
     (if \<not> has_handshake g then (Inl GatewayDisconnected, g)
      else case start_request (gc_files g) of
        ((token, request_id), files) \<Rightarrow>
          (Inr token, snd (send_payload (GetFileRequest path request_id) (g\<lparr>gc_files := files\<rparr>))))"

definition notify_file_response :: "u32 \<Rightarrow> GetFileStatus \<Rightarrow> bytes \<Rightarrow> gateway_connection \<Rightarrow> gateway_connection" where
  "notify_file_response request_id status content g =
     g\<lparr>gc_files := (case status of
        StatusOk \<Rightarrow> set_content request_id content (gc_files g)
      | StatusError \<Rightarrow> set_error request_id FileNotFound (gc_files g))\<rparr>"

section \<open>Scripts\<close>

definition send_connection_error :: "u32 \<Rightarrow> string \<Rightarrow> bool \<Rightarrow> gateway_connection \<Rightarrow> gateway_connection" where
  "send_connection_error connection_id err send_force g =
     (case remove_forward_connection connection_id g of
        (removed, g1) \<Rightarrow>
          if send_force \<or> removed \<noteq> None
          then snd (send_payload (ConnectionError connection_id err) g1)
          else g1)"

definition forward_payload :: "u32 \<Rightarrow> bytes \<Rightarrow> gateway_connection \<Rightarrow> gateway_connection" where
  "forward_payload connection_id payload g =
     (case gc_forward g connection_id of
        None \<Rightarrow> g
      | Some fc \<Rightarrow>
          (case gc_fwd_inners g (fc_inner fc) of
             None \<Rightarrow> g
           | Some inner \<Rightarrow>
               (case inner_send_payload payload inner of
                  (True, inner') \<Rightarrow> g\<lparr>gc_fwd_inners := (gc_fwd_inners g)(fc_inner fc \<mapsto> inner')\<rparr>
                | (False, inner') \<Rightarrow>
                    send_connection_error connection_id ''Disconnected'' False
                      (g\<lparr>gc_fwd_inners := (gc_fwd_inners g)(fc_inner fc \<mapsto> snd (inner_disconnect inner'))\<rparr>))))"

text \<open>\<open>handle_forward_connect\<close>; \<open>connect_result\<close> is what connecting the socket gave.\<close>

definition handle_forward_connect ::
  "u32 \<Rightarrow> string \<Rightarrow> (string + unit) \<Rightarrow> string \<Rightarrow> gateway_connection \<Rightarrow> gateway_connection" where
  "handle_forward_connect connection_id remote_host connect_result already_err g =
     (if has_forward_connection connection_id g
      then send_connection_error connection_id already_err True g
      else case connect_result of
        Inr _ \<Rightarrow>
          let addr = gc_next_inner g;
              g1 = g\<lparr>gc_next_inner := Suc addr, gc_fwd_inners := (gc_fwd_inners g)(addr \<mapsto> new_inner)\<rparr>;
              g2 = snd (send_payload (Connected connection_id) g1)
          in add_forward_connection connection_id \<lparr>fc_inner = addr, fc_remote_endpoint = remote_host\<rparr> g2
      | Inl err \<Rightarrow> send_connection_error connection_id err True g)"

definition send_backward_payload :: "u32 \<Rightarrow> bytes \<Rightarrow> gateway_connection \<Rightarrow> gateway_connection" where
  "send_backward_payload connection_id payload g =
     (if has_forward_connection connection_id g
      then snd (send_payload (BackwardPayload connection_id payload) g) else g)"

text \<open>One turn of the read loop of a forwarded connection: \<open>Inl\<close> is an io error, an empty read the end of the stream; the flag says whether the loop goes on.\<close>

definition forwarded_read_step ::
  "u32 \<Rightarrow> nat \<Rightarrow> (string + bytes) \<Rightarrow> string \<Rightarrow> gateway_connection \<Rightarrow> bool \<times> gateway_connection" where
  "forwarded_read_step connection_id addr read_result eof_err g =
     (case read_result of
        Inl err \<Rightarrow>
          (False, send_connection_error connection_id err False (update_fwd_inner addr (snd \<circ> inner_disconnect) g))
      | Inr buffer \<Rightarrow>
          if buffer = [] then (False, send_connection_error connection_id eof_err False g)
          else (True, send_backward_payload connection_id buffer g))"

definition serve_file :: "u32 \<Rightarrow> bytes option \<Rightarrow> gateway_connection \<Rightarrow> gateway_connection" where
  "serve_file request_id file_content g =
     snd (send_payload
       (case file_content of
          Some content \<Rightarrow> GetFileResponse request_id StatusOk content
        | None \<Rightarrow> GetFileResponse request_id StatusError []) g)"

end
