(* ===== verification/Gateway_Handlers.thy ===== *)
theory Gateway_Handlers
  imports Gateway_Connection
begin

text \<open>
  The two packet handlers (\<open>server/server_packet_handler.rs\<close>,
  \<open>client/client_packet_handler.rs\<close>), the certificate cache they touch
  (\<open>src/src/ssl/ssl_certificates_cache.rs\<close>), the task that answers a certificate sync
  request, and the read loop (\<open>gateway_read_loop.rs\<close>) that feeds a handler from the byte
  stream of the peer. Loading a certificate (\<open>SslCertificate::new\<close>, rustls) is the argument
  \<open>ssl_new\<close>; the stop watch reading a \<open>Pong\<close> takes is the argument \<open>ping_elapsed\<close>.
\<close>

section \<open>Certificate cache\<close>

text \<open>The two sources of \<open>LocalSource\<close> are settings of the ssh crate, kept as their text.\<close>

datatype SslCertificateOrigin = LocalSource string string | GatewayPushed string | ManuallyProvided

record 'cert cert_holder =
  ch_ssl_cert :: 'cert
  ch_origin :: SslCertificateOrigin
  ch_cert_pem :: bytes
  ch_private_key_pem :: bytes

type_synonym 'cert cert_cache = "string \<rightharpoonup> 'cert cert_holder"

definition cache_add_or_update ::
  "string \<Rightarrow> 'cert \<Rightarrow> SslCertificateOrigin \<Rightarrow> bytes \<Rightarrow> bytes \<Rightarrow> 'cert cert_cache \<Rightarrow> 'cert cert_cache" where
  "cache_add_or_update cert_id ssl_cert origin cert_pem private_key_pem cache =
     cache(cert_id \<mapsto> \<lparr>ch_ssl_cert = ssl_cert, ch_origin = origin, ch_cert_pem = cert_pem,
                        ch_private_key_pem = private_key_pem\<rparr>)"

definition cache_remove :: "string \<Rightarrow> 'cert cert_cache \<Rightarrow> 'cert cert_holder option \<times> 'cert cert_cache" where
  "cache_remove cert_id cache = (cache cert_id, cache(cert_id := None))"

record 'cert gateway_world =
  gw_conn :: gateway_connection
  gw_certs :: "'cert cert_cache"

definition on_conn ::
  "(gateway_connection \<Rightarrow> gateway_connection) \<Rightarrow> 'cert gateway_world \<Rightarrow> 'cert gateway_world" where
  "on_conn f w = w\<lparr>gw_conn := f (gw_conn w)\<rparr>"

section \<open>Server handler\<close>

definition set_last_ping :: "duration \<Rightarrow> gateway_connection \<Rightarrow> gateway_connection" where
  "set_last_ping d g = g\<lparr>gc_last_ping := d\<rparr>"

fun server_effect :: "TcpGatewayContract \<Rightarrow> gateway_connection \<Rightarrow> gateway_connection" where
  "server_effect (Connect connection_id timeout remote_host) g =
     spawn_task (TaskForwardConnect connection_id remote_host timeout) g"
| "server_effect (ForwardPayload connection_id payload) g = forward_payload connection_id payload g"
| "server_effect (BackwardPayload connection_id payload) g = incoming_payload connection_id payload g"
| "server_effect Ping g = snd (send_payload Pong g)"
| "server_effect Pong g = g"
| "server_effect (Connected connection_id) g = notify_accepted connection_id g"
| "server_effect (ConnectionError connection_id error) g =
     disconnect_forward_proxy_connection connection_id error g"
| "server_effect (UpdatePingTime d) g = set_last_ping d g"
| "server_effect (GetFileRequest path request_id) g = spawn_task (TaskServeFile request_id path) g"
| "server_effect (GetFileResponse request_id status content) g =
     notify_file_response request_id status content g"
| "server_effect (SyncSslCertificatesRequest cert_ids) g = spawn_task (TaskReplySslSync cert_ids) g"
| "server_effect (SyncSslCertificates _ _ _) g = g"
| "server_effect (SyncSslCertificateNotFound _) g = g"

definition server_handle_packet :: "'cert gateway_world handler" where
  "server_handle_packet contract w = (Ok (), on_conn (server_effect contract) w)"

definition SELF_SIGNED_CERT_NAME :: string where "SELF_SIGNED_CERT_NAME = ''self_signed''"

text \<open>The reply to one certificate id, and the task's loop: it stops at the first frame the channel refuses.\<close>

definition sync_reply :: "'cert cert_cache \<Rightarrow> string \<Rightarrow> TcpGatewayContract" where
  "sync_reply certs cert_id =
     (let holder = (if cert_id = SELF_SIGNED_CERT_NAME then None else certs cert_id) in
      case holder of
        Some h \<Rightarrow> SyncSslCertificates cert_id (ch_cert_pem h) (ch_private_key_pem h)
      | None \<Rightarrow> SyncSslCertificateNotFound cert_id)"

fun reply_sync_ssl_certificates ::
  "'cert cert_cache \<Rightarrow> string list \<Rightarrow> gateway_connection \<Rightarrow> gateway_connection" where
  "reply_sync_ssl_certificates certs [] g = g"
| "reply_sync_ssl_certificates certs (cert_id # ids) g =
     (case send_payload (sync_reply certs cert_id) g of
        (False, g') \<Rightarrow> g'
      | (True, g') \<Rightarrow> reply_sync_ssl_certificates certs ids g')"

section \<open>Client handler\<close>

definition client_not_found :: "string \<Rightarrow> 'cert gateway_world \<Rightarrow> 'cert gateway_world" where
  "client_not_found cert_id w =
     (case gw_certs w cert_id of
        None \<Rightarrow> w
      | Some holder \<Rightarrow>
          (case ch_origin holder of
             GatewayPushed _ \<Rightarrow> w\<lparr>gw_certs := snd (cache_remove cert_id (gw_certs w))\<rparr>
           | _ \<Rightarrow> w))"

definition client_cert_push ::
  "(bytes \<Rightarrow> bytes \<Rightarrow> 'cert option) \<Rightarrow> string \<Rightarrow> bytes \<Rightarrow> bytes \<Rightarrow> 'cert gateway_world \<Rightarrow> 'cert gateway_world" where
  "client_cert_push ssl_new cert_id cert_pem private_key_pem w =
     (case ssl_new private_key_pem cert_pem of
        None \<Rightarrow> w
      | Some ssl_cert \<Rightarrow>
          w\<lparr>gw_certs := cache_add_or_update cert_id ssl_cert (GatewayPushed (gc_gateway_id (gw_conn w)))
                          cert_pem private_key_pem (gw_certs w)\<rparr>)"

definition client_connect :: "u32 \<Rightarrow> duration \<Rightarrow> string \<Rightarrow> gateway_connection \<Rightarrow> gateway_connection" where
  "client_connect connection_id timeout remote_host g =
     (if \<not> gc_allow_incoming g
      then send_connection_error connection_id ''Forward connections are disabled this way to gateway'' True g
      else spawn_task (TaskForwardConnect connection_id remote_host timeout) g)"

fun client_effect :: "duration \<Rightarrow> TcpGatewayContract \<Rightarrow> gateway_connection \<Rightarrow> gateway_connection" where
  "client_effect ping_elapsed (Connect connection_id timeout remote_host) g =
     client_connect connection_id timeout remote_host g"
| "client_effect ping_elapsed (Connected connection_id) g = notify_accepted connection_id g"
| "client_effect ping_elapsed (ConnectionError connection_id error) g =
     disconnect_forward_proxy_connection connection_id error g"
| "client_effect ping_elapsed (ForwardPayload connection_id payload) g = forward_payload connection_id payload g"
| "client_effect ping_elapsed (BackwardPayload connection_id payload) g = incoming_payload connection_id payload g"
| "client_effect ping_elapsed Ping g = g"
| "client_effect ping_elapsed Pong g =
     snd (send_payload (UpdatePingTime ping_elapsed) (set_last_ping ping_elapsed g))"
| "client_effect ping_elapsed (GetFileRequest path request_id) g = spawn_task (TaskServeFile request_id path) g"
| "client_effect ping_elapsed (GetFileResponse request_id status content) g =
     notify_file_response request_id status content g"
| "client_effect ping_elapsed (UpdatePingTime _) g = g"
| "client_effect ping_elapsed (SyncSslCertificatesRequest _) g = g"
| "client_effect ping_elapsed (SyncSslCertificateNotFound _) g = g"
| "client_effect ping_elapsed (SyncSslCertificates _ _ _) g = g"

definition handle_client_packet ::
  "(bytes \<Rightarrow> bytes \<Rightarrow> 'cert option) \<Rightarrow> duration \<Rightarrow> TcpGatewayContract \<Rightarrow> 'cert gateway_world \<Rightarrow> 'cert gateway_world" where
  "handle_client_packet ssl_new ping_elapsed contract w =
     (case contract of
        SyncSslCertificateNotFound cert_id \<Rightarrow> client_not_found cert_id w
      | SyncSslCertificates cert_id cert_pem private_key_pem \<Rightarrow>
          client_cert_push ssl_new cert_id cert_pem private_key_pem w
      | _ \<Rightarrow> on_conn (client_effect ping_elapsed contract) w)"

definition client_handle_packet ::
  "(bytes \<Rightarrow> bytes \<Rightarrow> 'cert option) \<Rightarrow> duration \<Rightarrow> 'cert gateway_world handler" where
  "client_handle_packet ssl_new ping_elapsed contract w =
     (Ok (), handle_client_packet ssl_new ping_elapsed contract w)"

interpretation server: packet_handler server_handle_packet
  by unfold_locales (simp add: server_handle_packet_def)

interpretation client: packet_handler "client_handle_packet ssl_new ping_elapsed"
  for ssl_new ping_elapsed
  by unfold_locales (simp add: client_handle_packet_def)

section \<open>Read loop\<close>

datatype read_end =
    PeerClosed
  | PayloadTooLarge nat
  | EmptyRead
  | DecryptFailed
  | EmptyBody
  | BatchFailed batch_error
  | ParseFailed contract_error
  | HandleFailed string
  | LoopPanicked

definition add_in :: "nat \<Rightarrow> gateway_connection \<Rightarrow> gateway_connection" where
  "add_in n g = g\<lparr>gc_in_per_second := gc_in_per_second g + of_nat n\<rparr>"

definition set_last_incoming :: "i64 \<Rightarrow> gateway_connection \<Rightarrow> gateway_connection" where
  "set_last_incoming t g = g\<lparr>gc_last_incoming := t\<rparr>"

text \<open>
  What the loop does with one decrypted body: \<open>Inl\<close> ends the loop. The clock is read once
  per frame; \<open>now\<close> is the reading.
\<close>

definition process_frame ::
  "(bytes \<Rightarrow> bytes option) \<Rightarrow> 'cert gateway_world handler \<Rightarrow> i64 \<Rightarrow> bytes \<Rightarrow> 'cert gateway_world
     \<Rightarrow> (read_end + unit) \<times> 'cert gateway_world" where
  "process_frame zstd_decode handle now decrypted w =
     (if decrypted = [] then (Inl EmptyBody, w)
      else if hd decrypted = COMPRESSED_BATCH_PACKET_ID then
        (case handle_compressed_batch zstd_decode handle decrypted w of
           (Ok _, w') \<Rightarrow> (Inr (), on_conn (set_last_incoming now) w')
         | (Err e, w') \<Rightarrow> (Inl (BatchFailed e), w')
         | (Panic, w') \<Rightarrow> (Inl LoopPanicked, w'))
      else case parse decrypted of
        Panic \<Rightarrow> (Inl LoopPanicked, w)
      | Err e \<Rightarrow> (Inl (ParseFailed e), w)
      | Ok packet \<Rightarrow>
          (case handle packet (on_conn (set_last_incoming now) w) of
             (Ok _, w') \<Rightarrow> (Inr (), w')
           | (Err e, w') \<Rightarrow> (Inl (HandleFailed e), w')
           | (Panic, w') \<Rightarrow> (Inl LoopPanicked, w')))"

text \<open>
  The loop over the bytes the peer sent before it closed the connection; \<open>clock n\<close> is the
  reading at frame \<open>n\<close>. A \<open>read_exact\<close> that meets the end of the stream fails.
\<close>

function read_loop ::
  "(bytes \<Rightarrow> bytes option) \<Rightarrow> (bytes \<Rightarrow> bytes option) \<Rightarrow> 'cert gateway_world handler \<Rightarrow> (nat \<Rightarrow> i64) \<Rightarrow>
   nat \<Rightarrow> bytes \<Rightarrow> 'cert gateway_world \<Rightarrow> read_end \<times> 'cert gateway_world" where
  "read_loop aes_decrypt zstd_decode handle clock payload_no stream w =
     (if length stream < 4 then (PeerClosed, w)
      else
        let payload_size = len_at stream 0; rest = drop 4 stream in
        if payload_size > MAX_PAYLOAD_SIZE then (PayloadTooLarge payload_size, w)
        else if length rest < payload_size then (PeerClosed, w)
        else if payload_size = 0 then (EmptyRead, w)
        else
          let w1 = on_conn (add_in payload_size) w in
          case aes_decrypt (take payload_size rest) of
            None \<Rightarrow> (DecryptFailed, w1)
          | Some decrypted \<Rightarrow>
              (case process_frame zstd_decode handle (clock payload_no) decrypted w1 of
                 (Inl e, w2) \<Rightarrow> (e, w2)
               | (Inr _, w2) \<Rightarrow>
                   read_loop aes_decrypt zstd_decode handle clock (Suc payload_no) (drop payload_size rest) w2))"
  by pat_completeness auto
termination
  by (relation "measure (\<lambda>(_, _, _, _, _, stream, _). length stream)") auto

declare read_loop.simps [simp del]

section \<open>Registry of connections: TcpGatewayInner\<close>

text \<open>Connections are objects behind an \<open>Arc\<close>; the registry maps a gateway id to the object's address.\<close>

record tcp_gateway_inner =
  ti_gateway_id :: string
  ti_running :: bool
  ti_connections :: "string \<rightharpoonup> nat"
  ti_allow_incoming :: bool
  ti_sync_ssl :: "string list"
  ti_compress :: bool

definition set_gateway_connection :: "string \<Rightarrow> nat option \<Rightarrow> tcp_gateway_inner \<Rightarrow> tcp_gateway_inner" where
  "set_gateway_connection gateway_id connection t =
     t\<lparr>ti_connections := (case connection of
        Some c \<Rightarrow> (ti_connections t)(gateway_id \<mapsto> c)
      | None \<Rightarrow> (ti_connections t)(gateway_id := None))\<rparr>"

definition get_gateway_connection :: "string \<Rightarrow> tcp_gateway_inner \<Rightarrow> nat option" where
  "get_gateway_connection gateway_id t = ti_connections t gateway_id"

definition gateway_stop :: "tcp_gateway_inner \<Rightarrow> tcp_gateway_inner" where
  "gateway_stop t = t\<lparr>ti_running := False\<rparr>"

text \<open>
  \<open>gateway_read_loop\<close>: when the loop ends the connection leaves the registry and is
  disconnected. A panic unwinds past both.
\<close>

definition gateway_read_loop ::
  "(bytes \<Rightarrow> bytes option) \<Rightarrow> (bytes \<Rightarrow> bytes option) \<Rightarrow> 'cert gateway_world handler \<Rightarrow> (nat \<Rightarrow> i64) \<Rightarrow>
   bytes \<Rightarrow> tcp_gateway_inner \<Rightarrow> 'cert gateway_world \<Rightarrow> tcp_gateway_inner \<times> 'cert gateway_world" where
  "gateway_read_loop aes_decrypt zstd_decode handle clock stream t w =
     (case read_loop aes_decrypt zstd_decode handle clock 1 stream w of
        (LoopPanicked, w') \<Rightarrow> (t, w')
      | (_, w') \<Rightarrow>
          (set_gateway_connection (gc_gateway_id (gw_conn w')) None t, on_conn disconnect_gateway w'))"

section \<open>Delivery of a session\<close>

text \<open>
  Abstract effect of delivering contracts one frame each: per frame the byte counter, the
  time stamp and the handler, in sending order. The cipher enters by the frame length only.
\<close>

fun deliver ::
  "(bytes \<Rightarrow> bytes) \<Rightarrow> 'cert gateway_world handler \<Rightarrow> (nat \<Rightarrow> i64) \<Rightarrow> nat \<Rightarrow> TcpGatewayContract list \<Rightarrow>
   'cert gateway_world \<Rightarrow> 'cert gateway_world" where
  "deliver aes handle clock n [] w = w"
| "deliver aes handle clock n (c # cs) w =
     deliver aes handle clock (Suc n) cs
       (snd (handle (wire_norm c)
         (on_conn (set_last_incoming (clock n) \<circ> add_in (length (aes (contract_body c)))) w)))"

text \<open>A body whose encryption the peer accepts as one frame.\<close>

definition fits_frame :: "(bytes \<Rightarrow> bytes) \<Rightarrow> bytes \<Rightarrow> bool" where
  "fits_frame aes body \<longleftrightarrow> 0 < length (aes body) \<and> length (aes body) \<le> MAX_PAYLOAD_SIZE"

definition aes_inverse :: "(bytes \<Rightarrow> bytes) \<Rightarrow> (bytes \<Rightarrow> bytes option) \<Rightarrow> bool" where
  "aes_inverse aes aes_decrypt \<longleftrightarrow> (\<forall>m. aes_decrypt (aes m) = Some m)"

lemma on_conn_comp [simp]: "on_conn f (on_conn g w) = on_conn (f \<circ> g) w"
  by (simp add: on_conn_def)

lemma read_loop_end [simp]: "read_loop d z handle clock n [] w = (PeerClosed, w)"
  by (simp add: read_loop.simps)

lemma read_loop_frame:
  assumes "aes_inverse aes d" and "fits_frame aes body"
  shows "read_loop d z handle clock n (encrypt_frame aes body @ rest) w =
    (case process_frame z handle (clock n) body (on_conn (add_in (length (aes body))) w) of
       (Inl e, w2) \<Rightarrow> (e, w2)
     | (Inr _, w2) \<Rightarrow> read_loop d z handle clock (Suc n) rest w2)"
proof -
  from assms(2) have len: "length (aes body) < 2 ^ 32" "0 < length (aes body)"
    "length (aes body) \<le> MAX_PAYLOAD_SIZE"
    by (auto simp: fits_frame_def MAX_PAYLOAD_SIZE_def)
  then have "len_at (encrypt_frame aes body @ rest) 0 = length (aes body)"
    by (simp add: len_at_def encrypt_frame_def Let_def unat_of_nat)
  with len assms(1) show ?thesis
    by (subst read_loop.simps) (simp add: Let_def encrypt_frame_def aes_inverse_def split: prod.splits sum.splits)
qed

locale session_handler = packet_handler handle for handle :: "'cert gateway_world handler"
begin

lemma process_frame_body:
  "sendable c \<Longrightarrow>
     process_frame z handle now (contract_body c) w =
       (Inr (), snd (handle (wire_norm c) (on_conn (set_last_incoming now) w)))"
  using contract_body_head [of c] parse_contract_body [of c]
    handle_eq [of "wire_norm c" "on_conn (set_last_incoming now) w"]
  by (auto simp: process_frame_def sendable_def simp del: parse.simps split: prod.splits)

lemma individual_delivery:
  assumes "aes_inverse aes d"
  shows "list_all sendable cs \<Longrightarrow> list_all (\<lambda>c. fits_frame aes (contract_body c)) cs \<Longrightarrow>
    read_loop d z handle clock n (encode_individual_frames aes (plain_frames cs)) w =
      (PeerClosed, deliver aes handle clock n cs w)"
proof (induction cs arbitrary: n w)
  case Nil
  then show ?case by (simp add: encode_individual_frames_def individual_loop.simps)
next
  case (Cons c cs)
  then show ?case
    by (simp add: encode_individual_frames_plain read_loop_frame [OF assms] process_frame_body
        del: plain_frames_simps(2))
qed

lemma batch_delivery:
  assumes "aes_inverse aes d" and "zstd_encode (plain_frames cs) = Some compressed"
    and "zstd_decode compressed = Some (plain_frames cs)" and "list_all sendable cs"
    and "length (plain_frames cs) \<le> MAX_DECOMPRESSED_BATCH_SIZE"
    and "fits_frame aes ([COMPRESSED_BATCH_PACKET_ID, COMPRESSION_ALGO_ZSTD] @ compressed)"
  shows "read_loop d zstd_decode handle clock n (build_wire zstd_encode aes True (plain_frames cs)) w =
    (PeerClosed, on_conn (set_last_incoming (clock n)) (handle_all handle (map wire_norm cs)
      (on_conn (add_in (length (aes ([COMPRESSED_BATCH_PACKET_ID, COMPRESSION_ALGO_ZSTD] @ compressed)))) w)))"
  using assms compressed_batch_delivers [of cs zstd_decode compressed]
    read_loop_frame [OF assms(1,6), of zstd_decode handle clock n "[]" w]
  by (simp add: build_wire_def encode_compressed_batch_def process_frame_def)

end

interpretation server_session: session_handler server_handle_packet
  by unfold_locales

interpretation client_session: session_handler "client_handle_packet ssl_new ping_elapsed"
  for ssl_new ping_elapsed
  by unfold_locales

text \<open>A batch the peer cannot accept: nothing of it is handled.\<close>

lemma oversized_batch:
  assumes "aes_inverse aes d" and "zstd_encode plaintext = Some compressed"
    and "zstd_decode compressed = Some plaintext"
    and "length plaintext > MAX_DECOMPRESSED_BATCH_SIZE"
    and "fits_frame aes ([COMPRESSED_BATCH_PACKET_ID, COMPRESSION_ALGO_ZSTD] @ compressed)"
  shows "read_loop d zstd_decode handle clock n (build_wire zstd_encode aes True plaintext) w =
    (BatchFailed (DecompressedTooLarge (length plaintext)),
     on_conn (add_in (length (aes ([COMPRESSED_BATCH_PACKET_ID, COMPRESSION_ALGO_ZSTD] @ compressed)))) w)"
  using assms read_loop_frame [OF assms(1,5), of zstd_decode handle clock n "[]" w]
  by (simp add: build_wire_def encode_compressed_batch_def process_frame_def handle_compressed_batch_def)

section \<open>Properties\<close>

text \<open>
  C17. End-to-end delivery without compression: when a writer flushes the contracts \<open>cs\<close> as
  individually encrypted frames and the peer decrypts with the same key, the peer's read loop
  hands exactly these contracts (at wire precision), in sending order and each once, to the
  server's packet handler, and then sees the end of the stream.
\<close>

theorem individual_frames_delivered:
  assumes "aes_inverse aes aes_decrypt" and "list_all sendable cs"
    and "list_all (\<lambda>c. fits_frame aes (contract_body c)) cs"
  shows "read_loop aes_decrypt zstd_decode server_handle_packet clock n
      (build_wire zstd_encode aes False (plain_frames cs)) w =
    (PeerClosed, deliver aes server_handle_packet clock n cs w)"
  using server_session.individual_delivery [OF assms] by (simp add: build_wire_def)

theorem individual_frames_delivered_witness:
  "read_loop Some (\<lambda>_. None) server_handle_packet (\<lambda>_. 5) 1
      (build_wire (\<lambda>_. None) (\<lambda>m. m) False (plain_frames [Ping, UpdatePingTime 7000]))
      \<lparr>gw_conn = new_connection True 0, gw_certs = (Map.empty :: unit cert_cache)\<rparr> =
    (PeerClosed, deliver (\<lambda>m. m) server_handle_packet (\<lambda>_. 5) 1 [Ping, UpdatePingTime 7000]
      \<lparr>gw_conn = new_connection True 0, gw_certs = Map.empty\<rparr>)"
  by (rule individual_frames_delivered)
     (simp_all add: aes_inverse_def sendable_def fits_frame_def MAX_PAYLOAD_SIZE_def)

text \<open>
  C18. End-to-end delivery with compression, at the client: a whole accumulator packed into one
  \<open>COMPRESSED_BATCH\<close> frame is unpacked by the peer into the same contracts in the same order,
  all handled by the client's packet handler, provided the batch is within the two size limits
  of the receiver. Here zstd is any compressor whose decoder inverts it.
\<close>

theorem compressed_batch_delivered:
  assumes "aes_inverse aes aes_decrypt" and "zstd_encode (plain_frames cs) = Some compressed"
    and "zstd_decode compressed = Some (plain_frames cs)" and "list_all sendable cs"
    and "length (plain_frames cs) \<le> MAX_DECOMPRESSED_BATCH_SIZE"
    and "fits_frame aes ([COMPRESSED_BATCH_PACKET_ID, COMPRESSION_ALGO_ZSTD] @ compressed)"
  shows "read_loop aes_decrypt zstd_decode (client_handle_packet ssl_new ping_elapsed) clock n
      (build_wire zstd_encode aes True (plain_frames cs)) w =
    (PeerClosed, on_conn (set_last_incoming (clock n))
      (handle_all (client_handle_packet ssl_new ping_elapsed) (map wire_norm cs)
        (on_conn (add_in (length (aes ([COMPRESSED_BATCH_PACKET_ID, COMPRESSION_ALGO_ZSTD] @ compressed)))) w)))"
  using assms by (rule client_session.batch_delivery)

theorem compressed_batch_delivered_witness:
  "read_loop Some Some (client_handle_packet (\<lambda>_ _. Some ()) 9) (\<lambda>_. 5) 1
      (build_wire Some (\<lambda>m. m) True (plain_frames [Pong, Connected 3]))
      \<lparr>gw_conn = new_connection True 0, gw_certs = Map.empty\<rparr> =
    (PeerClosed, on_conn (set_last_incoming 5)
      (handle_all (client_handle_packet (\<lambda>_ _. Some ()) 9) (map wire_norm [Pong, Connected 3])
        (on_conn (add_in (length ([COMPRESSED_BATCH_PACKET_ID, COMPRESSION_ALGO_ZSTD]
            @ plain_frames [Pong, Connected 3])))
          \<lparr>gw_conn = new_connection True 0, gw_certs = Map.empty\<rparr>)))"
  by (rule compressed_batch_delivered)
     (simp_all add: aes_inverse_def sendable_def fits_frame_def MAX_PAYLOAD_SIZE_def
       MAX_DECOMPRESSED_BATCH_SIZE_def to_plain_frame_def push_u32_def)

text \<open>
  The sender puts no bound on a batch but the receiver does: an accumulator longer than
  16 MiB, compressed into a frame the receiver accepts, ends the peer's session with an error
  and none of its packets is handled, whatever the handler.
\<close>

theorem oversized_batch_ends_session:
  assumes "aes_inverse aes aes_decrypt" and "zstd_encode plaintext = Some compressed"
    and "zstd_decode compressed = Some plaintext"
    and "length plaintext > MAX_DECOMPRESSED_BATCH_SIZE"
    and "fits_frame aes ([COMPRESSED_BATCH_PACKET_ID, COMPRESSION_ALGO_ZSTD] @ compressed)"
  shows "\<exists>e received. read_loop aes_decrypt zstd_decode handle clock n
      (build_wire zstd_encode aes True plaintext) w = (BatchFailed e, on_conn (add_in received) w)"
  by (intro exI, rule oversized_batch; fact assms)

theorem oversized_batch_ends_session_witness:
  "\<exists>e received. read_loop Some (\<lambda>_. Some (replicate (Suc MAX_DECOMPRESSED_BATCH_SIZE) 0))
      server_handle_packet (\<lambda>_. 5) 1
      (build_wire (\<lambda>_. Some [1]) (\<lambda>m. m) True (replicate (Suc MAX_DECOMPRESSED_BATCH_SIZE) 0))
      \<lparr>gw_conn = new_connection True 0, gw_certs = (Map.empty :: unit cert_cache)\<rparr> =
    (BatchFailed e, on_conn (add_in received)
      \<lparr>gw_conn = new_connection True 0, gw_certs = Map.empty\<rparr>)"
  by (rule oversized_batch_ends_session [where compressed = "[1]"])
     (simp_all add: aes_inverse_def fits_frame_def MAX_PAYLOAD_SIZE_def)

end
