(* ===== verification/Gateway_Invariant.thy ===== *)
theory Gateway_Invariant
  imports Gateway_Handlers
begin

text \<open>
  Every operation on a gateway connection keeps its well-formedness: bounded channels,
  handlers that own an allocated receive buffer of their own, forwarded connections that own
  an allocated writer. The operations interleave freely in the source (tasks on one shared
  object, each critical section under a lock), so reachability closes the initial connection
  under all of them. The theory then proves what the invariant gives: isolation of proxied
  connections, and the properties of receive buffers, file requests, forwarding permission
  and certificates.
\<close>

section \<open>The invariant\<close>

definition inner_ok :: "conn_inner \<Rightarrow> bool" where
  "inner_ok i \<longleftrightarrow> (\<forall>q. ci_sender i = Some q \<longrightarrow> length q \<le> WRITE_CHANNEL_CAPACITY)"

definition proxy_ok :: "gateway_connection \<Rightarrow> bool" where
  "proxy_ok g \<longleftrightarrow>
     (\<forall>i h. gc_proxy g i = Some h \<longrightarrow>
        ph_connection_id h = i \<and> (\<exists>b. gc_buffers g (ph_buffer h) = Some b)) \<and>
     (\<forall>i j h k. gc_proxy g i = Some h \<and> gc_proxy g j = Some k \<and> ph_buffer h = ph_buffer k \<longrightarrow> i = j) \<and>
     (\<forall>a b. gc_buffers g a = Some b \<longrightarrow> a < gc_next_buffer g)"

definition forward_ok :: "gateway_connection \<Rightarrow> bool" where
  "forward_ok g \<longleftrightarrow>
     (\<forall>i fc. gc_forward g i = Some fc \<longrightarrow> (\<exists>c. gc_fwd_inners g (fc_inner fc) = Some c)) \<and>
     (\<forall>a c. gc_fwd_inners g a = Some c \<longrightarrow> a < gc_next_inner g \<and> inner_ok c)"

definition conn_inv :: "gateway_connection \<Rightarrow> bool" where
  "conn_inv g \<longleftrightarrow> inner_ok (gc_inner g) \<and> proxy_ok g \<and> forward_ok g"

named_theorems inv_rules \<open>every operation keeps the connection invariant\<close>

lemma inner_ok_rules [simp]:
  "inner_ok new_inner"
  "inner_ok i \<Longrightarrow> inner_ok (snd (inner_disconnect i))"
  "inner_ok i \<Longrightarrow> inner_ok (snd (inner_send_payload p i))"
  by (auto simp: inner_ok_def new_inner_def inner_disconnect_def inner_send_payload_def split: option.splits)

lemma inner_ok_send [dest]: "inner_send_payload p i = (r, i') \<Longrightarrow> inner_ok i \<Longrightarrow> inner_ok i'"
  by (drule arg_cong [where f = snd], drule inner_ok_rules(3) [of i p]) simp

lemma ok_inner_update [simp]:
  "proxy_ok (g\<lparr>gc_inner := i\<rparr>) = proxy_ok g" "forward_ok (g\<lparr>gc_inner := i\<rparr>) = forward_ok g"
  by (simp_all add: proxy_ok_def forward_ok_def)

lemma conn_inv_frame:
  "conn_inv g \<Longrightarrow> inner_ok i \<Longrightarrow> conn_inv (g\<lparr>gc_inner := i\<rparr>)"
  "conn_inv g \<Longrightarrow> conn_inv (g\<lparr>gc_out_per_second := v\<rparr>)"
  "conn_inv g \<Longrightarrow> conn_inv (g\<lparr>gc_in_per_second := v\<rparr>)"
  "conn_inv g \<Longrightarrow> conn_inv (g\<lparr>gc_last_incoming := t\<rparr>)"
  "conn_inv g \<Longrightarrow> conn_inv (g\<lparr>gc_tasks := ts\<rparr>)"
  "conn_inv g \<Longrightarrow> conn_inv (g\<lparr>gc_last_ping := d\<rparr>)"
  "conn_inv g \<Longrightarrow> conn_inv (g\<lparr>gc_files := f\<rparr>)"
  "conn_inv g \<Longrightarrow> conn_inv (g\<lparr>gc_timestamp := t, gc_gateway_id := s\<rparr>)"
  by (auto simp: conn_inv_def proxy_ok_def forward_ok_def)

lemma conn_inv_new [inv_rules]: "conn_inv (new_connection allow now)"
  by (simp add: conn_inv_def proxy_ok_def forward_ok_def new_connection_def)

lemma conn_inv_send_payload [inv_rules]: "conn_inv g \<Longrightarrow> conn_inv (snd (send_payload c g))"
  by (auto simp: send_payload_def Let_def conn_inv_def proxy_ok_def forward_ok_def split: prod.splits bool.splits)

lemma conn_inv_spawn [inv_rules]: "conn_inv g \<Longrightarrow> conn_inv (spawn_task t g)"
  by (simp add: spawn_task_def conn_inv_frame)

lemma conn_inv_remove_forward [inv_rules]:
  "conn_inv g \<Longrightarrow> conn_inv (snd (remove_forward_connection i g))"
  by (auto simp: remove_forward_connection_def conn_inv_def proxy_ok_def forward_ok_def)

lemma conn_inv_update_buffer [inv_rules]: "conn_inv g \<Longrightarrow> conn_inv (update_buffer a f g)"
  by (auto simp: update_buffer_def conn_inv_def proxy_ok_def forward_ok_def)

lemma conn_inv_update_fwd [inv_rules]:
  "conn_inv g \<Longrightarrow> (\<And>c. inner_ok c \<Longrightarrow> inner_ok (f c)) \<Longrightarrow> conn_inv (update_fwd_inner a f g)"
  by (auto simp: update_fwd_inner_def conn_inv_def proxy_ok_def forward_ok_def)

lemma conn_inv_remove_proxy [inv_rules]:
  "conn_inv g \<Longrightarrow> conn_inv (g\<lparr>gc_proxy := (gc_proxy g)(i := None)\<rparr>)"
  by (auto simp: conn_inv_def proxy_ok_def forward_ok_def)

lemma conn_inv_send_error [inv_rules]: "conn_inv g \<Longrightarrow> conn_inv (send_connection_error i e force g)"
  using conn_inv_remove_forward [of g i]
  by (simp add: send_connection_error_def remove_forward_connection_def inv_rules)

lemma conn_inv_notify_accepted [inv_rules]: "conn_inv g \<Longrightarrow> conn_inv (notify_accepted i g)"
  by (auto simp: notify_accepted_def set_connected_def conn_inv_def proxy_ok_def forward_ok_def)

lemma conn_inv_incoming [inv_rules]: "conn_inv g \<Longrightarrow> conn_inv (incoming_payload i p g)"
  by (auto simp: incoming_payload_def inv_rules split: option.splits proxy_status.splits)

lemma conn_inv_disconnect_proxy [inv_rules]:
  "conn_inv g \<Longrightarrow> conn_inv (disconnect_forward_proxy_connection i m g)"
proof -
  assume inv: "conn_inv g"
  define g1 where "g1 = (case gc_proxy g i of
      None \<Rightarrow> g
    | Some h \<Rightarrow> update_buffer (ph_buffer (set_connection_error m h)) (snd \<circ> buffer_disconnect)
                 (g\<lparr>gc_proxy := (gc_proxy g)(i := None)\<rparr>))"
  have "conn_inv g1"
    using inv by (auto simp: g1_def inv_rules split: option.splits)
  then have "conn_inv (snd (remove_forward_connection i g1))"
    by (rule conn_inv_remove_forward)
  then show ?thesis
    by (auto simp: disconnect_forward_proxy_connection_def g1_def [symmetric] inv_rules
        split: prod.splits option.splits)
qed

lemma conn_inv_forward_payload [inv_rules]: "conn_inv g \<Longrightarrow> conn_inv (forward_payload i p g)"
proof (cases "gc_forward g i")
  case (Some fc)
  assume inv: "conn_inv g"
  then obtain c where c: "gc_fwd_inners g (fc_inner fc) = Some c"
    using Some unfolding conn_inv_def forward_ok_def by blast
  have store: "conn_inv (g\<lparr>gc_fwd_inners := (gc_fwd_inners g)(fc_inner fc \<mapsto> c')\<rparr>)" if "inner_ok c'" for c'
    using inv c that by (auto simp: conn_inv_def proxy_ok_def forward_ok_def)
  have "inner_ok c" using inv c by (auto simp: conn_inv_def forward_ok_def)
  with Some c show ?thesis
    by (auto simp: forward_payload_def store intro!: conn_inv_send_error split: prod.splits bool.splits)
qed (simp add: forward_payload_def)

lemma conn_inv_files [inv_rules]:
  "conn_inv g \<Longrightarrow> conn_inv (notify_file_response i s c g)"
  "conn_inv g \<Longrightarrow> conn_inv (snd (request_file path g))"
  by (auto simp: notify_file_response_def request_file_def conn_inv_frame inv_rules split: prod.splits)

lemma conn_inv_client_connect [inv_rules]: "conn_inv g \<Longrightarrow> conn_inv (client_connect i t r g)"
  by (simp add: client_connect_def inv_rules)

lemma conn_inv_server [inv_rules]: "conn_inv g \<Longrightarrow> conn_inv (server_effect c g)"
  by (cases c) (auto simp: inv_rules set_last_ping_def conn_inv_frame)

lemma conn_inv_client [inv_rules]: "conn_inv g \<Longrightarrow> conn_inv (client_effect d c g)"
  by (cases c) (auto simp: inv_rules set_last_ping_def conn_inv_frame)

lemma conn_inv_connect_start [inv_rules]:
  "conn_inv g \<Longrightarrow> conn_inv (snd (proxy_connect_start i t r g))"
proof -
  assume inv: "conn_inv g"
  define g1 where "g1 = g\<lparr>gc_next_buffer := Suc (gc_next_buffer g),
     gc_buffers := (gc_buffers g)(gc_next_buffer g \<mapsto> new_receive_buffer),
     gc_proxy := (gc_proxy g)(i \<mapsto> \<lparr>ph_status = AcknowledgingConnection, ph_connection_id = i,
       ph_buffer = gc_next_buffer g, ph_remote_host = r\<rparr>)\<rparr>"
  have "conn_inv g1"
    using inv by (force simp: g1_def conn_inv_def proxy_ok_def forward_ok_def)
  then have "conn_inv (snd (send_payload (Connect i t r) g1))" by (rule conn_inv_send_payload)
  with inv show ?thesis
    by (auto simp: proxy_connect_start_def Let_def g1_def split: prod.splits bool.splits)
qed

lemma conn_inv_connect_finish [inv_rules]: "conn_inv g \<Longrightarrow> conn_inv (proxy_connect_finish i r g)"
  by (auto simp: proxy_connect_finish_def inv_rules split: outcome.splits)

lemma conn_inv_forward_connect [inv_rules]:
  "conn_inv g \<Longrightarrow> conn_inv (handle_forward_connect i r res e g)"
proof -
  assume inv: "conn_inv g"
  define g1 where "g1 = g\<lparr>gc_next_inner := Suc (gc_next_inner g),
     gc_fwd_inners := (gc_fwd_inners g)(gc_next_inner g \<mapsto> new_inner)\<rparr>"
  have "conn_inv g1"
    using inv by (force simp: g1_def conn_inv_def proxy_ok_def forward_ok_def)
  then have sent: "conn_inv (snd (send_payload (Connected i) g1))" by (rule conn_inv_send_payload)
  have "gc_fwd_inners (snd (send_payload (Connected i) g1)) (gc_next_inner g) = Some new_inner"
    by (simp add: send_payload_def Let_def g1_def split: prod.splits bool.splits)
  with sent have "conn_inv (add_forward_connection i \<lparr>fc_inner = gc_next_inner g, fc_remote_endpoint = r\<rparr>
      (snd (send_payload (Connected i) g1)))"
    by (auto simp: add_forward_connection_def conn_inv_def proxy_ok_def forward_ok_def)
  with inv show ?thesis
    by (auto simp: handle_forward_connect_def Let_def g1_def inv_rules split: sum.splits)
qed

lemma conn_inv_stream [inv_rules]:
  "conn_inv g \<Longrightarrow> conn_inv (snd (stream_send_payload i p g))"
  "conn_inv g \<Longrightarrow> conn_inv (stream_disconnect i a g)"
  by (auto simp: stream_send_payload_def stream_disconnect_def buffer_disconnect_def spawn_task_def Let_def
      conn_inv_def proxy_ok_def forward_ok_def split: prod.splits option.splits)

lemma conn_inv_forwarded_read [inv_rules]:
  "conn_inv g \<Longrightarrow> conn_inv (snd (forwarded_read_step i a r e g))"
  by (auto simp: forwarded_read_step_def send_backward_payload_def inv_rules split: sum.splits)

lemma conn_inv_serve_file [inv_rules]: "conn_inv g \<Longrightarrow> conn_inv (serve_file i c g)"
  by (simp add: serve_file_def inv_rules)

lemma conn_inv_reply_sync [inv_rules]: "conn_inv g \<Longrightarrow> conn_inv (reply_sync_ssl_certificates certs ids g)"
proof (induction certs ids g rule: reply_sync_ssl_certificates.induct)
  case (1 certs g)
  then show ?case by simp
next
  case (2 certs cert_id ids g)
  then show ?case
    using conn_inv_send_payload [of g "sync_reply certs cert_id"]
    by (auto split: prod.splits bool.splits)
qed

section \<open>Reachable connections\<close>

text \<open>
  One rule per way a task of the source touches the connection. \<open>writer_pop\<close> is the writer
  task taking a frame from the channel, \<open>reader_get\<close> a proxied stream reading its buffer.
\<close>

inductive conn_step :: "gateway_connection \<Rightarrow> gateway_connection \<Rightarrow> bool" where
  established: "conn_step g (g\<lparr>gc_timestamp := t, gc_gateway_id := s\<rparr>)"
| server_packet: "conn_step g (server_effect c g)"
| client_packet: "conn_step g (client_effect d c g)"
| frame_received: "conn_step g (set_last_incoming t (add_in n g))"
| proxy_connect: "conn_step g (snd (proxy_connect_start i timeout host g))"
| proxy_acked: "ack_poll i g = Some r \<Longrightarrow> conn_step g (proxy_connect_finish i r g)"
| stream_send: "conn_step g (snd (stream_send_payload i p g))"
| stream_close: "conn_step g (stream_disconnect i a g)"
| reader_get: "conn_step g (update_buffer a (snd \<circ> get_data n) g)"
| file_requested: "conn_step g (snd (request_file path g))"
| forward_task: "TaskForwardConnect i host timeout \<in> set (gc_tasks g) \<Longrightarrow>
    conn_step g (handle_forward_connect i host res e g)"
| forwarded_read: "conn_step g (snd (forwarded_read_step i a r e g))"
| file_task: "TaskServeFile i path \<in> set (gc_tasks g) \<Longrightarrow> conn_step g (serve_file i content g)"
| sync_task: "TaskReplySslSync ids \<in> set (gc_tasks g) \<Longrightarrow>
    conn_step g (reply_sync_ssl_certificates (certs :: unit cert_cache) ids g)"
| cleanup_task: "TaskRemoveProxyHandler i \<in> set (gc_tasks g) \<Longrightarrow>
    conn_step g (g\<lparr>gc_proxy := (gc_proxy g)(i := None)\<rparr>)"
| writer_pop: "ci_sender (gc_inner g) = Some (m # q) \<Longrightarrow>
    conn_step g (g\<lparr>gc_inner := (gc_inner g)\<lparr>ci_sender := Some q\<rparr>\<rparr>)"
| writer_gone: "conn_step g (g\<lparr>gc_inner := (gc_inner g)\<lparr>ci_receiver := False\<rparr>\<rparr>)"
| closed: "conn_step g (disconnect_gateway g)"

inductive conn_reachable :: "gateway_connection \<Rightarrow> bool" where
  fresh: "conn_reachable (new_connection allow now)"
| step: "conn_reachable g \<Longrightarrow> conn_step g g' \<Longrightarrow> conn_reachable g'"

lemma conn_step_inv: "conn_step g g' \<Longrightarrow> conn_inv g \<Longrightarrow> conn_inv g'"
proof (induction rule: conn_step.induct)
  case (writer_pop g m q)
  then show ?case by (simp add: conn_inv_def inner_ok_def)
next
  case (writer_gone g)
  then show ?case by (simp add: conn_inv_def inner_ok_def)
next
  case (closed g)
  then show ?case by (simp add: disconnect_gateway_def conn_inv_def)
qed (auto intro!: inv_rules conn_inv_frame simp: set_last_incoming_def add_in_def)

lemma conn_reachable_inv: "conn_reachable g \<Longrightarrow> conn_inv g"
  by (induction rule: conn_reachable.induct) (auto intro: conn_inv_new conn_step_inv)

section \<open>Receive buffers as byte queues\<close>

text \<open>A reader and the packet handler taking turns on one buffer: what the reader got, and the buffer left.\<close>

datatype buffer_op = Extend bytes | GetData nat

fun run_buffer :: "buffer_op list \<Rightarrow> awaiting_content \<Rightarrow> bytes \<times> awaiting_content" where
  "run_buffer [] b = ([], b)"
| "run_buffer (Extend p # ops) b = run_buffer ops (buffer_extend p b)"
| "run_buffer (GetData n # ops) b =
     (case get_data n b of
        (GetOk d, b') \<Rightarrow> (case run_buffer ops b' of (out, b'') \<Rightarrow> (d @ out, b''))
      | (_, b') \<Rightarrow> run_buffer ops b')"

fun extended :: "buffer_op list \<Rightarrow> bytes" where
  "extended [] = []"
| "extended (Extend p # ops) = p @ extended ops"
| "extended (GetData n # ops) = extended ops"

lemma run_buffer_fifo_aux:
  "\<not> ac_disconnected b \<Longrightarrow> run_buffer ops b = (out, b') \<Longrightarrow> out @ ac_buffer b' = ac_buffer b @ extended ops"
proof (induction ops b arbitrary: out b' rule: run_buffer.induct)
  case (3 n ops b)
  then show ?case
    by (auto simp: get_data_def split: if_splits prod.splits)
qed (auto simp: buffer_extend_def)

section \<open>Frame lemmas of single operations\<close>

lemma send_payload_frame [simp]:
  "gc_tasks (snd (send_payload c g)) = gc_tasks g"
  "gc_proxy (snd (send_payload c g)) = gc_proxy g"
  "gc_buffers (snd (send_payload c g)) = gc_buffers g"
  "gc_forward (snd (send_payload c g)) = gc_forward g"
  "gc_fwd_inners (snd (send_payload c g)) = gc_fwd_inners g"
  by (simp_all add: send_payload_def Let_def split: prod.splits bool.splits)

lemma proxy_connect_start_effect:
  "gc_proxy (snd (proxy_connect_start i t host g)) =
     (if has_handshake g then (gc_proxy g)(i \<mapsto> \<lparr>ph_status = AcknowledgingConnection, ph_connection_id = i,
        ph_buffer = gc_next_buffer g, ph_remote_host = host\<rparr>) else gc_proxy g)"
  "gc_timestamp (snd (proxy_connect_start i t host g)) = gc_timestamp g"
  "gc_forward (snd (proxy_connect_start i t host g)) = gc_forward g"
  by (simp_all add: proxy_connect_start_def send_payload_def Let_def split: prod.splits bool.splits)

lemma send_connection_error_frame [simp]:
  "gc_tasks (send_connection_error i e force g) = gc_tasks g"
  "gc_proxy (send_connection_error i e force g) = gc_proxy g"
  "gc_fwd_inners (send_connection_error i e force g) = gc_fwd_inners g"
  "gc_forward (send_connection_error i e force g) = (gc_forward g)(i := None)"
  by (simp_all add: send_connection_error_def remove_forward_connection_def)

lemma tasks_unchanged [simp]:
  "gc_tasks (update_buffer a f g) = gc_tasks g"
  "gc_tasks (update_fwd_inner a f' g) = gc_tasks g"
  "gc_tasks (notify_accepted i g) = gc_tasks g"
  "gc_tasks (incoming_payload i p g) = gc_tasks g"
  "gc_tasks (forward_payload i p g) = gc_tasks g"
  "gc_tasks (disconnect_forward_proxy_connection i m g) = gc_tasks g"
  "gc_tasks (notify_file_response r s c g) = gc_tasks g"
  "gc_tasks (set_last_ping d g) = gc_tasks g"
  by (auto simp: update_buffer_def update_fwd_inner_def notify_accepted_def incoming_payload_def
      forward_payload_def disconnect_forward_proxy_connection_def notify_file_response_def
      set_last_ping_def remove_forward_connection_def Let_def
      split: option.splits proxy_status.splits prod.splits bool.splits)

lemma client_effect_tasks:
  "gc_tasks (client_effect d c g) = gc_tasks g \<or>
   (\<exists>i t host. c = Connect i t host \<and> gc_allow_incoming g \<and>
      gc_tasks (client_effect d c g) = gc_tasks g @ [TaskForwardConnect i host t]) \<or>
   (\<exists>r path. gc_tasks (client_effect d c g) = gc_tasks g @ [TaskServeFile r path])"
  by (cases c) (auto simp: client_connect_def spawn_task_def)

section \<open>Properties\<close>



text \<open>
  C35. Payload isolation: a \<open>BackwardPayload\<close> for connection \<open>i\<close> appends its bytes to the
  receive buffer of handler \<open>i\<close> exactly when that handler is connected, and leaves the
  receive buffer of every other handler as it was.
\<close>

theorem backward_payload_isolated:
  assumes "conn_reachable g" and "gc_proxy g i = Some h" and "gc_proxy g j = Some k" and "i \<noteq> j"
  shows "gc_buffers (server_effect (BackwardPayload i p) g) (ph_buffer k) = gc_buffers g (ph_buffer k) \<and>
    gc_buffers (server_effect (BackwardPayload i p) g) (ph_buffer h) =
      map_option (\<lambda>b. if ph_status h = ProxyConnected then buffer_extend p b else b) (gc_buffers g (ph_buffer h))"
proof -
  have "ph_buffer h \<noteq> ph_buffer k"
    using conn_reachable_inv [OF assms(1)] assms(2-4) unfolding conn_inv_def proxy_ok_def by blast
  with assms(2) show ?thesis
    by (simp add: incoming_payload_def update_buffer_def option.map_ident split: proxy_status.splits)
qed

theorem backward_payload_isolated_witness:
  "\<exists>g h k. conn_reachable g \<and> gc_proxy g 1 = Some h \<and> gc_proxy g 2 = Some k \<and>
     gc_buffers (server_effect (BackwardPayload 1 [7]) g) (ph_buffer k) = gc_buffers g (ph_buffer k) \<and>
     gc_buffers (server_effect (BackwardPayload 1 [7]) g) (ph_buffer h) =
       map_option (\<lambda>b. if ph_status h = ProxyConnected then buffer_extend [7] b else b) (gc_buffers g (ph_buffer h))"
proof -
  let ?g0 = "(new_connection True 0)\<lparr>gc_timestamp := 1, gc_gateway_id := ''gw''\<rparr>"
  let ?g1 = "snd (proxy_connect_start 1 0 ''a'' ?g0)"
  let ?g = "snd (proxy_connect_start 2 0 ''b'' ?g1)"
  have r: "conn_reachable ?g"
    by (intro conn_reachable.step [OF _ conn_step.proxy_connect]
        conn_reachable.step [OF _ conn_step.established] conn_reachable.fresh)
  have "gc_timestamp ?g1 = 1" "gc_timestamp ?g0 = 1" by (simp_all add: proxy_connect_start_effect)
  then obtain h k where hk: "gc_proxy ?g 1 = Some h" "gc_proxy ?g 2 = Some k"
    by (simp add: proxy_connect_start_effect has_handshake_def)
  have "(1 :: u32) \<noteq> 2" by simp
  with r hk backward_payload_isolated [of ?g 1 h 2 k "[7]"] show ?thesis by blast
qed

text \<open>
  A live receive buffer is a byte queue: however reads of any size and arriving payloads
  alternate, the bytes read so far followed by the bytes still buffered are the initial
  content followed by all payloads in order of arrival.
\<close>

theorem receive_buffer_fifo:
  assumes "\<not> ac_disconnected b" and "run_buffer ops b = (out, b')"
  shows "out @ ac_buffer b' = ac_buffer b @ extended ops"
  using assms by (rule run_buffer_fifo_aux)

theorem receive_buffer_fifo_witness:
  "[1, 2] @ ac_buffer (new_receive_buffer\<lparr>ac_buffer := [3]\<rparr>) =
     ac_buffer new_receive_buffer @ extended [Extend [1, 2, 3], GetData 2]"
  by (rule receive_buffer_fifo)
     (simp_all add: new_receive_buffer_def buffer_extend_def get_data_def)

text \<open>
  C27. Closing wins over buffered data: once the buffer is disconnected, a read of any size
  fails, whatever bytes \<open>p\<close> had arrived before the close and were not read yet. Those bytes
  never reach the reader.
\<close>

theorem close_discards_unread_payload:
  "fst (get_data n (snd (buffer_disconnect (buffer_extend p b)))) = GetErr"
  by (simp add: get_data_def buffer_disconnect_def)

text \<open>
  C28. The two directions share one id space in \<open>ConnectionError\<close>: a packet naming \<open>i\<close> tears
  down the proxied connection \<open>i\<close> this side opened and, with it, an unrelated connection
  \<open>i\<close> forwarded for the peer: its entry is removed and its writer is disconnected.
\<close>

theorem connection_error_hits_both_directions:
  assumes "gc_proxy g i = Some h" and "gc_forward g i = Some fc"
    and "gc_fwd_inners g (fc_inner fc) = Some c" and "ci_connected c"
  shows "gc_proxy (server_effect (ConnectionError i e) g) i = None \<and>
    gc_forward (server_effect (ConnectionError i e) g) i = None \<and>
    (\<exists>c'. gc_fwd_inners (server_effect (ConnectionError i e) g) (fc_inner fc) = Some c' \<and> \<not> ci_connected c')"
  using assms
  by (simp add: disconnect_forward_proxy_connection_def remove_forward_connection_def update_buffer_def
      update_fwd_inner_def inner_disconnect_def Let_def)

theorem connection_error_hits_both_directions_witness:
  "\<exists>g. conn_reachable g \<and> gc_proxy g 0 \<noteq> None \<and> gc_forward g 0 \<noteq> None \<and>
     gc_proxy (server_effect (ConnectionError 0 []) g) 0 = None \<and>
     gc_forward (server_effect (ConnectionError 0 []) g) 0 = None"
proof -
  let ?g0 = "(new_connection True 0)\<lparr>gc_timestamp := 1, gc_gateway_id := ''gw''\<rparr>"
  let ?g1 = "snd (proxy_connect_start 0 0 ''a'' ?g0)"
  let ?g2 = "server_effect (Connect 0 0 ''b'') ?g1"
  let ?g = "handle_forward_connect 0 ''b'' (Inr ()) [] ?g2"
  have "TaskForwardConnect 0 ''b'' 0 \<in> set (gc_tasks ?g2)" by (simp add: spawn_task_def)
  then have r: "conn_reachable ?g"
    by (intro conn_reachable.step [OF _ conn_step.forward_task] conn_reachable.step [OF _ conn_step.server_packet]
        conn_reachable.step [OF _ conn_step.proxy_connect] conn_reachable.step [OF _ conn_step.established]
        conn_reachable.fresh)
  have p1: "gc_proxy ?g1 0 \<noteq> None" "gc_forward ?g1 = Map.empty"
    by (simp_all add: proxy_connect_start_effect has_handshake_def new_connection_def)
  then obtain h where h: "gc_proxy ?g 0 = Some h"
    by (auto simp: handle_forward_connect_def has_forward_connection_def spawn_task_def Let_def
        add_forward_connection_def)
  from p1 have f: "gc_forward ?g 0 = Some \<lparr>fc_inner = gc_next_inner ?g2, fc_remote_endpoint = ''b''\<rparr>"
    "gc_fwd_inners ?g (gc_next_inner ?g2) = Some new_inner"
    by (simp_all add: handle_forward_connect_def has_forward_connection_def spawn_task_def Let_def
        add_forward_connection_def)
  show ?thesis
    using connection_error_hits_both_directions [OF h f(1), of new_inner "[]"] r h f
    by (auto simp: new_inner_def)
qed

text \<open>
  C12. File requests are answered at most once and to the right waiter: after
  \<open>start_request\<close> handed out a token and an id, the first response for that id completes
  exactly that token, every further response for the id changes nothing, and no other pending
  request is touched.
\<close>

theorem file_response_once:
  assumes "start_request f = ((token, request_id), f')"
  shows "fr_events (set_content request_id content f') = fr_events f' @ [TrySetOk token content] \<and>
    set_content request_id again (set_content request_id content f') = set_content request_id content f' \<and>
    set_error request_id err (set_content request_id content f') = set_content request_id content f' \<and>
    (\<forall>r. r \<noteq> request_id \<longrightarrow> fr_requests (set_content request_id content f') r = fr_requests f r)"
  using assms by (auto simp: start_request_def Let_def set_content_def set_error_def)

theorem file_response_once_witness:
  "fr_events (set_content 1 [65] (snd (start_request new_file_requests))) =
     fr_events (snd (start_request new_file_requests)) @ [TrySetOk 0 [65]]"
proof -
  have "start_request new_file_requests = ((0, 1), snd (start_request new_file_requests))"
    by (simp add: start_request_def new_file_requests_def Let_def)
  from file_response_once [OF this] show ?thesis by blast
qed

text \<open>
  C29. Forwarding permission at a gateway client: when incoming forward connections are not
  allowed, no packet whatever makes the client start a forward connection; and when they are,
  the only packet that does is \<open>Connect\<close>, for the id, host and timeout it names.
\<close>

theorem forwarding_only_when_allowed:
  assumes "TaskForwardConnect i host t \<in> set (gc_tasks (client_effect d c g))"
    and "TaskForwardConnect i host t \<notin> set (gc_tasks g)"
  shows "gc_allow_incoming g \<and> c = Connect i t host"
  using client_effect_tasks [of d c g] assms by auto

theorem forwarding_only_when_allowed_witness:
  "gc_allow_incoming (new_connection True 0) \<and> Connect 1 2 ''h'' = Connect 1 2 ''h''"
  by (rule forwarding_only_when_allowed [where d = 0])
     (simp_all add: new_connection_def client_connect_def spawn_task_def)

text \<open>
  What a gateway peer can do to a client's certificates: an entry of the cache changes
  only by a pushed certificate for that id which loads, and it then holds the pushed bytes
  and names the gateway as its origin, or by a not-found notice for that id, and then only
  when the entry had itself been pushed by a gateway.
\<close>

theorem certificate_changes:
  assumes "gw_certs (handle_client_packet ssl_new d c w) cid \<noteq> gw_certs w cid"
  shows "(\<exists>pem key cert. c = SyncSslCertificates cid pem key \<and> ssl_new key pem = Some cert \<and>
      gw_certs (handle_client_packet ssl_new d c w) cid =
        Some \<lparr>ch_ssl_cert = cert, ch_origin = GatewayPushed (gc_gateway_id (gw_conn w)),
              ch_cert_pem = pem, ch_private_key_pem = key\<rparr>) \<or>
    (c = SyncSslCertificateNotFound cid \<and>
      (\<exists>h gw. gw_certs w cid = Some h \<and> ch_origin h = GatewayPushed gw) \<and>
      gw_certs (handle_client_packet ssl_new d c w) cid = None)"
  using assms
  by (auto simp: handle_client_packet_def on_conn_def client_not_found_def client_cert_push_def
      cache_remove_def cache_add_or_update_def
      split: TcpGatewayContract.splits option.splits SslCertificateOrigin.splits if_splits)

theorem certificate_changes_witness:
  "\<exists>pem key cert. SyncSslCertificates ''a'' [1] [2] = SyncSslCertificates ''a'' pem key \<and> Some () = Some cert \<and>
     gw_certs (handle_client_packet (\<lambda>_ _. Some ()) 0 (SyncSslCertificates ''a'' [1] [2])
        \<lparr>gw_conn = new_connection True 0, gw_certs = Map.empty\<rparr>) ''a'' =
       Some \<lparr>ch_ssl_cert = cert, ch_origin = GatewayPushed [], ch_cert_pem = pem, ch_private_key_pem = key\<rparr>"
proof -
  let ?w = "\<lparr>gw_conn = new_connection True 0, gw_certs = Map.empty\<rparr> :: unit gateway_world"
  have "gw_certs (handle_client_packet (\<lambda>_ _. Some ()) 0 (SyncSslCertificates ''a'' [1] [2]) ?w) ''a''
      \<noteq> gw_certs ?w ''a''"
    by (simp add: handle_client_packet_def client_cert_push_def cache_add_or_update_def)
  from certificate_changes [OF this] show ?thesis by (auto simp: new_connection_def)
qed

text \<open>
  C30. A session that ends removes the registry entry of its gateway id even when that entry
  already belongs to a newer connection: if the id is registered to connection \<open>newer\<close> when
  the read loop of the older one ends without a panic, the id is registered to nothing
  afterwards.
\<close>

theorem ended_session_unregisters_successor:
  assumes "read_loop aes_decrypt zstd_decode handle clock 1 stream w = (e, w')" and "e \<noteq> LoopPanicked"
  shows "get_gateway_connection (gc_gateway_id (gw_conn w'))
     (fst (gateway_read_loop aes_decrypt zstd_decode handle clock stream
       (set_gateway_connection (gc_gateway_id (gw_conn w')) (Some newer) t) w)) = None"
  using assms
  by (cases e) (simp_all add: gateway_read_loop_def set_gateway_connection_def get_gateway_connection_def)

theorem ended_session_unregisters_successor_witness:
  "get_gateway_connection []
     (fst (gateway_read_loop Some Some server_handle_packet (\<lambda>_. 0) []
       (set_gateway_connection [] (Some 2)
         \<lparr>ti_gateway_id = [], ti_running = True, ti_connections = Map.empty, ti_allow_incoming = True,
          ti_sync_ssl = [], ti_compress = False\<rparr>)
       \<lparr>gw_conn = new_connection True 0, gw_certs = (Map.empty :: unit cert_cache)\<rparr>)) = None"
  using ended_session_unregisters_successor [of Some Some server_handle_packet "\<lambda>_. 0" "[]"
      "\<lparr>gw_conn = new_connection True 0, gw_certs = (Map.empty :: unit cert_cache)\<rparr>" PeerClosed
      "\<lparr>gw_conn = new_connection True 0, gw_certs = Map.empty\<rparr>" 2]
  by (simp add: new_connection_def)

end
