(* ===== verification/Gateway_Handshake.thy ===== *)
theory Gateway_Handshake
  imports Gateway_Handlers
begin

text \<open>
  The key exchange that opens a gateway session: the two frames and their codec
  (\<open>src/src/tcp_gateway/handshake/protocol.rs\<close>), the client's and the server's side
  (\<open>client_handshake.rs\<close>, \<open>server_handshake.rs\<close>), and what both sides set up once it
  succeeds (\<open>server/tcp_gateway_server.rs\<close>, \<open>client/tcp_gateway_client.rs\<close>). Ed25519,
  X25519, HKDF and the AES key object are code outside the repository: they are the fields
  of the record \<open>crypto\<close>, and what the protocol needs of them is \<open>crypto_laws\<close>. The clock and
  the ephemeral secrets are arguments.
\<close>

section \<open>Frames\<close>

definition PROTOCOL_VERSION :: u8 where "PROTOCOL_VERSION = 1"
definition HANDSHAKE_TIMESTAMP_TOLERANCE_SECS :: i64 where "HANDSHAKE_TIMESTAMP_TOLERANCE_SECS = 60"
definition HKDF_INFO :: bytes where "HKDF_INFO = as_bytes ''gateway-session-v1''"
definition SESSION_KEY_LEN :: nat where "SESSION_KEY_LEN = 48"
definition MAX_HANDSHAKE_FRAME_LEN :: nat where "MAX_HANDSHAKE_FRAME_LEN = 4096"
definition MAX_GATEWAY_NAME_LEN :: nat where "MAX_GATEWAY_NAME_LEN = 256"
definition SIGNED_TRANSCRIPT_PREFIX :: bytes where
  "SIGNED_TRANSCRIPT_PREFIX = as_bytes ''gateway-handshake-v1:''"
definition X25519_PUB_LEN :: nat where "X25519_PUB_LEN = 32"
definition ED25519_PUB_LEN :: nat where "ED25519_PUB_LEN = 32"
definition SIGNATURE_LENGTH :: nat where "SIGNATURE_LENGTH = 64"

lemmas handshake_consts =
  PROTOCOL_VERSION_def HANDSHAKE_TIMESTAMP_TOLERANCE_SECS_def MAX_HANDSHAKE_FRAME_LEN_def
  MAX_GATEWAY_NAME_LEN_def X25519_PUB_LEN_def ED25519_PUB_LEN_def SIGNATURE_LENGTH_def

record ClientHandshakeFrame =
  cf_protocol_version :: u8
  cf_client_eph_pub :: bytes
  cf_client_id_pub :: bytes
  cf_timestamp_us :: i64
  cf_gateway_name :: string
  cf_signature :: bytes

record ServerHandshakeFrame =
  sf_protocol_version :: u8
  sf_server_eph_pub :: bytes

datatype handshake_error =
    TruncatedField
  | GatewayNameTooLong nat
  | TruncatedGatewayName
  | GatewayNameNotUtf8
  | TrailingFrameBytes
  | UnexpectedLength nat
  | UnsupportedVersion u8
  | TimestampDrifted i64
  | InvalidPublicKey
  | NotAuthorized
  | SignatureFailed
  | FrameSizeOutOfRange nat
  | PeerClosedHandshake
  | HandshakeReadError
  | HandshakeWriteError

definition signed_transcript :: "bytes \<Rightarrow> i64 \<Rightarrow> string \<Rightarrow> bytes" where
  "signed_transcript client_eph_pub timestamp_us gateway_name =
     SIGNED_TRANSCRIPT_PREFIX @ client_eph_pub @ to_le_bytes 8 timestamp_us @ as_bytes gateway_name"

definition prepend_length :: "bytes \<Rightarrow> bytes" where
  "prepend_length body = to_le_bytes 4 (of_nat (length body) :: u32) @ body"

definition client_encode :: "ClientHandshakeFrame \<Rightarrow> bytes" where
  "client_encode f =
     (let name_bytes = as_bytes (cf_gateway_name f) in
      prepend_length
        ([cf_protocol_version f] @ cf_client_eph_pub f @ cf_client_id_pub f @
         to_le_bytes 8 (cf_timestamp_us f) @ to_le_bytes 4 (of_nat (length name_bytes) :: u32) @
         name_bytes @ cf_signature f))"

text \<open>The readers return the value and the advanced cursor.\<close>

definition read_u8 :: "bytes \<Rightarrow> nat \<Rightarrow> (handshake_error, u8 \<times> nat) outcome" where
  "read_u8 buf cursor =
     (if cursor + 1 > length buf then Err TruncatedField
      else rbind (idx buf cursor) (\<lambda>value. Ok (value, cursor + 1)))"

definition read_array :: "nat \<Rightarrow> bytes \<Rightarrow> nat \<Rightarrow> (handshake_error, bytes \<times> nat) outcome" where
  "read_array n buf cursor =
     (if cursor + n > length buf then Err TruncatedField
      else rbind (slice buf cursor (cursor + n)) (\<lambda>out. Ok (out, cursor + n)))"

definition read_i64 :: "bytes \<Rightarrow> nat \<Rightarrow> (handshake_error, i64 \<times> nat) outcome" where
  "read_i64 buf cursor = rbind (read_array 8 buf cursor) (\<lambda>(arr, c). Ok (from_le_bytes arr, c))"

definition read_u32_at :: "bytes \<Rightarrow> nat \<Rightarrow> (handshake_error, u32 \<times> nat) outcome" where
  "read_u32_at buf cursor = rbind (read_array 4 buf cursor) (\<lambda>(arr, c). Ok (from_le_bytes arr, c))"

definition client_decode :: "bytes \<Rightarrow> (handshake_error, ClientHandshakeFrame) outcome" where
  "client_decode body =
     rbind (read_u8 body 0) (\<lambda>(protocol_version, cursor).
     rbind (read_array X25519_PUB_LEN body cursor) (\<lambda>(client_eph_pub, cursor).
     rbind (read_array ED25519_PUB_LEN body cursor) (\<lambda>(client_id_pub, cursor).
     rbind (read_i64 body cursor) (\<lambda>(timestamp_us, cursor).
     rbind (read_u32_at body cursor) (\<lambda>(len, cursor).
       let name_len = unat len in
       if name_len > MAX_GATEWAY_NAME_LEN then Err (GatewayNameTooLong name_len)
       else if length body < cursor + name_len then Err TruncatedGatewayName
       else
         rbind (slice body cursor (cursor + name_len)) (\<lambda>name_bytes.
         rbind (ok_or GatewayNameNotUtf8 (from_utf8 name_bytes)) (\<lambda>gateway_name.
         rbind (read_array SIGNATURE_LENGTH body (cursor + name_len)) (\<lambda>(signature, cursor).
           if cursor \<noteq> length body then Err TrailingFrameBytes
           else Ok \<lparr>cf_protocol_version = protocol_version, cf_client_eph_pub = client_eph_pub,
                    cf_client_id_pub = client_id_pub, cf_timestamp_us = timestamp_us,
                    cf_gateway_name = gateway_name, cf_signature = signature\<rparr>))))))))"

definition new_server_frame :: "bytes \<Rightarrow> ServerHandshakeFrame" where
  "new_server_frame server_eph_pub =
     \<lparr>sf_protocol_version = PROTOCOL_VERSION, sf_server_eph_pub = server_eph_pub\<rparr>"

definition server_encode :: "ServerHandshakeFrame \<Rightarrow> bytes" where
  "server_encode f = prepend_length ([sf_protocol_version f] @ sf_server_eph_pub f)"

definition server_decode :: "bytes \<Rightarrow> (handshake_error, ServerHandshakeFrame) outcome" where
  "server_decode body =
     (if length body \<noteq> 1 + X25519_PUB_LEN then Err (UnexpectedLength (length body))
      else
        rbind (idx body 0) (\<lambda>protocol_version.
        rbind (slice_from body 1) (\<lambda>server_eph_pub.
          Ok \<lparr>sf_protocol_version = protocol_version, sf_server_eph_pub = server_eph_pub\<rparr>)))"

section \<open>The stream\<close>

text \<open>
  The socket during the handshake: what the peer sends before it stops (and whether a read
  past that is an io error or the end of the stream), what was written, and whether a write
  fails.
\<close>

record tcp_stream =
  ts_input :: bytes
  ts_input_error :: bool
  ts_output :: bytes
  ts_write_fails :: bool

definition write_handshake_frame ::
  "tcp_stream \<Rightarrow> bytes \<Rightarrow> (handshake_error, unit) outcome \<times> tcp_stream" where
  "write_handshake_frame s framed =
     (if ts_write_fails s then (Err HandshakeWriteError, s)
      else (Ok (), s\<lparr>ts_output := ts_output s @ framed\<rparr>))"

definition read_exact_or_eof :: "tcp_stream \<Rightarrow> nat \<Rightarrow> (handshake_error, bytes) outcome \<times> tcp_stream" where
  "read_exact_or_eof s n =
     (if n \<le> length (ts_input s)
      then (Ok (take n (ts_input s)), s\<lparr>ts_input := drop n (ts_input s)\<rparr>)
      else if ts_input_error s then (Err HandshakeReadError, s\<lparr>ts_input := []\<rparr>)
      else (Err PeerClosedHandshake, s\<lparr>ts_input := []\<rparr>))"

definition read_handshake_frame :: "tcp_stream \<Rightarrow> (handshake_error, bytes) outcome \<times> tcp_stream" where
  "read_handshake_frame s =
     (case read_exact_or_eof s 4 of
        (Ok len_buf, s1) \<Rightarrow>
          let len = unat (from_le_bytes len_buf :: u32) in
          if len = 0 \<or> len > MAX_HANDSHAKE_FRAME_LEN then (Err (FrameSizeOutOfRange len), s1)
          else read_exact_or_eof s1 len
      | (Err e, s1) \<Rightarrow> (Err e, s1)
      | (Panic, s1) \<Rightarrow> (Panic, s1))"

section \<open>The two sides\<close>

text \<open>
  \<open>'sk\<close>, \<open>'vk\<close>: signing and verifying keys; \<open>'xs\<close>: X25519 secrets; \<open>'k\<close>: the session key.
  \<open>cr_hkdf salt ikm info len\<close> is extract-and-expand, \<open>None\<close> when the length is refused.
\<close>

record ('sk, 'vk, 'xs, 'k) crypto =
  cr_sign :: "'sk \<Rightarrow> bytes \<Rightarrow> bytes"
  cr_verifying_key :: "'sk \<Rightarrow> 'vk"
  cr_vk_to_bytes :: "'vk \<Rightarrow> bytes"
  cr_vk_from_bytes :: "bytes \<Rightarrow> 'vk option"
  cr_verify :: "'vk \<Rightarrow> bytes \<Rightarrow> bytes \<Rightarrow> bool"
  cr_x_public :: "'xs \<Rightarrow> bytes"
  cr_diffie_hellman :: "'xs \<Rightarrow> bytes \<Rightarrow> bytes"
  cr_hkdf :: "bytes \<Rightarrow> bytes \<Rightarrow> bytes \<Rightarrow> nat \<Rightarrow> bytes option"
  cr_aes_new :: "bytes \<Rightarrow> 'k"

definition build_client_handshake ::
  "('sk, 'vk, 'xs, 'k) crypto \<Rightarrow> i64 \<Rightarrow> bytes \<Rightarrow> 'sk \<Rightarrow> string \<Rightarrow> ClientHandshakeFrame" where
  "build_client_handshake cr now client_eph_pub signing_key gateway_name =
     (let transcript = signed_transcript client_eph_pub now gateway_name in
      \<lparr>cf_protocol_version = PROTOCOL_VERSION, cf_client_eph_pub = client_eph_pub,
       cf_client_id_pub = cr_vk_to_bytes cr (cr_verifying_key cr signing_key),
       cf_timestamp_us = now, cf_gateway_name = gateway_name,
       cf_signature = cr_sign cr signing_key transcript\<rparr>)"

definition verify_signature ::
  "('sk, 'vk, 'xs, 'k) crypto \<Rightarrow> ClientHandshakeFrame \<Rightarrow> 'vk \<Rightarrow> (handshake_error, unit) outcome" where
  "verify_signature cr f verifying_key =
     (if cr_verify cr verifying_key
           (signed_transcript (cf_client_eph_pub f) (cf_timestamp_us f) (cf_gateway_name f))
           (cf_signature f)
      then Ok () else Err SignatureFailed)"

definition derive_session_key ::
  "('sk, 'vk, 'xs, 'k) crypto \<Rightarrow> bytes \<Rightarrow> bytes \<Rightarrow> bytes \<Rightarrow> (handshake_error, 'k) outcome" where
  "derive_session_key cr client_eph_pub server_eph_pub shared =
     (case cr_hkdf cr (client_eph_pub @ server_eph_pub) shared HKDF_INFO SESSION_KEY_LEN of
        None \<Rightarrow> Panic
      | Some okm \<Rightarrow> Ok (cr_aes_new cr okm))"

text \<open>
  \<open>i64\<close> arithmetic of a release build: the subtraction and \<open>abs\<close> wrap, the comparison is
  signed.
\<close>

definition i64_abs :: "i64 \<Rightarrow> i64" where
  "i64_abs x = (if sint x < 0 then - x else x)"

definition validate_timestamp :: "i64 \<Rightarrow> i64 \<Rightarrow> (handshake_error, unit) outcome" where
  "validate_timestamp now timestamp_us =
     (let diff_us = i64_abs (now - timestamp_us);
          tolerance_us = HANDSHAKE_TIMESTAMP_TOLERANCE_SECS * 1000000
      in if sint diff_us > sint tolerance_us then Err (TimestampDrifted diff_us) else Ok ())"

record 'k ServerHandshakeOutcome =
  ho_session_key :: 'k
  ho_gateway_name :: string
  ho_timestamp_us :: i64

text \<open>The checks of \<open>perform_server_handshake\<close> on the received body, in the order of the code.\<close>

definition check_client_frame ::
  "('sk, 'vk, 'xs, 'k) crypto \<Rightarrow> 'vk list \<Rightarrow> i64 \<Rightarrow> bytes \<Rightarrow> (handshake_error, ClientHandshakeFrame) outcome" where
  "check_client_frame cr authorized_keys now body =
     rbind (client_decode body) (\<lambda>client.
       if cf_protocol_version client \<noteq> PROTOCOL_VERSION
       then Err (UnsupportedVersion (cf_protocol_version client))
       else
         rbind (validate_timestamp now (cf_timestamp_us client)) (\<lambda>_.
         rbind (ok_or InvalidPublicKey (cr_vk_from_bytes cr (cf_client_id_pub client))) (\<lambda>verifying_key.
           if \<not> list_ex (\<lambda>k. cr_vk_to_bytes cr k = cr_vk_to_bytes cr verifying_key) authorized_keys
           then Err NotAuthorized
           else rbind (verify_signature cr client verifying_key) (\<lambda>_. Ok client))))"

definition perform_server_handshake ::
  "('sk, 'vk, 'xs, 'k) crypto \<Rightarrow> 'vk list \<Rightarrow> i64 \<Rightarrow> 'xs \<Rightarrow> tcp_stream
     \<Rightarrow> (handshake_error, 'k ServerHandshakeOutcome) outcome \<times> tcp_stream" where
  "perform_server_handshake cr authorized_keys now server_secret s =
     (case read_handshake_frame s of
        (Panic, s1) \<Rightarrow> (Panic, s1)
      | (Err e, s1) \<Rightarrow> (Err e, s1)
      | (Ok body, s1) \<Rightarrow>
          (case check_client_frame cr authorized_keys now body of
             Panic \<Rightarrow> (Panic, s1)
           | Err e \<Rightarrow> (Err e, s1)
           | Ok client \<Rightarrow>
               let server_pub = cr_x_public cr server_secret in
               (case write_handshake_frame s1 (server_encode (new_server_frame server_pub)) of
                  (Panic, s2) \<Rightarrow> (Panic, s2)
                | (Err e, s2) \<Rightarrow> (Err e, s2)
                | (Ok _, s2) \<Rightarrow>
                    let client_pub = cf_client_eph_pub client;
                        shared = cr_diffie_hellman cr server_secret client_pub
                    in (rbind (derive_session_key cr client_pub server_pub shared) (\<lambda>aes.
                          Ok \<lparr>ho_session_key = aes, ho_gateway_name = cf_gateway_name client,
                              ho_timestamp_us = cf_timestamp_us client\<rparr>), s2))))"

definition perform_client_handshake ::
  "('sk, 'vk, 'xs, 'k) crypto \<Rightarrow> 'sk \<Rightarrow> string \<Rightarrow> i64 \<Rightarrow> 'xs \<Rightarrow> tcp_stream
     \<Rightarrow> (handshake_error, 'k) outcome \<times> tcp_stream" where
  "perform_client_handshake cr signing_key gateway_name now eph_secret s =
     (let eph_pub = cr_x_public cr eph_secret;
          frame = build_client_handshake cr now eph_pub signing_key gateway_name
      in case write_handshake_frame s (client_encode frame) of
           (Panic, s1) \<Rightarrow> (Panic, s1)
         | (Err e, s1) \<Rightarrow> (Err e, s1)
         | (Ok _, s1) \<Rightarrow>
             (case read_handshake_frame s1 of
                (Panic, s2) \<Rightarrow> (Panic, s2)
              | (Err e, s2) \<Rightarrow> (Err e, s2)
              | (Ok server_body, s2) \<Rightarrow>
                  (rbind (server_decode server_body) (\<lambda>server.
                     if sf_protocol_version server \<noteq> PROTOCOL_VERSION
                     then Err (UnsupportedVersion (sf_protocol_version server))
                     else derive_session_key cr eph_pub (sf_server_eph_pub server)
                            (cr_diffie_hellman cr eph_secret (sf_server_eph_pub server))), s2)))"

section \<open>Opening a session\<close>

text \<open>
  \<open>handle_inbound\<close> of the server: a connection object (at the fresh address \<open>addr\<close>) exists and
  is registered only when the handshake succeeded. The clock is read at the handshake and
  again when the connection object is made.
\<close>

definition handle_inbound ::
  "('sk, 'vk, 'xs, 'k) crypto \<Rightarrow> 'vk list option \<Rightarrow> i64 \<Rightarrow> i64 \<Rightarrow> 'xs \<Rightarrow> nat \<Rightarrow> tcp_stream \<Rightarrow> tcp_gateway_inner
     \<Rightarrow> ('k \<times> gateway_connection) option \<times> tcp_gateway_inner" where
  "handle_inbound cr authorized_keys now created_at server_secret addr s t =
     (case authorized_keys of
        None \<Rightarrow> (None, t)
      | Some keys \<Rightarrow>
          (case perform_server_handshake cr keys now server_secret s of
             (Ok out, _) \<Rightarrow>
               let g = set_gateway_id (ho_gateway_name out)
                         (set_connection_timestamp (ho_timestamp_us out) (new_connection True created_at))
               in (Some (ho_session_key out, g), set_gateway_connection (ho_gateway_name out) (Some addr) t)
           | _ \<Rightarrow> (None, t)))"

text \<open>
  One turn of the client's \<open>connection_loop\<close> after the TCP connect, up to the ping loop: the
  handshake, the new connection, its registration, and the certificate sync request.
\<close>

definition client_session_start ::
  "('sk, 'vk, 'xs, 'k) crypto \<Rightarrow> 'sk \<Rightarrow> i64 \<Rightarrow> i64 \<Rightarrow> i64 \<Rightarrow> 'xs \<Rightarrow> nat \<Rightarrow> tcp_stream \<Rightarrow> tcp_gateway_inner
     \<Rightarrow> ('k \<times> gateway_connection) option \<times> tcp_gateway_inner" where
  "client_session_start cr signing_key now created_at connected_at eph_secret addr s t0 =
     (let t = set_gateway_connection (ti_gateway_id t0) None t0 in
      case perform_client_handshake cr signing_key (ti_gateway_id t) now eph_secret s of
        (Ok session_key, _) \<Rightarrow>
          let g = set_gateway_id (ti_gateway_id t)
                    (set_connection_timestamp connected_at (new_connection (ti_allow_incoming t) created_at));
              g1 = (if ti_sync_ssl t = [] then g
                    else snd (send_payload (SyncSslCertificatesRequest (ti_sync_ssl t)) g))
          in (Some (session_key, g1), set_gateway_connection (ti_gateway_id t) (Some addr) t)
      | _ \<Rightarrow> (None, t))"

text \<open>
  One turn of \<open>gateway_ping_loop\<close> after the three second pause; the flag says whether the loop
  goes on. \<open>incoming_sec\<close> is the age in full seconds of the last incoming payload.
\<close>

definition ping_step :: "int \<Rightarrow> gateway_connection \<Rightarrow> bool \<times> gateway_connection" where
  "ping_step incoming_sec g =
     (if incoming_sec > 9 then (False, disconnect_gateway g)
      else send_payload Ping g)"

section \<open>Codec lemmas\<close>

text \<open>The array types of the frame and the length bound of the name, which \<open>encode\<close> does not check.\<close>

definition client_frame_wf :: "ClientHandshakeFrame \<Rightarrow> bool" where
  "client_frame_wf f \<longleftrightarrow>
     length (cf_client_eph_pub f) = X25519_PUB_LEN \<and> length (cf_client_id_pub f) = ED25519_PUB_LEN \<and>
     length (cf_signature f) = SIGNATURE_LENGTH \<and> is_str (cf_gateway_name f) \<and>
     length (cf_gateway_name f) \<le> MAX_GATEWAY_NAME_LEN"

definition client_body :: "ClientHandshakeFrame \<Rightarrow> bytes" where
  "client_body f =
     [cf_protocol_version f] @ cf_client_eph_pub f @ cf_client_id_pub f @
     to_le_bytes 8 (cf_timestamp_us f) @ to_le_bytes 4 (of_nat (length (cf_gateway_name f)) :: u32) @
     as_bytes (cf_gateway_name f) @ cf_signature f"

lemma client_encode_body: "client_encode f = prepend_length (client_body f)"
  by (simp add: client_encode_def client_body_def)

lemma length_client_body:
  "client_frame_wf f \<Longrightarrow> length (client_body f) = 141 + length (cf_gateway_name f)"
  by (simp add: client_body_def client_frame_wf_def handshake_consts)

lemma read_array_Ok_iff:
  "read_array n buf c = Ok (out, c') \<longleftrightarrow> c + n \<le> length buf \<and> out = take n (drop c buf) \<and> c' = c + n"
  by (auto simp: read_array_def not_less)

lemma read_array_not_Panic [simp]: "read_array n buf c \<noteq> Panic"
  by (simp add: read_array_def not_less)

lemma client_decode_body: "client_frame_wf f \<Longrightarrow> client_decode (client_body f) = Ok f"
  by (simp add: client_decode_def client_body_def client_frame_wf_def handshake_consts read_u8_def
      read_array_def read_i64_def read_u32_at_def unat_of_nat Let_def drop_Cons')

lemma split_at: "n + k \<le> length xs \<Longrightarrow> drop n xs = take k (drop n xs) @ drop (n + k) xs"
  by (metis add.commute append_take_drop_id drop_drop)

lemma client_decode_Ok:
  assumes "client_decode body = Ok f"
  shows "client_frame_wf f \<and> client_body f = body"
proof -
  let ?len = "unat (from_le_bytes (take 4 (drop 73 body)) :: u32)"
  from assms have f: "77 + ?len + 64 = length body" "?len \<le> 256"
      "cf_protocol_version f = body ! 0" "cf_client_eph_pub f = take 32 (drop 1 body)"
      "cf_client_id_pub f = take 32 (drop 33 body)"
      "cf_timestamp_us f = from_le_bytes (take 8 (drop 65 body))"
      "cf_signature f = take 64 (drop (77 + ?len) body)"
      and utf: "from_utf8 (take ?len (drop 77 body)) = Some (cf_gateway_name f)"
    by (auto simp: client_decode_def read_u8_def read_i64_def read_u32_at_def rust_simps Let_def
        read_array_Ok_iff handshake_consts not_less split: if_splits)
  from from_utf8_Some [OF utf] f
  have name: "as_bytes (cf_gateway_name f) = take ?len (drop 77 body)" "is_str (cf_gateway_name f)"
    by auto
  from arg_cong [OF name(1), of length] f(1) have len: "length (cf_gateway_name f) = ?len"
    by simp
  have le4: "to_le_bytes 4 (from_le_bytes (take 4 (drop 73 body)) :: u32) = take 4 (drop 73 body)"
    and le8: "to_le_bytes 8 (from_le_bytes (take 8 (drop 65 body)) :: i64) = take 8 (drop 65 body)"
    using f(1) to_from_le_bytes [of "take 4 (drop 73 body)", where 'a = 32]
      to_from_le_bytes [of "take 8 (drop 65 body)", where 'a = 64] by simp_all
  have "body = [body ! 0] @ drop 1 body"
    using f(1) by (cases body) auto
  also have "drop 1 body = take 32 (drop 1 body) @ take 32 (drop 33 body) @ take 8 (drop 65 body) @
      take 4 (drop 73 body) @ take ?len (drop 77 body) @ take 64 (drop (77 + ?len) body)"
    using f(1) split_at [of 1 32 body] split_at [of 33 32 body] split_at [of 65 8 body]
      split_at [of 73 4 body] split_at [of 77 ?len body] by simp
  finally show ?thesis
    using f name len le4 le8 by (simp add: client_frame_wf_def client_body_def handshake_consts)
qed

section \<open>Signed 64-bit arithmetic\<close>

lemma sint_i64_range: "- 9223372036854775808 \<le> sint (x :: i64)" "sint (x :: i64) < 9223372036854775808"
  using sint_ge [of x] sint_lt [of x] by simp_all

lemma signed_wrap_64: "- 9223372036854775808 \<le> x \<Longrightarrow> x < 9223372036854775808 \<Longrightarrow> signed_take_bit 63 (x :: int) = x"
  by (rule signed_take_bit_int_eq_self) simp_all

lemma sint_diff_i64:
  "sint (a - b :: i64) = signed_take_bit 63 (sint a - sint b)"
  by (simp add: sint_word_ariths)

lemma signed_wrap_64_down:
  assumes "9223372036854775808 \<le> x" and "x < 27670116110564327424"
  shows "signed_take_bit 63 (x :: int) = x - 18446744073709551616"
proof -
  have "signed_take_bit 63 x = signed_take_bit 63 (x - 18446744073709551616)"
    by (rule signed_take_bit_eq_iff_take_bit_eq [THEN iffD2])
       (simp add: take_bit_eq_mod mod_diff_eq [of x _ 18446744073709551616, symmetric])
  then show ?thesis using assms signed_wrap_64 [of "x - 18446744073709551616"] by simp
qed

lemma sint_i64_abs:
  "sint (i64_abs x) = (if sint x = - 9223372036854775808 then - 9223372036854775808 else \<bar>sint x\<bar>)"
proof (cases "sint x < 0")
  case True
  have "sint (- x) = signed_take_bit 63 (- sint x)"
    by (simp add: sint_word_ariths)
  with True show ?thesis
    using sint_i64_range [of x] signed_wrap_64 [of "- sint x"] signed_wrap_64_down [of "- sint x"]
    by (auto simp: i64_abs_def)
qed (use sint_i64_range [of x] in \<open>auto simp: i64_abs_def\<close>)

lemma validate_timestamp_Ok:
  "validate_timestamp now ts = Ok () \<longleftrightarrow>
     \<bar>sint (now - ts)\<bar> \<le> 60000000 \<or> sint (now - ts) = - 9223372036854775808"
  by (auto simp: validate_timestamp_def Let_def HANDSHAKE_TIMESTAMP_TOLERANCE_SECS_def sint_i64_abs)

lemma client_decode_not_Panic: "client_decode body \<noteq> Panic"
  by (auto simp: client_decode_def read_u8_def read_i64_def read_u32_at_def rust_simps Let_def
      not_less split: if_splits)

lemma prepend_length_inject [simp]: "prepend_length a = prepend_length b \<longleftrightarrow> a = b"
  by (auto simp: prepend_length_def dest: arg_cong [where f = "drop 4"])

section \<open>Handshake lemmas\<close>

lemma read_frame_prepend:
  assumes "body \<noteq> []" and "length body \<le> MAX_HANDSHAKE_FRAME_LEN"
  shows "read_handshake_frame (s\<lparr>ts_input := prepend_length body @ rest\<rparr>) = (Ok body, s\<lparr>ts_input := rest\<rparr>)"
  using assms
  by (simp add: read_handshake_frame_def read_exact_or_eof_def prepend_length_def Let_def unat_of_nat
      handshake_consts)

lemma server_decode_body:
  "length eph = X25519_PUB_LEN \<Longrightarrow>
   server_decode (v # eph) = Ok \<lparr>sf_protocol_version = v, sf_server_eph_pub = eph\<rparr>"
  by (simp add: server_decode_def)

lemma authorized_iff: "list_ex (\<lambda>k. g k = v) ks \<longleftrightarrow> v \<in> g ` set ks"
  by (auto simp: list_ex_iff)

lemma check_client_frame_Ok:
  "check_client_frame cr keys now body = Ok f \<longleftrightarrow>
     client_decode body = Ok f \<and> cf_protocol_version f = PROTOCOL_VERSION \<and>
     validate_timestamp now (cf_timestamp_us f) = Ok () \<and>
     (\<exists>vk. cr_vk_from_bytes cr (cf_client_id_pub f) = Some vk \<and>
        cr_vk_to_bytes cr vk \<in> cr_vk_to_bytes cr ` set keys \<and>
        cr_verify cr vk (signed_transcript (cf_client_eph_pub f) (cf_timestamp_us f) (cf_gateway_name f))
          (cf_signature f))"
  by (auto simp: check_client_frame_def rust_simps verify_signature_def authorized_iff split: if_splits)

lemma perform_server_handshake_Ok:
  assumes "perform_server_handshake cr keys now secret s = (Ok out, s')"
  obtains body s1 f where "read_handshake_frame s = (Ok body, s1)" "check_client_frame cr keys now body = Ok f"
    "write_handshake_frame s1 (server_encode (new_server_frame (cr_x_public cr secret))) = (Ok (), s')"
    "derive_session_key cr (cf_client_eph_pub f) (cr_x_public cr secret)
       (cr_diffie_hellman cr secret (cf_client_eph_pub f)) = Ok (ho_session_key out)"
    "ho_gateway_name out = cf_gateway_name f" "ho_timestamp_us out = cf_timestamp_us f"
  using assms
  by (auto simp: perform_server_handshake_def Let_def rust_simps split: prod.splits outcome.splits)

lemma read_handshake_frame_Ok:
  "read_handshake_frame s = (Ok body, s1) \<Longrightarrow> \<exists>rest. s1 = s\<lparr>ts_input := rest\<rparr>"
  by (auto simp: read_handshake_frame_def read_exact_or_eof_def Let_def split: if_splits)

text \<open>
  What the handshake relies on of Ed25519, X25519 and HKDF: a key's signatures verify under it, keys survive
  their encoding, the agreement commutes, keys and signatures have their lengths, and a 48 byte
  key is within what HKDF-SHA256 expands.
\<close>

definition crypto_laws :: "('sk, 'vk, 'xs, 'k) crypto \<Rightarrow> bool" where
  "crypto_laws cr \<longleftrightarrow>
     (\<forall>sk m. cr_verify cr (cr_verifying_key cr sk) m (cr_sign cr sk m)) \<and>
     (\<forall>sk m. length (cr_sign cr sk m) = SIGNATURE_LENGTH) \<and>
     (\<forall>vk. cr_vk_from_bytes cr (cr_vk_to_bytes cr vk) = Some vk) \<and>
     (\<forall>vk. length (cr_vk_to_bytes cr vk) = ED25519_PUB_LEN) \<and>
     (\<forall>x. length (cr_x_public cr x) = X25519_PUB_LEN) \<and>
     (\<forall>x y. cr_diffie_hellman cr x (cr_x_public cr y) = cr_diffie_hellman cr y (cr_x_public cr x)) \<and>
     (\<forall>salt ikm info. cr_hkdf cr salt ikm info SESSION_KEY_LEN \<noteq> None)"

definition hello :: "('sk, 'vk, 'xs, 'k) crypto \<Rightarrow> 'sk \<Rightarrow> string \<Rightarrow> i64 \<Rightarrow> 'xs \<Rightarrow> bytes" where
  "hello cr sk name now x = client_encode (build_client_handshake cr now (cr_x_public cr x) sk name)"

lemma built_frame_wf:
  "crypto_laws cr \<Longrightarrow> is_str name \<Longrightarrow> length name \<le> MAX_GATEWAY_NAME_LEN \<Longrightarrow>
   client_frame_wf (build_client_handshake cr now (cr_x_public cr x) sk name)"
  by (simp add: client_frame_wf_def build_client_handshake_def crypto_laws_def)

lemma derive_total:
  "crypto_laws cr \<Longrightarrow> \<exists>key. derive_session_key cr a b c = Ok key"
  by (auto simp: crypto_laws_def derive_session_key_def split: option.splits)

lemma server_accepts_hello:
  assumes "crypto_laws cr" "is_str name" "length name \<le> MAX_GATEWAY_NAME_LEN"
    "cr_verifying_key cr sk \<in> set keys" "validate_timestamp now_s now_c = Ok ()"
    "\<not> ts_write_fails ss"
  obtains key where
    "derive_session_key cr (cr_x_public cr xc) (cr_x_public cr xs) (cr_diffie_hellman cr xs (cr_x_public cr xc)) = Ok key"
    "perform_server_handshake cr keys now_s xs (ss\<lparr>ts_input := hello cr sk name now_c xc @ rest\<rparr>) =
     (Ok \<lparr>ho_session_key = key, ho_gateway_name = name, ho_timestamp_us = now_c\<rparr>,
      ss\<lparr>ts_input := rest, ts_output := ts_output ss @ server_encode (new_server_frame (cr_x_public cr xs))\<rparr>)"
proof -
  let ?f = "build_client_handshake cr now_c (cr_x_public cr xc) sk name"
  from assms have wf: "client_frame_wf ?f" by (simp add: built_frame_wf)
  then have len: "client_body ?f \<noteq> []" "length (client_body ?f) \<le> MAX_HANDSHAKE_FRAME_LEN"
    using length_client_body [OF wf] assms(3)
    by (auto simp: handshake_consts build_client_handshake_def client_body_def)
  have "check_client_frame cr keys now_s (client_body ?f) = Ok ?f"
    unfolding check_client_frame_Ok using assms client_decode_body [OF wf]
    by (auto simp: crypto_laws_def build_client_handshake_def Let_def)
  moreover have "read_handshake_frame (ss\<lparr>ts_input := hello cr sk name now_c xc @ rest\<rparr>) =
      (Ok (client_body ?f), ss\<lparr>ts_input := rest\<rparr>)"
    using len by (simp add: hello_def client_encode_body read_frame_prepend)
  moreover from derive_total [OF assms(1)] obtain key where
    "derive_session_key cr (cr_x_public cr xc) (cr_x_public cr xs) (cr_diffie_hellman cr xs (cr_x_public cr xc)) = Ok key"
    by blast
  ultimately show ?thesis using assms(6)
    by (intro that) (auto simp: perform_server_handshake_def write_handshake_frame_def Let_def
        build_client_handshake_def)
qed

text \<open>A concrete instance of the laws, for the examples.\<close>

definition toy_crypto :: "(u8, u8, u8, bytes) crypto" where
  "toy_crypto =
     \<lparr>cr_sign = (\<lambda>sk m. sk # replicate 63 0), cr_verifying_key = (\<lambda>sk. sk),
      cr_vk_to_bytes = (\<lambda>vk. vk # replicate 31 0), cr_vk_from_bytes = (\<lambda>bs. Some (hd bs)),
      cr_verify = (\<lambda>vk m sig. hd sig = vk), cr_x_public = (\<lambda>x. x # replicate 31 0),
      cr_diffie_hellman = (\<lambda>x p. [x * hd p]), cr_hkdf = (\<lambda>salt ikm info n. Some (take n (salt @ ikm))),
      cr_aes_new = (\<lambda>k. k)\<rparr>"

lemma toy_crypto_laws: "crypto_laws toy_crypto"
  by (simp add: crypto_laws_def toy_crypto_def handshake_consts mult.commute)

definition toy_stream0 :: tcp_stream where
  "toy_stream0 = \<lparr>ts_input = [], ts_input_error = False, ts_output = [], ts_write_fails = False\<rparr>"

definition toy_stream :: tcp_stream where
  "toy_stream = toy_stream0\<lparr>ts_input := hello toy_crypto 7 ''gw'' 0 5\<rparr>"

definition toy_inner :: tcp_gateway_inner where
  "toy_inner = \<lparr>ti_gateway_id = ''s'', ti_running = True, ti_connections = Map.empty,
     ti_allow_incoming = True, ti_sync_ssl = [], ti_compress = False\<rparr>"

section \<open>Properties\<close>

text \<open>
  C31. Codec of the client's handshake frame: decoding a body never panics, and it yields the
  frame \<open>f\<close> exactly when \<open>f\<close> satisfies the array lengths, the UTF-8 and the length bound of the
  name, and the body is the one \<open>encode\<close> produces for \<open>f\<close>. So decoding inverts encoding and no
  frame has two encodings.
\<close>

theorem client_frame_codec:
  "client_decode body \<noteq> Panic \<and>
   (client_decode body = Ok f \<longleftrightarrow> client_frame_wf f \<and> client_encode f = prepend_length body)"
  using client_decode_Ok [of body f] client_decode_body [of f] client_decode_not_Panic [of body]
  by (auto simp: client_encode_body)

text \<open>
  C15. Only an authenticated peer gets a session: when \<open>handle_inbound\<close> makes a connection or
  touches the registry, the peer's first frame decoded to a version 1 frame whose time stamp
  passed the freshness check, whose identity key is an authorised one, and whose signature
  verifies over its own ephemeral key, time stamp and gateway name. The connection then has
  that name and time stamp, and the registry changes only at that name.
\<close>

theorem inbound_authenticated:
  assumes "snd (handle_inbound cr keys now created_at secret addr s t) \<noteq> t \<or>
      fst (handle_inbound cr keys now created_at secret addr s t) \<noteq> None"
  shows "\<exists>ks f body vk key.
    keys = Some ks \<and> fst (read_handshake_frame s) = Ok body \<and> client_decode body = Ok f \<and>
    cf_protocol_version f = PROTOCOL_VERSION \<and> validate_timestamp now (cf_timestamp_us f) = Ok () \<and>
    cr_vk_from_bytes cr (cf_client_id_pub f) = Some vk \<and>
    cr_vk_to_bytes cr vk \<in> cr_vk_to_bytes cr ` set ks \<and>
    cr_verify cr vk (signed_transcript (cf_client_eph_pub f) (cf_timestamp_us f) (cf_gateway_name f))
      (cf_signature f) \<and>
    handle_inbound cr keys now created_at secret addr s t =
      (Some (key, set_gateway_id (cf_gateway_name f)
         (set_connection_timestamp (cf_timestamp_us f) (new_connection True created_at))),
       set_gateway_connection (cf_gateway_name f) (Some addr) t)"
proof -
  from assms obtain ks out s' where keys: "keys = Some ks"
    and hs: "perform_server_handshake cr ks now secret s = (Ok out, s')"
    by (auto simp: handle_inbound_def split: option.splits prod.splits outcome.splits)
  from hs show ?thesis
  proof (rule perform_server_handshake_Ok)
    fix body s1 f
    assume "read_handshake_frame s = (Ok body, s1)" "check_client_frame cr ks now body = Ok f"
      "ho_gateway_name out = cf_gateway_name f" "ho_timestamp_us out = cf_timestamp_us f"
    then show ?thesis using keys hs
      by (auto simp: check_client_frame_Ok handle_inbound_def intro!: exI [of _ f])
  qed
qed

theorem inbound_authenticated_witness:
  "\<exists>ks f body vk key.
    Some [7] = Some ks \<and> fst (read_handshake_frame toy_stream) = Ok body \<and> client_decode body = Ok f \<and>
    cf_protocol_version f = PROTOCOL_VERSION \<and> validate_timestamp 0 (cf_timestamp_us f) = Ok () \<and>
    cr_vk_from_bytes toy_crypto (cf_client_id_pub f) = Some vk \<and>
    cr_vk_to_bytes toy_crypto vk \<in> cr_vk_to_bytes toy_crypto ` set ks \<and>
    cr_verify toy_crypto vk
      (signed_transcript (cf_client_eph_pub f) (cf_timestamp_us f) (cf_gateway_name f)) (cf_signature f) \<and>
    handle_inbound toy_crypto (Some [7]) 0 0 3 1 toy_stream toy_inner =
      (Some (key, set_gateway_id (cf_gateway_name f)
         (set_connection_timestamp (cf_timestamp_us f) (new_connection True 0))),
       set_gateway_connection (cf_gateway_name f) (Some 1) toy_inner)"
proof (rule inbound_authenticated)
  have "\<exists>out s'. perform_server_handshake toy_crypto [7] 0 3 toy_stream = (Ok out, s')"
    by (rule server_accepts_hello [OF toy_crypto_laws, of "''gw''" 7 "[7]" 0 0 toy_stream0 5 3 "[]"])
       (auto simp: toy_stream_def toy_stream0_def toy_crypto_def validate_timestamp_Ok is_str_def
          as_bytes_def MAX_GATEWAY_NAME_LEN_def)
  then show "snd (handle_inbound toy_crypto (Some [7]) 0 0 3 1 toy_stream toy_inner) \<noteq> toy_inner \<or>
      fst (handle_inbound toy_crypto (Some [7]) 0 0 3 1 toy_stream toy_inner) \<noteq> None"
    by (auto simp: handle_inbound_def)
qed

text \<open>
  C16. Agreement: with a client whose key the server authorises, clocks the freshness check
  accepts, a name within the bound and no io error, the server accepts the client's frame and
  the client accepts the server's reply; both derive the same session key, the server learns
  the client's gateway name and time stamp, and both streams are fully consumed.
\<close>

theorem handshake_agreement:
  assumes "crypto_laws cr" and "is_str name" and "length name \<le> MAX_GATEWAY_NAME_LEN"
    and "cr_verifying_key cr sk \<in> set keys" and "validate_timestamp now_s now_c = Ok ()"
    and "\<not> ts_write_fails ss" and "\<not> ts_write_fails cs"
  shows "\<exists>key reply.
    perform_server_handshake cr keys now_s xs (ss\<lparr>ts_input := hello cr sk name now_c xc\<rparr>) =
      (Ok \<lparr>ho_session_key = key, ho_gateway_name = name, ho_timestamp_us = now_c\<rparr>,
       ss\<lparr>ts_input := [], ts_output := ts_output ss @ reply\<rparr>) \<and>
    perform_client_handshake cr sk name now_c xc (cs\<lparr>ts_input := reply\<rparr>) =
      (Ok key, cs\<lparr>ts_input := [], ts_output := ts_output cs @ hello cr sk name now_c xc\<rparr>)"
proof -
  from server_accepts_hello [OF assms(1-6), of xc xs "[]"] obtain key where key:
    "derive_session_key cr (cr_x_public cr xc) (cr_x_public cr xs) (cr_diffie_hellman cr xs (cr_x_public cr xc)) = Ok key"
    "perform_server_handshake cr keys now_s xs (ss\<lparr>ts_input := hello cr sk name now_c xc\<rparr>) =
     (Ok \<lparr>ho_session_key = key, ho_gateway_name = name, ho_timestamp_us = now_c\<rparr>,
      ss\<lparr>ts_input := [], ts_output := ts_output ss @ server_encode (new_server_frame (cr_x_public cr xs))\<rparr>)"
    by auto
  let ?eph = "cr_x_public cr xs"
  have eph: "length ?eph = X25519_PUB_LEN" and
    dh: "cr_diffie_hellman cr xc ?eph = cr_diffie_hellman cr xs (cr_x_public cr xc)"
    using assms(1) by (auto simp: crypto_laws_def)
  have read: "read_handshake_frame (cs\<lparr>ts_input := server_encode (new_server_frame ?eph), ts_output := out\<rparr>) =
      (Ok (PROTOCOL_VERSION # ?eph), cs\<lparr>ts_input := [], ts_output := out\<rparr>)" for out
    using eph read_frame_prepend [where body = "PROTOCOL_VERSION # ?eph" and s = "cs\<lparr>ts_output := out\<rparr>" and rest = "[]"]
    by (cases cs) (simp add: server_encode_def new_server_frame_def handshake_consts)
  have "perform_client_handshake cr sk name now_c xc (cs\<lparr>ts_input := server_encode (new_server_frame ?eph)\<rparr>) =
      (Ok key, cs\<lparr>ts_input := [], ts_output := ts_output cs @ hello cr sk name now_c xc\<rparr>)"
    using assms(7) key(1) eph read
    by (simp add: perform_client_handshake_def write_handshake_frame_def Let_def server_decode_body
        dh hello_def)
  with key(2) show ?thesis by blast
qed

theorem handshake_agreement_witness:
  "\<exists>key reply.
    perform_server_handshake toy_crypto [7] 5 3 (toy_stream0\<lparr>ts_input := hello toy_crypto 7 ''gw'' 0 5\<rparr>) =
      (Ok \<lparr>ho_session_key = key, ho_gateway_name = ''gw'', ho_timestamp_us = 0\<rparr>,
       toy_stream0\<lparr>ts_input := [], ts_output := ts_output toy_stream0 @ reply\<rparr>) \<and>
    perform_client_handshake toy_crypto 7 ''gw'' 0 5 (toy_stream0\<lparr>ts_input := reply\<rparr>) =
      (Ok key, toy_stream0\<lparr>ts_input := [], ts_output := ts_output toy_stream0 @ hello toy_crypto 7 ''gw'' 0 5\<rparr>)"
  by (rule handshake_agreement [OF toy_crypto_laws])
     (auto simp: toy_stream0_def toy_crypto_def validate_timestamp_Ok is_str_def as_bytes_def
        MAX_GATEWAY_NAME_LEN_def)

text \<open>
  C32. The freshness check on 64-bit machine arithmetic, for a clock before the year 148000: a
  time stamp is accepted exactly when it is within 60 seconds of the clock, or is the one value
  \<open>2^63\<close> microseconds before it, whose difference overflows \<open>abs\<close> and stays negative.
\<close>

theorem timestamp_window:
  assumes "0 \<le> sint now" and "sint now < 2 ^ 62"
  shows "validate_timestamp now ts = Ok () \<longleftrightarrow>
    \<bar>sint now - sint ts\<bar> \<le> 60 * 1000000 \<or> sint ts = sint now - 2 ^ 63"
proof (cases "sint now - sint ts < 9223372036854775808")
  case True
  with assms sint_i64_range [of ts] show ?thesis
    by (auto simp: validate_timestamp_Ok sint_diff_i64 signed_wrap_64)
next
  case False
  with assms sint_i64_range [of ts] have "sint (now - ts) = sint now - sint ts - 18446744073709551616"
    by (auto simp: sint_diff_i64 signed_wrap_64_down)
  with False assms sint_i64_range [of ts] show ?thesis
    by (auto simp: validate_timestamp_Ok)
qed

theorem timestamp_window_witness:
  "validate_timestamp 1700000000000000 (1700000000000000 - 2 ^ 63) = Ok () \<and>
   validate_timestamp 1700000000000000 1700000060000001 \<noteq> Ok ()"
  using timestamp_window [of 1700000000000000 "1700000000000000 - 2 ^ 63"]
    timestamp_window [of 1700000000000000 1700000060000001]
  by simp

end
