(* ===== verification/Gateway_Writer.thy ===== *)
theory Gateway_Writer
  imports Gateway_Connection "HOL-Library.Sublist"
begin

text \<open>
  The writer tasks of a gateway session: \<open>gateway_write_loop\<close>
  (\<open>src/src/tcp_gateway/session/write_loop.rs\<close>) and \<open>raw_write_loop\<close>
  (\<open>session/raw_write_loop.rs\<close>). Both are the same machine over a batch encoder: messages
  collect in \<open>buffer\<close> while a write is in flight, a flush encodes the whole buffer. The
  \<open>select!\<close> of the source is an event, so every order of arrivals, completions and failures is
  a run of the machine. What the machine needs of the encoder is the locale \<open>batch_writer\<close>,
  interpreted on both encoders of the source.
\<close>

section \<open>The machine\<close>

text \<open>
  \<open>wr_rx\<close> is the channel, \<open>wr_tx_open\<close> whether a sender is left, \<open>wr_fut\<close> the bytes of the write
  in flight, \<open>wr_socket\<close> what the socket took.
\<close>

record writer =
  wr_rx :: "bytes list"
  wr_tx_open :: bool
  wr_buffer :: bytes
  wr_fut :: "bytes option"
  wr_socket :: bytes
  wr_running :: bool
  wr_shut :: bool

definition new_writer :: writer where
  "new_writer = \<lparr>wr_rx = [], wr_tx_open = True, wr_buffer = [], wr_fut = None, wr_socket = [],
                 wr_running = True, wr_shut = False\<rparr>"

text \<open>
  An event of the \<open>select!\<close>: the channel is ready, or the write completed, with \<open>Some k\<close> when it
  failed after \<open>k\<close> bytes.
\<close>

datatype write_event = Recv | WriteReady "nat option"

definition writer_flush :: "(bytes \<Rightarrow> bytes) \<Rightarrow> writer \<Rightarrow> writer" where
  "writer_flush build w =
     (if wr_fut w = None \<and> wr_buffer w \<noteq> []
      then w\<lparr>wr_fut := Some (build (wr_buffer w)), wr_buffer := []\<rparr> else w)"

definition complete_write :: "nat option \<Rightarrow> writer \<Rightarrow> writer" where
  "complete_write r w =
     (case wr_fut w of
        None \<Rightarrow> w
      | Some wire \<Rightarrow>
          w\<lparr>wr_fut := None,
            wr_socket := wr_socket w @ (case r of None \<Rightarrow> wire | Some k \<Rightarrow> take k wire)\<rparr>)"

fun writer_select :: "write_event \<Rightarrow> writer \<Rightarrow> writer" where
  "writer_select Recv w =
     (case wr_rx w of
        payload # rest \<Rightarrow> w\<lparr>wr_rx := rest, wr_buffer := wr_buffer w @ payload\<rparr>
      | [] \<Rightarrow> if wr_tx_open w then w else w\<lparr>wr_running := False\<rparr>)"
| "writer_select (WriteReady r) w =
     (if wr_fut w = None then w
      else
        let w1 = complete_write r w
        in if r \<noteq> None then w1\<lparr>wr_running := False\<rparr> else w1)"

definition gateway_write_turn :: "(bytes \<Rightarrow> bytes) \<Rightarrow> write_event \<Rightarrow> writer \<Rightarrow> writer" where
  "gateway_write_turn build ev w = writer_select ev (writer_flush build w)"

text \<open>After the loop: the write still in flight is awaited, its result ignored, the socket shut down.\<close>

definition gateway_write_exit :: "nat option \<Rightarrow> writer \<Rightarrow> writer" where
  "gateway_write_exit r w = (complete_write r w)\<lparr>wr_shut := True\<rparr>"

text \<open>The raw writer flushes its buffer unchanged.\<close>

definition raw_wire :: "bytes \<Rightarrow> bytes" where
  "raw_wire batch = batch"

text \<open>
  Runs. \<open>writer_run build enc ms failed w\<close>: the producers put the messages \<open>ms\<close> on the channel, in
  this order, \<open>failed\<close> says whether some write failed, and the machine is in state \<open>w\<close>.
\<close>

inductive writer_run ::
  "(bytes \<Rightarrow> bytes) \<Rightarrow> ('m \<Rightarrow> bytes) \<Rightarrow> 'm list \<Rightarrow> bool \<Rightarrow> writer \<Rightarrow> bool" for build enc where
  start: "writer_run build enc [] False new_writer"
| produce: "writer_run build enc ms e w \<Longrightarrow> wr_tx_open w \<Longrightarrow> length (wr_rx w) < WRITE_CHANNEL_CAPACITY \<Longrightarrow>
    writer_run build enc (ms @ [m]) e (w\<lparr>wr_rx := wr_rx w @ [enc m]\<rparr>)"
| close: "writer_run build enc ms e w \<Longrightarrow> writer_run build enc ms e (w\<lparr>wr_tx_open := False\<rparr>)"
| recv: "writer_run build enc ms e w \<Longrightarrow> wr_running w \<Longrightarrow>
    writer_run build enc ms e (gateway_write_turn build Recv w)"
| written: "writer_run build enc ms e w \<Longrightarrow> wr_running w \<Longrightarrow> wr_fut (writer_flush build w) \<noteq> None \<Longrightarrow>
    writer_run build enc ms (e \<or> r \<noteq> None) (gateway_write_turn build (WriteReady r) w)"
| exit: "writer_run build enc ms e w \<Longrightarrow> \<not> wr_running w \<Longrightarrow> \<not> wr_shut w \<Longrightarrow>
    writer_run build enc ms (e \<or> (wr_fut w \<noteq> None \<and> r \<noteq> None)) (gateway_write_exit r w)"

section \<open>What the writer keeps\<close>

text \<open>
  Every accepted message is written, in flight, buffered or on the channel, in this order, as
  long as no write failed; after a failure what the socket took is a prefix.
\<close>

definition tracks :: "('m \<Rightarrow> bytes) \<Rightarrow> ('m \<Rightarrow> bytes) \<Rightarrow> 'm list \<Rightarrow> writer \<Rightarrow> bool" where
  "tracks enc wire ms w \<longleftrightarrow>
     (\<exists>done flight pend queue. ms = done @ flight @ pend @ queue \<and>
        wr_socket w = concat (map wire done) \<and>
        (case wr_fut w of None \<Rightarrow> flight = [] | Some x \<Rightarrow> x = concat (map wire flight)) \<and>
        wr_buffer w = concat (map enc pend) \<and> wr_rx w = map enc queue \<and>
        (\<not> wr_running w \<longrightarrow> queue = [] \<and> \<not> wr_tx_open w))"

definition writer_inv :: "('m \<Rightarrow> bytes) \<Rightarrow> ('m \<Rightarrow> bytes) \<Rightarrow> 'm list \<Rightarrow> bool \<Rightarrow> writer \<Rightarrow> bool" where
  "writer_inv enc wire ms e w \<longleftrightarrow>
     prefix (wr_socket w) (concat (map wire ms)) \<and> (\<not> e \<longrightarrow> tracks enc wire ms w) \<and>
     (e \<or> wr_shut w \<longrightarrow> wr_fut w = None \<and> \<not> wr_running w)"

lemma tracksI:
  assumes "ms = dn @ flight @ pend @ queue" and "wr_socket w = concat (map wire dn)"
    and "case wr_fut w of None \<Rightarrow> flight = [] | Some x \<Rightarrow> x = concat (map wire flight)"
    and "wr_buffer w = concat (map enc pend)" and "wr_rx w = map enc queue"
    and "\<not> wr_running w \<Longrightarrow> queue = [] \<and> \<not> wr_tx_open w"
  shows "tracks enc wire ms w"
  using assms unfolding tracks_def by blast

lemma tracksE:
  assumes "tracks enc wire ms w"
  obtains dn flight pend queue where "ms = dn @ flight @ pend @ queue" "wr_socket w = concat (map wire dn)"
    "case wr_fut w of None \<Rightarrow> flight = [] | Some x \<Rightarrow> x = concat (map wire flight)"
    "wr_buffer w = concat (map enc pend)" "wr_rx w = map enc queue"
    "\<not> wr_running w \<longrightarrow> queue = [] \<and> \<not> wr_tx_open w"
  using assms unfolding tracks_def by blast

lemma tracks_prefix: "tracks enc wire ms w \<Longrightarrow> prefix (wr_socket w) (concat (map wire ms))"
  by (erule tracksE) simp

lemma tracks_produce:
  "tracks enc wire ms w \<Longrightarrow> wr_tx_open w \<Longrightarrow> tracks enc wire (ms @ [m]) (w\<lparr>wr_rx := wr_rx w @ [enc m]\<rparr>)"
  by (erule tracksE) (rule tracksI [where queue = "_ @ [m]"], auto)

lemma tracks_close: "tracks enc wire ms w \<Longrightarrow> tracks enc wire ms (w\<lparr>wr_tx_open := False\<rparr>)"
  by (erule tracksE) (rule tracksI, auto)

lemma tracks_recv: "tracks enc wire ms w \<Longrightarrow> wr_running w \<Longrightarrow> tracks enc wire ms (writer_select Recv w)"
proof (erule tracksE)
  fix dn flight pend queue
  assume *: "ms = dn @ flight @ pend @ queue" "wr_socket w = concat (map wire dn)"
    "case wr_fut w of None \<Rightarrow> flight = [] | Some x \<Rightarrow> x = concat (map wire flight)"
    "wr_buffer w = concat (map enc pend)" "wr_rx w = map enc queue" and run: "wr_running w"
  show ?thesis
  proof (cases queue)
    case Nil
    with * run show ?thesis
      by (intro tracksI [of _ dn flight pend "[]"]) (auto split: if_splits)
  next
    case (Cons m queue')
    with * run show ?thesis
      by (intro tracksI [of _ dn flight "pend @ [m]" queue']) auto
  qed
qed

lemma tracks_complete:
  assumes "tracks enc wire ms w"
  shows "tracks enc wire ms (complete_write None w)"
  using assms
proof (rule tracksE)
  fix dn flight pend queue
  assume "ms = dn @ flight @ pend @ queue" "wr_socket w = concat (map wire dn)"
    "case wr_fut w of None \<Rightarrow> flight = [] | Some x \<Rightarrow> x = concat (map wire flight)"
    "wr_buffer w = concat (map enc pend)" "wr_rx w = map enc queue"
    "\<not> wr_running w \<longrightarrow> queue = [] \<and> \<not> wr_tx_open w"
  then show ?thesis
    by (intro tracksI [of _ "dn @ flight" "[]" pend queue])
       (auto simp: complete_write_def split: option.splits)
qed

lemma tracks_fail: "tracks enc wire ms w \<Longrightarrow> prefix (wr_socket (complete_write r w)) (concat (map wire ms))"
  by (erule tracksE)
     (auto simp: complete_write_def take_is_prefix prefix_order.trans [OF take_is_prefix] split: option.splits)

lemma writer_simps [simp]:
  "wr_running (writer_flush build w) = wr_running w" "wr_shut (writer_flush build w) = wr_shut w"
  "wr_running (complete_write r w) = wr_running w" "wr_shut (complete_write r w) = wr_shut w"
  "wr_fut (complete_write r w) = None"
  by (auto simp: writer_flush_def complete_write_def split: option.splits)

lemma tracks_cong:
  "tracks enc wire ms (w\<lparr>wr_shut := b\<rparr>) = tracks enc wire ms w"
  by (simp add: tracks_def)

locale batch_writer =
  fixes build :: "bytes \<Rightarrow> bytes" and enc :: "'m \<Rightarrow> bytes" and wire :: "'m \<Rightarrow> bytes" and ok :: "'m \<Rightarrow> bool"
  assumes build_batch: "list_all ok ms \<Longrightarrow> build (concat (map enc ms)) = concat (map wire ms)"
begin

lemma tracks_flush:
  assumes "tracks enc wire ms w" and "list_all ok ms"
  shows "tracks enc wire ms (writer_flush build w)"
  using assms(1)
proof (rule tracksE)
  fix dn flight pend queue
  assume *: "ms = dn @ flight @ pend @ queue" "wr_socket w = concat (map wire dn)"
    "case wr_fut w of None \<Rightarrow> flight = [] | Some x \<Rightarrow> x = concat (map wire flight)"
    "wr_buffer w = concat (map enc pend)" "wr_rx w = map enc queue"
    "\<not> wr_running w \<longrightarrow> queue = [] \<and> \<not> wr_tx_open w"
  show ?thesis
  proof (cases "wr_fut w = None \<and> wr_buffer w \<noteq> []")
    case True
    moreover have "build (concat (map enc pend)) = concat (map wire pend)"
      using assms(2) *(1) by (simp add: build_batch)
    ultimately show ?thesis using *
      by (intro tracksI [of _ dn pend "[]" queue]) (auto simp: writer_flush_def)
  qed (use assms(1) in \<open>auto simp: writer_flush_def\<close>)
qed

lemma run_inv:
  assumes "writer_run build enc ms e w" and "list_all ok ms"
  shows "writer_inv enc wire ms e w"
  using assms
proof (induction rule: writer_run.induct)
  case start
  show ?case by (auto simp: writer_inv_def new_writer_def intro: tracksI [of _ "[]" "[]" "[]" "[]"])
next
  case (produce ms e w m)
  then show ?case
    by (auto simp: writer_inv_def tracks_produce intro: prefix_order.trans)
next
  case (close ms e w)
  then show ?case by (auto simp: writer_inv_def tracks_close)
next
  case (recv ms e w)
  then have inv: "writer_inv enc wire ms e w" and ne: "\<not> e" by (auto simp: writer_inv_def)
  with recv have "tracks enc wire ms (writer_flush build w)"
    by (auto simp: writer_inv_def intro: tracks_flush)
  from tracks_recv [OF this] recv have "tracks enc wire ms (gateway_write_turn build Recv w)"
    by (simp add: gateway_write_turn_def)
  moreover have "\<not> wr_shut (gateway_write_turn build Recv w)"
    using inv recv.hyps by (auto simp: writer_inv_def gateway_write_turn_def split: list.splits)
  ultimately show ?case using ne by (simp add: writer_inv_def tracks_prefix)
next
  case (written ms e w r)
  then have inv: "writer_inv enc wire ms e w" and ne: "\<not> e" by (auto simp: writer_inv_def)
  with written have t: "tracks enc wire ms (writer_flush build w)" and run: "\<not> wr_shut w"
    by (auto simp: writer_inv_def intro: tracks_flush)
  show ?case
  proof (cases r)
    case None
    with ne run written.hyps tracks_complete [OF t] tracks_prefix [OF tracks_complete [OF t]] show ?thesis
      by (auto simp: writer_inv_def gateway_write_turn_def)
  next
    case (Some k)
    with ne written.hyps tracks_fail [OF t, of r] show ?thesis
      by (simp add: writer_inv_def gateway_write_turn_def Let_def)
  qed
next
  case (exit ms e w r)
  then have inv: "writer_inv enc wire ms e w" by simp
  show ?case
  proof (cases "wr_fut w = None")
    case True
    then have "gateway_write_exit r w = w\<lparr>wr_shut := True\<rparr>"
      by (simp add: gateway_write_exit_def complete_write_def)
    with True inv exit.hyps show ?thesis by (auto simp: writer_inv_def tracks_cong)
  next
    case False
    with inv have t: "tracks enc wire ms w" and "\<not> e" by (auto simp: writer_inv_def)
    with False exit.hyps tracks_complete [OF t] tracks_prefix [OF tracks_complete [OF t]]
      tracks_fail [OF t, of r] show ?thesis
      by (cases r) (simp_all add: writer_inv_def gateway_write_exit_def tracks_cong)
  qed
qed

lemma run_delivers:
  assumes "writer_run build enc ms failed w" and "list_all ok ms"
  shows "prefix (wr_socket w) (concat (map wire ms)) \<and>
    (\<not> failed \<and> wr_shut w \<longrightarrow>
       (\<exists>written lost. ms = written @ lost \<and> wr_socket w = concat (map wire written) \<and>
          wr_buffer w = concat (map enc lost)))"
proof -
  from run_inv [OF assms] have inv: "writer_inv enc wire ms failed w" .
  moreover have "\<exists>written lost. ms = written @ lost \<and> wr_socket w = concat (map wire written) \<and>
      wr_buffer w = concat (map enc lost)" if "\<not> failed" "wr_shut w"
    using inv that by (fastforce simp: writer_inv_def elim!: tracksE)
  ultimately show ?thesis by (auto simp: writer_inv_def)
qed

end

interpretation raw_writer: batch_writer raw_wire "\<lambda>m. m" "\<lambda>m. m" "\<lambda>_. True"
  by unfold_locales (simp add: raw_wire_def)

interpretation peer_writer: batch_writer "build_wire zstd_encode aes False" to_plain_frame
    "\<lambda>c. encrypt_frame aes (contract_body c)" sendable
  for zstd_encode aes
  by unfold_locales (simp add: build_wire_def encode_individual_frames_plain flip: plain_frames_def)

text \<open>A run in which the second payload arrives while the first is being written, and the channel closes.\<close>

lemma lossy_run:
  "writer_run raw_wire (\<lambda>m. m) [x # a, y # b] False
     (new_writer\<lparr>wr_buffer := y # b, wr_tx_open := False, wr_socket := x # a, wr_running := False, wr_shut := True\<rparr>)"
proof -
  let ?run = "writer_run raw_wire (\<lambda>m. m)"
  have "?run [x # a] False (new_writer\<lparr>wr_rx := [x # a]\<rparr>)"
    using writer_run.produce [OF writer_run.start, where m = "x # a"]
    by (simp add: new_writer_def WRITE_CHANNEL_CAPACITY_def)
  then have "?run [x # a] False (new_writer\<lparr>wr_buffer := x # a\<rparr>)"
    using writer_run.recv [of raw_wire "\<lambda>m. m" "[x # a]" False "new_writer\<lparr>wr_rx := [x # a]\<rparr>"]
    by (simp add: gateway_write_turn_def writer_flush_def new_writer_def)
  then have "?run [x # a, y # b] False (new_writer\<lparr>wr_buffer := x # a, wr_rx := [y # b]\<rparr>)"
    using writer_run.produce [of raw_wire "\<lambda>m. m" "[x # a]" False "new_writer\<lparr>wr_buffer := x # a\<rparr>" "y # b"]
    by (simp add: new_writer_def WRITE_CHANNEL_CAPACITY_def)
  then have "?run [x # a, y # b] False (new_writer\<lparr>wr_fut := Some (x # a), wr_buffer := y # b\<rparr>)"
    using writer_run.recv [of raw_wire "\<lambda>m. m" "[x # a, y # b]" False
        "new_writer\<lparr>wr_buffer := x # a, wr_rx := [y # b]\<rparr>"]
    by (simp add: gateway_write_turn_def writer_flush_def new_writer_def raw_wire_def)
  then have "?run [x # a, y # b] False
      (new_writer\<lparr>wr_fut := Some (x # a), wr_buffer := y # b, wr_tx_open := False\<rparr>)"
    by (rule writer_run.close)
  then have "?run [x # a, y # b] False
      (new_writer\<lparr>wr_fut := Some (x # a), wr_buffer := y # b, wr_tx_open := False, wr_running := False\<rparr>)"
    using writer_run.recv [of raw_wire "\<lambda>m. m" "[x # a, y # b]" False
        "new_writer\<lparr>wr_fut := Some (x # a), wr_buffer := y # b, wr_tx_open := False\<rparr>"]
    by (simp add: gateway_write_turn_def writer_flush_def new_writer_def)
  from writer_run.exit [OF this, of None] show ?thesis
    by (simp add: gateway_write_exit_def complete_write_def new_writer_def)
qed

section \<open>Properties\<close>



text \<open>
  The raw writer of a forwarded socket is a byte pipe up to the close: the socket has
  received a prefix of the concatenated payloads, and when the writer shuts down without a
  failed write, the socket's bytes followed by those left in its buffer are all of them.
\<close>

theorem raw_writer_pipe:
  assumes "writer_run raw_wire (\<lambda>m. m) ms failed w"
  shows "prefix (wr_socket w) (concat ms) \<and>
    (\<not> failed \<and> wr_shut w \<longrightarrow> wr_socket w @ wr_buffer w = concat ms)"
  using raw_writer.run_delivers [OF assms] by (auto simp: list_all_iff)

theorem raw_writer_pipe_witness:
  "writer_run raw_wire (\<lambda>m. m) [[1], [2]] False
     (new_writer\<lparr>wr_buffer := [2], wr_tx_open := False, wr_socket := [1], wr_running := False, wr_shut := True\<rparr>) \<and>
   prefix [1 :: u8] (concat [[1], [2]])"
  using lossy_run [of 1 "[]" 2 "[]"] raw_writer_pipe [OF lossy_run [of 1 "[]" 2 "[]"]] by simp

text \<open>
  Closing loses accepted payloads: there is a run without any failed write in which a
  payload sent while an earlier one was being written is dropped, because the loop breaks on
  the closed channel and never flushes its buffer.
\<close>

theorem raw_writer_close_drops_tail:
  "\<exists>w. writer_run raw_wire (\<lambda>m. m) [x # a, y # b] False w \<and> wr_shut w \<and> wr_socket w = x # a"
  using lossy_run [of x a y b] by (auto simp: new_writer_def)

end
