(* ===== verification/Loop_Buffer.thy ===== *)
theory Loop_Buffer
  imports Prelude
begin

text \<open>
  The read buffer of an HTTP/1 connection (\<open>src/src/tcp_utils/loop_buffer.rs\<close>), the read side
  of a stream (\<open>src/src/network_stream/split/read_part.rs\<close>) and the errors of the proxy
  (\<open>network_error.rs\<close>, \<open>src/src/h1_proxy_server/rev_proxy_error.rs\<close>). What the peer sends is a
  list of arrivals; what is readable before the next failure is \<open>pending\<close>. The unread window of
  the buffer followed by \<open>pending\<close> is the byte stream every client of the buffer works on, and
  the operations here keep it.
\<close>

section \<open>Errors\<close>

datatype NetworkError =
    Timeout nat
  | Disconnected
  | IoError
  | OtherStr string
  | Other string
  | MyHttpClientError string

definition as_timeout :: "NetworkError \<Rightarrow> nat option" where
  "as_timeout e = (case e of Timeout duration \<Rightarrow> Some duration | _ \<Rightarrow> None)"

datatype ProxyServerError =
    ErrNetwork NetworkError
  | ParsingPayloadError string
  | BufferAllocationFail
  | ChunkHeaderParseError
  | HeadersParseError string
  | CanNotConnectToRemoteResource string NetworkError
  | CanNotWriteContentToRemoteConnection NetworkError
  | HttpConfigurationIsNotFound
  | LocationIsNotFound
  | NotAuthorizedRequest
  | DropConnection
  | HttpResponse bytes
  | ProxyToHeaderMissing
  | ProxyToHeaderInvalid
  | ProxyToHostNotAllowed
  | MisdirectedClientCertRequired

text \<open>The page of an error: a template of \<open>error_templates\<close>, by name, or the bytes of a response.\<close>

datatype error_page =
    REMOTE_RESOURCE_IS_NOT_AVAILABLE
  | ERROR_TIMEOUT
  | LOCATION_IS_NOT_FOUND
  | NOT_AUTHORIZED_PAGE
  | PROXY_TO_HEADER_MISSING
  | PROXY_TO_HOST_NOT_ALLOWED
  | MTLS_REQUIRED_MISDIRECTED
  | ERROR_GETTING_CONTENT_FROM_REMOTE_RESOURCE
  | UPSTREAM_IS_NOT_HTTP
  | PagePayload bytes

record ErrorHandling =
  eh_page :: "error_page option"
  eh_status_5xx :: "nat option"
  eh_register_ip_failure :: bool

abbreviation handling :: "error_page option \<Rightarrow> nat option \<Rightarrow> bool \<Rightarrow> ErrorHandling" where
  "handling page status penalise \<equiv>
     \<lparr>eh_page = page, eh_status_5xx = status, eh_register_ip_failure = penalise\<rparr>"

fun error_handling :: "ProxyServerError \<Rightarrow> ErrorHandling" where
  "error_handling (ErrNetwork _) = handling None None False"
| "error_handling DropConnection = handling None None False"
| "error_handling HttpConfigurationIsNotFound = handling None None False"
| "error_handling (ParsingPayloadError _) = handling None None True"
| "error_handling ChunkHeaderParseError = handling None None True"
| "error_handling (HeadersParseError _) = handling None None True"
| "error_handling BufferAllocationFail = handling (Some REMOTE_RESOURCE_IS_NOT_AVAILABLE) (Some 503) False"
| "error_handling (CanNotConnectToRemoteResource _ err) =
     handling (Some (if as_timeout err \<noteq> None then ERROR_TIMEOUT else REMOTE_RESOURCE_IS_NOT_AVAILABLE))
       (Some 503) False"
| "error_handling (CanNotWriteContentToRemoteConnection _) =
     handling (Some REMOTE_RESOURCE_IS_NOT_AVAILABLE) (Some 503) False"
| "error_handling LocationIsNotFound = handling (Some LOCATION_IS_NOT_FOUND) (Some 503) False"
| "error_handling NotAuthorizedRequest = handling (Some NOT_AUTHORIZED_PAGE) None False"
| "error_handling ProxyToHeaderMissing = handling (Some PROXY_TO_HEADER_MISSING) None False"
| "error_handling ProxyToHeaderInvalid = handling (Some PROXY_TO_HEADER_MISSING) None False"
| "error_handling ProxyToHostNotAllowed = handling (Some PROXY_TO_HOST_NOT_ALLOWED) None False"
| "error_handling MisdirectedClientCertRequired = handling (Some MTLS_REQUIRED_MISDIRECTED) None False"
| "error_handling (HttpResponse payload) = handling (Some (PagePayload payload)) None False"

section \<open>The buffer\<close>

record loop_buffer =
  lb_data :: bytes
  lb_from :: nat
  lb_to :: nat

definition BUFFER_CAPACITY :: nat where "BUFFER_CAPACITY = 1024 * 1024"

text \<open>The memory of a fresh buffer is whatever the allocator left there.\<close>

definition new_loop_buffer :: "bytes \<Rightarrow> loop_buffer" where
  "new_loop_buffer memory = \<lparr>lb_data = take BUFFER_CAPACITY memory, lb_from = 0, lb_to = 0\<rparr>"

definition advance :: "nat \<Rightarrow> loop_buffer \<Rightarrow> loop_buffer" where
  "advance amount lb = lb\<lparr>lb_to := lb_to lb + amount\<rparr>"

definition commit_read :: "nat \<Rightarrow> loop_buffer \<Rightarrow> loop_buffer" where
  "commit_read amount lb = lb\<lparr>lb_from := lb_from lb + amount\<rparr>"

definition lb_get_data :: "loop_buffer \<Rightarrow> bytes" where
  "lb_get_data lb = take (lb_to lb - lb_from lb) (drop (lb_from lb) (lb_data lb))"

text \<open>The copying loop of \<open>gc\<close>: byte by byte, inside one vector.\<close>

function gc_copy :: "nat \<Rightarrow> nat \<Rightarrow> nat \<Rightarrow> bytes \<Rightarrow> bytes" where
  "gc_copy i read_to to data =
     (if i < read_to then gc_copy (Suc i) read_to (Suc to) (data[to := data ! i]) else data)"
  by pat_completeness auto
termination
  by (relation "measure (\<lambda>(i, read_to, _, _). read_to - i)") auto

declare gc_copy.simps [simp del]

definition gc :: "loop_buffer \<Rightarrow> loop_buffer" where
  "gc lb =
     (if lb_from lb = 0 then lb
      else if lb_from lb = lb_to lb then lb\<lparr>lb_from := 0, lb_to := 0\<rparr>
      else if length (lb_data lb) - lb_to lb > 65535 then lb
      else lb\<lparr>lb_data := gc_copy (lb_from lb) (lb_to lb) 0 (lb_data lb),
              lb_to := lb_to lb - lb_from lb, lb_from := 0\<rparr>)"

text \<open>\<open>get_mut\<close>: the buffer after \<open>gc\<close> and the size of the free part, \<open>None\<close> when it is full.\<close>

definition get_mut :: "loop_buffer \<Rightarrow> nat option \<times> loop_buffer" where
  "get_mut lb =
     (let lb = gc lb in
      if lb_to lb \<ge> length (lb_data lb) then (None, lb)
      else (Some (length (lb_data lb) - lb_to lb), lb))"

text \<open>The bytes a read puts at the start of the free part.\<close>

definition fill :: "bytes \<Rightarrow> loop_buffer \<Rightarrow> loop_buffer" where
  "fill bs lb =
     lb\<lparr>lb_data := take (lb_to lb) (lb_data lb) @ bs @ drop (lb_to lb + length bs) (lb_data lb)\<rparr>"

section \<open>The read side of a stream\<close>

text \<open>
  What the next reads meet: bytes that arrived together, a time-out, an io error. The empty
  list is the end of the stream.
\<close>

datatype arrival = Arrive bytes | ReadTimeout | ReadIoError

definition read_with_timeout ::
  "nat \<Rightarrow> nat \<Rightarrow> arrival list \<Rightarrow> (NetworkError, bytes) outcome \<times> arrival list" where
  "read_with_timeout timeout buf_len src =
     (case src of
        [] \<Rightarrow> (Err Disconnected, [])
      | ReadTimeout # rest \<Rightarrow> (Err (Timeout timeout), rest)
      | ReadIoError # rest \<Rightarrow> (Err IoError, rest)
      | Arrive bs # rest \<Rightarrow>
          if bs = [] \<or> buf_len = 0 then (Err Disconnected, rest)
          else if length bs \<le> buf_len then (Ok bs, rest)
          else (Ok (take buf_len bs), Arrive (drop buf_len bs) # rest))"

text \<open>Reading once more into the buffer, as \<open>read_headers\<close> and the body pumps do.\<close>

definition read_more ::
  "nat \<Rightarrow> loop_buffer \<Rightarrow> arrival list \<Rightarrow> (ProxyServerError, unit) outcome \<times> loop_buffer \<times> arrival list" where
  "read_more timeout lb src =
     (case get_mut lb of
        (None, lb1) \<Rightarrow> (Err BufferAllocationFail, lb1, src)
      | (Some buf_len, lb1) \<Rightarrow>
          (case read_with_timeout timeout buf_len src of
             (Ok bs, src1) \<Rightarrow> (Ok (), advance (length bs) (fill bs lb1), src1)
           | (Err e, src1) \<Rightarrow> (Err (ErrNetwork e), lb1, src1)
           | (Panic, src1) \<Rightarrow> (Panic, lb1, src1)))"

section \<open>The stream view\<close>

definition lb_ok :: "loop_buffer \<Rightarrow> bool" where
  "lb_ok lb \<longleftrightarrow> lb_from lb \<le> lb_to lb \<and> lb_to lb \<le> length (lb_data lb)"

fun pending :: "arrival list \<Rightarrow> bytes" where
  "pending (Arrive bs # rest) = (if bs = [] then [] else bs @ pending rest)"
| "pending _ = []"

definition stream_of :: "loop_buffer \<Rightarrow> arrival list \<Rightarrow> bytes" where
  "stream_of lb src = lb_get_data lb @ pending src"

fun src_size :: "arrival list \<Rightarrow> nat" where
  "src_size [] = 0"
| "src_size (Arrive bs # rest) = Suc (length bs + src_size rest)"
| "src_size (_ # rest) = Suc (src_size rest)"

lemma length_get_data: "lb_ok lb \<Longrightarrow> length (lb_get_data lb) = lb_to lb - lb_from lb"
  by (auto simp: lb_ok_def lb_get_data_def)

lemma length_gc_copy [simp]: "length (gc_copy i n to data) = length data"
  by (induction i n to data rule: gc_copy.induct) (subst gc_copy.simps, simp)

text \<open>Copying forwards inside one vector is safe because the target is behind the source.\<close>

lemma gc_copy_moves:
  "to \<le> i \<Longrightarrow> i \<le> n \<Longrightarrow> n \<le> length data \<Longrightarrow>
   gc_copy i n to data = take to data @ take (n - i) (drop i data) @ drop (to + (n - i)) data"
proof (induction i n to data rule: gc_copy.induct)
  case (1 i n to data)
  show ?case
  proof (cases "i < n")
    case True
    let ?d = "data[to := data ! i]"
    have IH: "gc_copy (Suc i) n (Suc to) ?d =
        take (Suc to) ?d @ take (n - Suc i) (drop (Suc i) ?d) @ drop (Suc to + (n - Suc i)) ?d"
      using "1.IH" [OF True] "1.prems" True by simp
    have h: "take (Suc to) ?d = take to data @ [data ! i]"
      using "1.prems" True by (simp add: take_Suc_conv_app_nth)
    have "Suc to + (n - Suc i) = to + (n - i)" using True by simp
    then have "drop (Suc i) ?d = drop (Suc i) data" "drop (Suc to + (n - Suc i)) ?d = drop (to + (n - i)) data"
      using "1.prems" True by (simp_all only: drop_update_cancel)
    moreover have "take (n - i) (drop i data) = data ! i # take (n - Suc i) (drop (Suc i) data)"
      using "1.prems" True
      by (metis Cons_nth_drop_Suc Suc_diff_Suc less_le_trans take_Suc_Cons)
    ultimately show ?thesis
      using True IH h by (subst gc_copy.simps) simp
  qed (use "1.prems" in \<open>simp add: gc_copy.simps\<close>)
qed

lemma gc_keeps:
  assumes "lb_ok lb"
  shows "lb_ok (gc lb)" "lb_get_data (gc lb) = lb_get_data lb" "length (lb_data (gc lb)) = length (lb_data lb)"
  using assms by (auto simp: gc_def lb_ok_def lb_get_data_def gc_copy_moves)

text \<open>The buffer refuses to grow only when unread bytes fill it completely.\<close>

lemma get_mut_None:
  assumes "lb_ok lb"
  shows "fst (get_mut lb) = None \<longleftrightarrow> length (lb_get_data lb) = length (lb_data lb)"
  using assms by (auto simp: get_mut_def Let_def gc_def lb_ok_def lb_get_data_def)

lemma commit_keeps:
  assumes "lb_ok lb" and "n \<le> length (lb_get_data lb)"
  shows "lb_ok (commit_read n lb)" "lb_get_data (commit_read n lb) = drop n (lb_get_data lb)"
    "lb_data (commit_read n lb) = lb_data lb"
  using assms length_get_data [OF assms(1)]
  by (auto simp: lb_ok_def commit_read_def lb_get_data_def drop_take add.commute)

lemma window_append:
  assumes "a \<le> b" and "b \<le> length d"
  shows "take (b - a + length bs) (drop a (take b d @ bs @ r)) = take (b - a) (drop a d) @ bs"
proof -
  have "drop a (take b d @ bs @ r) = take (b - a) (drop a d) @ bs @ r"
    using assms drop_take [of a b d] by simp
  moreover have "length (take (b - a) (drop a d)) = b - a" using assms by simp
  ultimately show ?thesis by simp
qed

lemma fill_advance:
  assumes "lb_ok lb" and "length bs \<le> length (lb_data lb) - lb_to lb"
  shows "lb_ok (advance (length bs) (fill bs lb))"
    "lb_get_data (advance (length bs) (fill bs lb)) = lb_get_data lb @ bs"
    "length (lb_data (advance (length bs) (fill bs lb))) = length (lb_data lb)"
proof -
  have len: "lb_to lb + length bs - lb_from lb = (lb_to lb - lb_from lb) + length bs"
    using assms(1) by (simp add: lb_ok_def)
  show "lb_ok (advance (length bs) (fill bs lb))"
    "length (lb_data (advance (length bs) (fill bs lb))) = length (lb_data lb)"
    using assms by (auto simp: lb_ok_def advance_def fill_def)
  have "lb_get_data (advance (length bs) (fill bs lb)) =
      take (lb_to lb + length bs - lb_from lb) (drop (lb_from lb)
        (take (lb_to lb) (lb_data lb) @ bs @ drop (lb_to lb + length bs) (lb_data lb)))"
    unfolding advance_def fill_def lb_get_data_def by simp
  also have "\<dots> = lb_get_data lb @ bs"
    unfolding len lb_get_data_def using assms(1) by (intro window_append) (simp_all add: lb_ok_def)
  finally show "lb_get_data (advance (length bs) (fill bs lb)) = lb_get_data lb @ bs" .
qed

lemma read_with_timeout_Ok:
  assumes "read_with_timeout t n src = (Ok bs, src')"
  shows "bs \<noteq> []" "length bs \<le> n" "pending src = bs @ pending src'" "src_size src' < src_size src"
  using assms by (auto simp: read_with_timeout_def split: list.splits arrival.splits if_splits)

lemma read_with_timeout_pending:
  "pending src \<noteq> [] \<Longrightarrow> 0 < n \<Longrightarrow> \<exists>bs src'. read_with_timeout t n src = (Ok bs, src')"
  by (auto simp: read_with_timeout_def split: list.splits arrival.splits if_splits)

text \<open>A successful read keeps the stream, moves bytes into the buffer and consumes the source.\<close>

lemma read_more_Ok:
  assumes "read_more t lb src = (Ok (), lb', src')" and "lb_ok lb"
  shows "lb_ok lb'" "length (lb_data lb') = length (lb_data lb)" "stream_of lb' src' = stream_of lb src"
    "src_size src' < src_size src" "\<exists>bs. bs \<noteq> [] \<and> lb_get_data lb' = lb_get_data lb @ bs"
proof -
  from assms(1) obtain n bs where *: "get_mut lb = (Some n, gc lb)" "read_with_timeout t n src = (Ok bs, src')"
      "lb' = advance (length bs) (fill bs (gc lb))"
    by (auto simp: read_more_def get_mut_def Let_def split: prod.splits option.splits outcome.splits if_splits)
  then have n: "n = length (lb_data (gc lb)) - lb_to (gc lb)"
    by (auto simp: get_mut_def Let_def split: if_splits)
  note g = gc_keeps [OF assms(2)] and r = read_with_timeout_Ok [OF *(2)]
  have f: "lb_ok lb'" "lb_get_data lb' = lb_get_data lb @ bs" "length (lb_data lb') = length (lb_data lb)"
    using fill_advance [OF g(1), of bs] r(2) g n *(3) by auto
  show "lb_ok lb'" "length (lb_data lb') = length (lb_data lb)" "stream_of lb' src' = stream_of lb src"
    "src_size src' < src_size src" "\<exists>bs. bs \<noteq> [] \<and> lb_get_data lb' = lb_get_data lb @ bs"
    using f r by (auto simp: stream_of_def)
qed

lemma read_more_available:
  assumes "lb_ok lb" and "length (lb_get_data lb) < length (lb_data lb)" and "pending src \<noteq> []"
  obtains lb' src' where "read_more t lb src = (Ok (), lb', src')"
proof -
  from get_mut_None [OF assms(1)] assms(2) obtain n where n: "get_mut lb = (Some n, gc lb)" "0 < n"
    by (auto simp: get_mut_def Let_def split: if_splits)
  from read_with_timeout_pending [OF assms(3) n(2)] obtain bs src' where
    "read_with_timeout t n src = (Ok bs, src')" by blast
  with n(1) show ?thesis by (intro that) (simp add: read_more_def)
qed

lemma read_more_not_Panic: "fst (read_more t lb src) \<noteq> Panic"
proof -
  have "fst (read_with_timeout t n src) \<noteq> Panic" for n
    by (auto simp: read_with_timeout_def split: list.splits arrival.splits)
  then show ?thesis
    by (auto simp: read_more_def split: prod.splits option.splits outcome.splits)
      (metis fst_conv)
qed

lemma read_more_cases:
  obtains lb' src' where "read_more t lb src = (Ok (), lb', src')"
  | e lb' src' where "read_more t lb src = (Err e, lb', src')"
  using read_more_not_Panic [of t lb src] by (cases "read_more t lb src"; cases "fst (read_more t lb src)") auto

lemma read_more_decreases: "read_more t lb src = (Ok (), lb', src') \<Longrightarrow> src_size src' < src_size src"
  by (auto simp: read_more_def dest!: read_with_timeout_Ok(4)
      split: prod.splits option.splits outcome.splits)

end
