(* ===== verification/Slice_Ext.thy ===== *)
theory Slice_Ext
  imports Prelude
begin

text \<open>
  What the HTTP/1 code relies on of the byte slice searches of the \<open>rust_extensions\<close> crate,
  which is not part of the repository: \<open>find_sequence_pos\<close> and \<open>find_byte_pos\<close> return the first
  position, at or after a given one, where the pattern occurs. The searches are arguments of
  the definitions that call them; \<open>find_ref\<close> and \<open>find_byte_ref\<close> show that the laws can hold.
\<close>

type_synonym find_sequence = "bytes \<Rightarrow> bytes \<Rightarrow> nat \<Rightarrow> nat option"
type_synonym find_byte = "bytes \<Rightarrow> u8 \<Rightarrow> nat \<Rightarrow> nat option"

definition occurs_at :: "bytes \<Rightarrow> bytes \<Rightarrow> nat \<Rightarrow> bool" where
  "occurs_at xs pat i \<longleftrightarrow> i + length pat \<le> length xs \<and> take (length pat) (drop i xs) = pat"

definition find_seq_ok :: "find_sequence \<Rightarrow> bool" where
  "find_seq_ok f \<longleftrightarrow>
     (\<forall>xs pat from i. pat \<noteq> [] \<longrightarrow>
        f xs pat from = Some i \<longleftrightarrow>
          from \<le> i \<and> occurs_at xs pat i \<and> (\<forall>j. from \<le> j \<and> j < i \<longrightarrow> \<not> occurs_at xs pat j))"

definition find_byte_ok :: "find_byte \<Rightarrow> bool" where
  "find_byte_ok f \<longleftrightarrow>
     (\<forall>xs b from i.
        f xs b from = Some i \<longleftrightarrow>
          from \<le> i \<and> i < length xs \<and> xs ! i = b \<and> (\<forall>j. from \<le> j \<and> j < i \<longrightarrow> xs ! j \<noteq> b))"

definition find_ref :: find_sequence where
  "find_ref xs pat from = List.find (occurs_at xs pat) [from..<length xs]"

definition find_byte_ref :: find_byte where
  "find_byte_ref xs b from = List.find (\<lambda>i. xs ! i = b) [from..<length xs]"

lemma find_upt_Some:
  "List.find P [a..<n] = Some i \<longleftrightarrow> a \<le> i \<and> i < n \<and> P i \<and> (\<forall>j. a \<le> j \<and> j < i \<longrightarrow> \<not> P j)"
proof
  assume "List.find P [a..<n] = Some i"
  then obtain k where k: "k < length [a..<n]" "P ([a..<n] ! k)" "i = [a..<n] ! k"
      "\<forall>j<k. \<not> P ([a..<n] ! j)"
    by (auto simp: find_Some_iff)
  then have "\<not> P j" if "a \<le> j" "j < i" for j
    using that k(1,3) k(4) [rule_format, of "j - a"] by auto
  with k show "a \<le> i \<and> i < n \<and> P i \<and> (\<forall>j. a \<le> j \<and> j < i \<longrightarrow> \<not> P j)" by auto
next
  assume "a \<le> i \<and> i < n \<and> P i \<and> (\<forall>j. a \<le> j \<and> j < i \<longrightarrow> \<not> P j)"
  then show "List.find P [a..<n] = Some i"
    by (auto simp: find_Some_iff intro!: exI [of _ "i - a"])
qed

lemma find_ref_ok: "find_seq_ok find_ref"
proof -
  have "i < length xs" if "occurs_at xs pat i" "pat \<noteq> []" for xs pat i
    using that by (cases pat) (auto simp: occurs_at_def)
  then show ?thesis by (auto simp: find_seq_ok_def find_ref_def find_upt_Some)
qed

lemma find_byte_ref_ok: "find_byte_ok find_byte_ref"
  by (auto simp: find_byte_ok_def find_byte_ref_def find_upt_Some)

text \<open>The first occurrence after a part that cannot contain one.\<close>

lemma find_seq_Some:
  assumes "find_seq_ok f" and "pat \<noteq> []" and "occurs_at xs pat i" and "from \<le> i"
    and "\<And>j. from \<le> j \<Longrightarrow> j < i \<Longrightarrow> \<not> occurs_at xs pat j"
  shows "f xs pat from = Some i"
  using assms by (simp add: find_seq_ok_def)

lemma find_seq_None:
  assumes "find_seq_ok f" and "pat \<noteq> []" and "\<And>j. from \<le> j \<Longrightarrow> \<not> occurs_at xs pat j"
  shows "f xs pat from = None"
proof (cases "f xs pat from")
  case (Some i)
  with assms(1,2) have "from \<le> i \<and> occurs_at xs pat i" by (simp add: find_seq_ok_def)
  with assms(3) show ?thesis by blast
qed

lemma find_seq_bound:
  "find_seq_ok f \<Longrightarrow> pat \<noteq> [] \<Longrightarrow> f xs pat from = Some i \<Longrightarrow> from \<le> i \<and> i + length pat \<le> length xs"
  by (simp add: find_seq_ok_def occurs_at_def)

lemma occurs_at_two:
  "occurs_at xs [a, b] i \<longleftrightarrow> Suc i < length xs \<and> xs ! i = a \<and> xs ! Suc i = b"
proof (cases "Suc i < length xs")
  case True
  then have "drop i xs = xs ! i # xs ! Suc i # drop (Suc (Suc i)) xs"
    by (metis Cons_nth_drop_Suc Suc_lessD)
  with True show ?thesis by (simp add: occurs_at_def)
qed (simp add: occurs_at_def)

end
