(* ===== verification/H1_Body.thy ===== *)
theory H1_Body
  imports Loop_Buffer Slice_Ext
begin

text \<open>
  The body pumps of the HTTP/1 proxy: \<open>transfer_known_size.rs\<close>, \<open>handle_chunks.rs\<close> and
  \<open>chunk_header.rs\<close> under \<open>src/src/h1_proxy_server/transfer_body\<close>, and the sinks they write to
  (\<open>pipeline/response_event.rs\<close>, \<open>pipeline/body_collector_sink.rs\<close>). The trait \<open>H1Writer\<close> is the
  locale \<open>h1_writer\<close>: a sink absorbs what is written, piece by piece, and a live sink accepts.
  Every sink of the source is an interpretation. \<open>usize\<close> is 64 bits and wraps, as in the
  release build. \<open>find_sequence_pos\<close> of the \<open>rust_extensions\<close> crate is the argument \<open>find_seq\<close>.
  A chunked transfer may run forever, so its loop has fuel and \<open>None\<close> means that it is used up.
\<close>

section \<open>Sinks\<close>

type_synonym 'w sink = "bytes \<Rightarrow> 'w \<Rightarrow> (NetworkError, unit) outcome \<times> 'w"

datatype ResponseEvent = Chunk bytes | Done | Abort

text \<open>
  A channel to a consumer task: the items sent so far and whether the receiver still exists. A
  full channel makes the sender wait, so capacity is not visible here.
\<close>

record 'a channel =
  tx_items :: "'a list"
  tx_open :: bool

definition channel_sink :: "ResponseEvent channel sink" where
  "channel_sink buffer tx =
     (if tx_open tx then (Ok (), tx\<lparr>tx_items := tx_items tx @ [Chunk buffer]\<rparr>)
      else (Err Disconnected, tx))"

definition body_channel_sink :: "bytes channel sink" where
  "body_channel_sink buffer tx =
     (if tx_open tx then (Ok (), tx\<lparr>tx_items := tx_items tx @ [buffer]\<rparr>)
      else (Err Disconnected, tx))"

definition null_sink :: "unit sink" where
  "null_sink buffer w = (Ok (), w)"

record BodyCollectorSink =
  bc_body :: bytes
  bc_limit :: nat
  bc_overflowed :: bool

definition new_collector :: "nat \<Rightarrow> BodyCollectorSink" where
  "new_collector limit = \<lparr>bc_body = [], bc_limit = limit, bc_overflowed = False\<rparr>"

definition into_body :: "BodyCollectorSink \<Rightarrow> bytes option" where
  "into_body c = (if bc_overflowed c then None else Some (bc_body c))"

definition collector_sink :: "BodyCollectorSink sink" where
  "collector_sink buffer c =
     (if bc_overflowed c then (Ok (), c)
      else if length (bc_body c) + length buffer > bc_limit c
      then (Ok (), c\<lparr>bc_overflowed := True, bc_body := []\<rparr>)
      else (Ok (), c\<lparr>bc_body := bc_body c @ buffer\<rparr>))"

section \<open>The pump\<close>

definition BODY_RELAY_CHUNK_SIZE :: nat where "BODY_RELAY_CHUNK_SIZE = 256 * 1024"
definition HTTP_CR_LF :: bytes where "HTTP_CR_LF = [13, 10]"

text \<open>The inner loop of both pumps: everything already buffered goes out, in capped steps.\<close>

function relay_buffered ::
  "'w sink \<Rightarrow> loop_buffer \<Rightarrow> nat \<Rightarrow> 'w \<Rightarrow> (ProxyServerError, nat) outcome \<times> loop_buffer \<times> 'w" where
  "relay_buffered put lb remaining w =
     (if remaining > 0 then
        let read_buf = lb_get_data lb in
        if read_buf = [] then (Ok remaining, lb, w)
        else
          let to_send = min (min (length read_buf) remaining) BODY_RELAY_CHUNK_SIZE in
          case put (take to_send read_buf) w of
            (Ok _, w1) \<Rightarrow> relay_buffered put (commit_read to_send lb) (remaining - to_send) w1
          | (Err err, w1) \<Rightarrow> (Err (CanNotWriteContentToRemoteConnection err), lb, w1)
          | (Panic, w1) \<Rightarrow> (Panic, lb, w1)
      else (Ok 0, lb, w))"
  by pat_completeness auto
termination
  by (relation "measure (\<lambda>(_, _, remaining, _). remaining)") (auto simp: BODY_RELAY_CHUNK_SIZE_def)

declare relay_buffered.simps [simp del]

text \<open>The outer loop: read more only when nothing is buffered and something is still to be sent.\<close>

function pump ::
  "'w sink \<Rightarrow> nat \<Rightarrow> loop_buffer \<Rightarrow> arrival list \<Rightarrow> nat \<Rightarrow> 'w
     \<Rightarrow> (ProxyServerError, unit) outcome \<times> loop_buffer \<times> arrival list \<times> 'w" where
  "pump put timeout lb src remaining w =
     (case relay_buffered put lb remaining w of
        (Panic, lb1, w1) \<Rightarrow> (Panic, lb1, src, w1)
      | (Err e, lb1, w1) \<Rightarrow> (Err e, lb1, src, w1)
      | (Ok remaining1, lb1, w1) \<Rightarrow>
          if remaining1 = 0 then (Ok (), lb1, src, w1)
          else
            (case read_more timeout lb1 src of
               (Panic, lb2, src2) \<Rightarrow> (Panic, lb2, src2, w1)
             | (Err e, lb2, src2) \<Rightarrow> (Err e, lb2, src2, w1)
             | (Ok _, lb2, src2) \<Rightarrow> pump put timeout lb2 src2 remaining1 w1))"
  by pat_completeness auto
termination
  by (relation "measure (\<lambda>(_, _, _, src, _, _). src_size src)")
     (auto dest: read_more_decreases [OF sym])

declare pump.simps [simp del]

type_synonym ('a, 'w) pumped = "(ProxyServerError, 'a) outcome \<times> loop_buffer \<times> arrival list \<times> 'w"

definition transfer_known_size ::
  "'w sink \<Rightarrow> nat \<Rightarrow> loop_buffer \<Rightarrow> arrival list \<Rightarrow> nat \<Rightarrow> 'w \<Rightarrow> (nat, 'w) pumped" where
  "transfer_known_size put timeout lb src total_sent w =
     (case pump put timeout lb src total_sent w of
        (Ok _, lb1, src1, w1) \<Rightarrow> (Ok total_sent, lb1, src1, w1)
      | (Err e, lb1, src1, w1) \<Rightarrow> (Err e, lb1, src1, w1)
      | (Panic, lb1, src1, w1) \<Rightarrow> (Panic, lb1, src1, w1))"

section \<open>Chunks\<close>

record ChunkHeader =
  ch_len :: nat
  ch_chunk_size :: u64

definition parse_hex_digit :: "u8 \<Rightarrow> u64 option" where
  "parse_hex_digit c =
     (if 48 \<le> c \<and> c \<le> 57 then Some (ucast c - 48)
      else if 97 \<le> c \<and> c \<le> 102 then Some (ucast c - 97 + 10)
      else if 65 \<le> c \<and> c \<le> 70 then Some (ucast c - 65 + 10)
      else None)"

text \<open>The loop of \<open>get_chunk_size\<close>, over the digits from the last to the first.\<close>

fun chunk_size_loop :: "bytes \<Rightarrow> u64 \<Rightarrow> u64 \<Rightarrow> (ProxyServerError, u64) outcome" where
  "chunk_size_loop [] result multiplier = Ok result"
| "chunk_size_loop (c # cs) result multiplier =
     (case parse_hex_digit c of
        None \<Rightarrow> Err ChunkHeaderParseError
      | Some digit \<Rightarrow> chunk_size_loop cs (result + digit * multiplier) (multiplier * 16))"

definition get_chunk_size :: "bytes \<Rightarrow> nat \<Rightarrow> (ProxyServerError, u64) outcome" where
  "get_chunk_size chunk len = rbind (slice chunk 0 len) (\<lambda>my_chunk. chunk_size_loop (rev my_chunk) 0 1)"

definition new_chunk_header :: "nat \<Rightarrow> bytes \<Rightarrow> (ProxyServerError, ChunkHeader) outcome" where
  "new_chunk_header len src =
     rbind (get_chunk_size src len) (\<lambda>chunk_size. Ok \<lparr>ch_len = len, ch_chunk_size = chunk_size\<rparr>)"

function read_chunk_header ::
  "find_sequence \<Rightarrow> nat \<Rightarrow> loop_buffer \<Rightarrow> arrival list
     \<Rightarrow> (ProxyServerError, ChunkHeader) outcome \<times> loop_buffer \<times> arrival list" where
  "read_chunk_header find_seq timeout lb src =
     (let read_buf = lb_get_data lb in
      case (if length read_buf > 2 then find_seq read_buf HTTP_CR_LF 0 else None) of
        Some crlf_pos \<Rightarrow> (new_chunk_header crlf_pos read_buf, lb, src)
      | None \<Rightarrow>
          (case read_more timeout lb src of
             (Panic, lb1, src1) \<Rightarrow> (Panic, lb1, src1)
           | (Err e, lb1, src1) \<Rightarrow> (Err e, lb1, src1)
           | (Ok _, lb1, src1) \<Rightarrow> read_chunk_header find_seq timeout lb1 src1))"
  by pat_completeness auto
termination
  by (relation "measure (\<lambda>(_, _, _, src). src_size src)") (auto dest: read_more_decreases [OF sym])

declare read_chunk_header.simps [simp del]

definition chunk_total :: "ChunkHeader \<Rightarrow> u64" where
  "chunk_total h = of_nat (ch_len h) + ch_chunk_size h + of_nat (length HTTP_CR_LF * 2)"

definition transfer_chunk_data ::
  "'w sink \<Rightarrow> nat \<Rightarrow> loop_buffer \<Rightarrow> arrival list \<Rightarrow> ChunkHeader \<Rightarrow> 'w \<Rightarrow> (u64, 'w) pumped" where
  "transfer_chunk_data put timeout lb src chunk_header w =
     (let total_sent = chunk_total chunk_header in
      case pump put timeout lb src (unat total_sent) w of
        (Ok _, lb1, src1, w1) \<Rightarrow> (Ok total_sent, lb1, src1, w1)
      | (Err e, lb1, src1, w1) \<Rightarrow> (Err e, lb1, src1, w1)
      | (Panic, lb1, src1, w1) \<Rightarrow> (Panic, lb1, src1, w1))"

fun transfer_chunked_body ::
  "find_sequence \<Rightarrow> 'w sink \<Rightarrow> nat \<Rightarrow> nat \<Rightarrow> loop_buffer \<Rightarrow> arrival list \<Rightarrow> u64 \<Rightarrow> 'w \<Rightarrow> (u64, 'w) pumped option" where
  "transfer_chunked_body find_seq put timeout 0 lb src total_sent w = None"
| "transfer_chunked_body find_seq put timeout (Suc fuel) lb src total_sent w =
     (case read_chunk_header find_seq timeout lb src of
        (Panic, lb1, src1) \<Rightarrow> Some (Panic, lb1, src1, w)
      | (Err e, lb1, src1) \<Rightarrow> Some (Err e, lb1, src1, w)
      | (Ok chunk_header, lb1, src1) \<Rightarrow>
          (case transfer_chunk_data put timeout lb1 src1 chunk_header w of
             (Panic, lb2, src2, w2) \<Rightarrow> Some (Panic, lb2, src2, w2)
           | (Err e, lb2, src2, w2) \<Rightarrow> Some (Err e, lb2, src2, w2)
           | (Ok transferred, lb2, src2, w2) \<Rightarrow>
               if ch_chunk_size chunk_header = 0 then Some (Ok (total_sent + transferred), lb2, src2, w2)
               else transfer_chunked_body find_seq put timeout fuel lb2 src2 (total_sent + transferred) w2))"

section \<open>What a sink promises\<close>

locale h1_writer =
  fixes put :: "'w sink" and view :: "'w \<Rightarrow> 'v" and absorb :: "bytes \<Rightarrow> 'v \<Rightarrow> 'v" and live :: "'w \<Rightarrow> bool"
  assumes put_view: "put bs w = (Ok (), w1) \<Longrightarrow> view w1 = absorb bs (view w)"
    and put_live: "live w \<Longrightarrow> \<exists>w1. put bs w = (Ok (), w1) \<and> live w1"
    and absorb_Nil: "absorb [] v = v"
    and absorb_append: "absorb (a @ b) v = absorb b (absorb a v)"
begin

lemma relay_Ok:
  assumes "relay_buffered put lb n w = (Ok m, lb1, w1)" and "lb_ok lb"
  shows "m = n - length (lb_get_data lb) \<and> view w1 = absorb (take n (lb_get_data lb)) (view w) \<and>
    lb_get_data lb1 = drop n (lb_get_data lb) \<and> lb_ok lb1 \<and> lb_data lb1 = lb_data lb"
  using assms
proof (induction n arbitrary: lb w rule: less_induct)
  case (less n)
  show ?case
  proof (cases "n = 0 \<or> lb_get_data lb = []")
    case True
    with less.prems show ?thesis by (auto simp: relay_buffered.simps absorb_Nil split: if_splits)
  next
    case False
    let ?d = "lb_get_data lb"
    let ?k = "min (min (length ?d) n) BODY_RELAY_CHUNK_SIZE"
    from False have k: "0 < ?k" "?k \<le> n" "?k \<le> length ?d"
      by (auto simp: BODY_RELAY_CHUNK_SIZE_def)
    from less.prems(1) False obtain w2 where w: "put (take ?k ?d) w = (Ok (), w2)"
      and rec: "relay_buffered put (commit_read ?k lb) (n - ?k) w2 = (Ok m, lb1, w1)"
      by (subst (asm) relay_buffered.simps) (auto simp: Let_def split: prod.splits outcome.splits)
    note c = commit_keeps [OF less.prems(2) k(3)]
    have "take n ?d = take ?k ?d @ take (n - ?k) (drop ?k ?d)"
      using k(2) by (metis le_add_diff_inverse take_add)
    with less.IH [OF _ rec c(1)] k c put_view [OF w] show ?thesis
      by (simp add: absorb_append)
  qed
qed

lemma relay_live:
  assumes "live w" and "lb_ok lb"
  shows "\<exists>m lb1 w1. relay_buffered put lb n w = (Ok m, lb1, w1) \<and> live w1"
  using assms
proof (induction n arbitrary: lb w rule: less_induct)
  case (less n)
  show ?case
  proof (cases "n = 0 \<or> lb_get_data lb = []")
    case True
    with less.prems show ?thesis by (auto simp: relay_buffered.simps)
  next
    case False
    let ?k = "min (min (length (lb_get_data lb)) n) BODY_RELAY_CHUNK_SIZE"
    from False have k: "0 < ?k" "?k \<le> n" "?k \<le> length (lb_get_data lb)"
      by (auto simp: BODY_RELAY_CHUNK_SIZE_def)
    from put_live [OF less.prems(1)] obtain w2 where
      "put (take ?k (lb_get_data lb)) w = (Ok (), w2)" "live w2" by blast
    with less.IH [of "n - ?k" w2 "commit_read ?k lb"] k commit_keeps(1) [OF less.prems(2) k(3)] False
    show ?thesis by (subst relay_buffered.simps) (auto simp: Let_def)
  qed
qed

lemma pump_Ok:
  assumes "pump put t lb src n w = (Ok (), lb1, src1, w1)" and "lb_ok lb"
  shows "n \<le> length (stream_of lb src) \<and> view w1 = absorb (take n (stream_of lb src)) (view w) \<and>
    stream_of lb1 src1 = drop n (stream_of lb src) \<and> lb_ok lb1 \<and> length (lb_data lb1) = length (lb_data lb)"
  using assms
proof (induction "src_size src" arbitrary: lb src n w rule: less_induct)
  case less
  let ?d = "lb_get_data lb"
  from less.prems(1) obtain m lb2 w2 where r: "relay_buffered put lb n w = (Ok m, lb2, w2)"
    by (subst (asm) pump.simps) (auto split: prod.splits outcome.splits)
  note ro = relay_Ok [OF r less.prems(2)]
  show ?case
  proof (cases "m = 0")
    case True
    with less.prems(1) r have "lb1 = lb2" "src1 = src" "w1 = w2" by (simp_all add: pump.simps)
    with ro True show ?thesis by (auto simp: stream_of_def)
  next
    case False
    with less.prems(1) r obtain lb3 src3 where rm: "read_more t lb2 src = (Ok (), lb3, src3)"
      and rec: "pump put t lb3 src3 m w2 = (Ok (), lb1, src1, w1)"
      by (subst (asm) pump.simps) (auto split: prod.splits outcome.splits)
    from ro have ok2: "lb_ok lb2" and d2: "lb_get_data lb2 = []" and m: "m = n - length ?d" "length ?d < n"
      using False by auto
    note rd = read_more_Ok [OF rm ok2]
    have st: "stream_of lb3 src3 = pending src" using rd(3) d2 by (simp add: stream_of_def)
    have "stream_of lb src = ?d @ pending src" by (simp add: stream_of_def)
    with less.hyps [OF rd(4) rec rd(1), unfolded st] ro m rd(2) show ?thesis
      by (auto simp: absorb_append)
  qed
qed

lemma pump_live:
  assumes "live w" and "lb_ok lb" and "0 < length (lb_data lb)" and "n \<le> length (stream_of lb src)"
  shows "\<exists>lb1 src1 w1. pump put t lb src n w = (Ok (), lb1, src1, w1) \<and> live w1"
  using assms
proof (induction "src_size src" arbitrary: lb src n w rule: less_induct)
  case less
  from relay_live [OF less.prems(1,2)] obtain m lb2 w2 where
    r: "relay_buffered put lb n w = (Ok m, lb2, w2)" "live w2" by blast
  note ro = relay_Ok [OF r(1) less.prems(2)]
  show ?case
  proof (cases "m = 0")
    case True
    with r show ?thesis by (simp add: pump.simps)
  next
    case False
    with ro less.prems have d2: "lb_get_data lb2 = []" "lb_ok lb2" "pending src \<noteq> []"
      by (auto simp: stream_of_def)
    then obtain lb3 src3 where rm: "read_more t lb2 src = (Ok (), lb3, src3)"
      using read_more_available [of lb2 src t] ro less.prems(3) by auto
    note rd = read_more_Ok [OF rm d2(2)]
    have "m \<le> length (stream_of lb3 src3)"
      using rd(3) d2(1) ro less.prems(4) by (auto simp: stream_of_def)
    from less.hyps [OF rd(4) r(2) rd(1) _ this] rd(2) ro less.prems(3) rm r False show ?thesis
      by (subst pump.simps) auto
  qed
qed

end

text \<open>The bytes a channel of events carries.\<close>

definition sink_bytes :: "ResponseEvent list \<Rightarrow> bytes" where
  "sink_bytes items = concat (map (\<lambda>e. case e of Chunk bs \<Rightarrow> bs | _ \<Rightarrow> []) items)"

interpretation channel: h1_writer channel_sink "\<lambda>tx. sink_bytes (tx_items tx)" "\<lambda>bs v. v @ bs" tx_open
  by unfold_locales (auto simp: channel_sink_def sink_bytes_def split: if_splits)

interpretation body_channel: h1_writer body_channel_sink "\<lambda>tx. concat (tx_items tx)" "\<lambda>bs v. v @ bs" tx_open
  by unfold_locales (auto simp: body_channel_sink_def split: if_splits)

interpretation drain: h1_writer null_sink "\<lambda>_. ()" "\<lambda>_ _. ()" "\<lambda>_. True"
  by unfold_locales (auto simp: null_sink_def)

text \<open>A collector keeps the bytes as long as they fit, and nothing once they did not.\<close>

definition collect :: "bytes \<Rightarrow> nat \<times> bytes option \<Rightarrow> nat \<times> bytes option" where
  "collect bs v =
     (case v of (limit, None) \<Rightarrow> (limit, None)
      | (limit, Some body) \<Rightarrow>
          if length body + length bs > limit \<and> bs \<noteq> [] then (limit, None) else (limit, Some (body @ bs)))"

definition collector_view :: "BodyCollectorSink \<Rightarrow> nat \<times> bytes option" where
  "collector_view c = (bc_limit c, if bc_overflowed c \<or> bc_limit c < length (bc_body c) then None else Some (bc_body c))"

interpretation collector: h1_writer collector_sink collector_view collect
    "\<lambda>c. length (bc_body c) \<le> bc_limit c"
  by unfold_locales
     (auto simp: collector_sink_def collector_view_def collect_def split: if_splits prod.splits option.splits)

section \<open>Chunk lemmas\<close>

definition is_hex :: "u8 \<Rightarrow> bool" where
  "is_hex c \<longleftrightarrow> parse_hex_digit c \<noteq> None"

definition hex_digit :: "u8 \<Rightarrow> nat" where
  "hex_digit c = (case parse_hex_digit c of Some d \<Rightarrow> unat d | None \<Rightarrow> 0)"

fun le_value :: "bytes \<Rightarrow> nat" where
  "le_value [] = 0"
| "le_value (c # cs) = hex_digit c + 16 * le_value cs"

text \<open>The number a hexadecimal numeral denotes.\<close>

definition hex_value :: "bytes \<Rightarrow> nat" where
  "hex_value h = le_value (rev h)"

lemma chunk_size_loop_value:
  "list_all is_hex cs \<Longrightarrow> chunk_size_loop cs r m = Ok (r + m * of_nat (le_value cs))"
proof (induction cs arbitrary: r m)
  case (Cons c cs)
  then obtain d where d: "parse_hex_digit c = Some d" by (auto simp: is_hex_def)
  then have "of_nat (hex_digit c) = d" by (simp add: hex_digit_def)
  with d Cons show ?case by (simp add: algebra_simps)
qed simp

lemma new_chunk_header_value:
  "list_all is_hex h \<Longrightarrow>
   new_chunk_header (length h) (h @ rest) = Ok \<lparr>ch_len = length h, ch_chunk_size = of_nat (hex_value h)\<rparr>"
  by (simp add: new_chunk_header_def get_chunk_size_def chunk_size_loop_value hex_value_def list_all_iff)

lemma not_hex_cr_lf: "\<not> is_hex 13" "\<not> is_hex 10"
  by (simp_all add: is_hex_def parse_hex_digit_def)

lemma find_crlf_after_hex:
  assumes "find_seq_ok f" and "list_all is_hex h"
  shows "f (h @ HTTP_CR_LF @ rest) HTTP_CR_LF 0 = Some (length h)"
proof (rule find_seq_Some [OF assms(1)])
  fix j
  assume "j < length h"
  with assms(2) have "(h @ HTTP_CR_LF @ rest) ! j \<noteq> 13"
    using not_hex_cr_lf(1) by (auto simp: nth_append list_all_length)
  then show "\<not> occurs_at (h @ HTTP_CR_LF @ rest) HTTP_CR_LF j"
    by (simp add: HTTP_CR_LF_def occurs_at_two)
qed (simp_all add: HTTP_CR_LF_def occurs_at_two nth_append)

lemma find_crlf_too_short:
  assumes "find_seq_ok f" and "list_all is_hex h" and "k < length h + 2"
  shows "f (take k (h @ HTTP_CR_LF @ rest)) HTTP_CR_LF 0 = None"
proof (rule find_seq_None [OF assms(1)])
  fix j
  have "x \<noteq> 10" if "x \<in> set (take k (h @ [13]))" for x
    using that assms(2) not_hex_cr_lf by (auto simp: list_all_iff dest!: in_set_takeD)
  moreover have "take k (h @ HTTP_CR_LF @ rest) = take k (h @ [13])"
    using assms(3) by (simp add: HTTP_CR_LF_def take_Cons')
  ultimately have "(10 :: u8) \<notin> set (take k (h @ HTTP_CR_LF @ rest))" by auto
  then show "\<not> occurs_at (take k (h @ HTTP_CR_LF @ rest)) HTTP_CR_LF j"
    unfolding HTTP_CR_LF_def occurs_at_two by (metis nth_mem)
qed (simp add: HTTP_CR_LF_def)

lemma read_chunk_header_Ok:
  assumes "find_seq_ok f" and "list_all is_hex h" and "h \<noteq> []"
    and "lb_ok lb" and "length h + 2 \<le> length (lb_data lb)" and "stream_of lb src = h @ HTTP_CR_LF @ rest"
  shows "\<exists>lb1 src1. read_chunk_header f t lb src =
      (Ok \<lparr>ch_len = length h, ch_chunk_size = of_nat (hex_value h)\<rparr>, lb1, src1) \<and>
    lb_ok lb1 \<and> length (lb_data lb1) = length (lb_data lb) \<and> stream_of lb1 src1 = stream_of lb src"
  using assms(4-6)
proof (induction "src_size src" arbitrary: lb src rule: less_induct)
  case less
  let ?d = "lb_get_data lb"
  have pre: "?d = take (length ?d) (h @ HTTP_CR_LF @ rest)"
    using less.prems(3) by (metis append_eq_conv_conj stream_of_def)
  show ?case
  proof (cases "length h + 2 \<le> length ?d")
    case True
    then have "?d = h @ HTTP_CR_LF @ take (length ?d - (length h + 2)) rest"
      using pre by (simp add: HTTP_CR_LF_def take_Cons')
    then obtain r where d: "?d = h @ HTTP_CR_LF @ r" by blast
    then have "length ?d > 2" using assms(3) by (cases h) (auto simp: HTTP_CR_LF_def)
    with less.prems show ?thesis
      by (subst read_chunk_header.simps)
         (simp add: d find_crlf_after_hex [OF assms(1,2)] new_chunk_header_value [OF assms(2)])
  next
    case False
    then have none: "f ?d HTTP_CR_LF 0 = None"
      using find_crlf_too_short [OF assms(1,2), of "length ?d" rest] pre by simp
    have "pending src \<noteq> []"
      using False less.prems(3) by (auto simp: stream_of_def HTTP_CR_LF_def dest: arg_cong [where f = length])
    with less.prems False obtain lb1 src1 where rm: "read_more t lb src = (Ok (), lb1, src1)"
      using read_more_available [of lb src t] by auto
    note rd = read_more_Ok [OF rm less.prems(1)]
    have "read_chunk_header f t lb src = read_chunk_header f t lb1 src1"
      by (subst read_chunk_header.simps) (simp add: Let_def none rm)
    with less.hyps [OF rd(4) rd(1)] rd less.prems show ?thesis by simp
  qed
qed

text \<open>A chunk on the wire: its size line, its data, and the line end.\<close>

definition chunk_wire :: "bytes \<times> bytes \<Rightarrow> bytes" where
  "chunk_wire = (\<lambda>(h, c). h @ HTTP_CR_LF @ c @ HTTP_CR_LF)"

definition valid_chunk :: "bytes \<times> bytes \<Rightarrow> bool" where
  "valid_chunk = (\<lambda>(h, c). h \<noteq> [] \<and> list_all is_hex h \<and> length h \<le> 16 \<and> hex_value h = length c \<and>
     length h + length c + 4 < 2 ^ 64)"

definition chunk_header :: "bytes \<times> bytes \<Rightarrow> ChunkHeader" where
  "chunk_header = (\<lambda>(h, c). \<lparr>ch_len = length h, ch_chunk_size = of_nat (length c)\<rparr>)"

lemma len64: "LENGTH(64) = 64"
  by simp

lemma chunk_total_wire:
  assumes "valid_chunk hc"
  shows "unat (chunk_total (chunk_header hc)) = length (chunk_wire hc)"
proof -
  obtain h c where hc: "hc = (h, c)" by (cases hc)
  have "chunk_total (chunk_header hc) = of_nat (length h + length c + 4)"
    by (simp add: chunk_total_def chunk_header_def hc HTTP_CR_LF_def)
  then have "unat (chunk_total (chunk_header hc)) = (length h + length c + 4) mod 2 ^ 64"
    using unat_of_nat [of "length h + length c + 4", where 'a = 64] by (simp only: len64)
  with assms show ?thesis
    by (simp add: hc valid_chunk_def chunk_wire_def HTTP_CR_LF_def)
qed

lemma chunk_header_size_0:
  assumes "valid_chunk hc"
  shows "ch_chunk_size (chunk_header hc) = 0 \<longleftrightarrow> snd hc = []"
proof -
  obtain h c where hc: "hc = (h, c)" by (cases hc)
  have "of_nat (length c) = (0 :: u64) \<longleftrightarrow> length c = 0"
    using assms unat_of_nat [of "length c", where 'a = 64] by (auto simp: hc valid_chunk_def unat_eq_0)
  then show ?thesis by (simp add: hc chunk_header_def)
qed

context h1_writer
begin

lemma one_chunk:
  assumes "find_seq_ok f" and "live w" and "lb_ok lb" and "18 \<le> length (lb_data lb)" and "valid_chunk hc"
    and "stream_of lb src = chunk_wire hc @ rest"
  shows "\<exists>lb1 src1 lb2 src2 w2. read_chunk_header f t lb src = (Ok (chunk_header hc), lb1, src1) \<and>
    transfer_chunk_data put t lb1 src1 (chunk_header hc) w =
      (Ok (of_nat (length (chunk_wire hc))), lb2, src2, w2) \<and>
    live w2 \<and> lb_ok lb2 \<and> length (lb_data lb2) = length (lb_data lb) \<and> stream_of lb2 src2 = rest \<and>
    view w2 = absorb (chunk_wire hc) (view w)"
proof -
  obtain h c where hc: "hc = (h, c)" by (cases hc)
  with assms(5) have v: "h \<noteq> []" "list_all is_hex h" "length h \<le> 16" "hex_value h = length c"
    by (auto simp: valid_chunk_def)
  from read_chunk_header_Ok [OF assms(1) v(2,1) assms(3), of src "c @ HTTP_CR_LF @ rest" t] assms(4,6) v(3,4)
  obtain lb1 src1 where h: "read_chunk_header f t lb src = (Ok (chunk_header hc), lb1, src1)" "lb_ok lb1"
      "length (lb_data lb1) = length (lb_data lb)" "stream_of lb1 src1 = stream_of lb src"
    by (auto simp: chunk_wire_def hc chunk_header_def)
  let ?n = "unat (chunk_total (chunk_header hc))"
  have n: "?n = length (chunk_wire hc)" by (rule chunk_total_wire [OF assms(5)])
  then have tot: "chunk_total (chunk_header hc) = of_nat (length (chunk_wire hc))"
    by (metis of_nat_unat ucast_id)
  have "0 < length (lb_data lb1)" "?n \<le> length (stream_of lb1 src1)" using h(3,4) assms(4,6) n by auto
  from pump_live [OF assms(2) h(2) this] obtain lb2 src2 w2 where
    p: "pump put t lb1 src1 ?n w = (Ok (), lb2, src2, w2)" "live w2" by blast
  from pump_Ok [OF p(1) h(2)] h p(2) n tot assms(6) p(1) show ?thesis
    by (auto simp: transfer_chunk_data_def Let_def)
qed

lemma chunked_Ok:
  assumes "find_seq_ok f" and "live w" and "lb_ok lb" and "18 \<le> length (lb_data lb)"
    and "list_all (\<lambda>hc. valid_chunk hc \<and> snd hc \<noteq> []) cs" and "valid_chunk (h0, [])"
    and "stream_of lb src = concat (map chunk_wire cs) @ chunk_wire (h0, []) @ rest"
    and "length cs < fuel"
  shows "\<exists>lb1 src1 w1. transfer_chunked_body f put t fuel lb src sent w =
      Some (Ok (sent + of_nat (length (concat (map chunk_wire cs) @ chunk_wire (h0, [])))), lb1, src1, w1) \<and>
    view w1 = absorb (concat (map chunk_wire cs) @ chunk_wire (h0, [])) (view w) \<and>
    stream_of lb1 src1 = rest \<and> lb_ok lb1"
  using assms(2-8)
proof (induction cs arbitrary: fuel lb src sent w)
  case Nil
  then obtain fuel' where fuel: "fuel = Suc fuel'" by (cases fuel) auto
  from one_chunk [OF assms(1) Nil.prems(1-3,5), of src rest t] Nil.prems(6)
    chunk_header_size_0 [OF Nil.prems(5)] show ?case by (auto simp: fuel)
next
  case (Cons hc cs)
  then obtain fuel' where fuel: "fuel = Suc fuel'" by (cases fuel) auto
  from Cons.prems(4) have v: "valid_chunk hc" "snd hc \<noteq> []" and
    vs: "list_all (\<lambda>hc. valid_chunk hc \<and> snd hc \<noteq> []) cs" by auto
  let ?r = "concat (map chunk_wire cs) @ chunk_wire (h0, []) @ rest"
  from one_chunk [OF assms(1) Cons.prems(1-3) v(1), of src ?r t] Cons.prems(6) obtain lb1 src1 lb2 src2 w2 where
    s: "read_chunk_header f t lb src = (Ok (chunk_header hc), lb1, src1)"
      "transfer_chunk_data put t lb1 src1 (chunk_header hc) w =
        (Ok (of_nat (length (chunk_wire hc))), lb2, src2, w2)"
      "live w2" "lb_ok lb2" "length (lb_data lb2) = length (lb_data lb)" "stream_of lb2 src2 = ?r"
      "view w2 = absorb (chunk_wire hc) (view w)"
    by auto
  have "18 \<le> length (lb_data lb2)" "length cs < fuel'" using s(5) Cons.prems(3,7) fuel by auto
  from Cons.IH [OF s(3,4) this(1) vs Cons.prems(5) s(6) this(2), of "sent + of_nat (length (chunk_wire hc))"]
  show ?case
    using s chunk_header_size_0 [OF v(1)] v(2) by (auto simp: fuel absorb_append add.assoc)
qed

end

section \<open>Properties\<close>

text \<open>
  C29. Relaying a body of declared size: with a live response channel, \<open>transfer_known_size\<close>
  returns the size, forwards exactly the next \<open>n\<close> bytes of the connection in order and leaves
  the bytes behind them (a pipelined request) unread, if and only if that many bytes arrive;
  however the bytes are split between the buffer and later reads.
\<close>

theorem known_size_relayed:
  assumes "lb_ok lb" and "0 < length (lb_data lb)" and "tx_open tx"
  shows "(\<exists>lb1 src1 tx1. transfer_known_size channel_sink t lb src n tx = (Ok n, lb1, src1, tx1) \<and>
      sink_bytes (tx_items tx1) = sink_bytes (tx_items tx) @ take n (stream_of lb src) \<and>
      stream_of lb1 src1 = drop n (stream_of lb src)) \<longleftrightarrow> n \<le> length (stream_of lb src)"
    (is "?L \<longleftrightarrow> ?R")
proof
  assume ?L
  then obtain lb1 src1 tx1 where "pump channel_sink t lb src n tx = (Ok (), lb1, src1, tx1)"
    by (auto simp: transfer_known_size_def split: prod.splits outcome.splits)
  from channel.pump_Ok [OF this assms(1)] show ?R by simp
next
  assume ?R
  from channel.pump_live [where t = t, OF assms(3,1,2) this] obtain lb1 src1 tx1 where
    p: "pump channel_sink t lb src n tx = (Ok (), lb1, src1, tx1)" by blast
  from channel.pump_Ok [OF this assms(1)] p show ?L by (auto simp: transfer_known_size_def)
qed

definition small_buffer :: "bytes \<Rightarrow> loop_buffer" where
  "small_buffer bs = \<lparr>lb_data = bs @ replicate 32 0, lb_from = 0, lb_to = length bs\<rparr>"

lemma small_buffer_simps [simp]:
  "lb_ok (small_buffer bs)" "lb_get_data (small_buffer bs) = bs" "18 \<le> length (lb_data (small_buffer bs))"
  "lb_data (small_buffer bs) \<noteq> []"
  by (simp_all add: small_buffer_def lb_ok_def lb_get_data_def)

theorem known_size_relayed_witness:
  "\<exists>lb1 src1 tx1. transfer_known_size channel_sink 1 (small_buffer [1, 2]) [Arrive [3, 4]] 3
      \<lparr>tx_items = [], tx_open = True\<rparr> = (Ok 3, lb1, src1, tx1) \<and>
    sink_bytes (tx_items tx1) = [1, 2, 3] \<and> stream_of lb1 src1 = [4]"
  using known_size_relayed [of "small_buffer [1, 2]" "\<lparr>tx_items = [], tx_open = True\<rparr>" 1 "[Arrive [3, 4]]" 3]
  by (simp add: stream_of_def sink_bytes_def)

text \<open>
  Collecting a form body in memory: the whole body is consumed from the connection whatever
  its size, and it is returned exactly when it fits the limit.
\<close>

theorem collected_body:
  assumes "lb_ok lb" and "0 < length (lb_data lb)" and "n \<le> length (stream_of lb src)"
  shows "\<exists>lb1 src1 c. transfer_known_size collector_sink t lb src n (new_collector limit) = (Ok n, lb1, src1, c) \<and>
    into_body c = (if n \<le> limit then Some (take n (stream_of lb src)) else None) \<and>
    stream_of lb1 src1 = drop n (stream_of lb src)"
proof -
  let ?c0 = "new_collector limit"
  have "length (bc_body ?c0) \<le> bc_limit ?c0" by (simp add: new_collector_def)
  from collector.pump_live [where t = t, OF this assms] obtain lb1 src1 c where
    p: "pump collector_sink t lb src n ?c0 = (Ok (), lb1, src1, c)" and live: "length (bc_body c) \<le> bc_limit c"
    by blast
  from collector.pump_Ok [OF p assms(1)] have
    "collector_view c = collect (take n (stream_of lb src)) (limit, Some [])"
    and "stream_of lb1 src1 = drop n (stream_of lb src)"
    by (simp_all add: collector_view_def new_collector_def)
  with p live assms(3) show ?thesis
    by (auto simp: transfer_known_size_def collector_view_def collect_def into_body_def split: if_splits)
qed

theorem collected_body_witness:
  "\<exists>lb1 src1 c. transfer_known_size collector_sink 1 (small_buffer [1, 2]) [Arrive [3, 4]] 3 (new_collector 2) =
      (Ok 3, lb1, src1, c) \<and> into_body c = None \<and> stream_of lb1 src1 = [4]"
  using collected_body [of "small_buffer [1, 2]" 3 "[Arrive [3, 4]]" 1 2] by (simp add: stream_of_def)

text \<open>
  C33. Relaying a chunked body: for a sequence of valid chunks and a final zero-size chunk, the
  transfer terminates after as many turns as there are chunks, forwards the framing and the
  data verbatim, counts them, and leaves what follows on the connection unread.
\<close>

theorem chunked_body_relayed:
  assumes "find_seq_ok f" and "tx_open tx" and "lb_ok lb" and "18 \<le> length (lb_data lb)"
    and "list_all (\<lambda>hc. valid_chunk hc \<and> snd hc \<noteq> []) cs" and "valid_chunk (h0, [])"
    and "stream_of lb src = concat (map chunk_wire cs) @ chunk_wire (h0, []) @ rest"
    and "length cs < fuel"
  shows "\<exists>lb1 src1 tx1. transfer_chunked_body f body_channel_sink t fuel lb src 0 tx =
      Some (Ok (of_nat (length (concat (map chunk_wire cs) @ chunk_wire (h0, [])))), lb1, src1, tx1) \<and>
    concat (tx_items tx1) = concat (tx_items tx) @ concat (map chunk_wire cs) @ chunk_wire (h0, []) \<and>
    stream_of lb1 src1 = rest"
  using body_channel.chunked_Ok [OF assms, of t 0] by auto

theorem chunked_body_relayed_witness:
  "\<exists>lb1 src1 tx1. transfer_chunked_body find_ref body_channel_sink 1 2
      (small_buffer (as_bytes ''3'' @ [13, 10, 7])) [Arrive [8, 9, 13, 10], Arrive (as_bytes ''0'' @ [13, 10, 13, 10, 77])] 0
      \<lparr>tx_items = [], tx_open = True\<rparr> = Some (Ok 13, lb1, src1, tx1) \<and>
    concat (tx_items tx1) = as_bytes ''3'' @ [13, 10, 7, 8, 9, 13, 10] @ as_bytes ''0'' @ [13, 10, 13, 10] \<and>
    stream_of lb1 src1 = [77]"
  using chunked_body_relayed [OF find_ref_ok, of "\<lparr>tx_items = [], tx_open = True\<rparr>"
      "small_buffer (as_bytes ''3'' @ [13, 10, 7])" "[(as_bytes ''3'', [7, 8, 9])]" "as_bytes ''0''"
      "[Arrive [8, 9, 13, 10], Arrive (as_bytes ''0'' @ [13, 10, 13, 10, 77])]" "[77]" 2 1]
  by (simp add: stream_of_def chunk_wire_def valid_chunk_def HTTP_CR_LF_def as_bytes_def is_hex_def
      parse_hex_digit_def hex_value_def hex_digit_def)

text \<open>
  C33. A chunk size line can stop the connection's task for good: after \<open>ffffffffffffffec\<close> the
  64-bit sum of the line's length, the chunk size and the two line ends is 0, so nothing is
  forwarded, the size is not 0, and the loop meets the same line again. Whatever arrives and
  whatever the sink does, no number of turns lets the transfer return.
\<close>

theorem chunk_size_overflow_spins:
  assumes "find_seq_ok f" and "lb_get_data lb = as_bytes ''ffffffffffffffec'' @ HTTP_CR_LF @ rest"
  shows "transfer_chunked_body f put t fuel lb src sent w = None"
proof (induction fuel arbitrary: sent)
  case (Suc fuel)
  let ?h = "as_bytes ''ffffffffffffffec''"
  have hex: "list_all is_hex ?h" and val: "of_nat (hex_value ?h) = (0xFFFFFFFFFFFFFFEC :: u64)"
    by (simp_all add: as_bytes_def is_hex_def parse_hex_digit_def hex_value_def hex_digit_def)
  have "read_chunk_header f t lb src = (Ok \<lparr>ch_len = 16, ch_chunk_size = 0xFFFFFFFFFFFFFFEC\<rparr>, lb, src)"
    using find_crlf_after_hex [OF assms(1) hex, of rest] new_chunk_header_value [OF hex, of "HTTP_CR_LF @ rest"] val
    by (subst read_chunk_header.simps) (simp add: assms(2) Let_def HTTP_CR_LF_def)
  moreover have "transfer_chunk_data put t lb src \<lparr>ch_len = 16, ch_chunk_size = 0xFFFFFFFFFFFFFFEC\<rparr> w =
      (Ok 0, lb, src, w)"
    by (simp add: transfer_chunk_data_def chunk_total_def HTTP_CR_LF_def Let_def pump.simps relay_buffered.simps)
  ultimately show ?case using Suc.IH by simp
qed simp

theorem chunk_size_overflow_spins_witness:
  "transfer_chunked_body find_ref null_sink 1 1000 (small_buffer (as_bytes ''ffffffffffffffec'' @ HTTP_CR_LF)) [] 0 () = None"
  by (rule chunk_size_overflow_spins [OF find_ref_ok, of _ "[]"]) simp

end
