(* ===== verification/H1_Head.thy ===== *)
theory H1_Head
  imports H1_Body
begin

text \<open>
  HTTP/1 message heads: \<open>src/src/h1_utils\<close>. First-line verification, header access, the parser
  \<open>Http1Headers::parse\<close>, and the two builders. A \<open>&str\<close> is its UTF-8 bytes. The slice searches
  and \<open>eq_case_insensitive\<close> are code of \<open>rust_extensions\<close> and arguments here (\<open>find_seq\<close>,
  \<open>find_byte\<close>, \<open>eq_ci\<close>); \<open>canonical_reason\<close> is the table of the \<open>http\<close> crate. The parser's loop
  advances only as far as \<open>find_seq\<close> does, so it has fuel; a parse gets one turn per byte, which
  is enough for any search that satisfies \<open>find_seq_ok\<close>.
\<close>

section \<open>Text of the standard library\<close>

text \<open>The characters of a valid UTF-8 string, each as its bytes.\<close>

function utf8_chars :: "bytes \<Rightarrow> bytes list" where
  "utf8_chars bs =
     (case bs of
        [] \<Rightarrow> []
      | b # _ \<Rightarrow>
          let n = (if b < 0xC0 then 1 else if b < 0xE0 then 2 else if b < 0xF0 then 3 else 4)
          in take n bs # utf8_chars (drop n bs))"
  by pat_completeness auto
termination
  by (relation "measure length") auto

declare utf8_chars.simps [simp del]

text \<open>The Unicode property \<open>White_Space\<close>.\<close>

definition is_whitespace :: "bytes \<Rightarrow> bool" where
  "is_whitespace c \<longleftrightarrow>
     c \<in> set [[9], [10], [11], [12], [13], [32], [0xC2, 0x85], [0xC2, 0xA0], [0xE1, 0x9A, 0x80],
            [0xE2, 0x80, 0xA8], [0xE2, 0x80, 0xA9], [0xE2, 0x80, 0xAF], [0xE2, 0x81, 0x9F], [0xE3, 0x80, 0x80]] \<or>
     (length c = 3 \<and> take 2 c = [0xE2, 0x80] \<and> 0x80 \<le> c ! 2 \<and> c ! 2 \<le> 0x8A)"

definition trim :: "bytes \<Rightarrow> bytes" where
  "trim bs =
     concat (rev (dropWhile is_whitespace (rev (dropWhile is_whitespace (utf8_chars bs)))))"

fun split_chars :: "bytes list \<Rightarrow> bytes \<Rightarrow> bytes list" where
  "split_chars [] cur = (if cur = [] then [] else [cur])"
| "split_chars (c # cs) cur =
     (if is_whitespace c then (if cur = [] then split_chars cs [] else cur # split_chars cs [])
      else split_chars cs (cur @ c))"

definition split_whitespace :: "bytes \<Rightarrow> bytes list" where
  "split_whitespace bs = split_chars (utf8_chars bs) []"

definition is_digit :: "u8 \<Rightarrow> bool" where
  "is_digit c \<longleftrightarrow> 48 \<le> c \<and> c \<le> 57"

definition dec_value :: "bytes \<Rightarrow> nat" where
  "dec_value ds = foldl (\<lambda>acc c. 10 * acc + (unat c - 48)) 0 ds"

text \<open>\<open>str::parse\<close> for an unsigned type below \<open>bound\<close>: an optional plus sign and digits.\<close>

definition parse_unsigned :: "nat \<Rightarrow> bytes \<Rightarrow> nat option" where
  "parse_unsigned bound s =
     (let ds = (case s of c # rest \<Rightarrow> if c = 43 \<and> rest \<noteq> [] then rest else s | [] \<Rightarrow> s) in
      if ds = [] \<or> \<not> list_all is_digit ds \<or> \<not> dec_value ds < bound then None else Some (dec_value ds))"

section \<open>First line\<close>

datatype first_line_error =
    EmptyFirstLine
  | InvalidUtf8
  | NoTokens
  | LessThanTwoTokens
  | ResponseTooShort
  | InvalidStatusCode bytes
  | RequestNotThreeTokens
  | InvalidVersion bytes
  | InvalidMethod bytes
  | EmptyUri

definition is_valid_http_method :: "bytes \<Rightarrow> bool" where
  "is_valid_http_method method \<longleftrightarrow>
     method \<in> set (map as_bytes [''GET'', ''POST'', ''PUT'', ''DELETE'', ''HEAD'', ''OPTIONS'', ''PATCH'',
       ''TRACE'', ''CONNECT'', ''PRI''])"

definition is_valid_status_code :: "bytes \<Rightarrow> bool" where
  "is_valid_status_code status =
     (if length status \<noteq> 3 then False
      else if \<not> list_all is_digit status then False
      else case parse_unsigned (2 ^ 16) status of
        Some code \<Rightarrow> code \<ge> 100 \<and> code \<le> 599
      | None \<Rightarrow> False)"

definition verify_http11_first_line :: "bytes \<Rightarrow> (first_line_error, unit) outcome" where
  "verify_http11_first_line first_line =
     (if first_line = [] then Err EmptyFirstLine
      else if \<not> utf8_valid first_line then Err InvalidUtf8
      else
        let parts = split_whitespace first_line in
        if parts = [] then Err NoTokens
        else if length parts < 2 then Err LessThanTwoTokens
        else if parts ! 0 = as_bytes ''HTTP/1.1'' then
          (if length parts < 3 then Err ResponseTooShort
           else if \<not> is_valid_status_code (parts ! 1) then Err (InvalidStatusCode (parts ! 1))
           else Ok ())
        else if length parts \<noteq> 3 then Err RequestNotThreeTokens
        else if parts ! 2 \<noteq> as_bytes ''HTTP/1.1'' then Err (InvalidVersion (parts ! 2))
        else if \<not> is_valid_http_method (parts ! 0) then Err (InvalidMethod (parts ! 0))
        else if parts ! 1 = [] then Err EmptyUri
        else Ok ())"

section \<open>One header\<close>

type_synonym 'a panics = "(unit, 'a) outcome"

record HeaderPosition =
  hp_start :: nat
  hp_end :: nat

record HttpHeader =
  hh_payload :: bytes
  hh_start :: nat
  hh_separator :: nat
  hh_end :: nat

definition new_header :: "find_byte \<Rightarrow> bytes \<Rightarrow> nat \<Rightarrow> nat \<Rightarrow> HttpHeader option" where
  "new_header find_byte payload header_start_pos header_end =
     (case find_byte payload 58 header_start_pos of
        None \<Rightarrow> None
      | Some sep \<Rightarrow> Some \<lparr>hh_payload = payload, hh_start = header_start_pos, hh_separator = sep, hh_end = header_end\<rparr>)"

definition to_lower_case :: "u8 \<Rightarrow> u8" where
  "to_lower_case b = (if b \<ge> 65 \<and> b \<le> 90 then b - 65 + 97 else b)"

text \<open>The iteration is over \<open>right\<close>; a shorter \<open>left\<close> makes \<open>unwrap\<close> panic.\<close>

fun compare_case_insensitive :: "bytes \<Rightarrow> bytes \<Rightarrow> bool panics" where
  "compare_case_insensitive left [] = Ok True"
| "compare_case_insensitive [] (v # vs) = Panic"
| "compare_case_insensitive (p # ps) (v # vs) =
     (if v = p then compare_case_insensitive ps vs
      else if to_lower_case v \<noteq> to_lower_case p then Ok False
      else compare_case_insensitive ps vs)"

definition is_my_header_name :: "HttpHeader \<Rightarrow> bytes \<Rightarrow> bool panics" where
  "is_my_header_name h name =
     (if hh_separator h - hh_start h \<noteq> length name then Ok False
      else rbind (slice (hh_payload h) (hh_start h) (hh_separator h)) (\<lambda>header_name.
        compare_case_insensitive header_name name))"

definition get_value_as_str :: "HttpHeader \<Rightarrow> bytes option panics" where
  "get_value_as_str h =
     rbind (slice (hh_payload h) (hh_separator h + 2) (hh_end h)) (\<lambda>bs.
       Ok (if utf8_valid bs then Some (trim bs) else None))"

definition get_value :: "HttpHeader \<Rightarrow> HeaderPosition" where
  "get_value h = \<lparr>hp_start = hh_separator h + 2, hp_end = hh_end h\<rparr>"

definition get_usize_value :: "HttpHeader \<Rightarrow> nat option panics" where
  "get_usize_value h =
     rbind (get_value_as_str h) (\<lambda>v. Ok (case v of None \<Rightarrow> None | Some s \<Rightarrow> parse_unsigned (2 ^ 64) s))"

section \<open>The head\<close>

datatype HttpContentLength = NoBody | Known nat | Chunked

record Http1Headers =
  h1_first_line_end :: nat
  h1_end :: nat
  h1_content_length :: HttpContentLength
  h1_host_value :: "HeaderPosition option"
  h1_cookie_value :: "HeaderPosition option"
  h1_upgrade_value :: "HeaderPosition option"

text \<open>
  One header of the loop: \<open>Ok None\<close> is the \<open>?\<close> that ends the parse, otherwise the updated
  result.
\<close>

definition header_turn :: "(bytes \<Rightarrow> bytes \<Rightarrow> bool) \<Rightarrow> HttpHeader \<Rightarrow> Http1Headers \<Rightarrow> Http1Headers option panics" where
  "header_turn eq_ci h acc =
     rbind (is_my_header_name h (as_bytes ''host'')) (\<lambda>host.
       if host then Ok (Some (acc\<lparr>h1_host_value := Some (get_value h)\<rparr>))
       else rbind (is_my_header_name h (as_bytes ''cookie'')) (\<lambda>cookie.
         if cookie then Ok (Some (acc\<lparr>h1_cookie_value := Some (get_value h)\<rparr>))
         else rbind (is_my_header_name h (as_bytes ''content-length'')) (\<lambda>cl.
           if cl then
             rbind (get_usize_value h) (\<lambda>n.
               Ok (case n of None \<Rightarrow> None | Some n \<Rightarrow> Some (acc\<lparr>h1_content_length := Known n\<rparr>)))
           else rbind (is_my_header_name h (as_bytes ''transfer-encoding'')) (\<lambda>te.
             if te then
               rbind (get_value_as_str h) (\<lambda>v.
                 Ok (case v of None \<Rightarrow> None
                     | Some s \<Rightarrow> Some (if eq_ci s (as_bytes ''chunked'')
                                        then acc\<lparr>h1_content_length := Chunked\<rparr> else acc)))
             else rbind (is_my_header_name h (as_bytes ''upgrade'')) (\<lambda>up.
               Ok (Some (if up then acc\<lparr>h1_upgrade_value := Some (get_value h)\<rparr> else acc)))))))"

fun header_loop ::
  "find_sequence \<Rightarrow> find_byte \<Rightarrow> (bytes \<Rightarrow> bytes \<Rightarrow> bool) \<Rightarrow> nat \<Rightarrow> bytes \<Rightarrow> nat \<Rightarrow> Http1Headers
     \<Rightarrow> Http1Headers option panics option" where
  "header_loop find_seq find_byte eq_ci 0 src pos acc = None"
| "header_loop find_seq find_byte eq_ci (Suc fuel) src pos acc =
     (case find_seq src HTTP_CR_LF pos of
        None \<Rightarrow> Some (Ok None)
      | Some end_pos \<Rightarrow>
          if end_pos = pos then Some (Ok (Some (acc\<lparr>h1_end := end_pos + length HTTP_CR_LF\<rparr>)))
          else case new_header find_byte src pos end_pos of
            None \<Rightarrow> Some (Ok None)
          | Some h \<Rightarrow>
              (case header_turn eq_ci h acc of
                 Panic \<Rightarrow> Some Panic
               | Err e \<Rightarrow> Some (Err e)
               | Ok None \<Rightarrow> Some (Ok None)
               | Ok (Some acc1) \<Rightarrow>
                   header_loop find_seq find_byte eq_ci fuel src (end_pos + length HTTP_CR_LF) acc1))"

definition parse_head ::
  "find_sequence \<Rightarrow> find_byte \<Rightarrow> (bytes \<Rightarrow> bytes \<Rightarrow> bool) \<Rightarrow> bytes \<Rightarrow> Http1Headers option panics option" where
  "parse_head find_seq find_byte eq_ci src =
     (case find_seq src HTTP_CR_LF 0 of
        None \<Rightarrow> Some (Ok None)
      | Some first_line_end \<Rightarrow>
          (case verify_http11_first_line (take first_line_end src) of
             Ok _ \<Rightarrow>
               header_loop find_seq find_byte eq_ci (Suc (length src)) src (first_line_end + length HTTP_CR_LF)
                 \<lparr>h1_first_line_end = first_line_end, h1_end = 0, h1_content_length = NoBody,
                  h1_host_value = None, h1_cookie_value = None, h1_upgrade_value = None\<rparr>
           | _ \<Rightarrow> Some (Ok None)))"

text \<open>\<open>get_first_line\<close> and the two accessors of \<open>H1HeadersFirstLine\<close>, which unwrap their searches.\<close>

definition get_first_line :: "bytes \<Rightarrow> Http1Headers \<Rightarrow> bytes panics" where
  "get_first_line src h = slice src 0 (h1_first_line_end h)"

definition get_path_and_query :: "find_byte \<Rightarrow> bytes \<Rightarrow> bytes panics" where
  "get_path_and_query find_byte first_line =
     (case find_byte first_line 32 0 of
        None \<Rightarrow> Panic
      | Some i \<Rightarrow>
          (case find_byte first_line 32 (i + 1) of
             None \<Rightarrow> Panic
           | Some j \<Rightarrow>
               rbind (slice first_line (i + 1) j) (\<lambda>bs. if utf8_valid bs then Ok bs else Panic)))"

definition get_verb_and_path :: "find_byte \<Rightarrow> bytes \<Rightarrow> (bytes \<times> bytes) panics" where
  "get_verb_and_path find_byte first_line =
     (case find_byte first_line 32 0 of
        None \<Rightarrow> Panic
      | Some i \<Rightarrow>
          (case find_byte first_line 32 (i + 1) of
             None \<Rightarrow> Panic
           | Some j \<Rightarrow>
               rbind (slice first_line 0 i) (\<lambda>verb.
               rbind (slice first_line (i + 1) j) (\<lambda>path.
                 if utf8_valid verb \<and> utf8_valid path then Ok (verb, path) else Panic))))"

fun find_header_loop :: "find_sequence \<Rightarrow> find_byte \<Rightarrow> nat \<Rightarrow> bytes \<Rightarrow> bytes \<Rightarrow> nat \<Rightarrow> bytes option panics option" where
  "find_header_loop find_seq find_byte 0 src name pos = None"
| "find_header_loop find_seq find_byte (Suc fuel) src name pos =
     (case find_seq src HTTP_CR_LF pos of
        None \<Rightarrow> Some (Ok None)
      | Some end_pos \<Rightarrow>
          if end_pos = pos then Some (Ok None)
          else case new_header find_byte src pos end_pos of
            None \<Rightarrow> Some (Ok None)
          | Some h \<Rightarrow>
              (case is_my_header_name h name of
                 Panic \<Rightarrow> Some Panic
               | Err e \<Rightarrow> Some (Err e)
               | Ok True \<Rightarrow>
                   Some (rbind (slice src (hp_start (get_value h)) (hp_end (get_value h))) (\<lambda>bs.
                     Ok (if utf8_valid bs then Some (trim bs) else None)))
               | Ok False \<Rightarrow> find_header_loop find_seq find_byte fuel src name (end_pos + length HTTP_CR_LF)))"

definition find_header_value_str ::
  "find_sequence \<Rightarrow> find_byte \<Rightarrow> bytes \<Rightarrow> bytes \<Rightarrow> Http1Headers \<Rightarrow> bytes option panics option" where
  "find_header_value_str find_seq find_byte src name h =
     find_header_loop find_seq find_byte (Suc (length src)) src name (h1_first_line_end h + length HTTP_CR_LF)"

section \<open>Builders\<close>

text \<open>A builder is its payload.\<close>

definition push_cl_cr :: "bytes \<Rightarrow> bytes" where
  "push_cl_cr payload = payload @ HTTP_CR_LF"

definition push_header :: "bytes \<Rightarrow> bytes \<Rightarrow> bytes \<Rightarrow> bytes" where
  "push_header name val payload = push_cl_cr (payload @ name @ as_bytes '': '' @ val)"

definition push_raw_payload :: "bytes \<Rightarrow> bytes \<Rightarrow> bytes" where
  "push_raw_payload buffer payload = payload @ buffer"

fun dec_digits :: "nat \<Rightarrow> bytes" where
  "dec_digits n = (if n < 10 then [of_nat (48 + n)] else dec_digits (n div 10) @ [of_nat (48 + n mod 10)])"

declare dec_digits.simps [simp del]

definition push_content_length :: "nat \<Rightarrow> bytes \<Rightarrow> bytes" where
  "push_content_length body_len payload = push_header (as_bytes ''content-length'') (dec_digits body_len) payload"

definition push_response_first_line :: "(nat \<Rightarrow> bytes option) \<Rightarrow> nat \<Rightarrow> bytes \<Rightarrow> bytes" where
  "push_response_first_line canonical_reason status_code payload =
     push_cl_cr (payload @
       (if status_code = 200 then as_bytes ''HTTP/1.1 200 OK''
        else if status_code = 401 then as_bytes ''HTTP/1.1 401 Unauthorized''
        else if status_code = 403 then as_bytes ''HTTP/1.1 403 Forbidden''
        else if status_code = 404 then as_bytes ''HTTP/1.1 404 Not Found''
        else if status_code = 405 then as_bytes ''HTTP/1.1 405 Method Not Allowed''
        else if status_code = 421 then as_bytes ''HTTP/1.1 421 Misdirected Request''
        else if status_code = 502 then as_bytes ''HTTP/1.1 502 Bad Gateway''
        else if status_code = 503 then as_bytes ''HTTP/1.1 503 Service Temporarily Unavailable''
        else as_bytes ''HTTP/1.1 '' @ dec_digits status_code @ [32] @
          (case canonical_reason status_code of Some reason \<Rightarrow> reason | None \<Rightarrow> as_bytes ''Status'')))"

fun push_path_items :: "nat \<Rightarrow> bytes \<Rightarrow> bytes list \<Rightarrow> bytes \<Rightarrow> bytes" where
  "push_path_items no path [] out = out"
| "push_path_items no path (itm # items) out =
     push_path_items (Suc no) path items
       ((if no > 0 then out @ [32] else out) @ (if no = 1 then path else itm))"

fun split_byte :: "u8 \<Rightarrow> bytes \<Rightarrow> bytes \<Rightarrow> bytes list" where
  "split_byte b [] cur = [cur]"
| "split_byte b (c # cs) cur = (if c = b then cur # split_byte b cs [] else split_byte b cs (cur @ [c]))"

definition push_first_line_with_other_path :: "Http1Headers \<Rightarrow> bytes \<Rightarrow> bytes \<Rightarrow> bytes \<Rightarrow> bytes panics" where
  "push_first_line_with_other_path h data path out =
     rbind (slice data 0 (h1_first_line_end h)) (\<lambda>buffer. Ok (push_path_items 0 path (split_byte 32 buffer []) out))"

definition new_response :: "(nat \<Rightarrow> bytes option) \<Rightarrow> nat \<Rightarrow> bytes" where
  "new_response canonical_reason status_code = push_response_first_line canonical_reason status_code []"

definition add_content_type :: "bytes \<Rightarrow> bytes \<Rightarrow> bytes" where
  "add_content_type val payload = push_header (as_bytes ''content-type'') val payload"

definition build_with_body :: "bytes \<Rightarrow> bytes \<Rightarrow> bytes" where
  "build_with_body body payload = push_cl_cr (push_content_length (length body) payload) @ body"

section \<open>Parsing a head that was written line by line\<close>

abbreviation lname :: "bytes \<Rightarrow> bytes" where
  "lname n \<equiv> map to_lower_case n"

text \<open>A header line: its name and everything between the colon and the line end.\<close>

definition line_wire :: "bytes \<times> bytes \<Rightarrow> bytes" where
  "line_wire = (\<lambda>(n, w). n @ [58] @ w @ HTTP_CR_LF)"

definition line_ok :: "bytes \<times> bytes \<Rightarrow> bool" where
  "line_ok = (\<lambda>(n, w). 58 \<notin> set n \<and> 13 \<notin> set n \<and> 13 \<notin> set w \<and> w \<noteq> [])"

lemma nth_middle:
  assumes "b \<notin> set l" and "length pre \<le> j" and "j < length pre + length l"
  shows "(pre @ l @ post) ! j \<noteq> b"
proof -
  from assms(2,3) have "j - length pre < length l" by simp
  with assms nth_mem [OF this] show ?thesis by (auto simp: nth_append)
qed

lemma find_line_end:
  assumes "find_seq_ok f" and "13 \<notin> set l"
  shows "f (pre @ l @ HTTP_CR_LF @ post) HTTP_CR_LF (length pre) = Some (length pre + length l)"
proof (rule find_seq_Some [OF assms(1)])
  fix j
  assume j: "length pre \<le> j" "j < length pre + length l"
  then have "(pre @ l @ HTTP_CR_LF @ post) ! j \<noteq> 13"
    by (rule nth_middle [OF assms(2)])
  then show "\<not> occurs_at (pre @ l @ HTTP_CR_LF @ post) HTTP_CR_LF j"
    by (simp add: HTTP_CR_LF_def occurs_at_two)
qed (simp_all add: HTTP_CR_LF_def occurs_at_two nth_append)

lemma find_colon:
  assumes "find_byte_ok fb" and "58 \<notin> set n"
  shows "fb (pre @ n @ 58 # post) 58 (length pre) = Some (length pre + length n)"
proof -
  have "(pre @ n @ 58 # post) ! j \<noteq> 58" if "length pre \<le> j" "j < length pre + length n" for j
    using that by (rule nth_middle [OF assms(2)])
  with assms(1) show ?thesis by (simp add: find_byte_ok_def nth_append)
qed

lemma compare_lname:
  "length a = length b \<Longrightarrow> compare_case_insensitive a b = Ok (lname a = lname b)"
  by (induction a b rule: compare_case_insensitive.induct) auto

text \<open>The header object of the line \<open>(n, w)\<close> that starts after \<open>pre\<close>.\<close>

definition line_header :: "bytes \<Rightarrow> bytes \<Rightarrow> bytes \<times> bytes \<Rightarrow> HttpHeader" where
  "line_header src pre = (\<lambda>(n, w). \<lparr>hh_payload = src, hh_start = length pre, hh_separator = length pre + length n,
     hh_end = length pre + length n + 1 + length w\<rparr>)"

lemma line_is_my_name:
  assumes "src = pre @ n @ 58 # rest"
  shows "is_my_header_name (line_header src pre (n, w)) nm = Ok (lname n = lname nm)"
proof (cases "length n = length nm")
  case True
  then show ?thesis
    by (simp add: is_my_header_name_def line_header_def assms compare_lname)
next
  case False
  then have "lname n \<noteq> lname nm" by (metis length_map)
  with False show ?thesis by (simp add: is_my_header_name_def line_header_def)
qed

lemma line_value:
  assumes "src = pre @ n @ 58 # w @ rest" and "w \<noteq> []"
  shows "get_value_as_str (line_header src pre (n, w)) =
      Ok (if utf8_valid (tl w) then Some (trim (tl w)) else None)"
  using assms by (cases w) (simp_all add: get_value_as_str_def line_header_def)

lemma line_value_empty:
  assumes "src = pre @ n @ 58 # rest"
  shows "get_value_as_str (line_header src pre (n, [])) = Panic"
  by (simp add: get_value_as_str_def line_header_def assms slice_def)

text \<open>What the headers of a head say: its framing, where the last relevant header decides, and the value of a name.\<close>

definition length_value :: "bytes \<Rightarrow> nat option" where
  "length_value v = (if utf8_valid v then parse_unsigned (2 ^ 64) (trim v) else None)"

fun framing :: "(bytes \<Rightarrow> bytes \<Rightarrow> bool) \<Rightarrow> (bytes \<times> bytes) list \<Rightarrow> HttpContentLength \<Rightarrow> HttpContentLength option" where
  "framing eq_ci [] cl = Some cl"
| "framing eq_ci ((n, w) # ls) cl =
     (if lname n = as_bytes ''content-length'' then
        (case length_value (tl w) of None \<Rightarrow> None | Some k \<Rightarrow> framing eq_ci ls (Known k))
      else if lname n = as_bytes ''transfer-encoding'' then
        (if utf8_valid (tl w)
         then framing eq_ci ls (if eq_ci (trim (tl w)) (as_bytes ''chunked'') then Chunked else cl)
         else None)
      else framing eq_ci ls cl)"

fun last_value :: "bytes \<Rightarrow> (bytes \<times> bytes) list \<Rightarrow> bytes option \<Rightarrow> bytes option" where
  "last_value nm [] d = d"
| "last_value nm ((n, w) # ls) d = last_value nm ls (if lname n = nm then Some (tl w) else d)"

definition at_position :: "bytes \<Rightarrow> HeaderPosition option \<Rightarrow> bytes option" where
  "at_position src p = map_option (\<lambda>p. take (hp_end p - hp_start p) (drop (hp_start p) src)) p"

text \<open>The head \<open>h\<close> says the same as the result so far followed by the lines \<open>ls\<close>.\<close>

definition agrees :: "bytes \<Rightarrow> (bytes \<times> bytes) list \<Rightarrow> Http1Headers \<Rightarrow> Http1Headers \<Rightarrow> bool" where
  "agrees src ls acc h \<longleftrightarrow>
     h1_first_line_end h = h1_first_line_end acc \<and>
     at_position src (h1_host_value h) = last_value (as_bytes ''host'') ls (at_position src (h1_host_value acc)) \<and>
     at_position src (h1_cookie_value h) = last_value (as_bytes ''cookie'') ls (at_position src (h1_cookie_value acc)) \<and>
     at_position src (h1_upgrade_value h) = last_value (as_bytes ''upgrade'') ls (at_position src (h1_upgrade_value acc))"

lemma at_line_value:
  assumes "src = pre @ n @ 58 # w @ rest" and "w \<noteq> []"
  shows "at_position src (Some (get_value (line_header src pre (n, w)))) = Some (tl w)"
  using assms by (cases w) (simp_all add: at_position_def get_value_def line_header_def)

lemmas literal_names = as_bytes_def to_lower_case_def

text \<open>One turn of the parser on a line says what the line says.\<close>

lemma header_turn_line:
  assumes "src = pre @ n @ 58 # w @ rest" and "w \<noteq> []"
  shows "case framing eq_ci [(n, w)] (h1_content_length acc) of
      None \<Rightarrow> header_turn eq_ci (line_header src pre (n, w)) acc = Ok None
    | Some cl \<Rightarrow> \<exists>acc1. header_turn eq_ci (line_header src pre (n, w)) acc = Ok (Some acc1) \<and>
        h1_content_length acc1 = cl \<and> agrees src [(n, w)] acc acc1"
proof -
  let ?h = "line_header src pre (n, w)"
  have nm: "is_my_header_name ?h x = Ok (lname n = lname x)" for x
    using assms(1) by (rule line_is_my_name)
  have low: "lname (as_bytes ''host'') = as_bytes ''host''" "lname (as_bytes ''cookie'') = as_bytes ''cookie''"
    "lname (as_bytes ''content-length'') = as_bytes ''content-length''"
    "lname (as_bytes ''transfer-encoding'') = as_bytes ''transfer-encoding''"
    "lname (as_bytes ''upgrade'') = as_bytes ''upgrade''"
    by (simp_all add: literal_names)
  have ne: "as_bytes ''host'' \<noteq> as_bytes ''cookie''" "as_bytes ''host'' \<noteq> as_bytes ''content-length''"
    "as_bytes ''host'' \<noteq> as_bytes ''transfer-encoding''" "as_bytes ''host'' \<noteq> as_bytes ''upgrade''"
    "as_bytes ''cookie'' \<noteq> as_bytes ''content-length''" "as_bytes ''cookie'' \<noteq> as_bytes ''transfer-encoding''"
    "as_bytes ''cookie'' \<noteq> as_bytes ''upgrade''" "as_bytes ''content-length'' \<noteq> as_bytes ''transfer-encoding''"
    "as_bytes ''content-length'' \<noteq> as_bytes ''upgrade''" "as_bytes ''transfer-encoding'' \<noteq> as_bytes ''upgrade''"
    by (simp_all add: as_bytes_def)
  show ?thesis
    using line_value [OF assms] at_line_value [OF assms] ne
    by (auto simp: header_turn_def nm low agrees_def get_usize_value_def length_value_def split: option.splits)
qed

lemma agrees_append:
  "agrees src ls acc acc1 \<Longrightarrow> agrees src ls' acc1 h \<Longrightarrow> agrees src (ls @ ls') acc h"
proof -
  have "last_value nm (ls @ ls') d = last_value nm ls' (last_value nm ls d)" for nm d
    by (induction nm ls d rule: last_value.induct) auto
  then show "agrees src ls acc acc1 \<Longrightarrow> agrees src ls' acc1 h \<Longrightarrow> agrees src (ls @ ls') acc h"
    by (simp add: agrees_def)
qed

lemma framing_Cons:
  "framing eq_ci (l # ls) cl = (case framing eq_ci [l] cl of None \<Rightarrow> None | Some c \<Rightarrow> framing eq_ci ls c)"
  by (cases l) (auto split: option.splits)

lemma header_loop_lines:
  assumes "find_seq_ok f" and "find_byte_ok fb" and "list_all line_ok ls"
    and "src = pre @ concat (map line_wire ls) @ HTTP_CR_LF @ post" and "length ls < fuel"
  shows "case framing eq_ci ls (h1_content_length acc) of
      None \<Rightarrow> header_loop f fb eq_ci fuel src (length pre) acc = Some (Ok None)
    | Some cl \<Rightarrow> \<exists>h. header_loop f fb eq_ci fuel src (length pre) acc = Some (Ok (Some h)) \<and>
        h1_content_length h = cl \<and> agrees src ls acc h \<and>
        h1_end h = length pre + length (concat (map line_wire ls)) + 2"
  using assms(3-5)
proof (induction ls arbitrary: pre acc fuel)
  case Nil
  then obtain k where fuel: "fuel = Suc k" by (cases fuel) auto
  have "f src HTTP_CR_LF (length pre) = Some (length pre)"
    using find_line_end [OF assms(1), of "[]" pre post] Nil.prems by simp
  with fuel show ?case by (auto simp: agrees_def HTTP_CR_LF_def)
next
  case (Cons l ls)
  obtain n w where l: "l = (n, w)" by (cases l)
  from Cons.prems obtain k where fuel: "fuel = Suc k" "length ls < k" by (cases fuel) auto
  from Cons.prems l have ok: "58 \<notin> set n" "13 \<notin> set (n @ 58 # w)" "w \<noteq> []" and oks: "list_all line_ok ls"
    by (auto simp: line_ok_def)
  let ?tail = "concat (map line_wire ls) @ HTTP_CR_LF @ post"
  let ?pre = "pre @ line_wire l"
  have src: "src = pre @ (n @ 58 # w) @ HTTP_CR_LF @ ?tail" "src = pre @ n @ 58 # w @ HTTP_CR_LF @ ?tail"
    "src = ?pre @ ?tail"
    using Cons.prems(2) by (simp_all add: l line_wire_def)
  let ?stop = "length pre + length n + 1 + length w"
  have e: "f src HTTP_CR_LF (length pre) = Some ?stop"
    using find_line_end [OF assms(1) ok(2), of pre ?tail] unfolding src(1) by simp
  have nxt: "?stop + length HTTP_CR_LF = length ?pre" by (simp add: l line_wire_def)
  have c: "fb src 58 (length pre) = Some (length pre + length n)"
    unfolding src(2) by (rule find_colon [OF assms(2) ok(1)])
  have turn: "header_loop f fb eq_ci fuel src (length pre) acc =
      (case header_turn eq_ci (line_header src pre (n, w)) acc of
         Panic \<Rightarrow> Some Panic | Err e \<Rightarrow> Some (Err e) | Ok None \<Rightarrow> Some (Ok None)
       | Ok (Some acc1) \<Rightarrow> header_loop f fb eq_ci k src (length ?pre) acc1)"
    unfolding fuel header_loop.simps e new_header_def c option.case nxt
    by (simp add: line_header_def)
  note step = header_turn_line [OF src(2) ok(3), of eq_ci acc]
  show ?case
  proof (cases "framing eq_ci [l] (h1_content_length acc)")
    case None
    with step turn show ?thesis by (subst framing_Cons) (simp add: l)
  next
    case (Some cl)
    with step obtain acc1 where a: "header_turn eq_ci (line_header src pre (n, w)) acc = Ok (Some acc1)"
      "h1_content_length acc1 = cl" "agrees src [l] acc acc1"
      by (auto simp: l)
    from Cons.IH [OF oks src(3) fuel(2), of acc1] a Some turn agrees_append [OF a(3)] show ?thesis
      by (subst framing_Cons) (auto split: option.splits)
  qed
qed

lemma parse_head_lines:
  assumes "find_seq_ok f" and "find_byte_ok fb" and "list_all line_ok ls"
    and "13 \<notin> set fl" and "verify_http11_first_line fl = Ok ()"
  shows "case framing eq_ci ls NoBody of
      None \<Rightarrow> parse_head f fb eq_ci (fl @ HTTP_CR_LF @ concat (map line_wire ls) @ HTTP_CR_LF @ post) = Some (Ok None)
    | Some cl \<Rightarrow> \<exists>h. parse_head f fb eq_ci (fl @ HTTP_CR_LF @ concat (map line_wire ls) @ HTTP_CR_LF @ post) =
          Some (Ok (Some h)) \<and> h1_content_length h = cl \<and> h1_first_line_end h = length fl \<and>
        h1_end h = length (fl @ HTTP_CR_LF @ concat (map line_wire ls) @ HTTP_CR_LF) \<and>
        (\<forall>src. src = fl @ HTTP_CR_LF @ concat (map line_wire ls) @ HTTP_CR_LF @ post \<longrightarrow>
          at_position src (h1_host_value h) = last_value (as_bytes ''host'') ls None \<and>
          at_position src (h1_cookie_value h) = last_value (as_bytes ''cookie'') ls None \<and>
          at_position src (h1_upgrade_value h) = last_value (as_bytes ''upgrade'') ls None)"
proof -
  let ?src = "fl @ HTTP_CR_LF @ concat (map line_wire ls) @ HTTP_CR_LF @ post"
  let ?acc = "\<lparr>h1_first_line_end = length fl, h1_end = 0, h1_content_length = NoBody, h1_host_value = None,
    h1_cookie_value = None, h1_upgrade_value = None\<rparr>"
  have "f ?src HTTP_CR_LF 0 = Some (length fl)"
    using find_line_end [OF assms(1,4), of "[]"] by simp
  then have p: "parse_head f fb eq_ci ?src =
      header_loop f fb eq_ci (Suc (length ?src)) ?src (length (fl @ HTTP_CR_LF)) ?acc"
    using assms(5) by (simp add: parse_head_def)
  have "length ls \<le> length (concat (map line_wire ls))"
    by (induction ls) (auto simp: line_wire_def)
  then have fuel: "length ls < Suc (length ?src)" by simp
  have s: "?src = (fl @ HTTP_CR_LF) @ concat (map line_wire ls) @ HTTP_CR_LF @ post" by simp
  from header_loop_lines [OF assms(1-3) s fuel, of eq_ci ?acc] show ?thesis
    unfolding p by (auto simp: agrees_def at_position_def HTTP_CR_LF_def split: option.splits)
qed

lemma header_loop_empty_length:
  assumes "find_seq_ok f" and "find_byte_ok fb" and "58 \<notin> set n" and "13 \<notin> set n"
    and "lname n = as_bytes ''content-length''"
  shows "header_loop f fb eq_ci (Suc k) (pre @ n @ 58 # HTTP_CR_LF @ post) (length pre) acc = Some Panic"
proof -
  let ?src = "pre @ n @ 58 # HTTP_CR_LF @ post"
  let ?h = "line_header ?src pre (n, [])"
  have nm: "is_my_header_name ?h x = Ok (lname n = lname x)" for x
    by (rule line_is_my_name) simp
  have "f ?src HTTP_CR_LF (length pre) = Some (length pre + length n + 1)"
    using find_line_end [OF assms(1), of "n @ [58]" pre post] assms(4) by simp
  moreover have "fb ?src 58 (length pre) = Some (length pre + length n)"
    by (rule find_colon [OF assms(2,3)])
  moreover have "header_turn eq_ci ?h acc = Panic"
    using line_value_empty [of ?src pre n] assms(5)
    by (simp add: header_turn_def nm get_usize_value_def literal_names)
  ultimately show ?thesis by (simp add: new_header_def line_header_def)
qed

lemma parse_empty_length:
  assumes "find_seq_ok f" and "find_byte_ok fb" and "58 \<notin> set n" and "13 \<notin> set n"
    and "lname n = as_bytes ''content-length''" and "13 \<notin> set fl" and "verify_http11_first_line fl = Ok ()"
  shows "parse_head f fb eq_ci (fl @ HTTP_CR_LF @ n @ 58 # HTTP_CR_LF @ post) = Some Panic"
proof -
  have "f (fl @ HTTP_CR_LF @ n @ 58 # HTTP_CR_LF @ post) HTTP_CR_LF 0 = Some (length fl)"
    using find_line_end [OF assms(1,6), of "[]"] by simp
  with header_loop_empty_length [OF assms(1-5), where pre = "fl @ HTTP_CR_LF" and post = post] assms(7)
  show ?thesis by (simp add: parse_head_def)
qed

section \<open>Decimal numbers\<close>

lemma dec_digits_digit: "list_all is_digit (dec_digits n)"
proof (induction n rule: dec_digits.induct)
  case (1 n)
  have "is_digit (of_nat (48 + k))" if "k < 10" for k
  proof -
    have "k \<in> {0,1,2,3,4,5,6,7,8,9}" using that by auto
    then show ?thesis by (auto simp: is_digit_def)
  qed
  from this [of n] this [of "n mod 10"] 1 show ?case by (subst dec_digits.simps) auto
qed

lemma dec_digits_not_Nil [simp]: "dec_digits n \<noteq> []"
  by (subst dec_digits.simps) simp

lemma dec_value_digits [simp]: "dec_value (dec_digits n) = n"
proof (induction n rule: dec_digits.induct)
  case (1 n)
  have d: "unat (of_nat (48 + k) :: u8) - 48 = k" if "k < 10" for k
    using that unat_of_nat [of "48 + k", where 'a = 8] by simp
  have "dec_value (dec_digits n) = (if n < 10 then n else 10 * dec_value (dec_digits (n div 10)) + n mod 10)"
    by (subst dec_digits.simps) (simp add: dec_value_def d [simplified])
  with 1 show ?case by simp
qed

lemma utf8_chars_ascii: "list_all (\<lambda>b. b < 0x80) bs \<Longrightarrow> utf8_chars bs = map (\<lambda>b. [b]) bs"
proof (induction bs)
  case (Cons b bs)
  then have "b < 0x80" by simp
  then have "b < 0xC0" by (rule less_trans) simp
  with Cons show ?case by (subst utf8_chars.simps) simp
qed (simp add: utf8_chars.simps)

lemma digits_ascii: "list_all is_digit ds \<Longrightarrow> list_all (\<lambda>b. b < 0x80) ds"
  by (erule list.pred_mono_strong) (auto simp: is_digit_def elim: le_less_trans)

lemma digit_not_space: "is_digit b \<Longrightarrow> \<not> is_whitespace [b]"
  by (auto simp: is_digit_def is_whitespace_def)

lemma trim_digits: "list_all is_digit ds \<Longrightarrow> trim ds = ds"
proof -
  assume d: "list_all is_digit ds"
  have id1: "dropWhile is_whitespace (map (\<lambda>b. [b]) xs) = map (\<lambda>b. [b]) xs" if "list_all is_digit xs" for xs
    using that digit_not_space by (cases xs) auto
  have "list_all is_digit (rev ds)" using d by (simp add: list_all_iff)
  with d id1 [OF d] id1 [of "rev ds"] show "trim ds = ds"
    by (simp add: trim_def utf8_chars_ascii [OF digits_ascii] flip: rev_map)
qed

lemma length_value_digits:
  assumes "list_all is_digit ds" and "ds \<noteq> []" and "dec_value ds < 2 ^ 64"
  shows "length_value ds = Some (dec_value ds)"
proof -
  have "utf8_valid ds" using digits_ascii [OF assms(1)] by (intro utf8_valid_ascii) (auto simp: list_all_iff)
  moreover have "hd ds \<noteq> 43" using assms(1,2) by (cases ds) (auto simp: is_digit_def)
  ultimately show ?thesis
    using assms trim_digits [OF assms(1)]
    by (cases ds) (auto simp: length_value_def parse_unsigned_def Let_def)
qed

lemma digits_no_cr: "list_all is_digit ds \<Longrightarrow> 13 \<notin> set ds"
  by (auto simp: list_all_iff is_digit_def)

section \<open>Heads made by the builder\<close>

definition built_head :: "bytes \<Rightarrow> (bytes \<times> bytes) list \<Rightarrow> bytes" where
  "built_head fl hs = push_cl_cr (fold (\<lambda>(n, v). push_header n v) hs (push_cl_cr (push_raw_payload fl [])))"

definition header_ok :: "bytes \<times> bytes \<Rightarrow> bool" where
  "header_ok = (\<lambda>(n, v). 58 \<notin> set n \<and> 13 \<notin> set n \<and> 13 \<notin> set v)"

definition spaced :: "(bytes \<times> bytes) list \<Rightarrow> (bytes \<times> bytes) list" where
  "spaced hs = map (\<lambda>(n, v). (n, 32 # v)) hs"

lemma fold_push_header:
  "fold (\<lambda>(n, v). push_header n v) hs p = p @ concat (map line_wire (spaced hs))"
  by (induction hs arbitrary: p) (auto simp: push_header_def push_cl_cr_def line_wire_def spaced_def as_bytes_def)

lemma built_head_lines:
  "built_head fl hs = fl @ HTTP_CR_LF @ concat (map line_wire (spaced hs)) @ HTTP_CR_LF"
  by (simp add: built_head_def fold_push_header push_cl_cr_def push_raw_payload_def)

lemma spaced_ok: "list_all header_ok hs \<Longrightarrow> list_all line_ok (spaced hs)"
  by (induction hs) (auto simp: spaced_def header_ok_def line_ok_def)

lemma framing_append:
  "framing eq_ci (ls @ ls') cl = (case framing eq_ci ls cl of None \<Rightarrow> None | Some c \<Rightarrow> framing eq_ci ls' c)"
  by (induction eq_ci ls cl rule: framing.induct) (auto split: option.splits)

definition eq_ci_ref :: "bytes \<Rightarrow> bytes \<Rightarrow> bool" where
  "eq_ci_ref a b \<longleftrightarrow> lname a = lname b"

definition get_line :: bytes where
  "get_line = as_bytes ''GET / HTTP/1.1''"

lemma utf8_valid_literal [simp]: "list_all (\<lambda>b. b < 0x80) bs \<Longrightarrow> utf8_valid bs"
  by (rule utf8_valid_ascii) (auto simp: list_all_iff)

lemma split_literal:
  "list_all (\<lambda>b. b < 0x80) bs \<Longrightarrow> split_whitespace bs = split_chars (map (\<lambda>b. [b]) bs) []"
  by (simp add: split_whitespace_def utf8_chars_ascii)

lemma get_line_ok: "13 \<notin> set get_line" "verify_http11_first_line get_line = Ok ()"
  by (simp_all add: get_line_def verify_http11_first_line_def split_literal as_bytes_def is_whitespace_def
      is_valid_http_method_def)

lemma response_line_ok:
  assumes "status \<in> {200, 401, 403, 404, 405, 421, 502, 503}"
  shows "\<exists>fl. new_response canonical_reason status = push_cl_cr fl \<and> 13 \<notin> set fl \<and>
    verify_http11_first_line fl = Ok ()"
proof -
  have v: "13 \<notin> set fl \<and> verify_http11_first_line fl = Ok ()"
    if "fl \<in> set (map as_bytes [''HTTP/1.1 200 OK'', ''HTTP/1.1 401 Unauthorized'', ''HTTP/1.1 403 Forbidden'',
      ''HTTP/1.1 404 Not Found'', ''HTTP/1.1 405 Method Not Allowed'', ''HTTP/1.1 421 Misdirected Request'',
      ''HTTP/1.1 502 Bad Gateway'', ''HTTP/1.1 503 Service Temporarily Unavailable''])" for fl
    using that
    by (auto simp: verify_http11_first_line_def split_literal as_bytes_def is_whitespace_def
        is_valid_status_code_def is_digit_def parse_unsigned_def dec_value_def)
  from assms v show ?thesis
    by (auto simp: new_response_def push_response_first_line_def)
qed

lemma built_head_parses_raw:
  assumes "find_seq_ok f" and "find_byte_ok fb" and "list_all header_ok hs"
    and "13 \<notin> set fl" and "verify_http11_first_line fl = Ok ()" and "framing eq_ci (spaced hs) NoBody = Some cl"
  shows "\<exists>h. parse_head f fb eq_ci (built_head fl hs @ body) = Some (Ok (Some h)) \<and>
    h1_content_length h = cl \<and> h1_first_line_end h = length fl \<and> h1_end h = length (built_head fl hs) \<and>
    at_position (built_head fl hs @ body) (h1_host_value h) = last_value (as_bytes ''host'') (spaced hs) None \<and>
    at_position (built_head fl hs @ body) (h1_cookie_value h) = last_value (as_bytes ''cookie'') (spaced hs) None \<and>
    at_position (built_head fl hs @ body) (h1_upgrade_value h) = last_value (as_bytes ''upgrade'') (spaced hs) None"
  using parse_head_lines [OF assms(1,2) spaced_ok [OF assms(3)] assms(4,5), of eq_ci body] assms(6)
  by (auto simp: built_head_lines)

section \<open>Properties\<close>

text \<open>
  C34. Builder and parser agree: a head written by \<open>Http1HeadersBuilder\<close> from a first line and
  headers (names without colon or CR, values without CR) parses, whatever follows it, to a
  result that ends exactly at the end of the head, has the framing the headers give, and whose
  host, cookie and upgrade positions hold the values of the last such headers.
\<close>

theorem built_head_parses:
  assumes "find_seq_ok f" and "find_byte_ok fb" and "list_all header_ok hs"
    and "13 \<notin> set fl" and "verify_http11_first_line fl = Ok ()" and "framing eq_ci (spaced hs) NoBody = Some cl"
  shows "\<exists>h. parse_head f fb eq_ci (built_head fl hs @ body) = Some (Ok (Some h)) \<and>
    h1_content_length h = cl \<and> h1_first_line_end h = length fl \<and> h1_end h = length (built_head fl hs) \<and>
    at_position (built_head fl hs @ body) (h1_host_value h) = last_value (as_bytes ''host'') (spaced hs) None \<and>
    at_position (built_head fl hs @ body) (h1_cookie_value h) = last_value (as_bytes ''cookie'') (spaced hs) None \<and>
    at_position (built_head fl hs @ body) (h1_upgrade_value h) = last_value (as_bytes ''upgrade'') (spaced hs) None"
  using assms by (rule built_head_parses_raw)

theorem built_head_parses_witness:
  "\<exists>h. parse_head find_ref find_byte_ref eq_ci_ref
      (built_head get_line [(as_bytes ''Host'', as_bytes ''a.b'')] @ [1, 2]) = Some (Ok (Some h)) \<and>
    h1_content_length h = NoBody \<and> h1_end h = length (built_head get_line [(as_bytes ''Host'', as_bytes ''a.b'')]) \<and>
    at_position (built_head get_line [(as_bytes ''Host'', as_bytes ''a.b'')] @ [1, 2]) (h1_host_value h) =
      Some (as_bytes ''a.b'')"
proof -
  let ?hs = "[(as_bytes ''Host'', as_bytes ''a.b'')]"
  have "list_all header_ok ?hs" "framing eq_ci_ref (spaced ?hs) NoBody = Some NoBody"
    "last_value (as_bytes ''host'') (spaced ?hs) None = Some (as_bytes ''a.b'')"
    by (simp_all add: header_ok_def spaced_def literal_names)
  with built_head_parses [OF find_ref_ok find_byte_ref_ok _ get_line_ok, of ?hs eq_ci_ref NoBody "[1, 2]"]
  show ?thesis by auto
qed

text \<open>
  C34. Two framing headers: when a head carries \<open>Transfer-Encoding: chunked\<close> and after it
  \<open>Content-Length: k\<close>, the parser takes \<open>k\<close> bytes as the body instead of the chunks; the last
  framing header wins and the conflict is not rejected.
\<close>

theorem conflicting_framing_last_wins:
  assumes "find_seq_ok f" and "find_byte_ok fb" and "13 \<notin> set fl" and "verify_http11_first_line fl = Ok ()"
    and "k < 2 ^ 64"
  shows "\<exists>h. parse_head f fb eq_ci
      (built_head fl [(as_bytes ''Transfer-Encoding'', as_bytes ''chunked''), (as_bytes ''Content-Length'', dec_digits k)] @ body) =
      Some (Ok (Some h)) \<and> h1_content_length h = Known k"
proof -
  let ?hs = "[(as_bytes ''Transfer-Encoding'', as_bytes ''chunked''), (as_bytes ''Content-Length'', dec_digits k)]"
  note d = dec_digits_digit [of k]
  have "length_value (dec_digits k) = Some k"
    using length_value_digits [OF d] assms(5) by simp
  then have "framing eq_ci (spaced ?hs) NoBody = Some (Known k)"
    by (simp add: spaced_def literal_names)
  moreover have "list_all header_ok ?hs"
    using digits_no_cr [OF d] by (simp add: header_ok_def as_bytes_def)
  ultimately show ?thesis
    using built_head_parses_raw [OF assms(1,2) _ assms(3,4), of ?hs eq_ci "Known k" body] by auto
qed

theorem conflicting_framing_last_wins_witness:
  "\<exists>h. parse_head find_ref find_byte_ref eq_ci_ref
      (built_head get_line [(as_bytes ''Transfer-Encoding'', as_bytes ''chunked''), (as_bytes ''Content-Length'', dec_digits 5)] @ []) =
      Some (Ok (Some h)) \<and> h1_content_length h = Known 5"
  by (rule conflicting_framing_last_wins [OF find_ref_ok find_byte_ref_ok get_line_ok]) simp

text \<open>
  C29. The parser skips two bytes after the colon whatever they are: a \<open>Content-Length\<close> written
  without a space after the colon loses its first digit, and one with nothing after the colon
  makes the parser slice backwards and panic.
\<close>

theorem value_needs_space:
  assumes "find_seq_ok f" and "find_byte_ok fb" and "13 \<notin> set fl" and "verify_http11_first_line fl = Ok ()"
    and "is_digit d" and "list_all is_digit ds" and "ds \<noteq> []" and "dec_value ds < 2 ^ 64"
  shows "(\<exists>h. parse_head f fb eq_ci
        (fl @ HTTP_CR_LF @ as_bytes ''Content-Length:'' @ d # ds @ HTTP_CR_LF @ HTTP_CR_LF @ body) =
        Some (Ok (Some h)) \<and> h1_content_length h = Known (dec_value ds)) \<and>
    parse_head f fb eq_ci
        (fl @ HTTP_CR_LF @ as_bytes ''Content-Length:'' @ HTTP_CR_LF @ HTTP_CR_LF @ body) = Some Panic"
proof (rule conjI)
  let ?n = "as_bytes ''Content-Length''"
  have n: "58 \<notin> set ?n" "13 \<notin> set (?n @ [58])" "lname ?n = as_bytes ''content-length''"
    "as_bytes ''Content-Length:'' = ?n @ [58]"
    by (simp_all add: literal_names)
  have ok: "list_all line_ok [(?n, d # ds)]"
    using digits_no_cr [of "d # ds"] assms(5,6) n by (simp add: line_ok_def)
  have "framing eq_ci [(?n, d # ds)] NoBody = Some (Known (dec_value ds))"
    using length_value_digits [OF assms(6-8)] n(3) by simp
  with parse_head_lines [OF assms(1,2) ok assms(3,4), of eq_ci body]
  show "\<exists>h. parse_head f fb eq_ci
        (fl @ HTTP_CR_LF @ as_bytes ''Content-Length:'' @ d # ds @ HTTP_CR_LF @ HTTP_CR_LF @ body) =
        Some (Ok (Some h)) \<and> h1_content_length h = Known (dec_value ds)"
    unfolding n(4) by (auto simp: line_wire_def)
  have "parse_head f fb eq_ci (fl @ HTTP_CR_LF @ ?n @ 58 # HTTP_CR_LF @ HTTP_CR_LF @ body) = Some Panic"
    using parse_empty_length [OF assms(1,2) n(1) _ n(3) assms(3,4), of eq_ci "HTTP_CR_LF @ body"] n(2) by simp
  then show "parse_head f fb eq_ci
      (fl @ HTTP_CR_LF @ as_bytes ''Content-Length:'' @ HTTP_CR_LF @ HTTP_CR_LF @ body) = Some Panic"
    unfolding n(4) by simp
qed

theorem value_needs_space_witness:
  "(\<exists>h. parse_head find_ref find_byte_ref eq_ci_ref
        (get_line @ HTTP_CR_LF @ as_bytes ''Content-Length:'' @ 49 # [53] @ HTTP_CR_LF @ HTTP_CR_LF @ []) =
        Some (Ok (Some h)) \<and> h1_content_length h = Known 5) \<and>
   parse_head find_ref find_byte_ref eq_ci_ref
        (get_line @ HTTP_CR_LF @ as_bytes ''Content-Length:'' @ HTTP_CR_LF @ HTTP_CR_LF @ []) = Some Panic"
  using value_needs_space [OF find_ref_ok find_byte_ref_ok get_line_ok, of 49 "[53]" eq_ci_ref "[]"]
  by (simp add: is_digit_def dec_value_def)

text \<open>
  C25. A response the proxy makes itself is read back as meant: \<open>build_with_body\<close> on any of the
  status codes with a fixed line, with any headers, parses to a head whose body length is the
  length of the body, and the bytes behind the head are that body.
\<close>

theorem built_response_parses:
  assumes "find_seq_ok f" and "find_byte_ok fb" and "status \<in> {200, 401, 403, 404, 405, 421, 502, 503}"
    and "list_all header_ok hs" and "framing eq_ci (spaced hs) NoBody \<noteq> None" and "length body < 2 ^ 64"
  shows "\<exists>h. parse_head f fb eq_ci
      (build_with_body body (fold (\<lambda>(n, v). push_header n v) hs (new_response canonical_reason status))) =
      Some (Ok (Some h)) \<and> h1_content_length h = Known (length body) \<and>
    drop (h1_end h)
      (build_with_body body (fold (\<lambda>(n, v). push_header n v) hs (new_response canonical_reason status))) = body"
proof -
  obtain fl where fl: "new_response canonical_reason status = push_cl_cr fl" "13 \<notin> set fl"
      "verify_http11_first_line fl = Ok ()"
    using response_line_ok [OF assms(3)] by blast
  let ?cl = "(as_bytes ''content-length'', dec_digits (length body))"
  note d = dec_digits_digit [of "length body"]
  have b: "build_with_body body (fold (\<lambda>(n, v). push_header n v) hs (new_response canonical_reason status)) =
      built_head fl (hs @ [?cl]) @ body"
    by (simp add: build_with_body_def push_content_length_def fl(1) built_head_def push_raw_payload_def)
  obtain c where "framing eq_ci (spaced hs) NoBody = Some c" using assms(5) by blast
  then have "framing eq_ci (spaced (hs @ [?cl])) NoBody = Some (Known (length body))"
    using length_value_digits [OF d] assms(6) by (simp add: spaced_def framing_append literal_names)
  moreover have "list_all header_ok (hs @ [?cl])"
    using assms(4) digits_no_cr [OF d] by (simp add: header_ok_def as_bytes_def)
  ultimately show ?thesis
    using built_head_parses_raw [OF assms(1,2) _ fl(2,3), of "hs @ [?cl]" eq_ci "Known (length body)" body]
    unfolding b by auto
qed

theorem built_response_parses_witness:
  "\<exists>h. parse_head find_ref find_byte_ref eq_ci_ref
      (build_with_body [1, 2] (fold (\<lambda>(n, v). push_header n v) [] (new_response (\<lambda>_. None) 404))) =
      Some (Ok (Some h)) \<and> h1_content_length h = Known (Suc (Suc 0))"
  using built_response_parses [OF find_ref_ok find_byte_ref_ok, of 404 "[]" eq_ci_ref "[1, 2]" "\<lambda>_. None"]
  by (auto simp: spaced_def)

end
