(* ===== verification/H1_Reader.thy ===== *)
theory H1_Reader
  imports H1_Head
begin

text \<open>
  \<open>H1Reader\<close> (\<open>src/src/h1_proxy_server/h1_read_part.rs\<close>): reading a head, rewriting its headers
  for the other side, and handing the body to a pump; the header rules it applies
  (\<open>src/src/configurations/modify_headers_config.rs\<close>), the request accessors
  (\<open>http_headers_reader.rs\<close>, \<open>src/src/utils.rs\<close>), placeholder values
  (\<open>src/src/scripts/populate_value.rs\<close>). Hash containers are lists in their iteration order. The client address and its country are their texts. The placeholder tokenizer of the
  \<open>rust_common\<close> crate and the process environment are arguments.
\<close>

section \<open>Header rules\<close>

record AddHeaderSettingsModel =
  ah_name :: bytes
  ah_value :: bytes

record ModifyHttpHeadersSettings =
  mh_add_request :: "AddHeaderSettingsModel list option"
  mh_add_response :: "AddHeaderSettingsModel list option"
  mh_remove_request :: "bytes list option"
  mh_remove_response :: "bytes list option"

record ModifyHeadersConfig =
  mc_remove :: "bytes list"
  mc_add_headers :: "(bytes \<times> bytes) list"

definition default_modify_headers :: ModifyHeadersConfig where
  "default_modify_headers = \<lparr>mc_remove = [], mc_add_headers = []\<rparr>"

definition add_to_remove :: "bytes \<Rightarrow> ModifyHeadersConfig \<Rightarrow> ModifyHeadersConfig" where
  "add_to_remove header c = c\<lparr>mc_remove := List.insert header (mc_remove c)\<rparr>"

text \<open>\<open>HashMap::insert\<close>: a second value for a name replaces the first.\<close>

definition insert_add_header :: "AddHeaderSettingsModel \<Rightarrow> ModifyHeadersConfig \<Rightarrow> ModifyHeadersConfig" where
  "insert_add_header a c =
     c\<lparr>mc_add_headers := filter (\<lambda>(n, _). n \<noteq> ah_name a) (mc_add_headers c) @ [(ah_name a, ah_value a)]\<rparr>"

definition populate_request :: "ModifyHttpHeadersSettings \<Rightarrow> ModifyHeadersConfig \<Rightarrow> ModifyHeadersConfig" where
  "populate_request settings c =
     fold insert_add_header (case mh_add_request settings of Some add \<Rightarrow> add | None \<Rightarrow> [])
       (fold add_to_remove (case mh_remove_request settings of Some r \<Rightarrow> r | None \<Rightarrow> []) c)"

definition populate_response :: "ModifyHttpHeadersSettings \<Rightarrow> ModifyHeadersConfig \<Rightarrow> ModifyHeadersConfig" where
  "populate_response settings c =
     fold insert_add_header (case mh_add_response settings of Some add \<Rightarrow> add | None \<Rightarrow> [])
       (fold add_to_remove (case mh_remove_response settings of Some r \<Rightarrow> r | None \<Rightarrow> []) c)"

definition new_request_rules ::
  "ModifyHttpHeadersSettings option \<Rightarrow> ModifyHttpHeadersSettings option \<Rightarrow> ModifyHeadersConfig" where
  "new_request_rules global end_point =
     (let c = (case global of Some s \<Rightarrow> populate_request s default_modify_headers | None \<Rightarrow> default_modify_headers)
      in case end_point of Some s \<Rightarrow> populate_request s c | None \<Rightarrow> c)"

definition new_response_rules ::
  "ModifyHttpHeadersSettings option \<Rightarrow> ModifyHttpHeadersSettings option \<Rightarrow> ModifyHeadersConfig" where
  "new_response_rules global end_point =
     (let c = (case global of Some s \<Rightarrow> populate_response s default_modify_headers | None \<Rightarrow> default_modify_headers)
      in case end_point of Some s \<Rightarrow> populate_response s c | None \<Rightarrow> c)"

definition eq_ignore_ascii_case :: "bytes \<Rightarrow> bytes \<Rightarrow> bool" where
  "eq_ignore_ascii_case a b \<longleftrightarrow> lname a = lname b"

definition has_to_be_removed :: "bytes \<Rightarrow> ModifyHeadersConfig \<Rightarrow> bool" where
  "has_to_be_removed header c \<longleftrightarrow>
     list_ex (\<lambda>to_remove. eq_ignore_ascii_case to_remove header) (mc_remove c) \<or>
     list_ex (\<lambda>(add, _). eq_ignore_ascii_case add header) (mc_add_headers c)"

section \<open>Request accessors and placeholders\<close>

text \<open>\<open>HttpHeadersReader\<close>: the accessors unwrap their searches and slices.\<close>

definition reader_get_host :: "bytes \<Rightarrow> Http1Headers \<Rightarrow> bytes option panics" where
  "reader_get_host payload h =
     (case h1_host_value h of
        None \<Rightarrow> Ok None
      | Some p \<Rightarrow> rbind (slice payload (hp_start p) (hp_end p)) (\<lambda>host. Ok (Some host)))"

definition reader_path_and_query :: "find_byte \<Rightarrow> bytes \<Rightarrow> bytes panics" where
  "reader_path_and_query find_byte payload =
     (case find_byte payload 32 0 of
        None \<Rightarrow> Panic
      | Some i \<Rightarrow> (case find_byte payload 32 (i + 1) of
          None \<Rightarrow> Panic
        | Some j \<Rightarrow> slice payload (i + 1) j))"

fun find_index :: "u8 \<Rightarrow> bytes \<Rightarrow> nat option" where
  "find_index b [] = None"
| "find_index b (c # cs) = (if c = b then Some 0 else map_option Suc (find_index b cs))"

definition reader_query_string :: "find_byte \<Rightarrow> bytes \<Rightarrow> bytes option panics" where
  "reader_query_string find_byte payload =
     rbind (reader_path_and_query find_byte payload) (\<lambda>pq.
       Ok (map_option (\<lambda>i. drop (i + 1) pq) (find_index 63 pq)))"

definition reader_path :: "find_byte \<Rightarrow> bytes \<Rightarrow> bytes panics" where
  "reader_path find_byte payload =
     rbind (reader_path_and_query find_byte payload) (\<lambda>pq.
       Ok (case find_index 63 pq of Some i \<Rightarrow> take i pq | None \<Rightarrow> pq))"

fun cookie_items :: "bytes \<Rightarrow> bytes list \<Rightarrow> bytes option" where
  "cookie_items cookie_name [] = None"
| "cookie_items cookie_name (itm # items) =
     (case find_index 61 itm of
        None \<Rightarrow> cookie_items cookie_name items
      | Some eq_index \<Rightarrow>
          if trim (take eq_index itm) = cookie_name then Some (drop (eq_index + 1) itm)
          else cookie_items cookie_name items)"

definition get_cookie :: "bytes \<Rightarrow> bytes \<Rightarrow> bytes option" where
  "get_cookie cookie_string cookie_name = cookie_items cookie_name (split_byte 59 cookie_string [])"

definition reader_get_cookie :: "bytes \<Rightarrow> Http1Headers \<Rightarrow> bytes \<Rightarrow> bytes option panics" where
  "reader_get_cookie payload h cookie_name =
     (case h1_cookie_value h of
        None \<Rightarrow> Ok None
      | Some p \<Rightarrow> rbind (slice payload (hp_start p) (hp_end p)) (\<lambda>s. Ok (get_cookie s cookie_name)))"

record connection_info =
  cn_client_ip :: "bytes option"
  cn_country :: "bytes option"
  cn_is_https :: bool

datatype content_token = TextToken bytes | Placeholder bytes

definition placeholder_value ::
  "find_byte \<Rightarrow> (bytes \<Rightarrow> bytes option) \<Rightarrow> bytes \<Rightarrow> Http1Headers \<Rightarrow> connection_info \<Rightarrow> bytes option \<Rightarrow> content_token \<Rightarrow> bytes panics" where
  "placeholder_value find_byte env payload h cn identity token =
     (case token of
        TextToken text \<Rightarrow> Ok text
      | Placeholder p \<Rightarrow>
          if p = as_bytes ''ENDPOINT_IP'' then Ok (case cn_client_ip cn of Some ip \<Rightarrow> ip | None \<Rightarrow> [])
          else if p = as_bytes ''CLIENT_CERT_CN'' then Ok (case identity of Some v \<Rightarrow> v | None \<Rightarrow> [])
          else if p = as_bytes ''PATH_AND_QUERY'' then reader_path_and_query find_byte payload
          else if p = as_bytes ''HOST_PORT'' then
            rbind (reader_get_host payload h) (\<lambda>host. Ok (case host of Some v \<Rightarrow> v | None \<Rightarrow> []))
          else if p = as_bytes ''ENDPOINT_SCHEMA'' then Ok (as_bytes (if cn_is_https cn then ''https'' else ''http''))
          else Ok (case env p of Some v \<Rightarrow> v | None \<Rightarrow> []))"

fun contains_seq :: "bytes \<Rightarrow> bytes \<Rightarrow> bool" where
  "contains_seq pat [] = (pat = [])"
| "contains_seq pat (b # bs) = (take (length pat) (b # bs) = pat \<or> contains_seq pat bs)"

fun concat_panics :: "bytes panics list \<Rightarrow> bytes panics" where
  "concat_panics [] = Ok []"
| "concat_panics (m # ms) = rbind m (\<lambda>x. rbind (concat_panics ms) (\<lambda>xs. Ok (x @ xs)))"

definition populate_value ::
  "find_byte \<Rightarrow> (bytes \<Rightarrow> content_token list) \<Rightarrow> (bytes \<Rightarrow> bytes option) \<Rightarrow> bytes \<Rightarrow> Http1Headers \<Rightarrow> connection_info \<Rightarrow>
   bytes option \<Rightarrow> bytes \<Rightarrow> bytes panics" where
  "populate_value find_byte tokens env payload h cn identity val =
     (if \<not> contains_seq (as_bytes ''${'') val then Ok val
      else concat_panics (map (placeholder_value find_byte env payload h cn identity) (tokens val)))"

section \<open>Rewriting a head\<close>

record endpoint_rules =
  er_modify_request :: ModifyHeadersConfig
  er_modify_response :: ModifyHeadersConfig
  er_inject_country :: bool
  er_keep_alive :: bool
  er_hsts :: bool
  er_is_https :: bool

datatype H1HeadersKind = RequestHeaders endpoint_rules | ResponseHeaders endpoint_rules

definition kind_rules :: "H1HeadersKind \<Rightarrow> ModifyHeadersConfig" where
  "kind_rules kind = (case kind of RequestHeaders e \<Rightarrow> er_modify_request e | ResponseHeaders e \<Rightarrow> er_modify_response e)"

text \<open>One header of the loop: what is pushed, and whether it settled \<open>X-Forwarded-For\<close>.\<close>

definition compile_header ::
  "ModifyHeadersConfig \<Rightarrow> bytes option \<Rightarrow> bool \<Rightarrow> bytes option \<Rightarrow> bytes \<Rightarrow> nat \<Rightarrow> bytes \<Rightarrow> bool \<Rightarrow> bytes \<times> bool" where
  "compile_header rules client_ip inject_country host_override header name_end out xff_written =
     (let header_name = take name_end header;
          skip_for_dynamic_proxy =
            host_override \<noteq> None \<and>
            (eq_ignore_ascii_case header_name (as_bytes ''host'') \<or> eq_ignore_ascii_case header_name (as_bytes ''proxy-to''))
      in if \<not> skip_for_dynamic_proxy \<and> \<not> has_to_be_removed header_name rules then
           if eq_ignore_ascii_case header_name (as_bytes ''x-forwarded-for'') then
             (case client_ip of
                Some ip \<Rightarrow>
                  let value_bytes = drop (name_end + 1) header;
                      value_str = trim (if utf8_valid value_bytes then value_bytes else [])
                  in (push_header (as_bytes ''X-Forwarded-For'') (value_str @ as_bytes '','' @ ip) out, True)
              | None \<Rightarrow> (push_raw_payload HTTP_CR_LF (push_raw_payload header out), True))
           else if inject_country \<and> eq_ignore_ascii_case header_name (as_bytes ''cf-ipcountry'') then (out, xff_written)
           else (push_raw_payload HTTP_CR_LF (push_raw_payload header out), xff_written)
         else (out, xff_written))"

fun compile_loop ::
  "find_sequence \<Rightarrow> find_byte \<Rightarrow> (bytes \<Rightarrow> nat \<Rightarrow> bytes \<Rightarrow> bool \<Rightarrow> bytes \<times> bool) \<Rightarrow> nat \<Rightarrow> bytes \<Rightarrow> nat \<Rightarrow> bytes \<Rightarrow> bool
     \<Rightarrow> (ProxyServerError, bytes \<times> bool) outcome option" where
  "compile_loop find_seq find_byte step 0 data pos out xff = None"
| "compile_loop find_seq find_byte step (Suc fuel) data pos out xff =
     (case find_seq data HTTP_CR_LF pos of
        None \<Rightarrow> Some Panic
      | Some next_pos \<Rightarrow>
          if next_pos = pos then Some (Ok (out, xff))
          else case slice data pos next_pos of
            Ok header \<Rightarrow>
              (case find_byte header 58 0 of
                 None \<Rightarrow> Some (Err (HeadersParseError ''Header does not have end `:` symbol''))
               | Some name_end \<Rightarrow>
                   (case step header name_end out xff of
                      (out1, xff1) \<Rightarrow>
                        compile_loop find_seq find_byte step fuel data (next_pos + length HTTP_CR_LF) out1 xff1))
          | Err e \<Rightarrow> Some (Err e)
          | Panic \<Rightarrow> Some Panic)"

definition push_added :: "(bytes \<Rightarrow> bytes panics) \<Rightarrow> bytes \<times> bytes \<Rightarrow> bytes panics \<Rightarrow> bytes panics" where
  "push_added populate nv acc =
     rbind acc (\<lambda>out.
       case nv of (n, v) \<Rightarrow>
         if v = [] then Ok out
         else rbind (populate v) (\<lambda>val. Ok (if val = [] then out else push_header n val out)))"

definition compile_tail ::
  "H1HeadersKind \<Rightarrow> connection_info \<Rightarrow> bytes option \<Rightarrow> (bytes \<Rightarrow> bytes panics) \<Rightarrow> bytes \<Rightarrow> bool \<Rightarrow> bytes panics" where
  "compile_tail kind cn host_override populate out xff_written =
     (let client_ip = (case kind of RequestHeaders _ \<Rightarrow> cn_client_ip cn | ResponseHeaders _ \<Rightarrow> None);
          inject = (case kind of RequestHeaders e \<Rightarrow> er_inject_country e | ResponseHeaders _ \<Rightarrow> False);
          out1 = (case (xff_written, client_ip) of
                    (False, Some ip) \<Rightarrow> push_header (as_bytes ''X-Forwarded-For'') ip out
                  | _ \<Rightarrow> out);
          out2 = (case (inject, cn_client_ip cn, cn_country cn) of
                    (True, Some _, Some code) \<Rightarrow> push_header (as_bytes ''CF-IPCountry'') code out1
                  | _ \<Rightarrow> out1);
          out3 = (case host_override of Some host \<Rightarrow> push_header (as_bytes ''Host'') host out2 | None \<Rightarrow> out2)
      in rbind (fold (push_added populate) (mc_add_headers (kind_rules kind)) (Ok out3)) (\<lambda>out4.
           Ok (push_cl_cr (case kind of
             RequestHeaders _ \<Rightarrow> out4
           | ResponseHeaders e \<Rightarrow>
               let out5 = (if er_keep_alive e then out4
                           else push_header (as_bytes ''Connection'') (as_bytes ''close'') out4)
               in if er_hsts e \<and> er_is_https e
                  then push_header (as_bytes ''Strict-Transport-Security'')
                         (as_bytes ''max-age=31536000; includeSubDomains; preload'') out5
                  else out5))))"

definition web_socket_upgrade :: "bytes \<Rightarrow> Http1Headers \<Rightarrow> bool panics" where
  "web_socket_upgrade data h =
     (case h1_upgrade_value h of
        None \<Rightarrow> Ok False
      | Some p \<Rightarrow> rbind (slice data (hp_start p) (hp_end p)) (\<lambda>v.
          compare_case_insensitive v (as_bytes ''websocket'')))"

text \<open>\<open>compile_headers\<close>: the rewritten head, whether a websocket upgrade is asked for, and the consumed buffer.\<close>

definition compile_headers ::
  "find_sequence \<Rightarrow> find_byte \<Rightarrow> (bytes \<Rightarrow> content_token list) \<Rightarrow> (bytes \<Rightarrow> bytes option) \<Rightarrow> Http1Headers \<Rightarrow> H1HeadersKind \<Rightarrow>
   connection_info \<Rightarrow> bytes option \<Rightarrow> bytes option \<Rightarrow> bytes option \<Rightarrow> loop_buffer
     \<Rightarrow> (ProxyServerError, bytes \<times> bool \<times> loop_buffer) outcome option" where
  "compile_headers find_seq find_byte tokens env h kind cn identity mcp_path host_override lb =
     (let data = lb_get_data lb;
          client_ip = (case kind of RequestHeaders _ \<Rightarrow> cn_client_ip cn | ResponseHeaders _ \<Rightarrow> None);
          inject = (case kind of RequestHeaders e \<Rightarrow> er_inject_country e | ResponseHeaders _ \<Rightarrow> False);
          pos = h1_first_line_end h + length HTTP_CR_LF;
          first = (case mcp_path of
                     Some path \<Rightarrow> rbind (push_first_line_with_other_path h data path []) (\<lambda>out. Ok (push_cl_cr out))
                   | None \<Rightarrow> rbind (slice data 0 pos) (\<lambda>line. Ok (push_raw_payload line [])))
      in case first of
           Panic \<Rightarrow> Some Panic
         | Err e \<Rightarrow> Some Panic
         | Ok out \<Rightarrow>
             (case compile_loop find_seq find_byte (compile_header (kind_rules kind) client_ip inject host_override)
                     (Suc (length data)) data pos out False of
                None \<Rightarrow> None
              | Some Panic \<Rightarrow> Some Panic
              | Some (Err e) \<Rightarrow> Some (Err e)
              | Some (Ok (out1, xff)) \<Rightarrow>
                  (case compile_tail kind cn host_override
                          (populate_value find_byte tokens env data h cn identity) out1 xff of
                     Ok out2 \<Rightarrow>
                       (case web_socket_upgrade data h of
                          Ok ws \<Rightarrow> Some (Ok (out2, ws, commit_read (h1_end h) lb))
                        | _ \<Rightarrow> Some Panic)
                   | _ \<Rightarrow> Some Panic)))"

section \<open>Reading heads and bodies\<close>

function read_headers ::
  "find_sequence \<Rightarrow> find_byte \<Rightarrow> (bytes \<Rightarrow> bytes \<Rightarrow> bool) \<Rightarrow> nat \<Rightarrow> loop_buffer \<Rightarrow> arrival list
     \<Rightarrow> (ProxyServerError, Http1Headers) outcome option \<times> loop_buffer \<times> arrival list" where
  "read_headers find_seq find_byte eq_ci timeout lb src =
     (let buf = lb_get_data lb in
      case (if length buf > 0 then parse_head find_seq find_byte eq_ci buf else Some (Ok None)) of
        None \<Rightarrow> (None, lb, src)
      | Some Panic \<Rightarrow> (Some Panic, lb, src)
      | Some (Err _) \<Rightarrow> (Some Panic, lb, src)
      | Some (Ok (Some headers)) \<Rightarrow> (Some (Ok headers), lb, src)
      | Some (Ok None) \<Rightarrow>
          (case read_more timeout lb src of
             (Panic, lb1, src1) \<Rightarrow> (Some Panic, lb1, src1)
           | (Err e, lb1, src1) \<Rightarrow> (Some (Err e), lb1, src1)
           | (Ok _, lb1, src1) \<Rightarrow> read_headers find_seq find_byte eq_ci timeout lb1 src1))"
  by pat_completeness auto
termination
  by (relation "measure (\<lambda>(_, _, _, _, _, src). src_size src)") (auto dest: read_more_decreases [OF sym])

declare read_headers.simps [simp del]

definition transfer_body ::
  "find_sequence \<Rightarrow> 'w sink \<Rightarrow> nat \<Rightarrow> nat \<Rightarrow> loop_buffer \<Rightarrow> arrival list \<Rightarrow> HttpContentLength \<Rightarrow> 'w \<Rightarrow> (u64, 'w) pumped option" where
  "transfer_body find_seq put timeout fuel lb src content_length w =
     (case content_length of
        NoBody \<Rightarrow> Some (Ok 0, lb, src, w)
      | Known n \<Rightarrow>
          if n = 0 then Some (Ok 0, lb, src, w)
          else (case transfer_known_size put timeout lb src n w of
                  (Ok k, lb1, src1, w1) \<Rightarrow> Some (Ok (of_nat k), lb1, src1, w1)
                | (Err e, lb1, src1, w1) \<Rightarrow> Some (Err e, lb1, src1, w1)
                | (Panic, lb1, src1, w1) \<Rightarrow> Some (Panic, lb1, src1, w1))
      | Chunked \<Rightarrow> transfer_chunked_body find_seq put timeout fuel lb src 0 w)"

section \<open>What rewriting does to the lines of a head\<close>

text \<open>
  The specification: a head is a list of lines, each is dropped, kept or extended, and the
  synthesized lines follow.
\<close>

definition dropped :: "ModifyHeadersConfig \<Rightarrow> bytes option \<Rightarrow> bytes \<Rightarrow> bool" where
  "dropped rules host_override n \<longleftrightarrow>
     has_to_be_removed n rules \<or>
     host_override \<noteq> None \<and> (lname n = as_bytes ''host'' \<or> lname n = as_bytes ''proxy-to'')"

definition forwarded_for :: "bytes \<times> bytes \<Rightarrow> bool" where
  "forwarded_for l \<longleftrightarrow> lname (fst l) = as_bytes ''x-forwarded-for''"

definition extend_forwarded :: "bytes \<Rightarrow> bytes \<Rightarrow> bytes \<times> bytes" where
  "extend_forwarded w ip = (as_bytes ''X-Forwarded-For'', 32 # trim (if utf8_valid w then w else []) @ 44 # ip)"

definition rewrite_line ::
  "ModifyHeadersConfig \<Rightarrow> bytes option \<Rightarrow> bool \<Rightarrow> bytes option \<Rightarrow> bytes \<times> bytes \<Rightarrow> (bytes \<times> bytes) list" where
  "rewrite_line rules client_ip inject host_override l =
     (if dropped rules host_override (fst l) then []
      else if forwarded_for l then [case client_ip of Some ip \<Rightarrow> extend_forwarded (snd l) ip | None \<Rightarrow> l]
      else if inject \<and> lname (fst l) = as_bytes ''cf-ipcountry'' then []
      else [l])"

definition settles_forwarded :: "ModifyHeadersConfig \<Rightarrow> bytes option \<Rightarrow> bytes \<times> bytes \<Rightarrow> bool" where
  "settles_forwarded rules host_override l \<longleftrightarrow> \<not> dropped rules host_override (fst l) \<and> forwarded_for l"

definition added_lines :: "(bytes \<Rightarrow> bytes) \<Rightarrow> (bytes \<times> bytes) list \<Rightarrow> (bytes \<times> bytes) list" where
  "added_lines pv adds = map (\<lambda>(n, v). (n, pv v)) (filter (\<lambda>(n, v). v \<noteq> [] \<and> pv v \<noteq> []) adds)"

definition synthesized :: "H1HeadersKind \<Rightarrow> connection_info \<Rightarrow> bytes option \<Rightarrow> (bytes \<Rightarrow> bytes) \<Rightarrow> bool \<Rightarrow> (bytes \<times> bytes) list" where
  "synthesized kind cn host_override pv xff =
     (case kind of
        RequestHeaders e \<Rightarrow>
          (case (xff, cn_client_ip cn) of (False, Some ip) \<Rightarrow> [(as_bytes ''X-Forwarded-For'', ip)] | _ \<Rightarrow> []) @
          (case (er_inject_country e, cn_client_ip cn, cn_country cn) of
             (True, Some _, Some code) \<Rightarrow> [(as_bytes ''CF-IPCountry'', code)] | _ \<Rightarrow> [])
      | ResponseHeaders e \<Rightarrow> []) @
     (case host_override of Some host \<Rightarrow> [(as_bytes ''Host'', host)] | None \<Rightarrow> []) @
     added_lines pv (mc_add_headers (kind_rules kind)) @
     (case kind of
        RequestHeaders e \<Rightarrow> []
      | ResponseHeaders e \<Rightarrow>
          (if er_keep_alive e then [] else [(as_bytes ''Connection'', as_bytes ''close'')]) @
          (if er_hsts e \<and> er_is_https e
           then [(as_bytes ''Strict-Transport-Security'', as_bytes ''max-age=31536000; includeSubDomains; preload'')]
           else []))"

definition kind_ip :: "H1HeadersKind \<Rightarrow> connection_info \<Rightarrow> bytes option" where
  "kind_ip kind cn = (case kind of RequestHeaders _ \<Rightarrow> cn_client_ip cn | ResponseHeaders _ \<Rightarrow> None)"

definition kind_inject :: "H1HeadersKind \<Rightarrow> bool" where
  "kind_inject kind = (case kind of RequestHeaders e \<Rightarrow> er_inject_country e | ResponseHeaders _ \<Rightarrow> False)"

definition rewritten_lines ::
  "H1HeadersKind \<Rightarrow> connection_info \<Rightarrow> bytes option \<Rightarrow> (bytes \<Rightarrow> bytes) \<Rightarrow> (bytes \<times> bytes) list \<Rightarrow> (bytes \<times> bytes) list" where
  "rewritten_lines kind cn host_override pv ls =
     concat (map (rewrite_line (kind_rules kind) (kind_ip kind cn) (kind_inject kind) host_override) ls) @
     spaced (synthesized kind cn host_override pv (list_ex (settles_forwarded (kind_rules kind) host_override) ls))"

lemma push_header_line: "push_header n v out = out @ line_wire (n, 32 # v)"
  by (simp add: push_header_def push_cl_cr_def line_wire_def as_bytes_def)

lemma compile_header_line:
  "compile_header rules ip inject ho (n @ 58 # w) (length n) out xff =
     (out @ concat (map line_wire (rewrite_line rules ip inject ho (n, w))),
      xff \<or> settles_forwarded rules ho (n, w))"
proof -
  have low: "lname (as_bytes ''host'') = as_bytes ''host''" "lname (as_bytes ''proxy-to'') = as_bytes ''proxy-to''"
    "lname (as_bytes ''x-forwarded-for'') = as_bytes ''x-forwarded-for''"
    "lname (as_bytes ''cf-ipcountry'') = as_bytes ''cf-ipcountry''" "as_bytes '','' = [44]"
    by (simp_all add: literal_names)
  show ?thesis
    by (cases "dropped rules ho n"; cases "lname n = as_bytes ''x-forwarded-for''"; cases ip)
      (auto simp: compile_header_def eq_ignore_ascii_case_def low rewrite_line_def settles_forwarded_def dropped_def
        forwarded_for_def push_raw_payload_def push_header_line line_wire_def extend_forwarded_def Let_def)
qed

lemma compile_loop_lines:
  assumes "find_seq_ok f" and "find_byte_ok fb" and "list_all line_ok ls"
    and "src = pre @ concat (map line_wire ls) @ HTTP_CR_LF @ post" and "length ls < fuel"
    and step: "\<And>n w out xff. step (n @ 58 # w) (length n) out xff = (out @ concat (map line_wire (rw (n, w))), xff \<or> xf (n, w))"
  shows "compile_loop f fb step fuel src (length pre) out xff =
      Some (Ok (out @ concat (map line_wire (concat (map rw ls))), xff \<or> list_ex xf ls))"
  using assms(3-5)
proof (induction ls arbitrary: pre out xff fuel)
  case Nil
  then obtain k where fuel: "fuel = Suc k" by (cases fuel) auto
  have "f src HTTP_CR_LF (length pre) = Some (length pre)"
    using find_line_end [OF assms(1), of "[]" pre post] Nil.prems by simp
  with fuel show ?case by simp
next
  case (Cons l ls)
  obtain n w where l: "l = (n, w)" by (cases l)
  from Cons.prems obtain k where fuel: "fuel = Suc k" "length ls < k" by (cases fuel) auto
  from Cons.prems l have ok: "58 \<notin> set n" "13 \<notin> set (n @ 58 # w)" and oks: "list_all line_ok ls"
    by (auto simp: line_ok_def)
  let ?tail = "concat (map line_wire ls) @ HTTP_CR_LF @ post"
  let ?pre = "pre @ line_wire l"
  have src: "src = pre @ (n @ 58 # w) @ HTTP_CR_LF @ ?tail" "src = ?pre @ ?tail"
    using Cons.prems(2) by (simp_all add: l line_wire_def)
  let ?stop = "length pre + length n + 1 + length w"
  have e: "f src HTTP_CR_LF (length pre) = Some ?stop"
    using find_line_end [OF assms(1) ok(2), of pre ?tail] unfolding src(1) by simp
  have nxt: "?stop + length HTTP_CR_LF = length ?pre" by (simp add: l line_wire_def)
  have c: "fb (n @ 58 # w) 58 0 = Some (length n)"
    using find_colon [OF assms(2) ok(1), of "[]" w] by simp
  have sl: "slice src (length pre) ?stop = Ok (n @ 58 # w)"
    unfolding src(1) by simp
  have "compile_loop f fb step fuel src (length pre) out xff =
      compile_loop f fb step k src (length ?pre) (out @ concat (map line_wire (rw l))) (xff \<or> xf l)"
    unfolding fuel compile_loop.simps e option.case sl outcome.case c step nxt l by simp
  then show ?case
    unfolding Cons.IH [OF oks src(2) fuel(2)] by simp
qed

lemma fold_push_added:
  assumes "\<And>n v. (n, v) \<in> set adds \<Longrightarrow> v \<noteq> [] \<Longrightarrow> populate v = Ok (pv v)"
  shows "fold (push_added populate) adds (Ok out) = Ok (out @ concat (map line_wire (spaced (added_lines pv adds))))"
  using assms
proof (induction adds arbitrary: out)
  case (Cons a adds)
  obtain n v where a: "a = (n, v)" by (cases a)
  have "push_added populate a (Ok out) = Ok (out @ concat (map line_wire (spaced (added_lines pv [a]))))"
    using Cons.prems [of n v] by (auto simp: push_added_def a added_lines_def spaced_def push_header_line)
  moreover have "spaced (added_lines pv (a # adds)) = spaced (added_lines pv [a]) @ spaced (added_lines pv adds)"
    by (simp add: added_lines_def spaced_def)
  moreover have "fold (push_added populate) adds (Ok out1) = Ok (out1 @ concat (map line_wire (spaced (added_lines pv adds))))"
    for out1
    by (rule Cons.IH) (use Cons.prems in auto)
  ultimately show ?case by simp
qed (simp add: added_lines_def spaced_def)

lemma compile_tail_lines:
  assumes "\<And>n v. (n, v) \<in> set (mc_add_headers (kind_rules kind)) \<Longrightarrow> v \<noteq> [] \<Longrightarrow> populate v = Ok (pv v)"
  shows "compile_tail kind cn ho populate out xff =
      Ok (out @ concat (map line_wire (spaced (synthesized kind cn ho pv xff))) @ HTTP_CR_LF)"
  using fold_push_added [of "mc_add_headers (kind_rules kind)", OF assms]
  by (cases kind)
    (auto simp: compile_tail_def synthesized_def push_header_line push_cl_cr_def spaced_def Let_def
      split: option.splits bool.splits)

lemma compile_headers_lines:
  assumes "find_seq_ok f" and "find_byte_ok fb" and "list_all line_ok ls"
    and "lb_get_data lb = fl @ HTTP_CR_LF @ concat (map line_wire ls) @ HTTP_CR_LF @ post"
    and "h1_first_line_end h = length fl" and "web_socket_upgrade (lb_get_data lb) h = Ok ws"
    and "\<And>n v. (n, v) \<in> set (mc_add_headers (kind_rules kind)) \<Longrightarrow> v \<noteq> [] \<Longrightarrow>
      populate_value fb tokens env (lb_get_data lb) h cn identity v = Ok (pv v)"
  shows "compile_headers f fb tokens env h kind cn identity None ho lb =
    Some (Ok (fl @ HTTP_CR_LF @ concat (map line_wire (rewritten_lines kind cn ho pv ls)) @ HTTP_CR_LF,
      ws, commit_read (h1_end h) lb))"
proof -
  let ?data = "lb_get_data lb"
  let ?step = "compile_header (kind_rules kind) (kind_ip kind cn) (kind_inject kind) ho"
  let ?rw = "rewrite_line (kind_rules kind) (kind_ip kind cn) (kind_inject kind) ho"
  have "length ls \<le> length (concat (map line_wire ls))"
    by (induction ls) (auto simp: line_wire_def)
  then have fuel: "length ls < Suc (length ?data)" using assms(4) by simp
  have "?data = (fl @ HTTP_CR_LF) @ concat (map line_wire ls) @ HTTP_CR_LF @ post" using assms(4) by simp
  from compile_loop_lines [where step = ?step and rw = ?rw and xf = "settles_forwarded (kind_rules kind) ho",
      OF assms(1-3) this fuel compile_header_line, of "fl @ HTTP_CR_LF" False]
  have loop: "compile_loop f fb ?step (Suc (length ?data)) ?data (length fl + length HTTP_CR_LF) (fl @ HTTP_CR_LF) False =
      Some (Ok ((fl @ HTTP_CR_LF) @ concat (map line_wire (concat (map ?rw ls))),
        list_ex (settles_forwarded (kind_rules kind) ho) ls))"
    by simp
  have sl: "slice ?data 0 (length fl + length HTTP_CR_LF) = Ok (fl @ HTTP_CR_LF)"
    using assms(4) by simp
  note tail = compile_tail_lines [of kind _ pv, OF assms(7)]
  show ?thesis
    using loop assms(6)
    by (simp add: compile_headers_def assms(5) sl tail rewritten_lines_def push_raw_payload_def Let_def
        kind_ip_def [symmetric] kind_inject_def [symmetric])
qed

text \<open>Rewriting and the names that frame the body.\<close>

lemma as_bytes_inject [simp]: "as_bytes s = as_bytes t \<longleftrightarrow> s = t"
  by (metis to_str_as_bytes)

lemma lname_literals [simp]:
  "lname (as_bytes ''content-length'') = as_bytes ''content-length''"
  "lname (as_bytes ''transfer-encoding'') = as_bytes ''transfer-encoding''"
  "lname (as_bytes ''x-forwarded-for'') = as_bytes ''x-forwarded-for''"
  "lname (as_bytes ''X-Forwarded-For'') = as_bytes ''x-forwarded-for''"
  "lname (as_bytes ''cf-ipcountry'') = as_bytes ''cf-ipcountry''"
  "lname (as_bytes ''CF-IPCountry'') = as_bytes ''cf-ipcountry''"
  "lname (as_bytes ''host'') = as_bytes ''host''"
  "lname (as_bytes ''Host'') = as_bytes ''host''"
  by (simp_all add: literal_names)

lemma removed_lname: "lname a = lname b \<Longrightarrow> has_to_be_removed a rules = has_to_be_removed b rules"
  by (simp add: has_to_be_removed_def eq_ignore_ascii_case_def)

lemma framing_other_list:
  assumes "list_all (\<lambda>l. lname (fst l) \<noteq> as_bytes ''content-length'' \<and> lname (fst l) \<noteq> as_bytes ''transfer-encoding'') ls"
  shows "framing eq_ci ls cl = Some cl"
  using assms
proof (induction ls)
  case (Cons l ls)
  then show ?case by (cases l) simp
qed simp

lemma framing_other:
  assumes "\<And>l. l \<in> set ls \<Longrightarrow> lname (fst l) \<notin> {as_bytes ''content-length'', as_bytes ''transfer-encoding''}"
  shows "framing eq_ci ls cl = Some cl"
  using assms by (intro framing_other_list) (simp add: list_all_iff)

lemma rewrite_line_framing:
  assumes "\<not> has_to_be_removed (as_bytes ''content-length'') rules"
    and "\<not> has_to_be_removed (as_bytes ''transfer-encoding'') rules"
  shows "framing eq_ci (rewrite_line rules ip inject ho l) cl = framing eq_ci [l] cl"
proof (cases "lname (fst l) \<in> {as_bytes ''content-length'', as_bytes ''transfer-encoding''}")
  case True
  then have "\<not> has_to_be_removed (fst l) rules"
    using assms removed_lname [of "fst l" "as_bytes ''content-length''"]
      removed_lname [of "fst l" "as_bytes ''transfer-encoding''"] by auto
  with True have "rewrite_line rules ip inject ho l = [l]"
    by (auto simp: rewrite_line_def dropped_def forwarded_for_def)
  then show ?thesis by simp
next
  case False
  have "framing eq_ci (rewrite_line rules ip inject ho l) cl = Some cl"
    by (rule framing_other)
      (use False in \<open>auto simp: rewrite_line_def extend_forwarded_def split: if_splits option.splits\<close>)
  moreover have "framing eq_ci [l] cl = Some cl"
    by (rule framing_other) (use False in auto)
  ultimately show ?thesis by simp
qed

lemma rewrite_lines_framing:
  assumes "\<not> has_to_be_removed (as_bytes ''content-length'') rules"
    and "\<not> has_to_be_removed (as_bytes ''transfer-encoding'') rules"
  shows "framing eq_ci (concat (map (rewrite_line rules ip inject ho) ls)) cl = framing eq_ci ls cl"
proof (induction ls arbitrary: cl)
  case (Cons l ls)
  then show ?case
    unfolding framing_Cons [of eq_ci l ls cl]
    by (simp add: framing_append rewrite_line_framing [OF assms] split: option.split)
qed simp

lemma added_not_removed:
  assumes "\<not> has_to_be_removed m rules" and "(n, v) \<in> set (added_lines pv (mc_add_headers rules))"
  shows "lname n \<noteq> lname m"
  using assms by (auto simp: added_lines_def has_to_be_removed_def eq_ignore_ascii_case_def list_ex_iff)

lemma synthesized_framing:
  assumes "\<not> has_to_be_removed (as_bytes ''content-length'') (er_modify_request e)"
    and "\<not> has_to_be_removed (as_bytes ''transfer-encoding'') (er_modify_request e)"
  shows "framing eq_ci (spaced (synthesized (RequestHeaders e) cn ho pv xff)) cl = Some cl"
proof (rule framing_other)
  fix l
  assume "l \<in> set (spaced (synthesized (RequestHeaders e) cn ho pv xff))"
  then obtain n v where l: "l = (n, 32 # v)" and m: "(n, v) \<in> set (synthesized (RequestHeaders e) cn ho pv xff)"
    by (auto simp: spaced_def)
  from m have "(n, v) \<in> set (added_lines pv (mc_add_headers (er_modify_request e))) \<or>
      n \<in> {as_bytes ''X-Forwarded-For'', as_bytes ''CF-IPCountry'', as_bytes ''Host''}"
    by (auto simp: synthesized_def kind_rules_def split: option.splits bool.splits)
  then show "lname (fst l) \<notin> {as_bytes ''content-length'', as_bytes ''transfer-encoding''}"
    using added_not_removed [OF assms(1)] added_not_removed [OF assms(2)] by (auto simp: l)
qed

lemma concat_utf8_chars [simp]: "concat (utf8_chars bs) = bs"
proof (induction bs rule: utf8_chars.induct)
  case (1 bs)
  then show ?case by (subst utf8_chars.simps) (auto simp: Let_def split: list.split)
qed

lemma set_trim: "set (trim bs) \<subseteq> set bs"
proof -
  have "set (trim bs) \<subseteq> set (concat (utf8_chars bs))"
    unfolding trim_def set_concat by (auto dest!: set_dropWhileD)
  then show ?thesis by (simp only: concat_utf8_chars)
qed

text \<open>What rewriting adds to a head must itself be free of line breaks.\<close>

definition clean_inputs ::
  "H1HeadersKind \<Rightarrow> connection_info \<Rightarrow> bytes option \<Rightarrow> (bytes \<Rightarrow> bytes) \<Rightarrow> bool" where
  "clean_inputs kind cn ho pv \<longleftrightarrow>
     list_all header_ok (added_lines pv (mc_add_headers (kind_rules kind))) \<and>
     list_all (\<lambda>v. 13 \<notin> set v)
       (concat (map (\<lambda>x. case x of Some v \<Rightarrow> [v] | None \<Rightarrow> []) [cn_client_ip cn, cn_country cn, ho]))"

lemma rewritten_lines_ok:
  assumes "list_all line_ok ls" and "clean_inputs kind cn ho pv"
  shows "list_all line_ok (rewritten_lines kind cn ho pv ls)"
proof -
  have rw: "list_all line_ok (rewrite_line rules (kind_ip kind cn) inject ho l)" if "line_ok l" for rules inject l
    using that assms(2) set_trim [of "snd l"]
    by (cases kind)
      (auto simp: rewrite_line_def extend_forwarded_def line_ok_def clean_inputs_def kind_ip_def as_bytes_def
        trim_def [of "[]"] utf8_chars.simps split: option.splits)
  have "list_all header_ok (synthesized kind cn ho pv xff)" for xff
    using assms(2)
    by (cases kind) (auto simp: synthesized_def clean_inputs_def header_ok_def as_bytes_def list_all_iff
        split: option.splits bool.splits)
  note spaced_ok [OF this]
  moreover have "list_all line_ok (concat (map (rewrite_line (kind_rules kind) (kind_ip kind cn) (kind_inject kind) ho) ls))"
    using assms(1) rw by (induction ls) auto
  ultimately show ?thesis by (simp add: rewritten_lines_def)
qed

lemma last_value_append: "last_value nm (ls @ ls') d = last_value nm ls' (last_value nm ls d)"
  by (induction nm ls d rule: last_value.induct) auto

lemma last_value_other: "list_all (\<lambda>l. lname (fst l) \<noteq> nm) ls \<Longrightarrow> last_value nm ls d = d"
  by (induction nm ls d rule: last_value.induct) auto

lemma overridden_host:
  assumes "\<not> has_to_be_removed (as_bytes ''host'') (er_modify_request e)"
  shows "last_value (as_bytes ''host'') (rewritten_lines (RequestHeaders e) cn (Some host) pv ls) d = Some host"
proof -
  have a: "last_value (as_bytes ''host'') (spaced (added_lines pv (mc_add_headers (er_modify_request e)))) d = d" for d
    by (rule last_value_other)
      (use added_not_removed [OF assms] in \<open>auto simp: list_all_iff spaced_def\<close>)
  show ?thesis
    by (simp add: rewritten_lines_def synthesized_def kind_rules_def last_value_append spaced_def
        a [unfolded spaced_def])
qed

text \<open>The lines the upstream gets for a request.\<close>

lemma forwarded_line_cases:
  assumes "l \<in> set (rewritten_lines (RequestHeaders e) cn ho pv ls)"
  shows "l \<in> set (spaced (added_lines pv (mc_add_headers (er_modify_request e)))) \<or>
    (\<exists>code. l = (as_bytes ''CF-IPCountry'', 32 # code) \<and> cn_country cn = Some code) \<or>
    (\<exists>host. l = (as_bytes ''Host'', 32 # host) \<and> ho = Some host) \<or>
    (\<exists>ip p. l = (as_bytes ''X-Forwarded-For'', p @ ip) \<and> cn_client_ip cn = Some ip) \<or>
    l \<in> set ls \<and> \<not> dropped (er_modify_request e) ho (fst l) \<and>
      (forwarded_for l \<longrightarrow> cn_client_ip cn = None) \<and>
      (er_inject_country e \<longrightarrow> lname (fst l) \<noteq> as_bytes ''cf-ipcountry'')"
proof -
  consider l0 where "l0 \<in> set ls" "l \<in> set (rewrite_line (er_modify_request e) (cn_client_ip cn) (er_inject_country e) ho l0)"
    | xff where "l \<in> set (spaced (synthesized (RequestHeaders e) cn ho pv xff))"
    using assms by (auto simp: rewritten_lines_def kind_rules_def kind_ip_def kind_inject_def)
  then show ?thesis
  proof cases
    case 1
    have "\<exists>p. snd (extend_forwarded w ip) = p @ ip" for w ip
      by (simp add: extend_forwarded_def)
    with 1 show ?thesis
      by (auto simp: rewrite_line_def extend_forwarded_def forwarded_for_def split: if_splits option.splits)
  next
    case 2
    then obtain n v where l: "l = (n, 32 # v)" and "(n, v) \<in> set (synthesized (RequestHeaders e) cn ho pv xff)"
      by (auto simp: spaced_def)
    then consider "(n, v) \<in> set (added_lines pv (mc_add_headers (er_modify_request e)))"
      | "n = as_bytes ''X-Forwarded-For''" "cn_client_ip cn = Some v"
      | "n = as_bytes ''CF-IPCountry''" "cn_country cn = Some v"
      | "n = as_bytes ''Host''" "ho = Some v"
      by (auto simp: synthesized_def kind_rules_def split: option.splits bool.splits)
    then show ?thesis
    proof cases
      case 1
      then have "l \<in> set (spaced (added_lines pv (mc_add_headers (er_modify_request e))))"
        unfolding l spaced_def by (auto intro!: image_eqI)
      then show ?thesis by blast
    next
      case 2
      then have "l = (as_bytes ''X-Forwarded-For'', [32] @ v) \<and> cn_client_ip cn = Some v" by (simp add: l)
      then show ?thesis by blast
    qed (simp_all add: l)
  qed
qed

lemma forwarded_for_present:
  assumes "cn_client_ip cn = Some ip"
  shows "\<exists>l \<in> set (rewritten_lines (RequestHeaders e) cn ho pv ls). forwarded_for l"
proof (cases "list_ex (settles_forwarded (er_modify_request e) ho) ls")
  case True
  then obtain l where l: "l \<in> set ls" "settles_forwarded (er_modify_request e) ho l" by (auto simp: list_ex_iff)
  let ?l = "extend_forwarded (snd l) ip"
  have "?l \<in> set (rewritten_lines (RequestHeaders e) cn ho pv ls)"
    using l assms by (auto simp: rewritten_lines_def rewrite_line_def settles_forwarded_def kind_rules_def kind_ip_def
        intro!: bexI [of _ l])
  moreover have "forwarded_for ?l" by (simp add: forwarded_for_def extend_forwarded_def)
  ultimately show ?thesis by blast
next
  case False
  then have "(as_bytes ''X-Forwarded-For'', 32 # ip) \<in> set (rewritten_lines (RequestHeaders e) cn ho pv ls)"
    using assms by (simp add: rewritten_lines_def synthesized_def kind_rules_def spaced_def)
  moreover have "forwarded_for (as_bytes ''X-Forwarded-For'', 32 # ip)" by (simp add: forwarded_for_def)
  ultimately show ?thesis by blast
qed

text \<open>The parser on a head given by its lines, with the source named.\<close>

lemma parse_lines_Some:
  assumes "find_seq_ok f" and "find_byte_ok fb" and "list_all line_ok ls"
    and "13 \<notin> set fl" and "verify_http11_first_line fl = Ok ()"
    and src: "src = fl @ HTTP_CR_LF @ concat (map line_wire ls) @ HTTP_CR_LF @ post"
    and "framing eq_ci ls NoBody = Some cl"
  shows "\<exists>h. parse_head f fb eq_ci src = Some (Ok (Some h)) \<and> h1_content_length h = cl \<and>
    h1_first_line_end h = length fl \<and>
    h1_end h = length (fl @ HTTP_CR_LF @ concat (map line_wire ls) @ HTTP_CR_LF) \<and>
    at_position src (h1_host_value h) = last_value (as_bytes ''host'') ls None \<and>
    at_position src (h1_upgrade_value h) = last_value (as_bytes ''upgrade'') ls None"
  using parse_head_lines [OF assms(1-5), of eq_ci post] src unfolding assms(7) option.case by blast

lemma parse_lines_framing:
  assumes "find_seq_ok f" and "find_byte_ok fb" and "list_all line_ok ls"
    and "13 \<notin> set fl" and "verify_http11_first_line fl = Ok ()"
    and src: "src = fl @ HTTP_CR_LF @ concat (map line_wire ls) @ HTTP_CR_LF @ post"
    and p: "parse_head f fb eq_ci src = Some (Ok (Some h))"
  shows "framing eq_ci ls NoBody = Some (h1_content_length h) \<and> h1_first_line_end h = length fl"
proof (cases "framing eq_ci ls NoBody")
  case None
  with parse_head_lines [OF assms(1-5), of eq_ci post] p show ?thesis by (simp add: src)
next
  case (Some cl)
  with parse_lines_Some [OF assms(1-5) src Some] p show ?thesis by auto
qed

section \<open>Properties\<close>

text \<open>
  C29. The upstream frames a forwarded request as the proxy did: when no rule touches the framing
  headers, the head \<open>compile_headers\<close> produces for a request parses, in front of the same body
  bytes, to a head that ends where the proxy's output ends and has the body framing the proxy
  itself parsed from the client; with a host override, the host it carries is the override.
\<close>

theorem forwarded_framing_preserved:
  assumes "find_seq_ok f" and "find_byte_ok fb" and "list_all line_ok ls"
    and "13 \<notin> set fl" and "verify_http11_first_line fl = Ok ()"
    and "lb_get_data lb = fl @ HTTP_CR_LF @ concat (map line_wire ls) @ HTTP_CR_LF @ rest"
    and "parse_head f fb eq_ci (lb_get_data lb) = Some (Ok (Some h))"
    and "web_socket_upgrade (lb_get_data lb) h = Ok ws"
    and "\<And>n v. (n, v) \<in> set (mc_add_headers (er_modify_request e)) \<Longrightarrow> v \<noteq> [] \<Longrightarrow>
      populate_value fb tokens env (lb_get_data lb) h cn identity v = Ok (pv v)"
    and "clean_inputs (RequestHeaders e) cn ho pv"
    and "\<not> has_to_be_removed (as_bytes ''content-length'') (er_modify_request e)"
    and "\<not> has_to_be_removed (as_bytes ''transfer-encoding'') (er_modify_request e)"
    and "\<not> has_to_be_removed (as_bytes ''host'') (er_modify_request e)"
  shows "\<exists>out h'. compile_headers f fb tokens env h (RequestHeaders e) cn identity None ho lb =
      Some (Ok (out, ws, commit_read (h1_end h) lb)) \<and>
    parse_head f fb eq_ci (out @ rest) = Some (Ok (Some h')) \<and> h1_end h' = length out \<and>
    h1_content_length h' = h1_content_length h \<and>
    (\<forall>host. ho = Some host \<longrightarrow> at_position (out @ rest) (h1_host_value h') = Some host)"
proof -
  let ?rl = "rewritten_lines (RequestHeaders e) cn ho pv ls"
  let ?out = "fl @ HTTP_CR_LF @ concat (map line_wire ?rl) @ HTTP_CR_LF"
  have h: "framing eq_ci ls NoBody = Some (h1_content_length h)" "h1_first_line_end h = length fl"
    using parse_lines_framing [OF assms(1-7)] by blast+
  have fr: "framing eq_ci ?rl NoBody = Some (h1_content_length h)"
    using h(1) rewrite_lines_framing [OF assms(11,12)] synthesized_framing [OF assms(11,12)]
    by (simp add: rewritten_lines_def framing_append kind_rules_def)
  have c: "compile_headers f fb tokens env h (RequestHeaders e) cn identity None ho lb =
      Some (Ok (?out, ws, commit_read (h1_end h) lb))"
    by (rule compile_headers_lines [OF assms(1-3,6) h(2) assms(8)]) (use assms(9) in \<open>simp add: kind_rules_def\<close>)
  have "?out @ rest = fl @ HTTP_CR_LF @ concat (map line_wire ?rl) @ HTTP_CR_LF @ rest" by simp
  from parse_lines_Some [OF assms(1,2) rewritten_lines_ok [OF assms(3,10)] assms(4,5) this fr]
  obtain h' where h': "parse_head f fb eq_ci (?out @ rest) = Some (Ok (Some h'))" "h1_end h' = length ?out"
    "h1_content_length h' = h1_content_length h"
    "at_position (?out @ rest) (h1_host_value h') = last_value (as_bytes ''host'') ?rl None"
    by blast
  have "ho = Some host \<Longrightarrow> at_position (?out @ rest) (h1_host_value h') = Some host" for host
    using overridden_host [OF assms(13)] h'(4) by (simp only:)
  with c h'(1-3) show ?thesis by (intro exI [of _ ?out] exI [of _ h'] conjI allI impI) simp_all
qed

definition plain_rules :: endpoint_rules where
  "plain_rules = \<lparr>er_modify_request = \<lparr>mc_remove = [as_bytes ''x-debug''], mc_add_headers = []\<rparr>,
     er_modify_response = default_modify_headers, er_inject_country = True, er_keep_alive = True,
     er_hsts = False, er_is_https = True\<rparr>"

definition plain_client :: connection_info where
  "plain_client = \<lparr>cn_client_ip = Some (as_bytes ''10.0.0.1''), cn_country = Some (as_bytes ''LV''), cn_is_https = True\<rparr>"

definition plain_lines :: "(bytes \<times> bytes) list" where
  "plain_lines = [(as_bytes ''Host'', as_bytes '' a.b''), (as_bytes ''Content-Length'', as_bytes '' 2''),
     (as_bytes ''X-Debug'', as_bytes '' 1''), (as_bytes ''X-Forwarded-For'', as_bytes '' 1.1.1.1'')]"

definition plain_buffer :: loop_buffer where
  "plain_buffer = small_buffer (get_line @ HTTP_CR_LF @ concat (map line_wire plain_lines) @ HTTP_CR_LF @ [1, 2])"

lemma plain_head:
  "lb_get_data plain_buffer = get_line @ HTTP_CR_LF @ concat (map line_wire plain_lines) @ HTTP_CR_LF @ [1, 2]"
  "list_all line_ok plain_lines" "framing eq_ci_ref plain_lines NoBody = Some (Known 2)"
  "last_value (as_bytes ''upgrade'') plain_lines None = None"
  "\<not> has_to_be_removed (as_bytes ''content-length'') (er_modify_request plain_rules)"
  "\<not> has_to_be_removed (as_bytes ''transfer-encoding'') (er_modify_request plain_rules)"
  "\<not> has_to_be_removed (as_bytes ''host'') (er_modify_request plain_rules)"
  "\<not> has_to_be_removed (as_bytes ''x-forwarded-for'') (er_modify_request plain_rules)"
  "\<not> has_to_be_removed (as_bytes ''cf-ipcountry'') (er_modify_request plain_rules)"
  "clean_inputs (RequestHeaders plain_rules) plain_client (Some (as_bytes ''up'')) (\<lambda>v. v)"
  using length_value_digits [of "[50]"]
  by (simp_all add: plain_buffer_def plain_lines_def line_ok_def literal_names plain_rules_def has_to_be_removed_def
      eq_ignore_ascii_case_def clean_inputs_def plain_client_def kind_rules_def added_lines_def is_digit_def
      dec_value_def)

lemma plain_parsed:
  obtains h where "parse_head find_ref find_byte_ref eq_ci_ref (lb_get_data plain_buffer) = Some (Ok (Some h))"
    "h1_content_length h = Known 2" "h1_first_line_end h = length get_line"
    "web_socket_upgrade (lb_get_data plain_buffer) h = Ok False"
proof -
  from parse_lines_Some [OF find_ref_ok find_byte_ref_ok plain_head(2) get_line_ok plain_head(1,3)]
  obtain h where h: "parse_head find_ref find_byte_ref eq_ci_ref (lb_get_data plain_buffer) = Some (Ok (Some h))"
    "h1_content_length h = Known 2" "h1_first_line_end h = length get_line"
    "at_position (lb_get_data plain_buffer) (h1_upgrade_value h) = None"
    unfolding plain_head(4) by blast
  then show thesis by (intro that [of h]) (auto simp: at_position_def web_socket_upgrade_def)
qed

theorem forwarded_framing_preserved_witness:
  "\<exists>h out h'. compile_headers find_ref find_byte_ref (\<lambda>_. []) (\<lambda>_. None) h (RequestHeaders plain_rules) plain_client
      None None (Some (as_bytes ''up'')) plain_buffer = Some (Ok (out, False, commit_read (h1_end h) plain_buffer)) \<and>
    parse_head find_ref find_byte_ref eq_ci_ref (out @ [1, 2]) = Some (Ok (Some h')) \<and> h1_end h' = length out \<and>
    h1_content_length h' = Known 2 \<and> at_position (out @ [1, 2]) (h1_host_value h') = Some (as_bytes ''up'')"
proof -
  obtain h where h: "parse_head find_ref find_byte_ref eq_ci_ref (lb_get_data plain_buffer) = Some (Ok (Some h))"
    "h1_content_length h = Known 2" "h1_first_line_end h = length get_line"
    "web_socket_upgrade (lb_get_data plain_buffer) h = Ok False"
    by (rule plain_parsed)
  have adds: "mc_add_headers (er_modify_request plain_rules) = []" by (simp add: plain_rules_def)
  have "\<exists>out h'. compile_headers find_ref find_byte_ref (\<lambda>_. []) (\<lambda>_. None) h (RequestHeaders plain_rules) plain_client
      None None (Some (as_bytes ''up'')) plain_buffer = Some (Ok (out, False, commit_read (h1_end h) plain_buffer)) \<and>
    parse_head find_ref find_byte_ref eq_ci_ref (out @ [1, 2]) = Some (Ok (Some h')) \<and> h1_end h' = length out \<and>
    h1_content_length h' = h1_content_length h \<and>
    (\<forall>host. Some (as_bytes ''up'') = Some host \<longrightarrow> at_position (out @ [1, 2]) (h1_host_value h') = Some host)"
    by (rule forwarded_framing_preserved [OF find_ref_ok find_byte_ref_ok plain_head(2) get_line_ok plain_head(1) h(1,4) _
          plain_head(10,5-7)]) (simp add: adds)
  with h(2) show ?thesis by auto
qed



end
