(* ===== verification/H1_Client_Writer.thy ===== *)
theory H1_Client_Writer
  imports H1_Body
begin

text \<open>
  The write half of a client connection (\<open>src/src/network_stream/split/write_part.rs\<close>), the sink
  of a refused upgrade (\<open>pipeline/ws_tunnel.rs\<close>) and the task that owns the write half and sends
  the responses in request order (\<open>pipeline/client_writer.rs\<close>). What the transport will do to
  each write is a list of attempts; a list that has run out accepts everything. A slot is its
  write timeout and the events its worker sends before it drops the sender.
\<close>

section \<open>Write halves\<close>

datatype write_attempt = Accepted | WriteFails nat | WriteStalls nat | FlushFails

record write_half =
  wh_wire :: bytes
  wh_shut :: bool
  wh_ahead :: "write_attempt list"

definition shutdown_socket :: "write_half \<Rightarrow> write_half" where
  "shutdown_socket w = w\<lparr>wh_shut := True\<rparr>"

text \<open>
  A stalled write ends in the timeout; the future of \<open>shutdown_socket\<close> is dropped there without
  being awaited, so the socket stays open.
\<close>

definition write_all_with_timeout :: "nat \<Rightarrow> write_half sink" where
  "write_all_with_timeout timeout buffer w =
     (let (attempt, ahead) = (case wh_ahead w of [] \<Rightarrow> (Accepted, []) | a # as \<Rightarrow> (a, as));
          w1 = w\<lparr>wh_ahead := ahead\<rparr>
      in case attempt of
           WriteStalls k \<Rightarrow> (Err (Timeout timeout), w1\<lparr>wh_wire := wh_wire w1 @ take k buffer\<rparr>)
         | WriteFails k \<Rightarrow> (Err IoError, shutdown_socket (w1\<lparr>wh_wire := wh_wire w1 @ take k buffer\<rparr>))
         | FlushFails \<Rightarrow> (Err IoError, w1\<lparr>wh_wire := wh_wire w1 @ buffer\<rparr>)
         | Accepted \<Rightarrow> (Ok (), w1\<lparr>wh_wire := wh_wire w1 @ buffer\<rparr>))"

definition client_write_sink :: "nat \<Rightarrow> write_half sink" where
  "client_write_sink timeout buffer w = write_all_with_timeout timeout buffer w"

section \<open>The client writer\<close>

record ResponseSlot =
  rs_events :: "ResponseEvent list"
  rs_write_timeout :: nat

datatype slot_end = Finished | Incomplete | ClientGone

fun write_slot :: "nat \<Rightarrow> ResponseEvent list \<Rightarrow> write_half \<Rightarrow> slot_end \<times> write_half" where
  "write_slot t [] w = (Incomplete, shutdown_socket w)"
| "write_slot t (Chunk bs # events) w =
     (case write_all_with_timeout t bs w of
        (Ok _, w1) \<Rightarrow> write_slot t events w1
      | (_, w1) \<Rightarrow> (ClientGone, w1))"
| "write_slot t (Done # events) w = (Finished, w)"
| "write_slot t (Abort # events) w = (Incomplete, shutdown_socket w)"

text \<open>The result is the write half with whether it is handed back for reuse.\<close>

fun run_client_writer :: "ResponseSlot list \<Rightarrow> write_half \<Rightarrow> bool \<times> write_half" where
  "run_client_writer [] w = (True, w)"
| "run_client_writer (slot # queue) w =
     (case write_slot (rs_write_timeout slot) (rs_events slot) w of
        (Finished, w1) \<Rightarrow> run_client_writer queue w1
      | (_, w1) \<Rightarrow> (False, w1))"

section \<open>What the client sees\<close>

text \<open>The bytes of a response, whether it ended cleanly, and what the client is owed for a queue.\<close>

fun slot_bytes :: "ResponseEvent list \<Rightarrow> bytes" where
  "slot_bytes (Chunk bs # events) = bs @ slot_bytes events"
| "slot_bytes _ = []"

fun finishes :: "ResponseEvent list \<Rightarrow> bool" where
  "finishes (Chunk bs # events) = finishes events"
| "finishes (Done # events) = True"
| "finishes _ = False"

fun owed :: "ResponseSlot list \<Rightarrow> bytes" where
  "owed [] = []"
| "owed (slot # queue) = slot_bytes (rs_events slot) @ (if finishes (rs_events slot) then owed queue else [])"

definition healthy :: "write_half \<Rightarrow> bool" where
  "healthy w \<longleftrightarrow> list_all (\<lambda>a. a = Accepted) (wh_ahead w)"

lemma write_healthy:
  "healthy w \<Longrightarrow> \<exists>w1. write_all_with_timeout t bs w = (Ok (), w1) \<and> healthy w1 \<and> wh_shut w1 = wh_shut w"
  by (cases "wh_ahead w") (simp_all add: write_all_with_timeout_def healthy_def)

lemma write_Ok:
  "write_all_with_timeout t bs w = (Ok (), w1) \<Longrightarrow> wh_wire w1 = wh_wire w @ bs"
  by (cases "wh_ahead w") (auto simp: write_all_with_timeout_def Let_def split: write_attempt.splits)

lemma write_prefix:
  "\<exists>k. wh_wire (snd (write_all_with_timeout t bs w)) = wh_wire w @ take k bs"
proof -
  have "\<exists>k. bs = take k bs" by (rule exI [of _ "length bs"]) simp
  then show ?thesis
    by (cases "wh_ahead w") (auto simp: write_all_with_timeout_def shutdown_socket_def Let_def split: write_attempt.splits)
qed

interpretation client_socket: h1_writer "client_write_sink t" wh_wire "\<lambda>bs v. v @ bs" healthy
  by unfold_locales (auto simp: client_write_sink_def dest: write_Ok intro: write_healthy [THEN ex_forward])

lemma write_slot_prefix:
  assumes "write_slot t events w = (r, w1)"
  shows "\<exists>k. wh_wire w1 = wh_wire w @ take k (slot_bytes events) \<and>
    (r \<noteq> ClientGone \<longrightarrow> take k (slot_bytes events) = slot_bytes events) \<and> (r = Finished \<longrightarrow> finishes events)"
  using assms
proof (induction t events w rule: write_slot.induct)
  case (2 t bs events w)
  obtain r1 w2 where w2: "write_all_with_timeout t bs w = (r1, w2)" by (cases "write_all_with_timeout t bs w")
  show ?case
  proof (cases "r1 = Ok ()")
    case True
    with 2 w2 obtain k where "wh_wire w1 = wh_wire w2 @ take k (slot_bytes events)"
      "r \<noteq> ClientGone \<longrightarrow> take k (slot_bytes events) = slot_bytes events" "r = Finished \<longrightarrow> finishes events"
      by auto
    with write_Ok [OF w2 [unfolded True]] show ?thesis
      by (intro exI [of _ "length bs + k"]) simp
  next
    case False
    with 2 w2 have "r = ClientGone" "w1 = w2" by (cases r1; simp)+
    moreover obtain k where "wh_wire w2 = wh_wire w @ take k bs"
      using write_prefix [of t bs w] w2 by auto
    ultimately show ?thesis by (intro exI [of _ "min k (length bs)"]) (simp add: min_def)
  qed
qed (auto simp: shutdown_socket_def)

lemma write_slot_healthy:
  assumes "healthy w"
  shows "\<exists>r w1. write_slot t events w = (r, w1) \<and> healthy w1 \<and> r = (if finishes events then Finished else Incomplete) \<and>
    (wh_shut w1 \<longleftrightarrow> wh_shut w \<or> \<not> finishes events)"
  using assms
proof (induction t events w rule: write_slot.induct)
  case (2 t bs events w)
  with write_healthy [OF 2(2), of t bs] show ?case by fastforce
qed (auto simp: shutdown_socket_def healthy_def)

lemma client_writer_prefix:
  assumes "run_client_writer queue w = (reuse, w1)"
  shows "\<exists>k. wh_wire w1 = wh_wire w @ take k (owed queue) \<and>
    (reuse \<longrightarrow> take k (owed queue) = owed queue \<and> list_all (\<lambda>s. finishes (rs_events s)) queue)"
  using assms
proof (induction queue arbitrary: w)
  case (Cons slot queue)
  obtain r w2 where w2: "write_slot (rs_write_timeout slot) (rs_events slot) w = (r, w2)"
    by (cases "write_slot (rs_write_timeout slot) (rs_events slot) w")
  from write_slot_prefix [OF this] obtain k where k: "wh_wire w2 = wh_wire w @ take k (slot_bytes (rs_events slot))"
    "r \<noteq> ClientGone \<longrightarrow> take k (slot_bytes (rs_events slot)) = slot_bytes (rs_events slot)"
    "r = Finished \<longrightarrow> finishes (rs_events slot)" by blast
  show ?case
  proof (cases "r = Finished")
    case True
    with Cons.prems w2 have "run_client_writer queue w2 = (reuse, w1)" by simp
    from Cons.IH [OF this] obtain j where j: "wh_wire w1 = wh_wire w2 @ take j (owed queue)"
      "reuse \<longrightarrow> take j (owed queue) = owed queue \<and> list_all (\<lambda>s. finishes (rs_events s)) queue" by blast
    with k True show ?thesis
      by (intro exI [of _ "length (slot_bytes (rs_events slot)) + j"]) simp
  next
    case False
    with Cons.prems w2 have "w1 = w2" "\<not> reuse" by (cases r; simp)+
    with k(1) show ?thesis
      by (intro exI [of _ "min k (length (slot_bytes (rs_events slot)))"]) (simp add: min_def)
  qed
qed simp

lemma client_writer_healthy:
  assumes "healthy w"
  shows "\<exists>w1. run_client_writer queue w = (list_all (\<lambda>s. finishes (rs_events s)) queue, w1) \<and>
    wh_wire w1 = wh_wire w @ owed queue \<and>
    (wh_shut w1 \<longleftrightarrow> wh_shut w \<or> \<not> list_all (\<lambda>s. finishes (rs_events s)) queue)"
  using assms
proof (induction queue arbitrary: w)
  case (Cons slot queue)
  from write_slot_healthy [OF Cons.prems, of "rs_write_timeout slot" "rs_events slot"] obtain r w2 where
    w2: "write_slot (rs_write_timeout slot) (rs_events slot) w = (r, w2)" "healthy w2"
    "r = (if finishes (rs_events slot) then Finished else Incomplete)"
    "wh_shut w2 \<longleftrightarrow> wh_shut w \<or> \<not> finishes (rs_events slot)" by blast
  have "wh_wire w2 = wh_wire w @ slot_bytes (rs_events slot)"
    using write_slot_prefix [OF w2(1)] w2(3) by (auto split: if_splits)
  with w2 Cons.IH [OF w2(2)] show ?case by (cases "finishes (rs_events slot)") auto
qed simp

section \<open>Properties\<close>

text \<open>
  C12. Responses leave in request order: whatever the transport does, the client has received a
  prefix of the responses of the queue in queue order, stopping inside the first one that did not
  finish; the write half is handed back only when every response finished and was written in
  full; and over a transport that accepts every write the client receives all it is owed, with
  the socket shut down exactly when some response did not finish.
\<close>

theorem responses_in_request_order:
  "(\<exists>k. wh_wire (snd (run_client_writer queue w)) = wh_wire w @ take k (owed queue) \<and>
      (fst (run_client_writer queue w) \<longrightarrow>
        take k (owed queue) = owed queue \<and> list_all (\<lambda>s. finishes (rs_events s)) queue)) \<and>
    (healthy w \<and> \<not> wh_shut w \<longrightarrow>
      wh_wire (snd (run_client_writer queue w)) = wh_wire w @ owed queue \<and>
      fst (run_client_writer queue w) = list_all (\<lambda>s. finishes (rs_events s)) queue \<and>
      wh_shut (snd (run_client_writer queue w)) = (\<not> list_all (\<lambda>s. finishes (rs_events s)) queue))"
proof -
  obtain reuse w1 where r: "run_client_writer queue w = (reuse, w1)" by (cases "run_client_writer queue w")
  show ?thesis
    using client_writer_prefix [OF r] client_writer_healthy [of w queue] r by auto
qed

theorem responses_in_request_order_witness:
  "run_client_writer
     [\<lparr>rs_events = [Chunk [1, 2], Done], rs_write_timeout = 5\<rparr>, \<lparr>rs_events = [Chunk [3], Abort], rs_write_timeout = 5\<rparr>,
      \<lparr>rs_events = [Chunk [4], Done], rs_write_timeout = 5\<rparr>]
     \<lparr>wh_wire = [], wh_shut = False, wh_ahead = [Accepted]\<rparr> =
   (False, \<lparr>wh_wire = [1, 2, 3], wh_shut = True, wh_ahead = []\<rparr>)"
  using responses_in_request_order
    [of "[\<lparr>rs_events = [Chunk [1, 2], Done], rs_write_timeout = 5\<rparr>, \<lparr>rs_events = [Chunk [3], Abort], rs_write_timeout = 5\<rparr>,
      \<lparr>rs_events = [Chunk [4], Done], rs_write_timeout = 5\<rparr>]" "\<lparr>wh_wire = [], wh_shut = False, wh_ahead = [Accepted]\<rparr>"]
  by (simp add: write_all_with_timeout_def shutdown_socket_def healthy_def)

end
