(* ===== verification/H1_Worker.thy ===== *)
theory H1_Worker
  imports H1_Reader H1_Client_Writer
begin

text \<open>
  Delivering one request: the pool of kept upstream connections
  (\<open>src/src/h1_remote_connection/h1_pool_holder.rs\<close>, \<open>upstream.rs\<close>, \<open>inner.rs\<close>) and the worker
  that acquires a connection, writes head and body, replays them on a fresh connection after a
  failure, and streams the response to the client writer
  (\<open>src/src/h1_proxy_server/pipeline/worker.rs\<close>). The \<open>n\<close>-th dial of the process gives
  \<open>connect n\<close>; the pool key (\<open>connection_key\<close>) is a field of the request, and a page template is
  its bytes. Connections a request closes are collected in \<open>wk_closed\<close>, logs are left out.
\<close>

section \<open>Connections and the pool\<close>

record OwnedUpstream =
  ou_id :: u64
  ou_write :: write_half
  ou_read :: "arrival list"
  ou_disconnected :: bool

definition upstream_sink :: "nat \<Rightarrow> OwnedUpstream sink" where
  "upstream_sink timeout buffer o1 =
     (case write_all_with_timeout timeout buffer (ou_write o1) of (r, w) \<Rightarrow> (r, o1\<lparr>ou_write := w\<rparr>))"

definition send_head_bytes :: "bytes \<Rightarrow> nat \<Rightarrow> OwnedUpstream \<Rightarrow> bool \<times> OwnedUpstream" where
  "send_head_bytes head timeout o1 =
     (if ou_disconnected o1 then (False, o1)
      else case upstream_sink timeout head o1 of (r, o2) \<Rightarrow> (r = Ok (), o2))"

record H1PoolHolder =
  ph_pools :: "bytes \<Rightarrow> OwnedUpstream list"
  ph_max_idle_per_key :: nat

definition new_local :: H1PoolHolder where
  "new_local = \<lparr>ph_pools = (\<lambda>_. []), ph_max_idle_per_key = 1\<rparr>"

definition new_global :: "nat \<Rightarrow> H1PoolHolder" where
  "new_global max_idle_per_key = \<lparr>ph_pools = (\<lambda>_. []), ph_max_idle_per_key = max max_idle_per_key 1\<rparr>"

text \<open>The draining loop of \<open>acquire\<close>: the idle connections of a key, the last first.\<close>

fun pop_live :: "OwnedUpstream list \<Rightarrow> OwnedUpstream option \<times> OwnedUpstream list" where
  "pop_live [] = (None, [])"
| "pop_live (o1 # idle) = (if ou_disconnected o1 then pop_live idle else (Some o1, idle))"

definition acquire ::
  "(nat \<Rightarrow> (NetworkError, OwnedUpstream) outcome) \<Rightarrow> bytes \<Rightarrow> H1PoolHolder \<Rightarrow> nat
     \<Rightarrow> (NetworkError, OwnedUpstream \<times> bool) outcome \<times> H1PoolHolder \<times> nat" where
  "acquire connect key pool dialled =
     (case pop_live (rev (ph_pools pool key)) of
        (Some o1, idle) \<Rightarrow> (Ok (o1, True), pool\<lparr>ph_pools := (ph_pools pool)(key := rev idle)\<rparr>, dialled)
      | (None, idle) \<Rightarrow>
          (rbind (connect dialled) (\<lambda>o1. Ok (o1, False)),
           pool\<lparr>ph_pools := (ph_pools pool)(key := rev idle)\<rparr>, Suc dialled))"

definition release :: "bytes \<Rightarrow> OwnedUpstream \<Rightarrow> H1PoolHolder \<Rightarrow> H1PoolHolder" where
  "release key o1 pool =
     (if ou_disconnected o1 then pool
      else if length (ph_pools pool key) < ph_max_idle_per_key pool
      then pool\<lparr>ph_pools := (ph_pools pool)(key := ph_pools pool key @ [o1])\<rparr>
      else pool)"

section \<open>The request body\<close>

definition MAX_DELIVERY_ATTEMPTS :: nat where "MAX_DELIVERY_ATTEMPTS = 2"
definition REPLAY_WINDOW :: nat where "REPLAY_WINDOW = 64 * 1024"

text \<open>\<open>rb_rx\<close> is what the reader still delivers before it closes its side.\<close>

record RequestBodyPump =
  rb_rx :: "bytes list"
  rb_replay :: "bytes option"
  rb_completed :: bool
  rb_total :: u64

definition new_body_pump :: "bytes list \<Rightarrow> RequestBodyPump" where
  "new_body_pump rx = \<lparr>rb_rx = rx, rb_replay = Some [], rb_completed = False, rb_total = 0\<rparr>"

definition is_replayable :: "RequestBodyPump \<Rightarrow> bool" where
  "is_replayable p \<longleftrightarrow> rb_replay p \<noteq> None"

definition resend :: "nat \<Rightarrow> RequestBodyPump \<Rightarrow> OwnedUpstream \<Rightarrow> bool \<times> OwnedUpstream" where
  "resend timeout p o1 =
     (case rb_replay p of
        None \<Rightarrow> (False, o1)
      | Some replay \<Rightarrow>
          if replay = [] then (True, o1)
          else case upstream_sink timeout replay o1 of (r, o2) \<Rightarrow> (r = Ok (), o2))"

definition take_chunk :: "bytes \<Rightarrow> RequestBodyPump \<Rightarrow> RequestBodyPump" where
  "take_chunk chunk p =
     p\<lparr>rb_rx := tl (rb_rx p), rb_total := rb_total p + of_nat (length chunk),
       rb_replay := (case rb_replay p of
          None \<Rightarrow> None
        | Some replay \<Rightarrow> if length replay + length chunk > REPLAY_WINDOW then None else Some (replay @ chunk))\<rparr>"

function stream_body :: "nat \<Rightarrow> RequestBodyPump \<Rightarrow> OwnedUpstream \<Rightarrow> bool \<times> RequestBodyPump \<times> OwnedUpstream" where
  "stream_body timeout p o1 =
     (case rb_rx p of
        [] \<Rightarrow> (True, p\<lparr>rb_completed := True\<rparr>, o1)
      | chunk # _ \<Rightarrow>
          (case upstream_sink timeout chunk o1 of
             (Ok _, o2) \<Rightarrow> stream_body timeout (take_chunk chunk p) o2
           | (_, o2) \<Rightarrow> (False, take_chunk chunk p, o2)))"
  by pat_completeness auto
termination
  by (relation "measure (\<lambda>(_, p, _). length (rb_rx p))") (auto simp: take_chunk_def)

declare stream_body.simps [simp del]

function discard_loop :: "nat \<Rightarrow> RequestBodyPump \<Rightarrow> bool \<times> RequestBodyPump" where
  "discard_loop discarded p =
     (case rb_rx p of
        [] \<Rightarrow> (True, p\<lparr>rb_completed := True\<rparr>)
      | chunk # rest \<Rightarrow>
          let p1 = p\<lparr>rb_rx := rest, rb_total := rb_total p + of_nat (length chunk)\<rparr> in
          if discarded + length chunk > REPLAY_WINDOW then (False, p1)
          else discard_loop (discarded + length chunk) p1)"
  by pat_completeness auto
termination
  by (relation "measure (\<lambda>(_, p). length (rb_rx p))") auto

declare discard_loop.simps [simp del]

definition discard_rest :: "RequestBodyPump \<Rightarrow> bool \<times> RequestBodyPump" where
  "discard_rest p = (if rb_completed p then (True, p) else discard_loop 0 p)"

section \<open>Failures\<close>

definition is_timeout :: "NetworkError \<Rightarrow> bool" where
  "is_timeout e = (case e of Timeout _ \<Rightarrow> True | _ \<Rightarrow> False)"

definition is_stale_connection :: "ProxyServerError \<Rightarrow> bool" where
  "is_stale_connection err = (case err of ErrNetwork e \<Rightarrow> \<not> is_timeout e | _ \<Rightarrow> False)"

definition classify_upstream_failure :: "ProxyServerError \<Rightarrow> error_page" where
  "classify_upstream_failure err =
     (case err of
        ErrNetwork e \<Rightarrow> if is_timeout e then ERROR_TIMEOUT else REMOTE_RESOURCE_IS_NOT_AVAILABLE
      | _ \<Rightarrow> UPSTREAM_IS_NOT_HTTP)"

definition send_event :: "ResponseEvent \<Rightarrow> ResponseEvent channel \<Rightarrow> bool \<times> ResponseEvent channel" where
  "send_event e tx = (if tx_open tx then (True, tx\<lparr>tx_items := tx_items tx @ [e]\<rparr>) else (False, tx))"

definition fail_request ::
  "bool \<Rightarrow> bytes \<Rightarrow> RequestBodyPump \<Rightarrow> ResponseEvent channel \<Rightarrow> RequestBodyPump \<times> ResponseEvent channel" where
  "fail_request is_mcp page body tx =
     (case discard_rest body of
        (stays_synced, body1) \<Rightarrow>
          if is_mcp then (body1, snd (send_event Abort tx))
          else case send_event (Chunk page) tx of
            (False, tx1) \<Rightarrow> (body1, tx1)
          | (True, tx1) \<Rightarrow> (body1, snd (send_event (if stays_synced then Done else Abort) tx1)))"

section \<open>The worker\<close>

text \<open>Third-party code, the page templates and the dials, and what the reader hands to a worker.\<close>

record worker_libs =
  wl_find_seq :: find_sequence
  wl_find_byte :: find_byte
  wl_eq_ci :: "bytes \<Rightarrow> bytes \<Rightarrow> bool"
  wl_tokens :: "bytes \<Rightarrow> content_token list"
  wl_env :: "bytes \<Rightarrow> bytes option"
  wl_page :: "error_page \<Rightarrow> bytes"
  wl_connect :: "nat \<Rightarrow> (NetworkError, OwnedUpstream) outcome"
  wl_memory :: bytes

record UpstreamRequest =
  ur_key :: bytes
  ur_is_mcp :: bool
  ur_rules :: endpoint_rules
  ur_connection :: connection_info
  ur_head :: bytes
  ur_read_timeout :: nat
  ur_write_timeout :: nat

record worker =
  wk_pool :: H1PoolHolder
  wk_dialled :: nat
  wk_body :: RequestBodyPump
  wk_tx :: "ResponseEvent channel"
  wk_closed :: "OwnedUpstream list"
  wk_c2s :: u64
  wk_s2c :: u64

definition DEFAULT_MCP_READ_TIMEOUT :: nat where "DEFAULT_MCP_READ_TIMEOUT = 60 * 60"

definition response_timeout :: "UpstreamRequest \<Rightarrow> nat" where
  "response_timeout req = (if ur_is_mcp req then DEFAULT_MCP_READ_TIMEOUT else ur_read_timeout req)"

definition close_upstream :: "OwnedUpstream \<Rightarrow> worker \<Rightarrow> worker" where
  "close_upstream o1 wk = wk\<lparr>wk_closed := wk_closed wk @ [o1]\<rparr>"

record served =
  sv_upstream :: OwnedUpstream
  sv_buffer :: loop_buffer
  sv_src :: "arrival list"
  sv_head :: bytes
  sv_content_length :: HttpContentLength
  sv_is_websocket :: bool

datatype attempt_end = Served served | Failed error_page | AttemptPanics | AttemptHangs

text \<open>Writing the request: the head, what was already taken of the body, and the rest of it.\<close>

definition send_body :: "nat \<Rightarrow> RequestBodyPump \<Rightarrow> OwnedUpstream \<Rightarrow> bool \<times> RequestBodyPump \<times> OwnedUpstream" where
  "send_body timeout p o1 =
     (case resend timeout p o1 of
        (False, o2) \<Rightarrow> (False, p, o2)
      | (True, o2) \<Rightarrow> stream_body timeout p o2)"

text \<open>Reading and rewriting the response head. \<open>Inl\<close> is a failed read, \<open>Inr\<close> what was served or why not.\<close>

definition read_response_head ::
  "worker_libs \<Rightarrow> UpstreamRequest \<Rightarrow> OwnedUpstream \<Rightarrow> (ProxyServerError \<times> OwnedUpstream) + (attempt_end \<times> OwnedUpstream)" where
  "read_response_head L req o1 =
     (case read_headers (wl_find_seq L) (wl_find_byte L) (wl_eq_ci L) (response_timeout req)
             (new_loop_buffer (wl_memory L)) (ou_read o1) of
        (None, lb, src) \<Rightarrow> Inr (AttemptHangs, o1)
      | (Some Panic, lb, src) \<Rightarrow> Inr (AttemptPanics, o1\<lparr>ou_read := src\<rparr>)
      | (Some (Err err), lb, src) \<Rightarrow> Inl (err, o1\<lparr>ou_read := src, ou_disconnected := True\<rparr>)
      | (Some (Ok h), lb, src) \<Rightarrow>
          (case compile_headers (wl_find_seq L) (wl_find_byte L) (wl_tokens L) (wl_env L) h
                  (ResponseHeaders (ur_rules req)) (ur_connection req) None None None lb of
             None \<Rightarrow> Inr (AttemptHangs, o1)
           | Some Panic \<Rightarrow> Inr (AttemptPanics, o1\<lparr>ou_read := src\<rparr>)
           | Some (Err err) \<Rightarrow>
               Inr (Failed (classify_upstream_failure err), o1\<lparr>ou_read := src, ou_disconnected := True\<rparr>)
           | Some (Ok (out, ws, lb1)) \<Rightarrow>
               Inr (Served \<lparr>sv_upstream = o1, sv_buffer = lb1, sv_src = src, sv_head = out,
                      sv_content_length = h1_content_length h, sv_is_websocket = ws\<rparr>, o1)))"

text \<open>One turn of the delivery loop: \<open>None\<close> is its \<open>continue\<close>.\<close>

definition retry_or :: "bool \<Rightarrow> attempt_end \<Rightarrow> worker \<Rightarrow> attempt_end option \<times> worker" where
  "retry_or again fin wk = (if again then (None, wk) else (Some fin, wk))"

definition attempt_once :: "worker_libs \<Rightarrow> UpstreamRequest \<Rightarrow> bool \<Rightarrow> worker \<Rightarrow> attempt_end option \<times> worker" where
  "attempt_once L req retries_left wk =
     (case acquire (wl_connect L) (ur_key req) (wk_pool wk) (wk_dialled wk) of
        (acquired, pool, dialled) \<Rightarrow>
          let wk1 = wk\<lparr>wk_pool := pool, wk_dialled := dialled\<rparr> in
          case acquired of
            Err _ \<Rightarrow> (Some (Failed REMOTE_RESOURCE_IS_NOT_AVAILABLE), wk1)
          | Panic \<Rightarrow> (Some AttemptPanics, wk1)
          | Ok (o1, reused) \<Rightarrow>
              (case send_head_bytes (ur_head req) (ur_write_timeout req) o1 of
                 (False, o2) \<Rightarrow>
                   retry_or (retries_left \<and> is_replayable (wk_body wk1)) (Failed REMOTE_RESOURCE_IS_NOT_AVAILABLE)
                     (close_upstream o2 wk1)
               | (True, o2) \<Rightarrow>
                   (case send_body (ur_write_timeout req) (wk_body wk1) o2 of
                      (False, body, o3) \<Rightarrow>
                        retry_or (retries_left \<and> is_replayable body) (Failed ERROR_GETTING_CONTENT_FROM_REMOTE_RESOURCE)
                          (close_upstream o3 (wk1\<lparr>wk_body := body\<rparr>))
                    | (True, body, o3) \<Rightarrow>
                        let wk2 = wk1\<lparr>wk_body := body\<rparr> in
                        (case read_response_head L req o3 of
                           Inl (err, o4) \<Rightarrow>
                             retry_or (reused \<and> retries_left \<and> is_replayable body \<and> is_stale_connection err)
                               (Failed (classify_upstream_failure err)) (close_upstream o4 wk2)
                         | Inr (Served s, o4) \<Rightarrow> (Some (Served s), wk2)
                         | Inr (fin, o4) \<Rightarrow> (Some fin, close_upstream o4 wk2)))))"

lemma attempt_once_retries: "attempt_once L req retries_left wk = (None, wk1) \<Longrightarrow> retries_left"
  by (auto simp: attempt_once_def retry_or_def Let_def split: prod.splits outcome.splits bool.splits sum.splits
      attempt_end.splits if_splits)

function deliver_request :: "worker_libs \<Rightarrow> UpstreamRequest \<Rightarrow> nat \<Rightarrow> worker \<Rightarrow> attempt_end \<times> worker" where
  "deliver_request L req attempt wk =
     (case attempt_once L req (attempt < MAX_DELIVERY_ATTEMPTS) wk of
        (Some fin, wk1) \<Rightarrow> (fin, wk1)
      | (None, wk1) \<Rightarrow> deliver_request L req (Suc attempt) wk1)"
  by pat_completeness auto
termination
  by (relation "measure (\<lambda>(_, _, attempt, _). MAX_DELIVERY_ATTEMPTS - attempt)") (auto dest: attempt_once_retries [OF sym])

declare deliver_request.simps [simp del]

text \<open>Streaming the response and keeping the connection. \<open>None\<close> is a transfer that does not return.\<close>

definition respond :: "worker_libs \<Rightarrow> nat \<Rightarrow> UpstreamRequest \<Rightarrow> served \<Rightarrow> worker \<Rightarrow> worker option" where
  "respond L fuel req s wk =
     (let wk1 = wk\<lparr>wk_c2s := wk_c2s wk + rb_total (wk_body wk)\<rparr>;
          o1 = (sv_upstream s)\<lparr>ou_read := sv_src s\<rparr>
      in case send_event (Chunk (sv_head s)) (wk_tx wk1) of
           (False, tx) \<Rightarrow> Some (close_upstream o1 wk1)
         | (True, tx) \<Rightarrow>
             if sv_is_websocket s then Some (close_upstream o1 (wk1\<lparr>wk_tx := snd (send_event Abort tx)\<rparr>))
             else case transfer_body (wl_find_seq L) channel_sink (response_timeout req) fuel (sv_buffer s) (sv_src s)
                         (sv_content_length s) tx of
                    None \<Rightarrow> None
                  | Some (Panic, lb, src, tx1) \<Rightarrow> Some (close_upstream (o1\<lparr>ou_read := src\<rparr>) (wk1\<lparr>wk_tx := tx1\<rparr>))
                  | Some (Err _, lb, src, tx1) \<Rightarrow>
                      Some (close_upstream (o1\<lparr>ou_read := src\<rparr>) (wk1\<lparr>wk_tx := snd (send_event Abort tx1)\<rparr>))
                  | Some (Ok bytes_to_client, lb, src, tx1) \<Rightarrow>
                      (case send_event Done tx1 of
                         (False, tx2) \<Rightarrow> Some (close_upstream (o1\<lparr>ou_read := src\<rparr>) (wk1\<lparr>wk_tx := tx2\<rparr>))
                       | (True, tx2) \<Rightarrow>
                           let wk2 = wk1\<lparr>wk_tx := tx2, wk_s2c := wk_s2c wk1 + bytes_to_client\<rparr>;
                               o2 = o1\<lparr>ou_read := src\<rparr>
                           in if sv_content_length s \<noteq> NoBody \<and> lb_get_data lb = [] \<and> \<not> ou_disconnected o2
                              then Some (wk2\<lparr>wk_pool := release (ur_key req) o2 (wk_pool wk2)\<rparr>)
                              else Some (close_upstream o2 wk2)))"

definition run_upstream_request :: "worker_libs \<Rightarrow> nat \<Rightarrow> UpstreamRequest \<Rightarrow> worker \<Rightarrow> worker option" where
  "run_upstream_request L fuel req wk =
     (case deliver_request L req 1 wk of
        (Served s, wk1) \<Rightarrow> respond L fuel req s wk1
      | (Failed page, wk1) \<Rightarrow>
          (case fail_request (ur_is_mcp req) (wl_page L page) (wk_body wk1) (wk_tx wk1) of
             (body, tx) \<Rightarrow> Some (wk1\<lparr>wk_body := body, wk_tx := tx\<rparr>))
      | (AttemptPanics, wk1) \<Rightarrow> Some wk1
      | (AttemptHangs, wk1) \<Rightarrow> None)"

section \<open>What the upstreams receive\<close>

definition sent :: "OwnedUpstream \<Rightarrow> bytes \<Rightarrow> OwnedUpstream \<Rightarrow> bool" where
  "sent o0 bs o1 \<longleftrightarrow> ou_id o1 = ou_id o0 \<and> wh_wire (ou_write o1) = wh_wire (ou_write o0) @ bs"

definition sent_part :: "OwnedUpstream \<Rightarrow> bytes \<Rightarrow> OwnedUpstream \<Rightarrow> bool" where
  "sent_part o0 bs o1 \<longleftrightarrow> (\<exists>k. sent o0 (take k bs) o1)"

lemma sent_trans: "sent o0 a o1 \<Longrightarrow> sent o1 b o2 \<Longrightarrow> sent o0 (a @ b) o2"
  by (simp add: sent_def)

lemma sent_is_part: "sent o0 bs o1 \<Longrightarrow> sent_part o0 bs o1"
  unfolding sent_part_def by (rule exI [of _ "length bs"]) simp

lemma sent_part_left: "sent_part o0 a o1 \<Longrightarrow> sent_part o0 (a @ b) o1"
  unfolding sent_part_def
proof (elim exE)
  fix k
  assume "sent o0 (take k a) o1"
  then show "\<exists>k. sent o0 (take k (a @ b)) o1"
    by (intro exI [of _ "min k (length a)"]) (cases "k \<le> length a"; simp add: min_def)
qed

lemma sent_Nil [simp]: "sent o1 [] o1" "sent_part o1 bs o1"
proof -
  show "sent o1 [] o1" by (simp add: sent_def)
  then have "sent o1 (take 0 bs) o1" by simp
  then show "sent_part o1 bs o1" unfolding sent_part_def by blast
qed

lemma sent_part_right: "sent o0 a o1 \<Longrightarrow> sent_part o1 b o2 \<Longrightarrow> sent_part o0 (a @ b) o2"
  unfolding sent_part_def
proof (elim exE)
  fix k
  assume "sent o0 a o1" "sent o1 (take k b) o2"
  then have "sent o0 (take (length a + k) (a @ b)) o2" by (simp add: sent_def)
  then show "\<exists>k. sent o0 (take k (a @ b)) o2" by blast
qed

lemma sent_part_upd [simp]:
  "sent_part o0 bs (o1\<lparr>ou_read := x\<rparr>) = sent_part o0 bs o1"
  "sent_part o0 bs (o1\<lparr>ou_disconnected := d\<rparr>) = sent_part o0 bs o1"
  "sent o0 bs (o1\<lparr>ou_read := x\<rparr>) = sent o0 bs o1"
  "sent o0 bs (o1\<lparr>ou_disconnected := d\<rparr>) = sent o0 bs o1"
  by (simp_all add: sent_part_def sent_def)

lemma sink_Ok: "upstream_sink t bs o1 = (Ok (), o2) \<Longrightarrow> sent o1 bs o2"
  by (auto simp: upstream_sink_def sent_def split: prod.splits dest: write_Ok)

lemma sink_part: "upstream_sink t bs o1 = (r, o2) \<Longrightarrow> sent_part o1 bs o2"
  using write_prefix [of t bs "ou_write o1"]
  by (auto simp: upstream_sink_def sent_part_def sent_def split: prod.splits)

interpretation upstream: h1_writer "upstream_sink t" "\<lambda>o1. wh_wire (ou_write o1)" "\<lambda>bs v. v @ bs" "\<lambda>o1. healthy (ou_write o1)"
proof unfold_locales
  fix bs :: bytes and w :: OwnedUpstream
  assume "healthy (ou_write w)"
  then obtain w2 where "write_all_with_timeout t bs (ou_write w) = (Ok (), w2)" "healthy w2"
    using write_healthy by blast
  then show "\<exists>w1. upstream_sink t bs w = (Ok (), w1) \<and> healthy (ou_write w1)"
    by (simp add: upstream_sink_def)
qed (auto dest: sink_Ok simp: sent_def)

lemma send_head_sent:
  "send_head_bytes head t o1 = (r, o2) \<Longrightarrow> (r \<longrightarrow> sent o1 head o2) \<and> sent_part o1 head o2"
  by (auto simp: send_head_bytes_def split: if_splits prod.splits dest: sink_Ok sink_part)

text \<open>The replay memory is exactly what was taken off the client, as long as it exists.\<close>

definition pump_ok :: "bytes \<Rightarrow> RequestBodyPump \<Rightarrow> bool" where
  "pump_ok body p \<longleftrightarrow>
     (\<exists>taken. taken @ concat (rb_rx p) = body \<and> (\<forall>r. rb_replay p = Some r \<longrightarrow> r = taken))"

lemma take_chunk_ok: "pump_ok body p \<Longrightarrow> rb_rx p = chunk # rest \<Longrightarrow> pump_ok body (take_chunk chunk p)"
  unfolding pump_ok_def
proof (elim exE conjE)
  fix taken
  assume "taken @ concat (rb_rx p) = body" "\<forall>r. rb_replay p = Some r \<longrightarrow> r = taken" "rb_rx p = chunk # rest"
  then show "\<exists>taken. taken @ concat (rb_rx (take_chunk chunk p)) = body \<and>
      (\<forall>r. rb_replay (take_chunk chunk p) = Some r \<longrightarrow> r = taken)"
    by (intro exI [of _ "taken @ chunk"]) (auto simp: take_chunk_def split: option.splits if_splits)
qed

lemma stream_body_sent:
  assumes "stream_body t p o1 = (r, p1, o2)" and "pump_ok body p"
  shows "(r \<longrightarrow> sent o1 (concat (rb_rx p)) o2) \<and> sent_part o1 (concat (rb_rx p)) o2 \<and> pump_ok body p1"
  using assms
proof (induction t p o1 rule: stream_body.induct)
  case (1 t p o1)
  show ?case
  proof (cases "rb_rx p")
    case Nil
    with 1 show ?thesis by (auto simp: stream_body.simps sent_def sent_part_def pump_ok_def)
  next
    case (Cons chunk rest)
    obtain r1 o3 where o3: "upstream_sink t chunk o1 = (r1, o3)" by (cases "upstream_sink t chunk o1")
    note ok = take_chunk_ok [OF 1(3) Cons]
    have rx: "rb_rx (take_chunk chunk p) = rest" by (simp add: take_chunk_def Cons)
    show ?thesis
    proof (cases "r1 = Ok ()")
      case True
      with 1(2) Cons o3 have "stream_body t (take_chunk chunk p) o3 = (r, p1, o2)" by (simp add: stream_body.simps)
      with 1(1) [OF Cons o3 [symmetric] True _ ok] sink_Ok [OF o3 [unfolded True]] show ?thesis
        by (auto simp: Cons rx intro: sent_trans sent_part_right)
    next
      case False
      with 1(2) Cons o3 have "\<not> r" "p1 = take_chunk chunk p" "o2 = o3"
        by (cases r1; simp add: stream_body.simps [of t p])+
      with sink_part [OF o3] ok show ?thesis by (simp add: Cons sent_part_left)
    qed
  qed
qed

lemma send_body_sent:
  assumes "send_body t p o1 = (r, p1, o2)" and "pump_ok body p" and "is_replayable p"
  shows "(r \<longrightarrow> sent o1 body o2) \<and> sent_part o1 body o2 \<and> pump_ok body p1"
proof -
  from assms(2,3) obtain taken where taken: "taken @ concat (rb_rx p) = body" "rb_replay p = Some taken"
    by (auto simp: pump_ok_def is_replayable_def)
  obtain b o3 where o3: "resend t p o1 = (b, o3)" by (cases "resend t p o1")
  have res: "(b \<longrightarrow> sent o1 taken o3) \<and> sent_part o1 taken o3"
    using o3 taken(2)
    by (auto simp: resend_def split: if_splits prod.splits dest: sink_Ok sink_part)
  show ?thesis
  proof (cases b)
    case True
    with assms(1) o3 have "stream_body t p o3 = (r, p1, o2)" by (simp add: send_body_def)
    from stream_body_sent [OF this assms(2)] res True taken(1) [symmetric] show ?thesis
      by (auto intro: sent_trans sent_part_right)
  next
    case False
    with assms o3 res taken(1) [symmetric] show ?thesis
      by (auto simp: send_body_def intro: sent_part_left)
  qed
qed

lemma pop_live_subset:
  "pop_live idle = (r, rest) \<Longrightarrow> set rest \<subseteq> set idle \<and> length rest \<le> length idle \<and>
    (\<forall>o1. r = Some o1 \<longrightarrow> o1 \<in> set idle \<and> \<not> ou_disconnected o1)"
  by (induction idle) (auto split: if_splits)

definition reachable_upstreams :: "worker_libs \<Rightarrow> bytes \<Rightarrow> H1PoolHolder \<Rightarrow> OwnedUpstream set" where
  "reachable_upstreams L key pool = set (ph_pools pool key) \<union> {o1. \<exists>n. wl_connect L n = Ok o1}"

text \<open>A connection that came from \<open>A\<close> and got \<open>bs\<close>, all of it or a prefix, since.\<close>

definition received :: "OwnedUpstream set \<Rightarrow> bytes \<Rightarrow> OwnedUpstream \<Rightarrow> bool" where
  "received A bs o1 \<longleftrightarrow> (\<exists>o0 \<in> A. sent o0 bs o1)"

definition received_part :: "OwnedUpstream set \<Rightarrow> bytes \<Rightarrow> OwnedUpstream \<Rightarrow> bool" where
  "received_part A bs o1 \<longleftrightarrow> (\<exists>o0 \<in> A. sent_part o0 bs o1)"

lemma received_mono: "received A bs o1 \<Longrightarrow> A \<subseteq> B \<Longrightarrow> received B bs o1"
  "received_part A bs o1 \<Longrightarrow> A \<subseteq> B \<Longrightarrow> received_part B bs o1"
  by (auto simp: received_def received_part_def)

lemma receivedI: "o0 \<in> A \<Longrightarrow> sent o0 bs o1 \<Longrightarrow> received A bs o1"
  "o0 \<in> A \<Longrightarrow> sent_part o0 bs o1 \<Longrightarrow> received_part A bs o1"
  by (auto simp: received_def received_part_def)

lemma acquire_from:
  assumes "acquire (wl_connect L) key pool dialled = (r, pool1, dialled1)"
  shows "reachable_upstreams L key pool1 \<subseteq> reachable_upstreams L key pool"
    and "r = Ok (o1, reused) \<Longrightarrow> o1 \<in> reachable_upstreams L key pool"
proof -
  obtain c rest where p: "pop_live (rev (ph_pools pool key)) = (c, rest)" by (cases "pop_live (rev (ph_pools pool key))")
  note sub = pop_live_subset [OF p]
  show "reachable_upstreams L key pool1 \<subseteq> reachable_upstreams L key pool"
    using assms p sub by (cases c) (auto simp: acquire_def reachable_upstreams_def)
  show "r = Ok (o1, reused) \<Longrightarrow> o1 \<in> reachable_upstreams L key pool"
    using assms p sub
    by (cases c; cases "wl_connect L dialled") (auto simp: acquire_def reachable_upstreams_def)
qed

lemma read_response_head_sent:
  assumes "sent o0 bs o1"
  shows "case read_response_head L req o1 of
      Inl (err, o2) \<Rightarrow> sent o0 bs o2
    | Inr (fin, o2) \<Rightarrow> sent o0 bs o2 \<and> (\<forall>s. fin = Served s \<longrightarrow> sent o0 bs (sv_upstream s))"
  using assms
  by (auto simp: read_response_head_def split: prod.splits option.splits outcome.splits)

text \<open>What one attempt leaves behind.\<close>

lemma attempt_once_sent:
  assumes "attempt_once L req retries wk = (fin, wk1)" and "pump_ok body (wk_body wk)" and "is_replayable (wk_body wk)"
  shows "\<exists>new. wk_closed wk1 = wk_closed wk @ new \<and> wk_tx wk1 = wk_tx wk \<and> pump_ok body (wk_body wk1) \<and>
    reachable_upstreams L (ur_key req) (wk_pool wk1) \<subseteq> reachable_upstreams L (ur_key req) (wk_pool wk) \<and>
    length new \<le> 1 \<and>
    (\<forall>o1 \<in> set new. received_part (reachable_upstreams L (ur_key req) (wk_pool wk)) (ur_head req @ body) o1) \<and>
    (fin = None \<longrightarrow> is_replayable (wk_body wk1)) \<and>
    (\<forall>s. fin = Some (Served s) \<longrightarrow> new = [] \<and>
      received (reachable_upstreams L (ur_key req) (wk_pool wk)) (ur_head req @ body) (sv_upstream s))"
proof -
  let ?R = "reachable_upstreams L (ur_key req)"
  obtain r pool dialled where a: "acquire (wl_connect L) (ur_key req) (wk_pool wk) (wk_dialled wk) = (r, pool, dialled)"
    by (cases "acquire (wl_connect L) (ur_key req) (wk_pool wk) (wk_dialled wk)")
  note src = acquire_from [OF a]
  show ?thesis
  proof (cases r)
    case (Ok x)
    obtain o1 reused where x: "x = (o1, reused)" by (cases x)
    have mem: "o1 \<in> ?R (wk_pool wk)" by (rule src(2)) (simp add: Ok x)
    obtain b o2 where h: "send_head_bytes (ur_head req) (ur_write_timeout req) o1 = (b, o2)"
      by (cases "send_head_bytes (ur_head req) (ur_write_timeout req) o1")
    note hs = send_head_sent [OF h]
    show ?thesis
    proof (cases b)
      case False
      with assms a Ok x h src(1) mem sent_part_left [OF hs [THEN conjunct2], of body] show ?thesis
        by (auto simp: attempt_once_def retry_or_def close_upstream_def Let_def intro: receivedI split: if_splits)
    next
      case True
      obtain b2 body1 o3 where sb: "send_body (ur_write_timeout req) (wk_body wk) o2 = (b2, body1, o3)"
        by (cases "send_body (ur_write_timeout req) (wk_body wk) o2")
      note bs = send_body_sent [OF sb assms(2,3)]
      have part: "sent_part o1 (ur_head req @ body) o3" and all: "b2 \<Longrightarrow> sent o1 (ur_head req @ body) o3"
        using hs True bs by (auto intro: sent_part_right sent_trans)
      show ?thesis
      proof (cases b2)
        case False
        with assms(1) a Ok x h True sb src(1) mem part bs show ?thesis
          by (auto simp: attempt_once_def retry_or_def close_upstream_def Let_def intro: receivedI split: if_splits)
      next
        case b2: True
        note rr = read_response_head_sent [OF all [OF b2], of L req]
        show ?thesis
          using assms(1) a Ok x h True sb b2 src(1) mem bs rr
          by (auto simp: attempt_once_def retry_or_def close_upstream_def Let_def intro: receivedI receivedI(2) [OF _ sent_is_part]
              split: if_splits sum.splits attempt_end.splits prod.splits)
      qed
    qed
  qed (use assms a src in \<open>auto simp: attempt_once_def\<close>)
qed

lemma deliver_sent:
  assumes "deliver_request L req attempt wk = (fin, wk1)" and "pump_ok body (wk_body wk)" and "is_replayable (wk_body wk)"
    and "attempt \<le> MAX_DELIVERY_ATTEMPTS"
  shows "\<exists>new. wk_closed wk1 = wk_closed wk @ new \<and> wk_tx wk1 = wk_tx wk \<and>
    length new \<le> Suc MAX_DELIVERY_ATTEMPTS - attempt \<and>
    (\<forall>o1 \<in> set new. received_part (reachable_upstreams L (ur_key req) (wk_pool wk)) (ur_head req @ body) o1) \<and>
    (\<forall>s. fin = Served s \<longrightarrow> length new \<le> MAX_DELIVERY_ATTEMPTS - attempt \<and>
      received (reachable_upstreams L (ur_key req) (wk_pool wk)) (ur_head req @ body) (sv_upstream s))"
  using assms
proof (induction L req attempt wk rule: deliver_request.induct)
  case (1 L req attempt wk)
  obtain r wk2 where r: "attempt_once L req (attempt < MAX_DELIVERY_ATTEMPTS) wk = (r, wk2)"
    by (cases "attempt_once L req (attempt < MAX_DELIVERY_ATTEMPTS) wk")
  from attempt_once_sent [OF r 1(3,4)] obtain new where new: "wk_closed wk2 = wk_closed wk @ new" "wk_tx wk2 = wk_tx wk"
    "pump_ok body (wk_body wk2)"
    "reachable_upstreams L (ur_key req) (wk_pool wk2) \<subseteq> reachable_upstreams L (ur_key req) (wk_pool wk)"
    "length new \<le> 1"
    "\<forall>o1 \<in> set new. received_part (reachable_upstreams L (ur_key req) (wk_pool wk)) (ur_head req @ body) o1"
    "r = None \<longrightarrow> is_replayable (wk_body wk2)"
    "\<forall>s. r = Some (Served s) \<longrightarrow> new = [] \<and>
      received (reachable_upstreams L (ur_key req) (wk_pool wk)) (ur_head req @ body) (sv_upstream s)"
    by blast
  show ?case
  proof (cases r)
    case (Some f)
    with 1(2) r have "fin = f" "wk1 = wk2" by (simp_all add: deliver_request.simps [of L req attempt wk])
    with new Some 1(5) show ?thesis by (intro exI [of _ new]) auto
  next
    case None
    with attempt_once_retries r have less: "attempt < MAX_DELIVERY_ATTEMPTS" by blast
    from 1(2) r None have "deliver_request L req (Suc attempt) wk2 = (fin, wk1)" by (simp add: deliver_request.simps [of L req attempt wk])
    from 1(1) [OF r [symmetric] None this new(3) new(7) [rule_format, OF None]] less obtain more where
      more: "wk_closed wk1 = wk_closed wk2 @ more" "wk_tx wk1 = wk_tx wk2"
        "length more \<le> Suc MAX_DELIVERY_ATTEMPTS - Suc attempt"
        "\<forall>o1 \<in> set more. received_part (reachable_upstreams L (ur_key req) (wk_pool wk2)) (ur_head req @ body) o1"
        "\<forall>s. fin = Served s \<longrightarrow> length more \<le> MAX_DELIVERY_ATTEMPTS - Suc attempt \<and>
          received (reachable_upstreams L (ur_key req) (wk_pool wk2)) (ur_head req @ body) (sv_upstream s)"
      by auto
    with new less show ?thesis by (intro exI [of _ "new @ more"]) (auto intro: received_mono)
  qed
qed

section \<open>What the client receives\<close>

text \<open>Whatever a sink's every write keeps, a transfer keeps, however it ends.\<close>

locale sink_trace =
  fixes put :: "'w sink" and R :: "'w \<Rightarrow> 'w \<Rightarrow> bool"
  assumes R_refl: "R w w" and R_trans: "R a b \<Longrightarrow> R b c \<Longrightarrow> R a c" and put_R: "put bs w = (r, w1) \<Longrightarrow> R w w1"
begin

lemma relay_R: "relay_buffered put lb n w = (r, lb1, w1) \<Longrightarrow> R w w1"
proof (induction n arbitrary: lb w rule: less_induct)
  case (less n)
  let ?k = "min (min (length (lb_get_data lb)) n) BODY_RELAY_CHUNK_SIZE"
  show ?case
  proof (cases "n = 0 \<or> lb_get_data lb = []")
    case True
    with less.prems show ?thesis by (auto simp: relay_buffered.simps [of put lb n w] R_refl split: if_splits)
  next
    case False
    then have k: "n - ?k < n" by (auto simp: BODY_RELAY_CHUNK_SIZE_def)
    obtain r2 w2 where p: "put (take ?k (lb_get_data lb)) w = (r2, w2)" by (cases "put (take ?k (lb_get_data lb)) w")
    from less.prems False p less.IH [OF k] put_R [OF p] show ?thesis
      by (cases r2) (auto simp: relay_buffered.simps [of put lb n w] Let_def intro: R_trans)
  qed
qed

lemma pump_R: "pump put t lb src n w = (r, lb1, src1, w1) \<Longrightarrow> R w w1"
proof (induction "src_size src" arbitrary: lb src n w rule: less_induct)
  case less
  obtain m lb2 w2 where p: "relay_buffered put lb n w = (m, lb2, w2)" by (cases "relay_buffered put lb n w")
  note step = relay_R [OF p]
  show ?case
  proof (cases m)
    case (Ok k)
    show ?thesis
    proof (cases "k = 0")
      case True
      with less.prems p Ok step show ?thesis by (simp add: pump.simps [of put t lb])
    next
      case False
      then show ?thesis
      proof (cases rule: read_more_cases [of t lb2 src])
        case (1 lb3 src3)
        with less.prems p Ok False have "pump put t lb3 src3 k w2 = (r, lb1, src1, w1)"
          by (simp add: pump.simps [of put t lb])
        from less.hyps [OF read_more_decreases [OF 1] this] step show ?thesis by (rule R_trans [rotated])
      next
        case (2 e lb3 src3)
        with less.prems p Ok False step show ?thesis by (simp add: pump.simps [of put t lb])
      qed
    qed
  qed (use less.prems p step in \<open>simp_all add: pump.simps [of put t lb]\<close>)
qed

lemma chunked_R: "transfer_chunked_body f put t fuel lb src n w = Some (r, lb1, src1, w1) \<Longrightarrow> R w w1"
proof (induction fuel arbitrary: lb src n w)
  case (Suc fuel)
  obtain hd lb2 src2 where h: "read_chunk_header f t lb src = (hd, lb2, src2)" by (cases "read_chunk_header f t lb src")
  show ?case
  proof (cases hd)
    case (Ok ch)
    obtain p lb3 src3 w3 where p: "pump put t lb2 src2 (unat (chunk_total ch)) w = (p, lb3, src3, w3)"
      by (cases "pump put t lb2 src2 (unat (chunk_total ch)) w")
    from Suc.prems h Ok p pump_R [OF p] Suc.IH show ?thesis
      by (cases p) (auto simp: transfer_chunk_data_def Let_def split: if_splits intro: R_trans)
  qed (use Suc.prems h R_refl in auto)
qed simp

lemma body_R: "transfer_body f put t fuel lb src cl w = Some (r, lb1, src1, w1) \<Longrightarrow> R w w1"
proof (cases cl)
  case (Known n)
  obtain p lb3 src3 w3 where p: "pump put t lb src n w = (p, lb3, src3, w3)"
    by (cases "pump put t lb src n w")
  then show "transfer_body f put t fuel lb src cl w = Some (r, lb1, src1, w1) \<Longrightarrow> R w w1"
    using pump_R [OF p]
    by (cases p) (auto simp: transfer_body_def transfer_known_size_def Known R_refl split: if_splits)
qed (auto simp: transfer_body_def R_refl dest: chunked_R)

end

definition only_chunks :: "ResponseEvent channel \<Rightarrow> ResponseEvent channel \<Rightarrow> bool" where
  "only_chunks a b \<longleftrightarrow> tx_open b = tx_open a \<and> (\<exists>cs. tx_items b = tx_items a @ map Chunk cs)"

interpretation response_sink: sink_trace channel_sink only_chunks
proof unfold_locales
  fix a b c
  assume "only_chunks a b" "only_chunks b c"
  then obtain cs ds where "tx_open c = tx_open a" "tx_items c = tx_items a @ map Chunk (cs @ ds)"
    by (auto simp: only_chunks_def)
  then show "only_chunks a c" unfolding only_chunks_def by blast
next
  fix bs w r w1
  assume "channel_sink bs w = (r, w1)"
  then show "only_chunks w w1"
    by (auto simp: channel_sink_def only_chunks_def split: if_splits intro: exI [of _ "[]"] exI [of _ "[bs]"])
qed (auto simp: only_chunks_def intro: exI [of _ "[]"])

text \<open>A transfer that succeeds has taken a prefix of the stream and forwarded exactly that.\<close>

lemma read_chunk_header_keeps:
  "read_chunk_header f t lb src = (Ok h, lb1, src1) \<Longrightarrow> lb_ok lb \<Longrightarrow> lb_ok lb1 \<and> stream_of lb1 src1 = stream_of lb src"
proof (induction "src_size src" arbitrary: lb src rule: less_induct)
  case less
  let ?d = "lb_get_data lb"
  show ?case
  proof (cases "if length ?d > 2 then f ?d HTTP_CR_LF 0 else None")
    case None
    then show ?thesis
    proof (cases rule: read_more_cases [of t lb src])
      case (1 lb2 src2)
      with less.prems None have "read_chunk_header f t lb2 src2 = (Ok h, lb1, src1)"
        by (simp add: read_chunk_header.simps [of f t lb] Let_def)
      with less.hyps [OF read_more_decreases [OF 1] this] read_more_Ok [OF 1 less.prems(2)] show ?thesis by simp
    next
      case (2 e lb2 src2)
      with less.prems None show ?thesis by (simp add: read_chunk_header.simps [of f t lb] Let_def)
    qed
  next
    case (Some i)
    with less.prems show ?thesis by (simp add: read_chunk_header.simps [of f t lb] Let_def)
  qed
qed

context h1_writer
begin

lemma chunked_consumes:
  assumes "transfer_chunked_body f put t fuel lb src n w = Some (Ok m, lb1, src1, w1)" and "lb_ok lb"
  shows "\<exists>k. view w1 = absorb (take k (stream_of lb src)) (view w) \<and> stream_of lb1 src1 = drop k (stream_of lb src)"
  using assms
proof (induction fuel arbitrary: lb src n w)
  case (Suc fuel)
  from Suc.prems(1) obtain ch lb2 src2 lb3 src3 w3 where
    h: "read_chunk_header f t lb src = (Ok ch, lb2, src2)" and
    p: "pump put t lb2 src2 (unat (chunk_total ch)) w = (Ok (), lb3, src3, w3)" and
    rest: "if ch_chunk_size ch = 0 then lb1 = lb3 \<and> src1 = src3 \<and> w1 = w3
      else transfer_chunked_body f put t fuel lb3 src3 (n + chunk_total ch) w3 = Some (Ok m, lb1, src1, w1)"
    by (auto simp: transfer_chunk_data_def Let_def split: prod.splits outcome.splits if_splits)
  note hk = read_chunk_header_keeps [OF h Suc.prems(2)]
  then have "lb_ok lb2" by simp
  note po = pump_Ok [OF p this]
  let ?j = "unat (chunk_total ch)"
  show ?case
  proof (cases "ch_chunk_size ch = 0")
    case True
    with rest po hk show ?thesis by (intro exI [of _ ?j]) simp
  next
    case False
    with rest Suc.IH [of lb3 src3 "n + chunk_total ch" w3] po obtain k where
      k: "view w1 = absorb (take k (stream_of lb3 src3)) (view w3)" "stream_of lb1 src1 = drop k (stream_of lb3 src3)"
      by auto
    have "take (?j + k) (stream_of lb src) = take ?j (stream_of lb src) @ take k (drop ?j (stream_of lb src))"
      by (rule take_add)
    with k po hk show ?thesis by (intro exI [of _ "?j + k"]) (simp add: absorb_append add.commute)
  qed
qed simp

lemma body_consumes:
  assumes "transfer_body f put t fuel lb src cl w = Some (Ok m, lb1, src1, w1)" and "lb_ok lb"
  shows "\<exists>k. view w1 = absorb (take k (stream_of lb src)) (view w) \<and> stream_of lb1 src1 = drop k (stream_of lb src) \<and>
    (\<forall>n. cl = Known n \<longrightarrow> k = n \<and> n \<le> length (stream_of lb src))"
proof (cases cl)
  case NoBody
  with assms(1) show ?thesis by (intro exI [of _ 0]) (auto simp: transfer_body_def absorb_Nil)
next
  case (Known n)
  show ?thesis
  proof (cases "n = 0")
    case True
    with assms(1) Known show ?thesis by (intro exI [of _ 0]) (auto simp: transfer_body_def absorb_Nil)
  next
    case False
    with assms(1) Known have "pump put t lb src n w = (Ok (), lb1, src1, w1)"
      by (auto simp: transfer_body_def transfer_known_size_def split: prod.splits outcome.splits)
    from pump_Ok [OF this assms(2)] Known show ?thesis by (intro exI [of _ n]) simp
  qed
next
  case Chunked
  with assms(1) have "transfer_chunked_body f put t fuel lb src 0 w = Some (Ok m, lb1, src1, w1)"
    by (simp add: transfer_body_def)
  from chunked_consumes [OF this assms(2)] Chunked show ?thesis by auto
qed

end

text \<open>The reader of a response is left behind the head it parsed.\<close>

lemma read_headers_keeps:
  "read_headers f fb eq_ci t lb src = (Some (Ok h), lb1, src1) \<Longrightarrow> lb_ok lb \<Longrightarrow>
   lb_ok lb1 \<and> stream_of lb1 src1 = stream_of lb src \<and> parse_head f fb eq_ci (lb_get_data lb1) = Some (Ok (Some h))"
proof (induction "src_size src" arbitrary: lb src rule: less_induct)
  case less
  let ?d = "lb_get_data lb"
  define parsed where "parsed = (if ?d \<noteq> [] then parse_head f fb eq_ci ?d else Some (Ok None))"
  show ?case
  proof (cases "parsed = Some (Ok None)")
    case True
    show ?thesis
    proof (cases rule: read_more_cases [of t lb src])
      case (1 lb2 src2)
      with less.prems True have "read_headers f fb eq_ci t lb2 src2 = (Some (Ok h), lb1, src1)"
        by (simp add: read_headers.simps [of f fb eq_ci t lb] parsed_def [symmetric] Let_def)
      with less.hyps [OF read_more_decreases [OF 1] this] read_more_Ok [OF 1 less.prems(2)] show ?thesis by simp
    next
      case (2 e lb2 src2)
      with less.prems True show ?thesis
        by (simp add: read_headers.simps [of f fb eq_ci t lb] parsed_def [symmetric] Let_def)
    qed
  next
    case False
    with less.prems have "parsed = Some (Ok (Some h))" "lb1 = lb" "src1 = src"
      by (auto simp: read_headers.simps [of f fb eq_ci t lb] parsed_def [symmetric] Let_def
          split: option.splits outcome.splits)
    with less.prems(2) show ?thesis by (auto simp: parsed_def split: if_splits)
  qed
qed

lemma header_loop_end:
  assumes "find_seq_ok f" and "header_loop f fb eq_ci fuel src pos acc = Some (Ok (Some h))"
  shows "h1_end h \<le> length src"
  using assms(2)
proof (induction fuel arbitrary: pos acc)
  case (Suc fuel)
  have "i + 2 \<le> length src" if "f src HTTP_CR_LF pos = Some i" for i
    using find_seq_bound [OF assms(1) _ that] by (simp add: HTTP_CR_LF_def)
  with Suc show ?case
    by (auto simp: HTTP_CR_LF_def split: option.splits outcome.splits if_splits)
qed simp

lemma parse_head_end:
  "find_seq_ok f \<Longrightarrow> parse_head f fb eq_ci src = Some (Ok (Some h)) \<Longrightarrow> h1_end h \<le> length src"
  by (auto simp: parse_head_def simp del: header_loop.simps dest: header_loop_end split: option.splits outcome.splits)

lemma compile_headers_commit:
  "compile_headers f fb tokens env h kind cn identity mcp ho lb = Some (Ok (out, ws, lb1)) \<Longrightarrow> lb1 = commit_read (h1_end h) lb"
  by (auto simp: compile_headers_def Let_def split: option.splits outcome.splits prod.splits)

lemma served_buffer:
  assumes "read_response_head L req o1 = Inr (Served s, o2)" and "find_seq_ok (wl_find_seq L)"
  shows "lb_ok (sv_buffer s) \<and> (\<exists>k. stream_of (sv_buffer s) (sv_src s) = drop k (pending (ou_read o1)))"
proof -
  let ?empty = "new_loop_buffer (wl_memory L)"
  have lb0: "lb_ok ?empty" "lb_get_data ?empty = []" by (simp_all add: new_loop_buffer_def lb_ok_def lb_get_data_def)
  from assms(1) obtain h lb src out ws lb1 where
    r: "read_headers (wl_find_seq L) (wl_find_byte L) (wl_eq_ci L) (response_timeout req) ?empty (ou_read o1) =
      (Some (Ok h), lb, src)" and
    c: "compile_headers (wl_find_seq L) (wl_find_byte L) (wl_tokens L) (wl_env L) h (ResponseHeaders (ur_rules req))
      (ur_connection req) None None None lb = Some (Ok (out, ws, lb1))" and
    s: "sv_buffer s = lb1" "sv_src s = src"
    by (auto simp: read_response_head_def split: prod.splits option.splits outcome.splits)
  note k = read_headers_keeps [OF r lb0(1)]
  then have e: "h1_end h \<le> length (lb_get_data lb)" using parse_head_end [OF assms(2)] by blast
  from k have "lb_ok lb" by simp
  note ck = commit_keeps [OF this e]
  have "stream_of (commit_read (h1_end h) lb) src = drop (h1_end h) (stream_of lb src)"
    using ck e by (simp add: stream_of_def)
  also have "stream_of lb src = pending (ou_read o1)" using k lb0(2) by (simp add: stream_of_def)
  finally have "stream_of lb1 src = drop (h1_end h) (pending (ou_read o1))"
    unfolding compile_headers_commit [OF c] .
  with ck s compile_headers_commit [OF c] show ?thesis by auto
qed

lemma attempt_once_served:
  assumes "attempt_once L req retries wk = (Some (Served s), wk1)" and "find_seq_ok (wl_find_seq L)"
  shows "lb_ok (sv_buffer s)"
proof -
  from assms(1) obtain o1 o2 where "read_response_head L req o1 = Inr (Served s, o2)"
    by (auto simp: attempt_once_def retry_or_def Let_def
        split: prod.splits outcome.splits bool.splits sum.splits attempt_end.splits if_splits)
  from served_buffer [OF this assms(2)] show ?thesis ..
qed

lemma deliver_served:
  "deliver_request L req attempt wk = (Served s, wk1) \<Longrightarrow> find_seq_ok (wl_find_seq L) \<Longrightarrow> lb_ok (sv_buffer s)"
proof (induction L req attempt wk rule: deliver_request.induct)
  case (1 L req attempt wk)
  then show ?case
    by (subst (asm) deliver_request.simps)
      (auto split: prod.splits option.splits dest: attempt_once_served)
qed

text \<open>Idle connections stay within the capacity of their key, and none of them is known to be dead.\<close>

definition pool_ok :: "H1PoolHolder \<Rightarrow> bool" where
  "pool_ok pool \<longleftrightarrow>
     (\<forall>key. length (ph_pools pool key) \<le> ph_max_idle_per_key pool \<and>
            list_all (\<lambda>o1. \<not> ou_disconnected o1) (ph_pools pool key))"

lemma acquire_pool_ok:
  assumes "acquire connect key pool dialled = (r, pool1, dialled1)" and "pool_ok pool"
  shows "pool_ok pool1"
proof -
  obtain c rest where p: "pop_live (rev (ph_pools pool key)) = (c, rest)" by (cases "pop_live (rev (ph_pools pool key))")
  from pop_live_subset [OF p] assms(2) have "length rest \<le> ph_max_idle_per_key pool"
    "list_all (\<lambda>o1. \<not> ou_disconnected o1) rest"
    by (auto simp: pool_ok_def list_all_iff intro: order_trans)
  with assms p show ?thesis by (cases c) (auto simp: acquire_def pool_ok_def list_all_iff split: if_splits)
qed

lemma release_pool_ok: "pool_ok pool \<Longrightarrow> pool_ok (release key o1 pool)"
  by (auto simp: release_def pool_ok_def)

lemma deliver_pool_ok:
  "deliver_request L req attempt wk = (fin, wk1) \<Longrightarrow> pool_ok (wk_pool wk) \<Longrightarrow> pool_ok (wk_pool wk1)"
proof (induction L req attempt wk rule: deliver_request.induct)
  case (1 L req attempt wk)
  obtain r wk2 where r: "attempt_once L req (attempt < MAX_DELIVERY_ATTEMPTS) wk = (r, wk2)"
    by (cases "attempt_once L req (attempt < MAX_DELIVERY_ATTEMPTS) wk")
  then have "pool_ok (wk_pool wk2)"
    using acquire_pool_ok [OF _ 1(3)]
    by (fastforce simp: attempt_once_def retry_or_def close_upstream_def Let_def
        split: prod.splits outcome.splits bool.splits sum.splits attempt_end.splits if_splits)
  with 1 r show ?case by (subst (asm) (2) deliver_request.simps) (auto split: option.splits)
qed

text \<open>The events of a slot: chunks, and at most one end.\<close>

definition slot_events :: "ResponseEvent channel \<Rightarrow> bytes list \<Rightarrow> ResponseEvent list \<Rightarrow> bool" where
  "slot_events tx cs e \<longleftrightarrow> tx_items tx = map Chunk cs @ e \<and> e \<in> {[], [Done], [Abort]}"

lemma sink_bytes_chunks [simp]: "sink_bytes (map Chunk cs) = concat cs"
  by (simp add: sink_bytes_def comp_def)

lemma fail_request_events:
  assumes "fail_request is_mcp page body \<lparr>tx_items = [], tx_open = True\<rparr> = (body1, tx1)"
  shows "\<exists>cs e. slot_events tx1 cs e \<and> (e = [Done] \<longrightarrow> cs = [page])"
proof -
  obtain b body2 where "discard_rest body = (b, body2)" by (cases "discard_rest body")
  with assms have "tx_items tx1 = (if is_mcp then [Abort] else [Chunk page, if b then Done else Abort])"
    by (auto simp: fail_request_def send_event_def)
  then show ?thesis
    by (cases is_mcp; cases b)
      (auto simp: slot_events_def intro: exI [of _ "[]"] exI [of _ "[page]"] exI [of _ "[Abort]"] exI [of _ "[Done]"])
qed

lemma respond_events:
  assumes "respond L fuel req s wk = Some wk1" and "wk_tx wk = \<lparr>tx_items = [], tx_open = True\<rparr>" and "lb_ok (sv_buffer s)"
  shows "\<exists>cs e. slot_events (wk_tx wk1) cs e \<and>
    (e = [Done] \<longrightarrow> (\<exists>k. concat cs = sv_head s @ take k (stream_of (sv_buffer s) (sv_src s)) \<and>
      (\<forall>n. sv_content_length s = Known n \<longrightarrow> k = n \<and> n \<le> length (stream_of (sv_buffer s) (sv_src s)))))"
proof (cases "sv_is_websocket s")
  case True
  with assms have "slot_events (wk_tx wk1) [sv_head s] [Abort]"
    by (auto simp: respond_def send_event_def close_upstream_def slot_events_def Let_def)
  then show ?thesis by (intro exI [of _ "[sv_head s]"] exI [of _ "[Abort]"]) simp
next
  case False
  let ?tx = "\<lparr>tx_items = [Chunk (sv_head s)], tx_open = True\<rparr>"
  from False assms(1,2) obtain r lb src tx1 where
    t: "transfer_body (wl_find_seq L) channel_sink (response_timeout req) fuel (sv_buffer s) (sv_src s)
          (sv_content_length s) ?tx = Some (r, lb, src, tx1)"
    by (auto simp: respond_def send_event_def Let_def split: option.splits)
  from response_sink.body_R [OF t] obtain cs where cs: "tx_open tx1" "tx_items tx1 = map Chunk (sv_head s # cs)"
    by (auto simp: only_chunks_def)
  show ?thesis
  proof (cases r)
    case (Ok n)
    from channel.body_consumes [OF t [unfolded Ok] assms(3)] obtain k where
      "sink_bytes (tx_items tx1) = sv_head s @ take k (stream_of (sv_buffer s) (sv_src s))"
      "\<forall>n. sv_content_length s = Known n \<longrightarrow> k = n \<and> n \<le> length (stream_of (sv_buffer s) (sv_src s))"
      by (auto simp: sink_bytes_def [of "[_]"])
    moreover have "slot_events (wk_tx wk1) (sv_head s # cs) [Done]"
      using assms(1,2) False t Ok cs
      by (auto simp: respond_def send_event_def close_upstream_def slot_events_def Let_def split: if_splits)
    ultimately show ?thesis
      using cs by (intro exI [of _ "sv_head s # cs"] exI [of _ "[Done]"]) (auto simp del: list.map)
  next
    case (Err e)
    have "slot_events (wk_tx wk1) (sv_head s # cs) [Abort]"
      using assms(1,2) False t Err cs
      by (auto simp: respond_def send_event_def close_upstream_def slot_events_def Let_def)
    then show ?thesis by (intro exI [of _ "sv_head s # cs"] exI [of _ "[Abort]"]) simp
  next
    case Panic
    have "slot_events (wk_tx wk1) (sv_head s # cs) []"
      using assms(1,2) False t Panic cs
      by (auto simp: respond_def send_event_def close_upstream_def slot_events_def Let_def)
    then show ?thesis by (intro exI [of _ "sv_head s # cs"] exI [of _ "[]"]) simp
  qed
qed

lemma respond_pool_ok: "respond L fuel req s wk = Some wk1 \<Longrightarrow> pool_ok (wk_pool wk) \<Longrightarrow> pool_ok (wk_pool wk1)"
  by (auto simp: respond_def close_upstream_def Let_def release_pool_ok
      split: prod.splits bool.splits option.splits outcome.splits if_splits)

lemma new_pump_ok: "pump_ok (concat chunks) (new_body_pump chunks)" "is_replayable (new_body_pump chunks)"
  by (auto simp: pump_ok_def new_body_pump_def is_replayable_def)

text \<open>A response that arrives whole is read as its lines say.\<close>

lemma read_headers_one_arrival:
  assumes "bs \<noteq> []" and "length bs \<le> length (take BUFFER_CAPACITY memory)"
    and "parse_head f fb eq_ci bs = Some (Ok (Some h))"
  shows "\<exists>lb. read_headers f fb eq_ci t (new_loop_buffer memory) [Arrive bs] = (Some (Ok h), lb, []) \<and>
    lb_ok lb \<and> lb_get_data lb = bs"
proof -
  let ?empty = "new_loop_buffer memory"
  let ?lb = "advance (length bs) (fill bs ?empty)"
  have lb0: "lb_ok ?empty" "lb_get_data ?empty = []" "lb_to ?empty = 0" "lb_data ?empty = take BUFFER_CAPACITY memory"
    by (simp_all add: new_loop_buffer_def lb_ok_def lb_get_data_def)
  have "lb_data ?empty \<noteq> []" using assms(1,2) lb0(4) by (auto simp: BUFFER_CAPACITY_def)
  moreover from this have "get_mut ?empty = (Some (length (lb_data ?empty)), ?empty)"
    by (simp add: get_mut_def gc_def new_loop_buffer_def Let_def)
  ultimately have rm: "read_more t ?empty [Arrive bs] = (Ok (), ?lb, [])"
    using assms(1,2) lb0(4) by (simp add: read_more_def read_with_timeout_def)
  have d: "lb_get_data ?lb = bs" "lb_ok ?lb"
    using fill_advance [OF lb0(1), of bs] lb0 assms(2) by simp_all
  have "read_headers f fb eq_ci t ?empty [Arrive bs] = read_headers f fb eq_ci t ?lb []"
    using lb0(2) rm by (simp add: read_headers.simps [of f fb eq_ci t ?empty])
  also have "\<dots> = (Some (Ok h), ?lb, [])"
    using d assms(1,3) by (simp add: read_headers.simps [of f fb eq_ci t ?lb])
  finally show ?thesis using d by blast
qed

lemma read_response_lines:
  assumes "find_seq_ok (wl_find_seq L)" and "find_byte_ok (wl_find_byte L)" and "list_all line_ok ls"
    and "13 \<notin> set fl" and "verify_http11_first_line fl = Ok ()"
    and "framing (wl_eq_ci L) ls NoBody = Some cl" and "last_value (as_bytes ''upgrade'') ls None = None"
    and "mc_add_headers (er_modify_response (ur_rules req)) = []"
    and "ou_read o1 = [Arrive (fl @ HTTP_CR_LF @ concat (map line_wire ls) @ HTTP_CR_LF @ body)]"
    and "length (fl @ HTTP_CR_LF @ concat (map line_wire ls) @ HTTP_CR_LF @ body) \<le> length (take BUFFER_CAPACITY (wl_memory L))"
  shows "\<exists>s. read_response_head L req o1 = Inr (Served s, o1) \<and> sv_content_length s = cl \<and> sv_upstream s = o1 \<and>
    \<not> sv_is_websocket s \<and> stream_of (sv_buffer s) (sv_src s) = body"
proof -
  let ?src = "fl @ HTTP_CR_LF @ concat (map line_wire ls) @ HTTP_CR_LF @ body"
  have src: "?src = ?src" ..
  from parse_lines_Some [OF assms(1-5) src assms(6)] obtain h where
    h: "parse_head (wl_find_seq L) (wl_find_byte L) (wl_eq_ci L) ?src = Some (Ok (Some h))" "h1_content_length h = cl"
      "h1_first_line_end h = length fl" "h1_end h = length (fl @ HTTP_CR_LF @ concat (map line_wire ls) @ HTTP_CR_LF)"
      "at_position ?src (h1_upgrade_value h) = last_value (as_bytes ''upgrade'') ls None"
    by blast
  then have ws: "web_socket_upgrade ?src h = Ok False"
    using assms(7) by (auto simp: at_position_def web_socket_upgrade_def)
  have "?src \<noteq> []" by (simp add: HTTP_CR_LF_def)
  from read_headers_one_arrival [OF this assms(10) h(1)] obtain lb where
    r: "read_headers (wl_find_seq L) (wl_find_byte L) (wl_eq_ci L) (response_timeout req) (new_loop_buffer (wl_memory L)) (ou_read o1) =
      (Some (Ok h), lb, [])" "lb_ok lb" "lb_get_data lb = ?src"
    unfolding assms(9) by blast
  have "\<exists>out. compile_headers (wl_find_seq L) (wl_find_byte L) (wl_tokens L) (wl_env L) h (ResponseHeaders (ur_rules req))
      (ur_connection req) None None None lb = Some (Ok (out, False, commit_read (h1_end h) lb))"
    by (rule exI, rule compile_headers_lines [OF assms(1-3) r(3) h(3), where pv = "\<lambda>v. v"])
      (use ws r(3) assms(8) in \<open>simp_all add: kind_rules_def\<close>)
  moreover have "lb_get_data (commit_read (h1_end h) lb) = body"
    using commit_keeps [OF r(2), of "h1_end h"] r(3) h(4) by simp
  ultimately show ?thesis
    using r(1) h(2) by (auto simp: read_response_head_def stream_of_def)
qed

definition test_response :: bytes where
  "test_response = as_bytes ''HTTP/1.1 200 OK'' @ HTTP_CR_LF @
     concat (map line_wire [(as_bytes ''Content-Length'', as_bytes '' 2'')]) @ HTTP_CR_LF @ [104, 105]"

definition test_upstream :: "write_attempt list \<Rightarrow> u64 \<Rightarrow> OwnedUpstream" where
  "test_upstream ahead n = \<lparr>ou_id = n, ou_write = \<lparr>wh_wire = [], wh_shut = False, wh_ahead = ahead\<rparr>,
     ou_read = [Arrive test_response], ou_disconnected = False\<rparr>"

text \<open>The first dial gives a peer that stalls after the head, later dials a working one.\<close>

definition test_libs :: worker_libs where
  "test_libs = \<lparr>wl_find_seq = find_ref, wl_find_byte = find_byte_ref, wl_eq_ci = eq_ci_ref, wl_tokens = (\<lambda>_. []),
     wl_env = (\<lambda>_. None), wl_page = (\<lambda>_. [1]),
     wl_connect = (\<lambda>n. Ok (if n = 0 then test_upstream [WriteStalls 9] 0 else test_upstream [] 1)),
     wl_memory = replicate 60 0\<rparr>"

definition test_request :: UpstreamRequest where
  "test_request = \<lparr>ur_key = [7], ur_is_mcp = False, ur_rules = plain_rules, ur_connection = plain_client,
     ur_head = [1, 2], ur_read_timeout = 5, ur_write_timeout = 6\<rparr>"

definition test_worker :: "bytes list \<Rightarrow> worker" where
  "test_worker chunks = \<lparr>wk_pool = new_local, wk_dialled = 0, wk_body = new_body_pump chunks,
     wk_tx = \<lparr>tx_items = [], tx_open = True\<rparr>, wk_closed = [], wk_c2s = 0, wk_s2c = 0\<rparr>"

lemma ok_line: "13 \<notin> set (as_bytes ''HTTP/1.1 200 OK'')" "verify_http11_first_line (as_bytes ''HTTP/1.1 200 OK'') = Ok ()"
  by (simp_all add: verify_http11_first_line_def split_literal as_bytes_def is_whitespace_def
      is_valid_status_code_def is_digit_def parse_unsigned_def dec_value_def)

lemma test_read:
  assumes "ou_read o1 = [Arrive test_response]"
  obtains s where "read_response_head test_libs test_request o1 = Inr (Served s, o1)" "sv_content_length s = Known 2"
    "sv_upstream s = o1" "\<not> sv_is_websocket s" "stream_of (sv_buffer s) (sv_src s) = [104, 105]"
proof -
  let ?ls = "[(as_bytes ''Content-Length'', as_bytes '' 2'')]"
  have l: "list_all line_ok ?ls" "framing eq_ci_ref ?ls NoBody = Some (Known 2)"
    "last_value (as_bytes ''upgrade'') ?ls None = None"
    using length_value_digits [of "[50]"] by (simp_all add: line_ok_def literal_names is_digit_def dec_value_def)
  have len: "length test_response \<le> length (take BUFFER_CAPACITY (wl_memory test_libs))"
    by (simp add: test_response_def test_libs_def line_wire_def HTTP_CR_LF_def BUFFER_CAPACITY_def)
  have "\<exists>s. read_response_head test_libs test_request o1 = Inr (Served s, o1) \<and> sv_content_length s = Known 2 \<and>
    sv_upstream s = o1 \<and> \<not> sv_is_websocket s \<and> stream_of (sv_buffer s) (sv_src s) = [104, 105]"
    by (rule read_response_lines [OF _ _ l(1) ok_line _ l(3) _ _ len [unfolded test_response_def]])
      (use assms l in \<open>simp_all add: test_libs_def find_ref_ok find_byte_ref_ok test_request_def plain_rules_def
        default_modify_headers_def test_response_def\<close>)
  with that show thesis by blast
qed

lemma stalled_write_raw:
  assumes "ph_pools (wk_pool wk) (ur_key req) = []"
    and "wl_connect L (wk_dialled wk) = Ok o1" and "\<not> ou_disconnected o1"
    and "wh_ahead (ou_write o1) = WriteStalls k # ahead" and "length (ur_head req) \<le> k"
    and "wl_connect L (Suc (wk_dialled wk)) = Ok o2" and "\<not> ou_disconnected o2" and "healthy (ou_write o2)"
    and "wk_body wk = new_body_pump []" and "ur_head req \<noteq> []" and "wk_closed wk = []"
    and "read_response_head L req
      (o2\<lparr>ou_write := (ou_write o2)\<lparr>wh_wire := wh_wire (ou_write o2) @ ur_head req, wh_ahead := tl (wh_ahead (ou_write o2))\<rparr>\<rparr>) =
      Inr (Served s, o3)"
  shows "\<exists>wk1 c. deliver_request L req 1 wk = (Served s, wk1) \<and> wk_closed wk1 = [c] \<and>
    sent o1 (ur_head req) c \<and> sent o2 (ur_head req) (sv_upstream s)"
proof -
  let ?w = "\<lambda>o1. o1\<lparr>ou_write := (ou_write o1)\<lparr>wh_wire := wh_wire (ou_write o1) @ ur_head req,
      wh_ahead := tl (wh_ahead (ou_write o1))\<rparr>\<rparr>"
  have h1: "send_head_bytes (ur_head req) (ur_write_timeout req) o1 = (False, ?w o1)"
    using assms(3-5) by (simp add: send_head_bytes_def upstream_sink_def write_all_with_timeout_def)
  have h2: "send_head_bytes (ur_head req) (ur_write_timeout req) o2 = (True, ?w o2)"
    using assms(7,8)
    by (cases "wh_ahead (ou_write o2)")
      (simp_all add: send_head_bytes_def upstream_sink_def write_all_with_timeout_def healthy_def)
  define wk1 where "wk1 = close_upstream (?w o1) (wk\<lparr>wk_pool := (wk_pool wk)\<lparr>ph_pools := (ph_pools (wk_pool wk))(ur_key req := [])\<rparr>,
    wk_dialled := Suc (wk_dialled wk)\<rparr>)"
  have a1: "attempt_once L req True wk = (None, wk1)"
    using assms(1,2,9) h1
    by (simp add: attempt_once_def acquire_def retry_or_def is_replayable_def new_body_pump_def wk1_def Let_def)
  have sb: "send_body t (new_body_pump []) o4 = (True, (new_body_pump [])\<lparr>rb_completed := True\<rparr>, o4)" for t o4
    by (simp add: send_body_def resend_def new_body_pump_def stream_body.simps)
  have up: "sv_upstream s = ?w o2"
    using assms(12) by (auto simp: read_response_head_def split: prod.splits option.splits outcome.splits)
  obtain wk2 where a2: "attempt_once L req False wk1 = (Some (Served s), wk2)" "wk_closed wk2 = [?w o1]"
    using assms(6,9,11,12) h2
    by (simp add: attempt_once_def acquire_def wk1_def close_upstream_def sb Let_def)
  have "deliver_request L req 1 wk = (Served s, wk2)"
    using a1 a2(1) by (simp add: deliver_request.simps MAX_DELIVERY_ATTEMPTS_def)
  with a2(2) up show ?thesis by (auto simp: sent_def)
qed


lemma test_runs: "run_upstream_request test_libs 3 test_request (test_worker []) \<noteq> None"
proof -
  let ?o1 = "test_upstream [WriteStalls 9] 0" and ?o2 = "test_upstream [] 1"
  let ?o3 = "?o2\<lparr>ou_write := (ou_write ?o2)\<lparr>
      wh_wire := wh_wire (ou_write ?o2) @ ur_head test_request, wh_ahead := tl (wh_ahead (ou_write ?o2))\<rparr>\<rparr>"
  have "ou_read ?o3 = [Arrive test_response]" by (simp add: test_upstream_def)
  from test_read [OF this] obtain s where s: "read_response_head test_libs test_request ?o3 = Inr (Served s, ?o3)"
    "sv_content_length s = Known 2" "\<not> sv_is_websocket s" by blast
  have "ph_pools (wk_pool (test_worker [])) (ur_key test_request) = []"
    "wl_connect test_libs (wk_dialled (test_worker [])) = Ok ?o1" "\<not> ou_disconnected ?o1"
    "wh_ahead (ou_write ?o1) = WriteStalls 9 # []" "length (ur_head test_request) \<le> 9"
    "wl_connect test_libs (Suc (wk_dialled (test_worker []))) = Ok ?o2" "\<not> ou_disconnected ?o2" "healthy (ou_write ?o2)"
    "wk_body (test_worker []) = new_body_pump []" "ur_head test_request \<noteq> []" "wk_closed (test_worker []) = []"
    by (simp_all add: test_worker_def test_libs_def test_request_def test_upstream_def new_local_def healthy_def)
  from stalled_write_raw [OF this s(1)] obtain wk1 where d: "deliver_request test_libs test_request 1 (test_worker []) = (Served s, wk1)"
    by blast
  have "transfer_body f put t fuel lb src (Known 2) tx \<noteq> None" for f and put :: "ResponseEvent channel sink" and t fuel lb src tx
    by (auto simp: transfer_body_def split: prod.splits outcome.splits)
  note body = this [of "wl_find_seq test_libs" channel_sink "response_timeout test_request" 3 "sv_buffer s" "sv_src s"]
  from d s(2,3) show ?thesis
    by (auto simp: run_upstream_request_def respond_def Let_def dest: notE [OF body]
        split: prod.splits bool.splits option.splits outcome.splits)
qed

section \<open>Properties\<close>

text \<open>
  C10. Delivery and replay: for a request whose body the reader delivers in \<open>chunks\<close>, at most two
  connections are used and each came from the pool or a dial; every connection that was given up
  had received a prefix of head and body, the one whose response is served received exactly head
  and body once, whatever part of the body had already gone to an earlier connection; and the
  client has been sent nothing by then.
\<close>

theorem request_delivered_exactly:
  assumes "deliver_request L req 1 wk = (fin, wk1)" and "wk_body wk = new_body_pump chunks" and "wk_closed wk = []"
  shows "wk_tx wk1 = wk_tx wk \<and>
    length (wk_closed wk1) \<le> (case fin of Served _ \<Rightarrow> 1 | _ \<Rightarrow> 2) \<and>
    (\<forall>o1 \<in> set (wk_closed wk1).
      received_part (reachable_upstreams L (ur_key req) (wk_pool wk)) (ur_head req @ concat chunks) o1) \<and>
    (\<forall>s. fin = Served s \<longrightarrow>
      received (reachable_upstreams L (ur_key req) (wk_pool wk)) (ur_head req @ concat chunks) (sv_upstream s))"
  using deliver_sent [OF assms(1), of "concat chunks"] new_pump_ok [of chunks] assms(2,3)
  by (auto simp: MAX_DELIVERY_ATTEMPTS_def split: attempt_end.split)

theorem request_delivered_exactly_witness:
  "wk_tx (snd (deliver_request test_libs test_request 1 (test_worker [[3], [4]]))) = \<lparr>tx_items = [], tx_open = True\<rparr> \<and>
   length (wk_closed (snd (deliver_request test_libs test_request 1 (test_worker [[3], [4]])))) \<le> 2 \<and>
   list_all (received_part (reachable_upstreams test_libs [7] new_local) [1, 2, 3, 4])
     (wk_closed (snd (deliver_request test_libs test_request 1 (test_worker [[3], [4]]))))"
proof -
  obtain fin wk1 where d: "deliver_request test_libs test_request 1 (test_worker [[3], [4]]) = (fin, wk1)"
    by (cases "deliver_request test_libs test_request 1 (test_worker [[3], [4]])")
  have w: "wk_body (test_worker [[3], [4]]) = new_body_pump [[3], [4]]" "wk_closed (test_worker [[3], [4]]) = []"
    by (simp_all add: test_worker_def)
  from request_delivered_exactly [OF d w] show ?thesis
    unfolding d snd_conv by (auto simp: test_worker_def test_request_def list_all_iff split: attempt_end.splits)
qed



text \<open>
  A write that fails is replayed whatever connection it failed on and however it failed: with
  no idle connection, a freshly dialled one whose peer accepts all of the head and then stalls
  runs into the write timeout, and the same head goes to a second freshly dialled connection. So
  a time-out can be replayed, and so can a failure of a fresh connection.
\<close>

theorem stalled_write_is_replayed:
  assumes "ph_pools (wk_pool wk) (ur_key req) = []"
    and "wl_connect L (wk_dialled wk) = Ok o1" and "\<not> ou_disconnected o1"
    and "wh_ahead (ou_write o1) = WriteStalls k # ahead" and "length (ur_head req) \<le> k"
    and "wl_connect L (Suc (wk_dialled wk)) = Ok o2" and "\<not> ou_disconnected o2" and "healthy (ou_write o2)"
    and "wk_body wk = new_body_pump []" and "ur_head req \<noteq> []" and "wk_closed wk = []"
    and "read_response_head L req
      (o2\<lparr>ou_write := (ou_write o2)\<lparr>wh_wire := wh_wire (ou_write o2) @ ur_head req, wh_ahead := tl (wh_ahead (ou_write o2))\<rparr>\<rparr>) =
      Inr (Served s, o3)"
  shows "\<exists>wk1 c. deliver_request L req 1 wk = (Served s, wk1) \<and> wk_closed wk1 = [c] \<and>
    sent o1 (ur_head req) c \<and> sent o2 (ur_head req) (sv_upstream s)"
  using assms by (rule stalled_write_raw)

theorem stalled_write_is_replayed_witness:
  "\<exists>s wk1 c. deliver_request test_libs test_request 1 (test_worker []) = (Served s, wk1) \<and> wk_closed wk1 = [c] \<and>
    sent (test_upstream [WriteStalls 9] 0) [1, 2] c \<and> sent (test_upstream [] 1) [1, 2] (sv_upstream s)"
proof -
  let ?o1 = "test_upstream [WriteStalls 9] 0" and ?o2 = "test_upstream [] 1"
  obtain s where s: "read_response_head test_libs test_request (?o2\<lparr>ou_write := (ou_write ?o2)\<lparr>
      wh_wire := wh_wire (ou_write ?o2) @ ur_head test_request, wh_ahead := tl (wh_ahead (ou_write ?o2))\<rparr>\<rparr>) =
      Inr (Served s, ?o2\<lparr>ou_write := (ou_write ?o2)\<lparr>
      wh_wire := wh_wire (ou_write ?o2) @ ur_head test_request, wh_ahead := tl (wh_ahead (ou_write ?o2))\<rparr>\<rparr>)"
    by (rule test_read [of "?o2\<lparr>ou_write := (ou_write ?o2)\<lparr>
      wh_wire := wh_wire (ou_write ?o2) @ ur_head test_request, wh_ahead := tl (wh_ahead (ou_write ?o2))\<rparr>\<rparr>"])
      (simp_all add: test_upstream_def)
  have "ph_pools (wk_pool (test_worker [])) (ur_key test_request) = []"
    "wl_connect test_libs (wk_dialled (test_worker [])) = Ok ?o1" "\<not> ou_disconnected ?o1"
    "wh_ahead (ou_write ?o1) = WriteStalls 9 # []" "length (ur_head test_request) \<le> 9"
    "wl_connect test_libs (Suc (wk_dialled (test_worker []))) = Ok ?o2" "\<not> ou_disconnected ?o2" "healthy (ou_write ?o2)"
    "wk_body (test_worker []) = new_body_pump []" "ur_head test_request \<noteq> []" "wk_closed (test_worker []) = []"
    by (simp_all add: test_worker_def test_libs_def test_request_def test_upstream_def new_local_def healthy_def)
  from stalled_write_is_replayed [OF this s] show ?thesis by (auto simp: test_request_def)
qed

end
