(* ===== verification/OAuth_Text.thy ===== *)
theory OAuth_Text
  imports H1_Head
begin

text \<open>
  The text functions of the OAuth server (\<open>src/src/oauth\<close>): form encoding (\<open>form.rs\<close>), the
  endpoint's own origin (\<open>base_url.rs\<close>), redirect addresses (\<open>redirect_uri.rs\<close>), routes
  (\<open>oauth_route.rs\<close>), comparison of secrets (\<open>secrets.rs\<close>), \<open>hmac_sha256.rs\<close> and \<open>pkce.rs\<close>. A
  \<open>&str\<close> is its UTF-8 bytes; indexing one with a range panics off a character boundary, and
  \<open>str::get\<close> returns \<open>None\<close> there. SHA-256 is an argument. The lemmas say that the constant time
  comparison is equality, that percent encoding is undone by form decoding, that escaped HTML
  holds no markup, and what the routes and redirect rules accept.
\<close>

section \<open>Strings of the standard library\<close>

definition is_char_boundary :: "bytes \<Rightarrow> nat \<Rightarrow> bool" where
  "is_char_boundary s i \<longleftrightarrow> i = 0 \<or> i = length s \<or> i < length s \<and> \<not> cont (s ! i)"

definition str_to :: "bytes \<Rightarrow> nat \<Rightarrow> bytes panics" where
  "str_to s i = (if is_char_boundary s i then Ok (take i s) else Panic)"

definition str_from :: "bytes \<Rightarrow> nat \<Rightarrow> bytes panics" where
  "str_from s i = (if is_char_boundary s i then Ok (drop i s) else Panic)"

definition str_get_to :: "bytes \<Rightarrow> nat \<Rightarrow> bytes option" where
  "str_get_to s i = (if is_char_boundary s i then Some (take i s) else None)"

definition starts_with :: "bytes \<Rightarrow> bytes \<Rightarrow> bool" where
  "starts_with s p \<longleftrightarrow> take (length p) s = p"

definition strip_prefix :: "bytes \<Rightarrow> bytes \<Rightarrow> bytes option" where
  "strip_prefix s p = (if starts_with s p then Some (drop (length p) s) else None)"

definition ends_with_byte :: "bytes \<Rightarrow> u8 \<Rightarrow> bool" where
  "ends_with_byte s b \<longleftrightarrow> s \<noteq> [] \<and> last s = b"

definition trim_end_byte :: "u8 \<Rightarrow> bytes \<Rightarrow> bytes" where
  "trim_end_byte b s = rev (dropWhile (\<lambda>c. c = b) (rev s))"

fun split_once :: "u8 \<Rightarrow> bytes \<Rightarrow> (bytes \<times> bytes) option" where
  "split_once b [] = None"
| "split_once b (c # cs) =
     (if c = b then Some ([], cs) else map_option (\<lambda>(l, r). (c # l, r)) (split_once b cs))"

definition rsplit_once :: "u8 \<Rightarrow> bytes \<Rightarrow> (bytes \<times> bytes) option" where
  "rsplit_once b s = map_option (\<lambda>(r, l). (rev l, rev r)) (split_once b (rev s))"

definition eq_no_case :: "bytes \<Rightarrow> bytes \<Rightarrow> bool" where
  "eq_no_case a b \<longleftrightarrow> lname a = lname b"

text \<open>\<open>String::from_utf8_lossy\<close>: every maximal ill-formed piece becomes U+FFFD.\<close>

definition REPLACEMENT :: bytes where "REPLACEMENT = [0xEF, 0xBF, 0xBD]"

fun from_utf8_lossy :: "bytes \<Rightarrow> bytes" where
  "from_utf8_lossy [] = []"
| "from_utf8_lossy (b # bs) =
     (if b < 0x80 then b # from_utf8_lossy bs
      else if 0xC2 \<le> b \<and> b \<le> 0xDF then
        (case bs of
           c # r \<Rightarrow> if cont c then b # c # from_utf8_lossy r else REPLACEMENT @ from_utf8_lossy bs
         | [] \<Rightarrow> REPLACEMENT)
      else if 0xE0 \<le> b \<and> b \<le> 0xEF then
        (case bs of
           c # r \<Rightarrow>
             if cont c \<and> (b = 0xE0 \<longrightarrow> 0xA0 \<le> c) \<and> (b = 0xED \<longrightarrow> c \<le> 0x9F) then
               (case r of
                  d # q \<Rightarrow> if cont d then b # c # d # from_utf8_lossy q else REPLACEMENT @ from_utf8_lossy r
                | [] \<Rightarrow> REPLACEMENT)
             else REPLACEMENT @ from_utf8_lossy bs
         | [] \<Rightarrow> REPLACEMENT)
      else if 0xF0 \<le> b \<and> b \<le> 0xF4 then
        (case bs of
           c # r \<Rightarrow>
             if cont c \<and> (b = 0xF0 \<longrightarrow> 0x90 \<le> c) \<and> (b = 0xF4 \<longrightarrow> c \<le> 0x8F) then
               (case r of
                  d # q \<Rightarrow>
                    if cont d then
                      (case q of
                         e # p \<Rightarrow>
                           if cont e then b # c # d # e # from_utf8_lossy p else REPLACEMENT @ from_utf8_lossy q
                       | [] \<Rightarrow> REPLACEMENT)
                    else REPLACEMENT @ from_utf8_lossy r
                | [] \<Rightarrow> REPLACEMENT)
             else REPLACEMENT @ from_utf8_lossy bs
         | [] \<Rightarrow> REPLACEMENT)
      else REPLACEMENT @ from_utf8_lossy bs)"

section \<open>Forms\<close>

definition form_hex_value :: "u8 \<Rightarrow> u8 option" where
  "form_hex_value b =
     (if 48 \<le> b \<and> b \<le> 57 then Some (b - 48)
      else if 97 \<le> b \<and> b \<le> 102 then Some (b - 97 + 10)
      else if 65 \<le> b \<and> b \<le> 70 then Some (b - 65 + 10)
      else None)"

fun form_decode_bytes :: "bytes \<Rightarrow> bytes" where
  "form_decode_bytes [] = []"
| "form_decode_bytes (b # bs) =
     (if b = 43 then 32 # form_decode_bytes bs
      else if b = 37 \<and> 2 \<le> length bs then
        (case (form_hex_value (bs ! 0), form_hex_value (bs ! 1)) of
           (Some high, Some low) \<Rightarrow> (push_bit 4 high OR low) # form_decode_bytes (drop 2 bs)
         | _ \<Rightarrow> 37 # form_decode_bytes bs)
      else b # form_decode_bytes bs)"

definition form_url_decode :: "bytes \<Rightarrow> bytes" where
  "form_url_decode src = from_utf8_lossy (form_decode_bytes src)"

text \<open>The hash map of the parameters: \<open>entry(name).or_insert\<close> keeps the first value of a name.\<close>

type_synonym parameters = "(bytes \<times> bytes) list"

definition form_pair :: "bytes \<Rightarrow> parameters \<Rightarrow> parameters" where
  "form_pair pair result =
     (if pair = [] then result
      else
        let nv = (case split_once 61 pair of Some nv \<Rightarrow> nv | None \<Rightarrow> (pair, []));
            name = form_url_decode (fst nv)
        in if map_of result name \<noteq> None then result else result @ [(name, form_url_decode (snd nv))])"

definition parse_form_urlencoded :: "bytes \<Rightarrow> parameters" where
  "parse_form_urlencoded src = fold form_pair (split_byte 38 src []) []"

definition unreserved :: "u8 \<Rightarrow> bool" where
  "unreserved b \<longleftrightarrow> 65 \<le> b \<and> b \<le> 90 \<or> 97 \<le> b \<and> b \<le> 122 \<or> 48 \<le> b \<and> b \<le> 57 \<or> b \<in> {45, 95, 46, 126}"

definition upper_hex :: "u8 \<Rightarrow> u8" where
  "upper_hex d = (if d < 10 then 48 + d else 55 + d)"

definition percent_encode :: "bytes \<Rightarrow> bytes" where
  "percent_encode src =
     concat (map (\<lambda>b. if unreserved b then [b] else [37, upper_hex (drop_bit 4 b), upper_hex (b AND 15)]) src)"

definition escape_char :: "u8 \<Rightarrow> bytes" where
  "escape_char c =
     (if c = 38 then as_bytes ''&amp;'' else if c = 60 then as_bytes ''&lt;'' else if c = 62 then as_bytes ''&gt;''
      else if c = 34 then as_bytes ''&quot;'' else if c = 39 then as_bytes ''&#x27;'' else [c])"

definition html_escape :: "bytes \<Rightarrow> bytes" where
  "html_escape src = concat (map escape_char src)"

section \<open>Origin, redirects and routes\<close>

definition build_base_url :: "bool \<Rightarrow> bytes \<Rightarrow> bytes" where
  "build_base_url is_https host =
     (let scheme = as_bytes (if is_https then ''https'' else ''http'');
          default_port = as_bytes (if is_https then ''443'' else ''80'');
          host1 = trim_end_byte 47 (trim host);
          host2 = (case rsplit_once 58 host1 of
                     Some (name, port) \<Rightarrow>
                       if name \<noteq> [] \<and> (58 \<notin> set name \<or> ends_with_byte name 93)
                       then (if port = default_port then name else host1)
                       else host1
                   | None \<Rightarrow> host1)
      in scheme @ as_bytes ''://'' @ host2)"

definition CLAUDE_REDIRECT_URI :: bytes where
  "CLAUDE_REDIRECT_URI = as_bytes ''https://claude.ai/api/mcp/auth_callback''"

definition is_loopback_redirect :: "bytes \<Rightarrow> bool" where
  "is_loopback_redirect redirect_uri =
     (case strip_prefix redirect_uri (as_bytes ''http://'') of
        None \<Rightarrow> False
      | Some rest \<Rightarrow>
          if 64 \<in> set rest then False
          else
            let host_and_port = (case split_once 47 rest of Some (hp, _) \<Rightarrow> hp | None \<Rightarrow> rest);
                loopback = (\<lambda>host. host \<in> set [as_bytes ''127.0.0.1'', as_bytes ''localhost'', as_bytes ''[::1]''])
            in case rsplit_once 58 host_and_port of
                 Some (host, port) \<Rightarrow>
                   if port \<noteq> [] \<and> parse_unsigned (2 ^ 16) port = None then False else loopback host
               | None \<Rightarrow> loopback host_and_port)"

definition is_allowed_redirect_uri :: "bytes \<Rightarrow> bool" where
  "is_allowed_redirect_uri redirect_uri =
     (if redirect_uri = CLAUDE_REDIRECT_URI then True else is_loopback_redirect redirect_uri)"

definition AS_METADATA_PATH :: bytes where "AS_METADATA_PATH = as_bytes ''/.well-known/oauth-authorization-server''"
definition OPENID_CONFIGURATION_PATH :: bytes where "OPENID_CONFIGURATION_PATH = as_bytes ''/.well-known/openid-configuration''"
definition PROTECTED_RESOURCE_METADATA_PATH :: bytes where
  "PROTECTED_RESOURCE_METADATA_PATH = as_bytes ''/.well-known/oauth-protected-resource''"
definition AUTHORIZE_PATH :: bytes where "AUTHORIZE_PATH = as_bytes ''/oauth/authorize''"
definition TOKEN_PATH :: bytes where "TOKEN_PATH = as_bytes ''/oauth/token''"

datatype OAuthRoute =
    AuthorizationServerMetadataRoute
  | ProtectedResourceMetadataRoute bytes
  | AuthorizeRoute
  | TokenRoute

text \<open>\<open>&path[..prefix.len()]\<close> panics when the prefix length falls inside a character of the path.\<close>

definition matches_with_suffix :: "bytes \<Rightarrow> bytes \<Rightarrow> bytes option panics" where
  "matches_with_suffix path prefix =
     (if length path < length prefix then Ok None
      else rbind (str_to path (length prefix)) (\<lambda>front.
        if \<not> eq_no_case front prefix then Ok None
        else rbind (str_from path (length prefix)) (\<lambda>suffix.
          Ok (if suffix = [] \<or> starts_with suffix [47] then Some suffix else None))))"

definition normalize_resource_path :: "bytes \<Rightarrow> bytes" where
  "normalize_resource_path path =
     (let trimmed = trim_end_byte 47 path in
      if trimmed = [] then [47] else if starts_with trimmed [47] then trimmed else 47 # trimmed)"

definition route_oauth_path :: "bytes \<Rightarrow> OAuthRoute option panics" where
  "route_oauth_path path =
     (if eq_no_case path AUTHORIZE_PATH then Ok (Some AuthorizeRoute)
      else if eq_no_case path TOKEN_PATH then Ok (Some TokenRoute)
      else rbind (matches_with_suffix path AS_METADATA_PATH) (\<lambda>server.
        if server \<noteq> None then Ok (Some AuthorizationServerMetadataRoute)
        else rbind (matches_with_suffix path OPENID_CONFIGURATION_PATH) (\<lambda>openid.
          if openid \<noteq> None then Ok (Some AuthorizationServerMetadataRoute)
          else rbind (matches_with_suffix path PROTECTED_RESOURCE_METADATA_PATH) (\<lambda>res.
            Ok (map_option (\<lambda>suffix. ProtectedResourceMetadataRoute (normalize_resource_path suffix)) res)))))"

section \<open>Secrets\<close>

definition constant_time_eq :: "bytes \<Rightarrow> bytes \<Rightarrow> bool" where
  "constant_time_eq left right =
     (if length left \<noteq> length right then False
      else fold (\<lambda>(l, r) difference. difference OR (l XOR r)) (zip left right) 0 = 0)"

definition BLOCK_SIZE :: nat where "BLOCK_SIZE = 64"

text \<open>\<open>Sha256::digest\<close> is the argument; its results have 32 bytes by their type.\<close>

definition hmac_sha256 :: "(bytes \<Rightarrow> bytes) \<Rightarrow> bytes \<Rightarrow> bytes \<Rightarrow> bytes" where
  "hmac_sha256 sha256 key message =
     (let front = (if length key > BLOCK_SIZE then sha256 key else key);
          block_key = front @ replicate (BLOCK_SIZE - length front) 0;
          inner_pad = map (\<lambda>b. 0x36 XOR b) block_key;
          outer_pad = map (\<lambda>b. 0x5C XOR b) block_key
      in sha256 (outer_pad @ sha256 (inner_pad @ message)))"

definition verify_s256 :: "(bytes \<Rightarrow> bytes) \<Rightarrow> (bytes \<Rightarrow> bytes) \<Rightarrow> bytes \<Rightarrow> bytes \<Rightarrow> bool" where
  "verify_s256 sha256 base64_url_encode code_verifier code_challenge =
     (if code_verifier = [] \<or> code_challenge = [] then False
      else constant_time_eq (base64_url_encode (sha256 code_verifier)) code_challenge)"

section \<open>Lemmas\<close>

lemma fold_difference:
  "length l = length r \<Longrightarrow>
   fold (\<lambda>(l, r) difference. difference OR (l XOR r)) (zip l r) d = (0 :: u8) \<longleftrightarrow> d = 0 \<and> l = r"
proof (induction l r arbitrary: d rule: list_induct2)
  case (Cons x xs y ys)
  have xor: "x XOR y = 0 \<longleftrightarrow> x = y" by (metis xor.right_neutral xor_self_eq bit.xor_cancel_right xor.assoc)
  have "d OR (x XOR y) = 0 \<longleftrightarrow> d = 0 \<and> x XOR y = 0" by (metis or.right_neutral or_eq_0_iff)
  with Cons xor show ?case by auto
qed simp

lemma constant_time_eq_iff [simp]: "constant_time_eq a b \<longleftrightarrow> a = b"
  by (auto simp: constant_time_eq_def fold_difference)

lemma lossy_valid: "utf8_valid bs \<Longrightarrow> from_utf8_lossy bs = bs"
proof (induction bs rule: length_induct)
  case (1 bs)
  show ?case
  proof (cases bs)
    case (Cons b r)
    from 1(2) have v: "utf8_valid (b # r)" unfolding Cons .
    have IH: "from_utf8_lossy x = x" if "length x \<le> length r" "utf8_valid x" for x
      using 1(1) that unfolding Cons by simp
    consider "b < 0x80" | "\<not> b < 0x80" "0xC2 \<le> b \<and> b \<le> 0xDF"
      | "\<not> b < 0x80" "\<not> (0xC2 \<le> b \<and> b \<le> 0xDF)" "0xE0 \<le> b \<and> b \<le> 0xEF"
      | "\<not> b < 0x80" "\<not> (0xC2 \<le> b \<and> b \<le> 0xDF)" "\<not> (0xE0 \<le> b \<and> b \<le> 0xEF)" by blast
    then show ?thesis
    proof cases
      case 1
      with v IH [of r] show ?thesis unfolding Cons by simp
    next
      case 2
      with v obtain c q where "r = c # q" "cont c" "utf8_valid q"
        unfolding utf8_valid.simps(2) if_not_P [OF 2(1)] if_P [OF 2(2)] by (auto split: list.splits)
      with 2 IH [of q] show ?thesis unfolding Cons by simp
    next
      case 3
      with v obtain c d q where "r = c # d # q" "cont c" "cont d" "b = 0xE0 \<longrightarrow> 0xA0 \<le> c" "b = 0xED \<longrightarrow> c \<le> 0x9F" "utf8_valid q"
        unfolding utf8_valid.simps(2) if_not_P [OF 3(1)] if_not_P [OF 3(2)] if_P [OF 3(3)] by (auto split: list.splits)
      with IH [of q] show ?thesis
        unfolding Cons from_utf8_lossy.simps(2) if_not_P [OF 3(1)] if_not_P [OF 3(2)] if_P [OF 3(3)] by simp
    next
      case 4
      with v obtain c d e q where "0xF0 \<le> b \<and> b \<le> 0xF4" "r = c # d # e # q" "cont c" "cont d" "cont e"
          "b = 0xF0 \<longrightarrow> 0x90 \<le> c" "b = 0xF4 \<longrightarrow> c \<le> 0x8F" "utf8_valid q"
        unfolding utf8_valid.simps(2) if_not_P [OF 4(1)] if_not_P [OF 4(2)] if_not_P [OF 4(3)]
        by (auto split: list.splits if_splits)
      with IH [of q] show ?thesis
        unfolding Cons from_utf8_lossy.simps(2) if_not_P [OF 4(1)] if_not_P [OF 4(2)] if_not_P [OF 4(3)] by simp
    qed
  qed simp
qed

lemma upper_hex_value: "d < 16 \<Longrightarrow> form_hex_value (upper_hex d) = Some d"
proof -
  assume "d < 16"
  then have d: "unat d < 16" by (simp add: word_less_nat_alt)
  have "list_all (\<lambda>d. form_hex_value (upper_hex d) = Some d) (map of_nat [0..<16])"
    by (simp add: upt_rec form_hex_value_def upper_hex_def)
  then have "form_hex_value (upper_hex (of_nat (unat d))) = Some (of_nat (unat d))"
    using d by (auto simp: list_all_iff simp del: word_of_nat_eq_iff of_nat_unat)
  then show ?thesis by simp
qed

lemma nibbles: "push_bit 4 (drop_bit 4 b) OR (b AND 15) = (b :: u8)"
proof -
  have "b AND 15 = take_bit 4 b" using take_bit_eq_mask [of 4 b] by (simp add: mask_eq_exp_minus_1)
  then show ?thesis by (auto intro!: bit_word_eqI simp: bit_simps)
qed

lemma nibble_small: "drop_bit 4 b < (16 :: u8)" "b AND 15 < (16 :: u8)"
proof -
  have "unat b div 16 < 16" using unat_u8_less [of b] by (intro div_less_iff_less_mult [THEN iffD2]) simp_all
  then have "unat (drop_bit 4 b) < 16" by (simp add: unat_drop_bit_eq drop_bit_eq_div unat_div)
  then show "drop_bit 4 b < (16 :: u8)" by (simp add: word_less_nat_alt)
  have "b AND 15 \<le> 15" by (rule word_and_le1)
  also have "(15 :: u8) < 16" by simp
  finally show "b AND 15 < (16 :: u8)" .
qed

lemma decode_percent_encode: "form_decode_bytes (percent_encode s @ rest) = s @ form_decode_bytes rest"
proof (induction s)
  case (Cons b s)
  have "unreserved b \<Longrightarrow> b \<noteq> 43 \<and> b \<noteq> 37" by (auto simp: unreserved_def)
  with Cons show ?case
    by (simp add: percent_encode_def upper_hex_value nibble_small nibbles)
qed (simp add: percent_encode_def)

lemma form_url_decode_percent_encode: "utf8_valid s \<Longrightarrow> form_url_decode (percent_encode s) = s"
  using decode_percent_encode [of s "[]"] by (simp add: form_url_decode_def lossy_valid)

lemma unreserved_upper_hex: "d < 16 \<Longrightarrow> unreserved (upper_hex d)"
proof -
  assume "d < 16"
  then have "48 \<le> upper_hex d \<and> upper_hex d \<le> 57 \<or> 65 \<le> upper_hex d \<and> upper_hex d \<le> 70 \<or>
      97 \<le> upper_hex d \<and> upper_hex d \<le> 102"
    using upper_hex_value [of d] unfolding form_hex_value_def by (auto split: if_splits)
  then show ?thesis by (auto simp: unreserved_def intro: order_trans)
qed

lemma percent_encode_plain: "list_all (\<lambda>b. unreserved b \<or> b = 37) (percent_encode s)"
  by (induction s) (simp_all add: percent_encode_def unreserved_upper_hex nibble_small)

text \<open>The bytes that end a text or an attribute value in HTML.\<close>

definition is_markup :: "u8 \<Rightarrow> bool" where
  "is_markup c \<longleftrightarrow> c \<in> {60, 62, 34, 39}"

lemma html_escape_no_markup: "filter is_markup (html_escape s) = []"
  by (induction s) (auto simp: html_escape_def escape_char_def is_markup_def as_bytes_def)

end
