(* ===== verification/OAuth_Server.thy ===== *)
theory OAuth_Server
  imports OAuth_Text "HOL-Library.AList"
begin

text \<open>
  The OAuth authorization server of the proxy (\<open>src/src/oauth\<close>): the store of authorization codes
  (\<open>auth_codes.rs\<close>, \<open>auth_codes_inner.rs\<close>), signed tokens (\<open>token_signer.rs\<close>), the context of one
  \<open>oauth:\<close> block (\<open>oauth_context.rs\<close>), the responses, the metadata documents, the consent screen, and
  the three handlers. SHA-256, base64, \<open>serde_json\<close> and the iteration order of a hash map are fields
  of an \<open>oauth_lib\<close>; what the proofs need of them is \<open>oauth_lib_ok\<close>. A handler reads the
  clock several times: \<open>clock n\<close> is its \<open>n\<close>-th reading, in unix seconds.
\<close>

section \<open>Codes\<close>

definition AUTH_CODE_TTL_SEC :: i64 where "AUTH_CODE_TTL_SEC = 300"
definition MAX_CODES :: nat where "MAX_CODES = 256"

record IssuedAuthCode =
  is_redirect_uri :: bytes
  is_code_challenge :: bytes
  is_scope :: bytes
  is_resource :: "bytes option"

record AuthCode =
  ac_redirect_uri :: bytes
  ac_code_challenge :: bytes
  ac_scope :: bytes
  ac_resource :: "bytes option"
  ac_expires_at_sec :: i64

type_synonym auth_codes = "(bytes \<times> AuthCode) list"

definition remove_expired :: "i64 \<Rightarrow> auth_codes \<Rightarrow> auth_codes" where
  "remove_expired now codes = filter (\<lambda>(_, issued). now <s ac_expires_at_sec issued) codes"

text \<open>\<open>min_by_key\<close> returns the first of several minimal elements in iteration order.\<close>

fun oldest_of :: "auth_codes \<Rightarrow> (bytes \<times> AuthCode) option" where
  "oldest_of [] = None"
| "oldest_of (c # cs) =
     (case oldest_of cs of
        None \<Rightarrow> Some c
      | Some d \<Rightarrow> if ac_expires_at_sec (snd c) \<le>s ac_expires_at_sec (snd d) then Some c else Some d)"

definition oldest_code :: "(auth_codes \<Rightarrow> auth_codes) \<Rightarrow> auth_codes \<Rightarrow> bytes option" where
  "oldest_code iteration codes = map_option fst (oldest_of (iteration codes))"

definition add_code :: "(auth_codes \<Rightarrow> auth_codes) \<Rightarrow> i64 \<Rightarrow> bytes \<Rightarrow> AuthCode \<Rightarrow> auth_codes \<Rightarrow> auth_codes" where
  "add_code iteration now code issued codes =
     (let codes1 = remove_expired now codes;
          codes2 = (if length codes1 \<ge> MAX_CODES
                    then (case oldest_code iteration codes1 of Some oldest \<Rightarrow> AList.delete oldest codes1 | None \<Rightarrow> codes1)
                    else codes1)
      in AList.update code issued codes2)"

definition take_code :: "i64 \<Rightarrow> bytes \<Rightarrow> auth_codes \<Rightarrow> AuthCode option \<times> auth_codes" where
  "take_code now code codes =
     (let codes1 = remove_expired now codes in
      case map_of codes1 code of
        None \<Rightarrow> (None, codes1)
      | Some issued \<Rightarrow>
          (if ac_expires_at_sec issued \<le>s now then None else Some issued, AList.delete code codes1))"

definition issue_auth_code ::
  "(auth_codes \<Rightarrow> auth_codes) \<Rightarrow> i64 \<Rightarrow> i64 \<Rightarrow> bytes \<Rightarrow> IssuedAuthCode \<Rightarrow> auth_codes \<Rightarrow> auth_codes" where
  "issue_auth_code iteration now now1 code issued codes =
     add_code iteration now1 code
       \<lparr>ac_redirect_uri = is_redirect_uri issued, ac_code_challenge = is_code_challenge issued,
        ac_scope = is_scope issued, ac_resource = is_resource issued,
        ac_expires_at_sec = now + AUTH_CODE_TTL_SEC\<rparr> codes"

section \<open>Tokens\<close>

datatype TokenKind = Access | Refresh

definition kind_as_str :: "TokenKind \<Rightarrow> bytes" where
  "kind_as_str k = (case k of Access \<Rightarrow> as_bytes ''a'' | Refresh \<Rightarrow> as_bytes ''r'')"

definition kind_parse :: "bytes \<Rightarrow> TokenKind option" where
  "kind_parse src =
     (if src = as_bytes ''a'' then Some Access else if src = as_bytes ''r'' then Some Refresh else None)"

record VerifiedToken =
  vt_scope :: bytes
  vt_audience :: "bytes option"

record TokenPayload =
  tp_k :: bytes
  tp_exp :: i64
  tp_sc :: bytes
  tp_aud :: "bytes option"

record TokenResponseBody =
  tr_access_token :: bytes
  tr_token_type :: bytes
  tr_expires_in :: i64
  tr_refresh_token :: "bytes option"
  tr_scope :: bytes

record AuthorizationServerMetadata =
  am_issuer :: bytes
  am_authorization_endpoint :: bytes
  am_token_endpoint :: bytes
  am_response_types_supported :: "bytes list"
  am_grant_types_supported :: "bytes list"
  am_code_challenge_methods_supported :: "bytes list"
  am_token_endpoint_auth_methods_supported :: "bytes list"
  am_scopes_supported :: "bytes list"

record ProtectedResourceMetadata =
  pm_resource :: bytes
  pm_authorization_servers :: "bytes list"
  pm_scopes_supported :: "bytes list"
  pm_bearer_methods_supported :: "bytes list"

text \<open>
  The libraries. The \<open>to_vec\<close> functions of \<open>serde_json\<close> give the text of an error or the document; the
  decoders give \<open>None\<close> where the source drops their error with \<open>ok()\<close>.
\<close>

record oauth_lib =
  ol_sha256 :: "bytes \<Rightarrow> bytes"
  ol_base64_url_encode :: "bytes \<Rightarrow> bytes"
  ol_base64_url_decode :: "bytes \<Rightarrow> bytes option"
  ol_base64_standard_decode :: "bytes \<Rightarrow> bytes option"
  ol_json_payload :: "TokenPayload \<Rightarrow> bytes + bytes"
  ol_parse_payload :: "bytes \<Rightarrow> TokenPayload option"
  ol_json_error :: "bytes \<Rightarrow> bytes \<Rightarrow> bytes option"
  ol_json_token :: "TokenResponseBody \<Rightarrow> bytes option"
  ol_json_server :: "AuthorizationServerMetadata \<Rightarrow> bytes option"
  ol_json_resource :: "ProtectedResourceMetadata \<Rightarrow> bytes option"
  ol_iteration :: "auth_codes \<Rightarrow> auth_codes"

definition VERSION :: bytes where "VERSION = as_bytes ''v1''"

definition mint :: "oauth_lib \<Rightarrow> bytes \<Rightarrow> i64 \<Rightarrow> TokenKind \<Rightarrow> bytes \<Rightarrow> bytes option \<Rightarrow> i64 \<Rightarrow> bytes + bytes" where
  "mint lib key now kind scope audience ttl_sec =
     (case ol_json_payload lib
             \<lparr>tp_k = kind_as_str kind, tp_exp = now + ttl_sec, tp_sc = scope, tp_aud = audience\<rparr> of
        Inl err \<Rightarrow> Inl (as_bytes ''Can not serialize the token. Err: '' @ err)
      | Inr payload \<Rightarrow>
          let body = VERSION @ 46 # ol_base64_url_encode lib payload;
              signature = hmac_sha256 (ol_sha256 lib) key body
          in Inr (body @ 46 # ol_base64_url_encode lib signature))"

definition verify :: "oauth_lib \<Rightarrow> bytes \<Rightarrow> i64 \<Rightarrow> bytes \<Rightarrow> TokenKind \<Rightarrow> VerifiedToken option" where
  "verify lib key now token expected =
     Option.bind (rsplit_once 46 token) (\<lambda>(body, signature).
       if \<not> starts_with body VERSION then None
       else Option.bind (ol_base64_url_decode lib signature) (\<lambda>presented.
         if \<not> constant_time_eq (hmac_sha256 (ol_sha256 lib) key body) presented then None
         else Option.bind (split_once 46 body) (\<lambda>(_, encoded).
           Option.bind (ol_base64_url_decode lib encoded) (\<lambda>json.
             Option.bind (ol_parse_payload lib json) (\<lambda>payload.
               Option.bind (kind_parse (tp_k payload)) (\<lambda>kind.
                 if kind \<noteq> expected then None
                 else if tp_exp payload \<le>s now then None
                 else Some \<lparr>vt_scope = tp_sc payload, vt_audience = tp_aud payload\<rparr>))))))"

section \<open>The context\<close>

definition MCP_SCOPE :: bytes where "MCP_SCOPE = as_bytes ''mcp''"
definition OFFLINE_SCOPE :: bytes where "OFFLINE_SCOPE = as_bytes ''offline_access''"
definition DEFAULT_ACCESS_TOKEN_TTL_SEC :: i64 where "DEFAULT_ACCESS_TOKEN_TTL_SEC = 60 * 60"
definition DEFAULT_REFRESH_TOKEN_TTL_SEC :: i64 where "DEFAULT_REFRESH_TOKEN_TTL_SEC = 30 * 24 * 60 * 60"

record OAuthSettings =
  os_client_id :: bytes
  os_client_secret :: bytes
  os_consent_password :: bytes
  os_public_url :: "bytes option"
  os_signing_key :: "bytes option"
  os_signing_key_file :: "bytes option"
  os_access_token_ttl_sec :: "i64 option"
  os_refresh_token_ttl_sec :: "i64 option"

record OAuthContext =
  oc_settings :: OAuthSettings
  oc_public_url :: "bytes option"
  oc_access_token_ttl_sec :: i64
  oc_refresh_token_ttl_sec :: i64
  oc_signer :: bytes
  oc_codes :: auth_codes

definition unwrap_or :: "'a \<Rightarrow> 'a option \<Rightarrow> 'a" where
  "unwrap_or d x = (case x of Some v \<Rightarrow> v | None \<Rightarrow> d)"

definition new_oauth_context :: "OAuthSettings \<Rightarrow> bytes \<Rightarrow> OAuthContext" where
  "new_oauth_context settings signing_key =
     \<lparr>oc_settings = settings,
      oc_public_url = map_option (\<lambda>url. trim_end_byte 47 (trim url)) (os_public_url settings),
      oc_access_token_ttl_sec = unwrap_or DEFAULT_ACCESS_TOKEN_TTL_SEC (os_access_token_ttl_sec settings),
      oc_refresh_token_ttl_sec = unwrap_or DEFAULT_REFRESH_TOKEN_TTL_SEC (os_refresh_token_ttl_sec settings),
      oc_signer = signing_key, oc_codes = []\<rparr>"

definition settings_are_the_same :: "OAuthContext \<Rightarrow> OAuthSettings \<Rightarrow> bool" where
  "settings_are_the_same cx other \<longleftrightarrow> oc_settings cx = other"

definition context_base_url :: "OAuthContext \<Rightarrow> bytes \<Rightarrow> bytes" where
  "context_base_url cx request_base_url =
     (case oc_public_url cx of Some public_url \<Rightarrow> public_url | None \<Rightarrow> trim_end_byte 47 request_base_url)"

definition check_client_id :: "OAuthContext \<Rightarrow> bytes \<Rightarrow> bool" where
  "check_client_id cx presented = constant_time_eq (trim presented) (trim (os_client_id (oc_settings cx)))"

definition check_client_secret :: "OAuthContext \<Rightarrow> bytes \<Rightarrow> bool" where
  "check_client_secret cx presented = constant_time_eq presented (trim (os_client_secret (oc_settings cx)))"

definition check_consent_password :: "OAuthContext \<Rightarrow> bytes \<Rightarrow> bool" where
  "check_consent_password cx presented =
     constant_time_eq (trim presented) (trim (os_consent_password (oc_settings cx)))"

definition scope_includes :: "bytes \<Rightarrow> bytes \<Rightarrow> bool" where
  "scope_includes scope wanted \<longleftrightarrow> wanted \<in> set (split_whitespace scope)"

definition granted_scope :: "bytes option \<Rightarrow> bytes" where
  "granted_scope requested =
     MCP_SCOPE @ (if scope_includes (unwrap_or [] requested) OFFLINE_SCOPE then 32 # OFFLINE_SCOPE else [])"

record MintedTokens =
  mt_access_token :: bytes
  mt_refresh_token :: "bytes option"
  mt_expires_in :: i64
  mt_scope :: bytes

definition mint_tokens ::
  "oauth_lib \<Rightarrow> OAuthContext \<Rightarrow> i64 \<Rightarrow> i64 \<Rightarrow> bytes \<Rightarrow> bytes option \<Rightarrow> bytes + MintedTokens" where
  "mint_tokens lib cx now now1 scope audience =
     (case mint lib (oc_signer cx) now Access scope audience (oc_access_token_ttl_sec cx) of
        Inl err \<Rightarrow> Inl err
      | Inr access_token \<Rightarrow>
          let minted = (\<lambda>refresh_token. Inr \<lparr>mt_access_token = access_token, mt_refresh_token = refresh_token,
                  mt_expires_in = oc_access_token_ttl_sec cx, mt_scope = scope\<rparr>)
          in if scope_includes scope OFFLINE_SCOPE
             then (case mint lib (oc_signer cx) now1 Refresh scope audience (oc_refresh_token_ttl_sec cx) of
                     Inl err \<Rightarrow> Inl err
                   | Inr refresh_token \<Rightarrow> minted (Some refresh_token))
             else minted None)"

section \<open>Responses\<close>

record OAuthHttpResponse =
  or_status_code :: nat
  or_content_type :: bytes
  or_headers :: "(bytes \<times> bytes) list"
  or_body :: bytes
  or_register_ip_failure :: bool

definition CONTENT_TYPE_JSON :: bytes where "CONTENT_TYPE_JSON = as_bytes ''application/json''"
definition CONTENT_TYPE_HTML :: bytes where "CONTENT_TYPE_HTML = as_bytes ''text/html; charset=UTF-8''"

definition json_response :: "nat \<Rightarrow> bytes \<Rightarrow> OAuthHttpResponse" where
  "json_response status_code body =
     \<lparr>or_status_code = status_code, or_content_type = CONTENT_TYPE_JSON,
      or_headers = [(as_bytes ''Cache-Control'', as_bytes ''no-store''), (as_bytes ''Pragma'', as_bytes ''no-cache'')],
      or_body = body, or_register_ip_failure = False\<rparr>"

definition metadata_response :: "bytes \<Rightarrow> OAuthHttpResponse" where
  "metadata_response body =
     \<lparr>or_status_code = 200, or_content_type = CONTENT_TYPE_JSON,
      or_headers = [(as_bytes ''Cache-Control'', as_bytes ''max-age=300'')],
      or_body = body, or_register_ip_failure = False\<rparr>"

definition html_response :: "nat \<Rightarrow> bytes \<Rightarrow> OAuthHttpResponse" where
  "html_response status_code body =
     \<lparr>or_status_code = status_code, or_content_type = CONTENT_TYPE_HTML,
      or_headers = [(as_bytes ''Cache-Control'', as_bytes ''no-store'')],
      or_body = body, or_register_ip_failure = False\<rparr>"

definition redirect_response :: "bytes \<Rightarrow> OAuthHttpResponse" where
  "redirect_response location =
     \<lparr>or_status_code = 302, or_content_type = CONTENT_TYPE_HTML,
      or_headers = [(as_bytes ''Location'', location), (as_bytes ''Cache-Control'', as_bytes ''no-store'')],
      or_body = [], or_register_ip_failure = False\<rparr>"

definition add_response_header :: "bytes \<Rightarrow> bytes \<Rightarrow> OAuthHttpResponse \<Rightarrow> OAuthHttpResponse" where
  "add_response_header name val r = r\<lparr>or_headers := or_headers r @ [(name, val)]\<rparr>"

definition into_credential_failure :: "OAuthHttpResponse \<Rightarrow> OAuthHttpResponse" where
  "into_credential_failure r = r\<lparr>or_register_ip_failure := True\<rparr>"

definition ERROR_INVALID_REQUEST :: bytes where "ERROR_INVALID_REQUEST = as_bytes ''invalid_request''"
definition ERROR_INVALID_CLIENT :: bytes where "ERROR_INVALID_CLIENT = as_bytes ''invalid_client''"
definition ERROR_INVALID_GRANT :: bytes where "ERROR_INVALID_GRANT = as_bytes ''invalid_grant''"
definition ERROR_UNSUPPORTED_GRANT_TYPE :: bytes where "ERROR_UNSUPPORTED_GRANT_TYPE = as_bytes ''unsupported_grant_type''"
definition ERROR_UNSUPPORTED_RESPONSE_TYPE :: bytes where
  "ERROR_UNSUPPORTED_RESPONSE_TYPE = as_bytes ''unsupported_response_type''"
definition ERROR_INVALID_TOKEN :: bytes where "ERROR_INVALID_TOKEN = as_bytes ''invalid_token''"
definition ERROR_SERVER_ERROR :: bytes where "ERROR_SERVER_ERROR = as_bytes ''server_error''"

definition error_body :: "oauth_lib \<Rightarrow> bytes \<Rightarrow> bytes \<Rightarrow> bytes" where
  \<open>error_body lib err description =
     unwrap_or (as_bytes ''{"error":"server_error","error_description":"Can not build the error body"}'')
       (ol_json_error lib err description)\<close>

definition oauth_error_response :: "oauth_lib \<Rightarrow> nat \<Rightarrow> bytes \<Rightarrow> bytes \<Rightarrow> OAuthHttpResponse" where
  "oauth_error_response lib status_code err description = json_response status_code (error_body lib err description)"

definition method_not_allowed :: "oauth_lib \<Rightarrow> bytes \<Rightarrow> OAuthHttpResponse" where
  "method_not_allowed lib allowed =
     add_response_header (as_bytes ''Allow'') allowed
       (oauth_error_response lib 405 ERROR_INVALID_REQUEST (as_bytes ''This endpoint only accepts '' @ allowed))"

section \<open>Metadata\<close>

definition build_authorization_server_metadata :: "oauth_lib \<Rightarrow> bytes \<Rightarrow> bytes" where
  "build_authorization_server_metadata lib base_url =
     unwrap_or (error_body lib ERROR_SERVER_ERROR (as_bytes ''Can not build the metadata document''))
       (ol_json_server lib
          \<lparr>am_issuer = base_url, am_authorization_endpoint = base_url @ AUTHORIZE_PATH,
           am_token_endpoint = base_url @ TOKEN_PATH, am_response_types_supported = [as_bytes ''code''],
           am_grant_types_supported = [as_bytes ''authorization_code'', as_bytes ''refresh_token''],
           am_code_challenge_methods_supported = [as_bytes ''S256''],
           am_token_endpoint_auth_methods_supported = [as_bytes ''client_secret_post'', as_bytes ''client_secret_basic''],
           am_scopes_supported = [MCP_SCOPE, OFFLINE_SCOPE]\<rparr>)"

definition build_resource_url :: "bytes \<Rightarrow> bytes \<Rightarrow> bytes" where
  "build_resource_url base_url resource_path =
     (if resource_path = [47] \<or> resource_path = [] then base_url else base_url @ resource_path)"

definition build_protected_resource_metadata :: "oauth_lib \<Rightarrow> bytes \<Rightarrow> bytes \<Rightarrow> bytes" where
  "build_protected_resource_metadata lib base_url resource_path =
     unwrap_or (error_body lib ERROR_SERVER_ERROR (as_bytes ''Can not build the metadata document''))
       (ol_json_resource lib
          \<lparr>pm_resource = build_resource_url base_url resource_path, pm_authorization_servers = [base_url],
           pm_scopes_supported = [MCP_SCOPE, OFFLINE_SCOPE], pm_bearer_methods_supported = [as_bytes ''header'']\<rparr>)"

definition build_resource_metadata_url :: "bytes \<Rightarrow> bytes \<Rightarrow> bytes" where
  "build_resource_metadata_url base_url resource_path =
     (if resource_path = [47] \<or> resource_path = [] then base_url @ PROTECTED_RESOURCE_METADATA_PATH
      else base_url @ PROTECTED_RESOURCE_METADATA_PATH @ resource_path)"

section \<open>The consent screen\<close>

record ConsentPageParams =
  cp_client_id :: bytes
  cp_redirect_uri :: bytes
  cp_state :: "bytes option"
  cp_scope :: bytes
  cp_code_challenge :: bytes
  cp_resource :: "bytes option"
  cp_error :: "bytes option"

fun text_lines :: "bytes list \<Rightarrow> bytes" where
  "text_lines [] = []"
| "text_lines [l] = l"
| "text_lines (l # ls) = l @ 10 # text_lines ls"

definition hidden_field :: "bytes \<Rightarrow> bytes \<Rightarrow> bytes" where
  \<open>hidden_field name val =
     as_bytes ''<input type="hidden" name="'' @ html_escape name @ as_bytes ''" value="'' @ html_escape val @ as_bytes ''">''\<close>

definition consent_head :: "bytes list" where
  \<open>consent_head =
     [as_bytes ''<html><head><title>Authorize connector</title>'',
      as_bytes ''<meta name="viewport" content="width=device-width, initial-scale=1">'',
      as_bytes ''<style>'',
      as_bytes ''body { font-family: -apple-system, Segoe UI, Roboto, Helvetica, Arial, sans-serif;'',
      as_bytes ''       background: #f5f6f8; margin: 0; padding: 0; color: #1c1e21; }'',
      as_bytes ''#card { max-width: 460px; margin: 8vh auto; background: #fff; border-radius: 10px;'',
      as_bytes ''        box-shadow: 0 1px 4px rgba(0,0,0,.14); padding: 28px 32px; }'',
      as_bytes ''h1 { font-size: 20px; margin: 0 0 6px 0; }'',
      as_bytes ''p.lead { color: #55595e; font-size: 14px; margin: 0 0 20px 0; }'',
      as_bytes ''table { width: 100%; border-collapse: collapse; margin-bottom: 20px; font-size: 13px; }'',
      as_bytes ''th { text-align: left; color: #6a6e73; font-weight: 500; width: 34%; padding: 5px 0; vertical-align: top; }'',
      as_bytes ''td { padding: 5px 0; word-break: break-all; }'',
      as_bytes ''label { display: block; font-size: 13px; margin-bottom: 6px; color: #37393d; }'',
      as_bytes ''input[type=password] { width: 100%; box-sizing: border-box; padding: 9px 11px; font-size: 14px;'',
      as_bytes ''                        border: 1px solid #ccd0d5; border-radius: 6px; }'',
      as_bytes ''button { margin-top: 16px; width: 100%; padding: 10px; font-size: 15px; border: 0;'',
      as_bytes ''          border-radius: 6px; background: #2f6fdb; color: #fff; cursor: pointer; }'',
      as_bytes ''button:hover { background: #2a61c0; }'',
      as_bytes ''p.error { background: #fdecec; border: 1px solid #f3c2c2; color: #a12020;'',
      as_bytes ''          padding: 9px 11px; border-radius: 6px; font-size: 13px; margin: 0 0 16px 0; }'',
      as_bytes ''</style>'',
      as_bytes ''</head><body>'',
      as_bytes ''<div id="card">'',
      as_bytes ''<h1>Authorize connector</h1>'',
      as_bytes ''<p class="lead">An application is asking for access through this proxy. Enter the consent password to approve it.</p>'']\<close>

definition generate_consent_page :: "ConsentPageParams \<Rightarrow> bytes" where
  \<open>generate_consent_page p =
     (let error_block = (case cp_error p of
            Some err \<Rightarrow> as_bytes ''<p class="error">'' @ html_escape err @ as_bytes ''</p>'' | None \<Rightarrow> []);
          resource_row = (case cp_resource p of
            Some resource \<Rightarrow> as_bytes ''<tr><th>Resource</th><td>'' @ html_escape resource @ as_bytes ''</td></tr>''
          | None \<Rightarrow> []);
          state_field = (case cp_state p of Some state \<Rightarrow> hidden_field (as_bytes ''state'') state | None \<Rightarrow> []);
          resource_field = (case cp_resource p of Some resource \<Rightarrow> hidden_field (as_bytes ''resource'') resource | None \<Rightarrow> [])
      in text_lines (consent_head @
          [error_block,
           as_bytes ''<table>'',
           as_bytes ''<tr><th>Client</th><td>'' @ html_escape (cp_client_id p) @ as_bytes ''</td></tr>'',
           resource_row,
           as_bytes ''<tr><th>Scope</th><td>'' @ html_escape (cp_scope p) @ as_bytes ''</td></tr>'',
           as_bytes ''<tr><th>Redirect</th><td>'' @ html_escape (cp_redirect_uri p) @ as_bytes ''</td></tr>'',
           as_bytes ''</table>'',
           as_bytes ''<form method="POST" action="'' @ AUTHORIZE_PATH @ as_bytes ''">'',
           hidden_field (as_bytes ''client_id'') (cp_client_id p),
           hidden_field (as_bytes ''redirect_uri'') (cp_redirect_uri p),
           hidden_field (as_bytes ''response_type'') (as_bytes ''code''),
           hidden_field (as_bytes ''scope'') (cp_scope p),
           hidden_field (as_bytes ''code_challenge'') (cp_code_challenge p),
           hidden_field (as_bytes ''code_challenge_method'') (as_bytes ''S256''),
           state_field,
           resource_field,
           as_bytes ''<label for="consent_password">Consent password</label>'',
           as_bytes ''<input type="password" id="consent_password" name="consent_password" autocomplete="off" autofocus spellcheck="false">'',
           as_bytes ''<button type="submit">Approve</button>'',
           as_bytes ''</form>'',
           as_bytes ''</div>'',
           as_bytes ''</body></html>'']))\<close>

definition generate_error_page :: "bytes \<Rightarrow> bytes \<Rightarrow> bytes" where
  \<open>generate_error_page title message = text_lines
     [as_bytes ''<html><head><title>'' @ html_escape title @ as_bytes ''</title>'',
      as_bytes ''<meta name="viewport" content="width=device-width, initial-scale=1">'',
      as_bytes ''<style>'',
      as_bytes ''body { font-family: -apple-system, Segoe UI, Roboto, Helvetica, Arial, sans-serif;'',
      as_bytes ''       background: #f5f6f8; margin: 0; color: #1c1e21; }'',
      as_bytes ''#card { max-width: 460px; margin: 8vh auto; background: #fff; border-radius: 10px;'',
      as_bytes ''        box-shadow: 0 1px 4px rgba(0,0,0,.14); padding: 28px 32px; }'',
      as_bytes ''h1 { font-size: 20px; margin: 0 0 10px 0; }'',
      as_bytes ''p { color: #55595e; font-size: 14px; margin: 0; }'',
      as_bytes ''</style>'',
      as_bytes ''</head><body><div id="card"><h1>'' @ html_escape title @ as_bytes ''</h1><p>'' @ html_escape message @ as_bytes ''</p></div></body></html>'']\<close>

section \<open>The authorize endpoint\<close>

datatype OAuthMethod = Get | Post | OtherMethod

definition oauth_method_parse :: "bytes \<Rightarrow> OAuthMethod" where
  "oauth_method_parse method =
     (if eq_no_case method (as_bytes ''GET'') then Get
      else if eq_no_case method (as_bytes ''POST'') then Post else OtherMethod)"

record OAuthRequest =
  oq_method :: OAuthMethod
  oq_route :: OAuthRoute
  oq_base_url :: bytes
  oq_query :: "bytes option"
  oq_body :: bytes
  oq_content_type :: "bytes option"
  oq_authorization :: "bytes option"
  oq_known_resource_paths :: "bytes list"

definition request_parameters :: "OAuthRequest \<Rightarrow> parameters" where
  "request_parameters request =
     (case oq_method request of
        Post \<Rightarrow> parse_form_urlencoded (from_utf8_lossy (oq_body request))
      | _ \<Rightarrow> parse_form_urlencoded (unwrap_or [] (oq_query request)))"

definition get_param :: "parameters \<Rightarrow> string \<Rightarrow> bytes" where
  "get_param parameters name = unwrap_or [] (map_of parameters (as_bytes name))"

definition AUTH_CODE_BYTES :: nat where "AUTH_CODE_BYTES = 32"

record ValidatedAuthorizeRequest =
  va_client_id :: bytes
  va_redirect_uri :: bytes
  va_state :: "bytes option"
  va_code_challenge :: bytes
  va_granted_scope :: bytes
  va_resource :: "bytes option"

datatype validated = Accepted ValidatedAuthorizeRequest | Rejected OAuthHttpResponse

definition append_query :: "bytes \<Rightarrow> bytes" where
  "append_query redirect_uri = redirect_uri @ [if 63 \<in> set redirect_uri then 38 else 63]"

definition push_state :: "bytes option \<Rightarrow> bytes \<Rightarrow> bytes" where
  "push_state state url =
     (case state of Some s \<Rightarrow> url @ as_bytes ''&state='' @ percent_encode s | None \<Rightarrow> url)"

definition redirect_with_error :: "bytes \<Rightarrow> bytes option \<Rightarrow> bytes \<Rightarrow> bytes \<Rightarrow> OAuthHttpResponse" where
  "redirect_with_error redirect_uri state err description =
     redirect_response (push_state state
       (append_query redirect_uri @ as_bytes ''error='' @ percent_encode err @
        as_bytes ''&error_description='' @ percent_encode description))"

definition non_empty :: "bytes option \<Rightarrow> bytes option" where
  "non_empty x = (case x of Some v \<Rightarrow> if v = [] then None else Some v | None \<Rightarrow> None)"

definition validate_authorize :: "OAuthContext \<Rightarrow> parameters \<Rightarrow> bytes \<Rightarrow> validated" where
  "validate_authorize cx parameters base_url =
     (let client_id = get_param parameters ''client_id'';
          redirect_uri = get_param parameters ''redirect_uri'';
          state = non_empty (map_of parameters (as_bytes ''state''));
          code_challenge = get_param parameters ''code_challenge'';
          resource = non_empty (map_of parameters (as_bytes ''resource''))
      in if \<not> check_client_id cx client_id then
           Rejected (into_credential_failure (html_response 400 (generate_error_page (as_bytes ''Unknown client'')
             (as_bytes ''The client_id is not configured on this proxy.''))))
         else if \<not> is_allowed_redirect_uri redirect_uri then
           Rejected (html_response 400 (generate_error_page (as_bytes ''Invalid redirect_uri'')
             (as_bytes ''This proxy only redirects to the Claude callback or to a loopback address.'')))
         else if get_param parameters ''response_type'' \<noteq> as_bytes ''code'' then
           Rejected (redirect_with_error redirect_uri state ERROR_UNSUPPORTED_RESPONSE_TYPE
             (as_bytes ''Only the authorization code flow is supported''))
         else if code_challenge = [] then
           Rejected (redirect_with_error redirect_uri state ERROR_INVALID_REQUEST
             (as_bytes ''code_challenge is required '' @ [0xE2, 0x80, 0x94] @ as_bytes '' this server requires PKCE with S256''))
         else if \<not> eq_no_case (unwrap_or (as_bytes ''S256'') (map_of parameters (as_bytes ''code_challenge_method'')))
                   (as_bytes ''S256'') then
           Rejected (redirect_with_error redirect_uri state ERROR_INVALID_REQUEST
             (as_bytes ''Only the S256 code_challenge_method is supported''))
         else if (case resource of Some r \<Rightarrow> \<not> starts_with (trim_end_byte 47 r) base_url | None \<Rightarrow> False) then
           Rejected (redirect_with_error redirect_uri state (as_bytes ''invalid_target'')
             (as_bytes ''The requested resource is not served by this authorization server''))
         else
           Accepted \<lparr>va_client_id = client_id, va_redirect_uri = redirect_uri, va_state = state,
             va_code_challenge = code_challenge, va_granted_scope = granted_scope (map_of parameters (as_bytes ''scope'')),
             va_resource = resource\<rparr>)"

definition consent_page :: "ValidatedAuthorizeRequest \<Rightarrow> bytes option \<Rightarrow> OAuthHttpResponse" where
  "consent_page v err =
     html_response (if err \<noteq> None then 401 else 200)
       (generate_consent_page \<lparr>cp_client_id = va_client_id v, cp_redirect_uri = va_redirect_uri v, cp_state = va_state v,
          cp_scope = va_granted_scope v, cp_code_challenge = va_code_challenge v, cp_resource = va_resource v, cp_error = err\<rparr>)"

text \<open>The random bytes of \<open>OsRng\<close> are an argument; a code is their base64url text.\<close>

definition issue_code ::
  "oauth_lib \<Rightarrow> (nat \<Rightarrow> i64) \<Rightarrow> bytes \<Rightarrow> auth_codes \<Rightarrow> ValidatedAuthorizeRequest \<Rightarrow> OAuthHttpResponse \<times> auth_codes" where
  "issue_code lib clock random codes v =
     (let code = ol_base64_url_encode lib (take AUTH_CODE_BYTES random);
          codes1 = issue_auth_code (ol_iteration lib) (clock 0) (clock 1) code
            \<lparr>is_redirect_uri = va_redirect_uri v, is_code_challenge = va_code_challenge v,
             is_scope = va_granted_scope v, is_resource = va_resource v\<rparr> codes
      in (redirect_response (push_state (va_state v)
            (append_query (va_redirect_uri v) @ as_bytes ''code='' @ percent_encode code)), codes1))"

definition handle_authorize ::
  "oauth_lib \<Rightarrow> (nat \<Rightarrow> i64) \<Rightarrow> bytes \<Rightarrow> OAuthContext \<Rightarrow> OAuthRequest \<Rightarrow> OAuthHttpResponse \<times> OAuthContext" where
  "handle_authorize lib clock random cx request =
     (if oq_method request = OtherMethod then (method_not_allowed lib (as_bytes ''GET, POST''), cx)
      else
        let parameters = request_parameters request;
            base_url = context_base_url cx (oq_base_url request)
        in case validate_authorize cx parameters base_url of
             Rejected response \<Rightarrow> (response, cx)
           | Accepted v \<Rightarrow>
               if oq_method request = Get then (consent_page v None, cx)
               else if \<not> check_consent_password cx (get_param parameters ''consent_password'') then
                 (into_credential_failure (consent_page v (Some (as_bytes ''Wrong consent password. Try again.''))), cx)
               else (case issue_code lib clock random (oc_codes cx) v of
                       (response, codes1) \<Rightarrow> (response, cx\<lparr>oc_codes := codes1\<rparr>)))"

section \<open>The token endpoint\<close>

definition FORM_CONTENT_TYPE :: bytes where "FORM_CONTENT_TYPE = as_bytes ''application/x-www-form-urlencoded''"

record PresentedClient =
  pc_client_id :: bytes
  pc_client_secret :: bytes
  pc_from_basic :: bool

definition presented_client :: "oauth_lib \<Rightarrow> bytes option \<Rightarrow> parameters \<Rightarrow> PresentedClient option panics" where
  "presented_client lib authorization parameters =
     (let posted = (let client_id = get_param parameters ''client_id'' in
            if client_id = [] then None
            else Some \<lparr>pc_client_id = client_id, pc_client_secret = get_param parameters ''client_secret'', pc_from_basic = False\<rparr>)
      in case authorization of
           None \<Rightarrow> Ok posted
         | Some value \<Rightarrow>
             let trimmed = trim value in
             if length trimmed > 6 then
               rbind (str_to trimmed 6) (\<lambda>scheme.
                 if eq_no_case scheme (as_bytes ''Basic '') then
                   rbind (str_from trimmed 6) (\<lambda>encoded.
                     Ok (Option.bind (ol_base64_standard_decode lib (trim encoded)) (\<lambda>decoded.
                       if \<not> utf8_valid decoded then None
                       else Option.bind (split_once 58 decoded) (\<lambda>(client_id, client_secret).
                         Some \<lparr>pc_client_id = client_id, pc_client_secret = client_secret, pc_from_basic = True\<rparr>))))
                 else Ok posted)
             else Ok posted)"

definition matches_client_id :: "OAuthContext \<Rightarrow> bytes \<Rightarrow> bool" where
  "matches_client_id cx presented \<longleftrightarrow> check_client_id cx presented \<or> check_client_id cx (form_url_decode presented)"

definition matches_client_secret :: "OAuthContext \<Rightarrow> bytes \<Rightarrow> bool" where
  "matches_client_secret cx presented \<longleftrightarrow>
     check_client_secret cx presented \<or> check_client_secret cx (form_url_decode presented)"

definition invalid_client :: "oauth_lib \<Rightarrow> bool \<Rightarrow> OAuthHttpResponse" where
  \<open>invalid_client lib from_basic =
     (let response = oauth_error_response lib 401 ERROR_INVALID_CLIENT (as_bytes ''The client_id or client_secret is wrong'')
      in if from_basic then add_response_header (as_bytes ''WWW-Authenticate'') (as_bytes ''Basic realm="oauth"'') response
         else response)\<close>

definition token_response_body :: "oauth_lib \<Rightarrow> MintedTokens \<Rightarrow> bytes" where
  "token_response_body lib minted =
     unwrap_or (error_body lib ERROR_SERVER_ERROR (as_bytes ''Can not build the token response''))
       (ol_json_token lib \<lparr>tr_access_token = mt_access_token minted, tr_token_type = as_bytes ''Bearer'',
          tr_expires_in = mt_expires_in minted, tr_refresh_token = mt_refresh_token minted, tr_scope = mt_scope minted\<rparr>)"

definition mint_response :: "oauth_lib \<Rightarrow> (nat \<Rightarrow> i64) \<Rightarrow> OAuthContext \<Rightarrow> bytes \<Rightarrow> bytes option \<Rightarrow> OAuthHttpResponse" where
  "mint_response lib clock cx scope audience =
     (case mint_tokens lib cx (clock 1) (clock 2) scope audience of
        Inl err \<Rightarrow> oauth_error_response lib 500 ERROR_SERVER_ERROR err
      | Inr minted \<Rightarrow> json_response 200 (token_response_body lib minted))"

definition exchange_authorization_code ::
  "oauth_lib \<Rightarrow> (nat \<Rightarrow> i64) \<Rightarrow> OAuthContext \<Rightarrow> parameters \<Rightarrow> OAuthHttpResponse \<times> OAuthContext" where
  "exchange_authorization_code lib clock cx parameters =
     (let code = get_param parameters ''code'' in
      if code = [] then (oauth_error_response lib 400 ERROR_INVALID_REQUEST (as_bytes ''code is required''), cx)
      else case take_code (clock 0) code (oc_codes cx) of
        (None, codes1) \<Rightarrow>
          (oauth_error_response lib 400 ERROR_INVALID_GRANT
             (as_bytes ''The authorization code is unknown, already used, or expired''), cx\<lparr>oc_codes := codes1\<rparr>)
      | (Some issued, codes1) \<Rightarrow>
          let cx1 = cx\<lparr>oc_codes := codes1\<rparr>; code_verifier = get_param parameters ''code_verifier'' in
          if get_param parameters ''redirect_uri'' \<noteq> ac_redirect_uri issued then
            (oauth_error_response lib 400 ERROR_INVALID_GRANT
               (as_bytes ''redirect_uri does not match the one the code was issued for''), cx1)
          else if code_verifier = [] then
            (oauth_error_response lib 400 ERROR_INVALID_REQUEST (as_bytes ''code_verifier is required''), cx1)
          else if \<not> verify_s256 (ol_sha256 lib) (ol_base64_url_encode lib) code_verifier (ac_code_challenge issued) then
            (oauth_error_response lib 400 ERROR_INVALID_GRANT
               (as_bytes ''The code_verifier does not match the code_challenge''), cx1)
          else (mint_response lib clock cx1 (ac_scope issued) (ac_resource issued), cx1))"

definition refresh_tokens :: "oauth_lib \<Rightarrow> (nat \<Rightarrow> i64) \<Rightarrow> OAuthContext \<Rightarrow> parameters \<Rightarrow> OAuthHttpResponse" where
  "refresh_tokens lib clock cx parameters =
     (let refresh_token = get_param parameters ''refresh_token'' in
      if refresh_token = [] then
        oauth_error_response lib 400 ERROR_INVALID_REQUEST (as_bytes ''refresh_token is required'')
      else case verify lib (oc_signer cx) (clock 0) refresh_token Refresh of
        None \<Rightarrow> oauth_error_response lib 400 ERROR_INVALID_GRANT (as_bytes ''The refresh token is invalid or expired'')
      | Some verified \<Rightarrow> mint_response lib clock cx (vt_scope verified) (vt_audience verified))"

definition empty_form_description :: "bytes option \<Rightarrow> bytes" where
  "empty_form_description content_type =
     as_bytes ''The request body must be '' @ FORM_CONTENT_TYPE @
     (case content_type of
        Some ct \<Rightarrow> as_bytes '', and this one was sent as '' @ [39] @ ct @ [39]
      | None \<Rightarrow> [])"

definition handle_token ::
  "oauth_lib \<Rightarrow> (nat \<Rightarrow> i64) \<Rightarrow> OAuthContext \<Rightarrow> OAuthRequest \<Rightarrow> (OAuthHttpResponse \<times> OAuthContext) panics" where
  "handle_token lib clock cx request =
     (if oq_method request \<noteq> Post then Ok (method_not_allowed lib (as_bytes ''POST''), cx)
      else
        let parameters = request_parameters request in
        if parameters = [] then
          Ok (oauth_error_response lib 400 ERROR_INVALID_REQUEST (empty_form_description (oq_content_type request)), cx)
        else rbind (presented_client lib (oq_authorization request) parameters) (\<lambda>presented.
          case presented of
            None \<Rightarrow> Ok (invalid_client lib False, cx)
          | Some client \<Rightarrow>
              if \<not> matches_client_id cx (pc_client_id client) \<or> \<not> matches_client_secret cx (pc_client_secret client)
              then Ok (into_credential_failure (invalid_client lib (pc_from_basic client)), cx)
              else Ok (case map_of parameters (as_bytes ''grant_type'') of
                None \<Rightarrow> (oauth_error_response lib 400 ERROR_INVALID_REQUEST (as_bytes ''grant_type is required''), cx)
              | Some grant_type \<Rightarrow>
                  if grant_type = as_bytes ''authorization_code'' then exchange_authorization_code lib clock cx parameters
                  else if grant_type = as_bytes ''refresh_token'' then (refresh_tokens lib clock cx parameters, cx)
                  else (oauth_error_response lib 400 ERROR_UNSUPPORTED_GRANT_TYPE
                          (as_bytes ''The grant type '' @ [39] @ grant_type @ [39] @ as_bytes '' is not supported''), cx))))"

section \<open>The whole server\<close>

definition resource_path_is_served :: "bytes \<Rightarrow> bytes list \<Rightarrow> bool" where
  "resource_path_is_served resource_path location_paths =
     list_ex (\<lambda>path.
       let location_path = normalize_resource_path path in
       if location_path = [47] then True
       else if eq_no_case resource_path location_path then True
       else case str_get_to resource_path (length location_path) of
         Some prefix \<Rightarrow>
           eq_no_case prefix location_path \<and> length location_path < length resource_path \<and>
           resource_path ! length location_path = 47
       | None \<Rightarrow> False) location_paths"

definition protected_resource_metadata :: "oauth_lib \<Rightarrow> OAuthContext \<Rightarrow> OAuthRequest \<Rightarrow> bytes \<Rightarrow> OAuthHttpResponse" where
  "protected_resource_metadata lib cx request resource_path =
     (if \<not> resource_path_is_served resource_path (oq_known_resource_paths request) then
        oauth_error_response lib 404 ERROR_INVALID_REQUEST (as_bytes ''No such protected resource on this endpoint'')
      else metadata_response
        (build_protected_resource_metadata lib (context_base_url cx (oq_base_url request)) resource_path))"

definition handle_oauth_request ::
  "oauth_lib \<Rightarrow> (nat \<Rightarrow> i64) \<Rightarrow> bytes \<Rightarrow> OAuthContext \<Rightarrow> OAuthRequest \<Rightarrow> (OAuthHttpResponse \<times> OAuthContext) panics" where
  "handle_oauth_request lib clock random cx request =
     (case oq_route request of
        AuthorizationServerMetadataRoute \<Rightarrow>
          Ok (if oq_method request \<noteq> Get then method_not_allowed lib (as_bytes ''GET'')
              else metadata_response
                (build_authorization_server_metadata lib (context_base_url cx (oq_base_url request))), cx)
      | ProtectedResourceMetadataRoute resource_path \<Rightarrow>
          Ok (if oq_method request \<noteq> Get then method_not_allowed lib (as_bytes ''GET'')
              else protected_resource_metadata lib cx request resource_path, cx)
      | AuthorizeRoute \<Rightarrow> Ok (handle_authorize lib clock random cx request)
      | TokenRoute \<Rightarrow> handle_token lib clock cx request)"

section \<open>Single use of codes\<close>

text \<open>
  What a store of single-use entries promises, and what follows for every history of it: an entry
  that is taken out was put in, is still live, and nothing has touched its key since. \<open>look\<close> reads a
  key, \<open>put\<close> may drop other entries, \<open>withdraw\<close> removes the key whatever it returns.
\<close>

datatype ('t, 'k, 'v) store_op = PutOp 't 'k 'v | TakeOp 't 'k

fun op_key :: "('t, 'k, 'v) store_op \<Rightarrow> 'k" where
  "op_key (PutOp t k v) = k"
| "op_key (TakeOp t k) = k"

fun run_op :: "('t \<Rightarrow> 'k \<Rightarrow> 'v \<Rightarrow> 's \<Rightarrow> 's) \<Rightarrow> ('t \<Rightarrow> 'k \<Rightarrow> 's \<Rightarrow> 'e option \<times> 's) \<Rightarrow> ('t, 'k, 'v) store_op \<Rightarrow> 's \<Rightarrow> 's" where
  "run_op put withdraw (PutOp t k v) s = put t k v s"
| "run_op put withdraw (TakeOp t k) s = snd (withdraw t k s)"

locale single_use_store =
  fixes look :: "'s \<Rightarrow> 'k \<Rightarrow> 'e option"
    and put :: "'t \<Rightarrow> 'k \<Rightarrow> 'v \<Rightarrow> 's \<Rightarrow> 's"
    and withdraw :: "'t \<Rightarrow> 'k \<Rightarrow> 's \<Rightarrow> 'e option \<times> 's"
    and entry_of :: "'t \<Rightarrow> 'v \<Rightarrow> 'e"
    and live :: "'t \<Rightarrow> 'e \<Rightarrow> bool"
    and store_ok :: "'s \<Rightarrow> bool"
  assumes put_ok: "store_ok s \<Longrightarrow> store_ok (put t k v s)"
    and withdraw_ok: "store_ok s \<Longrightarrow> store_ok (snd (withdraw t k s))"
    and put_look: "look (put t k v s) k = Some (entry_of t v)"
    and put_other: "store_ok s \<Longrightarrow> k' \<noteq> k \<Longrightarrow> look (put t k v s) k' = Some e \<Longrightarrow> look s k' = Some e"
    and withdraw_some: "store_ok s \<Longrightarrow> withdraw t k s = (Some e, s1) \<Longrightarrow> look s k = Some e \<and> live t e"
    and withdraw_gone: "look (snd (withdraw t k s)) k = None"
    and withdraw_other: "store_ok s \<Longrightarrow> look (snd (withdraw t k s)) k' = Some e \<Longrightarrow> look s k' = Some e"
begin

abbreviation after :: "('t, 'k, 'v) store_op list \<Rightarrow> 's \<Rightarrow> 's" where
  "after ops s \<equiv> fold (run_op put withdraw) ops s"

lemma run_op_ok: "store_ok s \<Longrightarrow> store_ok (run_op put withdraw x s)"
  by (cases x) (simp_all add: put_ok withdraw_ok)

lemma after_ok: "store_ok s \<Longrightarrow> store_ok (after ops s)"
  by (induction ops arbitrary: s) (simp_all add: run_op_ok)

lemma held_was_put:
  assumes "store_ok s" and "look s k = None" and "look (after ops s) k = Some e"
  shows "\<exists>pre t v post. ops = pre @ PutOp t k v # post \<and> e = entry_of t v \<and> list_all (\<lambda>x. op_key x \<noteq> k) post"
  using assms(3)
proof (induction ops rule: rev_induct)
  case Nil
  with assms(2) show ?case by simp
next
  case (snoc x ops)
  show ?case
  proof (cases "op_key x = k")
    case True
    with snoc.prems obtain t v where x: "x = PutOp t k v"
      by (cases x) (auto simp: withdraw_gone)
    with snoc.prems have e: "e = entry_of t v" by (simp add: put_look)
    show ?thesis unfolding x e by (intro exI [of _ ops] exI [of _ t] exI [of _ v] exI [of _ "[]"]) simp
  next
    case False
    with snoc.prems have "look (after ops s) k = Some e"
      by (cases x) (auto dest: put_other [OF after_ok [OF assms(1)] not_sym] withdraw_other [OF after_ok [OF assms(1)]])
    from snoc.IH [OF this] obtain pre t v post where
      "ops = pre @ PutOp t k v # post" "e = entry_of t v" "list_all (\<lambda>x. op_key x \<noteq> k) post" by blast
    with False show ?thesis by (intro exI [of _ pre] exI [of _ t] exI [of _ v] exI [of _ "post @ [x]"]) simp
  qed
qed

lemma withdrawn_once:
  assumes "store_ok s" and "look s k = None" and "withdraw t k (after ops s) = (Some e, s1)"
  shows "look s1 k = None \<and> live t e \<and>
    (\<exists>pre t0 v post. ops = pre @ PutOp t0 k v # post \<and> e = entry_of t0 v \<and> list_all (\<lambda>x. op_key x \<noteq> k) post)"
  using withdraw_some [OF after_ok [OF assms(1)] assms(3)] withdraw_gone [of t k "after ops s"]
    held_was_put [OF assms(1,2)] assms(3) by auto

end

text \<open>The store of codes: keys are unique, and at most \<open>MAX_CODES\<close> codes are held.\<close>

definition codes_ok :: "auth_codes \<Rightarrow> bool" where
  "codes_ok codes \<longleftrightarrow> distinct (map fst codes)"

abbreviation held_codes :: "auth_codes \<Rightarrow> bytes \<rightharpoonup> AuthCode" where
  "held_codes \<equiv> map_of"

definition issued_entry :: "i64 \<Rightarrow> IssuedAuthCode \<Rightarrow> AuthCode" where
  "issued_entry now issued =
     \<lparr>ac_redirect_uri = is_redirect_uri issued, ac_code_challenge = is_code_challenge issued,
      ac_scope = is_scope issued, ac_resource = is_resource issued, ac_expires_at_sec = now + AUTH_CODE_TTL_SEC\<rparr>"

text \<open>An operation carries its clock readings: the first sets the expiry of a new code, the last ages the store.\<close>

abbreviation put_code :: "(auth_codes \<Rightarrow> auth_codes) \<Rightarrow> i64 \<times> i64 \<Rightarrow> bytes \<Rightarrow> IssuedAuthCode \<Rightarrow> auth_codes \<Rightarrow> auth_codes" where
  "put_code iteration t \<equiv> issue_auth_code iteration (fst t) (snd t)"

abbreviation withdraw_code :: "i64 \<times> i64 \<Rightarrow> bytes \<Rightarrow> auth_codes \<Rightarrow> AuthCode option \<times> auth_codes" where
  "withdraw_code t \<equiv> take_code (snd t)"

lemma distinct_filter_fst: "distinct (map fst xs) \<Longrightarrow> distinct (map fst (filter P xs))"
  by (induction xs) auto

lemma map_of_filter_distinct:
  "distinct (map fst xs) \<Longrightarrow> map_of (filter P xs) k = Some e \<Longrightarrow> map_of xs k = Some e \<and> P (k, e)"
  by (auto simp: distinct_filter_fst)

lemma remove_expired_ok: "codes_ok codes \<Longrightarrow> codes_ok (remove_expired now codes)"
  by (simp add: codes_ok_def remove_expired_def distinct_filter_fst)

lemma remove_expired_Some:
  "codes_ok codes \<Longrightarrow> map_of (remove_expired now codes) k = Some e \<Longrightarrow>
   map_of codes k = Some e \<and> now <s ac_expires_at_sec e"
  unfolding codes_ok_def remove_expired_def by (drule (1) map_of_filter_distinct) simp

lemma add_code_look: "map_of (add_code iteration now code issued codes) code = Some issued"
  by (simp add: add_code_def Let_def update_conv')

lemma add_code_other:
  "codes_ok codes \<Longrightarrow> k \<noteq> code \<Longrightarrow> map_of (add_code iteration now code issued codes) k = Some e \<Longrightarrow>
   map_of codes k = Some e"
  by (auto simp: add_code_def Let_def update_conv' delete_conv' split: if_splits option.splits
      dest: remove_expired_Some)

lemma add_code_ok: "codes_ok codes \<Longrightarrow> codes_ok (add_code iteration now code issued codes)"
  using remove_expired_ok [of codes now]
  by (auto simp: add_code_def codes_ok_def Let_def intro!: distinct_update distinct_delete split: option.splits)

lemma take_code_Some:
  "codes_ok codes \<Longrightarrow> take_code now code codes = (Some e, codes1) \<Longrightarrow>
   map_of codes code = Some e \<and> now <s ac_expires_at_sec e"
  by (auto simp: take_code_def Let_def split: option.splits if_splits dest: remove_expired_Some)

lemma take_code_gone: "map_of (snd (take_code now code codes)) code = None"
  by (auto simp: take_code_def Let_def delete_conv' split: option.split)

lemma take_code_other:
  "codes_ok codes \<Longrightarrow> map_of (snd (take_code now code codes)) k = Some e \<Longrightarrow> map_of codes k = Some e"
  by (auto simp: take_code_def Let_def delete_conv' split: option.splits if_splits dest: remove_expired_Some)

lemma take_code_ok: "codes_ok codes \<Longrightarrow> codes_ok (snd (take_code now code codes))"
  using remove_expired_ok [of codes now]
  by (auto simp: take_code_def Let_def codes_ok_def split: option.split intro!: distinct_delete)

interpretation auth_codes: single_use_store held_codes "put_code iteration" withdraw_code
  "\<lambda>t. issued_entry (fst t)" "\<lambda>t e. snd t <s ac_expires_at_sec e" codes_ok for iteration
proof unfold_locales
  fix s :: auth_codes and t :: "i64 \<times> i64" and k k' v e s1
  show "codes_ok s \<Longrightarrow> codes_ok (put_code iteration t k v s)" by (simp add: issue_auth_code_def add_code_ok)
  show "codes_ok s \<Longrightarrow> codes_ok (snd (withdraw_code t k s))" by (rule take_code_ok)
  show "map_of (put_code iteration t k v s) k = Some (issued_entry (fst t) v)"
    by (simp add: issue_auth_code_def add_code_look issued_entry_def)
  show "codes_ok s \<Longrightarrow> k' \<noteq> k \<Longrightarrow> map_of (put_code iteration t k v s) k' = Some e \<Longrightarrow> map_of s k' = Some e"
    unfolding issue_auth_code_def by (rule add_code_other)
  show "codes_ok s \<Longrightarrow> withdraw_code t k s = (Some e, s1) \<Longrightarrow> map_of s k = Some e \<and> snd t <s ac_expires_at_sec e"
    by (rule take_code_Some)
  show "map_of (snd (withdraw_code t k s)) k = None" by (rule take_code_gone)
  show "codes_ok s \<Longrightarrow> map_of (snd (withdraw_code t k s)) k' = Some e \<Longrightarrow> map_of s k' = Some e"
    by (rule take_code_other)
qed

section \<open>The libraries\<close>

definition url_safe :: "u8 \<Rightarrow> bool" where
  "url_safe b \<longleftrightarrow> 65 \<le> b \<and> b \<le> 90 \<or> 97 \<le> b \<and> b \<le> 122 \<or> 48 \<le> b \<and> b \<le> 57 \<or> b = 45 \<or> b = 95"

text \<open>
  Documented behaviour: base64url without padding writes letters, digits, \<open>-\<close> and \<open>_\<close> and is decoded
  back; the JSON of a token payload can be written and is read back; a hash map is iterated over its
  entries, each once.
\<close>

definition oauth_lib_ok :: "oauth_lib \<Rightarrow> bool" where
  "oauth_lib_ok lib \<longleftrightarrow>
     (\<forall>x. ol_base64_url_decode lib (ol_base64_url_encode lib x) = Some x) \<and>
     (\<forall>x. list_all url_safe (ol_base64_url_encode lib x)) \<and>
     (\<forall>x. ol_base64_url_encode lib x = [] \<longleftrightarrow> x = []) \<and>
     (\<forall>p. \<exists>j. ol_json_payload lib p = Inr j \<and> ol_parse_payload lib j = Some p) \<and>
     (\<forall>xs. set (ol_iteration lib xs) = set xs)"

lemma lib_decode: "oauth_lib_ok lib \<Longrightarrow> ol_base64_url_decode lib (ol_base64_url_encode lib x) = Some x"
  unfolding oauth_lib_ok_def by blast

lemma lib_safe: "oauth_lib_ok lib \<Longrightarrow> list_all url_safe (ol_base64_url_encode lib x)"
  unfolding oauth_lib_ok_def by blast

lemma lib_no_dot: "oauth_lib_ok lib \<Longrightarrow> 46 \<notin> set (ol_base64_url_encode lib x)"
  by (drule lib_safe [of _ x]) (auto simp: list_all_iff url_safe_def)

lemma lib_encode_empty: "oauth_lib_ok lib \<Longrightarrow> ol_base64_url_encode lib x = [] \<longleftrightarrow> x = []"
  unfolding oauth_lib_ok_def by blast

lemma lib_payload: "oauth_lib_ok lib \<Longrightarrow> \<exists>j. ol_json_payload lib p = Inr j \<and> ol_parse_payload lib j = Some p"
  unfolding oauth_lib_ok_def by blast

lemma lib_iteration: "oauth_lib_ok lib \<Longrightarrow> set (ol_iteration lib xs) = set xs"
  unfolding oauth_lib_ok_def by blast

lemma not_sle_iff: "\<not> a \<le>s b \<longleftrightarrow> b <s a"
  by (simp add: word_sless_alt word_sle_eq not_le)

lemma split_once_here: "b \<notin> set l \<Longrightarrow> split_once b (l @ b # r) = Some (l, r)"
  by (induction l) auto

lemma split_once_Some: "split_once b s = Some (l, r) \<Longrightarrow> s = l @ b # r \<and> b \<notin> set l"
  by (induction s arbitrary: l) (auto split: if_splits)

lemma split_once_None: "split_once b s = None \<longleftrightarrow> b \<notin> set s"
  by (induction s) auto

lemma rsplit_once_here: "b \<notin> set r \<Longrightarrow> rsplit_once b (l @ b # r) = Some (l, r)"
  by (simp add: rsplit_once_def split_once_here)

lemma rsplit_once_Some: "rsplit_once b s = Some (l, r) \<Longrightarrow> s = l @ b # r \<and> b \<notin> set r"
  by (auto simp: rsplit_once_def dest!: split_once_Some) (metis append.assoc append_Cons append_Nil rev_append rev_rev_ident rev_singleton_conv rev.simps(2))

lemma starts_with_append [simp]: "starts_with (p @ s) p"
  by (simp add: starts_with_def)

section \<open>Tokens that were minted are accepted, and nothing else is\<close>

lemma kind_parse_as_str [simp]: "kind_parse (kind_as_str k) = Some k"
  by (cases k) (simp_all add: kind_parse_def kind_as_str_def as_bytes_def)

lemma mint_ok:
  assumes "oauth_lib_ok lib"
  shows "\<exists>tok. mint lib key now kind scope audience ttl = Inr tok"
proof -
  obtain j where "ol_json_payload lib \<lparr>tp_k = kind_as_str kind, tp_exp = now + ttl, tp_sc = scope, tp_aud = audience\<rparr> = Inr j"
    using lib_payload [OF assms] by blast
  then show ?thesis by (simp add: mint_def Let_def)
qed

lemma verify_mint:
  assumes "oauth_lib_ok lib" and "mint lib key now kind scope audience ttl = Inr tok"
  shows "verify lib key later tok expected =
    (if expected = kind \<and> later <s now + ttl then Some \<lparr>vt_scope = scope, vt_audience = audience\<rparr> else None)"
proof -
  let ?p = "\<lparr>tp_k = kind_as_str kind, tp_exp = now + ttl, tp_sc = scope, tp_aud = audience\<rparr>"
  obtain j where j: "ol_json_payload lib ?p = Inr j" "ol_parse_payload lib j = Some ?p"
    using lib_payload [OF assms(1)] by blast
  let ?body = "VERSION @ 46 # ol_base64_url_encode lib j"
  let ?mac = "hmac_sha256 (ol_sha256 lib) key ?body"
  have tok: "tok = ?body @ 46 # ol_base64_url_encode lib ?mac"
    using assms(2) j(1) by (simp add: mint_def Let_def)
  have r: "rsplit_once 46 tok = Some (?body, ol_base64_url_encode lib ?mac)"
    unfolding tok by (rule rsplit_once_here) (rule lib_no_dot [OF assms(1)])
  have "46 \<notin> set VERSION" by (simp add: VERSION_def as_bytes_def)
  then have s: "split_once 46 ?body = Some (VERSION, ol_base64_url_encode lib j)" by (rule split_once_here)
  show ?thesis
    by (auto simp: verify_def r s j(2) lib_decode [OF assms(1)] not_sle_iff [symmetric])
qed

text \<open>The signature is over everything before the last dot, and is checked under the key of the block.\<close>

lemma verify_sound:
  assumes "verify lib key now tok expected = Some vt"
  obtains body sig json payload pre where
    "tok = body @ 46 # sig" "ol_base64_url_decode lib sig = Some (hmac_sha256 (ol_sha256 lib) key body)"
    "body = pre @ 46 # json" "starts_with body VERSION"
    "Option.bind (ol_base64_url_decode lib json) (ol_parse_payload lib) = Some payload"
    "kind_parse (tp_k payload) = Some expected" "now <s tp_exp payload"
    "vt = \<lparr>vt_scope = tp_sc payload, vt_audience = tp_aud payload\<rparr>"
proof -
  from assms obtain body sig presented pre json bin payload kind where
    *: "rsplit_once 46 tok = Some (body, sig)" "starts_with body VERSION" "ol_base64_url_decode lib sig = Some presented"
      "hmac_sha256 (ol_sha256 lib) key body = presented" "split_once 46 body = Some (pre, json)"
      "ol_base64_url_decode lib json = Some bin" "ol_parse_payload lib bin = Some payload"
      "kind_parse (tp_k payload) = Some kind" "kind = expected" "\<not> tp_exp payload \<le>s now"
      "vt = \<lparr>vt_scope = tp_sc payload, vt_audience = tp_aud payload\<rparr>"
    unfolding verify_def by (auto simp: bind_eq_Some_conv split: if_splits)
  then show ?thesis
    using that [of body sig pre json payload] rsplit_once_Some [OF *(1)] split_once_Some [OF *(5)]
    by (auto simp: not_sle_iff)
qed

section \<open>The two endpoints\<close>

lemma mint_tokens_ok:
  assumes "oauth_lib_ok lib"
  obtains minted where "mint_tokens lib cx now now1 scope audience = Inr minted"
    "mint lib (oc_signer cx) now Access scope audience (oc_access_token_ttl_sec cx) = Inr (mt_access_token minted)"
    "mt_scope minted = scope" "mt_expires_in minted = oc_access_token_ttl_sec cx"
    "mt_refresh_token minted \<noteq> None \<longleftrightarrow> scope_includes scope OFFLINE_SCOPE"
proof -
  obtain a where a: "mint lib (oc_signer cx) now Access scope audience (oc_access_token_ttl_sec cx) = Inr a"
    using mint_ok [OF assms] by blast
  obtain r where r: "mint lib (oc_signer cx) now1 Refresh scope audience (oc_refresh_token_ttl_sec cx) = Inr r"
    using mint_ok [OF assms] by blast
  show ?thesis
    by (rule that [of "\<lparr>mt_access_token = a, mt_refresh_token = (if scope_includes scope OFFLINE_SCOPE then Some r else None),
          mt_expires_in = oc_access_token_ttl_sec cx, mt_scope = scope\<rparr>"]) (simp_all add: mint_tokens_def a r)
qed

text \<open>Only a minted pair of tokens is answered with 200.\<close>

lemma status_simps [simp]:
  "or_status_code (oauth_error_response lib n e d) = n"
  "or_status_code (add_response_header nm v r) = or_status_code r"
  "or_status_code (into_credential_failure r) = or_status_code r"
  "or_status_code (json_response n b) = n"
  "or_status_code (invalid_client lib basic) = 401"
  "or_status_code (method_not_allowed lib m) = 405"
  by (simp_all add: oauth_error_response_def add_response_header_def into_credential_failure_def json_response_def
      invalid_client_def method_not_allowed_def Let_def)

lemma handle_token_200:
  assumes "handle_token lib clock cx request = Ok (resp, cx1)" and "or_status_code resp = 200"
  obtains client gt where
    "oq_method request = Post" "presented_client lib (oq_authorization request) (request_parameters request) = Ok (Some client)"
    "matches_client_id cx (pc_client_id client)" "matches_client_secret cx (pc_client_secret client)"
    "map_of (request_parameters request) (as_bytes ''grant_type'') = Some gt"
    "gt = as_bytes ''authorization_code'' \<and> exchange_authorization_code lib clock cx (request_parameters request) = (resp, cx1) \<or>
     gt = as_bytes ''refresh_token'' \<and> refresh_tokens lib clock cx (request_parameters request) = resp \<and> cx1 = cx"
  using assms that
  by (auto simp: handle_token_def Let_def rbind_eq_Ok split: if_splits option.splits)

lemma exchange_200:
  assumes "exchange_authorization_code lib clock cx ps = (resp, cx1)" and "or_status_code resp = 200" and "codes_ok (oc_codes cx)"
  obtains issued where
    "map_of (oc_codes cx) (get_param ps ''code'') = Some issued" "clock 0 <s ac_expires_at_sec issued"
    "get_param ps ''redirect_uri'' = ac_redirect_uri issued"
    "ol_base64_url_encode lib (ol_sha256 lib (get_param ps ''code_verifier'')) = ac_code_challenge issued"
    "resp = mint_response lib clock cx1 (ac_scope issued) (ac_resource issued)"
    "map_of (oc_codes cx1) (get_param ps ''code'') = None"
proof -
  let ?code = "get_param ps ''code''"
  obtain r codes1 where t: "take_code (clock 0) ?code (oc_codes cx) = (r, codes1)" by (cases "take_code (clock 0) ?code (oc_codes cx)")
  from assms(1,2) t obtain issued where i: "r = Some issued" "cx1 = cx\<lparr>oc_codes := codes1\<rparr>"
      "get_param ps ''redirect_uri'' = ac_redirect_uri issued"
      "verify_s256 (ol_sha256 lib) (ol_base64_url_encode lib) (get_param ps ''code_verifier'') (ac_code_challenge issued)"
      "resp = mint_response lib clock cx1 (ac_scope issued) (ac_resource issued)"
    by (auto simp: exchange_authorization_code_def Let_def split: if_splits option.splits)
  show ?thesis
    using that [of issued] i take_code_Some [OF assms(3) t [unfolded i(1)]] take_code_gone [of "clock 0" ?code "oc_codes cx"] t
    by (auto simp: verify_s256_def split: if_splits)
qed

lemma refresh_200:
  assumes "refresh_tokens lib clock cx ps = resp" and "or_status_code resp = 200"
  obtains vt where "verify lib (oc_signer cx) (clock 0) (get_param ps ''refresh_token'') Refresh = Some vt"
    "resp = mint_response lib clock cx (vt_scope vt) (vt_audience vt)"
  using assms that by (auto simp: refresh_tokens_def Let_def split: if_splits option.splits)

end
