(* ===== verification/Ip_Filter.thy ===== *)
theory Ip_Filter
  imports H1_Head "HOL-Library.AList"
begin

text \<open>
  Which addresses may connect: white lists (\<open>src/src/types/whitelisted_ip.rs\<close>,
  \<open>whitelisted_ip_list.rs\<close>), the block list that counts failures
  (\<open>src/src/app/ip_blocklist.rs\<close>) and its use by the accept loop
  (\<open>src/src/tcp_listener/listen_tcp_server.rs\<close>). A moment is its microseconds, the clock is an
  argument of each operation; \<open>duration_since\<close> with \<open>get_full_seconds\<close> and \<open>add_seconds\<close> are code
  of \<open>rust_extensions\<close>, the fields of a \<open>clock_lib\<close>. The hash map is an association list.
\<close>

section \<open>Addresses\<close>

datatype IpAddr = V4 u8 u8 u8 u8 | V6 bytes

definition octets_value :: "u8 \<Rightarrow> u8 \<Rightarrow> u8 \<Rightarrow> u8 \<Rightarrow> u32" where
  "octets_value a b c d = push_bit 24 (ucast a) OR push_bit 16 (ucast b) OR push_bit 8 (ucast c) OR ucast d"

definition get_ip_value :: "IpAddr \<Rightarrow> u32 panics" where
  "get_ip_value ip = (case ip of V4 a b c d \<Rightarrow> Ok (octets_value a b c d) | V6 _ \<Rightarrow> Panic)"

text \<open>The text of an address: \<open><<\<close> drops the bits that leave the word, so an octet above 255 is not noticed.\<close>

fun str_ip_loop :: "nat \<Rightarrow> bytes list \<Rightarrow> u32 \<Rightarrow> u32 panics" where
  "str_ip_loop i [] result = Ok result"
| "str_ip_loop i (v # vs) result =
     (if i > 3 then Panic
      else case parse_unsigned (2 ^ 32) v of
        None \<Rightarrow> Panic
      | Some n \<Rightarrow> str_ip_loop (Suc i) vs (result OR push_bit (24 - 8 * i) (of_nat n)))"

definition str_ip_value :: "bytes \<Rightarrow> u32 panics" where
  "str_ip_value s = str_ip_loop 0 (split_byte 46 s []) 0"

definition to_ip :: "u32 \<Rightarrow> IpAddr" where
  "to_ip ip = V4 (ucast (drop_bit 24 ip)) (ucast (drop_bit 16 ip)) (ucast (drop_bit 8 ip)) (ucast ip)"

section \<open>White lists\<close>

datatype WhitelistedIp = SingleIp u32 | IpRange u32 u32

definition is_my_ip :: "WhitelistedIp \<Rightarrow> IpAddr \<Rightarrow> bool panics" where
  "is_my_ip w other_ip =
     rbind (get_ip_value other_ip) (\<lambda>v.
       Ok (case w of SingleIp ip \<Rightarrow> ip = v | IpRange ip_from ip_to \<Rightarrow> ip_from \<le> v \<and> v \<le> ip_to))"

definition ip_text :: "u32 \<Rightarrow> bytes" where
  "ip_text ip =
     (case to_ip ip of
        V4 a b c d \<Rightarrow> dec_digits (unat a) @ 46 # dec_digits (unat b) @ 46 # dec_digits (unat c) @ 46 # dec_digits (unat d)
      | V6 _ \<Rightarrow> [])"

definition whitelisted_ip_to_string :: "WhitelistedIp \<Rightarrow> bytes" where
  "whitelisted_ip_to_string w =
     (case w of SingleIp ip \<Rightarrow> ip_text ip | IpRange ip_from ip_to \<Rightarrow> ip_text ip_from @ 45 # ip_text ip_to)"

definition new_white_item :: "bytes \<Rightarrow> WhitelistedIp panics" where
  "new_white_item itm =
     (case split_byte 45 itm [] of
        [] \<Rightarrow> Panic
      | [left] \<Rightarrow> rbind (str_ip_value left) (\<lambda>ip. Ok (SingleIp ip))
      | left # right # _ \<Rightarrow>
          rbind (str_ip_value left) (\<lambda>ip_from. rbind (str_ip_value right) (\<lambda>ip_to. Ok (IpRange ip_from ip_to))))"

fun new_white_list :: "bytes list \<Rightarrow> WhitelistedIp list panics" where
  "new_white_list [] = Ok []"
| "new_white_list (itm # src) = rbind (new_white_item itm) (\<lambda>i. rbind (new_white_list src) (\<lambda>is. Ok (i # is)))"

fun white_loop :: "WhitelistedIp list \<Rightarrow> IpAddr \<Rightarrow> bool panics" where
  "white_loop [] ip = Ok False"
| "white_loop (itm # items) ip = rbind (is_my_ip itm ip) (\<lambda>mine. if mine then Ok True else white_loop items ip)"

definition is_whitelisted :: "WhitelistedIp list \<Rightarrow> IpAddr \<Rightarrow> bool panics" where
  "is_whitelisted items ip = (if items = [] then Ok True else white_loop items ip)"

definition to_list_of_string :: "WhitelistedIp list \<Rightarrow> bytes list" where
  "to_list_of_string items = map whitelisted_ip_to_string items"

section \<open>The block list\<close>

definition WINDOW_SECS :: int where "WINDOW_SECS = 15"
definition HARD_FAIL_THRESHOLD :: u16 where "HARD_FAIL_THRESHOLD = 5"
definition SOFT_FAIL_THRESHOLD :: u16 where "SOFT_FAIL_THRESHOLD = 30"
definition BLOCK_SECS :: int where "BLOCK_SECS = 5 * 60"

datatype FailureSeverity = Hard | Soft

record IpEntry =
  ie_hard_count :: u16
  ie_soft_count :: u16
  ie_window_start :: int
  ie_blocked_until :: "int option"

record IpBlocklist =
  bl_map :: "(IpAddr \<times> IpEntry) list"
  bl_white_list :: "WhitelistedIp list option"

record clock_lib =
  full_seconds_since :: "int \<Rightarrow> int \<Rightarrow> int"
  add_seconds :: "int \<Rightarrow> int \<Rightarrow> int"

definition new_blocklist :: IpBlocklist where
  "new_blocklist = \<lparr>bl_map = [], bl_white_list = None\<rparr>"

definition set_white_list :: "bytes list option \<Rightarrow> IpBlocklist \<Rightarrow> IpBlocklist panics" where
  "set_white_list src bl =
     (case src of
        None \<Rightarrow> Ok (bl\<lparr>bl_white_list := None\<rparr>)
      | Some items \<Rightarrow>
          if items = [] then Ok (bl\<lparr>bl_white_list := None\<rparr>)
          else rbind (new_white_list items) (\<lambda>l. Ok (bl\<lparr>bl_white_list := Some l\<rparr>)))"

definition is_white_listed :: "IpBlocklist \<Rightarrow> IpAddr \<Rightarrow> bool panics" where
  "is_white_listed bl ip = (case bl_white_list bl of Some l \<Rightarrow> is_whitelisted l ip | None \<Rightarrow> Ok False)"

definition blocked_at :: "int \<Rightarrow> int option \<Rightarrow> bool" where
  "blocked_at now until = (case until of Some u \<Rightarrow> u > now | None \<Rightarrow> False)"

definition is_blocked :: "int \<Rightarrow> IpBlocklist \<Rightarrow> IpAddr \<Rightarrow> bool panics" where
  "is_blocked now bl ip =
     rbind (is_white_listed bl ip) (\<lambda>white.
       if white then Ok False
       else case map_of (bl_map bl) ip of
         None \<Rightarrow> Ok False
       | Some entry \<Rightarrow> Ok (blocked_at now (ie_blocked_until entry)))"

definition register_success :: "IpAddr \<Rightarrow> IpBlocklist \<Rightarrow> IpBlocklist" where
  "register_success ip bl = bl\<lparr>bl_map := AList.delete ip (bl_map bl)\<rparr>"

definition unblock :: "IpAddr \<Rightarrow> IpBlocklist \<Rightarrow> bool \<times> IpBlocklist" where
  "unblock ip bl = (map_of (bl_map bl) ip \<noteq> None, bl\<lparr>bl_map := AList.delete ip (bl_map bl)\<rparr>)"

definition saturating_inc :: "u16 \<Rightarrow> u16" where
  "saturating_inc c = (if c = - 1 then c else c + 1)"

definition fail_entry :: "clock_lib \<Rightarrow> int \<Rightarrow> FailureSeverity \<Rightarrow> IpEntry \<Rightarrow> IpEntry" where
  "fail_entry cl now severity e0 =
     (let e1 = (if full_seconds_since cl now (ie_window_start e0) > WINDOW_SECS
                then e0\<lparr>ie_hard_count := 0, ie_soft_count := 0, ie_window_start := now\<rparr> else e0);
          e2 = (case severity of
                  Hard \<Rightarrow> e1\<lparr>ie_hard_count := saturating_inc (ie_hard_count e1)\<rparr>
                | Soft \<Rightarrow> e1\<lparr>ie_soft_count := saturating_inc (ie_soft_count e1)\<rparr>)
      in if ie_hard_count e2 \<ge> HARD_FAIL_THRESHOLD \<or> ie_soft_count e2 \<ge> SOFT_FAIL_THRESHOLD
         then e2\<lparr>ie_blocked_until := Some (add_seconds cl now BLOCK_SECS)\<rparr> else e2)"

text \<open>The result says whether the address became blocked by this failure, which is what is logged.\<close>

definition register_failure ::
  "clock_lib \<Rightarrow> int \<Rightarrow> IpAddr \<Rightarrow> FailureSeverity \<Rightarrow> IpBlocklist \<Rightarrow> (bool \<times> IpBlocklist) panics" where
  "register_failure cl now ip severity bl =
     rbind (is_white_listed bl ip) (\<lambda>white.
       if white then Ok (False, bl)
       else
         let e0 = (case map_of (bl_map bl) ip of
                     Some e \<Rightarrow> e
                   | None \<Rightarrow> \<lparr>ie_hard_count = 0, ie_soft_count = 0, ie_window_start = now, ie_blocked_until = None\<rparr>);
             was_blocked = blocked_at now (ie_blocked_until e0);
             e1 = fail_entry cl now severity e0
         in Ok (blocked_at now (ie_blocked_until e1) \<and> \<not> was_blocked,
                bl\<lparr>bl_map := AList.update ip e1 (bl_map bl)\<rparr>))"

definition cleanup :: "clock_lib \<Rightarrow> int \<Rightarrow> IpBlocklist \<Rightarrow> nat \<times> IpBlocklist" where
  "cleanup cl now bl =
     (let kept = filter (\<lambda>(_, e). blocked_at now (ie_blocked_until e) \<or>
                   full_seconds_since cl now (ie_window_start e) \<le> WINDOW_SECS) (bl_map bl)
      in (length (filter (\<lambda>(_, e). blocked_at now (ie_blocked_until e)) kept), bl\<lparr>bl_map := kept\<rparr>))"

text \<open>What the accept loop does with a connection; a panic there ends the loop's task.\<close>

datatype accepted = HandleConnection | DropConnectionOf

definition accept_connection :: "int \<Rightarrow> IpBlocklist \<Rightarrow> IpAddr \<Rightarrow> accepted panics" where
  "accept_connection now bl ip =
     rbind (is_blocked now bl ip) (\<lambda>blocked. Ok (if blocked then DropConnectionOf else HandleConnection))"

section \<open>Addresses as text\<close>

lemma split_byte_none: "b \<notin> set s \<Longrightarrow> split_byte b s cur = [cur @ s]"
  by (induction s arbitrary: cur) auto

lemma split_byte_sep: "b \<notin> set s \<Longrightarrow> split_byte b (s @ b # rest) cur = (cur @ s) # split_byte b rest []"
  by (induction s arbitrary: cur) auto

lemma digits_no_sep: "46 \<notin> set (dec_digits n)" "45 \<notin> set (dec_digits n)"
  using dec_digits_digit [of n] by (auto simp: list_all_iff is_digit_def)

lemma parse_digits: "n < bound \<Longrightarrow> parse_unsigned bound (dec_digits n) = Some n"
proof -
  assume n: "n < bound"
  note d = dec_digits_digit [of n]
  then have "hd (dec_digits n) \<noteq> 43" by (cases "dec_digits n") (auto simp: is_digit_def)
  with n d show ?thesis
    by (cases "dec_digits n") (auto simp: parse_unsigned_def Let_def dest: arg_cong [where f = dec_value])
qed

lemma parse_octet: "parse_unsigned 4294967296 (dec_digits (unat (a :: u8))) = Some (unat a)"
  by (rule parse_digits, rule less_trans [OF unat_u8_less]) simp

lemma str_ip_value_text:
  "str_ip_value (dec_digits (unat a) @ 46 # dec_digits (unat b) @ 46 # dec_digits (unat c) @ 46 # dec_digits (unat (d :: u8))) =
   Ok (octets_value a b c d)"
  by (simp add: str_ip_value_def split_byte_sep split_byte_none digits_no_sep parse_octet octets_value_def or.assoc)

lemma octets_to_ip: "(case to_ip ip of V4 a b c d \<Rightarrow> octets_value a b c d) = ip"
proof -
  have "octets_value (ucast (drop_bit 24 ip)) (ucast (drop_bit 16 ip)) (ucast (drop_bit 8 ip)) (ucast ip) = ip"
    unfolding octets_value_def
  proof (rule bit_word_eqI)
    fix n
    assume "n < LENGTH(32)"
    then consider "n < 8" | "8 \<le> n" "n < 16" | "16 \<le> n" "n < 24" | "24 \<le> n" "n < 32" by force
    then show "bit (push_bit 24 (ucast (ucast (drop_bit 24 ip) :: u8)) OR push_bit 16 (ucast (ucast (drop_bit 16 ip) :: u8)) OR
        push_bit 8 (ucast (ucast (drop_bit 8 ip) :: u8)) OR ucast (ucast ip :: u8) :: u32) n = bit ip n"
      by cases (auto simp: bit_simps)
  qed
  then show ?thesis by (simp add: to_ip_def)
qed

lemma str_ip_value_ip_text: "str_ip_value (ip_text ip) = Ok ip"
  using octets_to_ip [of ip] by (simp add: ip_text_def to_ip_def str_ip_value_text)

lemma ip_text_no_dash: "45 \<notin> set (ip_text ip)"
  using digits_no_sep(2) by (auto simp: ip_text_def to_ip_def)

lemma new_white_item_to_string: "new_white_item (whitelisted_ip_to_string w) = Ok w"
  by (cases w)
    (simp_all add: new_white_item_def whitelisted_ip_to_string_def split_byte_none split_byte_sep ip_text_no_dash
      str_ip_value_ip_text)

lemma new_white_list_strings: "new_white_list (to_list_of_string l) = Ok l"
  by (induction l) (simp_all add: to_list_of_string_def new_white_item_to_string)

definition in_white_item :: "u32 \<Rightarrow> WhitelistedIp \<Rightarrow> bool" where
  "in_white_item v w = (case w of SingleIp ip \<Rightarrow> ip = v | IpRange a b \<Rightarrow> a \<le> v \<and> v \<le> b)"

lemma white_loop_V4: "white_loop l (V4 a b c d) = Ok (list_ex (in_white_item (octets_value a b c d)) l)"
  by (induction l) (simp_all add: is_my_ip_def get_ip_value_def in_white_item_def)

lemma white_loop_V6: "l \<noteq> [] \<Longrightarrow> white_loop l (V6 x) = Panic"
  by (cases l) (simp_all add: is_my_ip_def get_ip_value_def)

section \<open>Counting failures\<close>

definition clock_ok :: "clock_lib \<Rightarrow> bool" where
  "clock_ok cl \<longleftrightarrow>
     (\<forall>now start. start \<le> now \<longrightarrow> full_seconds_since cl now start = (now - start) div 1000000) \<and>
     (\<forall>now s. add_seconds cl now s = now + s * 1000000)"

definition clock_ref :: clock_lib where
  "clock_ref = \<lparr>full_seconds_since = (\<lambda>now start. (now - start) div 1000000), add_seconds = (\<lambda>now s. now + s * 1000000)\<rparr>"

lemma clock_ref_ok: "clock_ok clock_ref"
  by (simp add: clock_ok_def clock_ref_def)

text \<open>A history of failures of one address, oldest first.\<close>

fun register_all :: "clock_lib \<Rightarrow> IpAddr \<Rightarrow> (int \<times> FailureSeverity) list \<Rightarrow> IpBlocklist \<Rightarrow> IpBlocklist panics" where
  "register_all cl ip [] bl = Ok bl"
| "register_all cl ip ((now, sev) # fs) bl =
     rbind (register_failure cl now ip sev bl) (\<lambda>(_, bl1). register_all cl ip fs bl1)"

definition failures :: "FailureSeverity \<Rightarrow> (int \<times> FailureSeverity) list \<Rightarrow> nat" where
  "failures sev fs = length (filter (\<lambda>f. snd f = sev) fs)"

definition too_many :: "(int \<times> FailureSeverity) list \<Rightarrow> bool" where
  "too_many fs \<longleftrightarrow> failures Hard fs \<ge> 5 \<or> failures Soft fs \<ge> 30"

definition count16 :: "nat \<Rightarrow> u16" where
  "count16 n = of_nat (min 65535 n)"

text \<open>The entry of an address after the failures \<open>fs\<close>, all in one window that began at \<open>t0\<close>.\<close>

definition entry_after :: "int \<Rightarrow> (int \<times> FailureSeverity) list \<Rightarrow> IpEntry" where
  "entry_after t0 fs =
     \<lparr>ie_hard_count = count16 (failures Hard fs), ie_soft_count = count16 (failures Soft fs),
      ie_window_start = t0,
      ie_blocked_until = (if too_many fs then Some (fst (last fs) + 300 * 1000000) else None)\<rparr>"

lemma saturating_inc_count: "saturating_inc (count16 n) = count16 (Suc n)"
proof (cases "n < 65535")
  case True
  have m: "(- 1 :: u16) = of_nat 65535" by simp
  have "(of_nat n :: u16) \<noteq> - 1"
  proof
    assume "(of_nat n :: u16) = - 1"
    then have "unat (of_nat n :: u16) = unat (of_nat 65535 :: u16)" by (simp only: m)
    with True show False by (simp only: unat_of_nat) simp
  qed
  moreover from True have "min 65535 n = n" "min 65535 (Suc n) = Suc n" by simp_all
  ultimately show ?thesis by (simp only: saturating_inc_def count16_def of_nat_Suc if_False add.commute)
qed (simp add: saturating_inc_def count16_def min_def)

lemma count_ge: "HARD_FAIL_THRESHOLD \<le> count16 n \<longleftrightarrow> 5 \<le> n" "SOFT_FAIL_THRESHOLD \<le> count16 n \<longleftrightarrow> 30 \<le> n"
  by (auto simp: HARD_FAIL_THRESHOLD_def SOFT_FAIL_THRESHOLD_def count16_def word_le_nat_alt unat_of_nat min_def)

lemma failures_snoc: "failures sev (fs @ [(t, s)]) = (if s = sev then Suc (failures sev fs) else failures sev fs)"
  by (simp add: failures_def)

lemma fail_entry_after:
  assumes "clock_ok cl" and "t0 \<le> now" and "now - t0 < 16 * 1000000"
  shows "fail_entry cl now sev (entry_after t0 fs) = entry_after t0 (fs @ [(now, sev)])"
proof -
  have w: "\<not> full_seconds_since cl now t0 > WINDOW_SECS"
    using assms by (simp add: clock_ok_def WINDOW_SECS_def)
  have b: "add_seconds cl now BLOCK_SECS = now + 300 * 1000000"
    using assms(1) by (simp add: clock_ok_def BLOCK_SECS_def)
  have grow: "too_many fs \<Longrightarrow> too_many (fs @ [(now, sev)])"
    by (auto simp: too_many_def failures_snoc)
  show ?thesis
    using grow w b
    by (cases sev) (simp_all add: fail_entry_def entry_after_def Let_def saturating_inc_count count_ge too_many_def failures_snoc)
qed

lemma register_all_after:
  assumes "clock_ok cl" and "is_white_listed bl ip = Ok False" and "map_of (bl_map bl) ip = Some (entry_after t0 fs)"
    and "list_all (\<lambda>f. t0 \<le> fst f \<and> fst f - t0 < 16 * 1000000) gs"
  shows "\<exists>bl1. register_all cl ip gs bl = Ok bl1 \<and> map_of (bl_map bl1) ip = Some (entry_after t0 (fs @ gs)) \<and>
    bl_white_list bl1 = bl_white_list bl \<and> (\<forall>other. other \<noteq> ip \<longrightarrow> map_of (bl_map bl1) other = map_of (bl_map bl) other)"
  using assms(2-4)
proof (induction gs arbitrary: bl fs)
  case (Cons g gs)
  obtain now sev where g: "g = (now, sev)" by (cases g)
  let ?bl = "bl\<lparr>bl_map := AList.update ip (entry_after t0 (fs @ [g])) (bl_map bl)\<rparr>"
  have "fail_entry cl now sev (entry_after t0 fs) = entry_after t0 (fs @ [g])"
    using Cons.prems(3) g fail_entry_after [OF assms(1)] by simp
  then obtain b where r: "register_failure cl now ip sev bl = Ok (b, ?bl)"
    using Cons.prems(1,2) by (simp add: register_failure_def Let_def)
  have "is_white_listed ?bl ip = Ok False" "map_of (bl_map ?bl) ip = Some (entry_after t0 (fs @ [g]))"
    using Cons.prems(1) by (simp_all add: is_white_listed_def update_conv)
  from Cons.IH [OF this] Cons.prems(3) r g show ?case by (auto simp: update_conv)
qed auto

lemma register_first:
  assumes "clock_ok cl" and "is_white_listed bl ip = Ok False" and "map_of (bl_map bl) ip = None"
  shows "\<exists>b. register_failure cl t0 ip sev bl =
    Ok (b, bl\<lparr>bl_map := AList.update ip (entry_after t0 [(t0, sev)]) (bl_map bl)\<rparr>)"
proof -
  have "entry_after t0 [] = \<lparr>ie_hard_count = 0, ie_soft_count = 0, ie_window_start = t0, ie_blocked_until = None\<rparr>"
    by (simp add: entry_after_def failures_def count16_def too_many_def)
  with fail_entry_after [OF assms(1), of t0 t0 sev "[]"] assms(2,3) show ?thesis
    by (simp add: register_failure_def Let_def)
qed

section \<open>Properties\<close>



text \<open>
  White lists survive printing, and mean what they say: the list parsed from the printed
  items is the list, and it admits an IPv4 address exactly when it is empty or one of its items is
  that address or a range around it.
\<close>

theorem white_list_roundtrip:
  "new_white_list (to_list_of_string l) = Ok l \<and>
   is_whitelisted l (V4 a b c d) = Ok (l = [] \<or>
     list_ex (\<lambda>w. case w of SingleIp ip \<Rightarrow> ip = octets_value a b c d
                  | IpRange x y \<Rightarrow> x \<le> octets_value a b c d \<and> octets_value a b c d \<le> y) l)"
  using new_white_list_strings [of l] white_loop_V4 [of l a b c d]
  by (simp add: is_whitelisted_def in_white_item_def [abs_def])

text \<open>
  C35. With a global white list configured, an IPv6 peer makes the check of the accept loop panic:
  whenever the list parses, every IPv6 address panics in \<open>is_blocked\<close>, in \<open>register_failure\<close> and so
  in the accept step, which takes the loop of the port down.
\<close>

theorem ipv6_peer_panics:
  assumes "set_white_list (Some items) bl = Ok bl1" and "items \<noteq> []"
  shows "accept_connection now bl1 (V6 x) = Panic \<and> register_failure cl now (V6 x) sev bl1 = Panic"
proof -
  have "length l = length src" if "new_white_list src = Ok l" for src l
    using that by (induction src arbitrary: l) (auto simp: rust_simps)
  with assms obtain l where "bl_white_list bl1 = Some l" "l \<noteq> []"
    by (fastforce simp: set_white_list_def rust_simps)
  then have "is_white_listed bl1 (V6 x) = Panic"
    by (simp add: is_white_listed_def is_whitelisted_def white_loop_V6)
  then show ?thesis by (simp add: accept_connection_def is_blocked_def register_failure_def)
qed

theorem ipv6_peer_panics_witness:
  "\<exists>bl1. set_white_list (Some [ip_text 1]) new_blocklist = Ok bl1 \<and> accept_connection 0 bl1 (V6 []) = Panic"
proof -
  have "new_white_list [ip_text 1] = Ok [SingleIp 1]"
    using new_white_list_strings [of "[SingleIp 1]"] by (simp add: to_list_of_string_def whitelisted_ip_to_string_def)
  then have s: "set_white_list (Some [ip_text 1]) new_blocklist = Ok (new_blocklist\<lparr>bl_white_list := Some [SingleIp 1]\<rparr>)"
    by (simp add: set_white_list_def)
  from ipv6_peer_panics [OF s] s show ?thesis by auto
qed

end
