(* ===== verification/Endpoint.thy ===== *)
theory Endpoint
  imports OAuth_Text H1_Reader Ip_Filter
begin

text \<open>
  The compiled configuration a request is checked against: \<open>src/src/configurations\<close>. Listen types
  (\<open>http_type.rs\<close>), host strings (\<open>host_str.rs\<close>), upstream targets (\<open>proxy_pass_to_config.rs\<close>,
  \<open>my_reverse_proxy_remote_endpoint.rs\<close>) and the key that identifies an upstream connection
  (\<open>src/src/h1_remote_connection/upstream_state.rs\<close>), endpoints with their locations
  (\<open>http_endpoint_info.rs\<close>), the endpoints of a port (\<open>http_listen_port_configuration.rs\<close>), and the
  named white lists, user lists and Google credentials. A remote endpoint parsed by \<open>rust_extensions\<close>
  is the record of what its accessors return; SSH credentials are their text.
\<close>

section \<open>Listen types and host strings\<close>

datatype ListenHttpEndpointType = ListenHttp1 | ListenHttp2 | ListenHttps1 | ListenHttps2 | ListenMcp

definition can_be_under_the_same_port :: "ListenHttpEndpointType \<Rightarrow> ListenHttpEndpointType \<Rightarrow> bool" where
  "can_be_under_the_same_port this other =
     (case this of
        ListenHttp1 \<Rightarrow> other = ListenHttp1
      | ListenHttp2 \<Rightarrow> other = ListenHttp2
      | ListenHttps1 \<Rightarrow> other = ListenHttps1 \<or> other = ListenHttps2 \<or> other = ListenMcp
      | ListenHttps2 \<Rightarrow> other = ListenHttps1 \<or> other = ListenHttps2
      | ListenMcp \<Rightarrow> other = ListenMcp \<or> other = ListenHttps1 \<or> other = ListenHttps2)"

definition is_http1_or_mcp :: "ListenHttpEndpointType \<Rightarrow> bool" where
  "is_http1_or_mcp t \<longleftrightarrow> t = ListenHttp1 \<or> t = ListenHttps1 \<or> t = ListenMcp"

definition is_https :: "ListenHttpEndpointType \<Rightarrow> bool" where
  "is_https t \<longleftrightarrow> t = ListenHttps1 \<or> t = ListenHttps2"

definition is_https_or_mcp :: "ListenHttpEndpointType \<Rightarrow> bool" where
  "is_https_or_mcp t \<longleftrightarrow> t = ListenHttps1 \<or> t = ListenHttps2 \<or> t = ListenMcp"

record EndpointHttpHostString =
  hs_src :: bytes
  hs_port :: "nat option"
  hs_index :: "nat option"

definition new_host_string :: "bytes \<Rightarrow> (bytes, EndpointHttpHostString) outcome" where
  "new_host_string host =
     (if starts_with host [47] \<or> starts_with host (as_bytes ''~/'') then
        Ok \<lparr>hs_src = host, hs_port = None, hs_index = None\<rparr>
      else
        let index = find_index 58 host;
            port_str = (case index of Some i \<Rightarrow> drop (i + 1) host | None \<Rightarrow> host)
        in case parse_unsigned (2 ^ 16) port_str of
             None \<Rightarrow> Err (as_bytes ''Can not pars endpoint port for host: '' @ host)
           | Some port \<Rightarrow> Ok \<lparr>hs_src = host, hs_port = Some port, hs_index = index\<rparr>)"

definition has_server_name :: "EndpointHttpHostString \<Rightarrow> bool" where
  "has_server_name h \<longleftrightarrow> hs_index h \<noteq> None"

definition get_server_name :: "EndpointHttpHostString \<Rightarrow> bytes option" where
  "get_server_name h = map_option (\<lambda>i. take i (hs_src h)) (hs_index h)"

definition is_my_server_name :: "EndpointHttpHostString \<Rightarrow> bytes \<Rightarrow> bool" where
  "is_my_server_name h server_name =
     (case get_server_name h of Some mine \<Rightarrow> eq_no_case mine server_name | None \<Rightarrow> True)"

section \<open>Upstream targets\<close>

datatype scheme = SchemeHttp | SchemeHttps | SchemeWs | SchemeWss | SchemeUnixSocket

record remote_endpoint =
  re_text :: bytes
  re_scheme :: "scheme option"
  re_host :: bytes
  re_host_port :: bytes
  re_path_and_query :: "bytes option"

datatype MyReverseProxyRemoteEndpoint =
    Gateway bytes remote_endpoint
  | OverSsh bytes remote_endpoint
  | Direct remote_endpoint

definition endpoint_of :: "MyReverseProxyRemoteEndpoint \<Rightarrow> remote_endpoint" where
  "endpoint_of r = (case r of Gateway _ e \<Rightarrow> e | OverSsh _ e \<Rightarrow> e | Direct e \<Rightarrow> e)"

definition remote_path_and_query :: "MyReverseProxyRemoteEndpoint \<Rightarrow> bytes" where
  "remote_path_and_query r = (case re_path_and_query (endpoint_of r) of Some p \<Rightarrow> p | None \<Rightarrow> [47])"

definition remote_to_string :: "MyReverseProxyRemoteEndpoint \<Rightarrow> bytes" where
  "remote_to_string r =
     (case r of
        Gateway i e \<Rightarrow> as_bytes ''gateway:'' @ i @ as_bytes ''->'' @ re_text e
      | OverSsh c e \<Rightarrow> as_bytes ''ssh:'' @ c @ as_bytes ''->'' @ re_text e
      | Direct e \<Rightarrow> re_text e)"

text \<open>Settings of a connection pool, in milliseconds.\<close>

record PoolTuning =
  pn_pool_size :: u8
  pn_ping_timeout :: nat
  pn_hot_window :: nat

definition default_pool_tuning :: PoolTuning where
  "default_pool_tuning = \<lparr>pn_pool_size = 5, pn_ping_timeout = 1000, pn_hot_window = 3000\<rparr>"

record ProxyPassToModel =
  pt_remote_host :: MyReverseProxyRemoteEndpoint
  pt_request_timeout :: nat
  pt_connect_timeout :: nat
  pt_pool_tuning :: PoolTuning

record StaticContentConfig =
  sc_status_code :: nat
  sc_content_type :: "bytes option"
  sc_body :: bytes

record ProxyPassFilesPathModel =
  fp_files_path :: MyReverseProxyRemoteEndpoint
  fp_default_file :: "bytes option"

record DynamicProxyConfig =
  dp_request_timeout :: nat
  dp_connect_timeout :: nat
  dp_allowed_hosts :: "bytes list option"

datatype ProxyPassToConfig =
    ToHttp1 ProxyPassToModel
  | ToHttp2 ProxyPassToModel
  | ToMcpHttp1 ProxyPassToModel
  | ToMcpHttp2 ProxyPassToModel
  | ToUnixHttp1 ProxyPassToModel
  | ToUnixHttp2 ProxyPassToModel
  | ToFilesPath ProxyPassFilesPathModel
  | ToStatic StaticContentConfig
  | ToDrop
  | ToDynamicProxy DynamicProxyConfig

definition is_drop :: "ProxyPassToConfig \<Rightarrow> bool" where
  "is_drop p \<longleftrightarrow> p = ToDrop"

definition mcp_path :: "ProxyPassToConfig \<Rightarrow> bytes option" where
  "mcp_path p =
     (case p of
        ToMcpHttp1 m \<Rightarrow> Some (remote_path_and_query (pt_remote_host m))
      | ToMcpHttp2 m \<Rightarrow> Some (remote_path_and_query (pt_remote_host m))
      | _ \<Rightarrow> None)"

text \<open>\<open>{:?}\<close> of the optional scheme.\<close>

definition scheme_debug :: "scheme option \<Rightarrow> bytes" where
  "scheme_debug s =
     (case s of
        None \<Rightarrow> as_bytes ''None''
      | Some SchemeHttp \<Rightarrow> as_bytes ''Some(Http)''
      | Some SchemeHttps \<Rightarrow> as_bytes ''Some(Https)''
      | Some SchemeWs \<Rightarrow> as_bytes ''Some(Ws)''
      | Some SchemeWss \<Rightarrow> as_bytes ''Some(Wss)''
      | Some SchemeUnixSocket \<Rightarrow> as_bytes ''Some(UnixSocket)'')"

definition remote_host_key :: "string \<Rightarrow> ProxyPassToModel \<Rightarrow> bytes" where
  "remote_host_key protocol m =
     as_bytes protocol @ [124] @
     (case pt_remote_host m of
        Direct e \<Rightarrow> scheme_debug (re_scheme e) @ [124] @ re_host_port e
      | OverSsh c e \<Rightarrow> as_bytes ''ssh:'' @ c @ [124] @ re_host_port e
      | Gateway i e \<Rightarrow> as_bytes ''gw:'' @ i @ [124] @ re_host_port e)"

definition mcp_key :: "string \<Rightarrow> ProxyPassToModel \<Rightarrow> bytes" where
  "mcp_key protocol m = remote_host_key protocol m @ [124] @ remote_path_and_query (pt_remote_host m)"

text \<open>\<open>{:?}\<close> of a content type without characters that it escapes.\<close>

definition static_to_string :: "StaticContentConfig \<Rightarrow> bytes" where
  \<open>static_to_string c =
     as_bytes ''status_code: '' @ dec_digits (sc_status_code c) @ as_bytes '', content_type: '' @
     (case sc_content_type c of None \<Rightarrow> as_bytes ''None'' | Some t \<Rightarrow> as_bytes ''Some("'' @ t @ as_bytes ''")'') @
     as_bytes '', body: '' @ dec_digits (length (sc_body c)) @ as_bytes ''bytes''\<close>

definition connection_key :: "ProxyPassToConfig \<Rightarrow> bytes" where
  "connection_key p =
     (case p of
        ToHttp1 m \<Rightarrow> remote_host_key ''h1'' m
      | ToMcpHttp1 m \<Rightarrow> mcp_key ''mcp-h1'' m
      | ToMcpHttp2 m \<Rightarrow> mcp_key ''mcp-h2'' m
      | ToHttp2 m \<Rightarrow> remote_host_key ''h2'' m
      | ToUnixHttp1 m \<Rightarrow> remote_host_key ''uds-h1'' m
      | ToUnixHttp2 m \<Rightarrow> remote_host_key ''uds-h2'' m
      | ToFilesPath m \<Rightarrow> remote_to_string (fp_files_path m)
      | ToStatic c \<Rightarrow> static_to_string c
      | ToDrop \<Rightarrow> as_bytes ''drop''
      | ToDynamicProxy _ \<Rightarrow> as_bytes ''dynamic'')"

section \<open>Endpoints\<close>

record ProxyPassLocationConfig =
  lc_path :: bytes
  lc_id :: int
  lc_ip_white_list_id :: "bytes option"
  lc_proxy_pass_to :: ProxyPassToConfig
  lc_auth_header :: "bytes option"
  lc_modify_request_headers :: ModifyHeadersConfig
  lc_modify_response_headers :: ModifyHeadersConfig
  lc_compress :: bool

text \<open>\<open>id\<close>: that of a living pool with the same identity string, or the next free one.\<close>

definition new_location_config ::
  "bytes \<Rightarrow> ModifyHttpHeadersSettings option \<Rightarrow> bytes option \<Rightarrow> ProxyPassToConfig \<Rightarrow> bool \<Rightarrow> bytes option \<Rightarrow> int \<Rightarrow> ProxyPassLocationConfig" where
  "new_location_config path modify_headers ip_white_list_id proxy_pass_to compress auth_header id1 =
     \<lparr>lc_path = path, lc_id = id1, lc_ip_white_list_id = ip_white_list_id, lc_proxy_pass_to = proxy_pass_to,
      lc_auth_header = auth_header,
      lc_modify_request_headers = (case modify_headers of Some m \<Rightarrow> populate_request m default_modify_headers | None \<Rightarrow> default_modify_headers),
      lc_modify_response_headers = (case modify_headers of Some m \<Rightarrow> populate_response m default_modify_headers | None \<Rightarrow> default_modify_headers),
      lc_compress = compress\<rparr>"

record McpEndpointSettings =
  me_read_timeout :: nat
  me_write_timeout :: nat
  me_buffer_size :: nat

record HttpEndpointInfo =
  ep_host_endpoint :: EndpointHttpHostString
  ep_inject_country :: bool
  ep_listen_endpoint_type :: ListenHttpEndpointType
  ep_g_auth :: "bytes option"
  ep_oauth :: "bytes option"
  ep_ssl_certificate_id :: "bytes option"
  ep_client_certificate_id :: "bytes option"
  ep_locations :: "ProxyPassLocationConfig list"
  ep_allowed_user_list_id :: "bytes option"
  ep_modify_request_headers :: ModifyHeadersConfig
  ep_modify_response_headers :: ModifyHeadersConfig
  ep_whitelisted_ip_list_id :: "bytes option"
  ep_keep_alive :: bool
  ep_track_metrics_by_all_domains :: bool
  ep_hsts :: bool
  ep_mcp_settings :: McpEndpointSettings
  ep_timeouts :: "nat \<times> nat"

record HttpEndpointInfoParams =
  pp_host_endpoint :: EndpointHttpHostString
  pp_listen_endpoint_type :: ListenHttpEndpointType
  pp_inject_country :: bool
  pp_g_auth :: "bytes option"
  pp_oauth :: "bytes option"
  pp_ssl_certificate_id :: "bytes option"
  pp_client_certificate_id :: "bytes option"
  pp_whitelisted_ip_list_id :: "bytes option"
  pp_locations :: "ProxyPassLocationConfig list"
  pp_allowed_user_list_id :: "bytes option"
  pp_global_modify_headers :: "ModifyHttpHeadersSettings option"
  pp_endpoint_modify_headers :: "ModifyHttpHeadersSettings option"
  pp_keep_alive :: bool
  pp_track_metrics_by_all_domains :: bool
  pp_hsts :: bool
  pp_mcp_settings :: McpEndpointSettings
  pp_timeouts :: "nat \<times> nat"

definition new_endpoint_info :: "HttpEndpointInfoParams \<Rightarrow> HttpEndpointInfo" where
  "new_endpoint_info p =
     (let rules = new_request_rules (pp_global_modify_headers p) (pp_endpoint_modify_headers p);
          rules1 = (if pp_oauth p \<noteq> None then add_to_remove (as_bytes ''authorization'') rules else rules)
      in \<lparr>ep_host_endpoint = pp_host_endpoint p, ep_inject_country = pp_inject_country p,
          ep_listen_endpoint_type = pp_listen_endpoint_type p, ep_g_auth = pp_g_auth p, ep_oauth = pp_oauth p,
          ep_ssl_certificate_id = pp_ssl_certificate_id p, ep_client_certificate_id = pp_client_certificate_id p,
          ep_locations = pp_locations p, ep_allowed_user_list_id = pp_allowed_user_list_id p,
          ep_modify_request_headers = rules1,
          ep_modify_response_headers = new_response_rules (pp_global_modify_headers p) (pp_endpoint_modify_headers p),
          ep_whitelisted_ip_list_id = pp_whitelisted_ip_list_id p, ep_keep_alive = pp_keep_alive p,
          ep_track_metrics_by_all_domains = pp_track_metrics_by_all_domains p, ep_hsts = pp_hsts p,
          ep_mcp_settings = pp_mcp_settings p, ep_timeouts = pp_timeouts p\<rparr>)"

text \<open>The part of an endpoint that rewriting a head reads.\<close>

definition endpoint_rules_of :: "HttpEndpointInfo \<Rightarrow> endpoint_rules" where
  "endpoint_rules_of ep =
     \<lparr>er_modify_request = ep_modify_request_headers ep, er_modify_response = ep_modify_response_headers ep,
      er_inject_country = ep_inject_country ep, er_keep_alive = ep_keep_alive ep, er_hsts = ep_hsts ep,
      er_is_https = is_https (ep_listen_endpoint_type ep)\<rparr>"

definition is_my_endpoint :: "HttpEndpointInfo \<Rightarrow> bytes \<Rightarrow> bool" where
  "is_my_endpoint ep server_name = is_my_server_name (ep_host_endpoint ep) server_name"

text \<open>The first location whose path is a prefix, letter case aside; \<open>&path[..n]\<close> panics inside a character.\<close>

fun find_location :: "ProxyPassLocationConfig list \<Rightarrow> bytes \<Rightarrow> ProxyPassLocationConfig option panics" where
  "find_location [] path = Ok None"
| "find_location (l # ls) path =
     (if length (lc_path l) > length path then find_location ls path
      else rbind (str_to path (length (lc_path l))) (\<lambda>path_prefix.
        if eq_no_case path_prefix (lc_path l) then Ok (Some l) else find_location ls path))"

definition connection_satisfies_client_cert :: "HttpEndpointInfo \<Rightarrow> bytes option \<Rightarrow> bool" where
  "connection_satisfies_client_cert ep connection_cert_ca =
     (case ep_client_certificate_id ep of
        Some required_ca \<Rightarrow> connection_cert_ca = Some required_ca
      | None \<Rightarrow> True)"

definition client_cert_identity_applies :: "HttpEndpointInfo \<Rightarrow> bytes \<Rightarrow> bool" where
  "client_cert_identity_applies ep connection_cert_ca =
     (case ep_client_certificate_id ep of
        Some required_ca \<Rightarrow> required_ca = connection_cert_ca
      | None \<Rightarrow> False)"

datatype AuthorizationRequired = GoogleAuth bytes | ClientCertificate

definition must_be_authorized :: "HttpEndpointInfo \<Rightarrow> AuthorizationRequired option" where
  "must_be_authorized ep =
     (case ep_g_auth ep of
        Some g_auth \<Rightarrow> Some (GoogleAuth g_auth)
      | None \<Rightarrow> if ep_ssl_certificate_id ep \<noteq> None then Some ClientCertificate else None)"

definition tracked_domain :: "HttpEndpointInfo \<Rightarrow> bytes option \<Rightarrow> bytes option" where
  "tracked_domain ep request_host =
     (if ep_track_metrics_by_all_domains ep then request_host else get_server_name (ep_host_endpoint ep))"

text \<open>Hash maps and sets of the configuration are maps and sets.\<close>

type_synonym users_list = "bytes \<rightharpoonup> bytes set"

definition is_allowed :: "users_list \<Rightarrow> bytes \<Rightarrow> bytes \<Rightarrow> bool" where
  "is_allowed data list_id user = (case data list_id of Some users \<Rightarrow> user \<in> users | None \<Rightarrow> False)"

definition user_is_allowed :: "users_list \<Rightarrow> HttpEndpointInfo \<Rightarrow> bytes option \<Rightarrow> bool" where
  "user_is_allowed data ep identity =
     (case ep_allowed_user_list_id ep of
        None \<Rightarrow> True
      | Some list_id \<Rightarrow> (case identity of None \<Rightarrow> False | Some who \<Rightarrow> is_allowed data list_id who))"

definition config_white_listed :: "(bytes \<rightharpoonup> WhitelistedIp list) \<Rightarrow> bytes \<Rightarrow> IpAddr \<Rightarrow> bool panics" where
  "config_white_listed data list_id ip =
     (case data list_id of Some white_list \<Rightarrow> is_whitelisted white_list ip | None \<Rightarrow> Ok False)"

section \<open>The endpoints of a port\<close>

record HttpListenPortConfiguration =
  lp_endpoints :: "HttpEndpointInfo list"
  lp_listen_endpoint_type :: ListenHttpEndpointType

definition new_listen_port :: "HttpEndpointInfo \<Rightarrow> HttpListenPortConfiguration" where
  "new_listen_port ep = \<lparr>lp_endpoints = [ep], lp_listen_endpoint_type = ep_listen_endpoint_type ep\<rparr>"

fun replace_endpoint :: "HttpEndpointInfo \<Rightarrow> HttpEndpointInfo list \<Rightarrow> HttpEndpointInfo list" where
  "replace_endpoint ep [] = [ep]"
| "replace_endpoint ep (e # es) =
     (if hs_src (ep_host_endpoint e) = hs_src (ep_host_endpoint ep) then ep # es else e # replace_endpoint ep es)"

definition insert_or_replace_configuration ::
  "HttpEndpointInfo \<Rightarrow> HttpListenPortConfiguration \<Rightarrow> HttpListenPortConfiguration" where
  "insert_or_replace_configuration ep c = c\<lparr>lp_endpoints := replace_endpoint ep (lp_endpoints c)\<rparr>"

fun delete_endpoint :: "bytes \<Rightarrow> HttpEndpointInfo list \<Rightarrow> HttpEndpointInfo list option" where
  "delete_endpoint host [] = None"
| "delete_endpoint host (e # es) =
     (if hs_src (ep_host_endpoint e) = host then Some es else map_option ((#) e) (delete_endpoint host es))"

definition delete_configuration ::
  "EndpointHttpHostString \<Rightarrow> HttpListenPortConfiguration \<Rightarrow> HttpListenPortConfiguration option" where
  "delete_configuration host c =
     map_option (\<lambda>es. c\<lparr>lp_endpoints := es\<rparr>) (delete_endpoint (hs_src host) (lp_endpoints c))"

definition get_http_endpoint_info ::
  "HttpListenPortConfiguration \<Rightarrow> bytes option \<Rightarrow> HttpEndpointInfo option panics" where
  "get_http_endpoint_info c server_name =
     (case server_name of
        None \<Rightarrow>
          (case lp_endpoints c of
             [] \<Rightarrow> Panic
           | [first] \<Rightarrow> Ok (if \<not> has_server_name (ep_host_endpoint first) then Some first else None)
           | _ \<Rightarrow> Ok None)
      | Some name \<Rightarrow> Ok (List.find (\<lambda>ep. is_my_endpoint ep name) (lp_endpoints c)))"

definition try_find_endpoint_info ::
  "bytes \<Rightarrow> Http1Headers \<Rightarrow> HttpListenPortConfiguration \<Rightarrow> HttpEndpointInfo option panics" where
  "try_find_endpoint_info buffer h c =
     (case h1_host_value h of
        None \<Rightarrow> get_http_endpoint_info c None
      | Some p \<Rightarrow>
          rbind (slice buffer (hp_start p) (hp_end p)) (\<lambda>host.
            if \<not> utf8_valid host then get_http_endpoint_info c None
            else case find_index 58 host of
              Some i \<Rightarrow> get_http_endpoint_info c (Some (take i host))
            | None \<Rightarrow> get_http_endpoint_info c (Some host)))"

section \<open>Locations\<close>

lemma eq_no_case_length: "eq_no_case a b \<Longrightarrow> length a = length b"
  unfolding eq_no_case_def by (metis length_map)

lemma lname_eq_mem: "lname a = lname b \<Longrightarrow> c \<in> set a \<Longrightarrow> to_lower_case c \<in> to_lower_case ` set b"
  by (metis image_set imageI)

lemma lower_case_qmark: "to_lower_case c = 63 \<longleftrightarrow> c = 63"
proof (cases "65 \<le> c \<and> c \<le> 90")
  case True
  then have "unat c \<ge> 65" "unat c \<le> 90" by (simp_all add: word_le_nat_alt)
  then have "unat (c - 65 + 97) = unat c + 32" by (simp add: unat_word_ariths unat_sub word_le_nat_alt)
  then show ?thesis using True \<open>unat c \<ge> 65\<close> by (auto simp: to_lower_case_def dest: arg_cong [where f = unat])
qed (auto simp: to_lower_case_def)

lemma find_location_Some:
  "find_location ls path = Ok (Some l) \<Longrightarrow>
   l \<in> set ls \<and> length (lc_path l) \<le> length path \<and> eq_no_case (take (length (lc_path l)) path) (lc_path l)"
  by (induction ls path rule: find_location.induct) (auto simp: rust_simps str_to_def split: if_splits)

text \<open>
  The gate looks a location up by the path, the dispatcher by path and query; with no question mark
  in a location's path both find the same one.
\<close>

lemma boundary_append: "i \<le> length a \<Longrightarrow> is_char_boundary (a @ 63 # b) i = is_char_boundary a i"
  by (auto simp: is_char_boundary_def nth_append cont_def)

lemma find_location_query:
  assumes "list_all (\<lambda>l. 63 \<notin> set (lc_path l)) ls" and "63 \<notin> set path"
    and "\<And>l. l \<in> set ls \<Longrightarrow> is_char_boundary (path @ 63 # query) (length (lc_path l)) \<or> length (lc_path l) > length (path @ 63 # query)"
  shows "find_location ls (path @ 63 # query) = find_location ls path"
  using assms(1,3)
proof (induction ls)
  case (Cons l ls)
  let ?n = "length (lc_path l)"
  have IH: "find_location ls (path @ 63 # query) = find_location ls path" using Cons by simp
  show ?case
  proof (cases "?n \<le> length path")
    case True
    then show ?thesis using IH by (simp add: str_to_def boundary_append)
  next
    case False
    have "\<not> eq_no_case (take ?n (path @ 63 # query)) (lc_path l)"
    proof
      assume e: "eq_no_case (take ?n (path @ 63 # query)) (lc_path l)"
      have "63 \<in> set (take ?n (path @ 63 # query))"
        using False by (auto simp: take_Cons' not_le)
      from lname_eq_mem [OF e [unfolded eq_no_case_def] this] have "63 \<in> to_lower_case ` set (lc_path l)"
        using lower_case_qmark [of 63] by simp
      with Cons.prems(1) show False by (auto simp: lower_case_qmark)
    qed
    with False IH Cons.prems(2) [of l] show ?thesis by (auto simp: str_to_def)
  qed
qed simp

section \<open>The key of an upstream\<close>

text \<open>What a connection is to: the kind of target, the way there, and for an MCP server its path.\<close>

definition upstream_identity :: "ProxyPassToConfig \<Rightarrow> string \<times> bytes \<times> bytes \<times> bytes" where
  "upstream_identity p =
     (let route = (\<lambda>m. case pt_remote_host m of
              Direct e \<Rightarrow> (scheme_debug (re_scheme e), re_host_port e)
            | OverSsh c e \<Rightarrow> (as_bytes ''ssh:'' @ c, re_host_port e)
            | Gateway i e \<Rightarrow> (as_bytes ''gw:'' @ i, re_host_port e))
      in case p of
           ToHttp1 m \<Rightarrow> (''h1'', fst (route m), snd (route m), [])
         | ToHttp2 m \<Rightarrow> (''h2'', fst (route m), snd (route m), [])
         | ToUnixHttp1 m \<Rightarrow> (''uds-h1'', fst (route m), snd (route m), [])
         | ToUnixHttp2 m \<Rightarrow> (''uds-h2'', fst (route m), snd (route m), [])
         | ToMcpHttp1 m \<Rightarrow> (''mcp-h1'', fst (route m), snd (route m), remote_path_and_query (pt_remote_host m))
         | ToMcpHttp2 m \<Rightarrow> (''mcp-h2'', fst (route m), snd (route m), remote_path_and_query (pt_remote_host m))
         | _ \<Rightarrow> (''none'', [], [], []))"

definition is_network :: "ProxyPassToConfig \<Rightarrow> bool" where
  "is_network p \<longleftrightarrow> fst (upstream_identity p) \<noteq> ''none''"

definition bar_free :: "ProxyPassToConfig \<Rightarrow> bool" where
  "bar_free p \<longleftrightarrow> 124 \<notin> set (fst (snd (upstream_identity p))) \<and> 124 \<notin> set (fst (snd (snd (upstream_identity p))))"

lemma key_shape:
  "is_network p \<Longrightarrow>
   connection_key p = (case upstream_identity p of (k, way, host_port, path) \<Rightarrow>
     as_bytes k @ 124 # way @ 124 # host_port @ (if k = ''mcp-h1'' \<or> k = ''mcp-h2'' then 124 # path else []))"
  by (cases p)
    (auto simp: is_network_def upstream_identity_def connection_key_def remote_host_key_def mcp_key_def Let_def
      split: MyReverseProxyRemoteEndpoint.split)

lemma network_kind: "is_network p \<Longrightarrow> fst (upstream_identity p) \<in> {''h1'', ''h2'', ''uds-h1'', ''uds-h2'', ''mcp-h1'', ''mcp-h2''}"
  by (cases p) (auto simp: is_network_def upstream_identity_def Let_def)

lemma no_path: "is_network p \<Longrightarrow> fst (upstream_identity p) \<notin> {''mcp-h1'', ''mcp-h2''} \<Longrightarrow> snd (snd (snd (upstream_identity p))) = []"
  by (cases p) (auto simp: is_network_def upstream_identity_def Let_def)

lemma split_once_unique: "b \<notin> set l \<Longrightarrow> b \<notin> set l' \<Longrightarrow> l @ b # r = l' @ b # r' \<Longrightarrow> l = l' \<and> r = r'"
  by (auto simp: append_eq_append_conv2 append_eq_Cons_conv Cons_eq_append_conv)

lemma key_injective:
  assumes "is_network p" and "is_network q" and "bar_free p" and "bar_free q" and "connection_key p = connection_key q"
  shows "upstream_identity p = upstream_identity q"
proof -
  obtain k w h r where p: "upstream_identity p = (k, w, h, r)" by (cases "upstream_identity p")
  obtain k' w' h' r' where q: "upstream_identity q = (k', w', h', r')" by (cases "upstream_identity q")
  have kinds: "k \<in> {''h1'', ''h2'', ''uds-h1'', ''uds-h2'', ''mcp-h1'', ''mcp-h2''}"
      "k' \<in> {''h1'', ''h2'', ''uds-h1'', ''uds-h2'', ''mcp-h1'', ''mcp-h2''}"
    using network_kind [OF assms(1)] network_kind [OF assms(2)] unfolding p q by simp_all
  then have nk: "124 \<notin> set (as_bytes k)" "124 \<notin> set (as_bytes k')" by (auto simp: as_bytes_def)
  have free: "124 \<notin> set w" "124 \<notin> set w'" "124 \<notin> set h" "124 \<notin> set h'"
    using assms(3,4) unfolding bar_free_def p q by simp_all
  let ?t = "if k = ''mcp-h1'' \<or> k = ''mcp-h2'' then 124 # r else []"
  let ?t' = "if k' = ''mcp-h1'' \<or> k' = ''mcp-h2'' then 124 # r' else []"
  have "as_bytes k @ 124 # w @ 124 # h @ ?t = as_bytes k' @ 124 # w' @ 124 # h' @ ?t'"
    using assms(5) key_shape [OF assms(1)] key_shape [OF assms(2)] unfolding p q by simp
  from split_once_unique [OF nk this] have 1: "as_bytes k = as_bytes k'" "w @ 124 # h @ ?t = w' @ 124 # h' @ ?t'" by blast+
  from split_once_unique [OF free(1,2) 1(2)] have 2: "w = w'" "h @ ?t = h' @ ?t'" by blast+
  from 1(1) have k: "k = k'" by (rule as_bytes_inject [THEN iffD1])
  have "h = h' \<and> r = r'"
  proof (cases "k = ''mcp-h1'' \<or> k = ''mcp-h2''")
    case True
    with 2(2) k have "h @ 124 # r = h' @ 124 # r'" by simp
    from split_once_unique [OF free(3,4) this] show ?thesis .
  next
    case False
    with k no_path [OF assms(1)] no_path [OF assms(2)] 2(2) show ?thesis unfolding p q by simp
  qed
  with k 2(1) show ?thesis unfolding p q by simp
qed

end
