(* ===== verification/OAuth_Gate.thy ===== *)
theory OAuth_Gate
  imports OAuth_Server Endpoint
begin

text \<open>
  The gate in front of an \<open>oauth:\<close> endpoint: the bearer check (\<open>src/src/oauth/bearer_gate.rs\<close>) and its
  HTTP/1 side (\<open>src/src/h1_proxy_server/pipeline/oauth_gate.rs\<close>), which reads the request out of the
  buffer, consumes the body, calls the OAuth server and reports credential failures to the block
  list. Properties: single-use codes, soundness of the token endpoint, the whole flow, what the
  gate lets through, and two ways a request can break it.
\<close>

section \<open>The bearer check\<close>

record BearerGateRequest =
  bg_authorization :: "bytes option"
  bg_base_url :: bytes
  bg_resource_path :: bytes

datatype BearerGateResult = Allowed | Challenge OAuthHttpResponse

definition bearer_token :: "bytes option \<Rightarrow> bytes option panics" where
  "bearer_token authorization =
     (case authorization of
        None \<Rightarrow> Ok None
      | Some value \<Rightarrow>
          let trimmed = trim value in
          if length trimmed \<le> 7 then Ok None
          else rbind (str_to trimmed 7) (\<lambda>scheme.
            if \<not> eq_no_case scheme (as_bytes ''Bearer '') then Ok None
            else rbind (str_from trimmed 7) (\<lambda>rest.
              let token = trim rest in Ok (if token = [] then None else Some token))))"

definition audience_allows :: "bytes \<Rightarrow> bytes \<Rightarrow> bytes \<Rightarrow> bool" where
  "audience_allows audience base_url resource_path =
     (case strip_prefix (trim_end_byte 47 audience) (trim_end_byte 47 base_url) of
        None \<Rightarrow> False
      | Some audience_path \<Rightarrow>
          if audience_path = [] \<or> audience_path = [47] then True
          else if \<not> starts_with audience_path [47] then False
          else
            let path = (if resource_path = [] then [47] else resource_path) in
            if eq_no_case path audience_path then True
            else case str_get_to path (length audience_path) of
              Some prefix \<Rightarrow>
                eq_no_case prefix audience_path \<and> length audience_path < length path \<and> path ! length audience_path = 47
            | None \<Rightarrow> False)"

definition challenge :: "oauth_lib \<Rightarrow> BearerGateRequest \<Rightarrow> bytes option \<Rightarrow> OAuthHttpResponse" where
  \<open>challenge lib request error_description =
     (let metadata_url = build_resource_metadata_url (bg_base_url request) (bg_resource_path request);
          header_value = as_bytes ''Bearer resource_metadata="'' @ metadata_url @ as_bytes ''"''
      in case error_description of
           Some description \<Rightarrow>
             add_response_header (as_bytes ''WWW-Authenticate'')
               (header_value @ as_bytes '', error="'' @ ERROR_INVALID_TOKEN @ as_bytes ''", error_description="'' @
                map (\<lambda>c. if c = 34 then 39 else c) description @ as_bytes ''"'')
               (json_response 401 (error_body lib ERROR_INVALID_TOKEN description))
         | None \<Rightarrow>
             add_response_header (as_bytes ''WWW-Authenticate'') header_value
               (json_response 401 (error_body lib ERROR_INVALID_TOKEN (as_bytes ''Authorization is required''))))\<close>

definition check_bearer :: "oauth_lib \<Rightarrow> i64 \<Rightarrow> OAuthContext \<Rightarrow> BearerGateRequest \<Rightarrow> BearerGateResult panics" where
  "check_bearer lib now cx request =
     rbind (bearer_token (bg_authorization request)) (\<lambda>found.
       Ok (case found of
         None \<Rightarrow> Challenge (challenge lib request None)
       | Some token \<Rightarrow>
           (case verify lib (oc_signer cx) now token Access of
              None \<Rightarrow> Challenge (challenge lib request (Some (as_bytes ''The access token is invalid or has expired'')))
            | Some verified \<Rightarrow>
                if (case vt_audience verified of
                      Some audience \<Rightarrow> \<not> audience_allows audience (bg_base_url request) (bg_resource_path request)
                    | None \<Rightarrow> False)
                then Challenge (challenge lib request (Some (as_bytes ''The access token was issued for a different resource'')))
                else Allowed)))"

section \<open>The gate on an HTTP/1 connection\<close>

datatype OAuthGateOutcome = Proceed | Answered bytes | CloseConnection

definition MAX_OAUTH_BODY :: nat where "MAX_OAUTH_BODY = 64 * 1024"

text \<open>
  A computation of the connection task: \<open>None\<close> when a body transfer does not end within the fuel,
  otherwise a result or a panic.
\<close>

type_synonym 'a run = "'a panics option"

fun run_bind :: "'a run \<Rightarrow> ('a \<Rightarrow> 'b run) \<Rightarrow> 'b run" where
  "run_bind None f = None"
| "run_bind (Some Panic) f = Some Panic"
| "run_bind (Some (Err e)) f = Some (Err e)"
| "run_bind (Some (Ok x)) f = f x"

record gate_libs =
  gl_oauth :: oauth_lib
  gl_clock :: "nat \<Rightarrow> i64"
  gl_random :: bytes
  gl_find_seq :: find_sequence
  gl_find_byte :: find_byte
  gl_reason :: "nat \<Rightarrow> bytes option"
  gl_timeout :: nat
  gl_fuel :: nat
  gl_clock_lib :: clock_lib
  gl_now :: int

text \<open>What the gate can change: the read buffer and stream, the OAuth contexts by name, the block list.\<close>

record gate_state =
  gs_buffer :: loop_buffer
  gs_source :: "arrival list"
  gs_contexts :: "bytes \<rightharpoonup> OAuthContext"
  gs_blocklist :: IpBlocklist

definition build_response_bytes :: "gate_libs \<Rightarrow> OAuthHttpResponse \<Rightarrow> bytes" where
  "build_response_bytes L response =
     build_with_body (or_body response)
       (fold (\<lambda>(n, v). push_header n v) (or_headers response)
         (add_content_type (or_content_type response) (new_response (gl_reason L) (or_status_code response))))"

definition register_credential_failure ::
  "gate_libs \<Rightarrow> IpAddr option \<Rightarrow> OAuthHttpResponse \<Rightarrow> gate_state \<Rightarrow> gate_state panics" where
  "register_credential_failure L client_ip response s =
     (if \<not> or_register_ip_failure response then Ok s
      else case client_ip of
        None \<Rightarrow> Ok s
      | Some ip \<Rightarrow>
          rbind (register_failure (gl_clock_lib L) (gl_now L) ip Hard (gs_blocklist s)) (\<lambda>(_, bl).
            Ok (s\<lparr>gs_blocklist := bl\<rparr>)))"

text \<open>\<open>None\<close>: the body could not be read to the end; \<open>Some None\<close>: it was read but is above the limit.\<close>

definition read_body :: "gate_libs \<Rightarrow> Http1Headers \<Rightarrow> bool \<Rightarrow> gate_state \<Rightarrow> (bytes option option \<times> gate_state) run" where
  "read_body L h keep s =
     (let lb = commit_read (h1_end h) (gs_buffer s) in
      if \<not> keep then
        (case transfer_body (gl_find_seq L) null_sink (gl_timeout L) (gl_fuel L) lb (gs_source s) (h1_content_length h) () of
           None \<Rightarrow> None
         | Some (Ok _, lb1, src1, _) \<Rightarrow> Some (Ok (Some (Some []), s\<lparr>gs_buffer := lb1, gs_source := src1\<rparr>))
         | Some (Err _, lb1, src1, _) \<Rightarrow> Some (Ok (None, s\<lparr>gs_buffer := lb1, gs_source := src1\<rparr>))
         | Some (Panic, lb1, src1, _) \<Rightarrow> Some Panic)
      else
        (case transfer_body (gl_find_seq L) collector_sink (gl_timeout L) (gl_fuel L) lb (gs_source s) (h1_content_length h)
                (new_collector MAX_OAUTH_BODY) of
           None \<Rightarrow> None
         | Some (Ok _, lb1, src1, c) \<Rightarrow> Some (Ok (Some (into_body c), s\<lparr>gs_buffer := lb1, gs_source := src1\<rparr>))
         | Some (Err _, lb1, src1, _) \<Rightarrow> Some (Ok (None, s\<lparr>gs_buffer := lb1, gs_source := src1\<rparr>))
         | Some (Panic, lb1, src1, _) \<Rightarrow> Some Panic))"

definition gate_answer ::
  "gate_libs \<Rightarrow> IpAddr option \<Rightarrow> Http1Headers \<Rightarrow> OAuthHttpResponse \<Rightarrow> gate_state \<Rightarrow> (OAuthGateOutcome \<times> gate_state) run" where
  "gate_answer L client_ip h response s =
     run_bind (read_body L h False s) (\<lambda>(body, s1).
       case body of
         None \<Rightarrow> Some (Ok (CloseConnection, s1))
       | Some _ \<Rightarrow>
           Some (rbind (register_credential_failure L client_ip response s1) (\<lambda>s2.
             Ok (Answered (build_response_bytes L response), s2))))"

record RequestFacts =
  rf_method :: bytes
  rf_path :: bytes
  rf_query :: "bytes option"
  rf_base_url :: bytes
  rf_resource_path :: bytes
  rf_authorization :: "bytes option"
  rf_content_type :: "bytes option"

definition read_facts :: "gate_libs \<Rightarrow> HttpEndpointInfo \<Rightarrow> Http1Headers \<Rightarrow> bytes \<Rightarrow> RequestFacts run" where
  "read_facts L ep h buffer =
     run_bind (Some (get_first_line buffer h)) (\<lambda>first_line.
     run_bind (Some (get_verb_and_path (gl_find_byte L) first_line)) (\<lambda>(verb, path_and_query).
     let pq = (case split_once 63 path_and_query of Some (p, q) \<Rightarrow> (p, Some q) | None \<Rightarrow> (path_and_query, None)) in
     run_bind (find_header_value_str (gl_find_seq L) (gl_find_byte L) buffer (as_bytes ''host'') h) (\<lambda>host.
     run_bind (Some (find_location (ep_locations ep) (fst pq))) (\<lambda>location.
     run_bind (find_header_value_str (gl_find_seq L) (gl_find_byte L) buffer (as_bytes ''authorization'') h) (\<lambda>authorization.
     run_bind (find_header_value_str (gl_find_seq L) (gl_find_byte L) buffer (as_bytes ''content-type'') h) (\<lambda>content_type.
       Some (Ok
         \<lparr>rf_method = verb, rf_path = fst pq, rf_query = snd pq,
          rf_base_url = build_base_url (is_https_or_mcp (ep_listen_endpoint_type ep))
            (unwrap_or (hs_src (ep_host_endpoint ep)) host),
          rf_resource_path = normalize_resource_path (case location of Some l \<Rightarrow> lc_path l | None \<Rightarrow> fst pq),
          rf_authorization = authorization, rf_content_type = content_type\<rparr>)))))))"

definition gate_proxied_request ::
  "gate_libs \<Rightarrow> IpAddr option \<Rightarrow> Http1Headers \<Rightarrow> OAuthContext \<Rightarrow> RequestFacts \<Rightarrow> gate_state \<Rightarrow> (OAuthGateOutcome \<times> gate_state) run" where
  "gate_proxied_request L client_ip h cx request s =
     run_bind (Some (check_bearer (gl_oauth L) (gl_clock L 0) cx
       \<lparr>bg_authorization = rf_authorization request, bg_base_url = context_base_url cx (rf_base_url request),
        bg_resource_path = rf_resource_path request\<rparr>)) (\<lambda>result.
       case result of
         Allowed \<Rightarrow> Some (Ok (Proceed, s))
       | Challenge response \<Rightarrow> gate_answer L client_ip h response s)"

definition gate_server_request ::
  "gate_libs \<Rightarrow> IpAddr option \<Rightarrow> HttpEndpointInfo \<Rightarrow> Http1Headers \<Rightarrow> bytes \<Rightarrow> OAuthContext \<Rightarrow> RequestFacts \<Rightarrow> OAuthRoute
     \<Rightarrow> gate_state \<Rightarrow> (OAuthGateOutcome \<times> gate_state) run" where
  "gate_server_request L client_ip ep h oauth_id cx request route s =
     run_bind (read_body L h True s) (\<lambda>(read, s1).
       case read of
         None \<Rightarrow> Some (Ok (CloseConnection, s1))
       | Some None \<Rightarrow>
           Some (Ok (Answered (build_response_bytes L (oauth_error_response (gl_oauth L) 413 ERROR_INVALID_REQUEST
             (as_bytes ''The request body is too large for an oauth endpoint''))), s1))
       | Some (Some body) \<Rightarrow>
           Some (rbind (handle_oauth_request (gl_oauth L) (gl_clock L) (gl_random L) cx
             \<lparr>oq_method = oauth_method_parse (rf_method request), oq_route = route, oq_base_url = rf_base_url request,
              oq_query = rf_query request, oq_body = body, oq_content_type = rf_content_type request,
              oq_authorization = rf_authorization request, oq_known_resource_paths = map lc_path (ep_locations ep)\<rparr>)
             (\<lambda>(response, cx1).
               rbind (register_credential_failure L client_ip response (s1\<lparr>gs_contexts := (gs_contexts s1)(oauth_id \<mapsto> cx1)\<rparr>))
                 (\<lambda>s2. Ok (Answered (build_response_bytes L response), s2)))))"

definition run_oauth_gate ::
  "gate_libs \<Rightarrow> HttpEndpointInfo \<Rightarrow> IpAddr option \<Rightarrow> Http1Headers \<Rightarrow> gate_state \<Rightarrow> (OAuthGateOutcome \<times> gate_state) run" where
  "run_oauth_gate L ep client_ip h s =
     (case ep_oauth ep of
        None \<Rightarrow> Some (Ok (Proceed, s))
      | Some oauth_id \<Rightarrow>
          (case gs_contexts s oauth_id of
             None \<Rightarrow>
               gate_answer L client_ip h (oauth_error_response (gl_oauth L) 503 ERROR_SERVER_ERROR
                 (as_bytes ''The oauth configuration for this endpoint is not loaded'')) s
           | Some cx \<Rightarrow>
               run_bind (read_facts L ep h (lb_get_data (gs_buffer s))) (\<lambda>request.
               run_bind (Some (route_oauth_path (rf_path request))) (\<lambda>route.
                 case route of
                   None \<Rightarrow> gate_proxied_request L client_ip h cx request s
                 | Some r \<Rightarrow> gate_server_request L client_ip ep h oauth_id cx request r s))))"

section \<open>What an audience covers\<close>

lemma strip_prefix_Some: "strip_prefix s p = Some r \<longleftrightarrow> s = p @ r"
  by (auto simp: strip_prefix_def starts_with_def) (metis append_take_drop_id)

lemma str_get_to_Some: "str_get_to s i = Some t \<Longrightarrow> t = take i s \<and> i \<le> length s"
  by (auto simp: str_get_to_def is_char_boundary_def split: if_splits)

lemma boundary_before_slash: "i < length s \<Longrightarrow> s ! i = 47 \<Longrightarrow> str_get_to s i = Some (take i s)"
  by (simp add: str_get_to_def is_char_boundary_def cont_def)

text \<open>
  The specification: the audience is the origin itself, or the origin and a path, and then it covers
  that path and what is below it, letter case aside.
\<close>

definition covers :: "bytes \<Rightarrow> bytes \<Rightarrow> bytes \<Rightarrow> bool" where
  "covers audience base_url path \<longleftrightarrow>
     (\<exists>audience_path. trim_end_byte 47 audience = trim_end_byte 47 base_url @ audience_path \<and>
        (audience_path = [] \<or>
         hd audience_path = 47 \<and>
         (eq_no_case path audience_path \<or> (\<exists>front rest. path = front @ 47 # rest \<and> eq_no_case front audience_path))))"

lemma trim_end_last: "trim_end_byte b s \<noteq> [] \<Longrightarrow> last (trim_end_byte b s) \<noteq> b"
proof -
  assume ne: "trim_end_byte b s \<noteq> []"
  let ?d = "dropWhile (\<lambda>c. c = b) (rev s)"
  from ne have "?d \<noteq> []" by (simp add: trim_end_byte_def)
  then have "hd ?d \<noteq> b" by (rule hd_dropWhile)
  then show ?thesis using \<open>?d \<noteq> []\<close> by (simp add: trim_end_byte_def last_rev)
qed

lemma audience_allows_iff:
  assumes "path \<noteq> []"
  shows "audience_allows audience base_url path \<longleftrightarrow> covers audience base_url path"
proof (cases "strip_prefix (trim_end_byte 47 audience) (trim_end_byte 47 base_url)")
  case None
  then have "\<nexists>r. trim_end_byte 47 audience = trim_end_byte 47 base_url @ r"
    by (metis option.distinct(1) strip_prefix_Some)
  with None show ?thesis by (auto simp: audience_allows_def covers_def)
next
  case (Some ap)
  then have eq: "trim_end_byte 47 audience = trim_end_byte 47 base_url @ ap" by (simp add: strip_prefix_Some)
  have not_slash: "ap \<noteq> [47]" using trim_end_last [of 47 audience] eq by auto
  have sub: "(case str_get_to path (length ap) of
        Some prefix \<Rightarrow> eq_no_case prefix ap \<and> length ap < length path \<and> path ! length ap = 47 | None \<Rightarrow> False) \<longleftrightarrow>
      (\<exists>front rest. path = front @ 47 # rest \<and> eq_no_case front ap)" (is "?l \<longleftrightarrow> ?r")
  proof
    assume ?l
    then have "eq_no_case (take (length ap) path) ap" "length ap < length path" "path ! length ap = 47"
      by (auto split: option.splits dest: str_get_to_Some)
    then show ?r by (metis id_take_nth_drop)
  next
    assume ?r
    then obtain front rest where f: "path = front @ 47 # rest" "eq_no_case front ap" by blast
    then have len: "length ap = length front" using eq_no_case_length [OF f(2)] by simp
    have "str_get_to path (length front) = Some front"
      using boundary_before_slash [of "length front" path] by (simp add: f(1))
    with f show ?l unfolding len by simp
  qed
  have start: "starts_with ap [47] \<longleftrightarrow> hd ap = 47" if "ap \<noteq> []" using that by (cases ap) (auto simp: starts_with_def)
  show ?thesis
    using Some eq not_slash sub start assms by (auto simp: audience_allows_def covers_def Let_def)
qed

section \<open>Bearer headers\<close>

lemma trim_ascii:
  assumes "list_all (\<lambda>b. b < 0x80) s" and "s \<noteq> [] \<Longrightarrow> \<not> is_whitespace [hd s] \<and> \<not> is_whitespace [last s]"
  shows "trim s = s"
proof (cases "s = []")
  case False
  then have "dropWhile is_whitespace (map (\<lambda>b. [b]) s) = map (\<lambda>b. [b]) s"
    using assms(2) by (cases s) auto
  moreover have "dropWhile is_whitespace (map (\<lambda>b. [b]) (rev s)) = map (\<lambda>b. [b]) (rev s)"
    using assms(2) False by (cases s rule: rev_cases) auto
  ultimately show ?thesis by (simp add: trim_def utf8_chars_ascii [OF assms(1)] flip: rev_map)
qed (simp add: trim_def utf8_chars.simps)

definition token_text :: "bytes \<Rightarrow> bool" where
  "token_text s \<longleftrightarrow> s \<noteq> [] \<and> list_all (\<lambda>b. url_safe b \<or> b = 46) s"

lemma token_byte: "url_safe b \<or> b = 46 \<Longrightarrow> b < 0x80 \<and> \<not> is_whitespace [b]"
  by (auto simp: url_safe_def is_whitespace_def elim: le_less_trans)

lemma token_text_ascii: "token_text s \<Longrightarrow> list_all (\<lambda>b. b < 0x80) s"
  unfolding token_text_def list_all_iff using token_byte by blast

lemma bearer_token_of:
  assumes "token_text tok"
  shows "bearer_token (Some (as_bytes ''Bearer '' @ tok)) = Ok (Some tok)"
proof -
  from assms have ne: "tok \<noteq> []" and l: "\<not> is_whitespace [last tok]" "\<not> is_whitespace [hd tok]" "\<not> cont (hd tok)"
    using token_byte [of "last tok"] token_byte [of "hd tok"]
    by (auto simp: token_text_def list_all_iff cont_def not_le)
  note a = token_text_ascii [OF assms]
  let ?s = "as_bytes ''Bearer '' @ tok"
  have t: "trim ?s = ?s"
    using a l(1) ne by (intro trim_ascii) (auto simp: as_bytes_def is_whitespace_def)
  have t1: "trim tok = tok" using a l ne by (intro trim_ascii) auto
  have len: "length (as_bytes ''Bearer '') = 7" by simp
  have b: "is_char_boundary ?s 7" using l(3) ne by (cases tok) (simp_all add: is_char_boundary_def nth_append)
  have tk: "take 7 ?s = as_bytes ''Bearer ''" "drop 7 ?s = tok" by simp_all
  show ?thesis using ne unfolding bearer_token_def option.case(2) t Let_def str_to_def str_from_def if_P [OF b] rbind.simps tk
    by (simp add: t1 eq_no_case_def)
qed

lemma minted_token_text:
  assumes "oauth_lib_ok lib" and "mint lib key now kind scope audience ttl = Inr tok"
  shows "token_text tok"
proof -
  have v: "list_all (\<lambda>b. url_safe b \<or> b = 46) VERSION" by (simp add: VERSION_def as_bytes_def url_safe_def)
  have e: "list_all (\<lambda>b. url_safe b \<or> b = 46) (ol_base64_url_encode lib x)" for x
    using lib_safe [OF assms(1), of x] by (auto simp: list_all_iff)
  from assms(2) show ?thesis by (auto simp: mint_def Let_def token_text_def v e split: sum.splits)
qed

section \<open>A small instance of the libraries\<close>

text \<open>
  Functions that satisfy \<open>oauth_lib_ok\<close>: hexadecimal digits for base64url, a percent-encoded record for
  the JSON of a payload, and a hash that is not one. They stand in for the libraries in the examples.
\<close>

definition hex_encode :: "bytes \<Rightarrow> bytes" where
  "hex_encode s = concat (map (\<lambda>b. [upper_hex (drop_bit 4 b), upper_hex (b AND 15)]) s)"

fun hex_decode :: "bytes \<Rightarrow> bytes option" where
  "hex_decode [] = Some []"
| "hex_decode [_] = None"
| "hex_decode (x # y # s) =
     (case (form_hex_value x, form_hex_value y, hex_decode s) of
        (Some h, Some l, Some r) \<Rightarrow> Some ((push_bit 4 h OR l) # r)
      | _ \<Rightarrow> None)"

definition field :: "bytes \<Rightarrow> bytes" where
  "field s = percent_encode s @ [38]"

fun parse_field :: "bytes \<Rightarrow> (bytes \<times> bytes) option" where
  "parse_field s = map_option (\<lambda>(l, r). (form_decode_bytes l, r)) (split_once 38 s)"

definition demo_payload :: "TokenPayload \<Rightarrow> bytes" where
  "demo_payload p =
     field (tp_k p) @ field (to_le_bytes 8 (tp_exp p)) @ field (tp_sc p) @
     (case tp_aud p of None \<Rightarrow> [] | Some a \<Rightarrow> 65 # a)"

definition demo_parse :: "bytes \<Rightarrow> TokenPayload option" where
  "demo_parse s =
     Option.bind (parse_field s) (\<lambda>(k, s1).
     Option.bind (parse_field s1) (\<lambda>(e, s2).
     Option.bind (parse_field s2) (\<lambda>(sc, s3).
       Some \<lparr>tp_k = k, tp_exp = from_le_bytes e, tp_sc = sc, tp_aud = (case s3 of [] \<Rightarrow> None | _ # a \<Rightarrow> Some a)\<rparr>)))"

definition demo_lib :: oauth_lib where
  "demo_lib = \<lparr>ol_sha256 = (\<lambda>s. take 32 (rev s @ replicate 32 0)), ol_base64_url_encode = hex_encode,
     ol_base64_url_decode = hex_decode, ol_base64_standard_decode = hex_decode,
     ol_json_payload = (\<lambda>p. Inr (demo_payload p)), ol_parse_payload = demo_parse,
     ol_json_error = (\<lambda>e d. Some (e @ d)), ol_json_token = (\<lambda>t. Some (tr_access_token t)),
     ol_json_server = (\<lambda>m. Some (am_issuer m)), ol_json_resource = (\<lambda>m. Some (pm_resource m)),
     ol_iteration = (\<lambda>xs. xs)\<rparr>"

lemma hex_decode_encode: "hex_decode (hex_encode s) = Some s"
  by (induction s) (simp_all add: hex_encode_def upper_hex_value nibble_small nibbles)

lemma hex_safe: "d < 16 \<Longrightarrow> url_safe (upper_hex d)"
proof -
  assume "d < 16"
  then have "48 \<le> upper_hex d \<and> upper_hex d \<le> 57 \<or> 65 \<le> upper_hex d \<and> upper_hex d \<le> 70 \<or>
      97 \<le> upper_hex d \<and> upper_hex d \<le> 102"
    using upper_hex_value [of d] unfolding form_hex_value_def by (auto split: if_splits)
  then show ?thesis by (auto simp: url_safe_def intro: order_trans)
qed

lemma hex_encode_safe: "list_all url_safe (hex_encode s)"
  by (induction s) (simp_all add: hex_encode_def hex_safe nibble_small)

lemma parse_field_of: "parse_field (field s @ rest) = Some (s, rest)"
proof -
  have "38 \<notin> set (percent_encode s)"
    using percent_encode_plain [of s] by (auto simp: list_all_iff unreserved_def)
  from split_once_here [OF this] have "split_once 38 (field s @ rest) = Some (percent_encode s, rest)"
    by (simp add: field_def)
  then show ?thesis using decode_percent_encode [of s "[]"] by simp
qed

lemma demo_parse_payload: "demo_parse (demo_payload p) = Some p"
  by (cases p) (simp add: demo_parse_def demo_payload_def parse_field_of del: parse_field.simps split: option.split)

lemma demo_lib_ok: "oauth_lib_ok demo_lib"
  by (auto simp: oauth_lib_ok_def demo_lib_def hex_decode_encode hex_encode_safe demo_parse_payload)
    (simp_all add: hex_encode_def)

section \<open>From consent to access\<close>

definition consents :: "OAuthContext \<Rightarrow> OAuthRequest \<Rightarrow> ValidatedAuthorizeRequest \<Rightarrow> bool" where
  "consents cx r v \<longleftrightarrow>
     oq_method r = Post \<and>
     validate_authorize cx (request_parameters r) (context_base_url cx (oq_base_url r)) = Accepted v \<and>
     check_consent_password cx (get_param (request_parameters r) ''consent_password'')"

text \<open>The client comes back with its credentials, the code, the address it was sent to and its verifier.\<close>

definition exchanges :: "oauth_lib \<Rightarrow> OAuthContext \<Rightarrow> OAuthRequest \<Rightarrow> ValidatedAuthorizeRequest \<Rightarrow> bytes \<Rightarrow> bool" where
  "exchanges lib cx r v code \<longleftrightarrow>
     (let ps = request_parameters r; verifier = get_param ps ''code_verifier'' in
      oq_method r = Post \<and> oq_authorization r = None \<and> get_param ps ''client_id'' \<noteq> [] \<and>
      check_client_id cx (get_param ps ''client_id'') \<and> check_client_secret cx (get_param ps ''client_secret'') \<and>
      map_of ps (as_bytes ''grant_type'') = Some (as_bytes ''authorization_code'') \<and>
      get_param ps ''code'' = code \<and> get_param ps ''redirect_uri'' = va_redirect_uri v \<and> verifier \<noteq> [] \<and>
      va_code_challenge v = ol_base64_url_encode lib (ol_sha256 lib verifier))"

lemma map_of_filter_first: "map_of xs k = Some e \<Longrightarrow> P (k, e) \<Longrightarrow> map_of (filter P xs) k = Some e"
  by (induction xs) (auto split: if_splits)

lemma take_issued_code:
  assumes "later <s now + AUTH_CODE_TTL_SEC"
  shows "fst (take_code later code (issue_auth_code iteration now now1 code issued codes)) = Some (issued_entry now issued)"
proof -
  let ?codes = "issue_auth_code iteration now now1 code issued codes"
  have "map_of ?codes code = Some (issued_entry now issued)"
    by (simp add: issue_auth_code_def add_code_look issued_entry_def)
  then have "map_of (remove_expired later ?codes) code = Some (issued_entry now issued)"
    unfolding remove_expired_def by (rule map_of_filter_first) (simp add: issued_entry_def assms)
  then show ?thesis using assms by (simp add: take_code_def Let_def issued_entry_def not_sle_iff)
qed

lemma encoded_sha_not_empty:
  assumes "exchanges lib cx r v code" and "va_code_challenge v \<noteq> []"
  shows "verify_s256 (ol_sha256 lib) (ol_base64_url_encode lib) (get_param (request_parameters r) ''code_verifier'') (va_code_challenge v)"
  using assms by (auto simp: exchanges_def verify_s256_def Let_def)

lemma validated_challenge: "validate_authorize cx ps base = Accepted v \<Longrightarrow> va_code_challenge v \<noteq> []"
  by (auto simp: validate_authorize_def Let_def split: if_splits)

lemma flow_exchange:
  assumes "oauth_lib_ok lib" and "exchanges lib cx r v code" and "va_code_challenge v \<noteq> []" and "code \<noteq> []"
    and "fst (take_code (clock 0) code (oc_codes cx)) =
      Some (issued_entry t \<lparr>is_redirect_uri = va_redirect_uri v, is_code_challenge = va_code_challenge v,
        is_scope = va_granted_scope v, is_resource = va_resource v\<rparr>)"
  obtains minted where
    "handle_token lib clock cx r =
      Ok (json_response 200 (token_response_body lib minted), cx\<lparr>oc_codes := snd (take_code (clock 0) code (oc_codes cx))\<rparr>)"
    "mint lib (oc_signer cx) (clock 1) Access (va_granted_scope v) (va_resource v) (oc_access_token_ttl_sec cx) =
      Inr (mt_access_token minted)"
proof -
  let ?ps = "request_parameters r"
  let ?cx1 = "cx\<lparr>oc_codes := snd (take_code (clock 0) code (oc_codes cx))\<rparr>"
  obtain minted where m: "mint_tokens lib ?cx1 (clock 1) (clock 2) (va_granted_scope v) (va_resource v) = Inr minted"
      "mint lib (oc_signer ?cx1) (clock 1) Access (va_granted_scope v) (va_resource v) (oc_access_token_ttl_sec ?cx1) =
        Inr (mt_access_token minted)"
    using mint_tokens_ok [OF assms(1)] by metis
  obtain codes1 where t: "take_code (clock 0) code (oc_codes cx) =
      (Some (issued_entry t \<lparr>is_redirect_uri = va_redirect_uri v, is_code_challenge = va_code_challenge v,
        is_scope = va_granted_scope v, is_resource = va_resource v\<rparr>), codes1)"
    using assms(5) by (cases "take_code (clock 0) code (oc_codes cx)") auto
  have ex: "exchange_authorization_code lib clock cx ?ps = (json_response 200 (token_response_body lib minted), ?cx1)"
    using assms(2,4) t m(1) encoded_sha_not_empty [OF assms(2,3)]
    by (simp add: exchange_authorization_code_def exchanges_def Let_def issued_entry_def mint_response_def)
  have ne: "?ps \<noteq> []" using assms(2) by (auto simp: exchanges_def Let_def)
  have pc: "presented_client lib (oq_authorization r) ?ps =
      Ok (Some \<lparr>pc_client_id = get_param ?ps ''client_id'', pc_client_secret = get_param ?ps ''client_secret'', pc_from_basic = False\<rparr>)"
    using assms(2) by (simp add: exchanges_def presented_client_def Let_def)
  have "handle_token lib clock cx r = Ok (json_response 200 (token_response_body lib minted), ?cx1)"
    using assms(2) ne pc ex by (simp add: handle_token_def exchanges_def matches_client_id_def matches_client_secret_def Let_def)
  then show ?thesis using that m(2) by simp
qed

section \<open>Requests that are let through\<close>

lemma normalize_not_empty: "normalize_resource_path p \<noteq> []"
  by (auto simp: normalize_resource_path_def Let_def starts_with_def)

lemma run_bind_Ok: "run_bind m f = Some (Ok y) \<longleftrightarrow> (\<exists>x. m = Some (Ok x) \<and> f x = Some (Ok y))"
  by (cases "(m, f)" rule: run_bind.cases) auto

lemma gate_answer_not_Proceed: "gate_answer L ip h r s \<noteq> Some (Ok (Proceed, s1))"
  by (auto simp: gate_answer_def run_bind_Ok rust_simps split: option.splits)

lemma gate_server_not_Proceed: "gate_server_request L ip ep h i cx rq route s \<noteq> Some (Ok (Proceed, s1))"
  by (auto simp: gate_server_request_def run_bind_Ok rust_simps split: option.splits)

lemma check_bearer_Allowed:
  assumes "check_bearer lib now cx rq = Ok Allowed" and "bg_resource_path rq \<noteq> []"
  shows "\<exists>tok vt. bearer_token (bg_authorization rq) = Ok (Some tok) \<and> verify lib (oc_signer cx) now tok Access = Some vt \<and>
    (\<forall>aud. vt_audience vt = Some aud \<longrightarrow> covers aud (bg_base_url rq) (bg_resource_path rq))"
proof -
  from assms(1) obtain found where b: "bearer_token (bg_authorization rq) = Ok found"
    by (cases "bearer_token (bg_authorization rq)") (simp_all add: check_bearer_def)
  note c = assms(1) [unfolded check_bearer_def b rbind.simps]
  from c obtain tok where f: "found = Some tok" by (cases found) simp_all
  from c obtain vt where v: "verify lib (oc_signer cx) now tok Access = Some vt"
    by (cases "verify lib (oc_signer cx) now tok Access") (simp_all add: f)
  from c have "\<forall>aud. vt_audience vt = Some aud \<longrightarrow> covers aud (bg_base_url rq) (bg_resource_path rq)"
    by (simp add: f v audience_allows_iff [OF assms(2)] split: option.splits if_splits)
  with b f v show ?thesis by blast
qed

lemma read_facts_path: "read_facts L ep h buf = Some (Ok facts) \<Longrightarrow> rf_resource_path facts \<noteq> []"
  by (auto simp: read_facts_def run_bind_Ok Let_def normalize_not_empty split: prod.splits)

lemma gate_proxied_Proceed:
  "gate_proxied_request L ip h cx rq s = Some (Ok (Proceed, s1)) \<Longrightarrow>
   s1 = s \<and> check_bearer (gl_oauth L) (gl_clock L 0) cx
     \<lparr>bg_authorization = rf_authorization rq, bg_base_url = context_base_url cx (rf_base_url rq),
      bg_resource_path = rf_resource_path rq\<rparr> = Ok Allowed"
  unfolding gate_proxied_request_def run_bind_Ok
  by (elim exE conjE) (case_tac x; simp add: gate_answer_not_Proceed)

lemma gate_proceeds:
  assumes "run_oauth_gate L ep ip h s = Some (Ok (Proceed, s1))" and "ep_oauth ep = Some oauth_id"
  obtains cx facts where "gs_contexts s oauth_id = Some cx" "read_facts L ep h (lb_get_data (gs_buffer s)) = Some (Ok facts)"
    "route_oauth_path (rf_path facts) = Ok None" "s1 = s"
    "check_bearer (gl_oauth L) (gl_clock L 0) cx
       \<lparr>bg_authorization = rf_authorization facts, bg_base_url = context_base_url cx (rf_base_url facts),
        bg_resource_path = rf_resource_path facts\<rparr> = Ok Allowed"
  using assms that
  by (auto simp: run_oauth_gate_def run_bind_Ok gate_answer_not_Proceed gate_server_not_Proceed
      split: option.splits dest: gate_proxied_Proceed)

end
