(* ===== verification/H1_Authorize.thy ===== *)
theory H1_Authorize
  imports OAuth_Server Endpoint
begin

text \<open>
  Who is asking: the Google sign-in of \<open>src/src/google_auth\<close> with its session cookie, the allowed
  mail domains of \<open>src/src/configurations/google_auth_credentials.rs\<close>, and
  \<open>src/src/h1_proxy_server/authorize.rs\<close>, which turns the client certificate, the fixed
  \<open>Authorization\<close> value of a location and the Google session into an identity. Encryption, base64,
  protobuf, JSON, the HTTP calls to Google, \<open>url_utils\<close> and \<open>rust_extensions\<close> are arguments.
\<close>

section \<open>Identities and credentials\<close>

record ClientCertificateData =
  cc_cn :: bytes
  cc_ca_id :: bytes

datatype HttpProxyPassIdentity = ClientCert ClientCertificateData | GoogleUser bytes

fun identity_as_str :: "HttpProxyPassIdentity \<Rightarrow> bytes" where
  "identity_as_str (ClientCert cert) = cc_cn cert"
| "identity_as_str (GoogleUser email) = email"

record GoogleAuthCredentials =
  gc_client_id :: bytes
  gc_client_secret :: bytes
  gc_whitelisted_domains :: bytes

record AuthToken =
  at_email :: bytes
  at_expires :: i64

record GetData =
  gd_code :: bytes
  gd_client_id :: bytes
  gd_client_secret :: bytes
  gd_redirect_uri :: bytes
  gd_grant_type :: bytes

text \<open>
  Third-party code. A field that calls Google or parses its answer panics where the source unwraps.
\<close>

record google_libs =
  go_eq_ci :: "bytes \<Rightarrow> bytes \<Rightarrow> bool"
  go_url_decode :: "bytes \<Rightarrow> bytes"
  go_from_base64 :: "bytes \<Rightarrow> bytes option"
  go_as_base64 :: "bytes \<Rightarrow> bytes"
  go_encrypt :: "bytes \<Rightarrow> bytes"
  go_decrypt :: "bytes \<Rightarrow> bytes option"
  go_encode :: "AuthToken \<Rightarrow> bytes"
  go_decode :: "bytes \<Rightarrow> AuthToken option"
  go_add_seconds :: "i64 \<Rightarrow> nat \<Rightarrow> i64"
  go_now :: i64
  go_post_token :: "GetData \<Rightarrow> bytes panics"
  go_access_token :: "bytes \<Rightarrow> bytes option panics"
  go_userinfo :: "bytes \<Rightarrow> bytes panics"
  go_user_email :: "bytes \<Rightarrow> bytes option panics"

definition get_domain :: "bytes \<Rightarrow> bytes option" where
  "get_domain email = map_option (\<lambda>index. drop (index + 1) email) (find_index 64 email)"

definition domain_is_allowed :: "google_libs \<Rightarrow> GoogleAuthCredentials \<Rightarrow> bytes \<Rightarrow> bool" where
  "domain_is_allowed G credentials email =
     (if gc_whitelisted_domains credentials = as_bytes ''*'' then True
      else case get_domain email of
        None \<Rightarrow> False
      | Some email_domain \<Rightarrow>
          let separator = (if 44 \<in> set (gc_whitelisted_domains credentials) then 44 else 59) in
          list_ex (\<lambda>whitelisted_domain. go_eq_ci G (trim whitelisted_domain) email_domain)
            (split_byte separator (gc_whitelisted_domains credentials) []))"

section \<open>The session cookie\<close>

definition AUTHORIZED_COOKIE_NAME :: bytes where "AUTHORIZED_COOKIE_NAME = as_bytes ''x-authorized''"

definition token_generate :: "google_libs \<Rightarrow> bytes \<Rightarrow> bytes" where
  "token_generate G email =
     go_as_base64 G (go_encrypt G (go_encode G
       \<lparr>at_email = email, at_expires = go_add_seconds G (go_now G) (60 * 60 * 24)\<rparr>))"

definition token_resolve :: "google_libs \<Rightarrow> bytes \<Rightarrow> bytes option" where
  "token_resolve G token_str =
     Option.bind (go_from_base64 G token_str) (\<lambda>aes.
     Option.bind (go_decrypt G aes) (\<lambda>token.
     Option.bind (go_decode G token) (\<lambda>result.
       if at_expires result <s go_now G then None else Some (at_email result))))"

section \<open>The sign-in\<close>

definition AUTHORIZED_PATH :: bytes where "AUTHORIZED_PATH = as_bytes ''/authorized''"
definition LOGOUT_PATH :: bytes where "LOGOUT_PATH = as_bytes ''/logout''"

definition generate_redirect_url :: "bytes \<Rightarrow> bytes" where
  "generate_redirect_url host = host @ AUTHORIZED_PATH"

text \<open>\<open>get_query_string_param\<close>: the part between the first and the second equals sign.\<close>

fun query_param :: "google_libs \<Rightarrow> bytes \<Rightarrow> bytes list \<Rightarrow> bytes option" where
  "query_param G param [] = None"
| "query_param G param (itm # items) =
     (case split_byte 61 itm [] of
        left # right # _ \<Rightarrow>
          if trim left = param then Some (go_url_decode G (trim right)) else query_param G param items
      | _ \<Rightarrow> query_param G param items)"

definition get_query_string_param :: "google_libs \<Rightarrow> bytes option \<Rightarrow> bytes \<Rightarrow> bytes option" where
  "get_query_string_param G query_string param =
     Option.bind query_string (\<lambda>query. query_param G param (split_byte 38 query []))"

text \<open>\<open>Err\<close> is the text shown to the user.\<close>

definition resolve_email :: "google_libs \<Rightarrow> bytes \<Rightarrow> bytes \<Rightarrow> GoogleAuthCredentials \<Rightarrow> (bytes, bytes) outcome" where
  "resolve_email G host code settings =
     (case go_post_token G
             \<lparr>gd_code = code, gd_client_id = gc_client_id settings, gd_client_secret = gc_client_secret settings,
              gd_redirect_uri = as_bytes ''https://'' @ generate_redirect_url host,
              gd_grant_type = as_bytes ''authorization_code''\<rparr> of
        Ok response \<Rightarrow>
          (case go_access_token G response of
             Ok None \<Rightarrow> if utf8_valid response then Err response else Panic
           | Ok (Some access_token) \<Rightarrow>
               (case go_userinfo G access_token of
                  Ok resp \<Rightarrow>
                    (case go_user_email G resp of
                       Ok (Some email) \<Rightarrow> Ok email
                     | Ok None \<Rightarrow> Err resp
                     | _ \<Rightarrow> Panic)
                | _ \<Rightarrow> Panic)
           | _ \<Rightarrow> Panic)
      | _ \<Rightarrow> Panic)"

datatype GoogleAuthOkResult = Passed bytes | SetToken bytes | ShowLoginPage GoogleAuthCredentials

datatype GoogleAuthError =
    ShowLogoutPage
  | EmailDomainIsNotAuthorized
  | ShowEmailDomainIsNotAuthorizedPage
  | ShowUserAuthenticatedPage bytes
  | ShowError bytes

text \<open>What the source reads of a request through \<open>HttpHeadersReader\<close>.\<close>

record request_view =
  rv_host :: "bytes option"
  rv_path :: bytes
  rv_query :: "bytes option"
  rv_token :: "bytes option"

definition read_view :: "find_byte \<Rightarrow> bytes \<Rightarrow> Http1Headers \<Rightarrow> request_view panics" where
  "read_view find_byte payload h =
     rbind (reader_path find_byte payload) (\<lambda>path.
     rbind (reader_query_string find_byte payload) (\<lambda>query.
     rbind (reader_get_cookie payload h AUTHORIZED_COOKIE_NAME) (\<lambda>token.
     rbind (reader_get_host payload h) (\<lambda>host.
       Ok \<lparr>rv_host = host, rv_path = path, rv_query = query, rv_token = token\<rparr>))))"

definition handle_google_auth ::
  "google_libs \<Rightarrow> (bytes \<rightharpoonup> GoogleAuthCredentials) \<Rightarrow> request_view \<Rightarrow> bytes \<Rightarrow> (GoogleAuthError, GoogleAuthOkResult) outcome" where
  "handle_google_auth G credentials_list req g_auth_settings =
     (case credentials_list g_auth_settings of
        None \<Rightarrow> Panic
      | Some credentials \<Rightarrow>
          let session = Option.bind (rv_token req) (token_resolve G) in
          if eq_no_case (rv_path req) LOGOUT_PATH then Err ShowLogoutPage
          else if eq_no_case (rv_path req) AUTHORIZED_PATH then
            (case session of
               Some email \<Rightarrow>
                 if \<not> domain_is_allowed G credentials email then Err EmailDomainIsNotAuthorized
                 else Err (ShowUserAuthenticatedPage email)
             | None \<Rightarrow>
                 (case get_query_string_param G (rv_query req) (as_bytes ''code'') of
                    None \<Rightarrow> Panic
                  | Some code \<Rightarrow>
                      (case resolve_email G (unwrap_or [] (rv_host req)) code credentials of
                         Panic \<Rightarrow> Panic
                       | Err err \<Rightarrow> Err (ShowError err)
                       | Ok email \<Rightarrow>
                           if \<not> domain_is_allowed G credentials email then Err ShowEmailDomainIsNotAuthorizedPage
                           else Ok (SetToken email))))
          else
            (case session of
               Some email \<Rightarrow>
                 if \<not> domain_is_allowed G credentials email then Err EmailDomainIsNotAuthorized else Ok (Passed email)
             | None \<Rightarrow> Ok (ShowLoginPage credentials)))"

section \<open>Pages\<close>

definition generate_with_template :: "bytes \<Rightarrow> bytes" where
  \<open>generate_with_template my_content = text_lines
     [as_bytes ''<html><head><title>Authentication</title>'',
      as_bytes ''        <link href="https://cdn.jsdelivr.net/npm/bootstrap@5.3.3/dist/css/bootstrap.min.css" rel="stylesheet" integrity="sha384-QWTKZyjpPEjISv5WaRU9OFeRpok6YctnYmDr5pNlyT2bRjXh0JMhjY6hW+ALEwIH" crossorigin="anonymous">'',
      as_bytes ''        <style>'',
      as_bytes ''        #main {'',
      as_bytes ''            --total-width: 100vw;'',
      as_bytes ''            --total-height: 100vh;'',
      as_bytes ''            text-align: center;'',
      as_bytes ''            width: 100%;'',
      as_bytes ''            height: 100vh;'',
      as_bytes ''        }'',
      as_bytes ''        </style>'',
      as_bytes ''        </head><body>'',
      as_bytes ''        <table id="main">'',
      as_bytes ''        <tr>'',
      as_bytes ''        <td>'',
      as_bytes ''        '' @ my_content,
      as_bytes ''        </td>'',
      as_bytes ''        </tr>'',
      as_bytes ''        </table>'',
      as_bytes ''        '',
      as_bytes ''        </body>'',
      as_bytes ''        <script>'',
      as_bytes ''        </script>'',
      as_bytes ''        </html>'']\<close>

definition generate_authenticated_user :: "request_view \<Rightarrow> bytes \<Rightarrow> bytes" where
  \<open>generate_authenticated_user req email =
     generate_with_template (as_bytes ''<h2>Authenticated user: '' @ email @
       as_bytes ''</h2><a class="btn btn-primary" href="https://'' @ unwrap_or [] (rv_host req) @ as_bytes ''">Ok</a>'')\<close>

definition generate_login_page :: "request_view \<Rightarrow> GoogleAuthCredentials \<Rightarrow> bytes" where
  \<open>generate_login_page req settings =
     generate_with_template (as_bytes ''<a class="btn btn-primary" href="https://accounts.google.com/o/oauth2/v2/auth?scope=openid%20email&access_type=offline&include_granted_scopes=true&response_type=code&state=state_parameter_passthrough_value&redirect_uri=https%3A//'' @
       generate_redirect_url (unwrap_or [] (rv_host req)) @ as_bytes ''&client_id='' @ gc_client_id settings @
       as_bytes ''">Sign in with Google</a>'')\<close>

definition logout_text :: "bytes \<Rightarrow> bytes \<Rightarrow> bytes" where
  \<open>logout_text text host = text_lines
     [as_bytes ''<h2>'' @ text @ as_bytes ''</h2><a class="btn btn-primary" href="https://'' @ host @ as_bytes ''">Ok</a>'',
      as_bytes ''            <script>'',
      as_bytes ''            var cookies = document.cookie.split(";");'',
      as_bytes '''',
      as_bytes ''            for (let i = 0; i < cookies.length; i++) {'',
      as_bytes ''                var cookie = cookies[i];'',
      as_bytes ''                var eqPos = cookie.indexOf("=");'',
      as_bytes ''                var name = eqPos > -1 ? cookie.substr(0, eqPos) : cookie;'',
      as_bytes ''                document.cookie = name + "=;expires=Thu, 01 Jan 1970 00:00:00 GMT";'',
      as_bytes ''            }'',
      as_bytes ''            </script>'',
      as_bytes ''            '',
      as_bytes ''            '']\<close>

definition generate_logout_page :: "request_view \<Rightarrow> bytes \<Rightarrow> bytes" where
  "generate_logout_page req text = generate_with_template (logout_text text (unwrap_or [] (rv_host req)))"

definition new_as_html :: "(nat \<Rightarrow> bytes option) \<Rightarrow> bytes" where
  "new_as_html reason = add_content_type (as_bytes ''text/html; charset=UTF-8'') (new_response reason 200)"

definition html_answer :: "(nat \<Rightarrow> bytes option) \<Rightarrow> bytes \<Rightarrow> ProxyServerError" where
  "html_answer reason body = HttpResponse (build_with_body body (new_as_html reason))"

fun from_google_auth_error :: "(nat \<Rightarrow> bytes option) \<Rightarrow> request_view \<Rightarrow> GoogleAuthError \<Rightarrow> ProxyServerError" where
  "from_google_auth_error reason req ShowLogoutPage =
     html_answer reason (generate_logout_page req (as_bytes ''You have successfully logged out!''))"
| "from_google_auth_error reason req EmailDomainIsNotAuthorized = NotAuthorizedRequest"
| "from_google_auth_error reason req ShowEmailDomainIsNotAuthorizedPage =
     html_answer reason (generate_logout_page req (as_bytes ''Unauthorized email domain''))"
| "from_google_auth_error reason req (ShowUserAuthenticatedPage email) =
     html_answer reason (generate_authenticated_user req email)"
| "from_google_auth_error reason req (ShowError err) = html_answer reason err"

section \<open>Authorization of a request\<close>

definition AUTHORIZATION_HEADER :: bytes where "AUTHORIZATION_HEADER = as_bytes ''authorization''"

definition is_blank_byte :: "u8 \<Rightarrow> bool" where
  "is_blank_byte b \<longleftrightarrow> b = 32 \<or> b = 9"

definition trim_ascii_blanks :: "bytes \<Rightarrow> bytes" where
  "trim_ascii_blanks input = rev (dropWhile is_blank_byte (rev (dropWhile is_blank_byte input)))"

text \<open>The scan for the \<open>Authorization\<close> header: lines without a colon are passed over.\<close>

fun authorization_loop :: "find_sequence \<Rightarrow> find_byte \<Rightarrow> nat \<Rightarrow> bytes \<Rightarrow> nat \<Rightarrow> bytes option panics option" where
  "authorization_loop find_seq find_byte 0 data pos = None"
| "authorization_loop find_seq find_byte (Suc fuel) data pos =
     (case find_seq data HTTP_CR_LF pos of
        None \<Rightarrow> Some (Ok None)
      | Some next_pos \<Rightarrow>
          if next_pos = pos then Some (Ok None)
          else
            let onward = authorization_loop find_seq find_byte fuel data (next_pos + length HTTP_CR_LF) in
            case new_header find_byte data pos next_pos of
              None \<Rightarrow> onward
            | Some header \<Rightarrow>
                (case is_my_header_name header AUTHORIZATION_HEADER of
                   Ok True \<Rightarrow>
                     Some (rbind (slice data (hp_start (get_value header)) (hp_end (get_value header))) (\<lambda>raw.
                       Ok (Some (trim_ascii_blanks raw))))
                 | Ok False \<Rightarrow> onward
                 | _ \<Rightarrow> Some Panic))"

definition find_authorization_value ::
  "find_sequence \<Rightarrow> find_byte \<Rightarrow> Http1Headers \<Rightarrow> bytes \<Rightarrow> bytes option panics option" where
  "find_authorization_value find_seq find_byte h data =
     authorization_loop find_seq find_byte (Suc (length data)) data (h1_first_line_end h + length HTTP_CR_LF)"

record authorize_libs =
  al_google :: google_libs
  al_find_seq :: find_sequence
  al_find_byte :: find_byte
  al_reason :: "nat \<Rightarrow> bytes option"

definition cert_identity :: "HttpEndpointInfo \<Rightarrow> ClientCertificateData option \<Rightarrow> HttpProxyPassIdentity option" where
  "cert_identity ep cn_user_name =
     (case cn_user_name of
        Some cert \<Rightarrow> if client_cert_identity_applies ep (cc_ca_id cert) then Some (ClientCert cert) else None
      | None \<Rightarrow> None)"

definition google_identity ::
  "authorize_libs \<Rightarrow> (bytes \<rightharpoonup> GoogleAuthCredentials) \<Rightarrow> bytes \<Rightarrow> Http1Headers \<Rightarrow> bytes
     \<Rightarrow> (ProxyServerError, HttpProxyPassIdentity option) outcome" where
  "google_identity A credentials_list g_auth_settings h payload =
     (case read_view (al_find_byte A) payload h of
        Ok req \<Rightarrow>
          (case handle_google_auth (al_google A) credentials_list req g_auth_settings of
             Ok (Passed email) \<Rightarrow> Ok (Some (GoogleUser email))
           | Ok (SetToken email) \<Rightarrow>
               Err (HttpResponse (build_with_body (generate_authenticated_user req email)
                 (push_header (as_bytes ''Set-Cookie'')
                   (AUTHORIZED_COOKIE_NAME @ as_bytes ''='' @ token_generate (al_google A) email @
                    as_bytes ''; SameSite=None; Secure;'') (new_as_html (al_reason A)))))
           | Ok (ShowLoginPage credentials) \<Rightarrow> Err (html_answer (al_reason A) (generate_login_page req credentials))
           | Err err \<Rightarrow> Err (from_google_auth_error (al_reason A) req err)
           | Panic \<Rightarrow> Panic)
      | _ \<Rightarrow> Panic)"

definition authorize ::
  "authorize_libs \<Rightarrow> (bytes \<rightharpoonup> GoogleAuthCredentials) \<Rightarrow> HttpEndpointInfo \<Rightarrow> ProxyPassLocationConfig
     \<Rightarrow> ClientCertificateData option \<Rightarrow> Http1Headers \<Rightarrow> bytes
     \<Rightarrow> (ProxyServerError, HttpProxyPassIdentity option) outcome option" where
  "authorize A credentials_list ep location cn_user_name h payload =
     (let identity = cert_identity ep cn_user_name;
          rest = (case must_be_authorized ep of
                    Some (GoogleAuth google_auth_settings) \<Rightarrow> google_identity A credentials_list google_auth_settings h payload
                  | Some ClientCertificate \<Rightarrow> Ok identity
                  | None \<Rightarrow> Ok identity)
      in case lc_auth_header location of
           None \<Rightarrow> Some rest
         | Some expected \<Rightarrow>
             (case find_authorization_value (al_find_seq A) (al_find_byte A) h payload of
                None \<Rightarrow> None
              | Some (Ok actual) \<Rightarrow>
                  Some (if actual = Some expected then rest else Err NotAuthorizedRequest)
              | Some _ \<Rightarrow> Some Panic))"

end
