(* ===== verification/Ip_Db.thy ===== *)
theory Ip_Db
  imports Ip_Filter
begin

text \<open>
  The country of an address: \<open>src/src/ip_db/mod.rs\<close>. The generated table of IPv4 ranges is an
  argument, and so is the lookup of the IP2Location database for IPv6 (the short country name it
  records, if any). \<open>partition_point\<close> of the standard library is the binary search it performs.
\<close>

section \<open>Lookup\<close>

type_synonym ip_ranges = "(u32 \<times> u32 \<times> bytes) list"

text \<open>The search of \<open>slice::partition_point\<close>: the boundary lies in \<open>[left, left + size]\<close>.\<close>

function partition_loop :: "('a \<Rightarrow> bool) \<Rightarrow> 'a list \<Rightarrow> nat \<Rightarrow> nat \<Rightarrow> nat" where
  "partition_loop pred xs left right =
     (if left < right then
        let mid = left + (right - left) div 2 in
        if pred (xs ! mid) then partition_loop pred xs (mid + 1) right else partition_loop pred xs left mid
      else left)"
  by pat_completeness auto
termination
  by (relation "measure (\<lambda>(_, _, left, right). right - left)") auto

declare partition_loop.simps [simp del]

definition partition_point :: "('a \<Rightarrow> bool) \<Rightarrow> 'a list \<Rightarrow> nat" where
  "partition_point pred xs = partition_loop pred xs 0 (length xs)"

definition lookup_country_v4 :: "ip_ranges \<Rightarrow> u32 \<Rightarrow> bytes option panics" where
  "lookup_country_v4 ranges key =
     (let index = partition_point (\<lambda>(start, _, _). start \<le> key) ranges in
      if index = 0 then Ok None
      else rbind (idx ranges (index - 1)) (\<lambda>(start, stop, code).
        Ok (if key \<ge> start \<and> key \<le> stop then Some code else None)))"

definition is_ascii_uppercase :: "u8 \<Rightarrow> bool" where
  "is_ascii_uppercase b \<longleftrightarrow> 65 \<le> b \<and> b \<le> 90"

definition lookup_country_v6 :: "(bytes \<Rightarrow> bytes option) option \<Rightarrow> bytes \<Rightarrow> bytes option" where
  "lookup_country_v6 db ip =
     (case db of
        None \<Rightarrow> None
      | Some ip_lookup \<Rightarrow>
          (case ip_lookup ip of
             None \<Rightarrow> None
           | Some short_name \<Rightarrow>
               if length short_name \<noteq> 2 then None
               else if \<not> is_ascii_uppercase (short_name ! 0) \<or> \<not> is_ascii_uppercase (short_name ! 1) then None
               else Some short_name))"

definition lookup_country :: "ip_ranges \<Rightarrow> (bytes \<Rightarrow> bytes option) option \<Rightarrow> IpAddr \<Rightarrow> bytes option panics" where
  "lookup_country ranges db ip =
     (case ip of
        V4 a b c d \<Rightarrow> lookup_country_v4 ranges (octets_value a b c d)
      | V6 bs \<Rightarrow> Ok (lookup_country_v6 db bs))"

section \<open>The search finds the boundary\<close>

text \<open>What \<open>partition_point\<close> promises: the predicate holds exactly before the index.\<close>

definition is_partitioned :: "('a \<Rightarrow> bool) \<Rightarrow> 'a list \<Rightarrow> nat \<Rightarrow> bool" where
  "is_partitioned pred xs n \<longleftrightarrow> n \<le> length xs \<and> (\<forall>i < length xs. pred (xs ! i) \<longleftrightarrow> i < n)"

lemma partition_loop_finds:
  "is_partitioned pred xs n \<Longrightarrow> left \<le> n \<Longrightarrow> n \<le> right \<Longrightarrow> right \<le> length xs \<Longrightarrow> partition_loop pred xs left right = n"
proof (induction pred xs left right rule: partition_loop.induct)
  case (1 pred xs left right)
  let ?mid = "left + (right - left) div 2"
  show ?case
  proof (cases "left < right")
    case True
    then have mid: "?mid < right" "left \<le> ?mid" by auto
    with "1.prems" have b: "pred (xs ! ?mid) \<longleftrightarrow> ?mid < n" by (simp add: is_partitioned_def)
    show ?thesis
      using "1.IH" [OF True refl] "1.prems" True b mid by (subst partition_loop.simps) (simp add: Let_def not_less)
  qed (use "1.prems" in \<open>simp add: partition_loop.simps\<close>)
qed

lemma partition_point_finds: "is_partitioned pred xs n \<Longrightarrow> partition_point pred xs = n"
  unfolding partition_point_def by (rule partition_loop_finds) (auto simp: is_partitioned_def)

section \<open>Binary search is linear search\<close>

text \<open>The table lists ranges in ascending order, one after the other; they do not overlap.\<close>

fun ranges_ok :: "ip_ranges \<Rightarrow> bool" where
  "ranges_ok ((s1, e1, c1) # (s2, e2, c2) # rest) \<longleftrightarrow> s1 \<le> e1 \<and> e1 < s2 \<and> ranges_ok ((s2, e2, c2) # rest)"
| "ranges_ok [(s, e, c)] \<longleftrightarrow> s \<le> e"
| "ranges_ok [] \<longleftrightarrow> True"

definition country_of :: "ip_ranges \<Rightarrow> u32 \<Rightarrow> bytes option" where
  "country_of ranges key = map_option (\<lambda>(_, _, code). code) (List.find (\<lambda>(start, stop, _). start \<le> key \<and> key \<le> stop) ranges)"

lemma ranges_ok_later: "ranges_ok ((s, e, c) # rest) \<Longrightarrow> list_all (\<lambda>r. s \<le> e \<and> e < fst r) rest \<and> ranges_ok rest"
proof (induction rest arbitrary: s e c)
  case (Cons r rest)
  obtain s2 e2 c2 where r: "r = (s2, e2, c2)" by (cases r)
  from Cons.prems have o: "e < s2" "s \<le> e" "ranges_ok ((s2, e2, c2) # rest)" by (simp_all add: r)
  with Cons.IH [OF o(3)] have "list_all (\<lambda>r. s2 \<le> e2 \<and> e2 < fst r) rest" "e < s2" "s \<le> e" "ranges_ok (r # rest)"
    by (auto simp: r)
  then show ?case by (auto simp: r list_all_iff)
qed simp

lemma ranges_split:
  "ranges_ok ranges \<Longrightarrow> \<exists>before after. ranges = before @ after \<and>
     list_all (\<lambda>r. fst r \<le> key) before \<and> list_all (\<lambda>r. \<not> fst r \<le> key) after \<and>
     country_of ranges key = (if before = [] then None
       else case last before of (s, e, c) \<Rightarrow> if s \<le> key \<and> key \<le> e then Some c else None)"
proof (induction ranges)
  case Nil
  then show ?case by (simp add: country_of_def)
next
  case (Cons r rest)
  obtain s e c where r: "r = (s, e, c)" by (cases r)
  from ranges_ok_later [of s e c rest] Cons.prems
  have later: "list_all (\<lambda>r. s \<le> e \<and> e < fst r) rest" "ranges_ok rest" by (simp_all add: r)
  from Cons.IH [OF later(2)] obtain before after where b: "rest = before @ after"
    "list_all (\<lambda>r. fst r \<le> key) before" "list_all (\<lambda>r. \<not> fst r \<le> key) after"
    "country_of rest key = (if before = [] then None
       else case last before of (s, e, c) \<Rightarrow> if s \<le> key \<and> key \<le> e then Some c else None)" by blast
  show ?case
  proof (cases "s \<le> key")
    case False
    with later(1) have far: "list_all (\<lambda>r. \<not> fst r \<le> key) rest" by (auto simp: list_all_iff)
    then have "List.find (\<lambda>(start, stop, _). start \<le> key \<and> key \<le> stop) rest = None"
      by (auto simp: find_None_iff list_all_iff)
    then have "country_of (r # rest) key = None" using False by (simp add: r country_of_def)
    with False far show ?thesis by (intro exI [of _ "[]"] exI [of _ "r # rest"]) (simp add: r)
  next
    case True
    have "before \<noteq> [] \<Longrightarrow> \<not> key \<le> e"
    proof
      assume "before \<noteq> []" "key \<le> e"
      then obtain s1 e1 c1 where l: "(s1, e1, c1) \<in> set before" by (cases before) auto
      with b(2) have "s1 \<le> key" by (auto simp: list_all_iff)
      moreover have "e < fst (s1, e1, c1)"
        using later(1) l unfolding list_all_iff b(1) set_append by blast
      ultimately show False using \<open>key \<le> e\<close> by simp
    qed
    with True b show ?thesis
      by (intro exI [of _ "r # before"] exI [of _ after]) (auto simp: r country_of_def)
  qed
qed

lemma partitioned_append:
  "list_all P before \<Longrightarrow> list_all (\<lambda>x. \<not> P x) after \<Longrightarrow> is_partitioned P (before @ after) (length before)"
  by (auto simp: is_partitioned_def nth_append list_all_length)

text \<open>
  C35. The binary search is the linear one: on an ascending table of disjoint ranges the lookup
  returns, without an index out of bounds, the country of the range that contains the address, and
  none when no range does.
\<close>

theorem country_lookup_exact:
  assumes "ranges_ok ranges"
  shows "lookup_country_v4 ranges key = Ok (country_of ranges key)"
proof -
  obtain before after where b: "ranges = before @ after"
    "list_all (\<lambda>r. fst r \<le> key) before" "list_all (\<lambda>r. \<not> fst r \<le> key) after"
    "country_of ranges key = (if before = [] then None
       else case last before of (s, e, c) \<Rightarrow> if s \<le> key \<and> key \<le> e then Some c else None)"
    using ranges_split [OF assms] by blast
  have e: "(\<lambda>(start :: u32, _ :: u32, _ :: bytes). start \<le> key) = (\<lambda>r. fst r \<le> key)" by (auto simp: fun_eq_iff)
  have p: "partition_point (\<lambda>(start, _, _). start \<le> key) ranges = length before"
    unfolding e b(1) by (rule partition_point_finds [OF partitioned_append [OF b(2,3)]])
  show ?thesis
    unfolding lookup_country_v4_def p Let_def b(4)
    by (cases before rule: rev_cases) (auto simp: b(1) idx_def nth_append split: prod.splits)
qed

theorem country_lookup_exact_witness:
  "lookup_country_v4 [(0x01000000, 0x010000FF, [65, 85]), (0x01000100, 0x010001FF, [67, 78])] 0x01000105 = Ok (Some [67, 78])"
  using country_lookup_exact [of "[(0x01000000, 0x010000FF, [65, 85]), (0x01000100, 0x010001FF, [67, 78])]" "0x01000105"]
  by (simp add: country_of_def)

end
