(* ===== verification/H1_Pipeline.thy ===== *)
theory H1_Pipeline
  imports OAuth_Gate H1_Authorize H1_Worker Ip_Db
begin

text \<open>
  The reader of an HTTP/1 connection: \<open>src/src/h1_proxy_server/pipeline/reader.rs\<close>. One turn reads a
  head, resolves the endpoint, runs every check, and answers, dispatches the request to a worker, or
  hands the connection over for an upgrade; the connection loop repeats it. Local files
  (\<open>src/src/http_content_source/local_path\<close>) are served here too. A turn is a sequence of phases, in the
  order of the source; a phase either yields a value or ends the turn. Logs and metrics are left out.
\<close>

section \<open>State\<close>

record HttpConnectionInfo =
  ci_cn_user_name :: "ClientCertificateData option"
  ci_connection_ip :: "IpAddr option"
  ci_endpoint_info :: "HttpEndpointInfo option"
  ci_listen_config :: HttpListenPortConfiguration

text \<open>A slot of the writer's queue: a ready response, or one that the worker of the request fills.\<close>

datatype queued_slot = ReadySlot ResponseSlot | WorkerSlot nat

record DispatchedRequest =
  dr_proxy_pass_to :: ProxyPassToConfig
  dr_endpoint :: HttpEndpointInfo
  dr_location_id :: int
  dr_identity :: "HttpProxyPassIdentity option"
  dr_head :: bytes
  dr_body :: "bytes list"

record UpgradeContext =
  ug_proxy_pass_to :: ProxyPassToConfig
  ug_endpoint :: HttpEndpointInfo
  ug_location_id :: int
  ug_head :: bytes
  ug_write_timeout :: nat

datatype ReaderStep = ContinueReading | CloseReading | UpgradeTo UpgradeContext

record reader_state =
  rd_info :: HttpConnectionInfo
  rd_timeouts :: "nat \<times> nat"
  rd_gate :: gate_state
  rd_slots :: "queued_slot list"
  rd_workers :: "DispatchedRequest list"

text \<open>
  What a turn meets: third-party code, the templates, the configuration of the moment, whether the
  writer still takes slots, and how many body chunks the worker takes before it is gone (\<open>None\<close>: all).
\<close>

record reader_env =
  re_gate :: gate_libs
  re_google :: google_libs
  re_eq_ci :: "bytes \<Rightarrow> bytes \<Rightarrow> bool"
  re_tokens :: "bytes \<Rightarrow> content_token list"
  re_env :: "bytes \<Rightarrow> bytes option"
  re_page :: "error_page \<Rightarrow> bytes"
  re_not_found :: bytes
  re_ipv6_text :: "bytes \<Rightarrow> bytes"
  re_ranges :: ip_ranges
  re_ipv6_db :: "(bytes \<Rightarrow> bytes option) option"
  re_try_parse :: "bytes \<Rightarrow> remote_endpoint option"
  re_append_segment :: "bytes \<Rightarrow> bytes \<Rightarrow> bytes"
  re_read_file :: "bytes \<Rightarrow> bytes option"
  re_content_type :: "bytes \<Rightarrow> bytes option"
  re_white_lists :: "bytes \<rightharpoonup> WhitelistedIp list"
  re_users :: users_list
  re_google_auth :: "bytes \<rightharpoonup> GoogleAuthCredentials"
  re_writer_open :: bool
  re_worker_takes :: "nat option"

abbreviation rd_buffer :: "reader_state \<Rightarrow> loop_buffer" where
  "rd_buffer s \<equiv> gs_buffer (rd_gate s)"

abbreviation rd_source :: "reader_state \<Rightarrow> arrival list" where
  "rd_source s \<equiv> gs_source (rd_gate s)"

definition set_stream :: "loop_buffer \<Rightarrow> arrival list \<Rightarrow> reader_state \<Rightarrow> reader_state" where
  "set_stream lb src s = s\<lparr>rd_gate := (rd_gate s)\<lparr>gs_buffer := lb, gs_source := src\<rparr>\<rparr>"

text \<open>A phase yields a value or ends the turn.\<close>

datatype 'a phase = Next 'a | Stop ReaderStep

type_synonym 'a reader = "('a phase \<times> reader_state) run"

definition and_then :: "'a reader \<Rightarrow> ('a \<Rightarrow> reader_state \<Rightarrow> 'b reader) \<Rightarrow> 'b reader" where
  "and_then m f = run_bind m (\<lambda>(r, s). case r of Next x \<Rightarrow> f x s | Stop step \<Rightarrow> Some (Ok (Stop step, s)))"

definition yield_value :: "'a \<Rightarrow> reader_state \<Rightarrow> 'a reader" where
  "yield_value x s = Some (Ok (Next x, s))"

definition stop_turn :: "ReaderStep \<Rightarrow> reader_state \<Rightarrow> 'a reader" where
  "stop_turn step s = Some (Ok (Stop step, s))"

section \<open>Answers\<close>

definition DEFAULT_WRITE_TIMEOUT :: nat where "DEFAULT_WRITE_TIMEOUT = 30"

definition ready_slot :: "nat \<Rightarrow> bytes \<Rightarrow> queued_slot" where
  "ready_slot write_timeout bytes = ReadySlot \<lparr>rs_events = [Chunk bytes, Done], rs_write_timeout = write_timeout\<rparr>"

definition emit_single_response :: "reader_env \<Rightarrow> nat \<Rightarrow> bytes \<Rightarrow> reader_state \<Rightarrow> ReaderStep \<times> reader_state" where
  "emit_single_response R write_timeout bytes s =
     (if \<not> re_writer_open R then (CloseReading, s)
      else (ContinueReading, s\<lparr>rd_slots := rd_slots s @ [ready_slot write_timeout bytes]\<rparr>))"

text \<open>The answer of a turn that stays on the connection only when the endpoint keeps connections alive.\<close>

definition answer_and_stop :: "reader_env \<Rightarrow> HttpEndpointInfo \<Rightarrow> bytes \<Rightarrow> reader_state \<Rightarrow> 'a reader" where
  "answer_and_stop R ep bytes s =
     (case emit_single_response R (snd (ep_timeouts ep)) bytes s of
        (ContinueReading, s1) \<Rightarrow> stop_turn (if ep_keep_alive ep then ContinueReading else CloseReading) s1
      | (other, s1) \<Rightarrow> stop_turn other s1)"

definition page_bytes :: "reader_env \<Rightarrow> error_page \<Rightarrow> bytes" where
  "page_bytes R page = (case page of PagePayload bytes \<Rightarrow> bytes | _ \<Rightarrow> re_page R page)"

definition penalise :: "reader_env \<Rightarrow> reader_state \<Rightarrow> reader_state panics" where
  "penalise R s =
     (case ci_connection_ip (rd_info s) of
        None \<Rightarrow> Ok s
      | Some ip \<Rightarrow>
          rbind (register_failure (gl_clock_lib (re_gate R)) (gl_now (re_gate R)) ip Soft (gs_blocklist (rd_gate s)))
            (\<lambda>(_, bl). Ok (s\<lparr>rd_gate := (rd_gate s)\<lparr>gs_blocklist := bl\<rparr>\<rparr>)))"

definition respond_error :: "reader_env \<Rightarrow> ProxyServerError \<Rightarrow> reader_state \<Rightarrow> 'a reader" where
  "respond_error R err s =
     (let h = error_handling err in
      run_bind (Some (if eh_register_ip_failure h then penalise R s else Ok s)) (\<lambda>s1.
        case eh_page h of
          Some page \<Rightarrow>
            stop_turn CloseReading
              (if re_writer_open R
               then s1\<lparr>rd_slots := rd_slots s1 @ [ready_slot DEFAULT_WRITE_TIMEOUT (page_bytes R page)]\<rparr> else s1)
        | None \<Rightarrow> stop_turn CloseReading s1))"

section \<open>The endpoint of a request\<close>

definition read_request :: "reader_env \<Rightarrow> reader_state \<Rightarrow> Http1Headers reader" where
  "read_request R s =
     (case read_headers (gl_find_seq (re_gate R)) (gl_find_byte (re_gate R)) (re_eq_ci R) (fst (rd_timeouts s)) (rd_buffer s) (rd_source s) of
        (None, lb, src) \<Rightarrow> None
      | (Some Panic, lb, src) \<Rightarrow> Some Panic
      | (Some (Err _), lb, src) \<Rightarrow> stop_turn CloseReading (set_stream lb src s)
      | (Some (Ok h), lb, src) \<Rightarrow> yield_value h (set_stream lb src s))"

definition request_host :: "bytes \<Rightarrow> Http1Headers \<Rightarrow> bytes option panics" where
  "request_host buf h =
     (case h1_host_value h of
        None \<Rightarrow> Ok None
      | Some p \<Rightarrow>
          if hp_end p > length buf then Ok None
          else rbind (slice buf (hp_start p) (hp_end p)) (\<lambda>host_str.
            Ok (if \<not> utf8_valid host_str then None
                else Some (trim (case find_index 58 host_str of Some i \<Rightarrow> take i host_str | None \<Rightarrow> host_str)))))"

definition resolve_endpoint :: "reader_env \<Rightarrow> Http1Headers \<Rightarrow> reader_state \<Rightarrow> HttpEndpointInfo reader" where
  "resolve_endpoint R h s =
     (let info = rd_info s; buf = lb_get_data (rd_buffer s) in
      run_bind (Some (request_host buf h)) (\<lambda>host.
        let needs = (case ci_endpoint_info info of
                       None \<Rightarrow> True
                     | Some current \<Rightarrow> (case host of Some name \<Rightarrow> \<not> is_my_endpoint current name | None \<Rightarrow> False))
        in run_bind (Some (if needs then try_find_endpoint_info buf h (ci_listen_config info) else Ok (ci_endpoint_info info))) (\<lambda>found.
          let s1 = s\<lparr>rd_info := info\<lparr>ci_endpoint_info := found\<rparr>\<rparr>;
              s2 = (case (ci_endpoint_info info, found, ci_connection_ip info) of
                      (None, Some _, Some ip) \<Rightarrow>
                        s1\<lparr>rd_gate := (rd_gate s1)\<lparr>gs_blocklist := register_success ip (gs_blocklist (rd_gate s1))\<rparr>\<rparr>
                    | _ \<Rightarrow> s1)
          in case found of
               None \<Rightarrow> respond_error R HttpConfigurationIsNotFound s2
             | Some ep \<Rightarrow> yield_value ep (s2\<lparr>rd_timeouts := ep_timeouts ep\<rparr>))))"

definition check_connection :: "reader_env \<Rightarrow> HttpEndpointInfo \<Rightarrow> reader_state \<Rightarrow> unit reader" where
  "check_connection R ep s =
     (let info = rd_info s in
      if \<not> connection_satisfies_client_cert ep (map_option cc_ca_id (ci_cn_user_name info))
      then respond_error R MisdirectedClientCertRequired s
      else case (ep_whitelisted_ip_list_id ep, ci_connection_ip info) of
        (Some ip_list_id, Some client_ip) \<Rightarrow>
          run_bind (Some (config_white_listed (re_white_lists R) ip_list_id client_ip)) (\<lambda>is_whitelisted.
            if \<not> is_whitelisted then respond_error R NotAuthorizedRequest s else yield_value () s)
      | _ \<Rightarrow> yield_value () s)"

definition pass_oauth_gate :: "reader_env \<Rightarrow> HttpEndpointInfo \<Rightarrow> Http1Headers \<Rightarrow> reader_state \<Rightarrow> unit reader" where
  "pass_oauth_gate R ep h s =
     run_bind (run_oauth_gate ((re_gate R)\<lparr>gl_timeout := fst (rd_timeouts s)\<rparr>) ep (ci_connection_ip (rd_info s)) h (rd_gate s)) (\<lambda>(outcome, g).
       let s1 = s\<lparr>rd_gate := g\<rparr> in
       case outcome of
         Proceed \<Rightarrow> yield_value () s1
       | CloseConnection \<Rightarrow> stop_turn CloseReading s1
       | Answered bytes \<Rightarrow> answer_and_stop R ep bytes s1)"

section \<open>The location and the identity\<close>

definition locate :: "reader_env \<Rightarrow> HttpEndpointInfo \<Rightarrow> Http1Headers \<Rightarrow> reader_state \<Rightarrow> ProxyPassLocationConfig reader" where
  "locate R ep h s =
     run_bind (Some (rbind (get_first_line (lb_get_data (rd_buffer s)) h) (\<lambda>first_line.
       rbind (get_path_and_query (gl_find_byte (re_gate R)) first_line) (\<lambda>path. find_location (ep_locations ep) path)))) (\<lambda>found.
       case found of
         None \<Rightarrow> respond_error R LocationIsNotFound s
       | Some location \<Rightarrow> if is_drop (lc_proxy_pass_to location) then stop_turn CloseReading s else yield_value location s)"

definition authorize_libs_of :: "reader_env \<Rightarrow> authorize_libs" where
  "authorize_libs_of R =
     \<lparr>al_google = re_google R, al_find_seq = gl_find_seq (re_gate R), al_find_byte = gl_find_byte (re_gate R),
      al_reason = gl_reason (re_gate R)\<rparr>"

definition identify ::
  "reader_env \<Rightarrow> HttpEndpointInfo \<Rightarrow> ProxyPassLocationConfig \<Rightarrow> Http1Headers \<Rightarrow> reader_state \<Rightarrow> HttpProxyPassIdentity option reader" where
  "identify R ep location h s =
     (case authorize (authorize_libs_of R) (re_google_auth R) ep location (ci_cn_user_name (rd_info s)) h (lb_get_data (rd_buffer s)) of
        None \<Rightarrow> None
      | Some Panic \<Rightarrow> Some Panic
      | Some (Err err) \<Rightarrow> respond_error R err s
      | Some (Ok identity) \<Rightarrow>
          if user_is_allowed (re_users R) ep (map_option identity_as_str identity) then yield_value identity s
          else respond_error R NotAuthorizedRequest s)"

section \<open>The target\<close>

definition web_scheme :: "scheme option \<Rightarrow> bool" where
  "web_scheme s = (case s of Some SchemeHttp \<Rightarrow> True | Some SchemeHttps \<Rightarrow> True | Some SchemeWs \<Rightarrow> True | Some SchemeWss \<Rightarrow> True | _ \<Rightarrow> False)"

definition host_allowed :: "DynamicProxyConfig \<Rightarrow> bytes \<Rightarrow> bool" where
  "host_allowed config host =
     (case dp_allowed_hosts config of Some allowed \<Rightarrow> list_ex (\<lambda>h. eq_no_case h host) allowed | None \<Rightarrow> True)"

definition choose_target ::
  "reader_env \<Rightarrow> ProxyPassLocationConfig \<Rightarrow> Http1Headers \<Rightarrow> reader_state \<Rightarrow> (ProxyPassToConfig \<times> bytes option) reader" where
  "choose_target R location h s =
     (case lc_proxy_pass_to location of
        ToDynamicProxy config \<Rightarrow>
          run_bind (find_header_value_str (gl_find_seq (re_gate R)) (gl_find_byte (re_gate R)) (lb_get_data (rd_buffer s))
              (as_bytes ''proxy-to'') h) (\<lambda>proxy_to.
            case proxy_to of
              None \<Rightarrow> respond_error R ProxyToHeaderMissing s
            | Some text \<Rightarrow>
                (case re_try_parse R text of
                   None \<Rightarrow> respond_error R ProxyToHeaderInvalid s
                 | Some endpoint \<Rightarrow>
                     if \<not> web_scheme (re_scheme endpoint) then respond_error R ProxyToHeaderInvalid s
                     else if \<not> host_allowed config (re_host endpoint) then respond_error R ProxyToHostNotAllowed s
                     else yield_value
                       (ToHttp1 \<lparr>pt_remote_host = Direct endpoint, pt_request_timeout = dp_request_timeout config,
                          pt_connect_timeout = dp_connect_timeout config,
            pt_pool_tuning = default_pool_tuning\<rparr>, Some (re_host_port endpoint)) s))
      | other \<Rightarrow> yield_value (other, None) s)"

section \<open>Rewriting the head\<close>

definition ip_to_string :: "reader_env \<Rightarrow> IpAddr \<Rightarrow> bytes" where
  "ip_to_string R ip = (case ip of V4 a b c d \<Rightarrow> ip_text (octets_value a b c d) | V6 bs \<Rightarrow> re_ipv6_text R bs)"

definition connection_info_of :: "reader_env \<Rightarrow> HttpConnectionInfo \<Rightarrow> connection_info" where
  "connection_info_of R info =
     \<lparr>cn_client_ip = map_option (ip_to_string R) (ci_connection_ip info),
      cn_country = Option.bind (ci_connection_ip info) (\<lambda>ip.
        case lookup_country (re_ranges R) (re_ipv6_db R) ip of Ok code \<Rightarrow> code | _ \<Rightarrow> None),
      cn_is_https = is_https (lp_listen_endpoint_type (ci_listen_config info))\<rparr>"

definition compile_request ::
  "reader_env \<Rightarrow> HttpEndpointInfo \<Rightarrow> Http1Headers \<Rightarrow> HttpProxyPassIdentity option \<Rightarrow> ProxyPassToConfig \<times> bytes option \<Rightarrow> reader_state
     \<Rightarrow> (bytes \<times> bool) reader" where
  "compile_request R ep h identity target s =
     (case compile_headers (gl_find_seq (re_gate R)) (gl_find_byte (re_gate R)) (re_tokens R) (re_env R) h
             (RequestHeaders (endpoint_rules_of ep)) (connection_info_of R (rd_info s)) (map_option identity_as_str identity)
             (mcp_path (fst target)) (snd target) (rd_buffer s) of
        None \<Rightarrow> None
      | Some Panic \<Rightarrow> Some Panic
      | Some (Err err) \<Rightarrow> respond_error R err s
      | Some (Ok (head, is_websocket, lb)) \<Rightarrow> yield_value (head, is_websocket) (set_stream lb (rd_source s) s))"

section \<open>Answers without an upstream\<close>

text \<open>The request body is drained; a failure to drain it is ignored.\<close>

definition drain_body :: "reader_env \<Rightarrow> HttpContentLength \<Rightarrow> reader_state \<Rightarrow> reader_state run" where
  "drain_body R content_length s =
     (case transfer_body (gl_find_seq (re_gate R)) null_sink (fst (rd_timeouts s)) (gl_fuel (re_gate R)) (rd_buffer s) (rd_source s)
             content_length () of
        None \<Rightarrow> None
      | Some (Panic, lb, src, _) \<Rightarrow> Some Panic
      | Some (_, lb, src, _) \<Rightarrow> Some (Ok (set_stream lb src s)))"

definition static_response :: "reader_env \<Rightarrow> StaticContentConfig \<Rightarrow> bytes" where
  "static_response R cfg =
     (let builder = new_response (gl_reason (re_gate R)) (sc_status_code cfg) in
      build_with_body (sc_body cfg)
        (case sc_content_type cfg of Some content_type \<Rightarrow> add_content_type content_type builder | None \<Rightarrow> builder))"

definition serve_file :: "reader_env \<Rightarrow> bytes \<Rightarrow> bytes \<Rightarrow> bytes option \<Rightarrow> bytes" where
  "serve_file R files_path path default_file =
     (let serve = (\<lambda>file_name.
            let file_path = re_append_segment R files_path file_name in
            case re_read_file R file_path of
              Some content \<Rightarrow>
                let builder = new_response (gl_reason (re_gate R)) 200 in
                build_with_body content
                  (case re_content_type R file_path of Some t \<Rightarrow> add_content_type t builder | None \<Rightarrow> builder)
            | None \<Rightarrow> re_not_found R)
      in if path = [47] then (case default_file of Some f \<Rightarrow> serve f | None \<Rightarrow> re_not_found R) else serve path)"

definition builder_first_line :: "find_byte \<Rightarrow> bytes \<Rightarrow> bytes panics" where
  "builder_first_line find_byte payload =
     (case find_byte payload 10 0 of None \<Rightarrow> Panic | Some index \<Rightarrow> slice payload 0 index)"

definition file_response :: "reader_env \<Rightarrow> ProxyPassFilesPathModel \<Rightarrow> bytes \<Rightarrow> bytes panics" where
  "file_response R model head =
     rbind (builder_first_line (gl_find_byte (re_gate R)) head) (\<lambda>first_line.
     rbind (get_verb_and_path (gl_find_byte (re_gate R)) first_line) (\<lambda>(verb, path).
       Ok (if verb \<noteq> as_bytes ''GET'' then re_not_found R
           else serve_file R (remote_to_string (fp_files_path model)) path (fp_default_file model))))"

section \<open>Dispatch\<close>

text \<open>The body channel of a worker that takes so many chunks more.\<close>

record worker_channel =
  wc_items :: "bytes list"
  wc_left :: "nat option"

definition worker_sink :: "worker_channel sink" where
  "worker_sink buffer c =
     (case wc_left c of
        Some 0 \<Rightarrow> (Err Disconnected, c)
      | Some (Suc n) \<Rightarrow> (Ok (), \<lparr>wc_items = wc_items c @ [buffer], wc_left = Some n\<rparr>)
      | None \<Rightarrow> (Ok (), c\<lparr>wc_items := wc_items c @ [buffer]\<rparr>))"

definition dispatch_to_worker ::
  "reader_env \<Rightarrow> HttpEndpointInfo \<Rightarrow> ProxyPassLocationConfig \<Rightarrow> HttpProxyPassIdentity option \<Rightarrow> ProxyPassToConfig \<Rightarrow> bytes
     \<Rightarrow> HttpContentLength \<Rightarrow> reader_state \<Rightarrow> unit reader" where
  "dispatch_to_worker R ep location identity target head content_length s =
     (if \<not> re_writer_open R then stop_turn CloseReading s
      else
        case transfer_body (gl_find_seq (re_gate R)) worker_sink (fst (rd_timeouts s)) (gl_fuel (re_gate R)) (rd_buffer s) (rd_source s)
               content_length \<lparr>wc_items = [], wc_left = re_worker_takes R\<rparr> of
          None \<Rightarrow> None
        | Some (r, lb, src, c) \<Rightarrow>
            let s1 = (set_stream lb src s)\<lparr>rd_slots := rd_slots s @ [WorkerSlot (snd (ep_timeouts ep))],
                  rd_workers := rd_workers s @
                    [\<lparr>dr_proxy_pass_to = target, dr_endpoint = ep, dr_location_id = lc_id location, dr_identity = identity,
                      dr_head = head, dr_body = wc_items c\<rparr>]\<rparr>
            in case r of
                 Panic \<Rightarrow> Some Panic
               | Err _ \<Rightarrow> stop_turn CloseReading s1
               | Ok _ \<Rightarrow> stop_turn (if ep_keep_alive ep then ContinueReading else CloseReading) s1)"

definition serve_request ::
  "reader_env \<Rightarrow> HttpEndpointInfo \<Rightarrow> ProxyPassLocationConfig \<Rightarrow> HttpProxyPassIdentity option \<Rightarrow> ProxyPassToConfig \<Rightarrow> bytes \<times> bool
     \<Rightarrow> HttpContentLength \<Rightarrow> reader_state \<Rightarrow> unit reader" where
  "serve_request R ep location identity target compiled content_length s =
     (case lc_proxy_pass_to location of
        ToStatic cfg \<Rightarrow>
          run_bind (drain_body R content_length s) (\<lambda>s1. answer_and_stop R ep (static_response R cfg) s1)
      | ToFilesPath model \<Rightarrow>
          run_bind (Some (file_response R model (fst compiled))) (\<lambda>bytes.
          run_bind (drain_body R content_length s) (\<lambda>s1. answer_and_stop R ep bytes s1))
      | _ \<Rightarrow>
          if snd compiled then
            stop_turn (UpgradeTo \<lparr>ug_proxy_pass_to = target, ug_endpoint = ep, ug_location_id = lc_id location,
              ug_head = fst compiled, ug_write_timeout = snd (ep_timeouts ep)\<rparr>) s
          else dispatch_to_worker R ep location identity target (fst compiled) content_length s)"

text \<open>One turn: every phase in order. It always ends with a step.\<close>

definition reader_turn :: "reader_env \<Rightarrow> reader_state \<Rightarrow> unit reader" where
  "reader_turn R s =
     and_then (read_request R s) (\<lambda>h s.
     and_then (resolve_endpoint R h s) (\<lambda>ep s.
     and_then (check_connection R ep s) (\<lambda>_ s.
     and_then (pass_oauth_gate R ep h s) (\<lambda>_ s.
     and_then (locate R ep h s) (\<lambda>location s.
     and_then (identify R ep location h s) (\<lambda>identity s.
     and_then (choose_target R location h s) (\<lambda>target s.
     and_then (compile_request R ep h identity target s) (\<lambda>compiled s.
       serve_request R ep location identity (fst target) compiled (h1_content_length h) s))))))))"

definition read_and_dispatch :: "reader_env \<Rightarrow> reader_state \<Rightarrow> (ReaderStep \<times> reader_state) run" where
  "read_and_dispatch R s =
     run_bind (reader_turn R s) (\<lambda>(r, s1).
       case r of Stop step \<Rightarrow> Some (Ok (step, s1)) | Next _ \<Rightarrow> Some (Ok (CloseReading, s1)))"

text \<open>The loop of a connection; each turn meets its own surroundings.\<close>

datatype serve_end = Closed | Upgraded UpgradeContext | StillServing

fun serve_loop :: "reader_env list \<Rightarrow> reader_state \<Rightarrow> (serve_end \<times> reader_state) run" where
  "serve_loop [] s = Some (Ok (StillServing, s))"
| "serve_loop (R # Rs) s =
     run_bind (read_and_dispatch R s) (\<lambda>(step, s1).
       case step of
         ContinueReading \<Rightarrow> serve_loop Rs s1
       | CloseReading \<Rightarrow> Some (Ok (Closed, s1))
       | UpgradeTo ctx \<Rightarrow> Some (Ok (Upgraded ctx, s1)))"

end
