(* ===== verification/OAuth_Properties.thy ===== *)
theory OAuth_Properties
  imports OAuth_Gate
begin

text \<open>
  Properties of the OAuth server and its gate: codes are used once, tokens are handed out only for a
  proof of identity and a grant, the flow as a whole succeeds, the gate lets only tokens of the
  block through, the consent screen cannot be given markup; and three defects: a chunked form is read
  with its framing, a redirect address can carry header lines, and a request path can panic the task.
\<close>

section \<open>Examples\<close>

definition demo_settings :: OAuthSettings where
  "demo_settings = \<lparr>os_client_id = as_bytes ''c'', os_client_secret = as_bytes ''s'', os_consent_password = as_bytes ''p'',
     os_public_url = None, os_signing_key = None, os_signing_key_file = None, os_access_token_ttl_sec = None,
     os_refresh_token_ttl_sec = None\<rparr>"

definition demo_context :: OAuthContext where
  "demo_context = new_oauth_context demo_settings [1]"

definition demo_request :: "OAuthRoute \<Rightarrow> bytes \<Rightarrow> OAuthRequest" where
  "demo_request route body = \<lparr>oq_method = Post, oq_route = route, oq_base_url = as_bytes ''http://h'', oq_query = None, oq_body = body,
     oq_content_type = None, oq_authorization = None, oq_known_resource_paths = []\<rparr>"

section \<open>Properties\<close>

text \<open>
  C13. An authorization code works once: whatever codes were issued and redeemed before, in any
  order and at any times, a code that is redeemed was issued, has not expired, nothing has redeemed
  or replaced it since, the grant returned is the one agreed to when it was issued, and it is gone
  afterwards.
\<close>

theorem auth_code_single_use:
  assumes "take_code now code (fold (run_op (put_code iteration) withdraw_code) ops []) = (Some granted, codes1)"
  shows "map_of codes1 code = None \<and> now <s ac_expires_at_sec granted \<and>
    (\<exists>pre t issued post. ops = pre @ PutOp t code issued # post \<and> granted = issued_entry (fst t) issued \<and>
      list_all (\<lambda>x. op_key x \<noteq> code) post)"
  using auth_codes.withdrawn_once [of "[]" code "(now, now)" iteration ops granted codes1] assms
  by (simp add: codes_ok_def)

definition demo_issued :: IssuedAuthCode where
  "demo_issued = \<lparr>is_redirect_uri = as_bytes ''r'', is_code_challenge = hex_encode (ol_sha256 demo_lib (as_bytes ''v'')),
     is_scope = MCP_SCOPE, is_resource = None\<rparr>"

lemma demo_redeem:
  "take_code 5 (as_bytes ''A'') (fold (run_op (put_code (\<lambda>x. x)) withdraw_code) [PutOp (0, 0) (as_bytes ''A'') demo_issued] []) =
     (Some (issued_entry 0 demo_issued), [])"
  by code_simp

theorem auth_code_single_use_witness:
  "5 <s ac_expires_at_sec (issued_entry 0 demo_issued) \<and>
   (\<exists>pre t issued post. [PutOp (0, 0 :: i64) (as_bytes ''A'') demo_issued] = pre @ PutOp t (as_bytes ''A'') issued # post \<and>
      issued_entry 0 demo_issued = issued_entry (fst t) issued \<and> list_all (\<lambda>x. op_key x \<noteq> as_bytes ''A'') post)"
  using auth_code_single_use [OF demo_redeem] by (rule conjunct2)

text \<open>
  C4. What a token response proves: the token endpoint answers 200 only to a POST whose client
  credentials are those of the block, and only for a code that is held and unexpired, presented with
  the redirect address it was issued for and a verifier that hashes to its challenge, and which is
  then gone; or for a refresh token that verifies under the key of the block. The tokens carry the
  scope and resource of that grant, never ones from the request.
\<close>

theorem token_endpoint_sound:
  assumes "handle_token lib clock cx request = Ok (resp, cx1)" and "or_status_code resp = 200" and "codes_ok (oc_codes cx)"
  shows "\<exists>client. oq_method request = Post \<and>
    presented_client lib (oq_authorization request) (request_parameters request) = Ok (Some client) \<and>
    matches_client_id cx (pc_client_id client) \<and> matches_client_secret cx (pc_client_secret client) \<and>
    ((\<exists>issued. map_of (oc_codes cx) (get_param (request_parameters request) ''code'') = Some issued \<and>
        clock 0 <s ac_expires_at_sec issued \<and>
        get_param (request_parameters request) ''redirect_uri'' = ac_redirect_uri issued \<and>
        ol_base64_url_encode lib (ol_sha256 lib (get_param (request_parameters request) ''code_verifier'')) = ac_code_challenge issued \<and>
        resp = mint_response lib clock cx1 (ac_scope issued) (ac_resource issued) \<and>
        map_of (oc_codes cx1) (get_param (request_parameters request) ''code'') = None) \<or>
     (\<exists>vt. verify lib (oc_signer cx) (clock 0) (get_param (request_parameters request) ''refresh_token'') Refresh = Some vt \<and>
        resp = mint_response lib clock cx (vt_scope vt) (vt_audience vt)))"
proof -
  let ?ps = "request_parameters request"
  obtain client gt where c: "oq_method request = Post" "presented_client lib (oq_authorization request) ?ps = Ok (Some client)"
      "matches_client_id cx (pc_client_id client)" "matches_client_secret cx (pc_client_secret client)"
      "gt = as_bytes ''authorization_code'' \<and> exchange_authorization_code lib clock cx ?ps = (resp, cx1) \<or>
       gt = as_bytes ''refresh_token'' \<and> refresh_tokens lib clock cx ?ps = resp \<and> cx1 = cx"
    by (rule handle_token_200 [OF assms(1,2)]) blast
  from c(5) show ?thesis
  proof
    assume "gt = as_bytes ''authorization_code'' \<and> exchange_authorization_code lib clock cx ?ps = (resp, cx1)"
    then have e: "exchange_authorization_code lib clock cx ?ps = (resp, cx1)" ..
    show ?thesis by (rule exchange_200 [OF e assms(2,3)], rule exI [of _ client], intro conjI disjI1 exI) (assumption | rule c)+
  next
    assume "gt = as_bytes ''refresh_token'' \<and> refresh_tokens lib clock cx ?ps = resp \<and> cx1 = cx"
    then have e: "refresh_tokens lib clock cx ?ps = resp" by (elim conjE)
    show ?thesis by (rule refresh_200 [OF e assms(2)], rule exI [of _ client], intro conjI disjI2 exI) (assumption | rule c)+
  qed
qed

definition demo_form :: bytes where
  "demo_form = as_bytes ''grant_type=authorization_code&code=A&redirect_uri=r&code_verifier=v&client_id=c&client_secret=s''"

definition demo_held :: OAuthContext where
  "demo_held = demo_context\<lparr>oc_codes := [(as_bytes ''A'', issued_entry 0 demo_issued)]\<rparr>"

lemma demo_exchange:
  "map_option (\<lambda>(resp, cx1). (or_status_code resp, oc_codes cx1))
     (case handle_token demo_lib (\<lambda>_. 5) demo_held (demo_request TokenRoute demo_form) of Ok x \<Rightarrow> Some x | _ \<Rightarrow> None) =
   Some (200, [])"
  by code_simp

theorem token_endpoint_sound_witness:
  "\<exists>client resp cx1. handle_token demo_lib (\<lambda>_. 5) demo_held (demo_request TokenRoute demo_form) = Ok (resp, cx1) \<and>
    or_status_code resp = 200 \<and>
    presented_client demo_lib None (request_parameters (demo_request TokenRoute demo_form)) = Ok (Some client) \<and>
    matches_client_id demo_held (pc_client_id client) \<and> matches_client_secret demo_held (pc_client_secret client)"
proof -
  from demo_exchange obtain resp cx1 where
    r: "handle_token demo_lib (\<lambda>_. 5) demo_held (demo_request TokenRoute demo_form) = Ok (resp, cx1)" "or_status_code resp = 200"
    by (auto split: outcome.splits)
  have "codes_ok (oc_codes demo_held)" by (simp add: demo_held_def codes_ok_def)
  from token_endpoint_sound [OF r this] have "\<exists>client.
      presented_client demo_lib (oq_authorization (demo_request TokenRoute demo_form))
        (request_parameters (demo_request TokenRoute demo_form)) = Ok (Some client) \<and>
      matches_client_id demo_held (pc_client_id client) \<and> matches_client_secret demo_held (pc_client_secret client)"
    by blast
  with r show ?thesis unfolding demo_request_def by auto
qed

text \<open>
  C14. The flow succeeds: after a consent with the right password, the code sent to the redirect
  address can be exchanged, with the client's credentials and the verifier of the challenge, within
  300 seconds, whatever other codes are held; the answer is 200 with tokens, and until its lifetime
  has passed the access token opens every path its resource covers.
\<close>

theorem oauth_flow_completes:
  assumes "oauth_lib_ok lib" and "consents cx r1 v" and "AUTH_CODE_BYTES \<le> length random"
    and "exchanges lib cx r2 v (ol_base64_url_encode lib (take AUTH_CODE_BYTES random))"
    and "clock2 0 <s clock1 0 + AUTH_CODE_TTL_SEC" and "now <s clock2 1 + oc_access_token_ttl_sec cx"
    and "path \<noteq> []" and "case va_resource v of None \<Rightarrow> True | Some resource \<Rightarrow> covers resource base path"
  shows "\<exists>cx1 cx2 minted.
    handle_authorize lib clock1 random cx r1 =
      (redirect_response (push_state (va_state v) (append_query (va_redirect_uri v) @ as_bytes ''code='' @
         percent_encode (ol_base64_url_encode lib (take AUTH_CODE_BYTES random)))), cx1) \<and>
    handle_token lib clock2 cx1 r2 = Ok (json_response 200 (token_response_body lib minted), cx2) \<and>
    check_bearer lib now cx2 \<lparr>bg_authorization = Some (as_bytes ''Bearer '' @ mt_access_token minted),
      bg_base_url = base, bg_resource_path = path\<rparr> = Ok Allowed"
proof -
  let ?code = "ol_base64_url_encode lib (take AUTH_CODE_BYTES random)"
  let ?i = "\<lparr>is_redirect_uri = va_redirect_uri v, is_code_challenge = va_code_challenge v,
    is_scope = va_granted_scope v, is_resource = va_resource v\<rparr>"
  let ?cx1 = "cx\<lparr>oc_codes := issue_auth_code (ol_iteration lib) (clock1 0) (clock1 1) ?code ?i (oc_codes cx)\<rparr>"
  have a: "handle_authorize lib clock1 random cx r1 =
      (redirect_response (push_state (va_state v) (append_query (va_redirect_uri v) @ as_bytes ''code='' @ percent_encode ?code)), ?cx1)"
    using assms(2) by (simp add: consents_def handle_authorize_def Let_def issue_code_def)
  have "random \<noteq> []" using assms(3) by (auto simp: AUTH_CODE_BYTES_def)
  then have "?code \<noteq> []" by (simp add: lib_encode_empty [OF assms(1)] AUTH_CODE_BYTES_def)
  moreover have "va_code_challenge v \<noteq> []" using assms(2) validated_challenge by (auto simp: consents_def)
  moreover have "exchanges lib ?cx1 r2 v ?code"
    using assms(4) by (simp add: exchanges_def check_client_id_def check_client_secret_def)
  moreover have "fst (take_code (clock2 0) ?code (oc_codes ?cx1)) = Some (issued_entry (clock1 0) ?i)"
    using take_issued_code [OF assms(5)] by simp
  ultimately obtain minted where m:
    "handle_token lib clock2 ?cx1 r2 =
      Ok (json_response 200 (token_response_body lib minted), ?cx1\<lparr>oc_codes := snd (take_code (clock2 0) ?code (oc_codes ?cx1))\<rparr>)"
    "mint lib (oc_signer ?cx1) (clock2 1) Access (va_granted_scope v) (va_resource v) (oc_access_token_ttl_sec ?cx1) =
      Inr (mt_access_token minted)"
    using flow_exchange [OF assms(1)] by metis
  from m(2) have mi: "mint lib (oc_signer cx) (clock2 1) Access (va_granted_scope v) (va_resource v) (oc_access_token_ttl_sec cx) =
      Inr (mt_access_token minted)" by simp
  have v: "verify lib (oc_signer cx) now (mt_access_token minted) Access =
      Some \<lparr>vt_scope = va_granted_scope v, vt_audience = va_resource v\<rparr>"
    using verify_mint [OF assms(1) mi, of now Access] assms(6) by simp
  have "check_bearer lib now (?cx1\<lparr>oc_codes := snd (take_code (clock2 0) ?code (oc_codes ?cx1))\<rparr>)
      \<lparr>bg_authorization = Some (as_bytes ''Bearer '' @ mt_access_token minted), bg_base_url = base, bg_resource_path = path\<rparr> = Ok Allowed"
    using bearer_token_of [OF minted_token_text [OF assms(1) mi]] assms(7,8)
    by (simp add: check_bearer_def v audience_allows_iff split: option.splits)
  with a m(1) show ?thesis by blast
qed

definition demo_consent :: bytes where
  "demo_consent = as_bytes ''client_id=c&redirect_uri=http://localhost/&response_type=code&consent_password=p&code_challenge='' @
     hex_encode (ol_sha256 demo_lib (as_bytes ''v''))"

definition demo_validated :: ValidatedAuthorizeRequest where
  "demo_validated = \<lparr>va_client_id = as_bytes ''c'', va_redirect_uri = as_bytes ''http://localhost/'', va_state = None,
     va_code_challenge = hex_encode (ol_sha256 demo_lib (as_bytes ''v'')), va_granted_scope = MCP_SCOPE, va_resource = None\<rparr>"

definition demo_redemption :: bytes where
  "demo_redemption = as_bytes ''grant_type=authorization_code&redirect_uri=http://localhost/&code_verifier=v&client_id=c&client_secret=s&code='' @
     hex_encode (replicate 32 7)"

lemma demo_consents: "consents demo_context (demo_request AuthorizeRoute demo_consent) demo_validated"
  by code_simp

lemma demo_exchanges:
  "exchanges demo_lib demo_context (demo_request TokenRoute demo_redemption) demo_validated
     (ol_base64_url_encode demo_lib (take AUTH_CODE_BYTES (replicate 32 7)))"
  by code_simp

theorem oauth_flow_completes_witness:
  "\<exists>cx1 cx2 minted url.
    handle_authorize demo_lib (\<lambda>_. 0) (replicate 32 7) demo_context (demo_request AuthorizeRoute demo_consent) =
      (redirect_response url, cx1) \<and>
    handle_token demo_lib (\<lambda>_. 5) cx1 (demo_request TokenRoute demo_redemption) =
      Ok (json_response 200 (token_response_body demo_lib minted), cx2) \<and>
    check_bearer demo_lib 60 cx2 \<lparr>bg_authorization = Some (as_bytes ''Bearer '' @ mt_access_token minted),
      bg_base_url = as_bytes ''http://h'', bg_resource_path = as_bytes ''/mcp''\<rparr> = Ok Allowed"
proof -
  have "AUTH_CODE_BYTES \<le> length (replicate 32 (7 :: u8))" by (simp add: AUTH_CODE_BYTES_def)
  note t = oauth_flow_completes [OF demo_lib_ok demo_consents this demo_exchanges, of "\<lambda>_. 5" "\<lambda>_. 0" 60 "as_bytes ''/mcp''" "as_bytes ''http://h''"]
  have "5 <s (0 :: i64) + AUTH_CODE_TTL_SEC" "60 <s 5 + oc_access_token_ttl_sec demo_context" by code_simp+
  with t show ?thesis by (fastforce simp: demo_validated_def)
qed

text \<open>
  C3. What the gate lets through: on an endpoint with an \<open>oauth:\<close> block a request goes on to the
  upstream only when the block is loaded, the path is not one of the OAuth server's own, and the
  request carries a bearer token that verifies under the block's key as an unexpired access token,
  whose audience, if it has one, covers the path of the location the request resolves to. The
  request body is then still unread and nothing has changed.
\<close>

theorem gate_requires_token:
  assumes "run_oauth_gate L ep ip h s = Some (Ok (Proceed, s1))" and "ep_oauth ep = Some oauth_id"
  shows "s1 = s \<and> (\<exists>cx facts tok vt. gs_contexts s oauth_id = Some cx \<and>
    read_facts L ep h (lb_get_data (gs_buffer s)) = Some (Ok facts) \<and> route_oauth_path (rf_path facts) = Ok None \<and>
    bearer_token (rf_authorization facts) = Ok (Some tok) \<and>
    verify (gl_oauth L) (oc_signer cx) (gl_clock L 0) tok Access = Some vt \<and>
    (\<forall>aud. vt_audience vt = Some aud \<longrightarrow> covers aud (context_base_url cx (rf_base_url facts)) (rf_resource_path facts)))"
proof -
  obtain cx facts where g: "gs_contexts s oauth_id = Some cx" "read_facts L ep h (lb_get_data (gs_buffer s)) = Some (Ok facts)"
      "route_oauth_path (rf_path facts) = Ok None" "s1 = s"
      "check_bearer (gl_oauth L) (gl_clock L 0) cx
         \<lparr>bg_authorization = rf_authorization facts, bg_base_url = context_base_url cx (rf_base_url facts),
          bg_resource_path = rf_resource_path facts\<rparr> = Ok Allowed"
    by (rule gate_proceeds [OF assms])
  from check_bearer_Allowed [OF g(5)] read_facts_path [OF g(2)] g(1-4) show ?thesis by auto
qed

text \<open>An endpoint, libraries and a request with a token; any token of two parts verifies with these libraries.\<close>

definition lax_lib :: oauth_lib where
  "lax_lib = demo_lib\<lparr>ol_sha256 := (\<lambda>_. []), ol_base64_url_decode := Some,
     ol_parse_payload := (\<lambda>_. Some \<lparr>tp_k = as_bytes ''a'', tp_exp = 9, tp_sc = MCP_SCOPE, tp_aud = None\<rparr>)\<rparr>"

fun scan_from :: "nat \<Rightarrow> bytes \<Rightarrow> bytes \<Rightarrow> nat option" where
  "scan_from i pat [] = None"
| "scan_from i pat (x # xs) = (if take (length pat) (x # xs) = pat then Some i else scan_from (Suc i) pat xs)"

definition demo_libs :: gate_libs where
  "demo_libs = \<lparr>gl_oauth = lax_lib, gl_clock = (\<lambda>_. 5), gl_random = [], gl_find_seq = (\<lambda>xs pat i. scan_from i pat (drop i xs)),
     gl_find_byte = (\<lambda>xs b i. scan_from i [b] (drop i xs)),
     gl_reason = (\<lambda>_. None), gl_timeout = 1, gl_fuel = 9, gl_clock_lib = \<lparr>full_seconds_since = (\<lambda>a b. a - b), add_seconds = (+)\<rparr>,
     gl_now = 0\<rparr>"

definition demo_upstream :: ProxyPassToConfig where
  "demo_upstream = ToHttp1 \<lparr>pt_remote_host = Direct \<lparr>re_text = as_bytes ''u'', re_scheme = Some SchemeHttp, re_host = as_bytes ''u'',
     re_host_port = as_bytes ''u:80'', re_path_and_query = None\<rparr>, pt_request_timeout = 1, pt_connect_timeout = 1,
     pt_pool_tuning = default_pool_tuning\<rparr>"

definition demo_location :: ProxyPassLocationConfig where
  "demo_location = \<lparr>lc_path = as_bytes ''/'', lc_id = 1, lc_ip_white_list_id = None, lc_proxy_pass_to = demo_upstream, lc_auth_header = None,
     lc_modify_request_headers = default_modify_headers, lc_modify_response_headers = default_modify_headers, lc_compress = False\<rparr>"

definition demo_endpoint :: HttpEndpointInfo where
  "demo_endpoint = new_endpoint_info \<lparr>pp_host_endpoint = \<lparr>hs_src = as_bytes ''80'', hs_port = Some 80, hs_index = None\<rparr>,
     pp_listen_endpoint_type = ListenHttp1, pp_inject_country = False, pp_g_auth = None, pp_oauth = Some (as_bytes ''o''),
     pp_ssl_certificate_id = None, pp_client_certificate_id = None, pp_whitelisted_ip_list_id = None,
     pp_locations = [demo_location],
     pp_allowed_user_list_id = None, pp_global_modify_headers = None, pp_endpoint_modify_headers = None, pp_keep_alive = True,
     pp_track_metrics_by_all_domains = False, pp_hsts = False,
     pp_mcp_settings = \<lparr>me_read_timeout = 1, me_write_timeout = 1, me_buffer_size = 1\<rparr>, pp_timeouts = (1, 1)\<rparr>"

definition demo_state :: "bytes \<Rightarrow> gate_state" where
  "demo_state bs = \<lparr>gs_buffer = small_buffer bs, gs_source = [], gs_contexts = [as_bytes ''o'' \<mapsto> demo_context],
     gs_blocklist = new_blocklist\<rparr>"

definition demo_bearer :: bytes where
  "demo_bearer = as_bytes ''GET /x HTTP/1.1'' @ HTTP_CR_LF @ as_bytes ''authorization: Bearer v1..'' @ HTTP_CR_LF @ HTTP_CR_LF"

definition demo_head :: "nat \<Rightarrow> nat \<Rightarrow> Http1Headers" where
  "demo_head line_end head_end = \<lparr>h1_first_line_end = line_end, h1_end = head_end, h1_content_length = NoBody,
     h1_host_value = None, h1_cookie_value = None, h1_upgrade_value = None\<rparr>"

lemma demo_facts: "read_facts demo_libs demo_endpoint (demo_head 15 47) demo_bearer = Some (Ok
   \<lparr>rf_method = as_bytes ''GET'', rf_path = as_bytes ''/x'', rf_query = None, rf_base_url = as_bytes ''http://80'',
    rf_resource_path = as_bytes ''/'', rf_authorization = Some (as_bytes ''Bearer v1..''), rf_content_type = None\<rparr>)"
  by code_simp

lemma demo_allowed:
  "check_bearer lax_lib 5 demo_context \<lparr>bg_authorization = Some (as_bytes ''Bearer v1..''), bg_base_url = as_bytes ''http://80'',
     bg_resource_path = as_bytes ''/''\<rparr> = Ok Allowed"
  by code_simp

lemma demo_oauth: "ep_oauth demo_endpoint = Some (as_bytes ''o'')"
  by code_simp

lemma demo_proceeds:
  "run_oauth_gate demo_libs demo_endpoint None (demo_head 15 47) (demo_state demo_bearer) = Some (Ok (Proceed, demo_state demo_bearer))"
proof -
  have r: "route_oauth_path (as_bytes ''/x'') = Ok None" by code_simp
  have u: "context_base_url demo_context (as_bytes ''http://80'') = as_bytes ''http://80''" by code_simp
  have s: "gs_contexts (demo_state demo_bearer) (as_bytes ''o'') = Some demo_context" "lb_get_data (gs_buffer (demo_state demo_bearer)) = demo_bearer"
    by (simp_all add: demo_state_def)
  have l: "gl_oauth demo_libs = lax_lib" "gl_clock demo_libs 0 = 5" by (simp_all add: demo_libs_def)
  show ?thesis
    unfolding run_oauth_gate_def demo_oauth s option.case demo_facts run_bind.simps RequestFacts.simps r gate_proxied_request_def
      u l demo_allowed BearerGateResult.case by (rule refl)
qed

theorem gate_requires_token_witness:
  "\<exists>cx facts tok vt. gs_contexts (demo_state demo_bearer) (as_bytes ''o'') = Some cx \<and>
    read_facts demo_libs demo_endpoint (demo_head 15 47) demo_bearer = Some (Ok facts) \<and>
    bearer_token (rf_authorization facts) = Ok (Some tok) \<and> verify lax_lib (oc_signer cx) 5 tok Access = Some vt"
  using gate_requires_token [OF demo_proceeds demo_oauth] by (auto simp: demo_state_def demo_libs_def)

definition blank :: "ConsentPageParams \<Rightarrow> ConsentPageParams" where
  "blank p = \<lparr>cp_client_id = [], cp_redirect_uri = [], cp_state = map_option (\<lambda>_. []) (cp_state p), cp_scope = [],
     cp_code_challenge = [], cp_resource = map_option (\<lambda>_. []) (cp_resource p), cp_error = map_option (\<lambda>_. []) (cp_error p)\<rparr>"

lemma filter_text_lines: "filter is_markup (text_lines ls) = concat (map (filter is_markup) ls)"
  by (induction ls rule: text_lines.induct) (simp_all add: is_markup_def)

text \<open>
  C39. The consent screen cannot be given markup: the bytes that open or close tags and attribute
  values are the same, in the same order, as on the page with every value of the request left
  empty.
\<close>

theorem consent_page_no_markup:
  "filter is_markup (generate_consent_page p) = filter is_markup (generate_consent_page (blank p))"
  by (cases "cp_state p"; cases "cp_resource p"; cases "cp_error p")
    (simp_all only: generate_consent_page_def Let_def filter_text_lines hidden_field_def html_escape_no_markup blank_def
      option.case option.map ConsentPageParams.simps map_append list.map filter_append append_Nil append_Nil2)

section \<open>Defects\<close>

text \<open>
  A redirect address is checked up to the first slash of its path and then written to the
  \<open>Location\<close> header as it is, line ends included: whoever knows the client id can have a browser
  receive header lines of their choice.
\<close>

lemma loopback_any_path: "64 \<notin> set x \<Longrightarrow> is_allowed_redirect_uri (as_bytes ''http://localhost/'' @ x)"
proof -
  assume x: "64 \<notin> set x"
  let ?host = "as_bytes ''localhost''"
  have "as_bytes ''http://localhost/'' @ x = as_bytes ''http://'' @ ?host @ 47 # x" by (simp add: as_bytes_def)
  then have p: "strip_prefix (as_bytes ''http://localhost/'' @ x) (as_bytes ''http://'') = Some (?host @ 47 # x)"
    by (simp only: strip_prefix_Some)
  have "64 \<notin> set (?host @ 47 # x)" using x by (simp add: as_bytes_def)
  moreover have "split_once 47 (?host @ 47 # x) = Some (?host, x)" by (rule split_once_here) (simp add: as_bytes_def)
  moreover have "rsplit_once 58 ?host = None" by code_simp
  ultimately show ?thesis unfolding is_allowed_redirect_uri_def is_loopback_redirect_def p by simp
qed

lemma redirect_uri_splits_head:
  assumes "oq_method request \<noteq> OtherMethod" and "check_client_id cx (get_param (request_parameters request) ''client_id'')"
    and "get_param (request_parameters request) ''redirect_uri'' = as_bytes ''http://localhost/'' @ x" and "64 \<notin> set x"
    and "get_param (request_parameters request) ''response_type'' \<noteq> as_bytes ''code''"
  shows "\<exists>pre post. build_response_bytes L (fst (handle_authorize lib clock random cx request)) =
    pre @ HTTP_CR_LF @ as_bytes ''Location: http://localhost/'' @ x @ post"
proof -
  let ?uri = "as_bytes ''http://localhost/'' @ x"
  have "fst (handle_authorize lib clock random cx request) =
      redirect_with_error ?uri (non_empty (map_of (request_parameters request) (as_bytes ''state''))) ERROR_UNSUPPORTED_RESPONSE_TYPE
        (as_bytes ''Only the authorization code flow is supported'')"
    using assms loopback_any_path [OF assms(4)] by (simp add: handle_authorize_def validate_authorize_def Let_def)
  moreover have "\<exists>post. redirect_with_error ?uri state err d = redirect_response (?uri @ post)" for state err d
    by (cases state) (auto simp: redirect_with_error_def append_query_def push_state_def)
  ultimately obtain post where r: "fst (handle_authorize lib clock random cx request) = redirect_response (?uri @ post)"
    by metis
  have l: "as_bytes ''Location: http://localhost/'' = as_bytes ''Location'' @ as_bytes '': '' @ as_bytes ''http://localhost/''"
    by (simp add: as_bytes_def)
  show ?thesis unfolding r build_response_bytes_def redirect_response_def l
    by (rule exI [of _ "new_response (gl_reason L) 302 @ as_bytes ''content-type'' @ as_bytes '': '' @ CONTENT_TYPE_HTML"])
      (simp add: build_with_body_def push_header_def push_cl_cr_def add_content_type_def push_content_length_def)
qed

text \<open>A chunked body reaches the handlers with its chunk sizes and line ends in it.\<close>

lemma chunked_form_keeps_framing:
  assumes "find_seq_ok (gl_find_seq L)" and "h1_content_length h = Chunked"
    and "lb_ok (commit_read (h1_end h) (gs_buffer s))" and "18 \<le> length (lb_data (commit_read (h1_end h) (gs_buffer s)))"
    and "list_all (\<lambda>hc. valid_chunk hc \<and> snd hc \<noteq> []) cs" and "valid_chunk (h0, [])"
    and "stream_of (commit_read (h1_end h) (gs_buffer s)) (gs_source s) = concat (map chunk_wire cs) @ chunk_wire (h0, []) @ rest"
    and "length cs < gl_fuel L" and "length (concat (map chunk_wire cs) @ chunk_wire (h0, [])) \<le> MAX_OAUTH_BODY"
  shows "\<exists>s1. read_body L h True s = Some (Ok (Some (Some (concat (map chunk_wire cs) @ chunk_wire (h0, []))), s1))"
proof -
  have live: "length (bc_body (new_collector MAX_OAUTH_BODY)) \<le> bc_limit (new_collector MAX_OAUTH_BODY)"
    by (simp add: new_collector_def)
  obtain n lb1 src1 c where c:
    "transfer_chunked_body (gl_find_seq L) collector_sink (gl_timeout L) (gl_fuel L) (commit_read (h1_end h) (gs_buffer s)) (gs_source s)
       0 (new_collector MAX_OAUTH_BODY) = Some (Ok n, lb1, src1, c)"
    "collector_view c = collect (concat (map chunk_wire cs) @ chunk_wire (h0, [])) (collector_view (new_collector MAX_OAUTH_BODY))"
    using collector.chunked_Ok [OF assms(1) live assms(3-8), of "gl_timeout L" 0] by auto
  from c(2) assms(9) have "into_body c = Some (concat (map chunk_wire cs) @ chunk_wire (h0, []))"
    by (auto simp: collector_view_def collect_def into_body_def new_collector_def split: if_splits)
  with c(1) assms(2) show ?thesis by (simp add: read_body_def Let_def transfer_body_def)
qed

text \<open>A request path with a multi-byte character across the length of a well-known path ends the task.\<close>

lemma multibyte_path_panics:
  assumes "ep_oauth ep = Some oauth_id" and "gs_contexts s oauth_id = Some cx"
    and "read_facts L ep h (lb_get_data (gs_buffer s)) = Some (Ok facts)"
    and "length AS_METADATA_PATH < length (rf_path facts)" and "cont (rf_path facts ! length AS_METADATA_PATH)"
  shows "run_oauth_gate L ep ip h s = Some Panic"
proof -
  have len: "length AUTHORIZE_PATH < length AS_METADATA_PATH" "length TOKEN_PATH < length AS_METADATA_PATH"
    by (simp_all add: AUTHORIZE_PATH_def TOKEN_PATH_def AS_METADATA_PATH_def)
  have ne: "\<not> eq_no_case (rf_path facts) AUTHORIZE_PATH" "\<not> eq_no_case (rf_path facts) TOKEN_PATH"
    using len assms(4) by (auto simp: eq_no_case_def dest: arg_cong [where f = length])
  have AS_ne: "AS_METADATA_PATH \<noteq> []" by (simp add: AS_METADATA_PATH_def)
  have "matches_with_suffix (rf_path facts) AS_METADATA_PATH = Panic"
    using assms(4,5) AS_ne by (simp add: matches_with_suffix_def str_to_def is_char_boundary_def)
  then have "route_oauth_path (rf_path facts) = Panic" by (simp add: route_oauth_path_def ne)
  then show ?thesis using assms(1-3) by (simp add: run_oauth_gate_def)
qed

end
