(* ===== verification/H1_Guards.thy ===== *)
theory H1_Guards
  imports H1_Pipeline OAuth_Properties
begin

text \<open>
  What the reader guarantees: which requests reach an upstream, what the connection loop does with
  its stream, and what happens to the failure count of a client.
\<close>

section \<open>Phases that do not dispatch\<close>

lemma run_bindE:
  assumes "run_bind m f = Some (Ok y)"
  obtains x where "m = Some (Ok x)" "f x = Some (Ok y)"
  using assms by (auto simp: run_bind_Ok)

text \<open>A phase is quiet when it starts no worker and does not hand the connection over.\<close>

definition quiet :: "reader_state \<Rightarrow> 'a reader \<Rightarrow> bool" where
  "quiet s m \<longleftrightarrow> (\<forall>r s1. m = Some (Ok (r, s1)) \<longrightarrow> rd_workers s1 = rd_workers s \<and> (\<forall>u. r \<noteq> Stop (UpgradeTo u)))"

lemma quietD: "quiet s m \<Longrightarrow> m = Some (Ok (r, s1)) \<Longrightarrow> rd_workers s1 = rd_workers s \<and> r \<noteq> Stop (UpgradeTo u)"
  by (auto simp: quiet_def)

lemma quiet_basic [intro, simp]:
  "quiet s None" "quiet s (Some Panic)" "quiet s (Some (Err e))"
  "rd_workers s1 = rd_workers s \<Longrightarrow> quiet s (yield_value x s1)"
  "rd_workers s1 = rd_workers s \<Longrightarrow> (\<And>u. step \<noteq> UpgradeTo u) \<Longrightarrow> quiet s (stop_turn step s1)"
  by (auto simp: quiet_def yield_value_def stop_turn_def)

lemma quiet_bind [intro]: "(\<And>x. m = Some (Ok x) \<Longrightarrow> quiet s (f x)) \<Longrightarrow> quiet s (run_bind m f)"
  by (cases "(m, f)" rule: run_bind.cases) auto

lemma workers_set_stream [simp]: "rd_workers (set_stream lb src s) = rd_workers s"
  by (simp add: set_stream_def)

lemma quiet_respond_error [simp]: "rd_workers s1 = rd_workers s \<Longrightarrow> quiet s (respond_error R err s1)"
  by (auto simp: respond_error_def Let_def penalise_def rust_simps intro!: quiet_bind split: option.splits if_splits)

lemma quiet_answer [simp]: "rd_workers s1 = rd_workers s \<Longrightarrow> quiet s (answer_and_stop R ep bytes s1)"
  by (auto simp: answer_and_stop_def emit_single_response_def)

lemma quiet_read: "quiet s (read_request R s)"
  by (auto simp: read_request_def split: option.splits outcome.splits prod.splits)

lemma quiet_resolve: "quiet s (resolve_endpoint R h s)"
  unfolding resolve_endpoint_def Let_def
  by (intro quiet_bind) (auto split: option.splits prod.splits)

lemma quiet_check: "quiet s (check_connection R ep s)"
  by (auto simp: check_connection_def Let_def intro!: quiet_bind split: option.splits prod.splits)

lemma quiet_gate: "quiet s (pass_oauth_gate R ep h s)"
  by (auto simp: pass_oauth_gate_def Let_def intro!: quiet_bind split: OAuthGateOutcome.splits)

lemma quiet_locate: "quiet s (locate R ep h s)"
  by (auto simp: locate_def intro!: quiet_bind split: option.splits)

lemma quiet_identify: "quiet s (identify R ep location h s)"
  by (auto simp: identify_def split: option.splits outcome.splits)

lemma quiet_target: "quiet s (choose_target R location h s)"
  by (auto simp: choose_target_def intro!: quiet_bind split: option.splits ProxyPassToConfig.splits)

lemma quiet_compile: "quiet s (compile_request R ep h identity target s)"
  by (auto simp: compile_request_def split: option.splits outcome.splits)

lemmas quiet_phases = quiet_read quiet_resolve quiet_check quiet_gate quiet_locate quiet_identify quiet_target quiet_compile

lemma and_then_Ok:
  assumes "and_then m f = Some (Ok (r, s1))"
  obtains x s where "m = Some (Ok (Next x, s))" "f x s = Some (Ok (r, s1))"
    | step where "m = Some (Ok (Stop step, s1))" "r = Stop step"
  using assms unfolding and_then_def by (elim run_bindE) (auto split: phase.splits)

lemma and_then_yield: "and_then (yield_value x s) f = f x s"
  by (simp add: and_then_def yield_value_def)

text \<open>A turn that dispatches has passed every quiet phase.\<close>

definition dispatches :: "reader_state \<Rightarrow> 'a phase \<times> reader_state \<Rightarrow> bool" where
  "dispatches s out \<longleftrightarrow> rd_workers (snd out) \<noteq> rd_workers s \<or> (\<exists>u. fst out = Stop (UpgradeTo u))"

lemma quiet_not_dispatches: "quiet s m \<Longrightarrow> m = Some (Ok out) \<Longrightarrow> \<not> dispatches s out"
  by (cases out) (auto simp: dispatches_def quiet_def)

lemma and_then_dispatches:
  assumes "and_then m f = Some (Ok out)" and "dispatches s out" and "quiet s m"
  obtains x s1 where "m = Some (Ok (Next x, s1))" "f x s1 = Some (Ok out)" "dispatches s1 out"
proof -
  obtain r s2 where out: "out = (r, s2)" by (cases out)
  from assms(1) [unfolded out] show ?thesis
  proof (cases rule: and_then_Ok)
    case (1 x s1)
    then show ?thesis using that assms(2,3) quietD [OF assms(3) 1(1)] out by (auto simp: dispatches_def)
  next
    case (2 step)
    then show ?thesis using assms(2) quietD [OF assms(3) 2(1)] out by (auto simp: dispatches_def)
  qed
qed

section \<open>What a phase has checked when it lets a request through\<close>

lemma respond_error_Stop [simp]: "respond_error R err s \<noteq> Some (Ok (Next x, s1))"
  by (auto simp: respond_error_def Let_def run_bind_Ok stop_turn_def split: option.splits)

lemma answer_Stop [simp]: "answer_and_stop R ep bytes s \<noteq> Some (Ok (Next x, s1))"
  by (auto simp: answer_and_stop_def emit_single_response_def stop_turn_def)

lemma read_request_Next:
  "read_request R s = Some (Ok (Next h, s1)) \<Longrightarrow>
   \<exists>lb src. s1 = set_stream lb src s \<and>
     read_headers (gl_find_seq (re_gate R)) (gl_find_byte (re_gate R)) (re_eq_ci R) (fst (rd_timeouts s)) (rd_buffer s) (rd_source s) =
       (Some (Ok h), lb, src)"
  by (auto simp: read_request_def yield_value_def stop_turn_def split: option.splits outcome.splits prod.splits)

text \<open>The endpoint of a request: the current one of the connection if the host is its own, else one of the port.\<close>

definition endpoint_for :: "HttpConnectionInfo \<Rightarrow> Http1Headers \<Rightarrow> bytes \<Rightarrow> HttpEndpointInfo \<Rightarrow> bool" where
  "endpoint_for info h data ep \<longleftrightarrow>
     ci_endpoint_info info = Some ep \<and> (\<forall>name. request_host data h = Ok (Some name) \<longrightarrow> is_my_endpoint ep name) \<or>
     try_find_endpoint_info data h (ci_listen_config info) = Ok (Some ep)"

lemma resolve_Next:
  assumes "resolve_endpoint R h s = Some (Ok (Next ep, s1))"
  shows "endpoint_for (rd_info s) h (lb_get_data (rd_buffer s)) ep" and "rd_info s1 = (rd_info s)\<lparr>ci_endpoint_info := Some ep\<rparr>"
    and "rd_gate s1 = (rd_gate s)\<lparr>gs_blocklist := gs_blocklist (rd_gate s1)\<rparr>" and "rd_timeouts s1 = ep_timeouts ep"
  using assms unfolding resolve_endpoint_def Let_def
  by (auto simp: endpoint_for_def yield_value_def elim!: run_bindE split: if_splits option.splits)

lemma check_Next:
  assumes "check_connection R ep s = Some (Ok (Next x, s1))"
  shows "s1 = s" and "connection_satisfies_client_cert ep (map_option cc_ca_id (ci_cn_user_name (rd_info s)))"
    and "ep_whitelisted_ip_list_id ep = Some l \<Longrightarrow> ci_connection_ip (rd_info s) = Some ip \<Longrightarrow>
      config_white_listed (re_white_lists R) l ip = Ok True"
  using assms by (auto simp: check_connection_def Let_def yield_value_def elim!: run_bindE split: if_splits option.splits)

lemma locate_Next:
  assumes "locate R ep h s = Some (Ok (Next location, s1))"
  shows "s1 = s" and "\<not> is_drop (lc_proxy_pass_to location)"
    and "\<exists>first_line path. get_first_line (lb_get_data (rd_buffer s)) h = Ok first_line \<and>
      get_path_and_query (gl_find_byte (re_gate R)) first_line = Ok path \<and> find_location (ep_locations ep) path = Ok (Some location)"
  using assms
  by (auto simp: locate_def yield_value_def stop_turn_def rust_simps elim!: run_bindE split: option.splits if_splits)

lemma identify_Next:
  assumes "identify R ep location h s = Some (Ok (Next identity, s1))"
  shows "s1 = s" and "user_is_allowed (re_users R) ep (map_option identity_as_str identity)"
    and "authorize (authorize_libs_of R) (re_google_auth R) ep location (ci_cn_user_name (rd_info s)) h (lb_get_data (rd_buffer s)) =
      Some (Ok identity)"
  using assms by (auto simp: identify_def yield_value_def split: option.splits outcome.splits if_splits)

text \<open>The target of a request: that of its location, or for a dynamic proxy an allowed host.\<close>

definition target_for :: "ProxyPassLocationConfig \<Rightarrow> ProxyPassToConfig \<Rightarrow> bool" where
  "target_for location target \<longleftrightarrow>
     (case lc_proxy_pass_to location of
        ToDynamicProxy config \<Rightarrow> (\<exists>endpoint. web_scheme (re_scheme endpoint) \<and> host_allowed config (re_host endpoint) \<and>
          target = ToHttp1 \<lparr>pt_remote_host = Direct endpoint, pt_request_timeout = dp_request_timeout config,
            pt_connect_timeout = dp_connect_timeout config,
            pt_pool_tuning = default_pool_tuning\<rparr>)
      | other \<Rightarrow> target = other)"

lemma choose_Next:
  assumes "choose_target R location h s = Some (Ok (Next target, s1))"
  shows "s1 = s \<and> target_for location (fst target)"
  using assms
  by (auto simp: choose_target_def yield_value_def target_for_def elim!: run_bindE
      split: ProxyPassToConfig.splits option.splits if_splits)

lemma compile_Next:
  assumes "compile_request R ep h identity target s = Some (Ok (Next compiled, s1))"
  shows "\<exists>lb. s1 = set_stream lb (rd_source s) s \<and>
    compile_headers (gl_find_seq (re_gate R)) (gl_find_byte (re_gate R)) (re_tokens R) (re_env R) h
      (RequestHeaders (endpoint_rules_of ep)) (connection_info_of R (rd_info s)) (map_option identity_as_str identity)
      (mcp_path (fst target)) (snd target) (rd_buffer s) = Some (Ok (fst compiled, snd compiled, lb))"
  using assms by (auto simp: compile_request_def yield_value_def split: option.splits outcome.splits)

text \<open>The bearer token an endpoint with an \<open>oauth:\<close> block has seen when its gate lets a request proceed.\<close>

definition token_presented :: "gate_libs \<Rightarrow> HttpEndpointInfo \<Rightarrow> Http1Headers \<Rightarrow> bytes \<Rightarrow> (bytes \<rightharpoonup> OAuthContext) \<Rightarrow> bytes \<Rightarrow> bool" where
  "token_presented L ep h data contexts oauth_id \<longleftrightarrow>
     (\<exists>cx facts tok vt. contexts oauth_id = Some cx \<and> read_facts L ep h data = Some (Ok facts) \<and>
        bearer_token (rf_authorization facts) = Ok (Some tok) \<and>
        verify (gl_oauth L) (oc_signer cx) (gl_clock L 0) tok Access = Some vt \<and>
        (\<forall>aud. vt_audience vt = Some aud \<longrightarrow> covers aud (context_base_url cx (rf_base_url facts)) (rf_resource_path facts)))"

lemma gate_Proceed_token:
  assumes "run_oauth_gate L ep ip h g = Some (Ok (Proceed, g1))"
  shows "g1 = g" and "ep_oauth ep = Some oauth_id \<Longrightarrow> token_presented L ep h (lb_get_data (gs_buffer g)) (gs_contexts g) oauth_id"
proof -
  show "ep_oauth ep = Some oauth_id \<Longrightarrow> token_presented L ep h (lb_get_data (gs_buffer g)) (gs_contexts g) oauth_id"
  proof -
    assume o: "ep_oauth ep = Some oauth_id"
    obtain cx facts where c: "gs_contexts g oauth_id = Some cx" "read_facts L ep h (lb_get_data (gs_buffer g)) = Some (Ok facts)"
        "check_bearer (gl_oauth L) (gl_clock L 0) cx
           \<lparr>bg_authorization = rf_authorization facts, bg_base_url = context_base_url cx (rf_base_url facts),
            bg_resource_path = rf_resource_path facts\<rparr> = Ok Allowed"
      by (rule gate_proceeds [OF assms o])
    from check_bearer_Allowed [OF c(3)] read_facts_path [OF c(2)] c(1,2) show ?thesis
      unfolding token_presented_def by auto
  qed
  show "g1 = g"
    using assms by (cases "ep_oauth ep") (auto simp: run_oauth_gate_def dest: gate_proceeds [OF assms] elim: gate_proceeds [OF assms])
qed

lemma gate_Next:
  assumes "pass_oauth_gate R ep h s = Some (Ok (Next x, s1))"
  shows "s1 = s" and "ep_oauth ep = Some oauth_id \<Longrightarrow>
    token_presented ((re_gate R)\<lparr>gl_timeout := fst (rd_timeouts s)\<rparr>) ep h (lb_get_data (rd_buffer s)) (gs_contexts (rd_gate s)) oauth_id"
proof -
  let ?L = "(re_gate R)\<lparr>gl_timeout := fst (rd_timeouts s)\<rparr>"
  from assms obtain g where g: "run_oauth_gate ?L ep (ci_connection_ip (rd_info s)) h (rd_gate s) = Some (Ok (Proceed, g))"
      "s1 = s\<lparr>rd_gate := g\<rparr>"
    by (auto simp: pass_oauth_gate_def yield_value_def stop_turn_def Let_def elim!: run_bindE split: OAuthGateOutcome.splits)
  from gate_Proceed_token(1) [OF g(1)] g(2) show "s1 = s" by simp
  show "ep_oauth ep = Some oauth_id \<Longrightarrow> token_presented ?L ep h (lb_get_data (rd_buffer s)) (gs_contexts (rd_gate s)) oauth_id"
    by (rule gate_Proceed_token(2) [OF g(1)])
qed

text \<open>The identity of an authorized request.\<close>

definition signed_in :: "authorize_libs \<Rightarrow> (bytes \<rightharpoonup> GoogleAuthCredentials) \<Rightarrow> bytes \<Rightarrow> Http1Headers \<Rightarrow> bytes \<Rightarrow> HttpProxyPassIdentity option \<Rightarrow> bool" where
  "signed_in A credentials g_auth h data identity \<longleftrightarrow>
     (\<exists>cred req token email. credentials g_auth = Some cred \<and> read_view (al_find_byte A) data h = Ok req \<and> rv_token req = Some token \<and>
        token_resolve (al_google A) token = Some email \<and> domain_is_allowed (al_google A) cred email \<and>
        identity = Some (GoogleUser email))"

lemma handle_google_Passed:
  assumes "handle_google_auth G credentials req g_auth = Ok (Passed email)"
  shows "\<exists>cred token. credentials g_auth = Some cred \<and> rv_token req = Some token \<and> token_resolve G token = Some email \<and>
    domain_is_allowed G cred email"
  using assms by (auto simp: handle_google_auth_def Let_def bind_eq_Some_conv split: option.splits if_splits outcome.splits)

lemma authorize_Ok:
  assumes "authorize A credentials ep location cert h data = Some (Ok identity)"
  shows "lc_auth_header location = Some expected \<Longrightarrow>
      find_authorization_value (al_find_seq A) (al_find_byte A) h data = Some (Ok (Some expected))"
    and "ep_g_auth ep = Some g_auth \<Longrightarrow> signed_in A credentials g_auth h data identity"
    and "ep_g_auth ep = None \<Longrightarrow> identity = cert_identity ep cert"
proof -
  show "lc_auth_header location = Some expected \<Longrightarrow>
      find_authorization_value (al_find_seq A) (al_find_byte A) h data = Some (Ok (Some expected))"
    using assms by (auto simp: authorize_def Let_def split: option.splits outcome.splits if_splits)
  have rest: "(case must_be_authorized ep of
        Some (GoogleAuth g) \<Rightarrow> google_identity A credentials g h data
      | Some ClientCertificate \<Rightarrow> Ok (cert_identity ep cert) | None \<Rightarrow> Ok (cert_identity ep cert)) = Ok identity"
    using assms by (simp add: authorize_def Let_def split: option.splits outcome.splits if_splits)
  show "ep_g_auth ep = None \<Longrightarrow> identity = cert_identity ep cert"
    using rest by (auto simp: must_be_authorized_def split: if_splits)
  show "ep_g_auth ep = Some g_auth \<Longrightarrow> signed_in A credentials g_auth h data identity"
    using rest
    by (auto simp: must_be_authorized_def google_identity_def signed_in_def
        split: outcome.splits GoogleAuthOkResult.splits dest: handle_google_Passed)
qed

section \<open>Which requests reach an upstream\<close>

text \<open>Everything the proxy has checked of a request before it contacts an upstream.\<close>

definition admitted ::
  "reader_env \<Rightarrow> HttpConnectionInfo \<Rightarrow> (bytes \<rightharpoonup> OAuthContext) \<Rightarrow> Http1Headers \<Rightarrow> bytes \<Rightarrow> HttpEndpointInfo \<Rightarrow> ProxyPassLocationConfig
     \<Rightarrow> HttpProxyPassIdentity option \<Rightarrow> bool" where
  "admitted R info contexts h data ep location identity \<longleftrightarrow>
     connection_satisfies_client_cert ep (map_option cc_ca_id (ci_cn_user_name info)) \<and>
     (\<forall>l ip. ep_whitelisted_ip_list_id ep = Some l \<longrightarrow> ci_connection_ip info = Some ip \<longrightarrow>
        config_white_listed (re_white_lists R) l ip = Ok True) \<and>
     (\<forall>oauth_id. ep_oauth ep = Some oauth_id \<longrightarrow>
        token_presented ((re_gate R)\<lparr>gl_timeout := fst (ep_timeouts ep)\<rparr>) ep h data contexts oauth_id) \<and>
     (\<exists>first_line path. get_first_line data h = Ok first_line \<and> get_path_and_query (gl_find_byte (re_gate R)) first_line = Ok path \<and>
        find_location (ep_locations ep) path = Ok (Some location)) \<and>
     \<not> is_drop (lc_proxy_pass_to location) \<and>
     (\<forall>expected. lc_auth_header location = Some expected \<longrightarrow>
        find_authorization_value (gl_find_seq (re_gate R)) (gl_find_byte (re_gate R)) h data = Some (Ok (Some expected))) \<and>
     (case ep_g_auth ep of
        Some g_auth \<Rightarrow> signed_in (authorize_libs_of R) (re_google_auth R) g_auth h data identity
      | None \<Rightarrow> identity = cert_identity ep (ci_cn_user_name info)) \<and>
     user_is_allowed (re_users R) ep (map_option identity_as_str identity)"

text \<open>What reaches the upstream: a worker's request or the head of an upgrade.\<close>

definition sent_upstream :: "reader_state \<Rightarrow> ReaderStep \<times> reader_state \<Rightarrow> HttpEndpointInfo \<Rightarrow> ProxyPassToConfig \<Rightarrow> bytes \<Rightarrow> bool" where
  "sent_upstream s out ep target head \<longleftrightarrow>
     (\<exists>d. rd_workers (snd out) = rd_workers s @ [d] \<and> dr_endpoint d = ep \<and> dr_proxy_pass_to d = target \<and> dr_head d = head) \<or>
     (\<exists>u. fst out = UpgradeTo u \<and> rd_workers (snd out) = rd_workers s \<and> ug_endpoint u = ep \<and> ug_proxy_pass_to u = target \<and> ug_head u = head)"

lemma dispatch_sent:
  assumes "dispatch_to_worker R ep location identity target head cl s = Some (Ok (Stop step, s1))" and "rd_workers s1 \<noteq> rd_workers s"
  shows "sent_upstream s (step, s1) ep target head"
  using assms
  by (auto simp: dispatch_to_worker_def Let_def stop_turn_def sent_upstream_def split: if_splits option.splits outcome.splits prod.splits)

lemma quiet_drain: "drain_body R cl s = Some (Ok s1) \<Longrightarrow> rd_workers s1 = rd_workers s"
  by (auto simp: drain_body_def split: option.splits outcome.splits prod.splits)

lemma dispatch_no_upgrade: "dispatch_to_worker R ep location identity target head cl s \<noteq> Some (Ok (Stop (UpgradeTo u), s1))"
  by (auto simp: dispatch_to_worker_def Let_def stop_turn_def split: if_splits option.splits outcome.splits prod.splits)

lemma serve_sent:
  assumes "serve_request R ep location identity target compiled cl s = Some (Ok (Stop step, s1))" and "dispatches s (Stop step :: unit phase, s1)"
  shows "sent_upstream s (step, s1) ep target (fst compiled)"
proof -
  have q: "quiet s (run_bind (drain_body R cl s) (\<lambda>s1. answer_and_stop R ep bytes s1) :: unit reader)" for bytes
    by (intro quiet_bind) (auto dest: quiet_drain)
  have qf: "quiet s (run_bind (Some (file_response R model head)) (\<lambda>bytes. run_bind (drain_body R cl s) (\<lambda>s1. answer_and_stop R ep bytes s1)) :: unit reader)"
    for model head by (intro quiet_bind) (auto dest: quiet_drain)
  have up: "(if snd compiled then
        stop_turn (UpgradeTo \<lparr>ug_proxy_pass_to = target, ug_endpoint = ep, ug_location_id = lc_id location,
          ug_head = fst compiled, ug_write_timeout = snd (ep_timeouts ep)\<rparr>) s
      else dispatch_to_worker R ep location identity target (fst compiled) cl s) = Some (Ok (Stop step, s1)) \<Longrightarrow> ?thesis"
    using assms(2) dispatch_sent [of R ep location identity target "fst compiled" cl s step s1]
      dispatch_no_upgrade [of R ep location identity target "fst compiled" cl s _ s1]
    by (auto simp: dispatches_def stop_turn_def sent_upstream_def split: if_splits)
  show ?thesis
  proof (cases "lc_proxy_pass_to location")
    case (ToFilesPath model)
    with assms quiet_not_dispatches [OF qf] show ?thesis by (simp only: serve_request_def ProxyPassToConfig.case)
  next
    case (ToStatic cfg)
    with assms quiet_not_dispatches [OF q] show ?thesis by (simp only: serve_request_def ProxyPassToConfig.case)
  qed (use assms(1) up in \<open>simp_all add: serve_request_def\<close>)
qed

lemma serve_Stop: "serve_request R ep location identity target compiled cl s \<noteq> Some (Ok (Next x, s1))"
  by (auto simp: serve_request_def dispatch_to_worker_def Let_def stop_turn_def elim!: run_bindE
      split: ProxyPassToConfig.splits if_splits option.splits outcome.splits)

lemma turn_phases:
  assumes "reader_turn R s = Some (Ok out)" and "dispatches s out"
  obtains h sa ep sb sc sd location se identity sf target sg compiled sh where
    "read_request R s = Some (Ok (Next h, sa))" "resolve_endpoint R h sa = Some (Ok (Next ep, sb))"
    "check_connection R ep sb = Some (Ok (Next (), sc))" "pass_oauth_gate R ep h sc = Some (Ok (Next (), sd))"
    "locate R ep h sd = Some (Ok (Next location, se))" "identify R ep location h se = Some (Ok (Next identity, sf))"
    "choose_target R location h sf = Some (Ok (Next target, sg))"
    "compile_request R ep h identity target sg = Some (Ok (Next compiled, sh))"
    "serve_request R ep location identity (fst target) compiled (h1_content_length h) sh = Some (Ok out)" "dispatches sh out"
  by (rule and_then_dispatches [OF assms(1) [unfolded reader_turn_def] assms(2) quiet_read],
      erule (1) and_then_dispatches [OF _ _ quiet_resolve], erule (1) and_then_dispatches [OF _ _ quiet_check],
      erule (1) and_then_dispatches [OF _ _ quiet_gate], erule (1) and_then_dispatches [OF _ _ quiet_locate],
      erule (1) and_then_dispatches [OF _ _ quiet_identify], erule (1) and_then_dispatches [OF _ _ quiet_target],
      erule (1) and_then_dispatches [OF _ _ quiet_compile]) simp

lemma connection_info_any_endpoint [simp]: "connection_info_of R (info\<lparr>ci_endpoint_info := e\<rparr>) = connection_info_of R info"
  by (simp add: connection_info_of_def)

text \<open>The checks between the endpoint and the target leave the state alone and add up to admission.\<close>

lemma admitted_by_phases:
  assumes r: "resolve_endpoint R h s = Some (Ok (Next ep, sb))" and c: "check_connection R ep sb = Some (Ok (Next (), sc))"
    and g: "pass_oauth_gate R ep h sc = Some (Ok (Next (), sd))" and l: "locate R ep h sd = Some (Ok (Next location, se))"
    and i: "identify R ep location h se = Some (Ok (Next identity, sf))"
  shows "sf = sb" and "rd_info sb = (rd_info s)\<lparr>ci_endpoint_info := Some ep\<rparr>" and "rd_buffer sb = rd_buffer s"
    and "admitted R (rd_info s) (gs_contexts (rd_gate s)) h (lb_get_data (rd_buffer s)) ep location identity"
proof -
  note same = check_Next(1) [OF c] gate_Next(1) [OF g] locate_Next(1) [OF l] identify_Next(1) [OF i]
  note b = resolve_Next [OF r]
  show "sf = sb" by (simp add: same)
  show n: "rd_info sb = (rd_info s)\<lparr>ci_endpoint_info := Some ep\<rparr>" and d: "rd_buffer sb = rd_buffer s"
    using b(2) arg_cong [OF b(3), of gs_buffer] by simp_all
  have x: "gs_contexts (rd_gate sb) = gs_contexts (rd_gate s)" using arg_cong [OF b(3), of gs_contexts] by simp
  note A = authorize_Ok [OF identify_Next(3) [OF i]]
  show "admitted R (rd_info s) (gs_contexts (rd_gate s)) h (lb_get_data (rd_buffer s)) ep location identity"
    unfolding admitted_def
    using check_Next(2,3) [OF c] gate_Next(2) [OF g] locate_Next(2,3) [OF l] identify_Next(2) [OF i] A
    by (auto simp: same n d x b(4) authorize_libs_of_def split: option.split)
qed

text \<open>
  C1. No request reaches an upstream unchecked: when a turn of the reader dispatches a request to a
  worker or hands the connection over for an upgrade, the request belongs to the endpoint of its
  host, the client certificate and the address of the connection are acceptable to that endpoint, a
  valid access token was presented if the endpoint has an \<open>oauth:\<close> block, the request resolved to a
  location that is not dropped, the \<open>Authorization\<close> value of the location was given, the client is
  signed in with an allowed mail domain where Google sign-in is required, and its identity is on the
  list of allowed users. The target is that of the location or, for a dynamic proxy, a web address
  whose host is allowed, and what is sent is the rewritten head.
\<close>

theorem upstream_only_when_admitted:
  assumes "read_and_dispatch R s = Some (Ok (step, s1))" and "rd_workers s1 \<noteq> rd_workers s \<or> (\<exists>u. step = UpgradeTo u)"
  shows "\<exists>h lb src ep location identity target head ws lb1.
    read_headers (gl_find_seq (re_gate R)) (gl_find_byte (re_gate R)) (re_eq_ci R) (fst (rd_timeouts s)) (rd_buffer s) (rd_source s) =
      (Some (Ok h), lb, src) \<and>
    endpoint_for (rd_info s) h (lb_get_data lb) ep \<and>
    admitted R (rd_info s) (gs_contexts (rd_gate s)) h (lb_get_data lb) ep location identity \<and>
    target_for location (fst target) \<and>
    compile_headers (gl_find_seq (re_gate R)) (gl_find_byte (re_gate R)) (re_tokens R) (re_env R) h
      (RequestHeaders (endpoint_rules_of ep)) (connection_info_of R (rd_info s)) (map_option identity_as_str identity)
      (mcp_path (fst target)) (snd target) lb = Some (Ok (head, ws, lb1)) \<and>
    sent_upstream s (step, s1) ep (fst target) head"
proof -
  from assms(1) obtain r where "reader_turn R s = Some (Ok (r, s1))" "r = Stop step \<or> (\<exists>x. r = Next x) \<and> step = CloseReading"
    by (auto simp: read_and_dispatch_def elim!: run_bindE split: phase.splits)
  with assms(2) have t: "reader_turn R s = Some (Ok (r, s1))" "dispatches s (r, s1)" "r = Stop step \<or> (\<exists>x. r = Next x)"
    by (auto simp: dispatches_def)
  obtain h sa ep sb sc sd location se identity sf target sg compiled sh where
    p: "read_request R s = Some (Ok (Next h, sa))" "resolve_endpoint R h sa = Some (Ok (Next ep, sb))"
      "check_connection R ep sb = Some (Ok (Next (), sc))" "pass_oauth_gate R ep h sc = Some (Ok (Next (), sd))"
      "locate R ep h sd = Some (Ok (Next location, se))" "identify R ep location h se = Some (Ok (Next identity, sf))"
      "choose_target R location h sf = Some (Ok (Next target, sg))"
      "compile_request R ep h identity target sg = Some (Ok (Next compiled, sh))"
      "serve_request R ep location identity (fst target) compiled (h1_content_length h) sh = Some (Ok (r, s1))" "dispatches sh (r, s1)"
    by (rule turn_phases [OF t(1,2)])
  from read_request_Next [OF p(1)] obtain lb src where a: "sa = set_stream lb src s"
    "read_headers (gl_find_seq (re_gate R)) (gl_find_byte (re_gate R)) (re_eq_ci R) (fst (rd_timeouts s)) (rd_buffer s) (rd_source s) =
       (Some (Ok h), lb, src)" by blast
  then have sa: "rd_info sa = rd_info s" "gs_contexts (rd_gate sa) = gs_contexts (rd_gate s)" "rd_buffer sa = lb"
    by (simp_all add: set_stream_def)
  note adm = admitted_by_phases [OF p(2-6), unfolded sa]
  note tgt = choose_Next [OF p(7)]
  have w: "rd_workers sh = rd_workers s"
    using quietD [OF quiet_read p(1)] quietD [OF quiet_resolve p(2)] quietD [OF quiet_compile p(8)] adm(1) tgt by metis
  from t(3) serve_Stop [of R ep location identity "fst target" compiled "h1_content_length h" sh _ s1] p(9) have r: "r = Stop step" by auto
  have "sent_upstream sh (step, s1) ep (fst target) (fst compiled)" using serve_sent p(9,10) by (simp add: r)
  then have sent: "sent_upstream s (step, s1) ep (fst target) (fst compiled)" by (simp add: sent_upstream_def w)
  from compile_Next [OF p(8)] obtain lb1 where "compile_headers (gl_find_seq (re_gate R)) (gl_find_byte (re_gate R)) (re_tokens R) (re_env R) h
      (RequestHeaders (endpoint_rules_of ep)) (connection_info_of R (rd_info s)) (map_option identity_as_str identity)
      (mcp_path (fst target)) (snd target) lb = Some (Ok (fst compiled, snd compiled, lb1))"
    using adm(1-3) tgt by auto
  with a(2) resolve_Next(1) [OF p(2), unfolded sa] adm(4) tgt sent show ?thesis by blast
qed

text \<open>A port with one endpoint behind the OAuth gate, and a request with a token.\<close>

definition demo_env :: reader_env where
  "demo_env = \<lparr>re_gate = demo_libs,
     re_google = \<lparr>go_eq_ci = (=), go_url_decode = (\<lambda>x. x), go_from_base64 = (\<lambda>x. None), go_as_base64 = (\<lambda>x. x), go_encrypt = (\<lambda>x. x),
       go_decrypt = (\<lambda>x. None), go_encode = (\<lambda>x. []), go_decode = (\<lambda>x. None), go_add_seconds = (\<lambda>x n. x), go_now = 0,
       go_post_token = (\<lambda>x. Panic), go_access_token = (\<lambda>x. Panic), go_userinfo = (\<lambda>x. Panic), go_user_email = (\<lambda>x. Panic)\<rparr>,
     re_eq_ci = (\<lambda>a b. lname a = lname b), re_tokens = (\<lambda>x. []), re_env = (\<lambda>x. None), re_page = (\<lambda>x. []), re_not_found = [],
     re_ipv6_text = (\<lambda>x. x), re_ranges = [], re_ipv6_db = None, re_try_parse = (\<lambda>x. None), re_append_segment = (@),
     re_read_file = (\<lambda>x. None), re_content_type = (\<lambda>x. None), re_white_lists = Map.empty, re_users = Map.empty,
     re_google_auth = Map.empty, re_writer_open = True, re_worker_takes = None\<rparr>"

definition demo_info :: "HttpEndpointInfo option \<Rightarrow> HttpConnectionInfo" where
  "demo_info e = \<lparr>ci_cn_user_name = None, ci_connection_ip = None, ci_endpoint_info = e, ci_listen_config = new_listen_port demo_endpoint\<rparr>"

definition demo_conn :: reader_state where
  "demo_conn = \<lparr>rd_info = demo_info None, rd_timeouts = (1, 1), rd_gate = demo_state demo_bearer, rd_slots = [], rd_workers = []\<rparr>"

lemma demo_read:
  "read_headers (gl_find_seq demo_libs) (gl_find_byte demo_libs) (re_eq_ci demo_env) 1 (small_buffer demo_bearer) [] =
     (Some (Ok (demo_head 15 47)), small_buffer demo_bearer, [])"
  by code_simp

definition demo_conn1 :: reader_state where
  "demo_conn1 = demo_conn\<lparr>rd_info := demo_info (Some demo_endpoint)\<rparr>"

lemma demo_libs_timeout: "demo_libs\<lparr>gl_timeout := 1\<rparr> = demo_libs"
  by (simp add: demo_libs_def)

lemma demo_endpoint_fields:
  "ep_timeouts demo_endpoint = (1, 1)" "ep_keep_alive demo_endpoint" "ep_client_certificate_id demo_endpoint = None"
  "ep_whitelisted_ip_list_id demo_endpoint = None" "ep_g_auth demo_endpoint = None" "ep_ssl_certificate_id demo_endpoint = None"
  "ep_allowed_user_list_id demo_endpoint = None" "hs_index (ep_host_endpoint demo_endpoint) = None"
  by (simp_all add: demo_endpoint_def new_endpoint_info_def Let_def)

lemma demo_phases:
  "read_request demo_env demo_conn = yield_value (demo_head 15 47) demo_conn"
  "resolve_endpoint demo_env (demo_head 15 47) demo_conn = yield_value demo_endpoint demo_conn1"
  "check_connection demo_env demo_endpoint demo_conn1 = yield_value () demo_conn1"
  "pass_oauth_gate demo_env demo_endpoint (demo_head 15 47) demo_conn1 = yield_value () demo_conn1"
  "locate demo_env demo_endpoint (demo_head 15 47) demo_conn1 = yield_value demo_location demo_conn1"
  "identify demo_env demo_endpoint demo_location (demo_head 15 47) demo_conn1 = yield_value None demo_conn1"
  "choose_target demo_env demo_location (demo_head 15 47) demo_conn1 = yield_value (demo_upstream, None) demo_conn1"
proof -
  have c: "rd_info demo_conn = demo_info None" "rd_info demo_conn1 = demo_info (Some demo_endpoint)" "rd_timeouts demo_conn = (1, 1)"
    "rd_timeouts demo_conn1 = (1, 1)" "rd_gate demo_conn = demo_state demo_bearer" "rd_gate demo_conn1 = demo_state demo_bearer"
    "re_gate demo_env = demo_libs"
    "gs_buffer (demo_state demo_bearer) = small_buffer demo_bearer" "gs_source (demo_state demo_bearer) = []"
    "lb_get_data (small_buffer demo_bearer) = demo_bearer"
    by (simp_all add: demo_conn_def demo_conn1_def demo_state_def demo_env_def)
  show "read_request demo_env demo_conn = yield_value (demo_head 15 47) demo_conn"
    unfolding read_request_def c fst_conv demo_read by (simp add: set_stream_def demo_conn_def demo_state_def)
  show "resolve_endpoint demo_env (demo_head 15 47) demo_conn = yield_value demo_endpoint demo_conn1"
    by (simp add: resolve_endpoint_def c request_host_def demo_head_def try_find_endpoint_info_def get_http_endpoint_info_def demo_info_def
        new_listen_port_def has_server_name_def demo_endpoint_fields)
      (simp add: demo_conn1_def demo_conn_def demo_info_def new_listen_port_def demo_endpoint_fields)
  show "check_connection demo_env demo_endpoint demo_conn1 = yield_value () demo_conn1"
    by (simp add: check_connection_def connection_satisfies_client_cert_def demo_endpoint_fields)
  show "pass_oauth_gate demo_env demo_endpoint (demo_head 15 47) demo_conn1 = yield_value () demo_conn1"
    unfolding pass_oauth_gate_def c fst_conv demo_libs_timeout
    by (simp add: demo_info_def demo_proceeds) (simp add: demo_conn1_def demo_conn_def)
  have "get_first_line demo_bearer (demo_head 15 47) = Ok (as_bytes ''GET /x HTTP/1.1'')" by code_simp
  moreover have "get_path_and_query (gl_find_byte demo_libs) (as_bytes ''GET /x HTTP/1.1'') = Ok (as_bytes ''/x'')" by code_simp
  moreover have "find_location (ep_locations demo_endpoint) (as_bytes ''/x'') = Ok (Some demo_location)" by code_simp
  ultimately show "locate demo_env demo_endpoint (demo_head 15 47) demo_conn1 = yield_value demo_location demo_conn1"
    by (simp add: locate_def c demo_location_def demo_upstream_def is_drop_def)
  show "identify demo_env demo_endpoint demo_location (demo_head 15 47) demo_conn1 = yield_value None demo_conn1"
    by (simp add: identify_def authorize_def must_be_authorized_def demo_endpoint_fields demo_location_def cert_identity_def c demo_info_def
        user_is_allowed_def)
  show "choose_target demo_env demo_location (demo_head 15 47) demo_conn1 = yield_value (demo_upstream, None) demo_conn1"
    by (simp add: choose_target_def demo_location_def demo_upstream_def)
qed

lemma demo_compiles:
  obtains head lb where
    "compile_headers (gl_find_seq demo_libs) (gl_find_byte demo_libs) (re_tokens demo_env) (re_env demo_env) (demo_head 15 47)
       (RequestHeaders (endpoint_rules_of demo_endpoint)) (connection_info_of demo_env (demo_info (Some demo_endpoint))) None None None
       (small_buffer demo_bearer) = Some (Ok (head, False, lb))"
proof -
  have "case compile_headers (gl_find_seq demo_libs) (gl_find_byte demo_libs) (re_tokens demo_env) (re_env demo_env) (demo_head 15 47)
       (RequestHeaders (endpoint_rules_of demo_endpoint)) (connection_info_of demo_env (demo_info (Some demo_endpoint))) None None None
       (small_buffer demo_bearer) of Some (Ok (head, ws, lb)) \<Rightarrow> \<not> ws | _ \<Rightarrow> False"
    by code_simp
  then show ?thesis using that by (auto split: option.splits outcome.splits)
qed

lemma demo_dispatches:
  obtains s1 where "read_and_dispatch demo_env demo_conn = Some (Ok (ContinueReading, s1))" "rd_workers s1 \<noteq> rd_workers demo_conn"
proof -
  obtain head lb where c:
    "compile_headers (gl_find_seq demo_libs) (gl_find_byte demo_libs) (re_tokens demo_env) (re_env demo_env) (demo_head 15 47)
       (RequestHeaders (endpoint_rules_of demo_endpoint)) (connection_info_of demo_env (demo_info (Some demo_endpoint))) None None None
       (small_buffer demo_bearer) = Some (Ok (head, False, lb))" by (rule demo_compiles)
  have f: "re_gate demo_env = demo_libs" "rd_info demo_conn1 = demo_info (Some demo_endpoint)" "rd_source demo_conn1 = []"
    "rd_buffer demo_conn1 = small_buffer demo_bearer" "mcp_path demo_upstream = None"
    by (simp_all add: demo_env_def demo_conn1_def demo_conn_def demo_state_def mcp_path_def demo_upstream_def)
  let ?s = "set_stream lb [] demo_conn1"
  have k: "compile_request demo_env demo_endpoint (demo_head 15 47) None (demo_upstream, None) demo_conn1 = yield_value (head, False) ?s"
    unfolding compile_request_def f fst_conv snd_conv option.map(1) c by (simp only: option.case outcome.case prod.case)
  have "\<exists>s1. serve_request demo_env demo_endpoint demo_location None demo_upstream (head, False) NoBody ?s =
      Some (Ok (Stop ContinueReading, s1)) \<and> rd_workers s1 \<noteq> rd_workers demo_conn"
    by (simp add: serve_request_def demo_location_def demo_upstream_def dispatch_to_worker_def transfer_body_def Let_def stop_turn_def
        demo_endpoint_fields) (simp add: demo_env_def demo_conn1_def demo_conn_def)
  then obtain s1 where s: "serve_request demo_env demo_endpoint demo_location None demo_upstream (head, False) NoBody ?s =
      Some (Ok (Stop ContinueReading, s1))" "rd_workers s1 \<noteq> rd_workers demo_conn" by blast
  have n: "h1_content_length (demo_head 15 47) = NoBody" by (simp add: demo_head_def)
  have "reader_turn demo_env demo_conn = Some (Ok (Stop ContinueReading, s1))"
    unfolding reader_turn_def demo_phases and_then_yield fst_conv k n by (rule s(1))
  with s(2) show ?thesis using that by (simp add: read_and_dispatch_def)
qed

theorem upstream_only_when_admitted_witness:
  "\<exists>step s1 h data ep location identity target head. read_and_dispatch demo_env demo_conn = Some (Ok (step, s1)) \<and>
    endpoint_for (demo_info None) h data ep \<and>
    admitted demo_env (demo_info None) [as_bytes ''o'' \<mapsto> demo_context] h data ep location identity \<and>
    target_for location target \<and> sent_upstream demo_conn (step, s1) ep target head"
proof -
  obtain s1 where s: "read_and_dispatch demo_env demo_conn = Some (Ok (ContinueReading, s1))" "rd_workers s1 \<noteq> rd_workers demo_conn"
    by (rule demo_dispatches)
  have f: "rd_info demo_conn = demo_info None" "gs_contexts (rd_gate demo_conn) = [as_bytes ''o'' \<mapsto> demo_context]"
    by (simp_all add: demo_conn_def demo_state_def)
  from upstream_only_when_admitted [OF s(1) disjI1 [OF s(2)], unfolded f] s(1) show ?thesis by blast
qed

section \<open>The failure count of a client\<close>

definition forgotten :: "IpAddr \<Rightarrow> IpBlocklist \<Rightarrow> bool" where
  "forgotten ip bl \<longleftrightarrow> map_of (bl_map bl) ip = None"

definition unblocked :: "IpAddr \<Rightarrow> IpBlocklist \<Rightarrow> bool" where
  "unblocked ip bl \<longleftrightarrow> (\<forall>e. map_of (bl_map bl) ip = Some e \<longrightarrow> ie_blocked_until e = None)"

lemma first_failure_no_block:
  assumes "register_failure cl now ip severity bl = Ok (b, bl1)" and "forgotten ip0 bl"
  shows "unblocked ip0 bl1"
proof -
  have "(1 :: u16) < HARD_FAIL_THRESHOLD" "(1 :: u16) < SOFT_FAIL_THRESHOLD" "(0 :: u16) < HARD_FAIL_THRESHOLD" "(0 :: u16) < SOFT_FAIL_THRESHOLD"
    by (simp_all add: HARD_FAIL_THRESHOLD_def SOFT_FAIL_THRESHOLD_def)
  then have "ie_blocked_until (fail_entry cl now severity
      \<lparr>ie_hard_count = 0, ie_soft_count = 0, ie_window_start = now, ie_blocked_until = None\<rparr>) = None"
    by (cases severity) (simp_all add: fail_entry_def Let_def saturating_inc_def not_le)
  with assms show ?thesis
    by (cases "ip = ip0") (auto simp: register_failure_def Let_def forgotten_def unblocked_def rust_simps update_conv split: if_splits)
qed

lemma forgotten_unblocked: "forgotten ip bl \<Longrightarrow> unblocked ip bl"
  by (simp add: forgotten_def unblocked_def)

text \<open>A phase that registers at most one failure, and none when it goes on.\<close>

definition lenient :: "IpAddr \<Rightarrow> HttpConnectionInfo \<Rightarrow> 'a reader \<Rightarrow> bool" where
  "lenient ip info m \<longleftrightarrow> (\<forall>r s1. m = Some (Ok (r, s1)) \<longrightarrow> rd_info s1 = info \<and> unblocked ip (gs_blocklist (rd_gate s1)) \<and>
     ((\<exists>x. r = Next x) \<longrightarrow> forgotten ip (gs_blocklist (rd_gate s1))))"

abbreviation clean_state :: "IpAddr \<Rightarrow> HttpConnectionInfo \<Rightarrow> reader_state \<Rightarrow> bool" where
  "clean_state ip info s \<equiv> rd_info s = info \<and> forgotten ip (gs_blocklist (rd_gate s))"

lemma lenientD: "lenient ip info m \<Longrightarrow> m = Some (Ok (r, s1)) \<Longrightarrow> unblocked ip (gs_blocklist (rd_gate s1))"
  by (simp add: lenient_def)

lemma lenient_basic [intro, simp]:
  "lenient ip info None" "lenient ip info (Some Panic)" "lenient ip info (Some (Err e))"
  "clean_state ip info s \<Longrightarrow> lenient ip info (yield_value x s)"
  "clean_state ip info s \<Longrightarrow> lenient ip info (stop_turn step s)"
  by (auto simp: lenient_def yield_value_def stop_turn_def forgotten_unblocked)

lemma lenient_bind [intro]: "(\<And>x. m = Some (Ok x) \<Longrightarrow> lenient ip info (f x)) \<Longrightarrow> lenient ip info (run_bind m f)"
  by (cases "(m, f)" rule: run_bind.cases) auto

lemma lenient_and_then:
  "lenient ip info m \<Longrightarrow> (\<And>x s. clean_state ip info s \<Longrightarrow> lenient ip info (f x s)) \<Longrightarrow> lenient ip info (and_then m f)"
proof -
  assume m: "lenient ip info m" and f: "\<And>x s. clean_state ip info s \<Longrightarrow> lenient ip info (f x s)"
  show ?thesis unfolding and_then_def
  proof (rule lenient_bind, goal_cases)
    case (1 out)
    obtain r s where o: "out = (r, s)" by (cases out)
    show ?case
    proof (cases r)
      case (Next x)
      with m 1 o have "clean_state ip info s" by (simp add: lenient_def)
      from f [OF this] Next o show ?thesis by simp
    next
      case (Stop step)
      with m 1 o show ?thesis by (simp add: lenient_def)
    qed
  qed
qed

lemma clean_stream [simp]: "rd_info (set_stream lb src s) = rd_info s" "gs_blocklist (rd_gate (set_stream lb src s)) = gs_blocklist (rd_gate s)"
  by (simp_all add: set_stream_def)

lemma lenient_respond_error [simp]: "clean_state ip info s \<Longrightarrow> lenient ip info (respond_error R err s)"
  by (auto simp: respond_error_def Let_def penalise_def lenient_def stop_turn_def rust_simps forgotten_unblocked
      elim!: run_bindE split: option.splits if_splits) (blast intro: first_failure_no_block)+

lemma lenient_answer: "rd_info s = info \<Longrightarrow> unblocked ip (gs_blocklist (rd_gate s)) \<Longrightarrow> lenient ip info (answer_and_stop R ep bytes s)"
  by (auto simp: answer_and_stop_def emit_single_response_def lenient_def stop_turn_def)

lemma read_body_blocklist: "read_body L h keep g = Some (Ok (r, g1)) \<Longrightarrow> gs_blocklist g1 = gs_blocklist g"
  by (auto simp: read_body_def Let_def split: if_splits option.splits outcome.splits prod.splits)

lemma register_credential_unblocked:
  "register_credential_failure L client_ip response g = Ok g1 \<Longrightarrow> forgotten ip (gs_blocklist g) \<Longrightarrow> unblocked ip (gs_blocklist g1)"
  by (auto simp: register_credential_failure_def rust_simps forgotten_unblocked dest: first_failure_no_block split: if_splits option.splits)

lemma gate_answer_unblocked:
  assumes "gate_answer L client_ip h response g = Some (Ok (r, g1))" and "forgotten ip (gs_blocklist g)"
  shows "unblocked ip (gs_blocklist g1)"
  using assms
  by (auto simp: gate_answer_def rust_simps forgotten_unblocked elim!: run_bindE dest!: read_body_blocklist split: option.splits)
    (metis register_credential_unblocked)

lemma gate_server_unblocked:
  assumes "gate_server_request L client_ip ep h oauth_id cx rq route g = Some (Ok (r, g1))" and "forgotten ip (gs_blocklist g)"
  shows "unblocked ip (gs_blocklist g1)"
  using assms
  by (auto simp: gate_server_request_def rust_simps forgotten_unblocked elim!: run_bindE dest!: read_body_blocklist split: option.splits)
    (drule register_credential_unblocked [where ip = ip], simp_all)

lemma run_gate_unblocked:
  assumes "run_oauth_gate L ep client_ip h g = Some (Ok (r, g1))" and "forgotten ip (gs_blocklist g)"
  shows "unblocked ip (gs_blocklist g1)"
  using assms
  by (auto simp: run_oauth_gate_def gate_proxied_request_def forgotten_unblocked elim!: run_bindE
      split: option.splits BearerGateResult.splits) (blast intro: gate_answer_unblocked gate_server_unblocked)+

lemma lenient_check: "clean_state ip info s \<Longrightarrow> lenient ip info (check_connection R ep s)"
  by (auto simp: check_connection_def Let_def intro!: lenient_bind split: option.splits prod.splits)

lemma lenient_gate: "clean_state ip info s \<Longrightarrow> lenient ip info (pass_oauth_gate R ep h s)"
proof -
  assume c: "clean_state ip info s"
  let ?g = "run_oauth_gate ((re_gate R)\<lparr>gl_timeout := fst (rd_timeouts s)\<rparr>) ep (ci_connection_ip (rd_info s)) h (rd_gate s)"
  show ?thesis unfolding pass_oauth_gate_def Let_def
  proof (rule lenient_bind, goal_cases)
    case (1 out)
    obtain r g where o: "out = (r, g)" by (cases out)
    have u: "unblocked ip (gs_blocklist g)" using run_gate_unblocked 1 c o by blast
    from 1 o have "r = Proceed \<Longrightarrow> g = rd_gate s" using gate_Proceed_token(1) by blast
    with c u o show ?case
      by (cases r) (auto intro!: lenient_answer, auto simp: lenient_def stop_turn_def)
  qed
qed

lemma lenient_locate: "clean_state ip info s \<Longrightarrow> lenient ip info (locate R ep h s)"
  by (auto simp: locate_def intro!: lenient_bind split: option.splits)

lemma lenient_identify: "clean_state ip info s \<Longrightarrow> lenient ip info (identify R ep location h s)"
  by (auto simp: identify_def split: option.splits outcome.splits)

lemma lenient_target: "clean_state ip info s \<Longrightarrow> lenient ip info (choose_target R location h s)"
  by (auto simp: choose_target_def intro!: lenient_bind split: option.splits ProxyPassToConfig.splits)

lemma lenient_compile: "clean_state ip info s \<Longrightarrow> lenient ip info (compile_request R ep h identity target s)"
  by (auto simp: compile_request_def split: option.splits outcome.splits)

lemma clean_drain: "drain_body R cl s = Some (Ok s1) \<Longrightarrow> rd_info s1 = rd_info s \<and> gs_blocklist (rd_gate s1) = gs_blocklist (rd_gate s)"
  by (auto simp: drain_body_def split: option.splits outcome.splits prod.splits)

lemma lenient_dispatch: "clean_state ip info s \<Longrightarrow> lenient ip info (dispatch_to_worker R ep location identity target head cl s)"
  by (auto simp: dispatch_to_worker_def Let_def set_stream_def split: option.splits outcome.splits)

lemma lenient_serve: "clean_state ip info s \<Longrightarrow> lenient ip info (serve_request R ep location identity target compiled cl s)"
  by (auto simp: serve_request_def lenient_dispatch intro!: lenient_bind lenient_answer forgotten_unblocked dest!: clean_drain
      split: ProxyPassToConfig.splits)

lemma respond_error_info: "respond_error R err s = Some (Ok (r, s1)) \<Longrightarrow> rd_info s1 = rd_info s"
  by (auto simp: respond_error_def Let_def penalise_def stop_turn_def rust_simps elim!: run_bindE split: option.splits if_splits)

lemma resolve_first:
  assumes "resolve_endpoint R h s = Some (Ok (r, s1))" and "ci_endpoint_info (rd_info s) = None" and "ci_connection_ip (rd_info s) = Some ip"
  shows "case r of Next ep \<Rightarrow> forgotten ip (gs_blocklist (rd_gate s1)) | Stop _ \<Rightarrow> ci_endpoint_info (rd_info s1) = None"
  using assms(1) unfolding resolve_endpoint_def Let_def assms(2,3)
  by (auto simp: yield_value_def register_success_def forgotten_def delete_conv' elim!: run_bindE dest!: respond_error_info
      split: option.splits phase.splits)

lemma rest_lenient:
  assumes "clean_state ip info s"
  shows "lenient ip info
     (and_then (check_connection R ep s) (\<lambda>_ s.
      and_then (pass_oauth_gate R ep h s) (\<lambda>_ s.
      and_then (locate R ep h s) (\<lambda>location s.
      and_then (identify R ep location h s) (\<lambda>identity s.
      and_then (choose_target R location h s) (\<lambda>target s.
      and_then (compile_request R ep h identity target s) (\<lambda>compiled s.
        serve_request R ep location identity (fst target) compiled (h1_content_length h) s)))))))"
  using assms
  by (intro lenient_and_then lenient_check lenient_gate lenient_locate lenient_identify lenient_target lenient_compile lenient_serve)

lemma unblocked_now: "unblocked ip bl \<Longrightarrow> is_blocked now bl ip \<noteq> Ok True"
  by (auto simp: is_blocked_def unblocked_def blocked_at_def rust_simps split: option.splits if_splits)

text \<open>
  A new connection forgets the failures of its client: once the first request of a plain
  connection names an endpoint of the port, the client is not blocked after the turn, whatever
  failures were counted for it before and even when this request is another one. Guessing the
  consent password or a client secret with one connection per attempt is never blocked.
\<close>

theorem new_connection_forgets_failures:
  assumes "read_and_dispatch R s = Some (Ok (step, s1))" and "ci_endpoint_info (rd_info s) = None"
    and "ci_connection_ip (rd_info s) = Some ip" and "ci_endpoint_info (rd_info s1) \<noteq> None"
  shows "is_blocked now (gs_blocklist (rd_gate s1)) ip \<noteq> Ok True"
proof -
  from assms(1) obtain r where t: "reader_turn R s = Some (Ok (r, s1))"
    by (auto simp: read_and_dispatch_def elim!: run_bindE split: phase.splits)
  show ?thesis
  proof (cases rule: and_then_Ok [OF t [unfolded reader_turn_def]])
    case (2 step)
    with assms(2,4) show ?thesis
      by (auto simp: read_request_def yield_value_def stop_turn_def split: option.splits outcome.splits prod.splits)
  next
    case (1 h sa)
    then have sa: "ci_endpoint_info (rd_info sa) = None" "ci_connection_ip (rd_info sa) = Some ip"
      using read_request_Next [OF 1(1)] assms(2,3) by auto
    show ?thesis
    proof (cases rule: and_then_Ok [OF 1(2)])
      case (2 step)
      with resolve_first [OF 2(1) sa] assms(4) show ?thesis by simp
    next
      case (1 ep sb)
      with resolve_first [OF 1(1) sa] have "clean_state ip (rd_info sb) sb" by simp
      from lenientD [OF rest_lenient [OF this] 1(2)] show ?thesis by (rule unblocked_now)
    qed
  qed
qed

text \<open>A client with five failures on record connects to an endpoint that wants a certificate.\<close>

definition demo_guarded :: HttpEndpointInfo where
  "demo_guarded = demo_endpoint\<lparr>ep_client_certificate_id := Some (as_bytes ''ca'')\<rparr>"

definition demo_blocked :: IpBlocklist where
  "demo_blocked = \<lparr>bl_map = [(V4 1 2 3 4, \<lparr>ie_hard_count = 5, ie_soft_count = 0, ie_window_start = 0, ie_blocked_until = Some 300\<rparr>)],
     bl_white_list = None\<rparr>"

definition demo_knock :: reader_state where
  "demo_knock = demo_conn\<lparr>rd_info := \<lparr>ci_cn_user_name = None, ci_connection_ip = Some (V4 1 2 3 4), ci_endpoint_info = None,
     ci_listen_config = new_listen_port demo_guarded\<rparr>, rd_gate := (demo_state demo_bearer)\<lparr>gs_blocklist := demo_blocked\<rparr>\<rparr>"

lemma demo_knock_turn:
  obtains s1 where "read_and_dispatch demo_env demo_knock = Some (Ok (CloseReading, s1))" "ci_endpoint_info (rd_info s1) \<noteq> None"
proof -
  let ?k = "demo_knock\<lparr>rd_info := (rd_info demo_knock)\<lparr>ci_endpoint_info := Some demo_guarded\<rparr>,
    rd_gate := (rd_gate demo_knock)\<lparr>gs_blocklist := register_success (V4 1 2 3 4) demo_blocked\<rparr>\<rparr>"
  have c: "rd_timeouts demo_knock = (1, 1)" "gs_buffer (rd_gate demo_knock) = small_buffer demo_bearer" "gs_source (rd_gate demo_knock) = []"
    "re_gate demo_env = demo_libs"
    by (simp_all add: demo_knock_def demo_conn_def demo_state_def demo_env_def)
  have 1: "read_request demo_env demo_knock = yield_value (demo_head 15 47) demo_knock"
    unfolding read_request_def c fst_conv demo_read by (simp add: set_stream_def demo_knock_def demo_conn_def demo_state_def)
  have 2: "resolve_endpoint demo_env (demo_head 15 47) demo_knock = yield_value demo_guarded ?k"
    by (simp add: resolve_endpoint_def request_host_def demo_head_def try_find_endpoint_info_def get_http_endpoint_info_def
        new_listen_port_def has_server_name_def demo_endpoint_fields demo_guarded_def demo_knock_def demo_conn_def)
  let ?s = "?k\<lparr>rd_slots := rd_slots ?k @ [ready_slot DEFAULT_WRITE_TIMEOUT (page_bytes demo_env MTLS_REQUIRED_MISDIRECTED)]\<rparr>"
  have w: "re_writer_open demo_env" by (simp add: demo_env_def)
  have "\<not> connection_satisfies_client_cert demo_guarded (map_option cc_ca_id (ci_cn_user_name (rd_info ?k)))"
    by (simp add: connection_satisfies_client_cert_def demo_guarded_def demo_knock_def)
  then have 3: "check_connection demo_env demo_guarded ?k = stop_turn CloseReading ?s"
    by (simp add: check_connection_def respond_error_def Let_def w)
  have "reader_turn demo_env demo_knock = Some (Ok (Stop CloseReading, ?s))"
    unfolding reader_turn_def 1 2 and_then_yield 3 by (simp add: and_then_def stop_turn_def)
  then show ?thesis using that [of ?s] by (simp add: read_and_dispatch_def)
qed

theorem new_connection_forgets_failures_witness:
  "\<exists>s1. is_blocked 100 demo_blocked (V4 1 2 3 4) = Ok True \<and>
    read_and_dispatch demo_env demo_knock = Some (Ok (CloseReading, s1)) \<and>
    is_blocked 100 (gs_blocklist (rd_gate s1)) (V4 1 2 3 4) \<noteq> Ok True"
proof -
  obtain s1 where s: "read_and_dispatch demo_env demo_knock = Some (Ok (CloseReading, s1))" "ci_endpoint_info (rd_info s1) \<noteq> None"
    by (rule demo_knock_turn)
  have "ci_endpoint_info (rd_info demo_knock) = None" "ci_connection_ip (rd_info demo_knock) = Some (V4 1 2 3 4)"
    by (simp_all add: demo_knock_def)
  from new_connection_forgets_failures [OF s(1) this s(2)] s(1) show ?thesis
    by (simp add: demo_blocked_def is_blocked_def is_white_listed_def blocked_at_def)
qed

end
