(* ===== verification/H1_Pool.thy ===== *)
theory H1_Pool
  imports Prelude "HOL-Library.Multiset"
begin

text \<open>
  The shared pool of HTTP/1 upstream connections: \<open>src/src/upstream_h1_pool\<close>. Any number of tasks run
  \<open>get_connection\<close>, hold handles, tick the supervisor and revive entries, on any number of pools with
  one process-wide budget. A task is its program counter; a step is one atomic action of the source
  on a flag, a counter, a lock or the list of entries, or the end of an await; the atomics are
  sequentially consistent. Entries are only ever appended, so a snapshot is a length and an entry its
  index. Connecting, pinging and requests end either way, the clock decides either way, and a task may
  be dropped at an await. Times of last success, metrics and the client objects are left out: a client
  is reached only through the handle of its entry.
\<close>

section \<open>Pools and tasks\<close>

record H1Entry =
  en_dead :: bool
  en_rented :: bool
  en_revive_pending :: bool
  en_revive_lock :: bool

definition new_entry :: H1Entry where
  "new_entry = \<lparr>en_dead = False, en_rented = False, en_revive_pending = False, en_revive_lock = False\<rparr>"

record PoolParams =
  pa_pool_size :: u8
  pa_max_disposables :: u64
  pa_health_check_path :: "bytes option"

datatype UpstreamStatus = StatusUnknown | StatusOk | StatusError

record H1Pool =
  po_params :: PoolParams
  po_clients :: "H1Entry list"
  po_next :: u64
  po_shutdown :: bool
  po_last_status :: UpstreamStatus
  po_live_disposables :: u64

definition new_pool :: "PoolParams \<Rightarrow> H1Pool" where
  "new_pool params = \<lparr>po_params = params, po_clients = [], po_next = 0, po_shutdown = False, po_last_status = StatusUnknown,
     po_live_disposables = 0\<rparr>"

definition MAX_DISPOSABLE :: u64 where "MAX_DISPOSABLE = 100"

text \<open>A handle; the flag of a disposable one says whether it came from the overflow phase.\<close>

datatype H1ClientHandle = Reusable nat | Disposable bool | Ws

text \<open>Who revives an entry: a request that has rented it, or a task of the supervisor.\<close>

datatype reviver = Foreground | Background

text \<open>
  The program counters of \<open>get_connection\<close> and \<open>create_ws_connection\<close> up to a handle, of the handle's
  drop, of \<open>revive_entry\<close>, of \<open>supervisor_tick\<close> at entry \<open>k\<close> of a snapshot of \<open>n\<close>, and of the task of
  \<open>spawn_revive\<close>. \<open>Abandoned\<close> is a dropped task: the entry and the reservation it still accounts for.
\<close>

datatype task =
    Begin
  | Dialling
  | Dialled
  | LostRace
  | LostRaceCounted
  | Scanning nat nat nat
  | Rented nat
  | AwaitLock reviver nat
  | Locked reviver nat
  | Redialling reviver nat
  | Redialled reviver nat
  | Unlocking reviver nat bool
  | ReviveFailed nat
  | ReserveGlobal
  | ReservePool u64
  | CheckBudget u64 u64
  | OverflowDialling
  | UndoGlobal bool
  | UndoPool bool
  | OverLimit
  | Sleeping
  | WsDialling
  | Holding H1ClientHandle
  | DropDisposable
  | TickStart
  | TickAt nat nat
  | TickProbe nat nat
  | Pinging nat nat
  | PingEnded nat nat bool
  | SpawnRevive nat nat
  | SpawnExchange nat nat
  | ReviveTask nat
  | ClearPending nat
  | Ended
  | Crashed
  | Abandoned "nat option" bool

section \<open>Entries\<close>

definition update_entry :: "nat \<Rightarrow> (H1Entry \<Rightarrow> H1Entry) \<Rightarrow> H1Pool \<Rightarrow> H1Pool" where
  "update_entry i f p = p\<lparr>po_clients := (po_clients p)[i := f (po_clients p ! i)]\<rparr>"

definition set_rented :: "bool \<Rightarrow> nat \<Rightarrow> H1Pool \<Rightarrow> H1Pool" where
  "set_rented b i = update_entry i (\<lambda>e. e\<lparr>en_rented := b\<rparr>)"

definition set_dead :: "bool \<Rightarrow> nat \<Rightarrow> H1Pool \<Rightarrow> H1Pool" where
  "set_dead b i = update_entry i (\<lambda>e. e\<lparr>en_dead := b\<rparr>)"

definition set_lock :: "bool \<Rightarrow> nat \<Rightarrow> H1Pool \<Rightarrow> H1Pool" where
  "set_lock b i = update_entry i (\<lambda>e. e\<lparr>en_revive_lock := b\<rparr>)"

definition set_pending :: "bool \<Rightarrow> nat \<Rightarrow> H1Pool \<Rightarrow> H1Pool" where
  "set_pending b i = update_entry i (\<lambda>e. e\<lparr>en_revive_pending := b\<rparr>)"

text \<open>\<open>try_rent\<close>: the entry is rented afterwards either way; the result says whether it was free.\<close>

definition try_rent :: "nat \<Rightarrow> H1Pool \<Rightarrow> bool \<times> H1Pool" where
  "try_rent i p = (if en_rented (po_clients p ! i) then (False, p) else (True, set_rented True i p))"

definition release_rent :: "nat \<Rightarrow> H1Pool \<Rightarrow> H1Pool" where
  "release_rent i p = set_rented False i p"

definition push_rented :: "H1Pool \<Rightarrow> H1Pool" where
  "push_rented p = p\<lparr>po_clients := po_clients p @ [new_entry\<lparr>en_rented := True\<rparr>]\<rparr>"

definition set_status :: "UpstreamStatus \<Rightarrow> H1Pool \<Rightarrow> H1Pool" where
  "set_status s p = p\<lparr>po_last_status := s\<rparr>"

definition target_size :: "H1Pool \<Rightarrow> nat" where
  "target_size p = unat (pa_pool_size (po_params p))"

section \<open>The steps of \<open>get_connection\<close>\<close>

text \<open>The head of the loop: shut down, grow, or scan; a target of zero divides by zero.\<close>

definition begin_step :: "H1Pool \<Rightarrow> task \<times> H1Pool" where
  "begin_step p =
     (if po_shutdown p then (Ended, p)
      else let len = length (po_clients p) in
        if len < target_size p then (Dialling, p)
        else if len = 0 then (Crashed, p\<lparr>po_next := po_next p + 1\<rparr>)
        else (Scanning len (unat (po_next p) mod len) 0, p\<lparr>po_next := po_next p + 1\<rparr>))"

text \<open>Under \<open>grow_lock\<close>: the size is tested again.\<close>

definition grow_step :: "H1Pool \<Rightarrow> task \<times> H1Pool" where
  "grow_step p =
     (if length (po_clients p) < target_size p then (Holding (Reusable (length (po_clients p))), push_rented p)
      else (LostRace, p))"

definition scan_step :: "nat \<Rightarrow> nat \<Rightarrow> nat \<Rightarrow> H1Pool \<Rightarrow> task \<times> H1Pool" where
  "scan_step len start offset p =
     (if offset < len then
        let i = (start + offset) mod len in
        case try_rent i p of (True, p1) \<Rightarrow> (Rented i, p1) | (False, p1) \<Rightarrow> (Scanning len start (Suc offset), p1)
      else (ReserveGlobal, p))"

definition rented_step :: "nat \<Rightarrow> H1Pool \<Rightarrow> task" where
  "rented_step i p = (if en_dead (po_clients p ! i) then AwaitLock Foreground i else Holding (Reusable i))"

text \<open>Behind the lock of an entry: nothing to do if it was revived meanwhile.\<close>

definition locked_step :: "reviver \<Rightarrow> nat \<Rightarrow> H1Pool \<Rightarrow> task" where
  "locked_step who i p = (if en_dead (po_clients p ! i) then Redialling who i else Unlocking who i True)"

text \<open>What follows \<open>revive_entry\<close>: the handle, the error, or the end of the supervisor's task.\<close>

fun after_revive :: "reviver \<Rightarrow> nat \<Rightarrow> bool \<Rightarrow> task" where
  "after_revive Foreground i True = Holding (Reusable i)"
| "after_revive Foreground i False = ReviveFailed i"
| "after_revive Background i revived = ClearPending i"

definition budget_step :: "PoolParams \<Rightarrow> u64 \<Rightarrow> u64 \<Rightarrow> task" where
  "budget_step params cur_global cur_pool =
     (if cur_global < MAX_DISPOSABLE \<and> cur_pool < pa_max_disposables params then OverflowDialling else UndoGlobal False)"

section \<open>The supervisor\<close>

definition liveness_path_is_valid :: "bytes \<Rightarrow> bool" where
  "liveness_path_is_valid path \<longleftrightarrow> \<not> list_ex (\<lambda>b. b = 13 \<or> b = 10 \<or> b = 0 \<or> b = 32) path"

text \<open>\<open>spawn_revive\<close>: its tests, then the exchange that admits one task per entry.\<close>

definition spawn_revive_tests :: "nat \<Rightarrow> nat \<Rightarrow> H1Pool \<Rightarrow> task" where
  "spawn_revive_tests k n p =
     (if po_shutdown p \<or> \<not> en_dead (po_clients p ! k) then TickAt (Suc k) n else SpawnExchange k n)"

definition spawn_revive_exchange :: "nat \<Rightarrow> H1Pool \<Rightarrow> task list \<times> H1Pool" where
  "spawn_revive_exchange k p =
     (if en_revive_pending (po_clients p ! k) then ([], p) else ([ReviveTask k], set_pending True k p))"

text \<open>One entry of a tick; \<open>hot\<close>: it succeeded within the hot window.\<close>

definition tick_entry :: "bool \<Rightarrow> nat \<Rightarrow> nat \<Rightarrow> H1Pool \<Rightarrow> task" where
  "tick_entry hot k n p =
     (if po_shutdown p then Ended
      else if en_dead (po_clients p ! k) then SpawnRevive k n
      else if hot then TickAt (Suc k) n
      else case pa_health_check_path (po_params p) of
        None \<Rightarrow> TickAt (Suc k) n
      | Some path \<Rightarrow> if \<not> liveness_path_is_valid path then TickAt (Suc k) n else TickProbe k n)"

definition tick_probe :: "nat \<Rightarrow> nat \<Rightarrow> H1Pool \<Rightarrow> task \<times> H1Pool" where
  "tick_probe k n p =
     (case try_rent k p of (True, p1) \<Rightarrow> (Pinging k n, p1) | (False, p1) \<Rightarrow> (TickAt (Suc k) n, p1))"

section \<open>One step of a task\<close>

definition set_live :: "u64 \<Rightarrow> H1Pool \<Rightarrow> H1Pool" where
  "set_live n p = p\<lparr>po_live_disposables := n\<rparr>"

text \<open>
  \<open>task_step (budget, pool) task (budget', pool') task' spawned\<close>: the task acts on its pool and the
  process-wide counter. The \<open>cancel\<close> rules drop the future of a client that disconnects or of a tick
  that takes too long: the guards of the source run, and what has no guard stays as it is.
\<close>

inductive task_step :: "u64 \<times> H1Pool \<Rightarrow> task \<Rightarrow> u64 \<times> H1Pool \<Rightarrow> task \<Rightarrow> task list \<Rightarrow> bool" where
  begin_loop: "begin_step p = (c, p1) \<Longrightarrow> task_step (g, p) Begin (g, p1) c []"
| dial_ok: "task_step (g, p) Dialling (g, set_status StatusOk p) Dialled []"
| dial_err: "task_step (g, p) Dialling (g, set_status StatusError p) Ended []"
| grow: "grow_step p = (c, p1) \<Longrightarrow> task_step (g, p) Dialled (g, p1) c []"
| lost_global: "task_step (g, p) LostRace (g + 1, p) LostRaceCounted []"
| lost_pool: "task_step (g, p) LostRaceCounted (g, set_live (po_live_disposables p + 1) p) (Holding (Disposable False)) []"
| scan: "scan_step len start offset p = (c, p1) \<Longrightarrow> task_step (g, p) (Scanning len start offset) (g, p1) c []"
| rented: "task_step (g, p) (Rented i) (g, p) (rented_step i p) []"
| lock: "\<not> en_revive_lock (po_clients p ! i) \<Longrightarrow> task_step (g, p) (AwaitLock who i) (g, set_lock True i p) (Locked who i) []"
| locked: "task_step (g, p) (Locked who i) (g, p) (locked_step who i p) []"
| redial_ok: "task_step (g, p) (Redialling who i) (g, set_status StatusOk p) (Redialled who i) []"
| redial_err: "task_step (g, p) (Redialling who i) (g, set_status StatusError p) (Unlocking who i False) []"
| redialled: "task_step (g, p) (Redialled who i) (g, set_dead False i p) (Unlocking who i True) []"
| unlock: "task_step (g, p) (Unlocking who i revived) (g, set_lock False i p) (after_revive who i revived) []"
| revive_failed: "task_step (g, p) (ReviveFailed i) (g, release_rent i p) Ended []"
| reserve_global: "task_step (g, p) ReserveGlobal (g + 1, p) (ReservePool g) []"
| reserve_pool:
    "task_step (g, p) (ReservePool cur_global) (g, set_live (po_live_disposables p + 1) p)
       (CheckBudget cur_global (po_live_disposables p)) []"
| budget: "task_step (g, p) (CheckBudget cur_global cur_pool) (g, p) (budget_step (po_params p) cur_global cur_pool) []"
| overflow_ok: "task_step (g, p) OverflowDialling (g, set_status StatusOk p) (Holding (Disposable True)) []"
| overflow_err: "task_step (g, p) OverflowDialling (g, set_status StatusError p) (UndoGlobal True) []"
| undo_global: "task_step (g, p) (UndoGlobal failed) (g - 1, p) (UndoPool failed) []"
| undo_pool:
    "task_step (g, p) (UndoPool failed) (g, set_live (po_live_disposables p - 1) p) (if failed then Ended else OverLimit) []"
| deadline: "task_step (g, p) OverLimit (g, p) Ended []"
| retry: "task_step (g, p) OverLimit (g, p) Sleeping []"
| wake: "task_step (g, p) Sleeping (g, p) Begin []"
| ws_ok: "task_step (g, p) WsDialling (g, set_status StatusOk p) (Holding Ws) []"
| ws_err: "task_step (g, p) WsDialling (g, set_status StatusError p) Ended []"
| request_err: "task_step (g, p) (Holding (Reusable i)) (g, set_dead True i p) (Holding (Reusable i)) []"
| drop_reusable: "task_step (g, p) (Holding (Reusable i)) (g, release_rent i p) Ended []"
| drop_disposable: "task_step (g, p) (Holding (Disposable overflow)) (g - 1, p) DropDisposable []"
| drop_pool: "task_step (g, p) DropDisposable (g, set_live (po_live_disposables p - 1) p) Ended []"
| drop_ws: "task_step (g, p) (Holding Ws) (g, p) Ended []"
| tick: "task_step (g, p) TickStart (g, p) (if po_shutdown p then Ended else TickAt 0 (length (po_clients p))) []"
| tick_over: "n \<le> k \<Longrightarrow> task_step (g, p) (TickAt k n) (g, p) Ended []"
| tick_next: "k < n \<Longrightarrow> task_step (g, p) (TickAt k n) (g, p) (tick_entry hot k n p) []"
| probe: "tick_probe k n p = (c, p1) \<Longrightarrow> task_step (g, p) (TickProbe k n) (g, p1) c []"
| ping_ok: "task_step (g, p) (Pinging k n) (g, set_status StatusOk p) (PingEnded k n True) []"
| ping_err: "task_step (g, p) (Pinging k n) (g, set_status StatusError (set_dead True k p)) (PingEnded k n False) []"
| ping_release:
    "task_step (g, p) (PingEnded k n alive) (g, release_rent k p) (if alive then TickAt (Suc k) n else SpawnRevive k n) []"
| spawn_tests: "task_step (g, p) (SpawnRevive k n) (g, p) (spawn_revive_tests k n p) []"
| spawn_exchange:
    "spawn_revive_exchange k p = (spawned, p1) \<Longrightarrow> task_step (g, p) (SpawnExchange k n) (g, p1) (TickAt (Suc k) n) spawned"
| revive_task: "task_step (g, p) (ReviveTask i) (g, p) (if po_shutdown p then ClearPending i else AwaitLock Background i) []"
| clear_pending: "task_step (g, p) (ClearPending i) (g, set_pending False i p) Ended []"
| cancel_dial: "c \<in> {Dialling, WsDialling, Sleeping} \<Longrightarrow> task_step (g, p) c (g, p) (Abandoned None False) []"
| cancel_lock: "task_step (g, p) (AwaitLock Foreground i) (g, p) (Abandoned (Some i) False) []"
| cancel_redial: "task_step (g, p) (Redialling Foreground i) (g, set_lock False i p) (Abandoned (Some i) False) []"
| cancel_overflow: "task_step (g, p) OverflowDialling (g, p) (Abandoned None True) []"
| cancel_ping: "task_step (g, p) (Pinging k n) (g, release_rent k p) Ended []"

inductive_cases task_stepE: "task_step s c s1 c1 spawned"

section \<open>The process\<close>

record pools_state =
  st_pools :: "H1Pool list"
  st_registry :: "int \<rightharpoonup> nat"
  st_disposable_counter :: u64
  st_tasks :: "(nat \<times> task) list"

definition new_registry :: pools_state where
  "new_registry = \<lparr>st_pools = [], st_registry = Map.empty, st_disposable_counter = 0, st_tasks = []\<rparr>"

definition ensure_pool :: "int \<Rightarrow> PoolParams \<Rightarrow> pools_state \<Rightarrow> nat \<times> pools_state" where
  "ensure_pool location_id params st =
     (case st_registry st location_id of
        Some existing \<Rightarrow> (existing, st)
      | None \<Rightarrow>
          (length (st_pools st), st\<lparr>st_pools := st_pools st @ [new_pool params],
             st_registry := (st_registry st)(location_id \<mapsto> length (st_pools st))\<rparr>))"

definition drain_unused :: "int set \<Rightarrow> pools_state \<Rightarrow> pools_state" where
  "drain_unused active st =
     st\<lparr>st_pools := map (\<lambda>(q, p). if \<exists>l. st_registry st l = Some q \<and> l \<notin> active then p\<lparr>po_shutdown := True\<rparr> else p)
          (zip [0..<length (st_pools st)] (st_pools st)),
        st_registry := (\<lambda>l. if l \<in> active then st_registry st l else None)\<rparr>"

inductive pool_step :: "pools_state \<Rightarrow> pools_state \<Rightarrow> bool" where
  run: "t < length (st_tasks st) \<Longrightarrow> st_tasks st ! t = (q, c) \<Longrightarrow>
     task_step (st_disposable_counter st, st_pools st ! q) c (g1, p1) c1 spawned \<Longrightarrow>
     pool_step st (st\<lparr>st_pools := (st_pools st)[q := p1], st_disposable_counter := g1,
       st_tasks := (st_tasks st)[t := (q, c1)] @ map (Pair q) spawned\<rparr>)"
| start: "q < length (st_pools st) \<Longrightarrow> c \<in> {Begin, WsDialling, TickStart} \<Longrightarrow> pool_step st (st\<lparr>st_tasks := st_tasks st @ [(q, c)]\<rparr>)"
| ensure: "pool_step st (snd (ensure_pool location_id params st))"
| drain: "pool_step st (drain_unused active st)"

definition reachable :: "pools_state \<Rightarrow> bool" where
  "reachable st \<longleftrightarrow> pool_step\<^sup>*\<^sup>* new_registry st"

section \<open>What a task holds\<close>

text \<open>The entry a task has rented, the entry whose lock it holds, the entry whose revival it stands for.\<close>

fun rent_of :: "task \<Rightarrow> nat option" where
  "rent_of (Rented i) = Some i"
| "rent_of (AwaitLock who i) = (if who = Foreground then Some i else None)"
| "rent_of (Locked who i) = (if who = Foreground then Some i else None)"
| "rent_of (Redialling who i) = (if who = Foreground then Some i else None)"
| "rent_of (Redialled who i) = (if who = Foreground then Some i else None)"
| "rent_of (Unlocking who i revived) = (if who = Foreground then Some i else None)"
| "rent_of (ReviveFailed i) = Some i"
| "rent_of (Holding (Reusable i)) = Some i"
| "rent_of (Pinging k n) = Some k"
| "rent_of (PingEnded k n alive) = Some k"
| "rent_of (Abandoned entry reserved) = entry"
| "rent_of c = None"

fun lock_of :: "task \<Rightarrow> nat option" where
  "lock_of (Locked who i) = Some i"
| "lock_of (Redialling who i) = Some i"
| "lock_of (Redialled who i) = Some i"
| "lock_of (Unlocking who i revived) = Some i"
| "lock_of c = None"

fun pending_of :: "task \<Rightarrow> nat option" where
  "pending_of (ReviveTask i) = Some i"
| "pending_of (AwaitLock who i) = (if who = Background then Some i else None)"
| "pending_of (Locked who i) = (if who = Background then Some i else None)"
| "pending_of (Redialling who i) = (if who = Background then Some i else None)"
| "pending_of (Redialled who i) = (if who = Background then Some i else None)"
| "pending_of (Unlocking who i revived) = (if who = Background then Some i else None)"
| "pending_of (ClearPending i) = Some i"
| "pending_of c = None"

text \<open>Whether a task is counted in the process-wide budget and in the counter of its pool.\<close>

fun in_budget :: "task \<Rightarrow> bool" where
  "in_budget LostRaceCounted = True"
| "in_budget (ReservePool cur_global) = True"
| "in_budget (CheckBudget cur_global cur_pool) = True"
| "in_budget OverflowDialling = True"
| "in_budget (UndoGlobal failed) = True"
| "in_budget (Holding (Disposable overflow)) = True"
| "in_budget (Abandoned entry reserved) = reserved"
| "in_budget c = False"

fun in_pool_count :: "task \<Rightarrow> bool" where
  "in_pool_count (CheckBudget cur_global cur_pool) = True"
| "in_pool_count OverflowDialling = True"
| "in_pool_count (UndoGlobal failed) = True"
| "in_pool_count (UndoPool failed) = True"
| "in_pool_count (Holding (Disposable overflow)) = True"
| "in_pool_count DropDisposable = True"
| "in_pool_count (Abandoned entry reserved) = reserved"
| "in_pool_count c = False"

text \<open>How many entries a pool must have for the indices of a task to be in range.\<close>

fun need :: "task \<Rightarrow> nat" where
  "need (Scanning len start offset) = len"
| "need (Rented i) = Suc i"
| "need (AwaitLock who i) = Suc i"
| "need (Locked who i) = Suc i"
| "need (Redialling who i) = Suc i"
| "need (Redialled who i) = Suc i"
| "need (Unlocking who i revived) = Suc i"
| "need (ReviveFailed i) = Suc i"
| "need (Holding (Reusable i)) = Suc i"
| "need (TickAt k n) = n"
| "need (TickProbe k n) = max (Suc k) n"
| "need (Pinging k n) = max (Suc k) n"
| "need (PingEnded k n alive) = max (Suc k) n"
| "need (SpawnRevive k n) = max (Suc k) n"
| "need (SpawnExchange k n) = max (Suc k) n"
| "need (ReviveTask i) = Suc i"
| "need (ClearPending i) = Suc i"
| "need (Abandoned (Some i) reserved) = Suc i"
| "need c = 0"

named_theorems pool_step_simps \<open>the pieces of a step of the pool\<close>

lemmas [pool_step_simps] = begin_step_def grow_step_def scan_step_def rented_step_def locked_step_def budget_step_def
  try_rent_def release_rent_def spawn_revive_tests_def spawn_revive_exchange_def tick_entry_def tick_probe_def Let_def

lemma after_revive_simps [pool_step_simps]:
  "need (after_revive who i ok) = Suc i"
  "rent_of (after_revive who i ok) = (if who = Foreground then Some i else None)"
  "lock_of (after_revive who i ok) = None"
  "pending_of (after_revive who i ok) = (if who = Background then Some i else None)"
  "in_budget (after_revive who i ok) = False"
  "in_pool_count (after_revive who i ok) = False"
  by (cases who; cases ok; simp)+

definition rented :: "nat \<Rightarrow> H1Pool \<Rightarrow> bool" where
  "rented i p \<longleftrightarrow> i < length (po_clients p) \<and> en_rented (po_clients p ! i)"

definition revive_locked :: "nat \<Rightarrow> H1Pool \<Rightarrow> bool" where
  "revive_locked i p \<longleftrightarrow> i < length (po_clients p) \<and> en_revive_lock (po_clients p ! i)"

definition revive_pending :: "nat \<Rightarrow> H1Pool \<Rightarrow> bool" where
  "revive_pending i p \<longleftrightarrow> i < length (po_clients p) \<and> en_revive_pending (po_clients p ! i)"

lemma clients_length [simp]:
  "length (po_clients (set_status st p)) = length (po_clients p)"
  "length (po_clients (set_live m p)) = length (po_clients p)"
  "length (po_clients (set_rented b j p)) = length (po_clients p)"
  "length (po_clients (set_dead b j p)) = length (po_clients p)"
  "length (po_clients (set_lock b j p)) = length (po_clients p)"
  "length (po_clients (set_pending b j p)) = length (po_clients p)"
  "length (po_clients (push_rented p)) = Suc (length (po_clients p))"
  by (simp_all add: set_status_def set_live_def set_rented_def set_dead_def set_lock_def set_pending_def update_entry_def push_rented_def)

lemmas pool_updates = set_status_def set_live_def set_rented_def set_dead_def set_lock_def set_pending_def update_entry_def
  push_rented_def new_entry_def

lemma rented_effects [simp]:
  "rented i (set_status st p) = rented i p"
  "rented i (set_live m p) = rented i p"
  "rented i (set_rented b j p) = (if i = j \<and> i < length (po_clients p) then b else rented i p)"
  "rented i (set_dead b j p) = rented i p"
  "rented i (set_lock b j p) = rented i p"
  "rented i (set_pending b j p) = rented i p"
  "rented i (push_rented p) = (i = length (po_clients p) \<or> rented i p)"
  "rented i (p\<lparr>po_next := next1\<rparr>) = rented i p"
  "rented i (p\<lparr>po_shutdown := sh\<rparr>) = rented i p"
  by (cases "i = j"; auto simp: rented_def pool_updates nth_append)+

lemma revive_locked_effects [simp]:
  "revive_locked i (set_status st p) = revive_locked i p"
  "revive_locked i (set_live m p) = revive_locked i p"
  "revive_locked i (set_rented b j p) = revive_locked i p"
  "revive_locked i (set_dead b j p) = revive_locked i p"
  "revive_locked i (set_lock b j p) = (if i = j \<and> i < length (po_clients p) then b else revive_locked i p)"
  "revive_locked i (set_pending b j p) = revive_locked i p"
  "revive_locked i (push_rented p) = revive_locked i p"
  "revive_locked i (p\<lparr>po_next := next1\<rparr>) = revive_locked i p"
  "revive_locked i (p\<lparr>po_shutdown := sh\<rparr>) = revive_locked i p"
  by (cases "i = j"; auto simp: revive_locked_def pool_updates nth_append)+

lemma revive_pending_effects [simp]:
  "revive_pending i (set_status st p) = revive_pending i p"
  "revive_pending i (set_live m p) = revive_pending i p"
  "revive_pending i (set_rented b j p) = revive_pending i p"
  "revive_pending i (set_dead b j p) = revive_pending i p"
  "revive_pending i (set_lock b j p) = revive_pending i p"
  "revive_pending i (set_pending b j p) = (if i = j \<and> i < length (po_clients p) then b else revive_pending i p)"
  "revive_pending i (push_rented p) = revive_pending i p"
  "revive_pending i (p\<lparr>po_next := next1\<rparr>) = revive_pending i p"
  "revive_pending i (p\<lparr>po_shutdown := sh\<rparr>) = revive_pending i p"
  by (cases "i = j"; auto simp: revive_pending_def pool_updates nth_append)+

lemma flags_in_range:
  assumes "i < length (po_clients p)"
  shows "en_rented (po_clients p ! i) = rented i p" "en_revive_lock (po_clients p ! i) = revive_locked i p"
    "en_revive_pending (po_clients p ! i) = revive_pending i p"
  using assms by (simp_all add: rented_def revive_locked_def revive_pending_def)

lemma mod_in_range: "j < len \<Longrightarrow> len \<le> m \<Longrightarrow> x mod len < (m :: nat)"
  by (rule less_le_trans [OF mod_less_divisor]) auto

lemma not_rented_beyond: "\<not> rented (length (po_clients p)) p"
  by (simp add: rented_def)

lemma step_indices:
  assumes "task_step (g, p) c (g1, p1) c1 spawned" and "need c \<le> length (po_clients p)"
  shows "need c1 \<le> length (po_clients p1) \<and> length (po_clients p) \<le> length (po_clients p1) \<and>
    (\<forall>c2 \<in> set spawned. need c2 \<le> length (po_clients p1))"
  using assms(1)
proof (cases rule: task_step.cases)
qed (use assms(2) in \<open>auto simp: pool_step_simps Suc_le_eq mod_in_range split: if_splits option.splits\<close>)

lemma rent_step:
  assumes "task_step (g, p) c (g1, p1) c1 spawned" and "need c \<le> length (po_clients p)"
    and "of_bool (rented i p) = of_bool (rent_of c = Some i) + (rest :: nat)"
  shows "of_bool (rented i p1) = of_bool (rent_of c1 = Some i) + (\<Sum>c2 \<leftarrow> spawned. of_bool (rent_of c2 = Some i)) + rest"
  using assms(1)
proof (cases rule: task_step.cases)
qed (use assms(2,3) in
  \<open>auto simp: pool_step_simps flags_in_range mod_in_range Suc_le_eq not_rented_beyond of_bool_def split: if_splits option.splits\<close>)

lemma lock_step:
  assumes "task_step (g, p) c (g1, p1) c1 spawned" and "need c \<le> length (po_clients p)"
    and "of_bool (revive_locked i p) = of_bool (lock_of c = Some i) + (rest :: nat)"
  shows "of_bool (revive_locked i p1) = of_bool (lock_of c1 = Some i) + (\<Sum>c2 \<leftarrow> spawned. of_bool (lock_of c2 = Some i)) + rest"
  using assms(1)
proof (cases rule: task_step.cases)
qed (use assms(2,3) in
  \<open>auto simp: pool_step_simps flags_in_range mod_in_range Suc_le_eq of_bool_def split: if_splits option.splits\<close>)

lemma pending_step:
  assumes "task_step (g, p) c (g1, p1) c1 spawned" and "need c \<le> length (po_clients p)"
    and "of_bool (revive_pending i p) = of_bool (pending_of c = Some i) + (rest :: nat)"
  shows "of_bool (revive_pending i p1) = of_bool (pending_of c1 = Some i) + (\<Sum>c2 \<leftarrow> spawned. of_bool (pending_of c2 = Some i)) + rest"
  using assms(1)
proof (cases rule: task_step.cases)
qed (use assms(2,3) in
  \<open>auto simp: pool_step_simps flags_in_range mod_in_range Suc_le_eq of_bool_def split: if_splits option.splits\<close>)

lemma live_effects [simp]:
  "po_live_disposables (set_status st p) = po_live_disposables p"
  "po_live_disposables (set_live m p) = m"
  "po_live_disposables (set_rented b j p) = po_live_disposables p"
  "po_live_disposables (set_dead b j p) = po_live_disposables p"
  "po_live_disposables (set_lock b j p) = po_live_disposables p"
  "po_live_disposables (set_pending b j p) = po_live_disposables p"
  "po_live_disposables (push_rented p) = po_live_disposables p"
  by (simp_all add: pool_updates)

lemma pool_count_step:
  assumes "task_step (g, p) c (g1, p1) c1 spawned"
    and "po_live_disposables p = of_bool (in_pool_count c) + rest"
  shows "po_live_disposables p1 = of_bool (in_pool_count c1) + (\<Sum>c2 \<leftarrow> spawned. of_bool (in_pool_count c2)) + rest"
  using assms(1)
proof (cases rule: task_step.cases)
qed (use assms(2) in \<open>auto simp: pool_step_simps of_bool_def split: if_splits option.splits\<close>)

lemma budget_count_step:
  assumes "task_step (g, p) c (g1, p1) c1 spawned" and "g = of_bool (in_budget c) + rest"
  shows "g1 = of_bool (in_budget c1) + (\<Sum>c2 \<leftarrow> spawned. of_bool (in_budget c2)) + rest"
  using assms(1)
proof (cases rule: task_step.cases)
qed (use assms(2) in \<open>auto simp: pool_step_simps of_bool_def split: if_splits option.splits\<close>)

end
