(* ===== verification/H1_Pool_Properties.thy ===== *)
theory H1_Pool_Properties
  imports H1_Pool
begin

text \<open>
  What the pool of HTTP/1 upstream connections guarantees under every interleaving: each flag and each
  counter accounts exactly for the tasks that stand for it (one locale, five interpretations), hence
  rents are exclusive, the rent flags refine a table of owners, overflow connections stay within both
  budgets, waiting tasks are never deadlocked, and what a dropped request leaves behind stays behind.
\<close>

section \<open>Resources accounted for by the tasks\<close>

definition in_range :: "pools_state \<Rightarrow> bool" where
  "in_range st \<longleftrightarrow>
     (\<forall>(q, c) \<in> set (st_tasks st). q < length (st_pools st) \<and> need c \<le> length (po_clients (st_pools st ! q)))"

definition starting :: "task \<Rightarrow> bool" where
  "starting c \<longleftrightarrow> c \<in> {Begin, WsDialling, TickStart}"

lemma sum_list_frame:
  fixes f :: "'a \<Rightarrow> 'm :: comm_monoid_add"
  assumes "t < length xs"
  shows "\<exists>rest. (\<Sum>x \<leftarrow> xs. f x) = f (xs ! t) + rest \<and> (\<forall>y. (\<Sum>x \<leftarrow> xs[t := y]. f x) = f y + rest)"
proof (intro exI conjI allI)
  let ?rest = "(\<Sum>x \<leftarrow> take t xs. f x) + (\<Sum>x \<leftarrow> drop (Suc t) xs. f x)"
  show "(\<Sum>x \<leftarrow> xs. f x) = f (xs ! t) + ?rest"
    using assms by (subst id_take_nth_drop [OF assms]) (simp add: ac_simps)
  show "(\<Sum>x \<leftarrow> xs[t := y]. f x) = f y + ?rest" for y
    using assms by (simp add: upd_conv_take_nth_drop ac_simps)
qed

text \<open>
  A resource is conserved when every step changes it by what the acting task gains or gives up,
  whatever the other tasks hold (\<open>rest\<close>).
\<close>

locale conserved =
  fixes amount :: "pools_state \<Rightarrow> 'm :: comm_monoid_add" and share :: "nat \<times> task \<Rightarrow> 'm"
  assumes initially: "amount new_registry = 0"
    and on_tasks: "amount (st\<lparr>st_tasks := tasks\<rparr>) = amount st"
    and on_ensure: "amount (snd (ensure_pool location_id params st)) = amount st"
    and on_drain: "amount (drain_unused active st) = amount st"
    and on_start: "starting c \<Longrightarrow> share (q, c) = 0"
    and on_step: "q < length (st_pools st) \<Longrightarrow> need c \<le> length (po_clients (st_pools st ! q)) \<Longrightarrow>
      task_step (st_disposable_counter st, st_pools st ! q) c (g1, p1) c1 spawned \<Longrightarrow> amount st = share (q, c) + rest \<Longrightarrow>
      amount (st\<lparr>st_pools := (st_pools st)[q := p1], st_disposable_counter := g1\<rparr>) =
        share (q, c1) + (\<Sum>c2 \<leftarrow> spawned. share (q, c2)) + rest"
begin

definition accounted :: "pools_state \<Rightarrow> bool" where
  "accounted st \<longleftrightarrow> amount st = (\<Sum>x \<leftarrow> st_tasks st. share x)"

lemma accounted_run:
  assumes "accounted st" "in_range st" "t < length (st_tasks st)" "st_tasks st ! t = (q, c)"
    and step: "task_step (st_disposable_counter st, st_pools st ! q) c (g1, p1) c1 spawned"
  shows "accounted (st\<lparr>st_pools := (st_pools st)[q := p1], st_disposable_counter := g1,
    st_tasks := (st_tasks st)[t := (q, c1)] @ map (Pair q) spawned\<rparr>)"
proof -
  obtain rest where rest: "(\<Sum>x \<leftarrow> st_tasks st. share x) = share (q, c) + rest"
      "\<And>y. (\<Sum>x \<leftarrow> (st_tasks st)[t := y]. share x) = share y + rest"
    using sum_list_frame [OF assms(3), of share] assms(4) by auto
  have "q < length (st_pools st)" "need c \<le> length (po_clients (st_pools st ! q))"
    using assms(2-4) nth_mem [OF assms(3)] by (auto simp: in_range_def)
  from on_step [OF this step, of rest] assms(1) rest show ?thesis
    by (simp add: accounted_def on_tasks o_def ac_simps)
qed

end

text \<open>Indices stay in range.\<close>

lemma in_range_run:
  assumes "in_range st" "t < length (st_tasks st)" "st_tasks st ! t = (q, c)"
    and step: "task_step (st_disposable_counter st, st_pools st ! q) c (g1, p1) c1 spawned"
  shows "in_range (st\<lparr>st_pools := (st_pools st)[q := p1], st_disposable_counter := g1,
    st_tasks := (st_tasks st)[t := (q, c1)] @ map (Pair q) spawned\<rparr>)"
proof -
  have q: "q < length (st_pools st)" "need c \<le> length (po_clients (st_pools st ! q))"
    using assms(1-3) nth_mem [OF assms(2)] by (auto simp: in_range_def)
  note grown = step_indices [OF step q(2)]
  have "q' < length (st_pools st) \<and> need c' \<le> length (po_clients ((st_pools st)[q := p1] ! q'))"
    if "(q', c') \<in> set (st_tasks st)" for q' c'
    using that assms(1) grown by (cases "q' = q") (auto simp: in_range_def)
  with q grown show ?thesis
    by (auto simp: in_range_def dest!: set_update_subset_insert [THEN subsetD])
qed

lemma in_range_nth:
  assumes "in_range st" and "t < length (st_tasks st)"
  shows "fst (st_tasks st ! t) < length (st_pools st)"
    and "need (snd (st_tasks st ! t)) \<le> length (po_clients (st_pools st ! fst (st_tasks st ! t)))"
  using assms(1) nth_mem [OF assms(2)] by (auto simp: in_range_def)

lemma drain_length [simp]: "length (st_pools (drain_unused active st)) = length (st_pools st)"
  by (simp add: drain_unused_def)

lemma drain_nth:
  "q < length (st_pools st) \<Longrightarrow> st_pools (drain_unused active st) ! q =
     (if \<exists>l. st_registry st l = Some q \<and> l \<notin> active then (st_pools st ! q)\<lparr>po_shutdown := True\<rparr> else st_pools st ! q)"
  by (simp add: drain_unused_def)

lemma ensure_pool_cases:
  obtains "snd (ensure_pool location_id params st) = st"
  | registry where "snd (ensure_pool location_id params st) = st\<lparr>st_pools := st_pools st @ [new_pool params], st_registry := registry\<rparr>"
  by (cases "st_registry st location_id") (simp_all add: ensure_pool_def)

lemma other_fields [simp]:
  "st_tasks (snd (ensure_pool location_id params st)) = st_tasks st"
  "st_disposable_counter (snd (ensure_pool location_id params st)) = st_disposable_counter st"
  "st_tasks (drain_unused active st) = st_tasks st"
  "st_disposable_counter (drain_unused active st) = st_disposable_counter st"
  by (auto simp: ensure_pool_def drain_unused_def split: option.splits)

lemma in_range_step:
  assumes "pool_step st st1" and "in_range st"
  shows "in_range st1"
  using assms(1)
proof (cases rule: pool_step.cases)
  case run
  then show ?thesis using in_range_run [OF assms(2)] by simp
next
  case (start q c)
  then show ?thesis using assms(2) by (auto simp: in_range_def)
next
  case (ensure location_id params)
  then show ?thesis using assms(2)
    by (cases rule: ensure_pool_cases [of location_id params st]) (fastforce simp: in_range_def nth_append)+
next
  case (drain active)
  then show ?thesis using assms(2) by (fastforce simp: in_range_def drain_nth)
qed

lemma reachable_in_range: "reachable st \<Longrightarrow> in_range st"
  unfolding reachable_def
proof (induction rule: rtranclp_induct)
  case base
  show ?case by (simp add: in_range_def new_registry_def)
qed (rule in_range_step)

context conserved
begin

lemma accounted_step: "pool_step st st1 \<Longrightarrow> accounted st \<Longrightarrow> in_range st \<Longrightarrow> accounted st1"
  by (induction rule: pool_step.induct)
    (simp_all add: accounted_run, simp_all add: accounted_def on_tasks on_ensure on_drain on_start starting_def)

lemma reachable_accounted: "reachable st \<Longrightarrow> accounted st"
  unfolding reachable_def
proof (induction rule: rtranclp_induct)
  case base
  then show ?case by (simp add: accounted_def initially) (simp add: new_registry_def)
next
  case (step st st1)
  then show ?case using accounted_step reachable_in_range by (simp add: reachable_def)
qed

end

text \<open>A resource of one pool.\<close>

locale pool_resource =
  fixes at :: nat and held :: "H1Pool \<Rightarrow> 'm :: comm_monoid_add" and task_share :: "task \<Rightarrow> 'm"
  assumes held_fresh: "held (new_pool params) = 0"
    and held_shutdown: "held (p\<lparr>po_shutdown := True\<rparr>) = held p"
    and share_start: "starting c \<Longrightarrow> task_share c = 0"
    and held_step: "task_step (g, p) c (g1, p1) c1 spawned \<Longrightarrow> need c \<le> length (po_clients p) \<Longrightarrow>
      held p = task_share c + rest \<Longrightarrow> held p1 = task_share c1 + (\<Sum>c2 \<leftarrow> spawned. task_share c2) + rest"
begin

definition held_at :: "pools_state \<Rightarrow> 'm" where
  "held_at st = (if at < length (st_pools st) then held (st_pools st ! at) else 0)"

definition share_at :: "nat \<times> task \<Rightarrow> 'm" where
  "share_at x = (if fst x = at then task_share (snd x) else 0)"

lemma held_at_step:
  assumes "q < length (st_pools st)" "need c \<le> length (po_clients (st_pools st ! q))"
    and "task_step (st_disposable_counter st, st_pools st ! q) c (g1, p1) c1 spawned"
    and "held_at st = share_at (q, c) + rest"
  shows "held_at (st\<lparr>st_pools := (st_pools st)[q := p1], st_disposable_counter := g1\<rparr>) =
    share_at (q, c1) + (\<Sum>c2 \<leftarrow> spawned. share_at (q, c2)) + rest"
proof (cases "q = at")
  case True
  with assms(1,4) have "held (st_pools st ! q) = task_share c + rest" by (simp add: held_at_def share_at_def)
  from held_step [OF assms(3,2) this] show ?thesis using True assms(1) by (simp add: held_at_def share_at_def)
next
  case False
  with assms(4) show ?thesis by (simp add: held_at_def share_at_def split: if_splits)
qed

end

sublocale pool_resource \<subseteq> conserved held_at share_at
proof unfold_locales
  show "held_at new_registry = 0" by (simp add: held_at_def new_registry_def)
next
  fix location_id params st
  show "held_at (snd (ensure_pool location_id params st)) = held_at st"
    by (cases rule: ensure_pool_cases [of location_id params st]) (auto simp: held_at_def nth_append held_fresh)
next
  fix active st
  show "held_at (drain_unused active st) = held_at st"
    by (simp add: held_at_def drain_nth held_shutdown)
qed (simp_all add: held_at_step, simp_all add: held_at_def share_at_def share_start)

text \<open>The three flags of an entry, the counter of a pool, and the process-wide counter.\<close>

lemma fresh_pool_flags [simp]:
  "\<not> rented i (new_pool params)" "\<not> revive_locked i (new_pool params)" "\<not> revive_pending i (new_pool params)"
  "po_live_disposables (new_pool params) = 0"
  by (simp_all add: rented_def revive_locked_def revive_pending_def new_pool_def)

lemma starting_holds_nothing:
  assumes "starting c"
  shows "rent_of c = None" "lock_of c = None" "pending_of c = None" "\<not> in_pool_count c" "\<not> in_budget c"
  using assms by (auto simp: starting_def)

interpretation rents: pool_resource q "\<lambda>p. of_bool (rented i p) :: nat" "\<lambda>c. of_bool (rent_of c = Some i)" for q i
  by unfold_locales (simp_all add: starting_holds_nothing rent_step)

interpretation locks: pool_resource q "\<lambda>p. of_bool (revive_locked i p) :: nat" "\<lambda>c. of_bool (lock_of c = Some i)" for q i
  by unfold_locales (simp_all add: starting_holds_nothing lock_step)

interpretation pendings: pool_resource q "\<lambda>p. of_bool (revive_pending i p) :: nat" "\<lambda>c. of_bool (pending_of c = Some i)" for q i
  by unfold_locales (simp_all add: starting_holds_nothing pending_step)

interpretation live: pool_resource q po_live_disposables "\<lambda>c. of_bool (in_pool_count c)" for q
  by unfold_locales (simp_all add: starting_holds_nothing pool_count_step)

interpretation budget: conserved st_disposable_counter "\<lambda>x. of_bool (in_budget (snd x))"
  by unfold_locales (simp_all add: starting_holds_nothing budget_count_step, simp add: new_registry_def)

section \<open>Exclusive rents\<close>

text \<open>The tasks that hold an entry of a pool, by their positions.\<close>

definition holders :: "(task \<Rightarrow> nat option) \<Rightarrow> nat \<Rightarrow> nat \<Rightarrow> pools_state \<Rightarrow> nat list" where
  "holders what q i st =
     [t \<leftarrow> [0..<length (st_tasks st)]. fst (st_tasks st ! t) = q \<and> what (snd (st_tasks st ! t)) = Some i]"

lemma length_filter_indices:
  "length [t \<leftarrow> [0..<length xs]. P (xs ! t)] = (\<Sum>x \<leftarrow> xs. of_bool (P x))"
proof (induction xs rule: rev_induct)
  case (snoc x xs)
  have "[t \<leftarrow> [0..<length xs]. P ((xs @ [x]) ! t)] = [t \<leftarrow> [0..<length xs]. P (xs ! t)]"
    by (rule filter_cong) (auto simp: nth_append)
  with snoc show ?case by simp
qed simp

lemma length_holders:
  "length (holders what q i st) = (\<Sum>x \<leftarrow> st_tasks st. if fst x = q then of_bool (what (snd x) = Some i) else 0)"
proof -
  have "length (holders what q i st) = (\<Sum>x \<leftarrow> st_tasks st. of_bool (fst x = q \<and> what (snd x) = Some i))"
    using length_filter_indices [of "\<lambda>x. fst x = q \<and> what (snd x) = Some i" "st_tasks st"] by (simp add: holders_def)
  also have "\<dots> = (\<Sum>x \<leftarrow> st_tasks st. if fst x = q then of_bool (what (snd x) = Some i) else 0)"
    by (rule arg_cong [where f = sum_list], rule map_cong) auto
  finally show ?thesis .
qed

lemma flags_exact:
  assumes "reachable st" and "q < length (st_pools st)"
  shows "length (holders rent_of q i st) = of_bool (rented i (st_pools st ! q))"
    and "length (holders lock_of q i st) = of_bool (revive_locked i (st_pools st ! q))"
    and "length (holders pending_of q i st) = of_bool (revive_pending i (st_pools st ! q))"
  using rents.reachable_accounted [OF assms(1), of q i] locks.reachable_accounted [OF assms(1), of q i]
    pendings.reachable_accounted [OF assms(1), of q i] assms(2)
  by (simp_all add: length_holders rents.accounted_def rents.held_at_def rents.share_at_def locks.accounted_def
      locks.held_at_def locks.share_at_def pendings.accounted_def pendings.held_at_def pendings.share_at_def)

text \<open>What a step never changes, and the size of a pool.\<close>

lemma params_effects [simp]:
  "po_params (set_status x p) = po_params p" "po_params (set_live m p) = po_params p"
  "po_params (set_rented b j p) = po_params p" "po_params (set_dead b j p) = po_params p"
  "po_params (set_lock b j p) = po_params p" "po_params (set_pending b j p) = po_params p"
  "po_params (push_rented p) = po_params p"
  by (simp_all add: pool_updates)

lemma size_step:
  assumes "task_step (g, p) c (g1, p1) c1 spawned"
  shows "po_params p1 = po_params p \<and>
    (length (po_clients p) \<le> target_size p \<longrightarrow> length (po_clients p1) \<le> target_size p1)"
  using assms
proof (cases rule: task_step.cases)
qed (auto simp: pool_step_simps target_size_def split: if_splits option.splits)

lemma reachable_sizes:
  "reachable st \<Longrightarrow> q < length (st_pools st) \<Longrightarrow> length (po_clients (st_pools st ! q)) \<le> target_size (st_pools st ! q)"
  unfolding reachable_def
proof (induction arbitrary: q rule: rtranclp_induct)
  case base
  then show ?case by (simp add: new_registry_def)
next
  case (step st st1)
  from step.hyps(2) step.IH step.prems show ?case
  proof (induction rule: pool_step.induct)
    case (run t st q' c g1 p1 c1 spawned)
    then show ?case using size_step [OF run(3)] by (cases "q' = q") auto
  next
    case (ensure st location_id params)
    then show ?case
      by (cases rule: ensure_pool_cases [of location_id params st]) (auto simp: nth_append new_pool_def less_Suc_eq)
  next
    case (drain st active)
    then show ?case by (auto simp: drain_nth target_size_def)
  qed auto
qed

text \<open>
  Every rent flag, revive lock and pending flag of every pool is set exactly when one task, and only
  one, stands for it, and a pool never exceeds its size: no entry is handed out twice.
\<close>

theorem pool_flags_exact:
  assumes "reachable st" and "q < length (st_pools st)"
  shows "length (holders rent_of q i st) = of_bool (rented i (st_pools st ! q)) \<and>
    length (holders lock_of q i st) = of_bool (revive_locked i (st_pools st ! q)) \<and>
    length (holders pending_of q i st) = of_bool (revive_pending i (st_pools st ! q)) \<and>
    length (po_clients (st_pools st ! q)) \<le> unat (pa_pool_size (po_params (st_pools st ! q)))"
  using flags_exact [OF assms] reachable_sizes [OF assms] by (simp add: target_size_def)

section \<open>Refinement of a table of owners\<close>

text \<open>
  The specification: a table from entries to the task that owns them. One step leaves it alone, lets one
  task take a free entry, or lets the owner give its entry back.
\<close>

type_synonym owners = "nat \<times> nat \<rightharpoonup> nat"

inductive owner_step :: "owners \<Rightarrow> owners \<Rightarrow> bool" where
  stay: "owner_step h h"
| acquire: "h e = None \<Longrightarrow> owner_step h (h(e \<mapsto> t))"
| give_back: "h e = Some t \<Longrightarrow> owner_step h (h(e := None))"

definition owner_of :: "pools_state \<Rightarrow> owners" where
  "owner_of st e = (case holders rent_of (fst e) (snd e) st of [t] \<Rightarrow> Some t | _ \<Rightarrow> None)"

lemma mem_holders:
  "t \<in> set (holders what q i st) \<longleftrightarrow> t < length (st_tasks st) \<and> fst (st_tasks st ! t) = q \<and> what (snd (st_tasks st ! t)) = Some i"
  by (auto simp: holders_def)

lemma few_holders:
  assumes "reachable st"
  shows "length (holders rent_of q i st) \<le> 1"
proof (cases "q < length (st_pools st)")
  case True
  then show ?thesis using flags_exact(1) [OF assms] by (simp add: of_bool_def)
next
  case False
  have "holders rent_of q i st = []"
    using in_range_nth [OF reachable_in_range [OF assms]] False by (auto simp: holders_def filter_empty_conv)
  then show ?thesis by simp
qed

lemma owner_of_eq:
  assumes "reachable st"
  shows "owner_of st (q, i) = Some t \<longleftrightarrow> t < length (st_tasks st) \<and> fst (st_tasks st ! t) = q \<and> rent_of (snd (st_tasks st ! t)) = Some i"
  using few_holders [OF assms, of q i] mem_holders [of t rent_of q i st]
  by (auto simp: owner_of_def le_Suc_eq length_Suc_conv split: list.splits)

lemma rent_moves:
  assumes "task_step s c s1 c1 spawned"
  shows "(rent_of c = None \<or> rent_of c1 = None \<or> rent_of c1 = rent_of c) \<and> (\<forall>c2 \<in> set spawned. rent_of c2 = None)"
  using assms
proof (cases rule: task_step.cases)
qed (auto simp: pool_step_simps split: if_splits option.splits)

lemma option_eqI: "(\<And>x. a = Some x \<longleftrightarrow> b = Some x) \<Longrightarrow> a = b"
  by (cases a; cases b) auto

lemma owners_after_run:
  assumes "reachable st" and "reachable st1" and "t < length (st_tasks st)" and "st_tasks st ! t = (q, c)"
    and "task_step s c s1 c1 spawned" and "st_tasks st1 = (st_tasks st)[t := (q, c1)] @ map (Pair q) spawned"
  shows "owner_of st1 (q', j) = Some u \<longleftrightarrow>
    (u = t \<and> q' = q \<and> rent_of c1 = Some j) \<or> (u \<noteq> t \<and> owner_of st (q', j) = Some u)"
proof -
  have "rent_of (snd (map (Pair q) spawned ! k)) = None" if "k < length spawned" for k
    using rent_moves [OF assms(5)] that by simp
  then show ?thesis
    using assms(3,4,6) unfolding owner_of_eq [OF assms(1)] owner_of_eq [OF assms(2)]
    by (cases "u < length (st_tasks st)") (auto simp: nth_append nth_list_update)
qed

lemma owner_stay: "(\<And>q j. owner_of st1 (q, j) = owner_of st (q, j)) \<Longrightarrow> owner_step (owner_of st) (owner_of st1)"
  by (metis owner_step.stay ext prod.exhaust)

lemma run_refines_owners:
  assumes "reachable st" and "reachable st1" and "t < length (st_tasks st)" and "st_tasks st ! t = (q, c)"
    and "task_step s c s1 c1 spawned" and "st_tasks st1 = (st_tasks st)[t := (q, c1)] @ map (Pair q) spawned"
  shows "owner_step (owner_of st) (owner_of st1)"
proof -
  note after = owners_after_run [OF assms]
  have mine: "owner_of st (q', j) = Some t \<longleftrightarrow> q' = q \<and> rent_of c = Some j" for q' j
    using assms(3,4) owner_of_eq [OF assms(1)] by auto
  show ?thesis
  proof (cases "rent_of c"; cases "rent_of c1")
    fix i
    assume c: "rent_of c = None" "rent_of c1 = Some i"
    then have "owner_of st1 (q, i) = Some t" using after by simp
    moreover have "owner_of st1 (q, i) = Some u" if "owner_of st (q, i) = Some u" for u
      using that c mine [of q i] by (subst after) auto
    ultimately have free: "owner_of st (q, i) = None"
      using c mine [of q i] by (cases "owner_of st (q, i)") auto
    have "owner_of st1 (q', j) = ((owner_of st)((q, i) \<mapsto> t)) (q', j)" for q' j
      by (rule option_eqI) (auto simp: after mine c free)
    then have "owner_of st1 = (owner_of st)((q, i) \<mapsto> t)" by auto
    with free show ?thesis by (metis owner_step.acquire)
  next
    fix i
    assume c: "rent_of c = Some i" "rent_of c1 = None"
    then have owned: "owner_of st (q, i) = Some t" using mine by simp
    have "owner_of st1 (q', j) = ((owner_of st)((q, i) := None)) (q', j)" for q' j
      by (rule option_eqI) (auto simp: after mine c owned)
    then have "owner_of st1 = (owner_of st)((q, i) := None)" by auto
    then show ?thesis using owned by (metis owner_step.give_back)
  next
    fix i j
    assume "rent_of c = Some i" "rent_of c1 = Some j"
    then show ?thesis using rent_moves [OF assms(5)] by (intro owner_stay option_eqI) (use after mine in auto)
  qed (intro owner_stay option_eqI, use after mine in auto)
qed


section \<open>Overflow connections\<close>

text \<open>
  Reserve then check: a task adds itself to a counter, then compares the value before. Those whose
  ticket was below the cap are admitted; the counter counts every admitted task and more.
\<close>

locale ticket_counter = conserved amount share
  for amount :: "pools_state \<Rightarrow> u64" and share :: "nat \<times> task \<Rightarrow> u64" +
  fixes counted :: "nat \<times> task \<Rightarrow> bool" and admitted :: "nat \<times> task \<Rightarrow> bool" and cap :: u64 and capped :: "pools_state \<Rightarrow> bool"
  assumes share_counted: "share x = of_bool (counted x)"
    and admitted_counted: "admitted x \<Longrightarrow> counted x"
    and capped_before: "pool_step st st1 \<Longrightarrow> in_range st \<Longrightarrow> capped st1 \<Longrightarrow> capped st"
    and start_not_admitted: "starting c \<Longrightarrow> \<not> admitted (q, c)"
    and spawned_not_admitted: "task_step s c s1 c1 spawned \<Longrightarrow> c2 \<in> set spawned \<Longrightarrow> \<not> admitted (q, c2)"
    and ticket: "capped st \<Longrightarrow> q < length (st_pools st) \<Longrightarrow>
      task_step (st_disposable_counter st, st_pools st ! q) c s1 c1 spawned \<Longrightarrow> admitted (q, c1) \<Longrightarrow>
      admitted (q, c) \<or> (\<not> counted (q, c) \<and> amount st < cap)"
begin

definition admissions :: "(nat \<times> task) list \<Rightarrow> nat" where
  "admissions tasks = (\<Sum>x \<leftarrow> tasks. of_bool (admitted x))"

lemma sum_of_bool_le: "(\<And>x. x \<in> set xs \<Longrightarrow> P x \<Longrightarrow> Q x) \<Longrightarrow> (\<Sum>x \<leftarrow> xs. of_bool (P x)) \<le> (\<Sum>x \<leftarrow> xs. of_bool (Q x) :: nat)"
  by (rule sum_list_mono) auto

lemma sum_of_bool_length: "(\<Sum>x \<leftarrow> xs. of_bool (P x) :: nat) \<le> length xs"
  by (induction xs) auto

lemma counter_exact:
  assumes "reachable st" and "length (st_tasks st) < 2 ^ 64"
  shows "unat (amount st) = (\<Sum>x \<leftarrow> st_tasks st. of_bool (counted x))"
proof -
  have word: "(\<Sum>x \<leftarrow> xs. share x) = of_nat (\<Sum>x \<leftarrow> xs. of_bool (counted x))" for xs
    by (induction xs) (auto simp: share_counted)
  have "(\<Sum>x \<leftarrow> st_tasks st. of_bool (counted x)) < (2 :: nat) ^ 64"
    using sum_of_bool_length assms(2) by (rule le_less_trans)
  then show ?thesis
    using reachable_accounted [OF assms(1)] by (simp add: accounted_def word unat_of_nat)
qed

lemma admissions_run:
  assumes "reachable st" "capped st" "length (st_tasks st) < 2 ^ 64" "admissions (st_tasks st) \<le> unat cap"
    and t: "t < length (st_tasks st)" "st_tasks st ! t = (q, c)"
    and step: "task_step (st_disposable_counter st, st_pools st ! q) c s1 c1 spawned"
  shows "admissions ((st_tasks st)[t := (q, c1)] @ map (Pair q) spawned) \<le> unat cap"
proof -
  obtain rest where rest: "admissions (st_tasks st) = of_bool (admitted (q, c)) + rest"
      "\<And>y. admissions ((st_tasks st)[t := y]) = of_bool (admitted y) + rest"
    unfolding admissions_def using sum_list_frame [OF t(1), of "\<lambda>x. of_bool (admitted x)"] t(2) by auto
  have "admissions (st_tasks st) \<le> unat (amount st)"
    unfolding admissions_def counter_exact [OF assms(1,3)] by (rule sum_of_bool_le) (rule admitted_counted)
  moreover have "q < length (st_pools st)" using in_range_nth [OF reachable_in_range [OF assms(1)] t(1)] t(2) by simp
  ultimately have "of_bool (admitted (q, c1)) + rest \<le> unat cap"
    using ticket [OF assms(2) _ step] rest(1) assms(4) by (cases "admitted (q, c1)") (auto simp: word_less_nat_alt)
  moreover have "admissions (map (Pair q) spawned) = 0"
    using spawned_not_admitted [OF step] by (auto simp: admissions_def)
  moreover have "admissions (xs @ ys) = admissions xs + admissions ys" for xs ys by (simp add: admissions_def)
  ultimately show ?thesis using rest(2) by simp
qed

lemma tasks_grow: "pool_step st st1 \<Longrightarrow> length (st_tasks st) \<le> length (st_tasks st1)"
  by (induction rule: pool_step.induct) simp_all

lemma admissions_capped:
  "reachable st \<Longrightarrow> capped st \<Longrightarrow> length (st_tasks st) < 2 ^ 64 \<Longrightarrow> admissions (st_tasks st) \<le> unat cap"
  unfolding reachable_def
proof (induction rule: rtranclp_induct)
  case base
  then show ?case by (simp add: admissions_def new_registry_def)
next
  case (step st st1)
  have reach: "reachable st" using step.hyps(1) by (simp add: reachable_def)
  have "capped st" using capped_before [OF step.hyps(2) reachable_in_range [OF reach] step.prems(1)] .
  moreover have "length (st_tasks st) < 2 ^ 64" using tasks_grow [OF step.hyps(2)] step.prems(2) by simp
  ultimately show ?case using admissions_run [OF reach] step.IH
    by (cases rule: pool_step.cases [OF step.hyps(2)]) (simp_all, simp add: admissions_def start_not_admitted starting_def)
qed

end

text \<open>Tickets below the caps, connections being made, connections handed out, reservations left behind.\<close>

fun overflow_connection :: "task \<Rightarrow> bool" where
  "overflow_connection OverflowDialling = True"
| "overflow_connection (Holding (Disposable overflow)) = overflow"
| "overflow_connection (Abandoned entry reserved) = reserved"
| "overflow_connection c = False"

fun budget_ticket :: "task \<Rightarrow> bool" where
  "budget_ticket (ReservePool cur_global) = (cur_global < MAX_DISPOSABLE)"
| "budget_ticket (CheckBudget cur_global cur_pool) = (cur_global < MAX_DISPOSABLE)"
| "budget_ticket c = False"

fun pool_ticket :: "u64 \<Rightarrow> task \<Rightarrow> bool" where
  "pool_ticket cap (CheckBudget cur_global cur_pool) = (cur_pool < cap)"
| "pool_ticket cap c = False"

lemma after_revive_not_overflow [pool_step_simps]:
  "\<not> overflow_connection (after_revive who i ok)" "\<not> budget_ticket (after_revive who i ok)" "\<not> pool_ticket cap (after_revive who i ok)"
  by (cases who; cases ok; simp)+

lemma overflow_counted: "overflow_connection c \<Longrightarrow> in_budget c" "overflow_connection c \<Longrightarrow> in_pool_count c"
  "budget_ticket c \<Longrightarrow> in_budget c" "pool_ticket cap c \<Longrightarrow> in_pool_count c"
  by (cases c rule: overflow_connection.cases; simp)+

lemma overflow_not_spawned:
  assumes "task_step s c s1 c1 spawned" and "c2 \<in> set spawned"
  shows "\<not> overflow_connection c2" "\<not> budget_ticket c2" "\<not> pool_ticket cap c2"
  using assms by (cases rule: task_step.cases; auto simp: pool_step_simps split: if_splits)+

lemma budget_ticket_step:
  assumes "task_step (g, p) c s1 c1 spawned" and "overflow_connection c1 \<or> budget_ticket c1"
  shows "overflow_connection c \<or> budget_ticket c \<or> (\<not> in_budget c \<and> g < MAX_DISPOSABLE)"
  using assms(1)
proof (cases rule: task_step.cases)
qed (use assms(2) in \<open>auto simp: pool_step_simps split: if_splits option.splits\<close>)

lemma pool_ticket_step:
  assumes "task_step (g, p) c s1 c1 spawned" and "overflow_connection c1 \<or> pool_ticket (pa_max_disposables (po_params p)) c1"
  shows "overflow_connection c \<or> pool_ticket (pa_max_disposables (po_params p)) c \<or>
    (\<not> in_pool_count c \<and> po_live_disposables p < pa_max_disposables (po_params p))"
  using assms(1)
proof (cases rule: task_step.cases)
qed (use assms(2) in \<open>auto simp: pool_step_simps split: if_splits option.splits\<close>)

lemma params_before:
  assumes "pool_step st st1" and "q < length (st_pools st)"
  shows "q < length (st_pools st1) \<and> po_params (st_pools st1 ! q) = po_params (st_pools st ! q)"
  using assms(1)
proof (cases rule: pool_step.cases)
  case (run t q' c g1 p1 c1 spawned)
  then show ?thesis using assms(2) size_step [OF run(4)] by (cases "q' = q") auto
next
  case (ensure location_id params)
  then show ?thesis using assms(2) by (cases rule: ensure_pool_cases [of location_id params st]) (auto simp: nth_append)
qed (use assms(2) in \<open>auto simp: drain_nth\<close>)

lemma starting_not_overflow: "starting c \<Longrightarrow> \<not> overflow_connection c \<and> \<not> budget_ticket c \<and> \<not> pool_ticket cap c"
  by (auto simp: starting_def)

interpretation global_tickets: ticket_counter st_disposable_counter "\<lambda>x. of_bool (in_budget (snd x))" "\<lambda>x. in_budget (snd x)"
  "\<lambda>x. overflow_connection (snd x) \<or> budget_ticket (snd x)" MAX_DISPOSABLE "\<lambda>st. True"
  by unfold_locales
    (auto simp: overflow_counted overflow_not_spawned starting_not_overflow dest: budget_ticket_step)

interpretation pool_tickets: ticket_counter "live.held_at q" "live.share_at q" "\<lambda>x. fst x = q \<and> in_pool_count (snd x)"
  "\<lambda>x. fst x = q \<and> (overflow_connection (snd x) \<or> pool_ticket cap (snd x))" cap
  "\<lambda>st. q < length (st_pools st) \<longrightarrow> pa_max_disposables (po_params (st_pools st ! q)) = cap" for q cap
  by unfold_locales
    (auto simp: live.share_at_def live.held_at_def overflow_counted overflow_not_spawned starting_not_overflow
      dest: pool_ticket_step params_before)

lemma sum_of_bool_filter: "(\<Sum>x \<leftarrow> xs. of_bool (P x)) = length (filter P xs)"
  by (induction xs) auto

lemma filter_mono_length: "(\<And>x. P x \<Longrightarrow> Q x) \<Longrightarrow> length (filter P xs) \<le> length (filter Q xs)"
  by (induction xs) auto

text \<open>
  C22. The counters are the number of tasks that stand for a reservation or a disposable connection, and
  the connections made in the overflow phase stay within both budgets, over all pools and in each pool.
\<close>

theorem overflow_within_budgets:
  assumes "reachable st" and "q < length (st_pools st)" and "length (st_tasks st) < 2 ^ 64"
  shows "unat (st_disposable_counter st) = length [x \<leftarrow> st_tasks st. in_budget (snd x)] \<and>
    unat (po_live_disposables (st_pools st ! q)) = length [x \<leftarrow> st_tasks st. fst x = q \<and> in_pool_count (snd x)] \<and>
    length [x \<leftarrow> st_tasks st. overflow_connection (snd x)] \<le> 100 \<and>
    length [x \<leftarrow> st_tasks st. fst x = q \<and> overflow_connection (snd x)] \<le> unat (pa_max_disposables (po_params (st_pools st ! q)))"
proof (intro conjI)
  let ?cap = "pa_max_disposables (po_params (st_pools st ! q))"
  show "unat (st_disposable_counter st) = length [x \<leftarrow> st_tasks st. in_budget (snd x)]"
    using global_tickets.counter_exact [OF assms(1,3)] by (simp add: sum_of_bool_filter)
  show "unat (po_live_disposables (st_pools st ! q)) = length [x \<leftarrow> st_tasks st. fst x = q \<and> in_pool_count (snd x)]"
    using pool_tickets.counter_exact [OF assms(1,3), of q] assms(2) by (simp add: sum_of_bool_filter live.held_at_def)
  have "length [x \<leftarrow> st_tasks st. overflow_connection (snd x) \<or> budget_ticket (snd x)] \<le> 100"
    using global_tickets.admissions_capped [OF assms(1) TrueI assms(3)]
    unfolding global_tickets.admissions_def sum_of_bool_filter by (simp add: MAX_DISPOSABLE_def)
  then show "length [x \<leftarrow> st_tasks st. overflow_connection (snd x)] \<le> 100"
    by (rule le_trans [OF filter_mono_length, rotated]) simp
  have "length [x \<leftarrow> st_tasks st. fst x = q \<and> (overflow_connection (snd x) \<or> pool_ticket ?cap (snd x))] \<le> unat ?cap"
    using pool_tickets.admissions_capped [OF assms(1) _ assms(3), of q ?cap]
    unfolding pool_tickets.admissions_def sum_of_bool_filter by simp
  then show "length [x \<leftarrow> st_tasks st. fst x = q \<and> overflow_connection (snd x)] \<le> unat ?cap"
    by (rule le_trans [OF filter_mono_length, rotated]) simp
qed

section \<open>Progress\<close>

definition final :: "task \<Rightarrow> bool" where
  "final c \<longleftrightarrow> (case c of Ended \<Rightarrow> True | Crashed \<Rightarrow> True | Abandoned entry reserved \<Rightarrow> True | _ \<Rightarrow> False)"

definition can_step :: "pools_state \<Rightarrow> nat \<Rightarrow> bool" where
  "can_step st t \<longleftrightarrow> (\<exists>s1 c1 spawned.
     task_step (st_disposable_counter st, st_pools st ! fst (st_tasks st ! t)) (snd (st_tasks st ! t)) s1 c1 spawned)"

lemma task_enabled:
  assumes "\<not> final c" and "\<And>who i. c = AwaitLock who i \<Longrightarrow> \<not> en_revive_lock (po_clients p ! i)"
  shows "\<exists>s1 c1 spawned. task_step (g, p) c s1 c1 spawned"
proof (cases c)
  case (Holding h)
  then show ?thesis by (cases h) (blast intro: task_step.intros)+
next
  case (TickAt k n)
  then show ?thesis by (cases "k < n") (fastforce intro: task_step.intros)+
next
  case Begin
  then show ?thesis using surj_pair [of "begin_step p"] by (metis task_step.begin_loop)
next
  case Dialled
  then show ?thesis using surj_pair [of "grow_step p"] by (metis task_step.grow)
next
  case (Scanning len start offset)
  then show ?thesis using surj_pair [of "scan_step len start offset p"] by (metis task_step.scan)
next
  case (TickProbe k n)
  then show ?thesis using surj_pair [of "tick_probe k n p"] by (metis task_step.probe)
next
  case (SpawnExchange k n)
  then show ?thesis using surj_pair [of "spawn_revive_exchange k p"] by (metis task_step.spawn_exchange)
qed (use assms in \<open>simp_all add: final_def\<close>, (blast intro: task_step.intros)+)

text \<open>The own steps a task still needs to a handle, its end or the sleep between two attempts.\<close>

fun steps_left :: "nat \<Rightarrow> task \<Rightarrow> nat" where
  "steps_left len0 Begin = len0 + 20"
| "steps_left len0 Dialling = 9"
| "steps_left len0 Dialled = 8"
| "steps_left len0 LostRace = 7"
| "steps_left len0 LostRaceCounted = 6"
| "steps_left len0 (Scanning len start offset) = (len - offset) + 12"
| "steps_left len0 (Rented i) = 11"
| "steps_left len0 (AwaitLock who i) = 10"
| "steps_left len0 (Locked who i) = 9"
| "steps_left len0 (Redialling who i) = 8"
| "steps_left len0 (Redialled who i) = 7"
| "steps_left len0 (Unlocking who i ok) = 6"
| "steps_left len0 (ReviveFailed i) = 5"
| "steps_left len0 ReserveGlobal = 11"
| "steps_left len0 (ReservePool cur_global) = 10"
| "steps_left len0 (CheckBudget cur_global cur_pool) = 9"
| "steps_left len0 OverflowDialling = 8"
| "steps_left len0 (UndoGlobal failed) = 7"
| "steps_left len0 (UndoPool failed) = 6"
| "steps_left len0 OverLimit = 5"
| "steps_left len0 WsDialling = 5"
| "steps_left len0 (ClearPending i) = 5"
| "steps_left len0 (ReviveTask i) = 11"
| "steps_left len0 c = 0"

lemma steps_left_after_revive: "steps_left len0 (after_revive who i ok) < 6"
  by (cases who; cases ok; simp)

lemma steps_left_step:
  assumes "task_step (g, p) c (g1, p1) c1 spawned" and "0 < steps_left len0 c" and "length (po_clients p) \<le> len0"
  shows "steps_left len0 c1 < steps_left len0 c"
  using assms(1)
proof (cases rule: task_step.cases)
qed (use assms(2,3) in \<open>auto simp: pool_step_simps steps_left_after_revive split: if_splits option.splits\<close>)

lemma steps_left_bound: "need c \<le> len0 \<Longrightarrow> steps_left len0 c \<le> len0 + 20"
  by (cases c) auto

lemma lock_holder_enabled: "lock_of c = Some i \<Longrightarrow> \<exists>s1 c1 spawned. task_step (g, p) c s1 c1 spawned"
  by (rule task_enabled; cases c) (auto simp: final_def)

lemma blocked_by_holder:
  assumes "reachable st" "t < length (st_tasks st)" "st_tasks st ! t = (q, AwaitLock who i)"
    and "en_revive_lock (po_clients (st_pools st ! q) ! i)"
  shows "\<exists>u < length (st_tasks st). fst (st_tasks st ! u) = q \<and> lock_of (snd (st_tasks st ! u)) = Some i \<and> can_step st u"
proof -
  have range: "q < length (st_pools st)" "i < length (po_clients (st_pools st ! q))"
    using in_range_nth [OF reachable_in_range [OF assms(1)] assms(2)] assms(3) by auto
  then have "length (holders lock_of q i st) = 1"
    using flags_exact(2) [OF assms(1) range(1), of i] assms(4) by (simp add: revive_locked_def)
  then obtain u where "u \<in> set (holders lock_of q i st)" by (cases "holders lock_of q i st") auto
  then show ?thesis using lock_holder_enabled by (auto simp: mem_holders can_step_def)
qed


section \<open>What a dropped request leaves behind\<close>

lemma abandoned_stays:
  assumes "pool_step st st1" and "t < length (st_tasks st)" and "st_tasks st ! t = (q, Abandoned entry reserved)"
  shows "t < length (st_tasks st1) \<and> st_tasks st1 ! t = (q, Abandoned entry reserved)"
  using assms(1)
proof (cases rule: pool_step.cases)
  case (run u q' c g1 p1 c1 spawned)
  have "u \<noteq> t"
  proof
    assume "u = t"
    with run(3) assms(3) have "c = Abandoned entry reserved" by simp
    with run(4) show False by (auto elim: task_step.cases)
  qed
  then show ?thesis using run(1) assms(2,3) by (simp add: nth_append)
qed (use assms(2,3) in \<open>auto simp: nth_append\<close>)

lemma abandoned_stays_forever:
  assumes "pool_step\<^sup>*\<^sup>* st st1" and "t < length (st_tasks st)" and "st_tasks st ! t = (q, Abandoned entry reserved)"
  shows "t < length (st_tasks st1) \<and> st_tasks st1 ! t = (q, Abandoned entry reserved)"
  using assms by (induction rule: rtranclp_induct) (auto dest: abandoned_stays)

text \<open>
  A request dropped while it revives a rented entry leaves the entry rented for good: in every later
  state the entry is rented, no other task has it, and the pool has one entry less to hand out.
\<close>

theorem dropped_request_leaks_entry:
  assumes "reachable st" and "t < length (st_tasks st)" and "st_tasks st ! t = (q, Abandoned (Some i) reserved)"
    and "pool_step\<^sup>*\<^sup>* st st1"
  shows "rented i (st_pools st1 ! q) \<and>
    (\<forall>u. u \<noteq> t \<longrightarrow> u < length (st_tasks st1) \<longrightarrow> fst (st_tasks st1 ! u) = q \<longrightarrow> rent_of (snd (st_tasks st1 ! u)) \<noteq> Some i)"
proof -
  have reach: "reachable st1" using assms(1,4) by (simp add: reachable_def rtranclp_trans)
  have stays: "t < length (st_tasks st1)" "st_tasks st1 ! t = (q, Abandoned (Some i) reserved)"
    using abandoned_stays_forever [OF assms(4,2,3)] by auto
  then have owner: "owner_of st1 (q, i) = Some t" using owner_of_eq [OF reach] by simp
  have q: "q < length (st_pools st1)" using in_range_nth(1) [OF reachable_in_range [OF reach] stays(1)] stays(2) by simp
  have "t \<in> set (holders rent_of q i st1)" using stays by (simp add: mem_holders)
  then have "holders rent_of q i st1 \<noteq> []" by auto
  then have "rented i (st_pools st1 ! q)" using flags_exact(1) [OF reach q, of i] by (cases "rented i (st_pools st1 ! q)") auto
  then show ?thesis using owner owner_of_eq [OF reach, of q i] by (metis option.inject)
qed

section \<open>A run of one pool\<close>

text \<open>
  One pool of one entry and one overflow connection. A request makes the entry and fails on it; a second
  request rents the dead entry and is dropped while it waits to revive it; a third overflows.
\<close>

definition one_pool :: "H1Pool \<Rightarrow> u64 \<Rightarrow> task list \<Rightarrow> pools_state" where
  "one_pool p g tasks = \<lparr>st_pools = [p], st_registry = [1 \<mapsto> 0], st_disposable_counter = g, st_tasks = map (Pair 0) tasks\<rparr>"

definition small_pool :: "H1Entry list \<Rightarrow> u64 \<Rightarrow> u64 \<Rightarrow> H1Pool" where
  "small_pool clients next1 live1 =
     \<lparr>po_params = \<lparr>pa_pool_size = 1, pa_max_disposables = 1, pa_health_check_path = None\<rparr>, po_clients = clients, po_next = next1,
      po_shutdown = False, po_last_status = if clients = [] then StatusUnknown else StatusOk, po_live_disposables = live1\<rparr>"

lemma one_pool_run:
  assumes "reachable (one_pool p g tasks)" and "t < length tasks" and "task_step (g, p) (tasks ! t) (g1, p1) c1 spawned"
  shows "reachable (one_pool p1 g1 (tasks[t := c1] @ spawned))"
proof -
  have "pool_step (one_pool p g tasks) (one_pool p1 g1 (tasks[t := c1] @ spawned))"
    using pool_step.run [of t "one_pool p g tasks" 0 "tasks ! t" g1 p1 c1 spawned] assms(2,3)
    by (simp add: one_pool_def map_update)
  with assms(1) show ?thesis by (simp add: reachable_def rtranclp.rtrancl_into_rtrancl)
qed

lemma one_pool_start:
  assumes "reachable (one_pool p g tasks)"
  shows "reachable (one_pool p g (tasks @ [Begin]))"
proof -
  have "pool_step (one_pool p g tasks) (one_pool p g (tasks @ [Begin]))"
    using pool_step.start [of 0 "one_pool p g tasks" Begin] by (simp add: one_pool_def)
  with assms show ?thesis by (simp add: reachable_def rtranclp.rtrancl_into_rtrancl)
qed

lemma one_pool_init: "reachable (one_pool (small_pool [] 0 0) 0 [])"
proof -
  have "pool_step new_registry (one_pool (small_pool [] 0 0) 0 [])"
    using pool_step.ensure [of new_registry 1 "\<lparr>pa_pool_size = 1, pa_max_disposables = 1, pa_health_check_path = None\<rparr>"]
    by (simp add: ensure_pool_def new_registry_def one_pool_def small_pool_def new_pool_def)
  then show ?thesis by (simp add: reachable_def)
qed

abbreviation entry_state :: "bool \<Rightarrow> bool \<Rightarrow> H1Entry" where
  "entry_state dead r \<equiv> \<lparr>en_dead = dead, en_rented = r, en_revive_pending = False, en_revive_lock = False\<rparr>"

lemma run_first_request: "reachable (one_pool (small_pool [entry_state False True] 0 0) 0 [Holding (Reusable 0)])"
proof -
  let ?p = "small_pool [] 0 0"
  note small = small_pool_def pool_step_simps pool_updates target_size_def
  from one_pool_start [OF one_pool_init] have "reachable (one_pool ?p 0 [Begin])" by simp
  from one_pool_run [OF this, of 0 0 ?p Dialling "[]"] have "reachable (one_pool ?p 0 [Dialling])"
    using task_step.begin_loop [of ?p Dialling ?p 0] by (simp add: small)
  from one_pool_run [OF this, of 0 0 "set_status StatusOk ?p" Dialled "[]"]
  have "reachable (one_pool (set_status StatusOk ?p) 0 [Dialled])" by (auto intro: task_step.intros)
  from one_pool_run [OF this, of 0 0 "small_pool [entry_state False True] 0 0" "Holding (Reusable 0)" "[]"]
  show ?thesis using task_step.grow [of "set_status StatusOk ?p" "Holding (Reusable 0)" "small_pool [entry_state False True] 0 0" 0]
    by (simp add: small)
qed

lemma run_second_request:
  "reachable (one_pool (small_pool [entry_state True True] 1 0) 0 [Ended, AwaitLock Foreground 0])"
proof -
  let ?p = "\<lambda>r. small_pool [entry_state True r]"
  note small = small_pool_def pool_step_simps pool_updates target_size_def
  from one_pool_run [OF run_first_request, of 0 0 "?p True 0 0" "Holding (Reusable 0)" "[]"]
  have "reachable (one_pool (?p True 0 0) 0 [Holding (Reusable 0)])"
    using task_step.request_err [of 0 "small_pool [entry_state False True] 0 0" 0] by (simp add: small)
  from one_pool_run [OF this, of 0 0 "?p False 0 0" Ended "[]"]
  have "reachable (one_pool (?p False 0 0) 0 [Ended])"
    using task_step.drop_reusable [of 0 "?p True 0 0" 0] by (simp add: small)
  from one_pool_start [OF this] have "reachable (one_pool (?p False 0 0) 0 [Ended, Begin])" by simp
  from one_pool_run [OF this, of 1 0 "?p False 1 0" "Scanning 1 0 0" "[]"]
  have "reachable (one_pool (?p False 1 0) 0 [Ended, Scanning 1 0 0])"
    using task_step.begin_loop [of "?p False 0 0" "Scanning 1 0 0" "?p False 1 0" 0] by (simp add: small)
  from one_pool_run [OF this, of 1 0 "?p True 1 0" "Rented 0" "[]"]
  have "reachable (one_pool (?p True 1 0) 0 [Ended, Rented 0])"
    using task_step.scan [of 1 0 0 "?p False 1 0" "Rented 0" "?p True 1 0" 0] by (simp add: small)
  from one_pool_run [OF this, of 1 0 "?p True 1 0" "AwaitLock Foreground 0" "[]"] show ?thesis
    using task_step.rented [of 0 "?p True 1 0" 0] by (simp add: small)
qed

lemma run_dropped_request:
  "reachable (one_pool (small_pool [entry_state True True] 1 0) 0 [Ended, Abandoned (Some 0) False])"
  using one_pool_run [OF run_second_request, of 1 0 _ "Abandoned (Some 0) False" "[]"] task_step.cancel_lock by simp

lemma run_third_request:
  "reachable (one_pool (small_pool [entry_state True True] 2 1) 1 [Ended, Abandoned (Some 0) False, Holding (Disposable True)])"
proof -
  let ?p = "small_pool [entry_state True True]" and ?t = "\<lambda>c. [Ended, Abandoned (Some 0) False, c]"
  note small = small_pool_def pool_step_simps pool_updates target_size_def MAX_DISPOSABLE_def
  from one_pool_start [OF run_dropped_request] have "reachable (one_pool (?p 1 0) 0 (?t Begin))" by simp
  from one_pool_run [OF this, of 2 0 "?p 2 0" "Scanning 1 0 0" "[]"]
  have "reachable (one_pool (?p 2 0) 0 (?t (Scanning 1 0 0)))"
    using task_step.begin_loop [of "?p 1 0" "Scanning 1 0 0" "?p 2 0" 0] by (simp add: small)
  from one_pool_run [OF this, of 2 0 "?p 2 0" "Scanning 1 0 1" "[]"]
  have "reachable (one_pool (?p 2 0) 0 (?t (Scanning 1 0 1)))"
    using task_step.scan [of 1 0 0 "?p 2 0" "Scanning 1 0 1" "?p 2 0" 0] by (simp add: small)
  from one_pool_run [OF this, of 2 0 "?p 2 0" ReserveGlobal "[]"]
  have "reachable (one_pool (?p 2 0) 0 (?t ReserveGlobal))"
    using task_step.scan [of 1 0 1 "?p 2 0" ReserveGlobal "?p 2 0" 0] by (simp add: small)
  from one_pool_run [OF this, of 2 1 "?p 2 0" "ReservePool 0" "[]"]
  have "reachable (one_pool (?p 2 0) 1 (?t (ReservePool 0)))" using task_step.reserve_global [of 0] by simp
  from one_pool_run [OF this, of 2 1 "?p 2 1" "CheckBudget 0 0" "[]"]
  have "reachable (one_pool (?p 2 1) 1 (?t (CheckBudget 0 0)))"
    using task_step.reserve_pool [of 1 "?p 2 0" 0] by (simp add: small)
  from one_pool_run [OF this, of 2 1 "?p 2 1" OverflowDialling "[]"]
  have "reachable (one_pool (?p 2 1) 1 (?t OverflowDialling))"
    using task_step.budget [of 1 "?p 2 1" 0 0] by (simp add: small)
  from one_pool_run [OF this, of 2 1 "?p 2 1" "Holding (Disposable True)" "[]"] show ?thesis
    using task_step.overflow_ok [of 1 "?p 2 1"] by (simp add: small)
qed

theorem pool_flags_exact_witness:
  "length (holders rent_of 0 0 (one_pool (small_pool [entry_state True True] 2 1) 1 [Ended, Abandoned (Some 0) False, Holding (Disposable True)])) = 1"
  using pool_flags_exact [OF run_third_request, of 0 0] by (simp add: one_pool_def small_pool_def rented_def)


theorem overflow_within_budgets_witness:
  "length [x \<leftarrow> st_tasks (one_pool (small_pool [entry_state True True] 2 1) 1
     [Ended, Abandoned (Some 0) False, Holding (Disposable True)]). fst x = 0 \<and> overflow_connection (snd x)] \<le> 1"
  using overflow_within_budgets [OF run_third_request, of 0] by (simp add: one_pool_def small_pool_def)


theorem dropped_request_leaks_entry_witness:
  "rented 0 (st_pools (one_pool (small_pool [entry_state True True] 1 0) 0 [Ended, Abandoned (Some 0) False]) ! 0)"
  using dropped_request_leaks_entry [OF run_dropped_request _ _ rtranclp.rtrancl_refl, of 1 0 0 False] by (simp add: one_pool_def)

end
