(* ===== verification/H2_Request.thy ===== *)
theory H2_Request
  imports OAuth_Gate H1_Authorize Ip_Db
begin

text \<open>
  The requests of a connection served by \<open>hyper\<close> (HTTP/2, and HTTP/1 that reaches such a port):
  \<open>src/src/http_proxy_pass\<close>. Header rules of location and endpoint, forwarded-for and country headers,
  the conversion to the protocol of the upstream (\<open>http_request_builder.rs\<close>), and the headers of the
  response (\<open>http_response_builder.rs\<close>). A header map is what its iterator yields; its operations, URIs,
  gzip and the websocket handshake belong to third-party crates and are arguments.
\<close>

section \<open>Requests and responses of the http crate\<close>

type_synonym header_map = "(bytes \<times> bytes) list"

datatype http_version = Http_10 | Http_11 | Http_2 | Http_3

text \<open>What the accessors of a URI return.\<close>

record uri =
  ur_authority :: "bytes option"
  ur_host :: "bytes option"
  ur_port :: "bytes option"
  ur_path :: bytes
  ur_path_and_query :: "bytes option"
  ur_query :: "bytes option"

record request_parts =
  qp_method :: bytes
  qp_uri :: uri
  qp_version :: http_version
  qp_headers :: header_map
  qp_protocol :: "bytes option"
  qp_on_upgrade :: bool

record hyper_response =
  hr_status :: nat
  hr_headers :: header_map
  hr_body :: bytes

datatype WebSocketUpgrade = UpgradeH1 hyper_response | UpgradeH2 hyper_response

record TransformedRequest =
  tq_request :: request_parts
  tq_body :: bytes
  tq_req_parts :: request_parts
  tq_web_socket_upgrade :: "WebSocketUpgrade option"

datatype ProxyPassError =
    HyperError
  | IoError
  | WebSocketProtocolError
  | MyHttpClientError bool
  | NoLocationFound
  | Unauthorized
  | UserIsForbidden
  | IpRestricted bytes
  | TimeoutError
  | Disposed
  | GatewayError
  | NoWebSocketUpgrade
  | UpstreamUnavailable
  | NoHostHeader
  | DropConnection
  | ProxyToHeaderMissing
  | ProxyToHeaderInvalid
  | ProxyToHostNotAllowed

text \<open>
  Third-party operations. \<open>hl_insert\<close>, \<open>hl_append\<close> and \<open>hl_remove\<close> act on the header map, the two predicates
  say which names and values the crate accepts, \<open>hl_to_str\<close> is \<open>HeaderValue::to_str\<close>, \<open>hl_with_path\<close>
  parses a path and puts it into a URI.
\<close>

record http_lib =
  hl_insert :: "bytes \<Rightarrow> bytes \<Rightarrow> header_map \<Rightarrow> header_map"
  hl_append :: "bytes \<Rightarrow> bytes \<Rightarrow> header_map \<Rightarrow> header_map"
  hl_remove :: "bytes \<Rightarrow> header_map \<Rightarrow> header_map"
  hl_get :: "bytes \<Rightarrow> header_map \<Rightarrow> bytes option"
  hl_name_ok :: "bytes \<Rightarrow> bool"
  hl_value_ok :: "bytes \<Rightarrow> bool"
  hl_to_str :: "bytes \<Rightarrow> bytes option"
  hl_parse_uri :: "bytes \<Rightarrow> uri option"
  hl_with_path :: "bytes \<Rightarrow> uri \<Rightarrow> uri option"
  hl_gzip :: "bytes \<Rightarrow> bytes option"
  hl_upgrade :: "request_parts \<Rightarrow> hyper_response option"
  hl_ws_key :: bytes
  hl_tokens :: "bytes \<Rightarrow> content_token list"
  hl_env :: "bytes \<Rightarrow> bytes option"
  hl_starts_with_ci :: "bytes \<Rightarrow> bytes \<Rightarrow> bool"
  hl_ip_text :: "IpAddr \<Rightarrow> bytes"

section \<open>The connection and its request\<close>

record HttpProxyPassInner =
  pi_identity :: "HttpProxyPassIdentity option"
  pi_is_https :: bool
  pi_connection_ip :: "IpAddr option"

text \<open>Getters of \<open>HttpRequestReader\<close> on the parts of a request.\<close>

definition parts_get_cookie :: "http_lib \<Rightarrow> request_parts \<Rightarrow> bytes \<Rightarrow> bytes option" where
  "parts_get_cookie lib parts cookie_name =
     Option.bind (hl_get lib (as_bytes ''cookie'') (qp_headers parts)) (\<lambda>v.
     Option.bind (hl_to_str lib v) (\<lambda>s. get_cookie s cookie_name))"

definition parts_view :: "http_lib \<Rightarrow> request_parts \<Rightarrow> request_view" where
  "parts_view lib parts =
     \<lparr>rv_host = ur_host (qp_uri parts), rv_path = ur_path (qp_uri parts), rv_query = ur_query (qp_uri parts),
      rv_token = parts_get_cookie lib parts AUTHORIZED_COOKIE_NAME\<rparr>"

definition inner_placeholder :: "http_lib \<Rightarrow> HttpProxyPassInner \<Rightarrow> request_parts \<Rightarrow> content_token \<Rightarrow> bytes" where
  "inner_placeholder lib inner req token =
     (case token of
        TextToken text \<Rightarrow> text
      | Placeholder p \<Rightarrow>
          if p = as_bytes ''ENDPOINT_IP'' then (case pi_connection_ip inner of Some ip \<Rightarrow> hl_ip_text lib ip | None \<Rightarrow> [])
          else if p = as_bytes ''PATH_AND_QUERY'' then unwrap_or [] (ur_path_and_query (qp_uri req))
          else if p = as_bytes ''HOST_PORT'' then unwrap_or [] (ur_host (qp_uri req))
          else if p = as_bytes ''CLIENT_CERT_CN'' then
            (case pi_identity inner of Some identity \<Rightarrow> identity_as_str identity | None \<Rightarrow> [])
          else if p = as_bytes ''ENDPOINT_SCHEMA'' then as_bytes (if pi_is_https inner then ''https'' else ''http'')
          else unwrap_or [] (hl_env lib p))"

definition inner_populate_value :: "http_lib \<Rightarrow> HttpProxyPassInner \<Rightarrow> request_parts \<Rightarrow> bytes \<Rightarrow> bytes" where
  "inner_populate_value lib inner req val =
     (if \<not> contains_seq (as_bytes ''${'') val then val
      else concat (map (inner_placeholder lib inner req) (hl_tokens lib val)))"

section \<open>Header rules\<close>

text \<open>\<open>headers.insert(name.unwrap(), value.parse().unwrap())\<close>.\<close>

definition insert_checked :: "http_lib \<Rightarrow> bytes \<Rightarrow> bytes \<Rightarrow> header_map \<Rightarrow> header_map panics" where
  "insert_checked lib name val headers =
     (if hl_name_ok lib name \<and> hl_value_ok lib val then Ok (hl_insert lib name val headers) else Panic)"

definition remove_all :: "http_lib \<Rightarrow> bytes list \<Rightarrow> header_map \<Rightarrow> header_map" where
  "remove_all lib names headers = fold (hl_remove lib) names headers"

text \<open>The added headers of a request: each value sees the headers as they are by then.\<close>

fun add_request_headers ::
  "http_lib \<Rightarrow> HttpProxyPassInner \<Rightarrow> (bytes \<times> bytes) list \<Rightarrow> request_parts \<Rightarrow> request_parts panics" where
  "add_request_headers lib inner [] parts = Ok parts"
| "add_request_headers lib inner ((name, val) # rest) parts =
     (if val = [] then add_request_headers lib inner rest parts
      else
        let v = inner_populate_value lib inner parts val in
        if v = [] then add_request_headers lib inner rest parts
        else rbind (insert_checked lib name v (qp_headers parts)) (\<lambda>headers.
          add_request_headers lib inner rest (parts\<lparr>qp_headers := headers\<rparr>)))"

definition modify_request_headers ::
  "http_lib \<Rightarrow> HttpProxyPassInner \<Rightarrow> ModifyHeadersConfig \<Rightarrow> request_parts \<Rightarrow> request_parts panics" where
  "modify_request_headers lib inner rules parts =
     add_request_headers lib inner (mc_add_headers rules)
       (parts\<lparr>qp_headers := remove_all lib (mc_remove rules) (qp_headers parts)\<rparr>)"

definition apply_auto_x_forwarded_for :: "http_lib \<Rightarrow> HttpProxyPassInner \<Rightarrow> request_parts \<Rightarrow> request_parts panics" where
  "apply_auto_x_forwarded_for lib inner parts =
     (case pi_connection_ip inner of
        None \<Rightarrow> Ok parts
      | Some ip \<Rightarrow>
          let ip_str = hl_ip_text lib ip;
              new_value = (case hl_get lib (as_bytes ''x-forwarded-for'') (qp_headers parts) of
                             Some existing \<Rightarrow>
                               (case hl_to_str lib existing of Some s \<Rightarrow> s @ as_bytes '','' @ ip_str | None \<Rightarrow> ip_str)
                           | None \<Rightarrow> ip_str)
          in rbind (insert_checked lib (as_bytes ''x-forwarded-for'') new_value (qp_headers parts)) (\<lambda>headers.
               Ok (parts\<lparr>qp_headers := headers\<rparr>)))"

definition apply_cf_ip_country ::
  "http_lib \<Rightarrow> (IpAddr \<Rightarrow> bytes option panics) \<Rightarrow> HttpProxyPassInner \<Rightarrow> HttpEndpointInfo \<Rightarrow> request_parts \<Rightarrow> request_parts panics" where
  "apply_cf_ip_country lib country inner ep parts =
     (if \<not> ep_inject_country ep then Ok parts
      else case pi_connection_ip inner of
        None \<Rightarrow> Ok parts
      | Some ip \<Rightarrow>
          rbind (country ip) (\<lambda>found.
            case found of
              None \<Rightarrow> Ok parts
            | Some code \<Rightarrow>
                rbind (insert_checked lib (as_bytes ''cf-ipcountry'') code (qp_headers parts)) (\<lambda>headers.
                  Ok (parts\<lparr>qp_headers := headers\<rparr>))))"

definition process_headers ::
  "http_lib \<Rightarrow> (IpAddr \<Rightarrow> bytes option panics) \<Rightarrow> HttpProxyPassInner \<Rightarrow> HttpEndpointInfo \<Rightarrow> ProxyPassLocationConfig
     \<Rightarrow> request_parts \<Rightarrow> request_parts panics" where
  "process_headers lib country inner ep location parts =
     rbind (modify_request_headers lib inner (lc_modify_request_headers location) parts) (\<lambda>p1.
     rbind (modify_request_headers lib inner (ep_modify_request_headers ep) p1) (\<lambda>p2.
     rbind (apply_auto_x_forwarded_for lib inner p2) (\<lambda>p3.
       apply_cf_ip_country lib country inner ep p3)))"

section \<open>Conversion for the upstream\<close>

definition client_is_http1 :: "http_version \<Rightarrow> bool" where
  "client_is_http1 version \<longleftrightarrow> version \<noteq> Http_2 \<and> version \<noteq> Http_3"

definition is_h2_websocket_connect :: "request_parts \<Rightarrow> bool" where
  "is_h2_websocket_connect parts \<longleftrightarrow>
     qp_method parts = as_bytes ''CONNECT'' \<and>
     (case qp_protocol parts of Some protocol \<Rightarrow> eq_no_case protocol (as_bytes ''websocket'') | None \<Rightarrow> False)"

definition apply_upstream_path :: "http_lib \<Rightarrow> bytes \<Rightarrow> uri \<Rightarrow> uri" where
  "apply_upstream_path lib upstream_path u = unwrap_or u (hl_with_path lib upstream_path u)"

definition rewrite_mcp_path :: "http_lib \<Rightarrow> ProxyPassLocationConfig \<Rightarrow> uri \<Rightarrow> uri" where
  "rewrite_mcp_path lib location u =
     (case mcp_path (lc_proxy_pass_to location) of None \<Rightarrow> u | Some path \<Rightarrow> apply_upstream_path lib path u)"

definition is_remote_content_http1 :: "ProxyPassToConfig \<Rightarrow> bool option" where
  "is_remote_content_http1 p =
     (case p of
        ToHttp1 _ \<Rightarrow> Some True | ToMcpHttp1 _ \<Rightarrow> Some True | ToUnixHttp1 _ \<Rightarrow> Some True
      | ToHttp2 _ \<Rightarrow> Some False | ToMcpHttp2 _ \<Rightarrow> Some False | ToUnixHttp2 _ \<Rightarrow> Some False
      | ToDynamicProxy _ \<Rightarrow> Some True
      | _ \<Rightarrow> None)"

text \<open>Headers that are not carried into a websocket handshake.\<close>

definition handshake_header :: "bytes \<Rightarrow> bool" where
  "handshake_header n \<longleftrightarrow>
     n \<in> set (map as_bytes [''host'', ''connection'', ''upgrade'', ''transfer-encoding'', ''te'', ''keep-alive'',
       ''proxy-connection'', ''sec-websocket-version'', ''sec-websocket-key'', ''sec-websocket-accept''])"

definition append_headers :: "http_lib \<Rightarrow> header_map \<Rightarrow> header_map \<Rightarrow> header_map" where
  "append_headers lib extra headers = fold (\<lambda>(n, v). hl_append lib n v) extra headers"

definition ok_response :: hyper_response where
  "ok_response = \<lparr>hr_status = 200, hr_headers = [], hr_body = []\<rparr>"

definition h2_websocket_to_h2_websocket :: "http_lib \<Rightarrow> request_parts \<Rightarrow> (ProxyPassError, TransformedRequest) outcome" where
  "h2_websocket_to_h2_websocket lib parts =
     (if \<not> qp_on_upgrade parts then Err NoWebSocketUpgrade
      else
        let parts1 = parts\<lparr>qp_on_upgrade := False\<rparr> in
        Ok \<lparr>tq_request =
              \<lparr>qp_method = as_bytes ''CONNECT'', qp_uri = qp_uri parts, qp_version = Http_2,
               qp_headers = append_headers lib [h \<leftarrow> qp_headers parts. \<not> handshake_header (fst h)] [],
               qp_protocol = Some (as_bytes ''websocket''), qp_on_upgrade = False\<rparr>,
            tq_body = [], tq_req_parts = parts1, tq_web_socket_upgrade = Some (UpgradeH2 ok_response)\<rparr>)"

text \<open>\<open>host\<close> or \<open>host:port\<close> of a URI.\<close>

definition uri_host_port :: "uri \<Rightarrow> bytes option" where
  "uri_host_port u =
     map_option (\<lambda>host. case ur_port u of Some port \<Rightarrow> host @ as_bytes '':'' @ port | None \<Rightarrow> host) (ur_host u)"

text \<open>A host header as text: \<open>to_str().unwrap()\<close>.\<close>

definition host_header_text :: "http_lib \<Rightarrow> request_parts \<Rightarrow> bytes option panics" where
  "host_header_text lib parts =
     (case hl_get lib (as_bytes ''host'') (qp_headers parts) of
        None \<Rightarrow> Ok None
      | Some host \<Rightarrow> (case hl_to_str lib host of Some s \<Rightarrow> Ok (Some s) | None \<Rightarrow> Panic))"

definition h2_websocket_to_h1_websocket :: "http_lib \<Rightarrow> request_parts \<Rightarrow> (ProxyPassError, TransformedRequest) outcome" where
  "h2_websocket_to_h1_websocket lib parts =
     (if \<not> qp_on_upgrade parts then Err NoWebSocketUpgrade
      else
        let parts1 = parts\<lparr>qp_on_upgrade := False\<rparr> in
        case hl_parse_uri lib (unwrap_or (as_bytes ''/'') (ur_path_and_query (qp_uri parts))) of
          None \<Rightarrow> Panic
        | Some u \<Rightarrow>
            (case (case uri_host_port (qp_uri parts) of Some h \<Rightarrow> Ok (Some h) | None \<Rightarrow> host_header_text lib parts) of
               Ok None \<Rightarrow> Err NoWebSocketUpgrade
             | Ok (Some host_header) \<Rightarrow>
                 if \<not> hl_value_ok lib host_header then Panic
                 else
                   let own = append_headers lib
                         [(as_bytes ''host'', host_header), (as_bytes ''connection'', as_bytes ''Upgrade''),
                          (as_bytes ''upgrade'', as_bytes ''websocket''), (as_bytes ''sec-websocket-version'', as_bytes ''13''),
                          (as_bytes ''sec-websocket-key'', hl_ws_key lib)] []
                   in Ok \<lparr>tq_request =
                        \<lparr>qp_method = as_bytes ''GET'', qp_uri = u, qp_version = Http_11,
                         qp_headers = append_headers lib [h \<leftarrow> qp_headers parts. \<not> handshake_header (fst h)] own,
                         qp_protocol = None, qp_on_upgrade = False\<rparr>,
                      tq_body = [], tq_req_parts = parts1, tq_web_socket_upgrade = Some (UpgradeH2 ok_response)\<rparr>
             | _ \<Rightarrow> Panic))"

text \<open>A body is what collecting it yields: its bytes, or an error of the connection.\<close>

type_synonym incoming_body = "bytes option"

definition http2_to_http1 ::
  "http_lib \<Rightarrow> ProxyPassLocationConfig \<Rightarrow> request_parts \<Rightarrow> incoming_body \<Rightarrow> (ProxyPassError, TransformedRequest) outcome" where
  "http2_to_http1 lib location parts body =
     (case hl_parse_uri lib (unwrap_or (as_bytes ''/'') (ur_path_and_query (qp_uri parts))) of
        None \<Rightarrow> Panic
      | Some u \<Rightarrow>
          (case host_header_text lib parts of
             Ok host \<Rightarrow>
               (case (case host of Some h \<Rightarrow> Some h | None \<Rightarrow> uri_host_port (qp_uri parts)) of
                  None \<Rightarrow> Err NoHostHeader
                | Some host_header \<Rightarrow>
                    (case body of
                       None \<Rightarrow> Err HyperError
                     | Some bytes \<Rightarrow>
                         if \<not> hl_value_ok lib host_header then Panic
                         else
                           Ok \<lparr>tq_request =
                                \<lparr>qp_method = qp_method parts, qp_uri = rewrite_mcp_path lib location u, qp_version = Http_11,
                                 qp_headers = append_headers lib
                                   [h \<leftarrow> qp_headers parts. \<not> eq_no_case (fst h) (as_bytes ''host'')]
                                   (hl_append lib (as_bytes ''host'') host_header []),
                                 qp_protocol = None, qp_on_upgrade = False\<rparr>,
                              tq_body = bytes, tq_req_parts = parts, tq_web_socket_upgrade = None\<rparr>))
           | _ \<Rightarrow> Panic))"

definition build_request ::
  "http_lib \<Rightarrow> ProxyPassLocationConfig \<Rightarrow> request_parts \<Rightarrow> incoming_body \<Rightarrow> (ProxyPassError, request_parts \<times> bytes) outcome" where
  "build_request lib location parts body =
     (let parts1 = parts\<lparr>qp_uri := rewrite_mcp_path lib location (qp_uri parts)\<rparr> in
      case body of
        None \<Rightarrow> Err HyperError
      | Some bytes \<Rightarrow>
          if lc_compress location \<and> 2048 \<le> length bytes then
            (case hl_gzip lib bytes of
               None \<Rightarrow> Err IoError
             | Some compressed \<Rightarrow>
                 let h1 = hl_remove lib (as_bytes ''content-type'') (hl_remove lib (as_bytes ''content-encoding'') (qp_headers parts1));
                     h2 = hl_append lib (as_bytes ''content-type'') (as_bytes ''application/octet-stream'')
                            (hl_append lib (as_bytes ''content-encoding'') (as_bytes ''gzip'') h1);
                     h3 = hl_append lib (as_bytes ''content-length'') (dec_digits (length compressed))
                            (hl_remove lib (as_bytes ''content-length'') h2)
                 in Ok (parts1\<lparr>qp_headers := h3\<rparr>, compressed))
          else Ok (parts1, bytes))"

definition into_request ::
  "http_lib \<Rightarrow> ProxyPassLocationConfig \<Rightarrow> request_parts \<Rightarrow> incoming_body \<Rightarrow> (ProxyPassError, TransformedRequest) outcome" where
  "into_request lib location parts body =
     (let dest_http1 = is_remote_content_http1 (lc_proxy_pass_to location) in
      if is_h2_websocket_connect parts \<and> dest_http1 = Some True then h2_websocket_to_h1_websocket lib parts
      else if is_h2_websocket_connect parts \<and> dest_http1 = Some False then h2_websocket_to_h2_websocket lib parts
      else if \<not> client_is_http1 (qp_version parts) \<and> dest_http1 = Some True then http2_to_http1 lib location parts body
      else
        rbind (build_request lib location parts body) (\<lambda>(parts1, body1).
          let plain = \<lparr>tq_request = parts1, tq_body = body1, tq_req_parts = parts1, tq_web_socket_upgrade = None\<rparr> in
          if dest_http1 \<noteq> None \<and> hl_get lib (as_bytes ''sec-websocket-key'') (qp_headers parts1) \<noteq> None then
            (case hl_upgrade lib parts1 of
               None \<Rightarrow> Err WebSocketProtocolError
             | Some response \<Rightarrow> Ok (plain\<lparr>tq_web_socket_upgrade := Some (UpgradeH1 response)\<rparr>))
          else Ok plain))"

section \<open>Headers of the response\<close>

fun add_response_headers ::
  "http_lib \<Rightarrow> HttpProxyPassInner \<Rightarrow> request_parts \<Rightarrow> (bytes \<times> bytes) list \<Rightarrow> header_map \<Rightarrow> header_map panics" where
  "add_response_headers lib inner req [] headers = Ok headers"
| "add_response_headers lib inner req ((name, val) # rest) headers =
     rbind (insert_checked lib name (inner_populate_value lib inner req val) headers)
       (add_response_headers lib inner req rest)"

definition modify_response_rules ::
  "http_lib \<Rightarrow> HttpProxyPassInner \<Rightarrow> request_parts \<Rightarrow> ModifyHeadersConfig \<Rightarrow> header_map \<Rightarrow> header_map panics" where
  "modify_response_rules lib inner req rules headers =
     add_response_headers lib inner req (mc_add_headers rules) (remove_all lib (mc_remove rules) headers)"

definition modify_resp_headers ::
  "http_lib \<Rightarrow> HttpProxyPassInner \<Rightarrow> HttpEndpointInfo \<Rightarrow> ProxyPassLocationConfig \<Rightarrow> request_parts \<Rightarrow> header_map \<Rightarrow> header_map panics" where
  "modify_resp_headers lib inner ep location req headers =
     (let h1 = (if is_remote_content_http1 (lc_proxy_pass_to location) = Some True \<and> \<not> client_is_http1 (qp_version req)
                then remove_all lib (map as_bytes [''transfer-encoding'', ''connection'', ''upgrade'', ''keep-alive'',
                       ''proxy-connection'', ''connection'']) headers
                else headers)
      in rbind (modify_response_rules lib inner req (ep_modify_response_headers ep) h1)
           (modify_response_rules lib inner req (lc_modify_response_headers location)))"

end
