(* ===== verification/H2_Handler.thy ===== *)
theory H2_Handler
  imports H2_Request
begin

text \<open>
  A connection served by \<open>hyper\<close>: \<open>src/src/tcp_listener/http_request_handler\<close> finds the endpoint of every
  request and keeps one \<open>HttpProxyPass\<close> per host; \<open>HttpProxyPass::send_payload\<close> runs the OAuth gate
  (\<open>handle_oauth.rs\<close>), the Google sign-in (\<open>handle_ga.rs\<close>), the list of allowed users, the location, the header
  rules, the white list of the location, and the content source. Requests that are forwarded are
  logged in the state. Upstream clients, files and the parser of remote endpoints are arguments.
\<close>

section \<open>Content sources\<close>

datatype HttpProxyPassContentSource =
    UnixHttp1Source remote_endpoint
  | Http1Source remote_endpoint
  | Https1Source remote_endpoint
  | Http2Source remote_endpoint
  | UnixHttp2Source remote_endpoint
  | Https2Source remote_endpoint
  | Http1OverSshSource bytes remote_endpoint
  | Http2OverSshSource bytes remote_endpoint
  | LocalPathSource bytes "bytes option"
  | PathOverSshSource bytes remote_endpoint "bytes option"
  | PathOverGatewaySource bytes remote_endpoint "bytes option"
  | StaticSource StaticContentConfig
  | DropSource
  | DynamicProxySource DynamicProxyConfig

datatype HttpResponse = PlainResponse hyper_response | UpgradedResponse hyper_response

record h2_env =
  he_http :: http_lib
  he_gate :: gate_libs
  he_google :: google_libs
  he_google_auth :: "bytes \<rightharpoonup> GoogleAuthCredentials"
  he_users :: users_list
  he_white_lists :: "bytes \<rightharpoonup> WhitelistedIp list"
  he_country :: "IpAddr \<Rightarrow> bytes option panics"
  he_config :: HttpListenPortConfiguration
  he_connection_ip :: "IpAddr option"
  he_certificate :: "ClientCertificateData option"
  he_is_tls_handler :: bool
  he_listen_host :: bytes
  he_error_text :: "ProxyPassError \<Rightarrow> bytes"
  he_show_error_description :: bool
  he_build_error :: bytes
  he_version :: bytes
  he_ssh_session_ok :: "bytes \<Rightarrow> bool"
  he_home :: "bytes option"
  he_try_parse :: "bytes \<Rightarrow> remote_endpoint option"
  he_read_file :: "bytes \<Rightarrow> bytes option"
  he_content_type :: "bytes \<Rightarrow> bytes option"
  he_gateway_file :: "bytes \<Rightarrow> bytes \<Rightarrow> (ProxyPassError, bytes) outcome"
  he_upstream :: "HttpProxyPassContentSource \<Rightarrow> request_parts \<Rightarrow> bytes \<Rightarrow> (ProxyPassError, HttpResponse) outcome"
  he_dynamic :: "remote_endpoint \<Rightarrow> request_parts \<Rightarrow> bytes \<Rightarrow> (ProxyPassError, HttpResponse) outcome"

definition local_file_path :: "bytes option \<Rightarrow> bytes \<Rightarrow> bytes panics" where
  "local_file_path home s =
     (if \<not> starts_with s (as_bytes ''~'') then Ok s
      else case home of None \<Rightarrow> Panic | Some h \<Rightarrow> Ok (concat (map (\<lambda>b. if b = 126 then h else [b]) s)))"

definition new_local_path_source :: "bytes option \<Rightarrow> bytes \<Rightarrow> bytes option \<Rightarrow> HttpProxyPassContentSource panics" where
  "new_local_path_source home path default_file =
     rbind (local_file_path home path) (\<lambda>p.
       if p = [] then Panic
       else Ok (LocalPathSource (if last p = 47 then butlast p else p) default_file))"

definition direct_http1_source :: "remote_endpoint \<Rightarrow> HttpProxyPassContentSource panics" where
  "direct_http1_source r =
     (case re_scheme r of
        None \<Rightarrow> Panic
      | Some SchemeHttp \<Rightarrow> Ok (Http1Source r)
      | Some SchemeHttps \<Rightarrow> Ok (Https1Source r)
      | Some SchemeWs \<Rightarrow> Ok (Http1Source r)
      | Some SchemeWss \<Rightarrow> Ok (Https1Source r)
      | Some SchemeUnixSocket \<Rightarrow> Ok (UnixHttp1Source r))"

definition direct_http2_source :: "remote_endpoint \<Rightarrow> HttpProxyPassContentSource panics" where
  "direct_http2_source r =
     (case re_scheme r of
        None \<Rightarrow> Panic
      | Some SchemeHttp \<Rightarrow> Ok (Http2Source r)
      | Some SchemeHttps \<Rightarrow> Ok (Https2Source r)
      | Some SchemeWs \<Rightarrow> Ok (Http1Source r)
      | Some SchemeWss \<Rightarrow> Ok (Https1Source r)
      | Some SchemeUnixSocket \<Rightarrow> Ok (UnixHttp2Source r))"

definition remote_source ::
  "h2_env \<Rightarrow> (remote_endpoint \<Rightarrow> HttpProxyPassContentSource panics) \<Rightarrow> (bytes \<Rightarrow> remote_endpoint \<Rightarrow> HttpProxyPassContentSource)
     \<Rightarrow> ProxyPassToModel \<Rightarrow> HttpProxyPassContentSource panics" where
  "remote_source E direct over_ssh m =
     (case pt_remote_host m of
        Gateway _ _ \<Rightarrow> Panic
      | OverSsh credentials r \<Rightarrow> if he_ssh_session_ok E credentials then Ok (over_ssh credentials r) else Panic
      | Direct r \<Rightarrow> direct r)"

definition unix_source :: "(remote_endpoint \<Rightarrow> HttpProxyPassContentSource) \<Rightarrow> ProxyPassToModel \<Rightarrow> HttpProxyPassContentSource panics" where
  "unix_source build m = (case pt_remote_host m of Direct r \<Rightarrow> Ok (build r) | _ \<Rightarrow> Panic)"

definition create_data_source :: "h2_env \<Rightarrow> ProxyPassToConfig \<Rightarrow> HttpProxyPassContentSource panics" where
  "create_data_source E p =
     (case p of
        ToStatic c \<Rightarrow> Ok (StaticSource c)
      | ToHttp1 m \<Rightarrow> remote_source E direct_http1_source Http1OverSshSource m
      | ToMcpHttp1 m \<Rightarrow> remote_source E direct_http1_source Http1OverSshSource m
      | ToHttp2 m \<Rightarrow> remote_source E direct_http2_source Http2OverSshSource m
      | ToMcpHttp2 m \<Rightarrow> remote_source E direct_http2_source Http2OverSshSource m
      | ToFilesPath m \<Rightarrow>
          (case fp_files_path m of
             Gateway i r \<Rightarrow> Ok (PathOverGatewaySource i r (fp_default_file m))
           | OverSsh credentials r \<Rightarrow>
               if he_ssh_session_ok E credentials then Ok (PathOverSshSource credentials r (fp_default_file m)) else Panic
           | Direct r \<Rightarrow> new_local_path_source (he_home E) (re_text r) (fp_default_file m))
      | ToUnixHttp1 m \<Rightarrow> unix_source UnixHttp1Source m
      | ToUnixHttp2 m \<Rightarrow> unix_source UnixHttp2Source m
      | ToDrop \<Rightarrow> Ok DropSource
      | ToDynamicProxy c \<Rightarrow> Ok (DynamicProxySource c))"

section \<open>The state of a connection\<close>

type_synonym pass_locations = "(ProxyPassLocationConfig \<times> HttpProxyPassContentSource) list"

record proxy_pass =
  px_inner :: "HttpProxyPassInner option"
  px_endpoint :: HttpEndpointInfo
  px_locations :: pass_locations

record forwarded =
  fw_host_key :: bytes
  fw_received :: request_parts
  fw_endpoint :: HttpEndpointInfo
  fw_location :: ProxyPassLocationConfig
  fw_identity :: "HttpProxyPassIdentity option"
  fw_source :: HttpProxyPassContentSource
  fw_request :: request_parts
  fw_body :: bytes

record h2_state =
  h2_passes :: "bytes \<rightharpoonup> proxy_pass"
  h2_contexts :: "bytes \<rightharpoonup> OAuthContext"
  h2_blocklist :: IpBlocklist
  h2_forwarded :: "forwarded list"

text \<open>A computation of a request: its result and the state it leaves.\<close>

type_synonym 'a h2_run = "(ProxyPassError, 'a) outcome \<times> h2_state"

definition h2_bind :: "'a h2_run \<Rightarrow> ('a \<Rightarrow> h2_state \<Rightarrow> 'b h2_run) \<Rightarrow> 'b h2_run" where
  "h2_bind m f =
     (case m of (Ok x, s) \<Rightarrow> f x s | (Err e, s) \<Rightarrow> (Err e, s) | (Panic, s) \<Rightarrow> (Panic, s))"

definition h2_panics :: "'a panics \<Rightarrow> h2_state \<Rightarrow> 'a h2_run" where
  "h2_panics m s = (case m of Ok x \<Rightarrow> (Ok x, s) | _ \<Rightarrow> (Panic, s))"

text \<open>A phase of a request goes on with a value or answers the request itself.\<close>

datatype 'a gate_step = Go 'a | AnswerNow hyper_response

section \<open>The OAuth gate\<close>

definition header_of :: "http_lib \<Rightarrow> request_parts \<Rightarrow> bytes \<Rightarrow> bytes option" where
  "header_of lib parts name =
     Option.bind (hl_get lib name (qp_headers parts)) (\<lambda>v. map_option trim (hl_to_str lib v))"

definition host_of :: "http_lib \<Rightarrow> HttpEndpointInfo \<Rightarrow> request_parts \<Rightarrow> bytes" where
  "host_of lib ep parts =
     (case ur_authority (qp_uri parts) of
        Some authority \<Rightarrow> authority
      | None \<Rightarrow> unwrap_or (hs_src (ep_host_endpoint ep)) (header_of lib parts (as_bytes ''host'')))"

definition to_hyper_response :: "h2_env \<Rightarrow> OAuthHttpResponse \<Rightarrow> hyper_response" where
  "to_hyper_response E response =
     (if list_all (\<lambda>(n, v). hl_name_ok (he_http E) n \<and> hl_value_ok (he_http E) v) (or_headers response) then
        \<lparr>hr_status = or_status_code response,
         hr_headers = append_headers (he_http E) ((as_bytes ''content-type'', or_content_type response) # or_headers response) [],
         hr_body = or_body response\<rparr>
      else
        \<lparr>hr_status = 500, hr_headers = append_headers (he_http E) [(as_bytes ''content-type'', CONTENT_TYPE_JSON)] [],
         hr_body = error_body (gl_oauth (he_gate E)) ERROR_SERVER_ERROR (as_bytes ''Can not build the oauth response. Err: '' @ he_build_error E)\<rparr>)"

definition answered :: "h2_env \<Rightarrow> OAuthHttpResponse \<Rightarrow> h2_state \<Rightarrow> 'a gate_step h2_run" where
  "answered E response s =
     (let answer = AnswerNow (to_hyper_response E response) in
      if \<not> or_register_ip_failure response then (Ok answer, s)
      else case he_connection_ip E of
        None \<Rightarrow> (Ok answer, s)
      | Some ip \<Rightarrow>
          (case register_failure (gl_clock_lib (he_gate E)) (gl_now (he_gate E)) ip Hard (h2_blocklist s) of
             Ok (_, bl) \<Rightarrow> (Ok answer, s\<lparr>h2_blocklist := bl\<rparr>)
           | _ \<Rightarrow> (Panic, s)))"

definition gate_bearer :: "h2_env \<Rightarrow> HttpEndpointInfo \<Rightarrow> OAuthContext \<Rightarrow> bytes \<Rightarrow> request_parts \<Rightarrow> BearerGateResult panics" where
  "gate_bearer E ep cx base_url parts =
     rbind (find_location (ep_locations ep) (ur_path (qp_uri parts))) (\<lambda>location.
       check_bearer (gl_oauth (he_gate E)) (gl_clock (he_gate E) 0) cx
         \<lparr>bg_authorization = header_of (he_http E) parts (as_bytes ''authorization''),
          bg_base_url = context_base_url cx base_url,
          bg_resource_path = normalize_resource_path
            (case location of Some l \<Rightarrow> lc_path l | None \<Rightarrow> ur_path (qp_uri parts))\<rparr>)"

definition run_oauth_gate_h2 ::
  "h2_env \<Rightarrow> HttpEndpointInfo \<Rightarrow> request_parts \<Rightarrow> incoming_body \<Rightarrow> h2_state \<Rightarrow> unit gate_step h2_run" where
  "run_oauth_gate_h2 E ep parts body s =
     (case ep_oauth ep of
        None \<Rightarrow> (Ok (Go ()), s)
      | Some oauth_id \<Rightarrow>
          (case h2_contexts s oauth_id of
             None \<Rightarrow>
               answered E (oauth_error_response (gl_oauth (he_gate E)) 503 ERROR_SERVER_ERROR
                 (as_bytes ''The oauth configuration for this endpoint is not loaded'')) s
           | Some cx \<Rightarrow>
               let base_url = build_base_url (is_https_or_mcp (ep_listen_endpoint_type ep)) (host_of (he_http E) ep parts) in
               h2_bind (h2_panics (route_oauth_path (ur_path (qp_uri parts))) s) (\<lambda>route s.
                 case route of
                   None \<Rightarrow>
                     h2_bind (h2_panics (gate_bearer E ep cx base_url parts) s) (\<lambda>result s.
                       case result of Allowed \<Rightarrow> (Ok (Go ()), s) | Challenge response \<Rightarrow> answered E response s)
                 | Some r \<Rightarrow>
                     (case body of
                        Some bytes \<Rightarrow>
                          if length bytes > MAX_OAUTH_BODY then
                            answered E (oauth_error_response (gl_oauth (he_gate E)) 413 ERROR_INVALID_REQUEST
                              (as_bytes ''The request body is too large for an oauth endpoint'')) s
                          else
                            h2_bind (h2_panics (handle_oauth_request (gl_oauth (he_gate E)) (gl_clock (he_gate E)) (gl_random (he_gate E)) cx
                              \<lparr>oq_method = oauth_method_parse (qp_method parts), oq_route = r, oq_base_url = base_url,
                               oq_query = ur_query (qp_uri parts), oq_body = bytes,
                               oq_content_type = header_of (he_http E) parts (as_bytes ''content-type''),
                               oq_authorization = header_of (he_http E) parts (as_bytes ''authorization''),
                               oq_known_resource_paths = map lc_path (ep_locations ep)\<rparr>) s) (\<lambda>(response, cx1) s.
                                 answered E response (s\<lparr>h2_contexts := (h2_contexts s)(oauth_id \<mapsto> cx1)\<rparr>))
                      | None \<Rightarrow>
                          answered E (oauth_error_response (gl_oauth (he_gate E)) 413 ERROR_INVALID_REQUEST
                            (as_bytes ''The request body is too large for an oauth endpoint'')) s))))"

section \<open>Google sign-in\<close>

datatype GoogleAuthResult = GooglePassed "bytes option" | GoogleContent hyper_response | DomainIsNotAuthorized

definition page :: "nat \<Rightarrow> bytes \<Rightarrow> hyper_response" where
  "page status body = \<lparr>hr_status = status, hr_headers = [], hr_body = body\<rparr>"

definition google_page :: "h2_env \<Rightarrow> request_view \<Rightarrow> (GoogleAuthError, GoogleAuthOkResult) outcome \<Rightarrow> GoogleAuthResult panics" where
  "google_page E view result =
     (case result of
        Ok (Passed email) \<Rightarrow> Ok (GooglePassed (Some email))
      | Ok (SetToken email) \<Rightarrow>
          let cookie = AUTHORIZED_COOKIE_NAME @ as_bytes ''='' @ token_generate (he_google E) email @ as_bytes ''; SameSite=None; Secure;'' in
          if hl_value_ok (he_http E) cookie then
            Ok (GoogleContent ((page 200 (generate_authenticated_user view email))
              \<lparr>hr_headers := append_headers (he_http E) [(as_bytes ''set-cookie'', cookie)] []\<rparr>))
          else Panic
      | Ok (ShowLoginPage credentials) \<Rightarrow> Ok (GoogleContent (page 200 (generate_login_page view credentials)))
      | Err ShowLogoutPage \<Rightarrow> Ok (GoogleContent (page 200 (generate_logout_page view (as_bytes ''You have successfully logged out!''))))
      | Err EmailDomainIsNotAuthorized \<Rightarrow> Ok DomainIsNotAuthorized
      | Err ShowEmailDomainIsNotAuthorizedPage \<Rightarrow>
          Ok (GoogleContent (page 200 (generate_logout_page view (as_bytes ''Unauthorized email domain''))))
      | Err (ShowUserAuthenticatedPage email) \<Rightarrow> Ok (GoogleContent (page 200 (generate_authenticated_user view email)))
      | Err (ShowError err) \<Rightarrow> Ok (GoogleContent (page 400 err))
      | Panic \<Rightarrow> Panic)"

definition handle_auth_with_g_auth :: "h2_env \<Rightarrow> HttpEndpointInfo \<Rightarrow> request_parts \<Rightarrow> GoogleAuthResult panics" where
  "handle_auth_with_g_auth E ep parts =
     (case ep_g_auth ep of
        None \<Rightarrow> Ok (GooglePassed None)
      | Some settings \<Rightarrow>
          let view = parts_view (he_http E) parts in
          google_page E view (handle_google_auth (he_google E) (he_google_auth E) view settings))"

section \<open>Sending a request to its content source\<close>

definition merge_path_and_file :: "bytes \<Rightarrow> bytes \<Rightarrow> bytes option \<Rightarrow> bytes" where
  "merge_path_and_file files_path req_path default_file =
     (let merge = (\<lambda>p.
          if files_path \<noteq> [] \<and> last files_path = 47 then (if starts_with p [47] then files_path @ drop 1 p else files_path @ p)
          else (if starts_with p [47] then files_path @ p else files_path @ [47] @ p))
      in if req_path = [] \<or> req_path = [47] then (case default_file of Some file \<Rightarrow> merge file | None \<Rightarrow> files_path)
         else merge req_path)"

text \<open>\<open>RequestExecutorResult\<close> as a response; the builder panics on a status or type it does not accept.\<close>

definition executor_response :: "http_lib \<Rightarrow> nat \<Rightarrow> bytes option \<Rightarrow> bytes \<Rightarrow> hyper_response panics" where
  "executor_response lib status_code content_type body =
     (if status_code < 100 \<or> 1000 \<le> status_code then Panic
      else case content_type of
        None \<Rightarrow> Ok \<lparr>hr_status = status_code, hr_headers = [], hr_body = body\<rparr>
      | Some t \<Rightarrow>
          if hl_value_ok lib t then
            Ok \<lparr>hr_status = status_code, hr_headers = append_headers lib [(as_bytes ''content-type'', t)] [], hr_body = body\<rparr>
          else Panic)"

definition local_path_request :: "h2_env \<Rightarrow> bytes \<Rightarrow> bytes option \<Rightarrow> bytes \<Rightarrow> hyper_response panics" where
  "local_path_request E base default_file path =
     (let file_path = (case default_file of
                         Some file \<Rightarrow> if path = [47] then base @ [47] @ file else base @ path
                       | None \<Rightarrow> base @ path)
      in case he_read_file E file_path of
           Some content \<Rightarrow> executor_response (he_http E) 200 (he_content_type E file_path) content
         | None \<Rightarrow> executor_response (he_http E) 404 None (as_bytes ''Not found''))"

text \<open>The target of a dynamic proxy: the remote endpoint and the request that is sent to it.\<close>

definition dynamic_target ::
  "h2_env \<Rightarrow> DynamicProxyConfig \<Rightarrow> request_parts \<Rightarrow> (ProxyPassError, remote_endpoint \<times> request_parts) outcome" where
  "dynamic_target E config req =
     (let lib = he_http E in
      case hl_get lib (as_bytes ''proxy-to'') (qp_headers req) of
        None \<Rightarrow> Err ProxyToHeaderMissing
      | Some proxy_to_header \<Rightarrow>
          (case Option.bind (hl_to_str lib proxy_to_header) (he_try_parse E) of
             None \<Rightarrow> Err ProxyToHeaderInvalid
           | Some endpoint \<Rightarrow>
               if (case dp_allowed_hosts config of
                     Some allowed \<Rightarrow> \<not> list_ex (\<lambda>h. eq_no_case h (re_host endpoint)) allowed
                   | None \<Rightarrow> False)
               then Err ProxyToHostNotAllowed
               else case hl_parse_uri lib (unwrap_or (as_bytes ''/'') (ur_path_and_query (qp_uri req))) of
                 None \<Rightarrow> Err ProxyToHeaderInvalid
               | Some u \<Rightarrow>
                   if \<not> hl_value_ok lib (re_host_port endpoint) then Err ProxyToHeaderInvalid
                   else if re_scheme endpoint = None \<or> re_scheme endpoint = Some SchemeUnixSocket then Err ProxyToHeaderInvalid
                   else Ok (endpoint,
                     req\<lparr>qp_uri := u,
                       qp_headers := hl_insert lib (as_bytes ''host'') (re_host_port endpoint)
                         (hl_remove lib (as_bytes ''proxy-to'') (qp_headers req))\<rparr>)))"

definition send_request ::
  "h2_env \<Rightarrow> HttpProxyPassContentSource \<Rightarrow> request_parts \<Rightarrow> bytes \<Rightarrow> (ProxyPassError, HttpResponse) outcome" where
  "send_request E source req body =
     (let of_panics = (\<lambda>m. case m of Ok r \<Rightarrow> Ok (PlainResponse r) | _ \<Rightarrow> Panic) in
      case source of
        StaticSource c \<Rightarrow> of_panics (executor_response (he_http E) (sc_status_code c) (sc_content_type c) (sc_body c))
      | DropSource \<Rightarrow> Err DropConnection
      | DynamicProxySource config \<Rightarrow>
          rbind (dynamic_target E config req) (\<lambda>(endpoint, req1). he_dynamic E endpoint req1 body)
      | LocalPathSource base default_file \<Rightarrow> of_panics (local_path_request E base default_file (ur_path (qp_uri req)))
      | PathOverGatewaySource gateway_id r default_file \<Rightarrow>
          let full_path = merge_path_and_file (re_text r) (ur_path (qp_uri req)) default_file in
          rbind (he_gateway_file E gateway_id full_path) (\<lambda>content.
            of_panics (executor_response (he_http E) 200 (he_content_type E full_path) content))
      | _ \<Rightarrow> he_upstream E source req body)"

text \<open>The response to the client when the upstream accepts an upgrade; the tunnel itself runs apart.\<close>

definition upgraded_response :: "WebSocketUpgrade option \<Rightarrow> hyper_response \<Rightarrow> hyper_response" where
  "upgraded_response upgrade fallback_response =
     (case upgrade of
        None \<Rightarrow> fallback_response
      | Some (UpgradeH1 upgrade_response) \<Rightarrow> upgrade_response
      | Some (UpgradeH2 upgrade_response) \<Rightarrow> upgrade_response)"

section \<open>A request of a host\<close>

definition find_location_index :: "http_lib \<Rightarrow> pass_locations \<Rightarrow> uri \<Rightarrow> (ProxyPassError, ProxyPassLocationConfig \<times> HttpProxyPassContentSource) outcome" where
  "find_location_index lib locations u =
     (case List.find (\<lambda>(l, _). hl_starts_with_ci lib (ur_path u) (lc_path l)) locations of
        Some found \<Rightarrow> Ok found
      | None \<Rightarrow> Err NoLocationFound)"

definition pass_at :: "bytes \<Rightarrow> h2_state \<Rightarrow> proxy_pass h2_run" where
  "pass_at key s = (case h2_passes s key of Some p \<Rightarrow> (Ok p, s) | None \<Rightarrow> (Panic, s))"

definition inner_at :: "bytes \<Rightarrow> h2_state \<Rightarrow> (proxy_pass \<times> HttpProxyPassInner) h2_run" where
  "inner_at key s =
     h2_bind (pass_at key s) (\<lambda>p s. case px_inner p of Some inner \<Rightarrow> (Ok (p, inner), s) | None \<Rightarrow> (Err Disposed, s))"

definition store_identity :: "bytes \<Rightarrow> HttpProxyPassIdentity \<Rightarrow> h2_state \<Rightarrow> h2_state" where
  "store_identity key identity s =
     s\<lparr>h2_passes := (h2_passes s)(key := map_option
         (\<lambda>p. p\<lparr>px_inner := map_option (\<lambda>inner. inner\<lparr>pi_identity := Some identity\<rparr>) (px_inner p)\<rparr>) (h2_passes s key))\<rparr>"

text \<open>The first phase: OAuth gate, Google sign-in, and the identity it stores for the whole connection.\<close>

definition authenticate :: "h2_env \<Rightarrow> bytes \<Rightarrow> request_parts \<Rightarrow> incoming_body \<Rightarrow> h2_state \<Rightarrow> unit gate_step h2_run" where
  "authenticate E key parts body s =
     h2_bind (pass_at key s) (\<lambda>p s.
     h2_bind (run_oauth_gate_h2 E (px_endpoint p) parts body s) (\<lambda>step s.
       case step of
         AnswerNow response \<Rightarrow> (Ok (AnswerNow response), s)
       | Go _ \<Rightarrow>
           h2_bind (inner_at key s) (\<lambda>_ s.
           h2_bind (h2_panics (handle_auth_with_g_auth E (px_endpoint p) parts) s) (\<lambda>result s.
             case result of
               GooglePassed None \<Rightarrow> (Ok (Go ()), s)
             | GooglePassed (Some email) \<Rightarrow> (Ok (Go ()), store_identity key (GoogleUser email) s)
             | GoogleContent content \<Rightarrow> (Ok (AnswerNow content), s)
             | DomainIsNotAuthorized \<Rightarrow> (Err Unauthorized, s)))))"

text \<open>The second phase: the stored identity against the list of allowed users.\<close>

definition admit_user :: "h2_env \<Rightarrow> bytes \<Rightarrow> h2_state \<Rightarrow> unit h2_run" where
  "admit_user E key s =
     h2_bind (inner_at key s) (\<lambda>(p, inner) s.
       if user_is_allowed (he_users E) (px_endpoint p) (map_option identity_as_str (pi_identity inner)) then (Ok (), s)
       else (Err UserIsForbidden, s))"

definition location_white_listed :: "h2_env \<Rightarrow> ProxyPassLocationConfig \<Rightarrow> h2_state \<Rightarrow> unit h2_run" where
  "location_white_listed E location s =
     (case (he_connection_ip E, lc_ip_white_list_id location) of
        (Some ip, Some list_id) \<Rightarrow>
          h2_bind (h2_panics (config_white_listed (he_white_lists E) list_id ip) s) (\<lambda>white s.
            if white then (Ok (), s) else (Err (IpRestricted (he_listen_host E)), s))
      | _ \<Rightarrow> (Ok (), s))"

text \<open>The third phase: location, header rules, conversion, white list, content source, response headers.\<close>

definition forward_request :: "h2_env \<Rightarrow> bytes \<Rightarrow> request_parts \<Rightarrow> incoming_body \<Rightarrow> h2_state \<Rightarrow> hyper_response h2_run" where
  "forward_request E key parts body s =
     h2_bind (inner_at key s) (\<lambda>(p, inner) s.
     h2_bind (find_location_index (he_http E) (px_locations p) (qp_uri parts), s) (\<lambda>(location, source) s.
     h2_bind (h2_panics (process_headers (he_http E) (he_country E) inner (px_endpoint p) location parts) s) (\<lambda>parts1 s.
     h2_bind (into_request (he_http E) location parts1 body, s) (\<lambda>request s.
     h2_bind (location_white_listed E location s) (\<lambda>_ s.
     let s1 = s\<lparr>h2_forwarded := h2_forwarded s @
           [\<lparr>fw_host_key = key, fw_received = parts, fw_endpoint = px_endpoint p, fw_location = location,
             fw_identity = pi_identity inner, fw_source = source, fw_request = tq_request request, fw_body = tq_body request\<rparr>]\<rparr>
     in h2_bind (send_request E source (tq_request request) (tq_body request), s1) (\<lambda>result s.
          let response = (case result of
                PlainResponse r \<Rightarrow> r
              | UpgradedResponse r \<Rightarrow> upgraded_response (tq_web_socket_upgrade request) r)
          in h2_bind (inner_at key s) (\<lambda>(_, inner) s.
             h2_bind (h2_panics (modify_resp_headers (he_http E) inner (px_endpoint p) location (tq_req_parts request)
                        (hr_headers response)) s) (\<lambda>headers s.
               (Ok (response\<lparr>hr_headers := headers\<rparr>), s)))))))))"

definition pass_send_payload :: "h2_env \<Rightarrow> bytes \<Rightarrow> request_parts \<Rightarrow> incoming_body \<Rightarrow> h2_state \<Rightarrow> hyper_response h2_run" where
  "pass_send_payload E key parts body s =
     h2_bind (authenticate E key parts body s) (\<lambda>step s.
       case step of
         AnswerNow response \<Rightarrow> (Ok response, s)
       | Go _ \<Rightarrow> h2_bind (admit_user E key s) (\<lambda>_ s. forward_request E key parts body s))"

section \<open>Error pages\<close>

definition build_layout :: "h2_env \<Rightarrow> nat \<Rightarrow> bytes \<Rightarrow> bytes option \<Rightarrow> bool \<Rightarrow> bytes" where
  \<open>build_layout E status_code text second_line connection_close =
     (let line = (case second_line of Some l \<Rightarrow> as_bytes ''<h4>'' @ l @ as_bytes ''</h4>'' | None \<Rightarrow> []);
          body = text_lines
            [[], as_bytes ''        <div style="text-align: center;">'',
             as_bytes ''        <h2>'' @ text @ as_bytes ''</h2>'',
             as_bytes ''      '' @ line,
             as_bytes ''        <p>'' @ dec_digits status_code @ as_bytes ''</p>'',
             as_bytes ''        <hr/>'',
             as_bytes ''        <div>MyReverseProxy '' @ he_version E @ as_bytes ''</div>'',
             as_bytes ''        </div>'',
             as_bytes ''        '']
      in push_cl_cr
           ((if connection_close then push_header (as_bytes ''Connection'') (as_bytes ''close'') else (\<lambda>p. p))
             (push_content_length (length body) (push_response_first_line (gl_reason (he_gate E)) status_code [])))
         @ body)\<close>

definition generate_layout :: "h2_env \<Rightarrow> nat \<Rightarrow> bytes \<Rightarrow> bytes option \<Rightarrow> bytes" where
  "generate_layout E status_code text second_line = build_layout E status_code text second_line False"

definition generate_tech_page :: "h2_env \<Rightarrow> ProxyPassError \<Rightarrow> hyper_response" where
  "generate_tech_page E err =
     (let second_line = (if he_show_error_description E then Some (he_error_text E err) else None);
          tech = (\<lambda>status text line. page status (generate_layout E status (as_bytes text) line))
      in case err of
           TimeoutError \<Rightarrow> tech 504 ''Timeout'' second_line
         | NoLocationFound \<Rightarrow> tech 404 ''Not found'' second_line
         | Unauthorized \<Rightarrow> tech 401 ''Unauthorized request'' second_line
         | UserIsForbidden \<Rightarrow> tech 403 ''Access is forbidden'' second_line
         | IpRestricted ip \<Rightarrow> tech 401 ''Restricted by IP'' (Some ip)
         | UpstreamUnavailable \<Rightarrow> tech 503 ''Upstream unavailable'' second_line
         | ProxyToHeaderMissing \<Rightarrow> tech 421 ''Missing or invalid proxy-to header'' second_line
         | ProxyToHeaderInvalid \<Rightarrow> tech 421 ''Missing or invalid proxy-to header'' second_line
         | ProxyToHostNotAllowed \<Rightarrow> tech 403 ''Upstream host not allowed'' second_line
         | MyHttpClientError request_timeout \<Rightarrow>
             if request_timeout then tech 504 ''Upstream timeout'' second_line else tech 502 ''Bad gateway'' second_line
         | _ \<Rightarrow> tech 500 ''Internal Server Error'' second_line)"

definition handle_requests :: "h2_env \<Rightarrow> bytes \<Rightarrow> request_parts \<Rightarrow> incoming_body \<Rightarrow> h2_state \<Rightarrow> hyper_response panics \<times> h2_state" where
  "handle_requests E key parts body s =
     (case pass_send_payload E key parts body s of
        (Ok response, s1) \<Rightarrow> (Ok response, s1)
      | (Err DropConnection, s1) \<Rightarrow>
          (Ok \<lparr>hr_status = 403, hr_headers = append_headers (he_http E) [(as_bytes ''connection'', as_bytes ''close'')] [], hr_body = []\<rparr>, s1)
      | (Err err, s1) \<Rightarrow> (Ok (generate_tech_page E err), s1)
      | (Panic, s1) \<Rightarrow> (Panic, s1))"

section \<open>Requests of a connection\<close>

definition request_host_name :: "http_lib \<Rightarrow> request_parts \<Rightarrow> bytes option" where
  "request_host_name lib parts =
     (case ur_host (qp_uri parts) of
        Some host \<Rightarrow> Some host
      | None \<Rightarrow>
          (case Option.bind (hl_get lib (as_bytes ''host'') (qp_headers parts)) (hl_to_str lib) of
             None \<Rightarrow> None
           | Some v \<Rightarrow>
               let name = trim (hd (split_byte 58 v [])) in if name = [] then None else Some name))"

text \<open>The checks of the TLS handler on the endpoint of a host: \<open>Err\<close> is the answer.\<close>

definition check_tls_endpoint :: "h2_env \<Rightarrow> HttpEndpointInfo \<Rightarrow> (hyper_response, unit) outcome" where
  "check_tls_endpoint E ep =
     (if \<not> connection_satisfies_client_cert ep (map_option cc_ca_id (he_certificate E)) then
        Err (page 421 (generate_layout E 421 (as_bytes ''Misdirected Request'') (Some (as_bytes ''A client certificate is required for this host''))))
      else case (ep_whitelisted_ip_list_id ep, he_connection_ip E) of
        (Some list_id, Some ip) \<Rightarrow>
          (case config_white_listed (he_white_lists E) list_id ip of
             Ok True \<Rightarrow> Ok ()
           | Ok False \<Rightarrow> Err (page 401 (generate_layout E 401 (as_bytes ''Restricted by IP'') None))
           | _ \<Rightarrow> Panic)
      | _ \<Rightarrow> Ok ())"

fun new_pass_locations :: "h2_env \<Rightarrow> ProxyPassLocationConfig list \<Rightarrow> pass_locations panics" where
  "new_pass_locations E [] = Ok []"
| "new_pass_locations E (l # ls) =
     rbind (create_data_source E (lc_proxy_pass_to l)) (\<lambda>source.
     rbind (new_pass_locations E ls) (\<lambda>rest. Ok ((l, source) # rest)))"

definition new_proxy_pass :: "h2_env \<Rightarrow> HttpEndpointInfo \<Rightarrow> proxy_pass panics" where
  "new_proxy_pass E ep =
     rbind (new_pass_locations E (ep_locations ep)) (\<lambda>locations.
       Ok \<lparr>px_inner = Some \<lparr>pi_identity = (if he_is_tls_handler E then cert_identity ep (he_certificate E) else None),
             pi_is_https = is_https (ep_listen_endpoint_type ep), pi_connection_ip = he_connection_ip E\<rparr>,
           px_endpoint = ep, px_locations = locations\<rparr>)"

definition get_http_proxy_pass :: "h2_env \<Rightarrow> request_parts \<Rightarrow> h2_state \<Rightarrow> (hyper_response, bytes) outcome \<times> h2_state" where
  "get_http_proxy_pass E parts s =
     (case request_host_name (he_http E) parts of
        None \<Rightarrow> (Err (page 400 (as_bytes ''Unknown host'')), s)
      | Some host \<Rightarrow>
          let host_key = map to_lower_case host in
          if h2_passes s host_key \<noteq> None then (Ok host_key, s)
          else case get_http_endpoint_info (he_config E) (Some host) of
            Ok None \<Rightarrow> (Err (page 400 (generate_layout E 400 (as_bytes ''No configuration found'') None)), s)
          | Ok (Some ep) \<Rightarrow>
              (case (if he_is_tls_handler E then check_tls_endpoint E ep else Ok ()) of
                 Ok _ \<Rightarrow>
                   (case new_proxy_pass E ep of
                      Ok p \<Rightarrow> (Ok host_key, s\<lparr>h2_passes := (h2_passes s)(host_key \<mapsto> p)\<rparr>)
                    | _ \<Rightarrow> (Panic, s))
               | Err response \<Rightarrow> (Err response, s)
               | Panic \<Rightarrow> (Panic, s))
          | _ \<Rightarrow> (Panic, s))"

definition handle_request :: "h2_env \<Rightarrow> request_parts \<Rightarrow> incoming_body \<Rightarrow> h2_state \<Rightarrow> hyper_response panics \<times> h2_state" where
  "handle_request E parts body s =
     (case get_http_proxy_pass E parts s of
        (Ok key, s1) \<Rightarrow> handle_requests E key parts body s1
      | (Err response, s1) \<Rightarrow> (Ok response, s1)
      | (Panic, s1) \<Rightarrow> (Panic, s1))"

text \<open>The end of a connection.\<close>

definition dispose_passes :: "h2_state \<Rightarrow> h2_state" where
  "dispose_passes s = s\<lparr>h2_passes := Map.empty\<rparr>"

definition new_h2_state :: "(bytes \<rightharpoonup> OAuthContext) \<Rightarrow> IpBlocklist \<Rightarrow> h2_state" where
  "new_h2_state contexts blocklist =
     \<lparr>h2_passes = Map.empty, h2_contexts = contexts, h2_blocklist = blocklist, h2_forwarded = []\<rparr>"

end
