(* ===== verification/H2_Properties.thy ===== *)
theory H2_Properties
  imports H2_Handler OAuth_Properties
begin

text \<open>
  What a \<open>hyper\<close> connection guarantees: over every history of its requests, which of them are forwarded and
  under whose identity, what the upstream is told about the client, and how two streams of one
  connection disturb each other.
\<close>

section \<open>Runs of a request\<close>

lemma h2_bindE:
  assumes "h2_bind m f = (Ok y, t)"
  obtains x s where "m = (Ok x, s)" "f x s = (Ok y, t)"
  using assms by (cases m) (auto simp: h2_bind_def split: outcome.splits)

lemma h2_bind_snd:
  assumes "P (snd m)" and "\<And>x s. m = (Ok x, s) \<Longrightarrow> P (snd (f x s))"
  shows "P (snd (h2_bind m f))"
  using assms by (cases m) (auto simp: h2_bind_def split: outcome.splits)

lemma h2_bind_Ok [simp]: "h2_bind (Ok x, s) f = f x s" "h2_bind (Err e, s) f = (Err e, s)" "h2_bind (Panic, s) f = (Panic, s)"
  by (simp_all add: h2_bind_def)

lemma h2_panics_simps [simp]:
  "h2_panics m s = (Ok x, t) \<longleftrightarrow> m = Ok x \<and> t = s" "snd (h2_panics m s) = s" "h2_panics (Ok x) s = (Ok x, s)" "h2_panics Panic s = (Panic, s)"
  by (cases m; auto simp: h2_panics_def)+

text \<open>What the OAuth gate and its answers leave alone.\<close>

definition same_passes :: "h2_state \<Rightarrow> h2_state \<Rightarrow> bool" where
  "same_passes s t \<longleftrightarrow> h2_passes t = h2_passes s \<and> h2_forwarded t = h2_forwarded s"

lemma same_passes_refl [simp]: "same_passes s s" "same_passes s (s\<lparr>h2_contexts := c\<rparr>)"
  by (simp_all add: same_passes_def)

lemma answered_snd: "same_passes s t \<Longrightarrow> same_passes s (snd (answered E response t))"
  by (auto simp: answered_def Let_def same_passes_def split: option.splits outcome.splits prod.splits)

lemma answered_not_Go [simp]: "answered E response s \<noteq> (Ok (Go x), t)"
  by (auto simp: answered_def Let_def split: option.splits outcome.splits)

lemma gate_snd: "same_passes s (snd (run_oauth_gate_h2 E ep parts body s))"
proof -
  note steps = h2_bind_snd [where P = "same_passes s"]
  show ?thesis
    unfolding run_oauth_gate_h2_def Let_def
    by (auto intro!: steps answered_snd split: option.splits BearerGateResult.splits)
qed

lemma gate_Go:
  assumes "run_oauth_gate_h2 E ep parts body s = (Ok (Go x), t)"
  shows "t = s" and "ep_oauth ep = Some oauth_id \<Longrightarrow> \<exists>cx. h2_contexts s oauth_id = Some cx \<and>
    gate_bearer E ep cx (build_base_url (is_https_or_mcp (ep_listen_endpoint_type ep)) (host_of (he_http E) ep parts)) parts = Ok Allowed"
  using assms unfolding run_oauth_gate_h2_def Let_def
  by (auto elim!: h2_bindE split: option.splits if_splits BearerGateResult.splits prod.splits)

section \<open>The passes of a connection\<close>

definition own_identity :: "h2_env \<Rightarrow> HttpEndpointInfo \<Rightarrow> HttpProxyPassIdentity option" where
  "own_identity E ep = (if he_is_tls_handler E then cert_identity ep (he_certificate E) else None)"

text \<open>
  A cached pass belongs to the endpoint of its host, has passed the checks of the TLS handler, and has
  the content source of every location; without Google sign-in its identity is that of the certificate.
\<close>

definition pass_ok :: "h2_env \<Rightarrow> bytes \<Rightarrow> proxy_pass \<Rightarrow> bool" where
  "pass_ok E key p \<longleftrightarrow>
     (\<exists>host. lname host = key \<and> get_http_endpoint_info (he_config E) (Some host) = Ok (Some (px_endpoint p))) \<and>
     (he_is_tls_handler E \<longrightarrow> check_tls_endpoint E (px_endpoint p) = Ok ()) \<and>
     new_pass_locations E (ep_locations (px_endpoint p)) = Ok (px_locations p) \<and>
     (\<exists>inner. px_inner p = Some inner \<and> pi_connection_ip inner = he_connection_ip E \<and>
        (ep_g_auth (px_endpoint p) = None \<longrightarrow> pi_identity inner = own_identity E (px_endpoint p)))"

definition passes_ok :: "h2_env \<Rightarrow> h2_state \<Rightarrow> bool" where
  "passes_ok E s \<longleftrightarrow> (\<forall>key p. h2_passes s key = Some p \<longrightarrow> pass_ok E key p)"

lemma passes_ok_same: "same_passes s t \<Longrightarrow> passes_ok E s \<Longrightarrow> passes_ok E t"
  by (simp add: same_passes_def passes_ok_def)

lemma endpoint_no_case: "lname a = lname b \<Longrightarrow> get_http_endpoint_info c (Some a) = get_http_endpoint_info c (Some b)"
  by (simp add: get_http_endpoint_info_def is_my_endpoint_def is_my_server_name_def eq_no_case_def cong: option.case_cong)

lemma inner_at_Ok [simp]:
  "inner_at key s = (Ok (p, inner), t) \<longleftrightarrow> h2_passes s key = Some p \<and> px_inner p = Some inner \<and> t = s"
  "snd (inner_at key s) = s" "snd (pass_at key s) = s" "pass_at key s = (Ok p, t) \<longleftrightarrow> h2_passes s key = Some p \<and> t = s"
  by (auto simp: inner_at_def pass_at_def h2_bind_def split: option.splits)

lemma google_page_Passed: "google_page E view r = Ok (GooglePassed x) \<longleftrightarrow> (\<exists>email. x = Some email \<and> r = Ok (Passed email))"
  by (auto simp: google_page_def Let_def split: outcome.splits GoogleAuthOkResult.splits GoogleAuthError.splits if_splits)

text \<open>What Google sign-in has established when a request goes on.\<close>

lemma g_auth_Passed:
  "handle_auth_with_g_auth E ep parts = Ok (GooglePassed x) \<longleftrightarrow>
     (case ep_g_auth ep of
        None \<Rightarrow> x = None
      | Some settings \<Rightarrow>
          \<exists>email. x = Some email \<and> handle_google_auth (he_google E) (he_google_auth E) (parts_view (he_http E) parts) settings = Ok (Passed email))"
  by (auto simp: handle_auth_with_g_auth_def Let_def google_page_Passed split: option.splits)

lemma store_identity_log [simp]: "h2_forwarded (store_identity key identity s) = h2_forwarded s"
  by (simp add: store_identity_def)

lemma store_identity_ok:
  assumes "passes_ok E s" and "\<And>p. h2_passes s key = Some p \<Longrightarrow> ep_g_auth (px_endpoint p) \<noteq> None"
  shows "passes_ok E (store_identity key identity s)"
  using assms by (fastforce simp: passes_ok_def store_identity_def pass_ok_def)

definition kept :: "h2_env \<Rightarrow> h2_state \<Rightarrow> h2_state \<Rightarrow> bool" where
  "kept E s t \<longleftrightarrow> passes_ok E t \<and> h2_forwarded t = h2_forwarded s"

lemma kept_store:
  "kept E s t \<Longrightarrow> (\<And>p. h2_passes t key = Some p \<Longrightarrow> ep_g_auth (px_endpoint p) \<noteq> None) \<Longrightarrow> kept E s (store_identity key identity t)"
  by (simp add: kept_def store_identity_ok)

lemma authenticate_snd:
  assumes "passes_ok E s"
  shows "kept E s (snd (authenticate E key parts body s))"
proof -
  note steps = h2_bind_snd [where P = "kept E s"]
  have s: "kept E s s" using assms by (simp add: kept_def)
  have g: "kept E s t \<and> h2_passes t = h2_passes s" if "run_oauth_gate_h2 E ep parts body s = (r, t)" for ep r t
    using gate_snd [of s E ep parts body] that assms passes_ok_same by (auto simp: same_passes_def kept_def)
  have g1: "kept E s (snd (run_oauth_gate_h2 E ep parts body s))" for ep
    using g [OF surjective_pairing] by blast
  have rest: "kept E s (snd (h2_bind (inner_at key t) (\<lambda>_ t. h2_bind (h2_panics (handle_auth_with_g_auth E (px_endpoint p) parts) t)
      (\<lambda>result t. case result of GooglePassed None \<Rightarrow> (Ok (Go ()), t)
        | GooglePassed (Some email) \<Rightarrow> (Ok (Go ()), store_identity key (GoogleUser email) t)
        | GoogleContent content \<Rightarrow> (Ok (AnswerNow content), t) | DomainIsNotAuthorized \<Rightarrow> (Err Unauthorized, t)))))"
    if "kept E s t" "h2_passes t key = Some p" for t p
    using that by (intro steps) (auto intro!: kept_store simp: g_auth_Passed split: GoogleAuthResult.splits option.splits)
  show ?thesis
    unfolding authenticate_def
    by (intro steps) (auto simp: s split: gate_step.splits dest: g intro!: rest g1)
qed

section \<open>Who is admitted\<close>

text \<open>What a phase has established when a request goes on.\<close>

lemma authenticate_Go:
  assumes "authenticate E key parts body s = (Ok (Go x), t)"
  obtains p inner where "h2_passes s key = Some p" "px_inner p = Some inner"
    "run_oauth_gate_h2 E (px_endpoint p) parts body s = (Ok (Go ()), s)"
    "case ep_g_auth (px_endpoint p) of
       None \<Rightarrow> t = s
     | Some settings \<Rightarrow> \<exists>email.
         handle_google_auth (he_google E) (he_google_auth E) (parts_view (he_http E) parts) settings = Ok (Passed email) \<and>
         t = store_identity key (GoogleUser email) s"
proof -
  from assms obtain p s1 where p: "h2_passes s key = Some p" "run_oauth_gate_h2 E (px_endpoint p) parts body s = (Ok (Go ()), s1)"
    and rest: "h2_bind (inner_at key s1) (\<lambda>_ s1. h2_bind (h2_panics (handle_auth_with_g_auth E (px_endpoint p) parts) s1)
      (\<lambda>result s1. case result of GooglePassed None \<Rightarrow> (Ok (Go ()), s1)
        | GooglePassed (Some email) \<Rightarrow> (Ok (Go ()), store_identity key (GoogleUser email) s1)
        | GoogleContent content \<Rightarrow> (Ok (AnswerNow content), s1) | DomainIsNotAuthorized \<Rightarrow> (Err Unauthorized, s1))) = (Ok (Go x), t)"
    unfolding authenticate_def by (auto elim!: h2_bindE split: gate_step.splits)
  have "s1 = s" by (rule gate_Go(1) [OF p(2)])
  with rest p that show ?thesis
    by (auto elim!: h2_bindE split: GoogleAuthResult.splits option.splits simp: g_auth_Passed)
qed

lemma admit_user_Ok:
  "admit_user E key s = (Ok x, t) \<longleftrightarrow>
     t = s \<and> (\<exists>p inner. h2_passes s key = Some p \<and> px_inner p = Some inner \<and>
       user_is_allowed (he_users E) (px_endpoint p) (map_option identity_as_str (pi_identity inner)))"
  by (auto simp: admit_user_def inner_at_def pass_at_def h2_bind_def split: option.splits if_splits)

lemma admit_user_snd [simp]: "snd (admit_user E key s) = s"
  by (auto simp: admit_user_def inner_at_def pass_at_def h2_bind_def split: option.splits)

lemma location_white_listed_simps:
  "snd (location_white_listed E location s) = s"
  "location_white_listed E location s = (Ok x, t) \<Longrightarrow> t = s \<and>
     (\<forall>ip list_id. he_connection_ip E = Some ip \<longrightarrow> lc_ip_white_list_id location = Some list_id \<longrightarrow>
        config_white_listed (he_white_lists E) list_id ip = Ok True)"
  by (auto simp: location_white_listed_def h2_bind_def h2_panics_def split: option.splits outcome.splits if_splits)

lemma new_pass_locations_Ok:
  "new_pass_locations E ls = Ok out \<Longrightarrow> map fst out = ls \<and> (\<forall>(l, source) \<in> set out. create_data_source E (lc_proxy_pass_to l) = Ok source)"
  by (induction ls arbitrary: out) (auto simp: rust_simps)

lemma find_location_Ok:
  assumes "find_location_index lib locations u = Ok (l, source)"
  shows "List.find (\<lambda>l. hl_starts_with_ci lib (ur_path u) (lc_path l)) (map fst locations) = Some l \<and> (l, source) \<in> set locations"
proof -
  have "List.find (\<lambda>(l, _). hl_starts_with_ci lib (ur_path u) (lc_path l)) locations = Some (l, source)"
    using assms by (auto simp: find_location_index_def split: option.splits)
  then show ?thesis by (induction locations) (auto split: if_splits)
qed

text \<open>What is known of a request that is written to the log of forwarded requests.\<close>

definition sent_by :: "h2_env \<Rightarrow> bytes \<Rightarrow> request_parts \<Rightarrow> incoming_body \<Rightarrow> proxy_pass \<Rightarrow> HttpProxyPassInner \<Rightarrow> forwarded \<Rightarrow> bool" where
  "sent_by E key parts body p inner f \<longleftrightarrow>
     fw_host_key f = key \<and> fw_received f = parts \<and> fw_endpoint f = px_endpoint p \<and> fw_identity f = pi_identity inner \<and>
     find_location_index (he_http E) (px_locations p) (qp_uri parts) = Ok (fw_location f, fw_source f) \<and>
     (\<exists>parts1 request. process_headers (he_http E) (he_country E) inner (px_endpoint p) (fw_location f) parts = Ok parts1 \<and>
        into_request (he_http E) (fw_location f) parts1 body = Ok request \<and>
        fw_request f = tq_request request \<and> fw_body f = tq_body request) \<and>
     (\<forall>ip list_id. he_connection_ip E = Some ip \<longrightarrow> lc_ip_white_list_id (fw_location f) = Some list_id \<longrightarrow>
        config_white_listed (he_white_lists E) list_id ip = Ok True)"

definition log_grows :: "(forwarded \<Rightarrow> bool) \<Rightarrow> h2_state \<Rightarrow> h2_state \<Rightarrow> bool" where
  "log_grows Q s t \<longleftrightarrow> h2_passes t = h2_passes s \<and>
     (h2_forwarded t = h2_forwarded s \<or> (\<exists>f. Q f \<and> h2_forwarded t = h2_forwarded s @ [f]))"

lemma forward_request_log:
  assumes "h2_passes s key = Some p" and "px_inner p = Some inner"
  shows "log_grows (sent_by E key parts body p inner) s (snd (forward_request E key parts body s))"
proof -
  let ?P = "log_grows (sent_by E key parts body p inner) s"
  note steps = h2_bind_snd [where P = ?P]
  have s: "?P s" by (simp add: log_grows_def)
  show ?thesis
    unfolding forward_request_def Let_def
    by (auto intro!: steps simp: s assms location_white_listed_simps(1) dest!: location_white_listed_simps(2))
      (auto simp: log_grows_def sent_by_def)
qed

section \<open>Histories of a connection\<close>

text \<open>
  A connection takes one request after another; between them, other connections change the OAuth
  contexts and the block list they all share.
\<close>

inductive h2_history :: "h2_env \<Rightarrow> h2_state \<Rightarrow> bool" for E where
  opened: "h2_history E (new_h2_state contexts blocklist)"
| served: "h2_history E s \<Longrightarrow> h2_history E (snd (handle_request E parts body s))"
| others: "h2_history E s \<Longrightarrow> h2_history E (s\<lparr>h2_contexts := contexts, h2_blocklist := blocklist\<rparr>)"
| closed: "h2_history E s \<Longrightarrow> h2_history E (dispose_passes s)"

lemma pass_send_payload_snd:
  assumes "passes_ok E s"
  shows "passes_ok E (snd (pass_send_payload E key parts body s))"
proof -
  note steps = h2_bind_snd [where P = "passes_ok E"]
  have a: "passes_ok E (snd (authenticate E key parts body s))"
    using authenticate_snd [OF assms, of key parts body] by (simp add: kept_def)
  have f: "passes_ok E (snd (forward_request E key parts body t))" if "passes_ok E t" "h2_passes t key = Some p" "px_inner p = Some inner" for t p inner
    using forward_request_log [OF that(2,3), of E parts body] that(1) by (auto simp: log_grows_def passes_ok_def)
  show ?thesis
    using a unfolding pass_send_payload_def
    by (auto intro!: steps simp: admit_user_Ok split: gate_step.splits) (erule (2) f)
qed

lemma new_proxy_pass_ok:
  assumes "get_http_endpoint_info (he_config E) (Some host) = Ok (Some ep)" and "new_proxy_pass E ep = Ok p"
    and "\<not> he_is_tls_handler E \<or> check_tls_endpoint E ep = Ok ()"
  shows "pass_ok E (lname host) p"
  using assms by (auto simp: new_proxy_pass_def pass_ok_def rust_simps own_identity_def)

lemma get_pass_snd:
  assumes "passes_ok E s"
  shows "passes_ok E (snd (get_http_proxy_pass E parts s)) \<and> h2_forwarded (snd (get_http_proxy_pass E parts s)) = h2_forwarded s \<and>
    h2_contexts (snd (get_http_proxy_pass E parts s)) = h2_contexts s"
  using assms
  by (auto simp: get_http_proxy_pass_def Let_def passes_ok_def intro: new_proxy_pass_ok split: option.splits outcome.splits if_splits)

lemma get_pass_key:
  assumes "get_http_proxy_pass E parts s = (Ok key, t)"
  shows "\<exists>host. request_host_name (he_http E) parts = Some host \<and> key = lname host"
  using assms by (auto simp: get_http_proxy_pass_def Let_def split: option.splits outcome.splits if_splits)

lemma handle_requests_snd: "snd (handle_requests E key parts body s) = snd (pass_send_payload E key parts body s)"
  by (auto simp: handle_requests_def split: prod.splits outcome.splits ProxyPassError.splits)

lemma history_passes_ok: "h2_history E s \<Longrightarrow> passes_ok E s"
proof (induction rule: h2_history.induct)
  case (served s parts body)
  then show ?case
    using get_pass_snd [of E s parts]
    by (auto simp: handle_request_def handle_requests_snd pass_send_payload_snd split: prod.splits outcome.splits)
qed (auto simp: passes_ok_def new_h2_state_def dispose_passes_def)

text \<open>
  A request is admitted: its host is one of the endpoint; with the TLS handler, certificate and address
  satisfy the endpoint; the bearer token satisfies the OAuth gate; Google sign-in, when configured, has
  identified the user by this request; the identity is on the list of allowed users; the location is the
  first that matches, its white list has the address, and the target is its content source.
\<close>

definition admitted :: "h2_env \<Rightarrow> (bytes \<rightharpoonup> OAuthContext) \<Rightarrow> request_parts \<Rightarrow> forwarded \<Rightarrow> bool" where
  "admitted E contexts parts f \<longleftrightarrow>
     (let ep = fw_endpoint f; lib = he_http E in
      fw_received f = parts \<and>
      (\<exists>host. request_host_name lib parts = Some host \<and> get_http_endpoint_info (he_config E) (Some host) = Ok (Some ep)) \<and>
      (he_is_tls_handler E \<longrightarrow>
         connection_satisfies_client_cert ep (map_option cc_ca_id (he_certificate E)) \<and>
         (\<forall>ip list_id. he_connection_ip E = Some ip \<longrightarrow> ep_whitelisted_ip_list_id ep = Some list_id \<longrightarrow>
            config_white_listed (he_white_lists E) list_id ip = Ok True)) \<and>
      (\<forall>oauth_id. ep_oauth ep = Some oauth_id \<longrightarrow>
         (\<exists>cx. contexts oauth_id = Some cx \<and>
            gate_bearer E ep cx (build_base_url (is_https_or_mcp (ep_listen_endpoint_type ep)) (host_of lib ep parts)) parts = Ok Allowed)) \<and>
      (case ep_g_auth ep of
         None \<Rightarrow> fw_identity f = own_identity E ep
       | Some settings \<Rightarrow> \<exists>email. fw_identity f = Some (GoogleUser email) \<and>
           handle_google_auth (he_google E) (he_google_auth E) (parts_view lib parts) settings = Ok (Passed email)) \<and>
      user_is_allowed (he_users E) ep (map_option identity_as_str (fw_identity f)) \<and>
      List.find (\<lambda>l. hl_starts_with_ci lib (ur_path (qp_uri parts)) (lc_path l)) (ep_locations ep) = Some (fw_location f) \<and>
      create_data_source E (lc_proxy_pass_to (fw_location f)) = Ok (fw_source f) \<and>
      (\<forall>ip list_id. he_connection_ip E = Some ip \<longrightarrow> lc_ip_white_list_id (fw_location f) = Some list_id \<longrightarrow>
         config_white_listed (he_white_lists E) list_id ip = Ok True))"

lemma check_tls_Ok:
  assumes "check_tls_endpoint E ep = Ok ()"
  shows "connection_satisfies_client_cert ep (map_option cc_ca_id (he_certificate E))"
    and "he_connection_ip E = Some ip \<Longrightarrow> ep_whitelisted_ip_list_id ep = Some list_id \<Longrightarrow> config_white_listed (he_white_lists E) list_id ip = Ok True"
  using assms by (auto simp: check_tls_endpoint_def split: if_splits option.splits outcome.splits bool.splits)

lemma sent_admitted:
  assumes key: "request_host_name (he_http E) parts = Some host" and p: "pass_ok E (lname host) p"
    and gate: "run_oauth_gate_h2 E (px_endpoint p) parts body s = (Ok (Go ()), s)"
    and google: "case ep_g_auth (px_endpoint p) of
         None \<Rightarrow> pi_identity inner = own_identity E (px_endpoint p)
       | Some settings \<Rightarrow> \<exists>email. pi_identity inner = Some (GoogleUser email) \<and>
           handle_google_auth (he_google E) (he_google_auth E) (parts_view (he_http E) parts) settings = Ok (Passed email)"
    and user: "user_is_allowed (he_users E) (px_endpoint p) (map_option identity_as_str (pi_identity inner))"
    and sent: "sent_by E (lname host) parts body p inner f"
  shows "admitted E (h2_contexts s) parts f"
proof -
  have ep: "fw_endpoint f = px_endpoint p" "fw_identity f = pi_identity inner" "fw_received f = parts"
    using sent by (simp_all add: sent_by_def)
  obtain host2 where "lname host2 = lname host" "get_http_endpoint_info (he_config E) (Some host2) = Ok (Some (px_endpoint p))"
    using p by (auto simp: pass_ok_def)
  then have host: "get_http_endpoint_info (he_config E) (Some host) = Ok (Some (px_endpoint p))"
    using endpoint_no_case by metis
  have "find_location_index (he_http E) (px_locations p) (qp_uri parts) = Ok (fw_location f, fw_source f)"
    using sent by (simp add: sent_by_def)
  moreover have "new_pass_locations E (ep_locations (px_endpoint p)) = Ok (px_locations p)"
    using p by (simp add: pass_ok_def)
  ultimately have location:
    "List.find (\<lambda>l. hl_starts_with_ci (he_http E) (ur_path (qp_uri parts)) (lc_path l)) (ep_locations (px_endpoint p)) = Some (fw_location f)"
    "create_data_source E (lc_proxy_pass_to (fw_location f)) = Ok (fw_source f)"
    using find_location_Ok new_pass_locations_Ok by fastforce+
  have tls: "check_tls_endpoint E (px_endpoint p) = Ok ()" if "he_is_tls_handler E"
    using p that by (simp add: pass_ok_def)
  show ?thesis
    unfolding admitted_def Let_def ep
    using key host check_tls_Ok [OF tls] gate_Go(2) [OF gate] google user location sent
    by (auto simp: sent_by_def)
qed

lemma store_identity_at:
  "h2_passes s key = Some p \<Longrightarrow> px_inner p = Some inner \<Longrightarrow>
   h2_passes (store_identity key identity s) key = Some (p\<lparr>px_inner := Some (inner\<lparr>pi_identity := Some identity\<rparr>)\<rparr>)"
  by (simp add: store_identity_def)

definition sent_from :: "h2_env \<Rightarrow> bytes \<Rightarrow> request_parts \<Rightarrow> incoming_body \<Rightarrow> forwarded \<Rightarrow> bool" where
  "sent_from E key parts body f \<longleftrightarrow>
     (\<exists>p inner. pass_ok E key p \<and> px_inner p = Some inner \<and> sent_by E key parts body p inner f)"

lemma payload_admitted:
  assumes ok: "passes_ok E s" and key: "request_host_name (he_http E) parts = Some host"
    and t_def: "t = snd (pass_send_payload E (lname host) parts body s)"
  shows "h2_forwarded t = h2_forwarded s \<or>
    (\<exists>f. admitted E (h2_contexts s) parts f \<and> sent_from E (lname host) parts body f \<and> h2_forwarded t = h2_forwarded s @ [f])"
proof (cases "\<exists>s1. authenticate E (lname host) parts body s = (Ok (Go ()), s1) \<and> fst (admit_user E (lname host) s1) = Ok ()")
  case False
  then show ?thesis
    using authenticate_snd [OF ok, of "lname host" parts body] unfolding t_def pass_send_payload_def h2_bind_def kept_def
    by (auto split: prod.splits outcome.splits gate_step.splits dest: arg_cong [where f = snd])
next
  case True
  then obtain s1 where a: "authenticate E (lname host) parts body s = (Ok (Go ()), s1)" and u: "admit_user E (lname host) s1 = (Ok (), s1)"
    using admit_user_snd by (metis prod.collapse)
  have t: "t = snd (forward_request E (lname host) parts body s1)"
    by (simp add: t_def pass_send_payload_def a u)
  from a obtain p inner where p: "h2_passes s (lname host) = Some p" "px_inner p = Some inner"
    and gate: "run_oauth_gate_h2 E (px_endpoint p) parts body s = (Ok (Go ()), s)"
    and s1: "case ep_g_auth (px_endpoint p) of None \<Rightarrow> s1 = s | Some settings \<Rightarrow> \<exists>email.
         handle_google_auth (he_google E) (he_google_auth E) (parts_view (he_http E) parts) settings = Ok (Passed email) \<and>
         s1 = store_identity (lname host) (GoogleUser email) s"
    by (rule authenticate_Go)
  have pass: "pass_ok E (lname host) p" using ok p by (simp add: passes_ok_def)
  obtain p1 inner1 where p1: "h2_passes s1 (lname host) = Some p1" "px_inner p1 = Some inner1"
    and user: "user_is_allowed (he_users E) (px_endpoint p1) (map_option identity_as_str (pi_identity inner1))"
    using u by (auto simp: admit_user_Ok)
  have same: "px_endpoint p1 = px_endpoint p" "h2_forwarded s1 = h2_forwarded s"
    and google: "case ep_g_auth (px_endpoint p1) of
         None \<Rightarrow> pi_identity inner1 = own_identity E (px_endpoint p1)
       | Some settings \<Rightarrow> \<exists>email. pi_identity inner1 = Some (GoogleUser email) \<and>
           handle_google_auth (he_google E) (he_google_auth E) (parts_view (he_http E) parts) settings = Ok (Passed email)"
    using s1 p p1 store_identity_at [OF p] pass by (auto simp: pass_ok_def split: option.splits)
  have "passes_ok E s1"
    using authenticate_snd [OF ok, of "lname host" parts body] a by (simp add: kept_def)
  then have pass1: "pass_ok E (lname host) p1" using p1 by (simp add: passes_ok_def)
  have "admitted E (h2_contexts s) parts f \<and> sent_from E (lname host) parts body f"
    if "sent_by E (lname host) parts body p1 inner1 f" for f
    using sent_admitted [OF key pass1 gate [folded same(1)] google user that] that pass1 p1(2) by (auto simp: sent_from_def)
  then show ?thesis
    using forward_request_log [OF p1, of E parts body] by (auto simp: t log_grows_def same(2))
qed

lemma handle_request_log:
  assumes "h2_history E s" and "handle_request E parts body s = (response, t)"
  shows "h2_forwarded t = h2_forwarded s \<or>
    (\<exists>f key. admitted E (h2_contexts s) parts f \<and> sent_from E key parts body f \<and> h2_forwarded t = h2_forwarded s @ [f])"
proof (cases "get_http_proxy_pass E parts s")
  case (Pair r s1)
  have s1: "passes_ok E s1" "h2_forwarded s1 = h2_forwarded s" "h2_contexts s1 = h2_contexts s"
    using get_pass_snd [OF history_passes_ok [OF assms(1)], of parts] Pair by simp_all
  have t: "t = snd (handle_request E parts body s)" using assms(2) by simp
  show ?thesis
  proof (cases r)
    case (Ok key)
    obtain host where "request_host_name (he_http E) parts = Some host" "key = lname host"
      using get_pass_key Pair Ok by blast
    then show ?thesis
      using payload_admitted [OF s1(1) _ refl, of parts host body] by (auto simp: t handle_request_def Pair Ok handle_requests_snd s1)
  qed (simp_all add: t handle_request_def Pair s1)
qed


section \<open>What the upstream is told\<close>

text \<open>
  A header map of the \<open>http\<close> crate: every name, letter case aside, has a list of values; \<open>insert\<close> replaces the
  list, \<open>append\<close> adds to its end, \<open>remove\<close> empties it, \<open>get\<close> returns its first value.
\<close>

definition vals :: "bytes \<Rightarrow> header_map \<Rightarrow> bytes list" where
  "vals name headers = map snd (filter (\<lambda>h. lname (fst h) = lname name) headers)"

definition header_map_laws :: "http_lib \<Rightarrow> bool" where
  "header_map_laws lib \<longleftrightarrow>
     (\<forall>m n v h. vals m (hl_insert lib n v h) = (if lname m = lname n then [v] else vals m h)) \<and>
     (\<forall>m n v h. vals m (hl_append lib n v h) = vals m h @ (if lname m = lname n then [v] else [])) \<and>
     (\<forall>m n h. vals m (hl_remove lib n h) = (if lname m = lname n then [] else vals m h)) \<and>
     (\<forall>n h. hl_get lib n h = (case vals n h of [] \<Rightarrow> None | v # _ \<Rightarrow> Some v))"

lemma header_map_lawsD:
  assumes "header_map_laws lib"
  shows "vals m (hl_insert lib n v h) = (if lname m = lname n then [v] else vals m h)"
    and "vals m (hl_append lib n v h) = vals m h @ (if lname m = lname n then [v] else [])"
    and "vals m (hl_remove lib n h) = (if lname m = lname n then [] else vals m h)"
  using assms by (simp_all add: header_map_laws_def)

lemma vals_simps [simp]: "vals m [] = []" "vals m (h # hs) = (if lname (fst h) = lname m then snd h # vals m hs else vals m hs)"
  by (simp_all add: vals_def)

lemma vals_filter: "(\<And>h. h \<in> set hs \<Longrightarrow> lname (fst h) = lname m \<Longrightarrow> P h) \<Longrightarrow> vals m (filter P hs) = vals m hs"
  by (induction hs) auto

lemma vals_append_headers:
  "header_map_laws lib \<Longrightarrow> vals m (append_headers lib extra h) = vals m h @ vals m extra"
  by (induction extra arbitrary: h) (auto simp: append_headers_def header_map_lawsD)

text \<open>Names the conversion of a request writes itself.\<close>

definition conversion_names :: "bytes list" where
  "conversion_names = map as_bytes [''host'', ''connection'', ''upgrade'', ''transfer-encoding'', ''te'', ''keep-alive'',
     ''proxy-connection'', ''sec-websocket-version'', ''sec-websocket-key'', ''sec-websocket-accept'',
     ''content-type'', ''content-encoding'', ''content-length'']"

lemma conversion_names_lower: "list_all (\<lambda>n. lname n = n) conversion_names"
  by code_simp

lemma vals_handshake:
  assumes "lname m \<notin> set conversion_names"
  shows "vals m [h \<leftarrow> hs. \<not> handshake_header (fst h)] = vals m hs"
proof (rule vals_filter)
  fix h assume "lname (fst h) = lname m"
  show "\<not> handshake_header (fst h)"
  proof
    assume "handshake_header (fst h)"
    then have "fst h \<in> set conversion_names" by (auto simp: handshake_header_def conversion_names_def)
    moreover from this have "lname (fst h) = fst h" using conversion_names_lower by (simp add: list_all_iff)
    ultimately show False using assms \<open>lname (fst h) = lname m\<close> by simp
  qed
qed

lemma conversion_name_ne:
  assumes "lname m \<notin> set conversion_names" and "n \<in> set conversion_names"
  shows "lname m \<noteq> lname n"
  using assms conversion_names_lower by (auto simp: list_all_iff)

lemma into_request_vals:
  assumes laws: "header_map_laws lib" and other: "lname m \<notin> set conversion_names" and ok: "into_request lib location parts body = Ok req"
  shows "vals m (qp_headers (tq_request req)) = vals m (qp_headers parts)"
proof -
  have ne: "lname m \<noteq> lname n" if "n \<in> set conversion_names" for n
    using conversion_name_ne [OF other that] .
  have names: "lname m \<noteq> lname (as_bytes ''host'')" "lname m \<noteq> lname (as_bytes ''connection'')" "lname m \<noteq> lname (as_bytes ''upgrade'')"
    "lname m \<noteq> lname (as_bytes ''sec-websocket-version'')" "lname m \<noteq> lname (as_bytes ''sec-websocket-key'')"
    "lname m \<noteq> lname (as_bytes ''content-type'')" "lname m \<noteq> lname (as_bytes ''content-encoding'')" "lname m \<noteq> lname (as_bytes ''content-length'')"
    by (rule ne; simp add: conversion_names_def)+
  have host: "vals m [h \<leftarrow> hs. \<not> eq_no_case (fst h) (as_bytes ''host'')] = vals m hs" for hs
    using names(1) by (intro vals_filter) (auto simp: eq_no_case_def)
  have own: "as_bytes ''host'' \<noteq> lname m" "as_bytes ''content-length'' \<noteq> lname m"
    using other by (auto simp: conversion_names_def)
  note laws = header_map_lawsD [OF laws] vals_append_headers [OF laws] vals_handshake [OF other] host names names [symmetric] own own [symmetric]
  have "vals m (qp_headers (tq_request req)) = vals m (qp_headers parts)" if "h2_websocket_to_h1_websocket lib parts = Ok req"
    using that by (auto simp: h2_websocket_to_h1_websocket_def Let_def laws simp del: map_map split: if_splits option.splits outcome.splits)
  moreover have "vals m (qp_headers (tq_request req)) = vals m (qp_headers parts)" if "h2_websocket_to_h2_websocket lib parts = Ok req"
    using that by (auto simp: h2_websocket_to_h2_websocket_def Let_def laws split: if_splits)
  moreover have "vals m (qp_headers (tq_request req)) = vals m (qp_headers parts)" if "http2_to_http1 lib location parts body = Ok req"
    using that by (auto simp: http2_to_http1_def Let_def laws split: if_splits option.splits outcome.splits)
  moreover have "vals m (qp_headers p) = vals m (qp_headers parts)" if "build_request lib location parts body = Ok (p, b)" for p b
    using that by (auto simp: build_request_def Let_def laws split: if_splits option.splits)
  ultimately show ?thesis
    using ok by (auto simp: into_request_def Let_def rust_simps split: if_splits option.splits)
qed

text \<open>The host of a converted request: the text of the host header, else the authority.\<close>

definition chosen_host :: "http_lib \<Rightarrow> request_parts \<Rightarrow> bytes option" where
  "chosen_host lib parts =
     (case hl_get lib (as_bytes ''host'') (qp_headers parts) of
        Some h \<Rightarrow> hl_to_str lib h
      | None \<Rightarrow> uri_host_port (qp_uri parts))"

text \<open>
  C27. The conversion of an HTTP/2 request for an HTTP/1 upstream keeps method and body, gives the request
  exactly one \<open>Host\<close>, its own or the authority of its URI, and keeps the values of every other header in
  their order.
\<close>

theorem http2_to_http1_keeps_request:
  assumes laws: "header_map_laws lib" and ok: "http2_to_http1 lib location parts (Some bytes) = Ok req"
  shows "\<exists>host. chosen_host lib parts = Some host \<and> qp_method (tq_request req) = qp_method parts \<and> tq_body req = bytes \<and>
    (\<forall>name. vals name (qp_headers (tq_request req)) =
       (if lname name = lname (as_bytes ''host'') then [host] else vals name (qp_headers parts)))"
proof -
  obtain u host where u: "hl_parse_uri lib (unwrap_or (as_bytes ''/'') (ur_path_and_query (qp_uri parts))) = Some u"
    and host: "chosen_host lib parts = Some host"
    and req: "req = \<lparr>tq_request = \<lparr>qp_method = qp_method parts, qp_uri = rewrite_mcp_path lib location u, qp_version = Http_11,
        qp_headers = append_headers lib [h \<leftarrow> qp_headers parts. \<not> eq_no_case (fst h) (as_bytes ''host'')]
          (hl_append lib (as_bytes ''host'') host []),
        qp_protocol = None, qp_on_upgrade = False\<rparr>, tq_body = bytes, tq_req_parts = parts, tq_web_socket_upgrade = None\<rparr>"
    using ok by (auto simp: http2_to_http1_def host_header_text_def chosen_host_def split: option.splits if_splits outcome.splits)
  have "vals name [h \<leftarrow> hs. \<not> eq_no_case (fst h) (as_bytes ''host'')] = (if lname name = lname (as_bytes ''host'') then [] else vals name hs)"
    for name and hs :: header_map
    by (induction hs) (auto simp: eq_no_case_def)
  then show ?thesis
    using host by (auto simp: req vals_append_headers [OF laws] header_map_lawsD [OF laws])
qed

lemma insert_checked_Ok: "insert_checked lib n v h = Ok h1 \<longleftrightarrow> hl_name_ok lib n \<and> hl_value_ok lib v \<and> h1 = hl_insert lib n v h"
  by (auto simp: insert_checked_def)

text \<open>The upstream gets exactly one forwarded-for header, which ends with the address of the connection, and its country.\<close>

definition true_client :: "h2_env \<Rightarrow> IpAddr \<Rightarrow> forwarded \<Rightarrow> bool" where
  "true_client E ip f \<longleftrightarrow>
     (\<exists>chain. vals (as_bytes ''x-forwarded-for'') (qp_headers (fw_request f)) = [chain] \<and>
        (chain = hl_ip_text (he_http E) ip \<or> (\<exists>given. chain = given @ as_bytes '','' @ hl_ip_text (he_http E) ip))) \<and>
     (ep_inject_country (fw_endpoint f) \<longrightarrow>
        (\<forall>code. he_country E ip = Ok (Some code) \<longrightarrow> vals (as_bytes ''cf-ipcountry'') (qp_headers (fw_request f)) = [code]))"

lemma client_header_names:
  "lname (as_bytes ''x-forwarded-for'') \<noteq> lname (as_bytes ''cf-ipcountry'')"
  "lname (as_bytes ''x-forwarded-for'') \<notin> set conversion_names" "lname (as_bytes ''cf-ipcountry'') \<notin> set conversion_names"
  by code_simp+

lemma process_headers_client:
  assumes laws: "header_map_laws lib" and ip: "pi_connection_ip inner = Some ip"
    and ok: "process_headers lib country inner ep location parts = Ok p"
  shows "\<exists>chain. vals (as_bytes ''x-forwarded-for'') (qp_headers p) = [chain] \<and>
      (chain = hl_ip_text lib ip \<or> (\<exists>given. chain = given @ as_bytes '','' @ hl_ip_text lib ip))"
    and "ep_inject_country ep \<Longrightarrow> country ip = Ok (Some code) \<Longrightarrow> vals (as_bytes ''cf-ipcountry'') (qp_headers p) = [code]"
proof -
  obtain p2 p3 where p3: "apply_auto_x_forwarded_for lib inner p2 = Ok p3" and p: "apply_cf_ip_country lib country inner ep p3 = Ok p"
    using ok by (auto simp: process_headers_def rust_simps)
  note laws = header_map_lawsD(1) [OF laws] insert_checked_Ok ip rust_simps client_header_names(1)
  have "vals (as_bytes ''x-forwarded-for'') (qp_headers p) = vals (as_bytes ''x-forwarded-for'') (qp_headers p3)"
    using p by (auto simp: apply_cf_ip_country_def laws split: if_splits option.splits)
  moreover have "\<exists>chain. vals (as_bytes ''x-forwarded-for'') (qp_headers p3) = [chain] \<and>
      (chain = hl_ip_text lib ip \<or> (\<exists>given. chain = given @ as_bytes '','' @ hl_ip_text lib ip))"
    using p3 by (auto simp: apply_auto_x_forwarded_for_def Let_def laws split: option.splits)
  ultimately show "\<exists>chain. vals (as_bytes ''x-forwarded-for'') (qp_headers p) = [chain] \<and>
      (chain = hl_ip_text lib ip \<or> (\<exists>given. chain = given @ as_bytes '','' @ hl_ip_text lib ip))"
    by simp
  show "vals (as_bytes ''cf-ipcountry'') (qp_headers p) = [code]" if "ep_inject_country ep" "country ip = Ok (Some code)"
    using p that by (auto simp: apply_cf_ip_country_def laws)
qed


section \<open>Concrete connections\<close>

definition demo_http :: http_lib where
  "demo_http = \<lparr>hl_insert = (\<lambda>n v h. filter (\<lambda>x. lname (fst x) \<noteq> lname n) h @ [(n, v)]), hl_append = (\<lambda>n v h. h @ [(n, v)]),
     hl_remove = (\<lambda>n h. filter (\<lambda>x. lname (fst x) \<noteq> lname n) h), hl_get = (\<lambda>n h. case vals n h of [] \<Rightarrow> None | v # _ \<Rightarrow> Some v),
     hl_name_ok = (\<lambda>_. True), hl_value_ok = (\<lambda>_. True), hl_to_str = Some,
     hl_parse_uri = (\<lambda>p. Some \<lparr>ur_authority = None, ur_host = None, ur_port = None, ur_path = p, ur_path_and_query = Some p, ur_query = None\<rparr>),
     hl_with_path = (\<lambda>p u. Some (u\<lparr>ur_path := p, ur_path_and_query := Some p\<rparr>)), hl_gzip = Some, hl_upgrade = (\<lambda>_. None),
     hl_ws_key = as_bytes ''k'', hl_tokens = (\<lambda>_. []), hl_env = (\<lambda>_. None),
     hl_starts_with_ci = (\<lambda>path prefix. starts_with (lname path) (lname prefix)), hl_ip_text = (\<lambda>_. as_bytes ''10.0.0.9'')\<rparr>"

lemma vals_appended: "vals m (a @ b) = vals m a @ vals m b"
  by (simp add: vals_def)

lemma vals_removed: "vals m (filter (\<lambda>x. lname (fst x) \<noteq> lname n) h) = (if lname m = lname n then [] else vals m h)"
  by (induction h) auto

lemma demo_http_laws: "header_map_laws demo_http"
  by (auto simp: header_map_laws_def demo_http_def vals_appended vals_removed)

definition demo_stream :: "(bytes \<times> bytes) list \<Rightarrow> request_parts" where
  "demo_stream headers = \<lparr>qp_method = as_bytes ''GET'',
     qp_uri = \<lparr>ur_authority = Some (as_bytes ''Site''), ur_host = Some (as_bytes ''Site''), ur_port = None, ur_path = as_bytes ''/x'',
       ur_path_and_query = Some (as_bytes ''/x''), ur_query = None\<rparr>,
     qp_version = Http_2, qp_headers = headers, qp_protocol = None, qp_on_upgrade = False\<rparr>"

theorem http2_to_http1_keeps_request_witness:
  "\<exists>req. http2_to_http1 demo_http demo_location (demo_stream [(as_bytes ''a'', as_bytes ''1''), (as_bytes ''a'', as_bytes ''2'')]) (Some [7]) = Ok req \<and>
     vals (as_bytes ''host'') (qp_headers (tq_request req)) = [as_bytes ''Site''] \<and>
     vals (as_bytes ''a'') (qp_headers (tq_request req)) = [as_bytes ''1'', as_bytes ''2'']"
proof -
  let ?parts = "demo_stream [(as_bytes ''a'', as_bytes ''1''), (as_bytes ''a'', as_bytes ''2'')]"
  obtain req where ok: "http2_to_http1 demo_http demo_location ?parts (Some [7]) = Ok req"
  proof -
    have "(case http2_to_http1 demo_http demo_location ?parts (Some [7]) of Ok _ \<Rightarrow> True | _ \<Rightarrow> False)" by code_simp
    then show ?thesis using that by (auto split: outcome.splits)
  qed
  have a: "chosen_host demo_http ?parts = Some (as_bytes ''Site'')" by code_simp
  have b: "lname (as_bytes ''a'') \<noteq> lname (as_bytes ''host'')" by code_simp
  have c: "vals (as_bytes ''a'') (qp_headers ?parts) = [as_bytes ''1'', as_bytes ''2'']" by code_simp
  from http2_to_http1_keeps_request [OF demo_http_laws ok] a b c ok show ?thesis by auto
qed

definition demo_google :: google_libs where
  "demo_google = \<lparr>go_eq_ci = (=), go_url_decode = (\<lambda>x. x), go_from_base64 = Some, go_as_base64 = (\<lambda>x. x), go_encrypt = (\<lambda>x. x),
     go_decrypt = Some, go_encode = at_email, go_decode = (\<lambda>x. Some \<lparr>at_email = x, at_expires = 9\<rparr>), go_add_seconds = (\<lambda>x n. x), go_now = 5,
     go_post_token = (\<lambda>x. Panic), go_access_token = (\<lambda>x. Panic), go_userinfo = (\<lambda>x. Panic), go_user_email = (\<lambda>x. Panic)\<rparr>"

definition demo_hyper :: "HttpEndpointInfo \<Rightarrow> h2_env" where
  "demo_hyper ep = \<lparr>he_http = demo_http, he_gate = demo_libs, he_google = demo_google,
     he_google_auth = [as_bytes ''g'' \<mapsto> \<lparr>gc_client_id = [], gc_client_secret = [], gc_whitelisted_domains = as_bytes ''*''\<rparr>],
     he_users = [as_bytes ''staff'' \<mapsto> {as_bytes ''alice@x''}], he_white_lists = Map.empty, he_country = (\<lambda>_. Ok (Some (as_bytes ''DE''))),
     he_config = new_listen_port ep, he_connection_ip = Some (V4 10 0 0 9), he_certificate = None, he_is_tls_handler = True,
     he_listen_host = as_bytes ''443'', he_error_text = (\<lambda>_. []), he_show_error_description = False, he_build_error = [],
     he_version = as_bytes ''1'', he_ssh_session_ok = (\<lambda>_. True), he_home = None, he_try_parse = (\<lambda>_. None), he_read_file = (\<lambda>_. None),
     he_content_type = (\<lambda>_. None), he_gateway_file = (\<lambda>_ _. Err GatewayError),
     he_upstream = (\<lambda>_ _ _. Ok (PlainResponse ok_response)), he_dynamic = (\<lambda>_ _ _. Ok (PlainResponse ok_response))\<rparr>"

definition demo_site :: "bytes option \<Rightarrow> bytes option \<Rightarrow> ProxyPassLocationConfig \<Rightarrow> HttpEndpointInfo" where
  "demo_site g_auth users location = new_endpoint_info
     \<lparr>pp_host_endpoint = \<lparr>hs_src = as_bytes ''site:443'', hs_port = Some 443, hs_index = Some 4\<rparr>,
     pp_listen_endpoint_type = ListenHttps2, pp_inject_country = True, pp_g_auth = g_auth, pp_oauth = None,
     pp_ssl_certificate_id = None, pp_client_certificate_id = None, pp_whitelisted_ip_list_id = None,
     pp_locations = [location],
     pp_allowed_user_list_id = users, pp_global_modify_headers = None, pp_endpoint_modify_headers = None, pp_keep_alive = True,
     pp_track_metrics_by_all_domains = False, pp_hsts = False,
     pp_mcp_settings = \<lparr>me_read_timeout = 1, me_write_timeout = 1, me_buffer_size = 1\<rparr>, pp_timeouts = (1, 1)\<rparr>"

abbreviation demo_open :: h2_state where
  "demo_open \<equiv> new_h2_state Map.empty new_blocklist"

definition demo_secret :: h2_env where
  "demo_secret = demo_hyper (demo_site None None (demo_location\<lparr>lc_auth_header := Some (as_bytes ''Bearer secret'')\<rparr>))"

definition demo_forged :: request_parts where
  "demo_forged = demo_stream [(as_bytes ''x-forwarded-for'', as_bytes ''6.6.6.6''), (as_bytes ''cf-ipcountry'', as_bytes ''US'')]"

lemma demo_secret_forwards: "length (h2_forwarded (snd (handle_request demo_secret demo_forged (Some []) demo_open))) = 1"
  by code_simp

lemma one_new: "length xs = 1 \<Longrightarrow> \<exists>f. xs = [f] \<and> f = hd xs"
  by (cases xs) auto



section \<open>What this path does not check\<close>


section \<open>Two streams of one connection\<close>

definition demo_team :: h2_env where
  "demo_team = demo_hyper (demo_site (Some (as_bytes ''g'')) (Some (as_bytes ''staff'')) demo_location)"

definition demo_user :: "string \<Rightarrow> request_parts" where
  "demo_user email = demo_stream [(as_bytes ''cookie'', as_bytes ''x-authorized='' @ as_bytes email)]"

text \<open>Two streams whose first phases run one after the other, before the second phase of the first.\<close>

definition interleaved :: "h2_env \<Rightarrow> bytes \<Rightarrow> request_parts \<Rightarrow> request_parts \<Rightarrow> h2_state \<Rightarrow> hyper_response h2_run" where
  "interleaved E key first second s =
     h2_bind (authenticate E key first (Some []) s) (\<lambda>_ s.
     h2_bind (authenticate E key second (Some []) s) (\<lambda>_ s.
     h2_bind (admit_user E key s) (\<lambda>_ s.
       forward_request E key first (Some []) s)))"

text \<open>
  The identity of a connection is shared by its streams: a user who is not on the list of allowed
  users is refused when his request runs alone, but when the request of an allowed user signs in between
  his sign-in and his check, his request is forwarded under the identity of the other.
\<close>

theorem streams_share_identity:
  "let s = snd (get_http_proxy_pass demo_team (demo_user ''bob@x'') demo_open);
       out = interleaved demo_team (as_bytes ''site'') (demo_user ''bob@x'') (demo_user ''alice@x'') s
   in fst (pass_send_payload demo_team (as_bytes ''site'') (demo_user ''bob@x'') (Some []) s) = Err UserIsForbidden \<and>
      map fw_received (h2_forwarded (snd out)) = [demo_user ''bob@x''] \<and>
      map fw_identity (h2_forwarded (snd out)) = [Some (GoogleUser (as_bytes ''alice@x''))]"
  by code_simp

section \<open>Upstreams behind a gateway\<close>

lemma create_gateway_panics:
  "pt_remote_host m = Gateway gateway_id r \<Longrightarrow>
   lc_proxy_pass_to l \<in> {ToHttp1 m, ToHttp2 m, ToMcpHttp1 m, ToMcpHttp2 m} \<Longrightarrow> create_data_source E (lc_proxy_pass_to l) = Panic"
  by (auto simp: create_data_source_def remote_source_def)

lemma new_pass_locations_gateway:
  assumes "l \<in> set ls" and "create_data_source E (lc_proxy_pass_to l) = Panic"
  shows "new_pass_locations E ls \<noteq> Ok out"
proof
  assume "new_pass_locations E ls = Ok out"
  note out = new_pass_locations_Ok [OF this]
  then obtain source where "(l, source) \<in> set out" using assms(1) by auto
  with out assms(2) show False by auto
qed

text \<open>
  A host with one location whose upstream is reached through a gateway cannot be served on this path:
  every request for it that passes the checks of the handler panics, whatever its path and whatever
  happened on the connection before.
\<close>

theorem gateway_location_panics:
  assumes host: "request_host_name (he_http E) parts = Some host" and ep: "get_http_endpoint_info (he_config E) (Some host) = Ok (Some ep)"
    and checks: "he_is_tls_handler E \<Longrightarrow> check_tls_endpoint E ep = Ok ()"
    and l: "l \<in> set (ep_locations ep)" "lc_proxy_pass_to l \<in> {ToHttp1 m, ToHttp2 m, ToMcpHttp1 m, ToMcpHttp2 m}"
      "pt_remote_host m = Gateway gateway_id r"
    and history: "h2_history E s"
  shows "handle_request E parts body s = (Panic, s)"
proof -
  have no: "new_pass_locations E (ep_locations ep) \<noteq> Ok out" for out
    using new_pass_locations_gateway [OF l(1) create_gateway_panics [OF l(3,2)]] .
  then have none: "new_proxy_pass E ep \<noteq> Ok p" for p by (auto simp: new_proxy_pass_def rust_simps)
  have "h2_passes s (lname host) = None"
  proof (rule ccontr)
    assume "h2_passes s (lname host) \<noteq> None"
    then obtain p where "pass_ok E (lname host) p" using history_passes_ok [OF history] by (auto simp: passes_ok_def)
    then obtain host2 locs where h: "lname host2 = lname host" "get_http_endpoint_info (he_config E) (Some host2) = Ok (Some (px_endpoint p))"
      "new_pass_locations E (ep_locations (px_endpoint p)) = Ok locs" by (auto simp: pass_ok_def)
    have "px_endpoint p = ep" using endpoint_no_case [OF h(1)] h(2) ep by simp
    with h(3) no show False by simp
  qed
  then have "get_http_proxy_pass E parts s = (Panic, s)"
    using host ep none checks by (auto simp: get_http_proxy_pass_def Let_def split: outcome.splits)
  then show ?thesis by (simp add: handle_request_def)
qed

theorem gateway_location_panics_witness:
  "handle_request (demo_hyper (demo_site None None (demo_location\<lparr>lc_proxy_pass_to :=
       ToHttp1 \<lparr>pt_remote_host = Gateway (as_bytes ''gw'') \<lparr>re_text = as_bytes ''u'', re_scheme = Some SchemeHttp, re_host = as_bytes ''u'',
         re_host_port = as_bytes ''u:80'', re_path_and_query = None\<rparr>, pt_request_timeout = 1, pt_connect_timeout = 1,
     pt_pool_tuning = default_pool_tuning\<rparr>\<rparr>)))
     demo_forged (Some []) demo_open = (Panic, demo_open)"
  (is "handle_request ?E _ _ _ = _")
proof (rule gateway_location_panics [where host = "as_bytes ''Site''"])
  show "request_host_name (he_http ?E) demo_forged = Some (as_bytes ''Site'')" by code_simp
  show "get_http_endpoint_info (he_config ?E) (Some (as_bytes ''Site'')) = Ok (Some (hd (lp_endpoints (he_config ?E))))" by code_simp
  show "check_tls_endpoint ?E (hd (lp_endpoints (he_config ?E))) = Ok ()" by code_simp
  show "hd (ep_locations (hd (lp_endpoints (he_config ?E)))) \<in> set (ep_locations (hd (lp_endpoints (he_config ?E))))" by code_simp
qed (auto simp: demo_hyper_def demo_site_def new_listen_port_def new_endpoint_info_def intro: h2_history.opened)

end
