(* ===== verification/H2_Pool.thy ===== *)
theory H2_Pool
  imports H1_Pool
begin

text \<open>
  The shared pool of HTTP/2 upstream connections and the requests that run through it:
  \<open>src/src/upstream_h2_pool\<close> and \<open>src/src/http_proxy_pass/content_source/h2_dispatch.rs\<close>. Any number of requests,
  background revivals, top-up tasks and supervisor ticks act on one pool (pools share nothing). A task is its program
  counter; a step is one atomic action of the source on a flag, a time stamp, a lock, the current client of an entry
  or the list of entries, or the end of an await; the atomics are sequentially consistent. Connecting, pinging and
  requests end either way, a connection may die at any moment, and a request may be dropped at an await. The wall clock
  does not step back. Entries and clients are numbered in the order they are made, since one that loses the race
  for a place in the pool is still used once. Metrics and the text of errors are left out.
\<close>

section \<open>Entries, pool and tasks\<close>

record H2Entry =
  e2_client :: nat
  e2_dead :: bool
  e2_last_success :: int
  e2_revive_pending :: bool
  e2_last_revive_attempt :: int
  e2_revive_lock :: bool

definition new_h2_entry :: "int \<Rightarrow> nat \<Rightarrow> H2Entry" where
  "new_h2_entry now client = \<lparr>e2_client = client, e2_dead = False, e2_last_success = now, e2_revive_pending = False,
     e2_last_revive_attempt = 0, e2_revive_lock = False\<rparr>"

text \<open>Times in microseconds; a stamp in the future counts as expired.\<close>

definition revive_cooldown_remaining :: "int \<Rightarrow> int \<Rightarrow> H2Entry \<Rightarrow> int option" where
  "revive_cooldown_remaining now cooldown e =
     (let last_attempt = e2_last_revive_attempt e in
      if last_attempt < now then
        let elapsed = now - last_attempt in if elapsed < cooldown then Some (cooldown - elapsed) else None
      else if now = last_attempt then Some cooldown
      else None)"

text \<open>The parameters a decision reads; the other durations bound awaits, which end either way.\<close>

record H2PoolParams =
  m2_pool_size :: u8
  m2_health_check_path :: "bytes option"
  m2_hot_window :: int
  m2_revive_cooldown :: int

record H2Pool =
  p2_params :: H2PoolParams
  p2_clients :: "nat list"
  p2_next :: u64
  p2_shutdown :: bool
  p2_top_up_pending :: bool
  p2_last_status :: UpstreamStatus

definition new_h2_pool :: "H2PoolParams \<Rightarrow> H2Pool" where
  "new_h2_pool params = \<lparr>p2_params = params, p2_clients = [], p2_next = 0, p2_shutdown = False, p2_top_up_pending = False,
     p2_last_status = StatusUnknown\<rparr>"

text \<open>
  What the tasks share: the pool, all entries and whether the transport of each client is alive, and the clock. The last two
  fields record what was sent, by which task and on which client, and when a revival dialled.
\<close>

record h2_shared =
  s2_pool :: H2Pool
  s2_entries :: "H2Entry list"
  s2_alive :: "bool list"
  s2_now :: int
  s2_sent :: "(nat \<times> bool \<times> nat) list"
  s2_dials :: "(nat \<times> int) list"

text \<open>A request of \<open>execute_pooled_h2\<close>: whether its method is idempotent, and the attempts left.\<close>

record h2_request =
  r2_idempotent :: bool
  r2_left :: nat

definition max_attempts :: "bool \<Rightarrow> nat" where
  "max_attempts idempotent = (if idempotent then 2 else 1)"

text \<open>Who revives an entry: a request, with its round-robin position, or a background task.\<close>

datatype h2_reviver = Fg h2_request nat | Bg

text \<open>What follows \<open>spawn_revive\<close>: the next entry of a scan, the next attempt of a request, the next entry of a tick.\<close>

datatype h2_cont = ToScan h2_request "nat list" nat nat | ToLoop h2_request | ToTick "nat list" int nat

text \<open>
  The program counters: the loop of \<open>execute_pooled_h2\<close>, \<open>get_connection\<close> (\<open>Gc\<close>, with a snapshot of entries, the start
  and the offset), \<open>spawn_revive\<close> with the number of its test, a revival (\<open>Lk\<close>), the second look at the pool, the request
  on a client, a websocket, the tasks of \<open>spawn_revive\<close> (\<open>Rv\<close>) and of \<open>spawn_top_up\<close> (\<open>Tu\<close>), and \<open>supervisor_tick\<close> (\<open>Tk\<close>).
\<close>

datatype h2_task =
    ReqLoop h2_request
  | GcBegin h2_request
  | GcDial h2_request
  | GcPush h2_request nat
  | GcGrow h2_request nat
  | GcNext h2_request "nat list"
  | GcScan h2_request "nat list" nat nat
  | GcAlive h2_request "nat list" nat nat
  | GcMark h2_request "nat list" nat nat
  | Spawn nat nat h2_cont
  | AwaitLk h2_reviver nat
  | LkHeld h2_reviver nat
  | LkCooldown h2_reviver nat
  | LkStamp h2_reviver nat
  | LkDial h2_reviver nat
  | LkClient h2_reviver nat nat
  | LkSuccess h2_reviver nat
  | LkLive h2_reviver nat
  | LkRelease h2_reviver nat bool
  | Rescan h2_request nat
  | RescanAt h2_request "nat list" nat nat
  | ReqClient h2_request nat
  | ReqSend h2_request nat nat
  | ReqCurrent h2_request nat nat
  | ReqKill h2_request nat
  | WsDial
  | WsSend nat
  | RvTask nat
  | RvClear nat
  | TuCheck
  | TuDial
  | TuPush nat
  | TuGrow nat
  | TuClear
  | TkStart
  | TkTopUp
  | TkTotal
  | TkSwap
  | TkList
  | TkAt "nat list" int nat
  | TkDead "nat list" int nat
  | TkAlive "nat list" int nat
  | TkMark "nat list" int nat
  | TkIdle "nat list" int nat
  | TkPing "nat list" int nat
  | H2Ended
  | H2Crashed

section \<open>Actions\<close>

definition entry_at :: "h2_shared \<Rightarrow> nat \<Rightarrow> H2Entry" where
  "entry_at s e = s2_entries s ! e"

definition set_entry :: "nat \<Rightarrow> (H2Entry \<Rightarrow> H2Entry) \<Rightarrow> h2_shared \<Rightarrow> h2_shared" where
  "set_entry e f s = s\<lparr>s2_entries := (s2_entries s)[e := f (s2_entries s ! e)]\<rparr>"

definition set_pool :: "(H2Pool \<Rightarrow> H2Pool) \<Rightarrow> h2_shared \<Rightarrow> h2_shared" where
  "set_pool f s = s\<lparr>s2_pool := f (s2_pool s)\<rparr>"

definition h2_target :: "h2_shared \<Rightarrow> nat" where
  "h2_target s = unat (m2_pool_size (p2_params (s2_pool s)))"

definition client_alive :: "h2_shared \<Rightarrow> nat \<Rightarrow> bool" where
  "client_alive s e = s2_alive s ! e2_client (entry_at s e)"

text \<open>\<open>connect_one\<close>: the status of the pool, and on success a client.\<close>

definition connected :: "h2_shared \<Rightarrow> h2_shared" where
  "connected s = set_pool (\<lambda>p. p\<lparr>p2_last_status := StatusOk\<rparr>) (s\<lparr>s2_alive := s2_alive s @ [True]\<rparr>)"

definition connect_failed :: "h2_shared \<Rightarrow> h2_shared" where
  "connect_failed s = set_pool (\<lambda>p. p\<lparr>p2_last_status := StatusError\<rparr>) s"

text \<open>A client that has just been made becomes an entry of its own.\<close>

definition add_entry :: "h2_shared \<Rightarrow> h2_shared" where
  "add_entry s = s\<lparr>s2_entries := s2_entries s @ [new_h2_entry (s2_now s) (length (s2_alive s) - 1)]\<rparr>"

text \<open>\<open>try_push\<close> under \<open>grow_lock\<close>, after its test of the shutdown flag.\<close>

definition try_push :: "nat \<Rightarrow> h2_shared \<Rightarrow> bool \<times> h2_shared" where
  "try_push e s =
     (if length (p2_clients (s2_pool s)) < h2_target s then (True, set_pool (\<lambda>p. p\<lparr>p2_clients := p2_clients p @ [e]\<rparr>) s)
      else (False, s))"

definition next_attempt :: "h2_request \<Rightarrow> h2_task" where
  "next_attempt r = (if r2_left r = 0 then H2Ended else GcBegin (r\<lparr>r2_left := r2_left r - 1\<rparr>))"

definition h2_begin_step :: "h2_request \<Rightarrow> h2_shared \<Rightarrow> h2_task" where
  "h2_begin_step r s = (let snap = p2_clients (s2_pool s) in if length snap < h2_target s then GcDial r else GcNext r snap)"

text \<open>\<open>next.fetch_add(1) % len\<close>: an empty snapshot divides by zero.\<close>

definition h2_next_step :: "h2_request \<Rightarrow> nat list \<Rightarrow> h2_shared \<Rightarrow> h2_task" where
  "h2_next_step r snap s =
     (if snap = [] then H2Crashed else GcScan r snap (unat (p2_next (s2_pool s)) mod length snap) 0)"

definition pick :: "nat list \<Rightarrow> nat \<Rightarrow> nat \<Rightarrow> nat" where
  "pick snap start i = snap ! ((start + i) mod length snap)"

definition h2_scan_step :: "h2_request \<Rightarrow> nat list \<Rightarrow> nat \<Rightarrow> nat \<Rightarrow> h2_shared \<Rightarrow> h2_task" where
  "h2_scan_step r snap start i s =
     (if i < length snap then
        let e = pick snap start i in
        if e2_dead (entry_at s e) then Spawn 0 e (ToScan r snap start (Suc i)) else GcAlive r snap start i
      else AwaitLk (Fg r start) (snap ! start))"

definition rescan_step :: "h2_request \<Rightarrow> nat list \<Rightarrow> nat \<Rightarrow> nat \<Rightarrow> h2_shared \<Rightarrow> h2_task" where
  "rescan_step r snap start i s =
     (if i < length snap then
        let e = pick snap start i in
        if e2_dead (entry_at s e) then RescanAt r snap start (Suc i) else ReqClient r e
      else H2Ended)"

fun continue :: "h2_cont \<Rightarrow> h2_task" where
  "continue (ToScan r snap start i) = GcScan r snap start i"
| "continue (ToLoop r) = ReqLoop r"
| "continue (ToTick snap now k) = TkAt snap now k"

text \<open>The tests of \<open>spawn_revive\<close>, one after the other.\<close>

definition spawn_refused :: "nat \<Rightarrow> nat \<Rightarrow> h2_shared \<Rightarrow> bool" where
  "spawn_refused stage e s =
     (if stage = 0 then p2_shutdown (s2_pool s)
      else if stage = 1 then \<not> e2_dead (entry_at s e)
      else if stage = 2 then e \<notin> set (p2_clients (s2_pool s))
      else if stage = 3 then revive_cooldown_remaining (s2_now s) (m2_revive_cooldown (p2_params (s2_pool s))) (entry_at s e) \<noteq> None
      else e2_revive_pending (entry_at s e))"

text \<open>What a revival returns to: the client of the entry or the second look at the pool; or the end of the background task.\<close>

fun after_h2_revive :: "h2_reviver \<Rightarrow> nat \<Rightarrow> bool \<Rightarrow> h2_task" where
  "after_h2_revive (Fg r start) e True = ReqClient r e"
| "after_h2_revive (Fg r start) e False = Rescan r start"
| "after_h2_revive Bg e ok = RvClear e"

definition idle_step :: "nat list \<Rightarrow> int \<Rightarrow> nat \<Rightarrow> h2_shared \<Rightarrow> h2_task" where
  "idle_step snap now k s =
     (if max 0 (now - e2_last_success (entry_at s (snap ! k))) < m2_hot_window (p2_params (s2_pool s)) then TkAt snap now (Suc k)
      else case m2_health_check_path (p2_params (s2_pool s)) of
        None \<Rightarrow> TkAt snap now (Suc k)
      | Some path \<Rightarrow> if liveness_path_is_valid path then TkPing snap now k else TkAt snap now (Suc k))"

section \<open>One step of a task\<close>

text \<open>
  \<open>h2_step self s c s1 c1 spawned\<close>: the task number \<open>self\<close> acts. The \<open>drop\<close> rules end a request whose client has gone, or a
  tick, at an await; the guard of the revive lock runs.
\<close>

inductive h2_step :: "nat \<Rightarrow> h2_shared \<Rightarrow> h2_task \<Rightarrow> h2_shared \<Rightarrow> h2_task \<Rightarrow> h2_task list \<Rightarrow> bool" for self :: nat where
  attempt: "h2_step self s (ReqLoop r) s (next_attempt r) []"
| gc_begin: "h2_step self s (GcBegin r) s (h2_begin_step r s) []"
| gc_dial_ok: "h2_step self s (GcDial r) (add_entry (connected s)) (GcPush r (length (s2_entries s))) []"
| gc_dial_err: "h2_step self s (GcDial r) (connect_failed s) H2Ended []"
| gc_push: "h2_step self s (GcPush r e) s (if p2_shutdown (s2_pool s) then ReqClient r e else GcGrow r e) []"
| gc_grow: "h2_step self s (GcGrow r e) (snd (try_push e s)) (ReqClient r e) []"
| gc_next: "h2_step self s (GcNext r snap) (set_pool (\<lambda>p. p\<lparr>p2_next := p2_next p + 1\<rparr>) s) (h2_next_step r snap s) []"
| gc_scan: "h2_step self s (GcScan r snap start i) s (h2_scan_step r snap start i s) []"
| gc_alive: "h2_step self s (GcAlive r snap start i) s
     (if client_alive s (pick snap start i) then ReqClient r (pick snap start i) else GcMark r snap start i) []"
| gc_mark: "h2_step self s (GcMark r snap start i) (set_entry (pick snap start i) (\<lambda>e. e\<lparr>e2_dead := True\<rparr>) s)
     (Spawn 0 (pick snap start i) (ToScan r snap start (Suc i))) []"
| spawn_refuse: "spawn_refused stage e s \<Longrightarrow> h2_step self s (Spawn stage e k) s (continue k) []"
| spawn_test: "\<not> spawn_refused stage e s \<Longrightarrow> stage < 4 \<Longrightarrow> h2_step self s (Spawn stage e k) s (Spawn (Suc stage) e k) []"
| spawn_swap: "\<not> spawn_refused stage e s \<Longrightarrow> 4 \<le> stage \<Longrightarrow>
     h2_step self s (Spawn stage e k) (set_entry e (\<lambda>x. x\<lparr>e2_revive_pending := True\<rparr>) s) (continue k) [RvTask e]"
| lk_take: "\<not> e2_revive_lock (entry_at s e) \<Longrightarrow>
     h2_step self s (AwaitLk who e) (set_entry e (\<lambda>x. x\<lparr>e2_revive_lock := True\<rparr>) s) (LkHeld who e) []"
| lk_timeout: "h2_step self s (AwaitLk (Fg r start) e) s (Rescan r start) []"
| lk_held: "h2_step self s (LkHeld who e) s (if e2_dead (entry_at s e) then LkCooldown who e else LkRelease who e True) []"
| lk_cooldown: "h2_step self s (LkCooldown who e) s
     (if revive_cooldown_remaining (s2_now s) (m2_revive_cooldown (p2_params (s2_pool s))) (entry_at s e) = None
      then LkStamp who e else LkRelease who e False) []"
| lk_stamp: "h2_step self s (LkStamp who e)
     (set_entry e (\<lambda>x. x\<lparr>e2_last_revive_attempt := s2_now s\<rparr>) (s\<lparr>s2_dials := s2_dials s @ [(e, s2_now s)]\<rparr>)) (LkDial who e) []"
| lk_dial_ok: "h2_step self s (LkDial who e) (connected s) (LkClient who e (length (s2_alive s))) []"
| lk_dial_err: "h2_step self s (LkDial who e) (connect_failed s) (LkRelease who e False) []"
| lk_client: "h2_step self s (LkClient who e client) (set_entry e (\<lambda>x. x\<lparr>e2_client := client\<rparr>) s) (LkSuccess who e) []"
| lk_success: "h2_step self s (LkSuccess who e) (set_entry e (\<lambda>x. x\<lparr>e2_last_success := s2_now s\<rparr>) s) (LkLive who e) []"
| lk_live: "h2_step self s (LkLive who e) (set_entry e (\<lambda>x. x\<lparr>e2_dead := False\<rparr>) s) (LkRelease who e True) []"
| lk_release: "h2_step self s (LkRelease who e ok) (set_entry e (\<lambda>x. x\<lparr>e2_revive_lock := False\<rparr>) s) (after_h2_revive who e ok) []"
| look_again: "h2_step self s (Rescan r start) s (RescanAt r (p2_clients (s2_pool s)) start 0) []"
| look_at: "h2_step self s (RescanAt r snap start i) s (rescan_step r snap start i s) []"
| send: "h2_step self s (ReqClient r e) (s\<lparr>s2_sent := s2_sent s @ [(self, r2_idempotent r, e2_client (entry_at s e))]\<rparr>)
     (ReqSend r e (e2_client (entry_at s e))) []"
| answered: "h2_step self s (ReqSend r e client) (set_entry e (\<lambda>x. x\<lparr>e2_last_success := s2_now s\<rparr>) s) H2Ended []"
| not_connection_level: "h2_step self s (ReqSend r e client) s H2Ended []"
| connection_level: "h2_step self s (ReqSend r e client) s (ReqCurrent r e client) []"
| current: "h2_step self s (ReqCurrent r e client) s (if client = e2_client (entry_at s e) then ReqKill r e else ReqLoop r) []"
| kill: "h2_step self s (ReqKill r e) (set_entry e (\<lambda>x. x\<lparr>e2_dead := True\<rparr>) s) (Spawn 0 e (ToLoop r)) []"
| h2_ws_ok: "h2_step self s WsDial (connected s) (WsSend (length (s2_alive s))) []"
| h2_ws_err: "h2_step self s WsDial (connect_failed s) H2Ended []"
| h2_ws_send: "h2_step self s (WsSend client) (s\<lparr>s2_sent := s2_sent s @ [(self, False, client)]\<rparr>) H2Ended []"
| rv_task: "h2_step self s (RvTask e) s (if p2_shutdown (s2_pool s) then RvClear e else AwaitLk Bg e) []"
| rv_clear: "h2_step self s (RvClear e) (set_entry e (\<lambda>x. x\<lparr>e2_revive_pending := False\<rparr>) s) H2Ended []"
| tu_check: "h2_step self s TuCheck s
     (if \<not> p2_shutdown (s2_pool s) \<and> length (p2_clients (s2_pool s)) < h2_target s then TuDial else TuClear) []"
| tu_dial_ok: "h2_step self s TuDial (add_entry (connected s)) (TuPush (length (s2_entries s))) []"
| tu_dial_err: "h2_step self s TuDial (connect_failed s) TuClear []"
| tu_push: "h2_step self s (TuPush e) s (if p2_shutdown (s2_pool s) then TuClear else TuGrow e) []"
| tu_grow: "try_push e s = (pushed, s1) \<Longrightarrow> h2_step self s (TuGrow e) s1 (if pushed then TuCheck else TuClear) []"
| tu_clear: "h2_step self s TuClear (set_pool (\<lambda>p. p\<lparr>p2_top_up_pending := False\<rparr>) s) H2Ended []"
| tk_start: "h2_step self s TkStart s (if p2_shutdown (s2_pool s) then H2Ended else TkTopUp) []"
| tk_top_up: "h2_step self s TkTopUp s (if p2_shutdown (s2_pool s) then TkList else TkTotal) []"
| tk_total: "h2_step self s TkTotal s
     (if p2_clients (s2_pool s) = [] \<or> h2_target s \<le> length (p2_clients (s2_pool s)) then TkList else TkSwap) []"
| tk_swap_lost: "p2_top_up_pending (s2_pool s) \<Longrightarrow> h2_step self s TkSwap s TkList []"
| tk_swap: "\<not> p2_top_up_pending (s2_pool s) \<Longrightarrow>
     h2_step self s TkSwap (set_pool (\<lambda>p. p\<lparr>p2_top_up_pending := True\<rparr>) s) TkList [TuCheck]"
| tk_list: "h2_step self s TkList s (TkAt (p2_clients (s2_pool s)) (s2_now s) 0) []"
| tk_at: "h2_step self s (TkAt snap now k) s (if length snap \<le> k \<or> p2_shutdown (s2_pool s) then H2Ended else TkDead snap now k) []"
| tk_dead: "h2_step self s (TkDead snap now k) s
     (if e2_dead (entry_at s (snap ! k)) then Spawn 0 (snap ! k) (ToTick snap now (Suc k)) else TkAlive snap now k) []"
| tk_alive: "h2_step self s (TkAlive snap now k) s (if client_alive s (snap ! k) then TkIdle snap now k else TkMark snap now k) []"
| tk_mark: "h2_step self s (TkMark snap now k) (set_entry (snap ! k) (\<lambda>x. x\<lparr>e2_dead := True\<rparr>) s) (Spawn 0 (snap ! k) (ToTick snap now (Suc k))) []"
| tk_idle: "h2_step self s (TkIdle snap now k) s (idle_step snap now k s) []"
| tk_ping_ok: "h2_step self s (TkPing snap now k)
     (set_pool (\<lambda>p. p\<lparr>p2_last_status := StatusOk\<rparr>) (set_entry (snap ! k) (\<lambda>x. x\<lparr>e2_last_success := s2_now s\<rparr>) s)) (TkAt snap now (Suc k)) []"
| tk_ping_err: "h2_step self s (TkPing snap now k)
     (set_pool (\<lambda>p. p\<lparr>p2_last_status := StatusError\<rparr>) (set_entry (snap ! k) (\<lambda>x. x\<lparr>e2_dead := True\<rparr>) s))
     (Spawn 0 (snap ! k) (ToTick snap now (Suc k))) []"
| drop_await: "c \<in> {GcDial r, AwaitLk (Fg r start) e, ReqSend r e client, WsDial, TkPing snap now k} \<Longrightarrow> h2_step self s c s H2Ended []"
| drop_redial: "h2_step self s (LkDial (Fg r start) e) (set_entry e (\<lambda>x. x\<lparr>e2_revive_lock := False\<rparr>) s) H2Ended []"

section \<open>The pool in time\<close>

record h2_world =
  w2_shared :: h2_shared
  w2_tasks :: "h2_task list"

definition new_h2_world :: "H2PoolParams \<Rightarrow> int \<Rightarrow> h2_world" where
  "new_h2_world params now =
     \<lparr>w2_shared = \<lparr>s2_pool = new_h2_pool params, s2_entries = [], s2_alive = [], s2_now = now, s2_sent = [], s2_dials = []\<rparr>, w2_tasks = []\<rparr>"

definition h2_starting :: "h2_task \<Rightarrow> bool" where
  "h2_starting c \<longleftrightarrow> (\<exists>idempotent. c = ReqLoop \<lparr>r2_idempotent = idempotent, r2_left = max_attempts idempotent\<rparr>) \<or> c = WsDial \<or> c = TkStart"

inductive h2_world_step :: "h2_world \<Rightarrow> h2_world \<Rightarrow> bool" where
  act: "t < length (w2_tasks w) \<Longrightarrow> h2_step t (w2_shared w) (w2_tasks w ! t) s1 c1 spawned \<Longrightarrow>
     h2_world_step w (w\<lparr>w2_shared := s1, w2_tasks := (w2_tasks w)[t := c1] @ spawned\<rparr>)"
| begin_task: "h2_starting c \<Longrightarrow> h2_world_step w (w\<lparr>w2_tasks := w2_tasks w @ [c]\<rparr>)"
| clock: "s2_now (w2_shared w) \<le> now \<Longrightarrow> h2_world_step w (w\<lparr>w2_shared := (w2_shared w)\<lparr>s2_now := now\<rparr>\<rparr>)"
| transport_dies: "h2_world_step w (w\<lparr>w2_shared := (w2_shared w)\<lparr>s2_alive := (s2_alive (w2_shared w))[client := False]\<rparr>\<rparr>)"
| drain: "h2_world_step w (w\<lparr>w2_shared := set_pool (\<lambda>p. p\<lparr>p2_shutdown := True\<rparr>) (w2_shared w)\<rparr>)"

definition h2_reachable :: "H2PoolParams \<Rightarrow> h2_world \<Rightarrow> bool" where
  "h2_reachable params w \<longleftrightarrow> (\<exists>now. 0 \<le> now \<and> h2_world_step\<^sup>*\<^sup>* (new_h2_world params now) w)"

section \<open>The registry\<close>

text \<open>Pools by the id of their location. Draining gives back the pools it shuts down.\<close>

type_synonym h2_registry = "int \<rightharpoonup> H2Pool"

definition h2_ensure_pool :: "int \<Rightarrow> H2PoolParams \<Rightarrow> h2_registry \<Rightarrow> H2Pool \<times> h2_registry" where
  "h2_ensure_pool location_id params pools =
     (case pools location_id of
        Some existing \<Rightarrow> (existing, pools)
      | None \<Rightarrow> (new_h2_pool params, pools(location_id \<mapsto> new_h2_pool params)))"

definition h2_drain_unused :: "int set \<Rightarrow> h2_registry \<Rightarrow> h2_registry \<times> h2_registry" where
  "h2_drain_unused active pools =
     (\<lambda>l. if l \<in> active then pools l else None,
      \<lambda>l. if l \<in> active then None else map_option (\<lambda>p. p\<lparr>p2_shutdown := True\<rparr>) (pools l))"

end
