(* ===== verification/H2_Pool_Properties.thy ===== *)
theory H2_Pool_Properties
  imports H2_Pool
begin

text \<open>
  What the HTTP/2 pool guarantees under every interleaving: its flags and locks stand for exactly one task each (one
  locale, four interpretations), it never grows beyond its size, a request is sent at most as often as its method
  allows, an entry is dialled at most once per cooldown, and a request finishes by its own steps.
\<close>

section \<open>Well-formed tasks\<close>

fun cont_ok :: "nat \<Rightarrow> h2_cont \<Rightarrow> bool" where
  "cont_ok n (ToScan r snap start i) \<longleftrightarrow> set snap \<subseteq> {..<n} \<and> start < length snap"
| "cont_ok n (ToLoop r) \<longleftrightarrow> True"
| "cont_ok n (ToTick snap now k) \<longleftrightarrow> set snap \<subseteq> {..<n}"

text \<open>The entries a task names exist, its positions are in range.\<close>

fun task_ok :: "nat \<Rightarrow> h2_task \<Rightarrow> bool" where
  "task_ok n (GcPush r e) \<longleftrightarrow> e < n"
| "task_ok n (GcGrow r e) \<longleftrightarrow> e < n"
| "task_ok n (GcNext r snap) \<longleftrightarrow> set snap \<subseteq> {..<n}"
| "task_ok n (GcScan r snap start i) \<longleftrightarrow> set snap \<subseteq> {..<n} \<and> start < length snap"
| "task_ok n (GcAlive r snap start i) \<longleftrightarrow> set snap \<subseteq> {..<n} \<and> start < length snap \<and> i < length snap"
| "task_ok n (GcMark r snap start i) \<longleftrightarrow> set snap \<subseteq> {..<n} \<and> start < length snap \<and> i < length snap"
| "task_ok n (Spawn stage e k) \<longleftrightarrow> e < n \<and> stage \<le> 4 \<and> cont_ok n k"
| "task_ok n (AwaitLk who e) \<longleftrightarrow> e < n"
| "task_ok n (LkHeld who e) \<longleftrightarrow> e < n"
| "task_ok n (LkCooldown who e) \<longleftrightarrow> e < n"
| "task_ok n (LkStamp who e) \<longleftrightarrow> e < n"
| "task_ok n (LkDial who e) \<longleftrightarrow> e < n"
| "task_ok n (LkClient who e client) \<longleftrightarrow> e < n"
| "task_ok n (LkSuccess who e) \<longleftrightarrow> e < n"
| "task_ok n (LkLive who e) \<longleftrightarrow> e < n"
| "task_ok n (LkRelease who e ok) \<longleftrightarrow> e < n"
| "task_ok n (RescanAt r snap start i) \<longleftrightarrow> set snap \<subseteq> {..<n}"
| "task_ok n (ReqClient r e) \<longleftrightarrow> e < n"
| "task_ok n (ReqSend r e client) \<longleftrightarrow> e < n"
| "task_ok n (ReqCurrent r e client) \<longleftrightarrow> e < n"
| "task_ok n (ReqKill r e) \<longleftrightarrow> e < n"
| "task_ok n (RvTask e) \<longleftrightarrow> e < n"
| "task_ok n (RvClear e) \<longleftrightarrow> e < n"
| "task_ok n (TuPush e) \<longleftrightarrow> e < n"
| "task_ok n (TuGrow e) \<longleftrightarrow> e < n"
| "task_ok n (TkAt snap now k) \<longleftrightarrow> set snap \<subseteq> {..<n}"
| "task_ok n (TkDead snap now k) \<longleftrightarrow> set snap \<subseteq> {..<n} \<and> k < length snap"
| "task_ok n (TkAlive snap now k) \<longleftrightarrow> set snap \<subseteq> {..<n} \<and> k < length snap"
| "task_ok n (TkMark snap now k) \<longleftrightarrow> set snap \<subseteq> {..<n} \<and> k < length snap"
| "task_ok n (TkIdle snap now k) \<longleftrightarrow> set snap \<subseteq> {..<n} \<and> k < length snap"
| "task_ok n (TkPing snap now k) \<longleftrightarrow> set snap \<subseteq> {..<n} \<and> k < length snap"
| "task_ok n c \<longleftrightarrow> True"

lemma task_ok_mono: "task_ok n c \<Longrightarrow> n \<le> m \<Longrightarrow> task_ok m c"
proof (induction n c rule: task_ok.induct)
  case (7 n stage e k)
  then show ?case by (cases k) auto
qed auto

lemma pick_in [simp]: "start < length snap \<Longrightarrow> pick snap start i \<in> set snap"
  unfolding pick_def by (intro nth_mem mod_less_divisor) auto

lemma pick_bound: "set snap \<subseteq> {..<n} \<Longrightarrow> i < length snap \<Longrightarrow> pick snap start i < n"
proof -
  assume a: "set snap \<subseteq> {..<n}" "i < length snap"
  then have "pick snap start i \<in> set snap" unfolding pick_def by (intro nth_mem mod_less_divisor) auto
  with a show ?thesis by auto
qed

lemma nth_bound: "set snap \<subseteq> {..<n} \<Longrightarrow> k < length snap \<Longrightarrow> snap ! k < n"
  using nth_mem by fastforce

named_theorems h2_effects \<open>what the actions leave\<close>

lemma entries_effects [h2_effects, simp]:
  "length (s2_entries (set_entry e f s)) = length (s2_entries s)" "s2_entries (set_pool g s) = s2_entries s"
  "s2_entries (connected s) = s2_entries s" "s2_entries (connect_failed s) = s2_entries s"
  "s2_entries (snd (try_push e s)) = s2_entries s"
  "s2_entries (add_entry s) = s2_entries s @ [new_h2_entry (s2_now s) (length (s2_alive s) - 1)]"
  by (simp_all add: set_entry_def set_pool_def connected_def connect_failed_def try_push_def add_entry_def)

lemma pool_effects [h2_effects, simp]:
  "s2_pool (set_entry e f s) = s2_pool s" "s2_pool (set_pool g s) = g (s2_pool s)"
  "s2_pool (connected s) = (s2_pool s)\<lparr>p2_last_status := StatusOk\<rparr>" "s2_pool (connect_failed s) = (s2_pool s)\<lparr>p2_last_status := StatusError\<rparr>"
  "s2_pool (add_entry s) = s2_pool s"
  by (simp_all add: set_entry_def set_pool_def connected_def connect_failed_def add_entry_def)

lemma try_push_clients:
  "p2_clients (s2_pool (snd (try_push e s))) =
     p2_clients (s2_pool s) @ (if length (p2_clients (s2_pool s)) < h2_target s then [e] else [])"
  by (simp add: try_push_def)

lemma now_effects [h2_effects, simp]:
  "s2_now (set_entry e f s) = s2_now s" "s2_now (set_pool g s) = s2_now s" "s2_now (connected s) = s2_now s"
  "s2_now (connect_failed s) = s2_now s" "s2_now (add_entry s) = s2_now s" "s2_now (snd (try_push e s)) = s2_now s"
  by (simp_all add: set_entry_def set_pool_def connected_def connect_failed_def add_entry_def try_push_def)

lemma logs_effects [h2_effects, simp]:
  "s2_sent (set_entry e f s) = s2_sent s" "s2_sent (set_pool g s) = s2_sent s" "s2_sent (connected s) = s2_sent s"
  "s2_sent (connect_failed s) = s2_sent s" "s2_sent (add_entry s) = s2_sent s" "s2_sent (snd (try_push e s)) = s2_sent s"
  "s2_dials (set_entry e f s) = s2_dials s" "s2_dials (set_pool g s) = s2_dials s" "s2_dials (connected s) = s2_dials s"
  "s2_dials (connect_failed s) = s2_dials s" "s2_dials (add_entry s) = s2_dials s" "s2_dials (snd (try_push e s)) = s2_dials s"
  by (simp_all add: set_entry_def set_pool_def connected_def connect_failed_def add_entry_def try_push_def)

lemma entry_at_set_entry: "e < length (s2_entries s) \<Longrightarrow> entry_at (set_entry e f s) d = (if d = e then f (entry_at s e) else entry_at s d)"
  by (simp add: entry_at_def set_entry_def)

lemma entry_at_pool [simp]:
  "entry_at (set_pool g s) e = entry_at s e" "entry_at (connected s) e = entry_at s e" "entry_at (connect_failed s) e = entry_at s e"
  "entry_at (snd (try_push d s)) e = entry_at s e" "entry_at (s\<lparr>s2_sent := l\<rparr>) e = entry_at s e" "entry_at (s\<lparr>s2_dials := m\<rparr>) e = entry_at s e"
  "entry_at (s\<lparr>s2_now := now\<rparr>) e = entry_at s e" "entry_at (s\<lparr>s2_alive := alive\<rparr>) e = entry_at s e"
  by (simp_all add: entry_at_def)

lemma entry_at_add_entry: "e < length (s2_entries s) \<Longrightarrow> entry_at (add_entry (connected s)) e = entry_at s e"
  by (simp add: entry_at_def nth_append)

lemma target_effects [simp]:
  "h2_target (set_entry e f s) = h2_target s" "h2_target (connected s) = h2_target s" "h2_target (connect_failed s) = h2_target s"
  "h2_target (add_entry s) = h2_target s" "h2_target (snd (try_push d s)) = h2_target s"
  by (simp_all add: h2_target_def try_push_def)

lemmas h2_pieces = next_attempt_def h2_begin_step_def h2_next_step_def h2_scan_step_def rescan_step_def idle_step_def Let_def

section \<open>Ranges\<close>

definition clients_ok :: "h2_shared \<Rightarrow> bool" where
  "clients_ok s \<longleftrightarrow> set (p2_clients (s2_pool s)) \<subseteq> {..<length (s2_entries s)} \<and> length (p2_clients (s2_pool s)) \<le> h2_target s"

lemma after_revive_ok [simp]: "e < n \<Longrightarrow> task_ok n (after_h2_revive who e ok)"
  by (cases who; cases ok) auto

lemma continue_ok: "cont_ok n k \<Longrightarrow> task_ok n (continue k)"
  by (cases k) auto

lemma h2_step_ok:
  assumes "h2_step self s c s1 c1 spawned" and "task_ok (length (s2_entries s)) c" and "clients_ok s"
  shows "length (s2_entries s) \<le> length (s2_entries s1)" and "clients_ok s1" and "task_ok (length (s2_entries s1)) c1"
    and "c2 \<in> set spawned \<Longrightarrow> task_ok (length (s2_entries s1)) c2"
  using assms
  by (induction rule: h2_step.induct)
    (auto simp: h2_pieces clients_ok_def try_push_def h2_target_def pick_bound nth_bound continue_ok split: if_splits option.splits)

definition world_ok :: "h2_world \<Rightarrow> bool" where
  "world_ok w \<longleftrightarrow> clients_ok (w2_shared w) \<and> (\<forall>c \<in> set (w2_tasks w). task_ok (length (s2_entries (w2_shared w))) c)"

lemma starting_ok: "h2_starting c \<Longrightarrow> task_ok n c"
  by (auto simp: h2_starting_def)

lemma world_ok_step:
  assumes "h2_world_step w w1" and "world_ok w"
  shows "world_ok w1"
  using assms
proof (cases rule: h2_world_step.cases)
  case (act t s1 c1 spawned)
  have t: "task_ok (length (s2_entries (w2_shared w))) (w2_tasks w ! t)" "clients_ok (w2_shared w)"
    using assms(2) act(2) by (auto simp: world_ok_def)
  note ok = h2_step_ok [OF act(3) t]
  have "task_ok (length (s2_entries s1)) c" if "c \<in> set (w2_tasks w)" for c
    using that assms(2) ok(1) task_ok_mono by (auto simp: world_ok_def)
  then show ?thesis
    using act(1) ok(2-4) by (auto simp: world_ok_def dest: set_update_subset_insert [THEN subsetD])
qed (auto simp: world_ok_def clients_ok_def h2_target_def starting_ok set_pool_def)

lemma h2_invariant:
  assumes "h2_reachable params w" and "\<And>now. 0 \<le> now \<Longrightarrow> P (new_h2_world params now)"
    and "\<And>v v1. h2_world_step v v1 \<Longrightarrow> world_ok v \<Longrightarrow> P v \<Longrightarrow> P v1"
  shows "world_ok w \<and> P w"
proof -
  obtain now where now: "0 \<le> now" "h2_world_step\<^sup>*\<^sup>* (new_h2_world params now) w" using assms(1) by (auto simp: h2_reachable_def)
  show ?thesis
    using now(2)
  proof (induction rule: rtranclp_induct)
    case base
    show ?case using assms(2) [OF now(1)] by (simp add: world_ok_def clients_ok_def new_h2_world_def new_h2_pool_def)
  next
    case (step v v1)
    then show ?case using world_ok_step assms(3) by blast
  qed
qed

section \<open>Flags and locks stand for tasks\<close>

text \<open>
  The tasks account for a resource when every step keeps the balance between the shared state and what the tasks hold, whatever
  the other tasks hold (\<open>rest\<close>).
\<close>

lemma sum_list_at:
  fixes f :: "'a \<Rightarrow> nat"
  assumes "t < length xs"
  shows "\<exists>rest. (\<Sum>x \<leftarrow> xs. f x) = f (xs ! t) + rest \<and> (\<forall>y. (\<Sum>x \<leftarrow> xs[t := y]. f x) = f y + rest)"
  using assms
proof (induction xs arbitrary: t)
  case (Cons x xs)
  show ?case
  proof (cases t)
    case (Suc u)
    then obtain rest where "(\<Sum>x \<leftarrow> xs. f x) = f (xs ! u) + rest" "\<And>y. (\<Sum>x \<leftarrow> xs[u := y]. f x) = f y + rest"
      using Cons by auto
    then show ?thesis using Suc by (intro exI [of _ "f x + rest"]) simp
  qed auto
qed simp

locale h2_account =
  fixes balance :: "h2_shared \<Rightarrow> nat \<Rightarrow> bool" and share :: "h2_task \<Rightarrow> nat"
  assumes balance_new: "balance (w2_shared (new_h2_world params now)) 0"
    and balance_clock: "balance s n \<Longrightarrow> balance (s\<lparr>s2_now := now\<rparr>) n"
    and balance_dies: "balance s n \<Longrightarrow> balance (s\<lparr>s2_alive := alive\<rparr>) n"
    and balance_drain: "balance s n \<Longrightarrow> balance (set_pool (\<lambda>p. p\<lparr>p2_shutdown := True\<rparr>) s) n"
    and share_starting: "h2_starting c \<Longrightarrow> share c = 0"
    and balance_step: "h2_step self s c s1 c1 spawned \<Longrightarrow> task_ok (length (s2_entries s)) c \<Longrightarrow> clients_ok s \<Longrightarrow>
      balance s (share c + rest) \<Longrightarrow> balance s1 (share c1 + (\<Sum>c2 \<leftarrow> spawned. share c2) + rest)"
begin

definition balanced :: "h2_world \<Rightarrow> bool" where
  "balanced w \<longleftrightarrow> balance (w2_shared w) (\<Sum>c \<leftarrow> w2_tasks w. share c)"

lemma balanced_step:
  assumes "h2_world_step w w1" and "world_ok w" and "balanced w"
  shows "balanced w1"
  using assms(1)
proof (cases rule: h2_world_step.cases)
  case (act t s1 c1 spawned)
  obtain rest where rest: "(\<Sum>x \<leftarrow> w2_tasks w. share x) = share (w2_tasks w ! t) + rest"
      "\<And>y. (\<Sum>x \<leftarrow> (w2_tasks w)[t := y]. share x) = share y + rest"
    using sum_list_at [OF act(2), of share] by auto
  have ok: "task_ok (length (s2_entries (w2_shared w))) (w2_tasks w ! t)" "clients_ok (w2_shared w)"
    using assms(2) act(2) by (auto simp: world_ok_def)
  have "balance s1 (share c1 + (\<Sum>c2 \<leftarrow> spawned. share c2) + rest)"
    using balance_step [OF act(3) ok, of rest] assms(3) rest by (simp add: balanced_def)
  then show ?thesis using act(1) rest by (simp add: balanced_def ac_simps)
qed (use assms(3) in \<open>auto simp: balanced_def share_starting intro: balance_clock balance_dies balance_drain\<close>)

lemma reachable_balanced: "h2_reachable params w \<Longrightarrow> balanced w"
  using h2_invariant [of params w balanced] balanced_step balance_new
  by (auto simp: balanced_def new_h2_world_def)

end

fun lock_held :: "h2_task \<Rightarrow> nat option" where
  "lock_held (LkHeld who e) = Some e"
| "lock_held (LkCooldown who e) = Some e"
| "lock_held (LkStamp who e) = Some e"
| "lock_held (LkDial who e) = Some e"
| "lock_held (LkClient who e client) = Some e"
| "lock_held (LkSuccess who e) = Some e"
| "lock_held (LkLive who e) = Some e"
| "lock_held (LkRelease who e ok) = Some e"
| "lock_held c = None"

fun revival_of :: "h2_task \<Rightarrow> nat option" where
  "revival_of (RvTask e) = Some e"
| "revival_of (RvClear e) = Some e"
| "revival_of (AwaitLk Bg e) = Some e"
| "revival_of (LkHeld Bg e) = Some e"
| "revival_of (LkCooldown Bg e) = Some e"
| "revival_of (LkStamp Bg e) = Some e"
| "revival_of (LkDial Bg e) = Some e"
| "revival_of (LkClient Bg e client) = Some e"
| "revival_of (LkSuccess Bg e) = Some e"
| "revival_of (LkLive Bg e) = Some e"
| "revival_of (LkRelease Bg e ok) = Some e"
| "revival_of c = None"

fun tops_up :: "h2_task \<Rightarrow> bool" where
  "tops_up TuCheck = True"
| "tops_up TuDial = True"
| "tops_up (TuPush e) = True"
| "tops_up (TuGrow e) = True"
| "tops_up TuClear = True"
| "tops_up c = False"

text \<open>The entry a task may still push.\<close>

fun pushes :: "h2_task \<Rightarrow> nat option" where
  "pushes (GcPush r e) = Some e"
| "pushes (GcGrow r e) = Some e"
| "pushes (TuPush e) = Some e"
| "pushes (TuGrow e) = Some e"
| "pushes c = None"

lemma after_revive_holds [simp]:
  "lock_held (after_h2_revive who e ok) = None" "revival_of (after_h2_revive who e ok) = (if who = Bg then Some e else None)"
  "\<not> tops_up (after_h2_revive who e ok)" "pushes (after_h2_revive who e ok) = None"
  by (cases who; cases ok; simp)+

lemma continue_holds [simp]:
  "lock_held (continue k) = None" "revival_of (continue k) = None" "\<not> tops_up (continue k)" "pushes (continue k) = None"
  by (cases k; simp)+

lemma revival_who:
  "revival_of (AwaitLk who e) = (if who = Bg then Some e else None)" "revival_of (LkHeld who e) = (if who = Bg then Some e else None)"
  "revival_of (LkCooldown who e) = (if who = Bg then Some e else None)" "revival_of (LkStamp who e) = (if who = Bg then Some e else None)"
  "revival_of (LkDial who e) = (if who = Bg then Some e else None)" "revival_of (LkClient who e client) = (if who = Bg then Some e else None)"
  "revival_of (LkSuccess who e) = (if who = Bg then Some e else None)" "revival_of (LkLive who e) = (if who = Bg then Some e else None)"
  "revival_of (LkRelease who e ok) = (if who = Bg then Some e else None)"
  by (cases who; simp)+

lemma starting_holds:
  "h2_starting c \<Longrightarrow> lock_held c = None" "h2_starting c \<Longrightarrow> revival_of c = None" "h2_starting c \<Longrightarrow> \<not> tops_up c"
  "h2_starting c \<Longrightarrow> pushes c = None"
  by (auto simp: h2_starting_def)

definition lock_taken :: "nat \<Rightarrow> h2_shared \<Rightarrow> bool" where
  "lock_taken e s \<longleftrightarrow> e < length (s2_entries s) \<and> e2_revive_lock (entry_at s e)"

definition pending_set :: "nat \<Rightarrow> h2_shared \<Rightarrow> bool" where
  "pending_set e s \<longleftrightarrow> e < length (s2_entries s) \<and> e2_revive_pending (entry_at s e)"

lemma flag_effects [simp]:
  "lock_taken e (set_pool g s) = lock_taken e s" "pending_set e (set_pool g s) = pending_set e s"
  "lock_taken e (connected s) = lock_taken e s" "pending_set e (connected s) = pending_set e s"
  "lock_taken e (connect_failed s) = lock_taken e s" "pending_set e (connect_failed s) = pending_set e s"
  "lock_taken e (snd (try_push d s)) = lock_taken e s" "pending_set e (snd (try_push d s)) = pending_set e s"
  "lock_taken e (s\<lparr>s2_sent := l\<rparr>) = lock_taken e s" "pending_set e (s\<lparr>s2_sent := l\<rparr>) = pending_set e s"
  "lock_taken e (s\<lparr>s2_dials := m\<rparr>) = lock_taken e s" "pending_set e (s\<lparr>s2_dials := m\<rparr>) = pending_set e s"
  "lock_taken e (s\<lparr>s2_now := now\<rparr>) = lock_taken e s" "pending_set e (s\<lparr>s2_now := now\<rparr>) = pending_set e s"
  "lock_taken e (s\<lparr>s2_alive := alive\<rparr>) = lock_taken e s" "pending_set e (s\<lparr>s2_alive := alive\<rparr>) = pending_set e s"
  by (simp_all add: lock_taken_def pending_set_def)

lemma flags_add_entry [simp]:
  "lock_taken e (add_entry s) = lock_taken e s" "pending_set e (add_entry s) = pending_set e s"
  by (auto simp: lock_taken_def pending_set_def entry_at_def nth_append new_h2_entry_def less_Suc_eq)

lemma flags_set_entry:
  assumes "d < length (s2_entries s)"
  shows "lock_taken e (set_entry d f s) = (if e = d then e2_revive_lock (f (entry_at s d)) else lock_taken e s)"
    and "pending_set e (set_entry d f s) = (if e = d then e2_revive_pending (f (entry_at s d)) else pending_set e s)"
  using assms by (auto simp: lock_taken_def pending_set_def entry_at_set_entry)

lemma flag_reads:
  "e < length (s2_entries s) \<Longrightarrow> e2_revive_lock (entry_at s e) = lock_taken e s"
  "e < length (s2_entries s) \<Longrightarrow> e2_revive_pending (entry_at s e) = pending_set e s"
  by (simp_all add: lock_taken_def pending_set_def)

lemmas h2_flags = flags_set_entry flag_reads pick_bound nth_bound revival_who

lemma lock_balance:
  assumes "h2_step self s c s1 c1 spawned" and "task_ok (length (s2_entries s)) c"
    and "of_bool (lock_taken e s) = of_bool (lock_held c = Some e) + (rest :: nat)"
  shows "of_bool (lock_taken e s1) = of_bool (lock_held c1 = Some e) + (\<Sum>c2 \<leftarrow> spawned. of_bool (lock_held c2 = Some e)) + rest"
  using assms
  by (induction rule: h2_step.induct)
    (auto simp: h2_pieces h2_flags of_bool_def try_push_def split: if_splits option.splits)

lemma pending_balance:
  assumes "h2_step self s c s1 c1 spawned" and "task_ok (length (s2_entries s)) c"
    and "of_bool (pending_set e s) = of_bool (revival_of c = Some e) + (rest :: nat)"
  shows "of_bool (pending_set e s1) = of_bool (revival_of c1 = Some e) + (\<Sum>c2 \<leftarrow> spawned. of_bool (revival_of c2 = Some e)) + rest"
  using assms
  by (induction rule: h2_step.induct)
    (auto simp: h2_pieces h2_flags of_bool_def try_push_def spawn_refused_def split: if_splits option.splits)

lemma top_up_balance:
  assumes "h2_step self s c s1 c1 spawned"
    and "of_bool (p2_top_up_pending (s2_pool s)) = of_bool (tops_up c) + (rest :: nat)"
  shows "of_bool (p2_top_up_pending (s2_pool s1)) = of_bool (tops_up c1) + (\<Sum>c2 \<leftarrow> spawned. of_bool (tops_up c2)) + rest"
  using assms
  by (induction rule: h2_step.induct)
    (auto simp: h2_pieces of_bool_def try_push_def split: if_splits option.splits)

lemma push_balance:
  assumes "h2_step self s c s1 c1 spawned" and "task_ok (length (s2_entries s)) c" and "clients_ok s"
    and "count_list (p2_clients (s2_pool s)) e + (of_bool (pushes c = Some e) + (rest :: nat)) \<le> of_bool (e < length (s2_entries s))"
  shows "count_list (p2_clients (s2_pool s1)) e + (of_bool (pushes c1 = Some e) + (\<Sum>c2 \<leftarrow> spawned. of_bool (pushes c2 = Some e)) + rest)
    \<le> of_bool (e < length (s2_entries s1))"
  using assms
  by (induction rule: h2_step.induct)
    (auto simp: h2_pieces of_bool_def try_push_def clients_ok_def count_list_0_iff split: if_splits option.splits)

lemma flags_new [simp]:
  "\<not> lock_taken e (w2_shared (new_h2_world params now))" "\<not> pending_set e (w2_shared (new_h2_world params now))"
  "\<not> p2_top_up_pending (s2_pool (w2_shared (new_h2_world params now)))" "p2_clients (s2_pool (w2_shared (new_h2_world params now))) = []"
  by (simp_all add: lock_taken_def pending_set_def new_h2_world_def new_h2_pool_def)

interpretation locks2: h2_account "\<lambda>s n. of_bool (lock_taken e s) = n" "\<lambda>c. of_bool (lock_held c = Some e)" for e
  by unfold_locales (simp_all add: starting_holds lock_balance)

interpretation revivals: h2_account "\<lambda>s n. of_bool (pending_set e s) = n" "\<lambda>c. of_bool (revival_of c = Some e)" for e
  by unfold_locales (simp_all add: starting_holds pending_balance)

interpretation top_ups: h2_account "\<lambda>s n. of_bool (p2_top_up_pending (s2_pool s)) = n" "\<lambda>c. of_bool (tops_up c)"
  by unfold_locales (simp_all add: starting_holds top_up_balance)

interpretation growth: h2_account "\<lambda>s n. count_list (p2_clients (s2_pool s)) e + n \<le> of_bool (e < length (s2_entries s))"
  "\<lambda>c. of_bool (pushes c = Some e)" for e
  by unfold_locales (simp_all add: starting_holds push_balance)

lemma sum_of_bool: "(\<Sum>x \<leftarrow> xs. of_bool (P x)) = length (filter P xs)"
  by (induction xs) auto

lemma distinct_if_count: "(\<And>x. count_list xs x \<le> 1) \<Longrightarrow> distinct xs"
proof (induction xs)
  case (Cons x xs)
  have "count_list xs y \<le> 1" for y using Cons.prems [of y] by (simp split: if_splits)
  moreover have "count_list xs x = 0" using Cons.prems [of x] by simp
  ultimately show ?case using Cons.IH by (simp add: count_list_0_iff)
qed simp

lemma params_step: "h2_step self s c s1 c1 spawned \<Longrightarrow> p2_params (s2_pool s1) = p2_params (s2_pool s)"
  by (induction rule: h2_step.induct) (auto simp: try_push_def split: if_splits)

lemma params_kept:
  assumes "h2_reachable params w"
  shows "p2_params (s2_pool (w2_shared w)) = params"
proof -
  have "world_ok w \<and> p2_params (s2_pool (w2_shared w)) = params"
    by (rule h2_invariant [OF assms])
      (auto simp: new_h2_world_def new_h2_pool_def elim!: h2_world_step.cases dest: params_step)
  then show ?thesis by simp
qed

text \<open>
  C24. Under every interleaving of requests, revivals, top-ups, ticks, dying connections and a drain, the HTTP/2 pool holds at most
  \<open>pool_size\<close> entries, all different; the revive lock of an entry is taken exactly when one task is behind it, the pending flag
  is set exactly when one background revival of that entry is under way, and the top-up flag exactly when one top-up is.
\<close>

theorem h2_pool_flags_exact:
  assumes "h2_reachable params w"
  shows "length (p2_clients (s2_pool (w2_shared w))) \<le> unat (m2_pool_size params) \<and> distinct (p2_clients (s2_pool (w2_shared w))) \<and>
    length [c \<leftarrow> w2_tasks w. lock_held c = Some e] = of_bool (lock_taken e (w2_shared w)) \<and>
    length [c \<leftarrow> w2_tasks w. revival_of c = Some e] = of_bool (pending_set e (w2_shared w)) \<and>
    length [c \<leftarrow> w2_tasks w. tops_up c] = of_bool (p2_top_up_pending (s2_pool (w2_shared w)))"
proof (intro conjI)
  have "world_ok w" using h2_invariant [OF assms, of "\<lambda>_. True"] by simp
  then show "length (p2_clients (s2_pool (w2_shared w))) \<le> unat (m2_pool_size params)"
    using params_kept [OF assms] by (simp add: world_ok_def clients_ok_def h2_target_def)
  have "count_list (p2_clients (s2_pool (w2_shared w))) x \<le> 1" for x
  proof -
    have "count_list (p2_clients (s2_pool (w2_shared w))) x + (\<Sum>c \<leftarrow> w2_tasks w. of_bool (pushes c = Some x))
        \<le> (of_bool (x < length (s2_entries (w2_shared w))) :: nat)"
      using growth.reachable_balanced [OF assms, of x] by (simp add: growth.balanced_def)
    also have "\<dots> \<le> 1" by simp
    finally show ?thesis by simp
  qed
  then show "distinct (p2_clients (s2_pool (w2_shared w)))" by (rule distinct_if_count)
  show "length [c \<leftarrow> w2_tasks w. lock_held c = Some e] = of_bool (lock_taken e (w2_shared w))"
    using locks2.reachable_balanced [OF assms, of e] by (simp add: locks2.balanced_def sum_of_bool)
  show "length [c \<leftarrow> w2_tasks w. revival_of c = Some e] = of_bool (pending_set e (w2_shared w))"
    using revivals.reachable_balanced [OF assms, of e] by (simp add: revivals.balanced_def sum_of_bool)
  show "length [c \<leftarrow> w2_tasks w. tops_up c] = of_bool (p2_top_up_pending (s2_pool (w2_shared w)))"
    using top_ups.reachable_balanced [OF assms] by (simp add: top_ups.balanced_def sum_of_bool)
qed

section \<open>How often a request is sent\<close>

text \<open>The sends a task may still make, with whether its method is idempotent.\<close>

fun sends_left :: "h2_task \<Rightarrow> (bool \<times> nat) option" where
  "sends_left (ReqLoop r) = Some (r2_idempotent r, r2_left r)"
| "sends_left (GcBegin r) = Some (r2_idempotent r, Suc (r2_left r))"
| "sends_left (GcDial r) = Some (r2_idempotent r, Suc (r2_left r))"
| "sends_left (GcPush r e) = Some (r2_idempotent r, Suc (r2_left r))"
| "sends_left (GcGrow r e) = Some (r2_idempotent r, Suc (r2_left r))"
| "sends_left (GcNext r snap) = Some (r2_idempotent r, Suc (r2_left r))"
| "sends_left (GcScan r snap start i) = Some (r2_idempotent r, Suc (r2_left r))"
| "sends_left (GcAlive r snap start i) = Some (r2_idempotent r, Suc (r2_left r))"
| "sends_left (GcMark r snap start i) = Some (r2_idempotent r, Suc (r2_left r))"
| "sends_left (Spawn stage e (ToScan r snap start i)) = Some (r2_idempotent r, Suc (r2_left r))"
| "sends_left (Spawn stage e (ToLoop r)) = Some (r2_idempotent r, r2_left r)"
| "sends_left (AwaitLk (Fg r start) e) = Some (r2_idempotent r, Suc (r2_left r))"
| "sends_left (LkHeld (Fg r start) e) = Some (r2_idempotent r, Suc (r2_left r))"
| "sends_left (LkCooldown (Fg r start) e) = Some (r2_idempotent r, Suc (r2_left r))"
| "sends_left (LkStamp (Fg r start) e) = Some (r2_idempotent r, Suc (r2_left r))"
| "sends_left (LkDial (Fg r start) e) = Some (r2_idempotent r, Suc (r2_left r))"
| "sends_left (LkClient (Fg r start) e client) = Some (r2_idempotent r, Suc (r2_left r))"
| "sends_left (LkSuccess (Fg r start) e) = Some (r2_idempotent r, Suc (r2_left r))"
| "sends_left (LkLive (Fg r start) e) = Some (r2_idempotent r, Suc (r2_left r))"
| "sends_left (LkRelease (Fg r start) e ok) = Some (r2_idempotent r, Suc (r2_left r))"
| "sends_left (Rescan r start) = Some (r2_idempotent r, Suc (r2_left r))"
| "sends_left (RescanAt r snap start i) = Some (r2_idempotent r, Suc (r2_left r))"
| "sends_left (ReqClient r e) = Some (r2_idempotent r, Suc (r2_left r))"
| "sends_left (ReqSend r e client) = Some (r2_idempotent r, r2_left r)"
| "sends_left (ReqCurrent r e client) = Some (r2_idempotent r, r2_left r)"
| "sends_left (ReqKill r e) = Some (r2_idempotent r, r2_left r)"
| "sends_left WsDial = Some (False, 1)"
| "sends_left (WsSend client) = Some (False, 1)"
| "sends_left c = None"

lemma sends_left_who:
  "sends_left (AwaitLk who e) = (case who of Fg r start \<Rightarrow> Some (r2_idempotent r, Suc (r2_left r)) | Bg \<Rightarrow> None)"
  "sends_left (LkHeld who e) = sends_left (AwaitLk who e)" "sends_left (LkCooldown who e) = sends_left (AwaitLk who e)"
  "sends_left (LkStamp who e) = sends_left (AwaitLk who e)" "sends_left (LkDial who e) = sends_left (AwaitLk who e)"
  "sends_left (LkClient who e client) = sends_left (AwaitLk who e)" "sends_left (LkSuccess who e) = sends_left (AwaitLk who e)"
  "sends_left (LkLive who e) = sends_left (AwaitLk who e)" "sends_left (LkRelease who e ok) = sends_left (AwaitLk who e)"
  "sends_left (after_h2_revive who e ok) = sends_left (AwaitLk who e)"
  by (cases who; cases ok; simp)+

lemma sends_left_spawn: "sends_left (Spawn stage e k) = sends_left (continue k)"
  by (cases k) simp_all

lemma pair_or_None: "\<forall>i n. x \<noteq> Some (i, n) \<Longrightarrow> x = None"
  by (cases x) auto

lemma send_step:
  assumes "h2_step self s c s1 c1 spawned"
  shows "(s2_sent s1 = s2_sent s \<and> (sends_left c1 = None \<or> (\<exists>i n m. sends_left c = Some (i, n) \<and> sends_left c1 = Some (i, m) \<and> m \<le> n))) \<or>
    (\<exists>i n client. sends_left c = Some (i, Suc n) \<and> s2_sent s1 = s2_sent s @ [(self, i, client)] \<and>
      (sends_left c1 = None \<or> sends_left c1 = Some (i, n)))"
  using assms
  by (induction rule: h2_step.induct)
    (auto simp: h2_pieces sends_left_who sends_left_spawn try_push_def intro: pair_or_None split: if_splits option.splits h2_reviver.splits)

lemma spawned_send_nothing: "h2_step self s c s1 c1 spawned \<Longrightarrow> c2 \<in> set spawned \<Longrightarrow> sends_left c2 = None"
  by (induction rule: h2_step.induct) auto

definition sends_by :: "nat \<Rightarrow> h2_shared \<Rightarrow> (nat \<times> bool \<times> nat) list" where
  "sends_by t s = [x \<leftarrow> s2_sent s. fst x = t]"

definition paid :: "h2_shared \<Rightarrow> nat \<Rightarrow> h2_task \<Rightarrow> bool" where
  "paid s t c \<longleftrightarrow> (\<exists>i n. (sends_left c = Some (i, n) \<or> sends_left c = None \<and> n = 0) \<and>
     (\<forall>x \<in> set (sends_by t s). fst (snd x) = i) \<and> length (sends_by t s) + n \<le> max_attempts i)"

lemma paid_step:
  assumes "h2_step self s c s1 c1 spawned" and "paid s self c"
  shows "paid s1 self c1"
proof -
  obtain i n where c: "sends_left c = Some (i, n) \<or> sends_left c = None \<and> n = 0" "\<forall>x \<in> set (sends_by self s). fst (snd x) = i"
    and le: "length (sends_by self s) + n \<le> max_attempts i"
    using assms(2) unfolding paid_def by blast
  from send_step [OF assms(1)] show ?thesis
  proof (elim disjE conjE exE)
    fix client j m
    assume 1: "sends_left c = Some (j, Suc m)" "s2_sent s1 = s2_sent s @ [(self, j, client)]" "sends_left c1 = None"
    then show ?thesis using c le unfolding paid_def by (intro exI [of _ i] exI [of _ 0]) (auto simp: sends_by_def)
  next
    fix client j m
    assume 1: "sends_left c = Some (j, Suc m)" "s2_sent s1 = s2_sent s @ [(self, j, client)]" "sends_left c1 = Some (j, m)"
    then show ?thesis using c le unfolding paid_def by (intro exI [of _ i] exI [of _ m]) (auto simp: sends_by_def)
  next
    fix j m k
    assume "s2_sent s1 = s2_sent s" "sends_left c = Some (j, m)" "sends_left c1 = Some (j, k)" "k \<le> m"
    then show ?thesis using c le unfolding paid_def by (intro exI [of _ i] exI [of _ k]) (auto simp: sends_by_def)
  next
    assume "s2_sent s1 = s2_sent s" "sends_left c1 = None"
    then show ?thesis using c le unfolding paid_def by (intro exI [of _ i] exI [of _ 0]) (auto simp: sends_by_def)
  qed
qed

lemma sends_by_other:
  assumes "h2_step self s c s1 c1 spawned" and "t \<noteq> self"
  shows "sends_by t s1 = sends_by t s"
  using send_step [OF assms(1)] assms(2) by (auto simp: sends_by_def)

lemma paid_fresh: "sends_by t s = [] \<Longrightarrow> (\<And>i n. sends_left c = Some (i, n) \<Longrightarrow> n \<le> max_attempts i) \<Longrightarrow> paid s t c"
  unfolding paid_def by (cases "sends_left c") auto

definition all_paid :: "h2_world \<Rightarrow> bool" where
  "all_paid w \<longleftrightarrow> (\<forall>t < length (w2_tasks w). paid (w2_shared w) t (w2_tasks w ! t)) \<and>
     (\<forall>t \<ge> length (w2_tasks w). sends_by t (w2_shared w) = [])"

lemma all_paid_step:
  assumes "h2_world_step w w1" and "all_paid w"
  shows "all_paid w1"
  using assms(1)
proof (cases rule: h2_world_step.cases)
  case (act t s1 c1 spawned)
  have "paid s1 u (((w2_tasks w)[t := c1] @ spawned) ! u)" if u: "u < length (w2_tasks w) + length spawned" for u
  proof (cases "u < length (w2_tasks w)")
    case True
    show ?thesis
    proof (cases "u = t")
      case True
      then show ?thesis using paid_step [OF act(3)] act(2) assms(2) by (simp add: nth_append all_paid_def)
    next
      case False
      have "paid (w2_shared w) u (w2_tasks w ! u)" using assms(2) \<open>u < length (w2_tasks w)\<close> by (simp add: all_paid_def)
      then show ?thesis using False \<open>u < length (w2_tasks w)\<close> sends_by_other [OF act(3) False] by (simp add: nth_append paid_def)
    qed
  next
    case False
    then have "sends_by u s1 = []" using sends_by_other [OF act(3), of u] act(2) assms(2) by (simp add: all_paid_def)
    moreover have "((w2_tasks w)[t := c1] @ spawned) ! u \<in> set spawned" using u False by (simp add: nth_append)
    ultimately show ?thesis using spawned_send_nothing [OF act(3)] by (intro paid_fresh) auto
  qed
  moreover have "sends_by u s1 = []" if "length (w2_tasks w) + length spawned \<le> u" for u
    using sends_by_other [OF act(3), of u] act(2) that assms(2) by (simp add: all_paid_def)
  ultimately show ?thesis using act(1) by (simp add: all_paid_def)
next
  case (begin_task c)
  have "paid (w2_shared w) (length (w2_tasks w)) c"
    using begin_task(2) assms(2) by (intro paid_fresh) (auto simp: all_paid_def h2_starting_def max_attempts_def)
  then show ?thesis using begin_task(1) assms(2) by (auto simp: all_paid_def nth_append less_Suc_eq)
qed (use assms(2) in \<open>auto simp: all_paid_def paid_def sends_by_def\<close>)

text \<open>
  C23. A request that a client sends once is handed to an upstream connection at most once when its method is not idempotent, or when it
  opens a websocket, and at most twice otherwise, whatever fails, dies, is revived or is retried meanwhile.
\<close>

theorem h2_request_sent_at_most:
  assumes "h2_reachable params w"
  shows "\<exists>idempotent. (\<forall>x \<in> set (sends_by t (w2_shared w)). fst (snd x) = idempotent) \<and>
    length (sends_by t (w2_shared w)) \<le> (if idempotent then 2 else 1)"
proof -
  have "world_ok w \<and> all_paid w"
    by (rule h2_invariant [OF assms]) (auto intro: all_paid_step, simp add: all_paid_def new_h2_world_def sends_by_def)
  then have "paid (w2_shared w) t (w2_tasks w ! t) \<or> sends_by t (w2_shared w) = []"
    by (cases "t < length (w2_tasks w)") (auto simp: all_paid_def)
  then show ?thesis
  proof
    assume "paid (w2_shared w) t (w2_tasks w ! t)"
    then obtain i n where "\<forall>x \<in> set (sends_by t (w2_shared w)). fst (snd x) = i" "length (sends_by t (w2_shared w)) + n \<le> max_attempts i"
      unfolding paid_def by blast
    then show ?thesis by (intro exI [of _ i]) (auto simp: max_attempts_def)
  qed simp
qed

section \<open>How often an entry is dialled\<close>

definition dials_of :: "nat \<Rightarrow> h2_shared \<Rightarrow> int list" where
  "dials_of e s = map snd [x \<leftarrow> s2_dials s. fst x = e]"

fun stamping :: "h2_task \<Rightarrow> nat option" where
  "stamping (LkStamp who e) = Some e"
| "stamping c = None"

lemma stamping_simps [simp]: "stamping (after_h2_revive who e ok) = None" "stamping (continue k) = None"
  by (cases who; cases ok; simp) (cases k; simp)

lemma stamping_holds: "stamping c = Some e \<Longrightarrow> lock_held c = Some e"
  by (cases c) auto

abbreviation cooldown_of :: "h2_shared \<Rightarrow> int" where
  "cooldown_of s \<equiv> m2_revive_cooldown (p2_params (s2_pool s))"

lemma dial_step:
  assumes "h2_step self s c s1 c1 spawned" and "task_ok (length (s2_entries s)) c"
  shows "s2_now s1 = s2_now s \<and>
    (case stamping c of
       Some d \<Rightarrow> dials_of e s1 = dials_of e s @ (if e = d then [s2_now s] else []) \<and>
         e2_last_revive_attempt (entry_at s1 e) = (if e = d then s2_now s else e2_last_revive_attempt (entry_at s e)) \<and> stamping c1 = None
     | None \<Rightarrow> dials_of e s1 = dials_of e s \<and>
         (e < length (s2_entries s) \<longrightarrow> e2_last_revive_attempt (entry_at s1 e) = e2_last_revive_attempt (entry_at s e)) \<and>
         (stamping c1 = Some e \<longrightarrow> revive_cooldown_remaining (s2_now s) (cooldown_of s) (entry_at s e) = None))"
  using assms
  by (induction rule: h2_step.induct)
    (auto simp: h2_pieces dials_of_def entry_at_set_entry pick_bound nth_bound entry_at_add_entry try_push_def
      split: if_splits option.splits)

lemma spawned_stamp_nothing: "h2_step self s c s1 c1 spawned \<Longrightarrow> c2 \<in> set spawned \<Longrightarrow> stamping c2 = None"
  by (induction rule: h2_step.induct) auto

lemma cooldown_over:
  "revive_cooldown_remaining now cooldown x = None \<Longrightarrow> e2_last_revive_attempt x \<le> now \<Longrightarrow> cooldown \<le> now - e2_last_revive_attempt x"
  by (auto simp: revive_cooldown_remaining_def Let_def split: if_splits)

lemma two_positions:
  assumes "length (filter P xs) \<le> 1" and "t < length xs" "u < length xs" "P (xs ! t)" "P (xs ! u)"
  shows "t = u"
proof (rule ccontr)
  assume "t \<noteq> u"
  then have "{t, u} \<subseteq> {i. i < length xs \<and> P (xs ! i)}" using assms by auto
  then have "card {t, u} \<le> length (filter P xs)"
    unfolding length_filter_conv_card by (intro card_mono) auto
  with assms(1) \<open>t \<noteq> u\<close> show False by simp
qed

definition due :: "nat \<Rightarrow> h2_shared \<Rightarrow> bool" where
  "due e s \<longleftrightarrow> dials_of e s = [] \<or> cooldown_of s \<le> s2_now s - last (dials_of e s)"

definition dials_apart :: "nat \<Rightarrow> h2_world \<Rightarrow> bool" where
  "dials_apart e w \<longleftrightarrow> (let s = w2_shared w in
     successively (\<lambda>a b. cooldown_of s \<le> b - a) (dials_of e s) \<and>
     (dials_of e s \<noteq> [] \<longrightarrow> e < length (s2_entries s) \<and> last (dials_of e s) = e2_last_revive_attempt (entry_at s e) \<and>
        last (dials_of e s) \<le> s2_now s) \<and>
     (\<forall>c \<in> set (w2_tasks w). stamping c = Some e \<longrightarrow> due e s))"

lemma dials_apart_step:
  assumes "h2_world_step w w1" and ok: "world_ok w" and locks: "length [c \<leftarrow> w2_tasks w. lock_held c = Some e] \<le> 1" and sp: "dials_apart e w"
  shows "dials_apart e w1"
  using assms(1)
proof (cases rule: h2_world_step.cases)
  case (act t s1 c1 spawned)
  let ?s = "w2_shared w" and ?c = "w2_tasks w ! t"
  have c: "?c \<in> set (w2_tasks w)" "task_ok (length (s2_entries ?s)) ?c" "clients_ok ?s" using ok act(2) by (auto simp: world_ok_def)
  note step = dial_step [OF act(3) c(2), of e] params_step [OF act(3)] h2_step_ok(1) [OF act(3) c(2,3)]
  have others: "stamping x \<noteq> Some e" if st: "stamping ?c = Some e" "x \<in> set ((w2_tasks w)[t := c1])" "stamping c1 = None" for x
  proof
    assume x: "stamping x = Some e"
    obtain u where at: "u < length (w2_tasks w)" "(w2_tasks w)[t := c1] ! u = x" using st(2) by (auto simp: in_set_conv_nth)
    then have "u \<noteq> t" using x st(3) by auto
    with at have u: "u < length (w2_tasks w)" "w2_tasks w ! u = x" "u \<noteq> t" by auto
    have "u = t"
      by (rule two_positions [OF locks]) (use u x st(1) act(2) stamping_holds in auto)
    with u(3) show False ..
  qed
  show ?thesis
  proof (cases "stamping ?c = Some e")
    case True
    have "due e ?s" using sp c(1) True by (auto simp: dials_apart_def Let_def)
    moreover have "dials_of e s1 = dials_of e ?s @ [s2_now ?s]" "s2_now s1 = s2_now ?s" "stamping c1 = None"
        "e2_last_revive_attempt (entry_at s1 e) = s2_now ?s"
      using step(1) True by simp_all
    moreover have "e < length (s2_entries s1)"
      using c(2) True step(3) by (cases ?c) auto
    ultimately show ?thesis
      using act(1) sp step(2) others [OF True] spawned_stamp_nothing [OF act(3)]
      by (auto simp: dials_apart_def Let_def due_def successively_append_iff)
  next
    case False
    have "dials_of e s1 = dials_of e ?s" "s2_now s1 = s2_now ?s"
      "e < length (s2_entries ?s) \<Longrightarrow> e2_last_revive_attempt (entry_at s1 e) = e2_last_revive_attempt (entry_at ?s e)"
      "stamping c1 = Some e \<Longrightarrow> revive_cooldown_remaining (s2_now ?s) (cooldown_of ?s) (entry_at ?s e) = None"
      using step(1) False by (auto split: option.splits if_splits)
    moreover from this sp have "stamping c1 = Some e \<Longrightarrow> due e ?s"
      using cooldown_over [of "s2_now ?s" "cooldown_of ?s" "entry_at ?s e"] by (auto simp: dials_apart_def Let_def due_def)
    ultimately show ?thesis
      using act(1) sp step(2,3) spawned_stamp_nothing [OF act(3)]
      by (auto simp: dials_apart_def Let_def due_def dest!: set_update_subset_insert [THEN subsetD])
  qed
next
  case (begin_task c)
  then show ?thesis using sp by (auto simp: dials_apart_def Let_def h2_starting_def)
next
  case (clock now)
  then show ?thesis using sp by (auto simp: dials_apart_def Let_def due_def dials_of_def)
qed (use sp in \<open>auto simp: dials_apart_def Let_def due_def dials_of_def set_pool_def entry_at_def\<close>)

text \<open>
  C25. The revivals of one entry, by requests and in the background alike, dial at most once per \<open>revive_cooldown\<close>: the times at which
  they dial are at least that far apart, in every interleaving with a clock that does not step back.
\<close>

theorem h2_revive_dials_spaced:
  assumes "h2_reachable params w"
  shows "successively (\<lambda>earlier later. m2_revive_cooldown params \<le> later - earlier) (dials_of e (w2_shared w))"
proof -
  have "world_ok w \<and> (locks2.balanced e w \<and> dials_apart e w)"
  proof (rule h2_invariant [OF assms])
    show "locks2.balanced e (new_h2_world params now) \<and> dials_apart e (new_h2_world params now)" if "0 \<le> now" for now
      by (simp add: locks2.balanced_def dials_apart_def dials_of_def) (simp add: new_h2_world_def)
    fix v v1
    assume v: "h2_world_step v v1" "world_ok v" "locks2.balanced e v \<and> dials_apart e v"
    then have "length [c \<leftarrow> w2_tasks v. lock_held c = Some e] \<le> 1"
      by (cases "lock_taken e (w2_shared v)") (simp_all add: locks2.balanced_def sum_of_bool)
    then show "locks2.balanced e v1 \<and> dials_apart e v1" using v locks2.balanced_step dials_apart_step by blast
  qed
  then show ?thesis using params_kept [OF assms] by (simp add: dials_apart_def Let_def)
qed

section \<open>A request finishes by its own steps\<close>

text \<open>A bound on the steps a request has left, for pools of at most \<open>n\<close> entries.\<close>

fun work :: "nat \<Rightarrow> h2_task \<Rightarrow> nat" where
  "work n (ReqLoop r) = r2_left r * (10 * n + 27) + 1"
| "work n (GcBegin r) = r2_left r * (10 * n + 27) + (10 * n + 27)"
| "work n (GcDial r) = r2_left r * (10 * n + 27) + 16"
| "work n (GcPush r e) = r2_left r * (10 * n + 27) + 15"
| "work n (GcGrow r e) = r2_left r * (10 * n + 27) + 14"
| "work n (GcNext r snap) = r2_left r * (10 * n + 27) + (9 * length snap + n + 26)"
| "work n (GcScan r snap start i) = r2_left r * (10 * n + 27) + (9 * (length snap - i) + n + 25)"
| "work n (GcAlive r snap start i) = r2_left r * (10 * n + 27) + (9 * (length snap - i) + n + 24)"
| "work n (GcMark r snap start i) = r2_left r * (10 * n + 27) + (9 * (length snap - i) + n + 23)"
| "work n (Spawn stage e (ToScan r snap start i)) = r2_left r * (10 * n + 27) + (9 * (length snap - i) + n + 25 + (6 - stage))"
| "work n (Spawn stage e (ToLoop r)) = r2_left r * (10 * n + 27) + (2 + (6 - stage))"
| "work n (AwaitLk (Fg r start) e) = r2_left r * (10 * n + 27) + (n + 24)"
| "work n (LkHeld (Fg r start) e) = r2_left r * (10 * n + 27) + (n + 23)"
| "work n (LkCooldown (Fg r start) e) = r2_left r * (10 * n + 27) + (n + 22)"
| "work n (LkStamp (Fg r start) e) = r2_left r * (10 * n + 27) + (n + 21)"
| "work n (LkDial (Fg r start) e) = r2_left r * (10 * n + 27) + (n + 20)"
| "work n (LkClient (Fg r start) e client) = r2_left r * (10 * n + 27) + (n + 19)"
| "work n (LkSuccess (Fg r start) e) = r2_left r * (10 * n + 27) + (n + 18)"
| "work n (LkLive (Fg r start) e) = r2_left r * (10 * n + 27) + (n + 17)"
| "work n (LkRelease (Fg r start) e ok) = r2_left r * (10 * n + 27) + (n + 16)"
| "work n (Rescan r start) = r2_left r * (10 * n + 27) + (n + 14)"
| "work n (RescanAt r snap start i) = r2_left r * (10 * n + 27) + (length snap - i + 13)"
| "work n (ReqClient r e) = r2_left r * (10 * n + 27) + 12"
| "work n (ReqSend r e client) = r2_left r * (10 * n + 27) + 11"
| "work n (ReqCurrent r e client) = r2_left r * (10 * n + 27) + 10"
| "work n (ReqKill r e) = r2_left r * (10 * n + 27) + 9"
| "work n WsDial = 2"
| "work n (WsSend client) = 1"
| "work n c = 0"

lemma work_revive: "who = Fg r start \<Longrightarrow> work n (after_h2_revive who e ok) \<le> r2_left r * (10 * n + 27) + (n + 14)"
  by (cases ok) auto

lemma work_decreases:
  assumes "h2_step self s c s1 c1 spawned" and "sends_left c \<noteq> None" and "clients_ok s" and "task_ok (length (s2_entries s)) c"
  shows "work (h2_target s) c1 < work (h2_target s) c"
  using assms
proof (induction rule: h2_step.induct)
  case (attempt s r)
  then show ?case by (cases "r2_left r") (auto simp: next_attempt_def)
next
  case (gc_begin s r)
  then show ?case by (auto simp: h2_begin_step_def Let_def clients_ok_def)
next
  case (look_again s r start)
  then show ?case by (auto simp: clients_ok_def)
next
  case (spawn_refuse stage e s k)
  then show ?case by (cases k) auto
next
  case (spawn_test stage e s k)
  then show ?case by (cases k) auto
next
  case (spawn_swap stage e s k)
  then show ?case by (cases k) auto
next
  case (lk_release s who e ok)
  then show ?case by (cases who; cases ok) auto
qed (auto simp: h2_pieces sends_left_who split: if_splits option.splits h2_reviver.splits)

lemma request_enabled:
  assumes "sends_left c \<noteq> None"
  shows "\<exists>s1 c1 spawned. h2_step self s c s1 c1 spawned"
proof (cases c)
  case (Spawn stage e k)
  then show ?thesis
    by (cases "spawn_refused stage e s"; cases "stage < 4") (blast intro: h2_step.intros leI)+
next
  case (AwaitLk who e)
  then obtain r start where "who = Fg r start" using assms by (cases who) auto
  then show ?thesis using AwaitLk h2_step.lk_timeout by blast
qed (insert assms, (hypsubst, (blast intro: h2_step.intros | simp))+)


section \<open>A run\<close>

text \<open>
  A pool of one connection: a request dials it and fails on it, which starts a background revival that has just dialled; the
  request is about to try again.
\<close>

definition one_conn :: H2PoolParams where
  "one_conn = \<lparr>m2_pool_size = 1, m2_health_check_path = None, m2_hot_window = 30, m2_revive_cooldown = 10\<rparr>"

definition run_pool :: "nat list \<Rightarrow> UpstreamStatus \<Rightarrow> H2Pool" where
  "run_pool clients status = \<lparr>p2_params = one_conn, p2_clients = clients, p2_next = 0, p2_shutdown = False, p2_top_up_pending = False,
     p2_last_status = status\<rparr>"

definition run_entry :: "bool \<Rightarrow> bool \<Rightarrow> int \<Rightarrow> bool \<Rightarrow> H2Entry" where
  "run_entry dead pending stamp locked = \<lparr>e2_client = 0, e2_dead = dead, e2_last_success = 100, e2_revive_pending = pending,
     e2_last_revive_attempt = stamp, e2_revive_lock = locked\<rparr>"

definition run_shared :: "nat list \<Rightarrow> H2Entry list \<Rightarrow> (nat \<times> bool \<times> nat) list \<Rightarrow> (nat \<times> int) list \<Rightarrow> h2_shared" where
  "run_shared clients entries sent dials =
     \<lparr>s2_pool = run_pool clients (if entries = [] then StatusUnknown else StatusOk), s2_entries = entries,
      s2_alive = replicate (length entries) True, s2_now = 100, s2_sent = sent, s2_dials = dials\<rparr>"

definition run_world :: "h2_shared \<Rightarrow> h2_task list \<Rightarrow> h2_world" where
  "run_world s cs = \<lparr>w2_shared = s, w2_tasks = cs\<rparr>"

definition get_request :: "nat \<Rightarrow> h2_request" where
  "get_request left = \<lparr>r2_idempotent = True, r2_left = left\<rparr>"

lemmas run_defs = one_conn_def run_pool_def run_entry_def run_shared_def get_request_def h2_pieces new_h2_entry_def h2_target_def
  entry_at_def next_attempt_def h2_begin_step_def try_push_def add_entry_def connected_def set_entry_def set_pool_def
  revive_cooldown_remaining_def spawn_refused_def

lemma run_act:
  assumes "h2_reachable one_conn (run_world s cs)" and "h2_step t s (cs ! t) s1 c1 spawned" and "t < length cs"
    and "s2 = s1" and "cs2 = cs[t := c1] @ spawned"
  shows "h2_reachable one_conn (run_world s2 cs2)"
  using assms h2_world_step.act [of t "run_world s cs" s1 c1 spawned]
  by (auto simp: run_world_def h2_reachable_def intro: rtranclp.rtrancl_into_rtrancl)

abbreviation fresh_run :: h2_shared where
  "fresh_run \<equiv> run_shared [] [] [] []"

abbreviation grown_run :: "H2Entry \<Rightarrow> (nat \<times> bool \<times> nat) list \<Rightarrow> (nat \<times> int) list \<Rightarrow> h2_shared" where
  "grown_run e sent dials \<equiv> run_shared [0] [e] sent dials"

lemma run_starts: "h2_reachable one_conn (run_world fresh_run [ReqLoop (get_request 2)])"
proof -
  have "h2_starting (ReqLoop (get_request 2))"
    unfolding h2_starting_def get_request_def by (intro disjI1 exI [of _ True]) (simp add: max_attempts_def)
  from h2_world_step.begin_task [OF this, of "new_h2_world one_conn 100"]
  have "h2_world_step (new_h2_world one_conn 100) (run_world fresh_run [ReqLoop (get_request 2)])"
    by (simp add: new_h2_world_def new_h2_pool_def run_world_def run_shared_def run_pool_def)
  then show ?thesis unfolding h2_reachable_def by (intro exI [of _ 100]) auto
qed

lemma run_sends: "h2_reachable one_conn (run_world (grown_run (run_entry False False 0 False) [(0, True, 0)] []) [ReqSend (get_request 1) 0 0])"
proof -
  let ?e = "run_entry False False 0 False"
  note start = run_starts
  have "h2_reachable one_conn (run_world fresh_run [GcBegin (get_request 1)])"
    by (rule run_act [where t = 0, OF start]) (simp, rule h2_step.attempt, simp_all add: run_defs)
  then have "h2_reachable one_conn (run_world fresh_run [GcDial (get_request 1)])"
    by (rule run_act [where t = 0]) (simp, rule h2_step.gc_begin, simp_all add: run_defs)
  then have "h2_reachable one_conn (run_world (run_shared [] [?e] [] []) [GcPush (get_request 1) 0])"
    by (rule run_act [where t = 0]) (simp, rule h2_step.gc_dial_ok, simp_all add: run_defs)
  then have "h2_reachable one_conn (run_world (run_shared [] [?e] [] []) [GcGrow (get_request 1) 0])"
    by (rule run_act [where t = 0]) (simp, rule h2_step.gc_push, simp_all add: run_defs)
  then have "h2_reachable one_conn (run_world (grown_run ?e [] []) [ReqClient (get_request 1) 0])"
    by (rule run_act [where t = 0]) (simp, rule h2_step.gc_grow, simp_all add: run_defs)
  then show ?thesis
    by (rule run_act [where t = 0]) (simp, rule h2_step.send, simp_all add: run_defs)
qed

lemma run_fails:
  "h2_reachable one_conn (run_world (grown_run (run_entry True True 0 False) [(0, True, 0)] []) [ReqLoop (get_request 1), RvTask 0])"
proof -
  let ?w = "\<lambda>dead. run_world (grown_run (run_entry dead False 0 False) [(0, True, 0)] [])" and ?r = "get_request 1"
  have "h2_reachable one_conn (?w False [ReqCurrent ?r 0 0])"
    by (rule run_act [where t = 0, OF run_sends]) (simp, rule h2_step.connection_level, simp_all)
  then have "h2_reachable one_conn (?w False [ReqKill ?r 0])"
    by (rule run_act [where t = 0]) (simp, rule h2_step.current, simp_all add: run_defs)
  then have s: "h2_reachable one_conn (?w True [Spawn 0 0 (ToLoop ?r)])"
    by (rule run_act [where t = 0]) (simp, rule h2_step.kill, simp_all add: run_defs)
  have next_test: "h2_reachable one_conn (?w True [Spawn (Suc n) 0 (ToLoop ?r)])"
    if "h2_reachable one_conn (?w True [Spawn n 0 (ToLoop ?r)])" "n < 4" for n
    by (rule run_act [where t = 0, OF that(1)]) (simp, rule h2_step.spawn_test, use that(2) in \<open>simp_all add: run_defs\<close>)
  have "h2_reachable one_conn (?w True [Spawn 4 0 (ToLoop ?r)])"
    using s next_test [of 0] next_test [of 1] next_test [of 2] next_test [of 3] by (simp add: numeral_eq_Suc)
  then show ?thesis
    by (rule run_act [where t = 0]) (simp, rule h2_step.spawn_swap, simp_all add: run_defs)
qed

lemma run_revives:
  "h2_reachable one_conn (run_world (grown_run (run_entry True True 100 True) [(0, True, 0)] [(0, 100)]) [ReqLoop (get_request 1), LkDial Bg 0])"
proof -
  let ?w = "\<lambda>lock c. run_world (grown_run (run_entry True True 0 lock) [(0, True, 0)] []) [ReqLoop (get_request 1), c]"
  have "h2_reachable one_conn (?w False (AwaitLk Bg 0))"
    by (rule run_act [where t = 1, OF run_fails]) (simp, rule h2_step.rv_task, simp_all add: run_defs)
  then have "h2_reachable one_conn (?w True (LkHeld Bg 0))"
    by (rule run_act [where t = 1]) (simp, rule h2_step.lk_take, simp_all add: run_defs)
  then have "h2_reachable one_conn (?w True (LkCooldown Bg 0))"
    by (rule run_act [where t = 1]) (simp, rule h2_step.lk_held, simp_all add: run_defs)
  then have "h2_reachable one_conn (?w True (LkStamp Bg 0))"
    by (rule run_act [where t = 1]) (simp, rule h2_step.lk_cooldown, simp_all add: run_defs)
  then show ?thesis
    by (rule run_act [where t = 1]) (simp, rule h2_step.lk_stamp, simp_all add: run_defs)
qed

theorem h2_pool_flags_exact_witness:
  "length [c \<leftarrow> [ReqLoop (get_request 1), LkDial Bg 0]. lock_held c = Some 0] = 1 \<and>
   length [c \<leftarrow> [ReqLoop (get_request 1), LkDial Bg 0]. revival_of c = Some 0] = 1"
  using h2_pool_flags_exact [OF run_revives, of 0] by (simp add: run_world_def run_shared_def run_entry_def lock_taken_def pending_set_def)

theorem h2_request_sent_at_most_witness:
  "\<exists>idempotent. (\<forall>x \<in> {(0, True, 0)}. fst (snd x) = idempotent) \<and> length [(0, True, 0)] \<le> (if idempotent then 2 else 1 :: nat)"
  using h2_request_sent_at_most [OF run_revives, of 0] by (simp add: run_world_def run_shared_def sends_by_def)

theorem h2_revive_dials_spaced_witness:
  "successively (\<lambda>earlier later. 10 \<le> later - earlier) (dials_of 0 (grown_run (run_entry True True 100 True) [(0, True, 0)] [(0, 100)]))"
  using h2_revive_dials_spaced [OF run_revives, of 0] by (simp add: run_world_def one_conn_def)


end
