(* ===== verification/Config_Settings.thy ===== *)
theory Config_Settings
  imports Endpoint OAuth_Server H1_Authorize "HOL-Library.AList"
begin

text \<open>
  The settings file and what the variables make of it: \<open>src/src/settings\<close> and \<open>src/src/settings_compiled\<close>.
  A \<open>HashMap\<close> that is only looked up is a map; one that is iterated is the list its iterator yields. Messages
  of an error are the constructors of \<open>config_error\<close>. Not modelled: reading and parsing the files.
\<close>

section \<open>Errors\<close>

datatype config_error =
    MixedCaseVariable bytes
  | VariableNotFound bytes
  | BadHost bytes
  | UnknownEndpointType bytes
  | UnknownLocationType bytes
  | ProxyPassToRequired
  | NoTcpLocation bytes
  | InvalidRemoteHost bytes
  | InvalidGatewaySource bytes
  | SshKeyNotLoaded bytes
  | TemplateNotFound bytes
  | UserListNotFound bytes
  | IpListNotFound bytes
  | GoogleAuthNotFound bytes
  | OAuthNotFound bytes
  | OAuthEmptyField bytes
  | ClientCaNotFound bytes
  | ClientCaNotLoaded bytes
  | SslCertificateNotFound bytes
  | SslSourcesIncomplete bytes
  | FileNotLoaded bytes
  | OAuthOnMcp bytes
  | McpH2OnHttp1 bytes
  | AlreadyTcp bytes
  | PortTypeConflict bytes

type_synonym 'a compiled = "(config_error, 'a) outcome"

fun map_compiled :: "('a \<Rightarrow> 'b compiled) \<Rightarrow> 'a list \<Rightarrow> 'b list compiled" where
  "map_compiled f [] = Ok []"
| "map_compiled f (x # xs) = rbind (f x) (\<lambda>y. rbind (map_compiled f xs) (\<lambda>ys. Ok (y # ys)))"

definition opt_compiled :: "('a \<Rightarrow> 'b compiled) \<Rightarrow> 'a option \<Rightarrow> 'b option compiled" where
  "opt_compiled f x = (case x of None \<Rightarrow> Ok None | Some v \<Rightarrow> rbind (f v) (\<lambda>y. Ok (Some y)))"

section \<open>Timeouts\<close>

record TimeoutsSettings =
  ts_connect_timeout :: "u64 option"
  ts_request_timeout :: "u64 option"
  ts_read_timeout :: "u64 option"
  ts_write_timeout :: "u64 option"
  ts_pool_size :: "u8 option"
  ts_pool_ping_timeout :: "u64 option"
  ts_pool_hot_window :: "u64 option"

definition default_timeouts :: TimeoutsSettings where
  "default_timeouts = \<lparr>ts_connect_timeout = None, ts_request_timeout = None, ts_read_timeout = None, ts_write_timeout = None,
     ts_pool_size = None, ts_pool_ping_timeout = None, ts_pool_hot_window = None\<rparr>"

text \<open>Durations in milliseconds.\<close>

record ResolvedTimeouts =
  rt_connect_timeout :: nat
  rt_request_timeout :: nat
  rt_read_timeout :: nat
  rt_write_timeout :: nat
  rt_pool_size :: u8
  rt_pool_ping_timeout :: nat
  rt_pool_hot_window :: nat

definition opt_or :: "'a option \<Rightarrow> 'a option \<Rightarrow> 'a option" where
  "opt_or a b = (case a of Some _ \<Rightarrow> a | None \<Rightarrow> b)"

definition overriden_by :: "TimeoutsSettings \<Rightarrow> TimeoutsSettings \<Rightarrow> TimeoutsSettings" where
  "overriden_by lower higher =
     \<lparr>ts_connect_timeout = opt_or (ts_connect_timeout higher) (ts_connect_timeout lower),
      ts_request_timeout = opt_or (ts_request_timeout higher) (ts_request_timeout lower),
      ts_read_timeout = opt_or (ts_read_timeout higher) (ts_read_timeout lower),
      ts_write_timeout = opt_or (ts_write_timeout higher) (ts_write_timeout lower),
      ts_pool_size = opt_or (ts_pool_size higher) (ts_pool_size lower),
      ts_pool_ping_timeout = opt_or (ts_pool_ping_timeout higher) (ts_pool_ping_timeout lower),
      ts_pool_hot_window = opt_or (ts_pool_hot_window higher) (ts_pool_hot_window lower)\<rparr>"

definition ms_or :: "u64 option \<Rightarrow> nat \<Rightarrow> nat" where
  "ms_or val hard_coded = (case val of Some v \<Rightarrow> unat v | None \<Rightarrow> hard_coded)"

definition resolve_timeouts :: "TimeoutsSettings \<Rightarrow> ResolvedTimeouts" where
  "resolve_timeouts t =
     \<lparr>rt_connect_timeout = ms_or (ts_connect_timeout t) 5000,
      rt_request_timeout = ms_or (ts_request_timeout t) 15000,
      rt_read_timeout = ms_or (ts_read_timeout t) 180000,
      rt_write_timeout = ms_or (ts_write_timeout t) 30000,
      rt_pool_size = unwrap_or 5 (ts_pool_size t),
      rt_pool_ping_timeout = ms_or (ts_pool_ping_timeout t) 1000,
      rt_pool_hot_window = ms_or (ts_pool_hot_window t) 3000\<rparr>"

section \<open>The settings file\<close>

record EndpointSettings =
  es_endpoint_type :: bytes
  es_ssl_certificate :: "bytes option"
  es_client_certificate_ca :: "bytes option"
  es_google_auth :: "bytes option"
  es_oauth :: "bytes option"
  es_modify_http_headers :: "ModifyHttpHeadersSettings option"
  es_inject_country :: "bool option"
  es_whitelisted_ip :: "bytes option"
  es_template_id :: "bytes option"
  es_allowed_users :: "bytes option"
  es_keep_alive :: "bool option"
  es_track_metrics_by_all_domains :: "bool option"
  es_hsts :: "bool option"
  es_mcp_buffer_size :: "bytes option"
  es_timeouts :: TimeoutsSettings

record LocationSettings =
  ls_path :: "bytes option"
  ls_proxy_pass_to :: "bytes option"
  ls_location_type :: "bytes option"
  ls_domain_name :: "bytes option"
  ls_modify_http_headers :: "ModifyHttpHeadersSettings option"
  ls_default_file :: "bytes option"
  ls_status_code :: "nat option"
  ls_content_type :: "bytes option"
  ls_body :: "bytes option"
  ls_whitelisted_ip :: "bytes option"
  ls_compress :: "bool option"
  ls_auth_header :: "bytes option"
  ls_allowed_hosts :: "bytes list option"
  ls_timeouts :: TimeoutsSettings

record HostSettings =
  ho_endpoint :: EndpointSettings
  ho_locations :: "LocationSettings list"

record EndpointTemplateSettings =
  et_ssl_certificate :: "bytes option"
  et_client_certificate_ca :: "bytes option"
  et_google_auth :: "bytes option"
  et_oauth :: "bytes option"
  et_modify_http_headers :: "ModifyHttpHeadersSettings option"
  et_whitelisted_ip :: "bytes option"

record SshConfigSettings =
  ss_password :: "bytes option"
  ss_private_key_file :: "bytes option"
  ss_passphrase :: "bytes option"

record SslCertificatesSettingsModel =
  sl_id :: bytes
  sl_certificate :: "bytes option"
  sl_private_key :: "bytes option"

record ClientCertificateCaSettings =
  ca_id :: bytes
  ca_ca :: bytes
  ca_revocation_list :: "bytes option"

record GatewayServerSettings =
  gs_port :: u16
  gs_allowed_ip :: "bytes list option"
  gs_authorized_keys :: "bytes list"

record GatewayClientSettings =
  gt_remote_host :: bytes
  gt_ssh_credentials :: bytes
  gt_compress :: "bool option"
  gt_allow_incoming_forward_connections :: "bool option"
  gt_connect_timeout :: "u64 option"
  gt_sync_ssl_certificates :: "bytes list option"

text \<open>The part of the global settings that the compilation of hosts reads.\<close>

record GlobalSettings =
  gg_modify_http_headers :: "ModifyHttpHeadersSettings option"
  gg_ip_blocklist_white_list :: "bytes list option"
  gg_show_error_description :: "bool option"
  gg_timeouts :: TimeoutsSettings

record SettingsModel =
  sm_hosts :: "(bytes \<times> HostSettings) list"
  sm_variables :: "(bytes \<times> bytes) list option"
  sm_ssl_certificates :: "SslCertificatesSettingsModel list option"
  sm_client_certificate_ca :: "ClientCertificateCaSettings list option"
  sm_global_settings :: "GlobalSettings option"
  sm_g_auth :: "(bytes \<times> GoogleAuthCredentials) list option"
  sm_oauth :: "(bytes \<times> OAuthSettings) list option"
  sm_ssh :: "(bytes \<times> SshConfigSettings) list option"
  sm_endpoint_templates :: "(bytes \<times> EndpointTemplateSettings) list option"
  sm_allowed_users :: "(bytes \<times> bytes list) list option"
  sm_ip_white_lists :: "(bytes \<times> bytes list) list option"
  sm_gateway_server :: "GatewayServerSettings option"
  sm_gateway_clients :: "(bytes \<times> GatewayClientSettings) list option"

record SettingsCompiled =
  sc_hosts :: "(bytes \<times> HostSettings) list"
  sc_ssh :: "bytes \<rightharpoonup> SshConfigSettings"
  sc_ssl_certificates :: "SslCertificatesSettingsModel list"
  sc_client_certificate_ca :: "ClientCertificateCaSettings list"
  sc_global_settings :: "GlobalSettings option"
  sc_g_auth :: "bytes \<rightharpoonup> GoogleAuthCredentials"
  sc_oauth :: "bytes \<rightharpoonup> OAuthSettings"
  sc_endpoint_templates :: "bytes \<rightharpoonup> EndpointTemplateSettings"
  sc_allowed_users :: "bytes \<rightharpoonup> bytes list"
  sc_ip_white_lists :: "bytes \<rightharpoonup> bytes list"
  sc_gateway_server :: "GatewayServerSettings option"
  sc_gateway_clients :: "bytes \<rightharpoonup> GatewayClientSettings"

definition new_settings_compiled :: SettingsCompiled where
  "new_settings_compiled = \<lparr>sc_hosts = [], sc_ssh = Map.empty, sc_ssl_certificates = [], sc_client_certificate_ca = [], sc_global_settings = None,
     sc_g_auth = Map.empty, sc_oauth = Map.empty, sc_endpoint_templates = Map.empty, sc_allowed_users = Map.empty, sc_ip_white_lists = Map.empty,
     sc_gateway_server = None, sc_gateway_clients = Map.empty\<rparr>"

section \<open>Variables\<close>

text \<open>\<open>std::env::var\<close> and the iterator over placeholders of \<open>rust_common\<close>.\<close>

record variables_lib =
  vl_env :: "bytes \<Rightarrow> bytes option"
  vl_tokens :: "bytes \<Rightarrow> content_token list"

type_synonym VariablesCompiled = "bytes \<rightharpoonup> bytes"

definition merge_variables :: "SettingsModel \<Rightarrow> VariablesCompiled \<Rightarrow> VariablesCompiled" where
  "merge_variables settings data =
     (case sm_variables settings of None \<Rightarrow> data | Some variables \<Rightarrow> fold (\<lambda>(key, val) d. d(key \<mapsto> val)) variables data)"

datatype VariableNameType = ReservedName | VariableName

definition upper_case_letter :: "u8 \<Rightarrow> bool" where "upper_case_letter c \<longleftrightarrow> 65 \<le> c \<and> c \<le> 90"
definition lower_case_letter :: "u8 \<Rightarrow> bool" where "lower_case_letter c \<longleftrightarrow> 97 \<le> c \<and> c \<le> 122"

fun name_loop :: "bytes \<Rightarrow> bytes \<Rightarrow> bool \<Rightarrow> bool \<Rightarrow> VariableNameType compiled" where
  "name_loop src [] has_upper_case has_lower_case = Ok (if has_upper_case then ReservedName else VariableName)"
| "name_loop src (c # cs) has_upper_case has_lower_case =
     (let upper = has_upper_case \<or> upper_case_letter c;
          lower = has_lower_case \<or> (\<not> upper_case_letter c \<and> lower_case_letter c)
      in if upper \<and> lower then Err (MixedCaseVariable src) else name_loop src cs upper lower)"

definition name_characteristics :: "bytes \<Rightarrow> VariableNameType compiled" where
  "name_characteristics src = name_loop src src False False"

definition apply_placeholder :: "variables_lib \<Rightarrow> VariablesCompiled \<Rightarrow> bytes \<Rightarrow> bytes compiled" where
  "apply_placeholder L data placeholder =
     rbind (name_characteristics placeholder) (\<lambda>t.
       case t of
         ReservedName \<Rightarrow> Ok (as_bytes ''${'' @ placeholder @ as_bytes ''}'')
       | VariableName \<Rightarrow>
           (case data placeholder of
              Some val \<Rightarrow> Ok val
            | None \<Rightarrow> (case vl_env L placeholder of Some val \<Rightarrow> Ok val | None \<Rightarrow> Err (VariableNotFound placeholder))))"

fun apply_tokens :: "variables_lib \<Rightarrow> VariablesCompiled \<Rightarrow> content_token list \<Rightarrow> bytes compiled" where
  "apply_tokens L data [] = Ok []"
| "apply_tokens L data (TextToken text # items) = rbind (apply_tokens L data items) (\<lambda>rest. Ok (text @ rest))"
| "apply_tokens L data (Placeholder placeholder # items) =
     rbind (apply_placeholder L data placeholder) (\<lambda>val. rbind (apply_tokens L data items) (\<lambda>rest. Ok (val @ rest)))"

definition apply_variables :: "variables_lib \<Rightarrow> VariablesCompiled \<Rightarrow> bytes \<Rightarrow> bytes compiled" where
  "apply_variables L data val =
     (if \<not> contains_seq (as_bytes ''${'') val then Ok val else apply_tokens L data (vl_tokens L val))"

definition apply_variables_opt :: "variables_lib \<Rightarrow> VariablesCompiled \<Rightarrow> bytes option \<Rightarrow> bytes option compiled" where
  "apply_variables_opt L data val = opt_compiled (apply_variables L data) val"

section \<open>Compiled settings\<close>

definition populate_vec_of_string :: "variables_lib \<Rightarrow> VariablesCompiled \<Rightarrow> bytes list \<Rightarrow> bytes list compiled" where
  "populate_vec_of_string L data src = map_compiled (apply_variables L data) src"

definition populate_add_header ::
  "variables_lib \<Rightarrow> VariablesCompiled \<Rightarrow> AddHeaderSettingsModel list option \<Rightarrow> AddHeaderSettingsModel list option compiled" where
  "populate_add_header L data src =
     opt_compiled (map_compiled (\<lambda>itm.
       rbind (apply_variables L data (ah_name itm)) (\<lambda>name.
       rbind (apply_variables L data (ah_value itm)) (\<lambda>val. Ok \<lparr>ah_name = name, ah_value = val\<rparr>)))) src"

text \<open>A block without any rule is no block.\<close>

definition populate_modify_http_headers_settings ::
  "variables_lib \<Rightarrow> VariablesCompiled \<Rightarrow> ModifyHttpHeadersSettings option \<Rightarrow> ModifyHttpHeadersSettings option compiled" where
  "populate_modify_http_headers_settings L data modify =
     (case modify of
        None \<Rightarrow> Ok None
      | Some src \<Rightarrow>
          if mh_add_request src = None \<and> mh_add_response src = None \<and> mh_remove_request src = None \<and> mh_remove_response src = None then Ok None
          else
            rbind (populate_add_header L data (mh_add_request src)) (\<lambda>add_request.
            rbind (populate_add_header L data (mh_add_response src)) (\<lambda>add_response.
            rbind (opt_compiled (populate_vec_of_string L data) (mh_remove_request src)) (\<lambda>remove_request.
            rbind (opt_compiled (populate_vec_of_string L data) (mh_remove_response src)) (\<lambda>remove_response.
              Ok (Some \<lparr>mh_add_request = add_request, mh_add_response = add_response, mh_remove_request = remove_request,
                    mh_remove_response = remove_response\<rparr>))))))"

definition compile_location :: "variables_lib \<Rightarrow> VariablesCompiled \<Rightarrow> LocationSettings \<Rightarrow> LocationSettings compiled" where
  "compile_location L data l =
     (let opt = apply_variables_opt L data in
      rbind (opt (ls_path l)) (\<lambda>path.
      rbind (opt (ls_proxy_pass_to l)) (\<lambda>proxy_pass_to.
      rbind (opt (ls_location_type l)) (\<lambda>location_type.
      rbind (opt (ls_domain_name l)) (\<lambda>domain_name.
      rbind (populate_modify_http_headers_settings L data (ls_modify_http_headers l)) (\<lambda>modify_http_headers.
      rbind (opt (ls_default_file l)) (\<lambda>default_file.
      rbind (opt (ls_content_type l)) (\<lambda>content_type.
      rbind (opt (ls_body l)) (\<lambda>body.
      rbind (opt (ls_whitelisted_ip l)) (\<lambda>whitelisted_ip.
      rbind (opt (ls_auth_header l)) (\<lambda>auth_header.
        Ok (l\<lparr>ls_path := path, ls_proxy_pass_to := proxy_pass_to, ls_location_type := location_type, ls_domain_name := domain_name,
              ls_modify_http_headers := modify_http_headers, ls_default_file := default_file, ls_content_type := content_type,
              ls_body := body, ls_whitelisted_ip := whitelisted_ip, ls_auth_header := auth_header\<rparr>))))))))))))"

definition compile_locations :: "variables_lib \<Rightarrow> VariablesCompiled \<Rightarrow> LocationSettings list \<Rightarrow> LocationSettings list compiled" where
  "compile_locations L data locations = map_compiled (compile_location L data) locations"

definition compile_endpoint :: "variables_lib \<Rightarrow> VariablesCompiled \<Rightarrow> EndpointSettings \<Rightarrow> EndpointSettings compiled" where
  "compile_endpoint L data e =
     (let opt = apply_variables_opt L data in
      rbind (apply_variables L data (es_endpoint_type e)) (\<lambda>endpoint_type.
      rbind (opt (es_ssl_certificate e)) (\<lambda>ssl_certificate.
      rbind (opt (es_client_certificate_ca e)) (\<lambda>client_certificate_ca.
      rbind (opt (es_google_auth e)) (\<lambda>google_auth.
      rbind (opt (es_oauth e)) (\<lambda>oauth.
      rbind (populate_modify_http_headers_settings L data (es_modify_http_headers e)) (\<lambda>modify_http_headers.
      rbind (opt (es_whitelisted_ip e)) (\<lambda>whitelisted_ip.
      rbind (opt (es_template_id e)) (\<lambda>template_id.
      rbind (opt (es_allowed_users e)) (\<lambda>allowed_users.
      rbind (opt (es_mcp_buffer_size e)) (\<lambda>mcp_buffer_size.
        Ok (e\<lparr>es_endpoint_type := endpoint_type, es_ssl_certificate := ssl_certificate, es_client_certificate_ca := client_certificate_ca,
              es_google_auth := google_auth, es_oauth := oauth, es_modify_http_headers := modify_http_headers,
              es_whitelisted_ip := whitelisted_ip, es_template_id := template_id, es_allowed_users := allowed_users,
              es_mcp_buffer_size := mcp_buffer_size\<rparr>))))))))))))"

text \<open>Entries of a \<open>HashMap\<close> whose keys and values are compiled one after the other; a later entry replaces an earlier one.\<close>

fun populate_map :: "('k \<Rightarrow> 'k compiled) \<Rightarrow> ('a \<Rightarrow> 'b compiled) \<Rightarrow> ('k \<times> 'a) list \<Rightarrow> ('k \<rightharpoonup> 'b) \<Rightarrow> ('k \<rightharpoonup> 'b) compiled" where
  "populate_map key value_of [] m = Ok m"
| "populate_map key value_of ((k, v) # items) m =
     rbind (key k) (\<lambda>k1. rbind (value_of v) (\<lambda>v1. populate_map key value_of items (m(k1 \<mapsto> v1))))"

definition populate_map_opt ::
  "('k \<Rightarrow> 'k compiled) \<Rightarrow> ('a \<Rightarrow> 'b compiled) \<Rightarrow> ('k \<times> 'a) list option \<Rightarrow> ('k \<rightharpoonup> 'b) \<Rightarrow> ('k \<rightharpoonup> 'b) compiled" where
  "populate_map_opt key value_of items m = (case items of None \<Rightarrow> Ok m | Some xs \<Rightarrow> populate_map key value_of xs m)"

fun populate_hosts ::
  "variables_lib \<Rightarrow> VariablesCompiled \<Rightarrow> (bytes \<times> HostSettings) list \<Rightarrow> (bytes \<times> HostSettings) list \<Rightarrow> (bytes \<times> HostSettings) list compiled" where
  "populate_hosts L data [] out = Ok out"
| "populate_hosts L data ((host_id, host) # hosts) out =
     rbind (apply_variables L data host_id) (\<lambda>host_id1.
     rbind (compile_locations L data (ho_locations host)) (\<lambda>locations.
     rbind (compile_endpoint L data (ho_endpoint host)) (\<lambda>endpoint.
       populate_hosts L data hosts (AList.update host_id1 \<lparr>ho_endpoint = endpoint, ho_locations = locations\<rparr> out))))"

definition compile_ssh :: "variables_lib \<Rightarrow> VariablesCompiled \<Rightarrow> SshConfigSettings \<Rightarrow> SshConfigSettings compiled" where
  "compile_ssh L data itm =
     rbind (apply_variables_opt L data (ss_password itm)) (\<lambda>password.
     rbind (apply_variables_opt L data (ss_private_key_file itm)) (\<lambda>private_key_file.
     rbind (apply_variables_opt L data (ss_passphrase itm)) (\<lambda>passphrase.
       Ok \<lparr>ss_password = password, ss_private_key_file = private_key_file, ss_passphrase = passphrase\<rparr>)))"

definition compile_ssl_certificate ::
  "variables_lib \<Rightarrow> VariablesCompiled \<Rightarrow> SslCertificatesSettingsModel \<Rightarrow> SslCertificatesSettingsModel compiled" where
  "compile_ssl_certificate L data itm =
     rbind (apply_variables L data (sl_id itm)) (\<lambda>i.
     rbind (apply_variables_opt L data (sl_certificate itm)) (\<lambda>certificate.
     rbind (apply_variables_opt L data (sl_private_key itm)) (\<lambda>private_key.
       Ok \<lparr>sl_id = i, sl_certificate = certificate, sl_private_key = private_key\<rparr>)))"

definition compile_ca :: "variables_lib \<Rightarrow> VariablesCompiled \<Rightarrow> ClientCertificateCaSettings \<Rightarrow> ClientCertificateCaSettings compiled" where
  "compile_ca L data itm =
     rbind (apply_variables L data (ca_id itm)) (\<lambda>i.
     rbind (apply_variables L data (ca_ca itm)) (\<lambda>ca.
     rbind (apply_variables_opt L data (ca_revocation_list itm)) (\<lambda>revocation_list.
       Ok \<lparr>ca_id = i, ca_ca = ca, ca_revocation_list = revocation_list\<rparr>)))"

definition compile_g_auth :: "variables_lib \<Rightarrow> VariablesCompiled \<Rightarrow> GoogleAuthCredentials \<Rightarrow> GoogleAuthCredentials compiled" where
  "compile_g_auth L data itm =
     rbind (apply_variables L data (gc_client_id itm)) (\<lambda>client_id.
     rbind (apply_variables L data (gc_client_secret itm)) (\<lambda>client_secret.
     rbind (apply_variables L data (gc_whitelisted_domains itm)) (\<lambda>domains.
       Ok \<lparr>gc_client_id = client_id, gc_client_secret = client_secret, gc_whitelisted_domains = domains\<rparr>)))"

definition compile_oauth :: "variables_lib \<Rightarrow> VariablesCompiled \<Rightarrow> OAuthSettings \<Rightarrow> OAuthSettings compiled" where
  "compile_oauth L data itm =
     rbind (apply_variables L data (os_client_id itm)) (\<lambda>client_id.
     rbind (apply_variables L data (os_client_secret itm)) (\<lambda>client_secret.
     rbind (apply_variables L data (os_consent_password itm)) (\<lambda>consent_password.
     rbind (apply_variables_opt L data (os_public_url itm)) (\<lambda>public_url.
     rbind (apply_variables_opt L data (os_signing_key itm)) (\<lambda>signing_key.
     rbind (apply_variables_opt L data (os_signing_key_file itm)) (\<lambda>signing_key_file.
       Ok (itm\<lparr>os_client_id := client_id, os_client_secret := client_secret, os_consent_password := consent_password,
             os_public_url := public_url, os_signing_key := signing_key, os_signing_key_file := signing_key_file\<rparr>)))))))"

definition compile_template :: "variables_lib \<Rightarrow> VariablesCompiled \<Rightarrow> EndpointTemplateSettings \<Rightarrow> EndpointTemplateSettings compiled" where
  "compile_template L data itm =
     (let opt = apply_variables_opt L data in
      rbind (opt (et_ssl_certificate itm)) (\<lambda>ssl_certificate.
      rbind (opt (et_client_certificate_ca itm)) (\<lambda>client_certificate_ca.
      rbind (opt (et_google_auth itm)) (\<lambda>google_auth.
      rbind (opt (et_oauth itm)) (\<lambda>oauth.
      rbind (populate_modify_http_headers_settings L data (et_modify_http_headers itm)) (\<lambda>modify_http_headers.
      rbind (opt (et_whitelisted_ip itm)) (\<lambda>whitelisted_ip.
        Ok \<lparr>et_ssl_certificate = ssl_certificate, et_client_certificate_ca = client_certificate_ca, et_google_auth = google_auth,
            et_oauth = oauth, et_modify_http_headers = modify_http_headers, et_whitelisted_ip = whitelisted_ip\<rparr>)))))))"

definition compile_global :: "variables_lib \<Rightarrow> VariablesCompiled \<Rightarrow> GlobalSettings \<Rightarrow> GlobalSettings compiled" where
  "compile_global L data itm =
     rbind (populate_modify_http_headers_settings L data (gg_modify_http_headers itm)) (\<lambda>modify_http_headers.
       Ok (itm\<lparr>gg_modify_http_headers := modify_http_headers\<rparr>))"

definition compile_gateway_server :: "variables_lib \<Rightarrow> VariablesCompiled \<Rightarrow> GatewayServerSettings \<Rightarrow> GatewayServerSettings compiled" where
  "compile_gateway_server L data itm =
     rbind (map_compiled (apply_variables L data) (gs_authorized_keys itm)) (\<lambda>keys. Ok (itm\<lparr>gs_authorized_keys := keys\<rparr>))"

definition compile_gateway_client :: "variables_lib \<Rightarrow> VariablesCompiled \<Rightarrow> GatewayClientSettings \<Rightarrow> GatewayClientSettings compiled" where
  "compile_gateway_client L data itm =
     rbind (apply_variables L data (gt_remote_host itm)) (\<lambda>remote_host.
     rbind (apply_variables L data (gt_ssh_credentials itm)) (\<lambda>ssh_credentials.
       Ok (itm\<lparr>gt_remote_host := remote_host, gt_ssh_credentials := ssh_credentials\<rparr>)))"

definition appended :: "('a \<Rightarrow> 'b compiled) \<Rightarrow> 'a list option \<Rightarrow> 'b list \<Rightarrow> 'b list compiled" where
  "appended f items out = (case items of None \<Rightarrow> Ok out | Some xs \<Rightarrow> rbind (map_compiled f xs) (\<lambda>ys. Ok (out @ ys)))"

definition replaced :: "('a \<Rightarrow> 'b compiled) \<Rightarrow> 'a option \<Rightarrow> 'b option \<Rightarrow> 'b option compiled" where
  "replaced f itm out = (case itm of None \<Rightarrow> Ok out | Some x \<Rightarrow> rbind (f x) (\<lambda>y. Ok (Some y)))"

text \<open>One settings file on top of what is compiled; \<open>SshConfigSettings\<close> keep their keys as written.\<close>

definition populate_model :: "variables_lib \<Rightarrow> VariablesCompiled \<Rightarrow> SettingsModel \<Rightarrow> SettingsCompiled \<Rightarrow> SettingsCompiled compiled" where
  "populate_model L data m c =
     (let key = apply_variables L data in
      rbind (populate_hosts L data (sm_hosts m) (sc_hosts c)) (\<lambda>hosts.
      rbind (populate_map_opt Ok (compile_ssh L data) (sm_ssh m) (sc_ssh c)) (\<lambda>ssh.
      rbind (appended (compile_ssl_certificate L data) (sm_ssl_certificates m) (sc_ssl_certificates c)) (\<lambda>ssl_certificates.
      rbind (appended (compile_ca L data) (sm_client_certificate_ca m) (sc_client_certificate_ca c)) (\<lambda>client_certificate_ca.
      rbind (replaced (compile_global L data) (sm_global_settings m) (sc_global_settings c)) (\<lambda>global_settings.
      rbind (populate_map_opt key (compile_g_auth L data) (sm_g_auth m) (sc_g_auth c)) (\<lambda>g_auth.
      rbind (populate_map_opt key (compile_oauth L data) (sm_oauth m) (sc_oauth c)) (\<lambda>oauth.
      rbind (populate_map_opt key (compile_template L data) (sm_endpoint_templates m) (sc_endpoint_templates c)) (\<lambda>templates.
      rbind (populate_map_opt key (populate_vec_of_string L data) (sm_allowed_users m) (sc_allowed_users c)) (\<lambda>allowed_users.
      rbind (populate_map_opt key (populate_vec_of_string L data) (sm_ip_white_lists m) (sc_ip_white_lists c)) (\<lambda>ip_white_lists.
      rbind (replaced (compile_gateway_server L data) (sm_gateway_server m) (sc_gateway_server c)) (\<lambda>gateway_server.
      rbind (populate_map_opt key (compile_gateway_client L data) (sm_gateway_clients m) (sc_gateway_clients c)) (\<lambda>gateway_clients.
        Ok \<lparr>sc_hosts = hosts, sc_ssh = ssh, sc_ssl_certificates = ssl_certificates, sc_client_certificate_ca = client_certificate_ca,
            sc_global_settings = global_settings, sc_g_auth = g_auth, sc_oauth = oauth, sc_endpoint_templates = templates,
            sc_allowed_users = allowed_users, sc_ip_white_lists = ip_white_lists, sc_gateway_server = gateway_server,
            sc_gateway_clients = gateway_clients\<rparr>)))))))))))))"

fun populate_models :: "variables_lib \<Rightarrow> VariablesCompiled \<Rightarrow> SettingsModel list \<Rightarrow> SettingsCompiled \<Rightarrow> SettingsCompiled compiled" where
  "populate_models L data [] c = Ok c"
| "populate_models L data (m # ms) c = rbind (populate_model L data m c) (populate_models L data ms)"

text \<open>\<open>SettingsCompiled::populate\<close>: the variables of all files first, then the main file, then the included ones.\<close>

definition populate :: "variables_lib \<Rightarrow> SettingsModel \<Rightarrow> SettingsModel list \<Rightarrow> SettingsCompiled compiled" where
  "populate L settings_model include_settings =
     populate_models L (fold merge_variables (settings_model # include_settings) Map.empty) (settings_model # include_settings) new_settings_compiled"

definition get_global_timeouts :: "SettingsCompiled \<Rightarrow> TimeoutsSettings" where
  "get_global_timeouts c = (case sc_global_settings c of Some g \<Rightarrow> gg_timeouts g | None \<Rightarrow> default_timeouts)"

section \<open>Types of endpoints and locations\<close>

datatype EndpointTypeSettings = EtHttp1 | EtHttp2 | EtHttps1 | EtHttps2 | EtTcp | EtMcp

definition get_endpoint_type :: "EndpointSettings \<Rightarrow> EndpointTypeSettings compiled" where
  "get_endpoint_type e =
     (let t = es_endpoint_type e in
      if t = as_bytes ''http'' then Ok EtHttp1
      else if t = as_bytes ''http2'' then Ok EtHttp2
      else if t = as_bytes ''https'' then Ok EtHttps1
      else if t = as_bytes ''http1'' then Ok EtHttps1
      else if t = as_bytes ''https2'' then Ok EtHttps2
      else if t = as_bytes ''tcp'' then Ok EtTcp
      else if t = as_bytes ''mcp'' then Ok EtMcp
      else Err (UnknownEndpointType t))"

datatype LocationType =
    LtHttp | LtHttp2 | LtHttps1 | LtHttps2 | LtFiles | LtStaticContent | LtUnixSocketHttp | LtUnixSocketHttp2 | LtMcp | LtMcpH2 | LtDrop
  | LtDynamicProxy

definition get_location_type :: "LocationSettings \<Rightarrow> LocationType option compiled" where
  "get_location_type l =
     (case ls_location_type l of
        None \<Rightarrow> Ok None
      | Some t \<Rightarrow>
          (case map_of (map (\<lambda>(n, x). (as_bytes n, x))
              [(''unix+http'', LtUnixSocketHttp), (''unix+http2'', LtUnixSocketHttp2), (''http'', LtHttp), (''http2'', LtHttp2),
               (''https'', LtHttps1), (''https1'', LtHttps1), (''https2'', LtHttps2), (''static'', LtStaticContent), (''mcp'', LtMcp),
               (''mcp-h2'', LtMcpH2), (''drop'', LtDrop), (''dynamic'', LtDynamicProxy), (''dynamic_proxy'', LtDynamicProxy)]) t of
             Some x \<Rightarrow> Ok (Some x)
           | None \<Rightarrow> Err (UnknownLocationType t)))"

text \<open>\<open>split("->")\<close>: what precedes the first arrow, and the part after it up to the next.\<close>

fun split_arrow :: "bytes \<Rightarrow> bytes \<times> bytes option" where
  "split_arrow [] = ([], None)"
| "split_arrow (b # bs) =
     (if b = 45 \<and> take 1 bs = [62] then ([], Some (drop 1 bs)) else let (l, r) = split_arrow bs in (b # l, r))"

definition arrow_parts :: "bytes \<Rightarrow> bytes \<times> bytes option" where
  "arrow_parts src = (let (l, r) = split_arrow src in (l, map_option (\<lambda>rest. fst (split_arrow rest)) r))"

definition detect_from_location_settings :: "LocationSettings \<Rightarrow> LocationType" where
  "detect_from_location_settings l =
     (case ls_proxy_pass_to l of
        None \<Rightarrow> LtStaticContent
      | Some src \<Rightarrow>
          if eq_no_case src (as_bytes ''static'') then LtStaticContent
          else if eq_no_case src (as_bytes ''drop'') then LtDrop
          else if eq_no_case src (as_bytes ''dynamic'') \<or> eq_no_case src (as_bytes ''dynamic_proxy'') then LtDynamicProxy
          else
            let part = (case arrow_parts src of (_, Some right) \<Rightarrow> right | (left, None) \<Rightarrow> left) in
            if starts_with part (as_bytes ''unix+http2'') then LtUnixSocketHttp2
            else if starts_with part (as_bytes ''unix+http'') then LtUnixSocketHttp
            else if starts_with part (as_bytes ''https'') then LtHttps1
            else if starts_with part (as_bytes ''http'') then LtHttp
            else LtFiles)"

text \<open>\<open>get_mcp_buffer_size\<close> panics on a size that does not parse; \<open>trim\<close> is applied before a unit only.\<close>

definition parse_buffer_size :: "bytes \<Rightarrow> nat option" where
  "parse_buffer_size val =
     (if 2 \<le> length val \<and> drop (length val - 2) val = as_bytes ''Kb'' then
        map_option (\<lambda>v. v * 1024 mod 2 ^ 64) (parse_unsigned (2 ^ 64) (trim (take (length val - 2) val)))
      else if 2 \<le> length val \<and> drop (length val - 2) val = as_bytes ''Mb'' then
        map_option (\<lambda>v. v * 1024 * 1024 mod 2 ^ 64) (parse_unsigned (2 ^ 64) (trim (take (length val - 2) val)))
      else parse_unsigned (2 ^ 64) val)"

definition get_mcp_buffer_size :: "EndpointSettings \<Rightarrow> nat compiled" where
  "get_mcp_buffer_size e =
     (case es_mcp_buffer_size e of
        None \<Rightarrow> Ok (512 * 1024)
      | Some val \<Rightarrow> (case parse_buffer_size val of Some size_of \<Rightarrow> Ok size_of | None \<Rightarrow> Panic))"

end
