(* ===== verification/Config_Compile.thy ===== *)
theory Config_Compile
  imports Config_Settings
begin

text \<open>
  From compiled settings to the live configuration: \<open>src/src/scripts\<close> (\<open>compile_host_configuration\<close> and what it
  calls), \<open>src/src/flows\<close> and \<open>src/src/configurations/app_configuration_inner.rs\<close>. Loading the lists, credentials
  and certificates an endpoint refers to changes the configuration on the way, also when the endpoint
  is refused in the end. Files, SSH and the parsers of third-party crates are arguments; so is the order in which
  a \<open>HashMap\<close> yields the hosts.
\<close>

section \<open>The live configuration\<close>

record TcpEndpointHostConfig =
  th_host_endpoint :: EndpointHttpHostString
  th_remote_host :: MyReverseProxyRemoteEndpoint
  th_ip_white_list_id :: "bytes option"
  th_timeouts :: "nat \<times> nat"

datatype ListenConfiguration =
    HttpPort HttpListenPortConfiguration
  | TcpPort TcpEndpointHostConfig
  | McpPort HttpListenPortConfiguration

record app_config =
  ac_tcp :: "nat \<rightharpoonup> ListenConfiguration"
  ac_unix :: "bytes \<rightharpoonup> ListenConfiguration"
  ac_google :: "bytes \<rightharpoonup> GoogleAuthCredentials"
  ac_oauth :: "bytes \<rightharpoonup> OAuthContext"
  ac_white_lists :: "bytes \<rightharpoonup> WhitelistedIp list"
  ac_users :: users_list
  ac_client_ca :: "bytes set"
  ac_ssl_certs :: "bytes set"
  ac_errors :: "bytes \<rightharpoonup> config_error"

definition new_app_config :: app_config where
  "new_app_config = \<lparr>ac_tcp = Map.empty, ac_unix = Map.empty, ac_google = Map.empty, ac_oauth = Map.empty, ac_white_lists = Map.empty,
     ac_users = Map.empty, ac_client_ca = {}, ac_ssl_certs = {}, ac_errors = Map.empty\<rparr>"

text \<open>
  Files and third-party parsers. \<open>ce_parse_ssh\<close> splits a source into SSH credentials and the rest, \<open>ce_load_file\<close>
  reads a file or one over SSH, \<open>ce_signing_key\<close> is \<open>SigningKeyFile::load_or_create\<close>, \<open>ce_hosts\<close> the iterator over hosts.
\<close>

record config_env =
  ce_parse_ssh :: "bytes \<Rightarrow> (bytes option \<times> bytes) option"
  ce_try_parse :: "bytes \<Rightarrow> remote_endpoint option"
  ce_read_key :: "bytes \<Rightarrow> bool"
  ce_load_file :: "bytes option \<times> bytes \<Rightarrow> bytes option"
  ce_crl_ok :: "bytes \<Rightarrow> bool"
  ce_ca_ok :: "bytes \<Rightarrow> bool"
  ce_ssl_ok :: "bytes \<Rightarrow> bytes \<Rightarrow> bool"
  ce_signing_key :: "bytes \<Rightarrow> bytes option"
  ce_default_key_file :: "bytes \<Rightarrow> bytes"
  ce_location_id :: "bytes \<Rightarrow> bytes \<Rightarrow> ProxyPassToConfig \<Rightarrow> int"
  ce_eq_ci :: "bytes \<Rightarrow> bytes \<Rightarrow> bool"
  ce_hosts :: "(bytes \<times> HostSettings) list \<Rightarrow> (bytes \<times> HostSettings) list"

text \<open>A script: its result and the configuration it leaves.\<close>

type_synonym 'a script = "'a compiled \<times> app_config"

definition then_do :: "'a script \<Rightarrow> ('a \<Rightarrow> app_config \<Rightarrow> 'b script) \<Rightarrow> 'b script" where
  "then_do m f = (case m of (Ok x, c) \<Rightarrow> f x c | (Err e, c) \<Rightarrow> (Err e, c) | (Panic, c) \<Rightarrow> (Panic, c))"

section \<open>Templates\<close>

definition get_endpoint_template :: "SettingsCompiled \<Rightarrow> HostSettings \<Rightarrow> EndpointTemplateSettings option compiled" where
  "get_endpoint_template S host =
     (case es_template_id (ho_endpoint host) of
        None \<Rightarrow> Ok None
      | Some template_id \<Rightarrow>
          (case sc_endpoint_templates S template_id of
             Some template \<Rightarrow> Ok (Some template)
           | None \<Rightarrow> Err (TemplateNotFound template_id)))"

definition get_from_host_or_templates ::
  "SettingsCompiled \<Rightarrow> HostSettings \<Rightarrow> (EndpointSettings \<Rightarrow> 'a option) \<Rightarrow> (EndpointTemplateSettings \<Rightarrow> 'a option) \<Rightarrow> 'a option compiled" where
  "get_from_host_or_templates S host from_host from_template =
     (case from_host (ho_endpoint host) of
        Some x \<Rightarrow> Ok (Some x)
      | None \<Rightarrow>
          rbind (get_endpoint_template S host) (\<lambda>template.
            Ok (case template of Some t \<Rightarrow> from_template t | None \<Rightarrow> None)))"

section \<open>Lists, credentials and certificates\<close>

definition refresh_ip_list_from_settings :: "SettingsCompiled \<Rightarrow> bytes \<Rightarrow> app_config \<Rightarrow> unit script" where
  "refresh_ip_list_from_settings S list_id c =
     (case sc_ip_white_lists S list_id of
        None \<Rightarrow> (Err (IpListNotFound list_id), c)
      | Some ip_list \<Rightarrow>
          (case new_white_list ip_list of
             Ok items \<Rightarrow> (Ok (), c\<lparr>ac_white_lists := (ac_white_lists c)(list_id \<mapsto> items)\<rparr>)
           | _ \<Rightarrow> (Panic, c)))"

definition get_endpoint_white_listed_ip :: "SettingsCompiled \<Rightarrow> HostSettings \<Rightarrow> app_config \<Rightarrow> bytes option script" where
  "get_endpoint_white_listed_ip S host c =
     then_do (get_from_host_or_templates S host es_whitelisted_ip et_whitelisted_ip, c) (\<lambda>found c.
       case found of
         None \<Rightarrow> (Ok None, c)
       | Some list_id \<Rightarrow> then_do (refresh_ip_list_from_settings S list_id c) (\<lambda>_ c. (Ok (Some list_id), c)))"

definition refresh_users_list_from_settings :: "SettingsCompiled \<Rightarrow> bytes \<Rightarrow> app_config \<Rightarrow> unit script" where
  "refresh_users_list_from_settings S list_id c =
     (case sc_allowed_users S list_id of
        None \<Rightarrow> (Err (UserListNotFound list_id), c)
      | Some users \<Rightarrow> (Ok (), c\<lparr>ac_users := (ac_users c)(list_id \<mapsto> set users)\<rparr>))"

definition get_endpoint_users_list :: "SettingsCompiled \<Rightarrow> HostSettings \<Rightarrow> app_config \<Rightarrow> bytes option script" where
  "get_endpoint_users_list S host c =
     (case es_allowed_users (ho_endpoint host) of
        None \<Rightarrow> (Ok None, c)
      | Some list_id \<Rightarrow> then_do (refresh_users_list_from_settings S list_id c) (\<lambda>_ c. (Ok (Some list_id), c)))"

text \<open>The global rules and those of the endpoint; the rules of a template are not read.\<close>

definition get_endpoint_modify_headers ::
  "SettingsCompiled \<Rightarrow> HostSettings \<Rightarrow> ModifyHttpHeadersSettings option \<times> ModifyHttpHeadersSettings option" where
  "get_endpoint_modify_headers S host =
     (Option.bind (sc_global_settings S) gg_modify_http_headers, es_modify_http_headers (ho_endpoint host))"

definition self_signed_id :: bytes where "self_signed_id = as_bytes ''self_signed''"

definition load_source :: "config_env \<Rightarrow> bytes \<Rightarrow> bytes compiled" where
  "load_source E src =
     (case ce_parse_ssh E src of
        None \<Rightarrow> Err (FileNotLoaded src)
      | Some source \<Rightarrow> (case ce_load_file E source of Some content \<Rightarrow> Ok content | None \<Rightarrow> Err (FileNotLoaded src)))"

definition filled :: "bytes option \<Rightarrow> bytes option" where
  "filled s = (case s of Some v \<Rightarrow> if trim v = [] then None else Some v | None \<Rightarrow> None)"

definition get_sources :: "SslCertificatesSettingsModel \<Rightarrow> (bytes \<times> bytes) option compiled" where
  "get_sources itm =
     (case (filled (sl_certificate itm), filled (sl_private_key itm)) of
        (None, None) \<Rightarrow> Ok None
      | (Some cert, Some private_key) \<Rightarrow> Ok (Some (cert, private_key))
      | _ \<Rightarrow> Err (SslSourcesIncomplete (sl_id itm)))"

definition refresh_ssl_certs_from_sources :: "config_env \<Rightarrow> SettingsCompiled \<Rightarrow> bytes \<Rightarrow> app_config \<Rightarrow> unit script" where
  "refresh_ssl_certs_from_sources E S cert_id c =
     (case List.find (\<lambda>itm. sl_id itm = cert_id) (sc_ssl_certificates S) of
        None \<Rightarrow> (Err (SslCertificateNotFound cert_id), c)
      | Some itm \<Rightarrow>
          then_do (get_sources itm, c) (\<lambda>sources c.
            case sources of
              None \<Rightarrow> (Ok (), c)
            | Some (cert_source, private_key_source) \<Rightarrow>
                then_do (load_source E private_key_source, c) (\<lambda>private_key c.
                then_do (load_source E cert_source, c) (\<lambda>certificate c.
                  if ce_ssl_ok E private_key certificate then (Ok (), c\<lparr>ac_ssl_certs := insert cert_id (ac_ssl_certs c)\<rparr>)
                  else (Err (FileNotLoaded cert_source), c)))))"

definition make_sure_ssl_cert_exists :: "config_env \<Rightarrow> SettingsCompiled \<Rightarrow> HostSettings \<Rightarrow> app_config \<Rightarrow> bytes script" where
  "make_sure_ssl_cert_exists E S host c =
     then_do (get_from_host_or_templates S host es_ssl_certificate et_ssl_certificate, c) (\<lambda>found c.
       case found of
         None \<Rightarrow> (Ok self_signed_id, c)
       | Some cert_id \<Rightarrow>
           if cert_id = self_signed_id \<or> cert_id \<in> ac_ssl_certs c then (Ok cert_id, c)
           else
             case refresh_ssl_certs_from_sources E S cert_id c of
               (Panic, c1) \<Rightarrow> (Panic, c1)
             | (_, c1) \<Rightarrow> (Ok cert_id, c1))"

definition refresh_ca_from_sources :: "config_env \<Rightarrow> SettingsCompiled \<Rightarrow> bytes \<Rightarrow> app_config \<Rightarrow> unit script" where
  "refresh_ca_from_sources E S id1 c =
     (case List.find (\<lambda>itm. ca_id itm = id1) (sc_client_certificate_ca S) of
        None \<Rightarrow> (Err (ClientCaNotFound id1), c)
      | Some itm \<Rightarrow>
          then_do (load_source E (ca_ca itm), c) (\<lambda>ca c.
          then_do (case ca_revocation_list itm of
                     None \<Rightarrow> (Ok (), c)
                   | Some src \<Rightarrow>
                       then_do (load_source E src, c) (\<lambda>crl c.
                         if ce_crl_ok E crl then (Ok (), c) else (Err (ClientCaNotLoaded id1), c))) (\<lambda>_ c.
            if ce_ca_ok E ca then (Ok (), c\<lparr>ac_client_ca := insert id1 (ac_client_ca c)\<rparr>)
            else (Panic, c))))"

definition make_sure_client_ca_exists :: "config_env \<Rightarrow> SettingsCompiled \<Rightarrow> HostSettings \<Rightarrow> app_config \<Rightarrow> bytes option script" where
  "make_sure_client_ca_exists E S host c =
     then_do (get_from_host_or_templates S host es_client_certificate_ca et_client_certificate_ca, c) (\<lambda>found c.
       case found of
         None \<Rightarrow> (Ok None, c)
       | Some id1 \<Rightarrow>
           if id1 \<in> ac_client_ca c then (Ok (Some id1), c)
           else then_do (refresh_ca_from_sources E S id1 c) (\<lambda>_ c. (Ok (Some id1), c)))"

text \<open>Credentials that are loaded already are kept, whatever the settings say now.\<close>

definition get_google_auth_credentials :: "SettingsCompiled \<Rightarrow> HostSettings \<Rightarrow> app_config \<Rightarrow> bytes option script" where
  "get_google_auth_credentials S host c =
     then_do (get_from_host_or_templates S host es_google_auth et_google_auth, c) (\<lambda>found c.
       case found of
         None \<Rightarrow> (Ok None, c)
       | Some id1 \<Rightarrow>
           if ac_google c id1 \<noteq> None then (Ok (Some id1), c)
           else case sc_g_auth S id1 of
             Some credentials \<Rightarrow> (Ok (Some id1), c\<lparr>ac_google := (ac_google c)(id1 \<mapsto> credentials)\<rparr>)
           | None \<Rightarrow> (Err (GoogleAuthNotFound id1), c))"

definition validate_oauth :: "bytes \<Rightarrow> OAuthSettings \<Rightarrow> unit compiled" where
  "validate_oauth oauth_id s =
     (if list_ex (\<lambda>v. trim v = []) [os_client_id s, os_client_secret s, os_consent_password s] then Err (OAuthEmptyField oauth_id) else Ok ())"

definition resolve_signing_key :: "config_env \<Rightarrow> bytes \<Rightarrow> OAuthSettings \<Rightarrow> bytes compiled" where
  "resolve_signing_key E oauth_id s =
     (case filled (os_signing_key s) of
        Some key \<Rightarrow> Ok (trim key)
      | None \<Rightarrow>
          let path = unwrap_or (ce_default_key_file E oauth_id) (os_signing_key_file s) in
          (case ce_signing_key E path of Some key \<Rightarrow> Ok key | None \<Rightarrow> Err (FileNotLoaded path)))"

definition get_oauth_credentials :: "config_env \<Rightarrow> SettingsCompiled \<Rightarrow> HostSettings \<Rightarrow> app_config \<Rightarrow> bytes option script" where
  "get_oauth_credentials E S host c =
     then_do (get_from_host_or_templates S host es_oauth et_oauth, c) (\<lambda>found c.
       case found of
         None \<Rightarrow> (Ok None, c)
       | Some oauth_id \<Rightarrow>
           (case sc_oauth S oauth_id of
              None \<Rightarrow> (Err (OAuthNotFound oauth_id), c)
            | Some settings \<Rightarrow>
                then_do (validate_oauth oauth_id settings, c) (\<lambda>_ c.
                  if (case ac_oauth c oauth_id of Some cx \<Rightarrow> settings_are_the_same cx settings | None \<Rightarrow> False)
                  then (Ok (Some oauth_id), c)
                  else then_do (resolve_signing_key E oauth_id settings, c) (\<lambda>key c.
                    (Ok (Some oauth_id), c\<lparr>ac_oauth := (ac_oauth c)(oauth_id \<mapsto> new_oauth_context settings key)\<rparr>)))))"

section \<open>Upstream targets\<close>

definition get_gateway_id :: "bytes \<Rightarrow> bytes compiled" where
  "get_gateway_id src = (case find_index 58 src of None \<Rightarrow> Err (InvalidGatewaySource src) | Some i \<Rightarrow> Ok (drop (i + 1) src))"

definition parse_remote :: "config_env \<Rightarrow> bytes \<Rightarrow> remote_endpoint compiled" where
  "parse_remote E src = (case ce_try_parse E src of Some r \<Rightarrow> Ok r | None \<Rightarrow> Err (InvalidRemoteHost src))"

definition try_parse_gateway_source :: "config_env \<Rightarrow> bytes \<Rightarrow> MyReverseProxyRemoteEndpoint compiled" where
  "try_parse_gateway_source E src =
     (case arrow_parts src of
        (_, None) \<Rightarrow> Err (InvalidGatewaySource src)
      | (left, Some right) \<Rightarrow>
          rbind (get_gateway_id left) (\<lambda>gateway_id.
          rbind (parse_remote E right) (\<lambda>r. Ok (Gateway gateway_id r))))"

text \<open>
  \<open>enrich_with_private_key_or_password\<close>: the settings of the credentials, with the port or without the default one,
  may name a private key file that must be readable; the text of the credentials stays.
\<close>

definition ssh_settings :: "SettingsCompiled \<Rightarrow> bytes \<Rightarrow> SshConfigSettings option" where
  "ssh_settings S credentials =
     (case sc_ssh S credentials of
        Some config \<Rightarrow> Some config
      | None \<Rightarrow>
          if 3 \<le> length credentials \<and> drop (length credentials - 3) credentials = as_bytes '':22''
          then sc_ssh S (take (length credentials - 3) credentials) else None)"

definition enrich_with_private_key_or_password :: "config_env \<Rightarrow> SettingsCompiled \<Rightarrow> bytes \<Rightarrow> unit compiled" where
  "enrich_with_private_key_or_password E S credentials =
     (case ssh_settings S credentials of
        None \<Rightarrow> Ok ()
      | Some config \<Rightarrow>
          if ss_password config \<noteq> None then Ok ()
          else case ss_private_key_file config of
            None \<Rightarrow> Ok ()
          | Some file \<Rightarrow> if ce_read_key E file then Ok () else Err (SshKeyNotLoaded file))"

definition try_parse :: "config_env \<Rightarrow> SettingsCompiled \<Rightarrow> bytes \<Rightarrow> MyReverseProxyRemoteEndpoint compiled" where
  "try_parse E S remote_host =
     (if starts_with remote_host (as_bytes ''gateway:'') then try_parse_gateway_source E remote_host
      else case ce_parse_ssh E remote_host of
        None \<Rightarrow> Err (InvalidRemoteHost remote_host)
      | Some (None, resource) \<Rightarrow> rbind (parse_remote E resource) (\<lambda>r. Ok (Direct r))
      | Some (Some credentials, resource) \<Rightarrow>
          rbind (enrich_with_private_key_or_password E S credentials) (\<lambda>_.
          rbind (parse_remote E resource) (\<lambda>r. Ok (OverSsh credentials r))))"

definition pool_tuning_of :: "ResolvedTimeouts \<Rightarrow> PoolTuning" where
  "pool_tuning_of resolved =
     \<lparr>pn_pool_size = rt_pool_size resolved, pn_ping_timeout = rt_pool_ping_timeout resolved, pn_hot_window = rt_pool_hot_window resolved\<rparr>"

definition compile_model :: "config_env \<Rightarrow> SettingsCompiled \<Rightarrow> LocationSettings \<Rightarrow> ResolvedTimeouts \<Rightarrow> ProxyPassToModel compiled" where
  "compile_model E S l resolved =
     (case ls_proxy_pass_to l of
        None \<Rightarrow> Err ProxyPassToRequired
      | Some proxy_pass_to \<Rightarrow>
          rbind (try_parse E S proxy_pass_to) (\<lambda>remote_host.
            Ok \<lparr>pt_remote_host = remote_host, pt_request_timeout = rt_request_timeout resolved,
                pt_connect_timeout = rt_connect_timeout resolved, pt_pool_tuning = pool_tuning_of resolved\<rparr>))"

text \<open>The first character that is not white space decides whether the body is its own text.\<close>

definition get_static_content_body :: "config_env \<Rightarrow> bytes \<Rightarrow> bytes compiled" where
  "get_static_content_body E body =
     (let first = take 1 (trim body) in
      if first = [] \<or> first = [60] \<or> first = [123] then Ok body
      else case ce_parse_ssh E body of
        None \<Rightarrow> Ok body
      | Some source \<Rightarrow> (case ce_load_file E source of Some content \<Rightarrow> Ok content | None \<Rightarrow> Err (FileNotLoaded body)))"

definition compile_target :: "config_env \<Rightarrow> SettingsCompiled \<Rightarrow> LocationSettings \<Rightarrow> ResolvedTimeouts \<Rightarrow> LocationType \<Rightarrow> ProxyPassToConfig compiled" where
  "compile_target E S l resolved t =
     (let model = (\<lambda>wrap. rbind (compile_model E S l resolved) (\<lambda>m. Ok (wrap m))) in
      case t of
        LtUnixSocketHttp \<Rightarrow> model ToUnixHttp1
      | LtUnixSocketHttp2 \<Rightarrow> model ToUnixHttp2
      | LtHttp \<Rightarrow> model ToHttp1
      | LtHttps1 \<Rightarrow> model ToHttp1
      | LtMcp \<Rightarrow> model ToMcpHttp1
      | LtMcpH2 \<Rightarrow> model ToMcpHttp2
      | LtHttp2 \<Rightarrow> model ToHttp2
      | LtHttps2 \<Rightarrow> model ToHttp2
      | LtFiles \<Rightarrow>
          (case ls_proxy_pass_to l of
             None \<Rightarrow> Err ProxyPassToRequired
           | Some proxy_pass_to \<Rightarrow>
               rbind (try_parse E S proxy_pass_to) (\<lambda>files_path.
                 Ok (ToFilesPath \<lparr>fp_files_path = files_path, fp_default_file = ls_default_file l\<rparr>)))
      | LtStaticContent \<Rightarrow>
          rbind (get_static_content_body E (unwrap_or [] (ls_body l))) (\<lambda>body.
            Ok (ToStatic \<lparr>sc_status_code = unwrap_or 200 (ls_status_code l), sc_content_type = ls_content_type l, sc_body = body\<rparr>))
      | LtDrop \<Rightarrow> Ok ToDrop
      | LtDynamicProxy \<Rightarrow>
          Ok (ToDynamicProxy \<lparr>dp_request_timeout = rt_request_timeout resolved, dp_connect_timeout = rt_connect_timeout resolved,
                dp_allowed_hosts = ls_allowed_hosts l\<rparr>))"

definition compile_location_proxy_pass_to ::
  "config_env \<Rightarrow> SettingsCompiled \<Rightarrow> LocationSettings \<Rightarrow> bytes \<Rightarrow> ResolvedTimeouts \<Rightarrow> ProxyPassLocationConfig compiled" where
  "compile_location_proxy_pass_to E S l listen_host resolved =
     (let path = unwrap_or [47] (ls_path l) in
      rbind (get_location_type l) (\<lambda>t.
      rbind (compile_target E S l resolved (case t of Some x \<Rightarrow> x | None \<Rightarrow> detect_from_location_settings l)) (\<lambda>proxy_pass_to.
        Ok (new_location_config path (ls_modify_http_headers l) (ls_whitelisted_ip l) proxy_pass_to (unwrap_or False (ls_compress l))
              (ls_auth_header l) (ce_location_id E listen_host path proxy_pass_to)))))"

section \<open>Endpoints\<close>

definition check_location :: "ListenHttpEndpointType \<Rightarrow> bytes \<Rightarrow> ProxyPassLocationConfig \<Rightarrow> unit compiled" where
  "check_location http_type listen_host location =
     (if is_http1_or_mcp http_type \<and> (case lc_proxy_pass_to location of ToMcpHttp2 _ \<Rightarrow> True | _ \<Rightarrow> False)
      then Err (McpH2OnHttp1 listen_host) else Ok ())"

definition compile_http_locations ::
  "config_env \<Rightarrow> SettingsCompiled \<Rightarrow> ListenHttpEndpointType \<Rightarrow> bytes \<Rightarrow> TimeoutsSettings \<Rightarrow> LocationSettings list
     \<Rightarrow> ProxyPassLocationConfig list compiled" where
  "compile_http_locations E S http_type listen_host endpoint_timeouts locations =
     map_compiled (\<lambda>l.
       rbind (compile_location_proxy_pass_to E S l listen_host (resolve_timeouts (overriden_by endpoint_timeouts (ls_timeouts l)))) (\<lambda>location.
       rbind (check_location http_type listen_host location) (\<lambda>_. Ok location))) locations"

text \<open>Timeouts of an MCP tunnel: those of the first location.\<close>

definition mcp_timeouts :: "TimeoutsSettings \<Rightarrow> LocationSettings list \<Rightarrow> ResolvedTimeouts" where
  "mcp_timeouts endpoint_timeouts locations =
     (case locations of
        [] \<Rightarrow> resolve_timeouts endpoint_timeouts
      | l # _ \<Rightarrow> resolve_timeouts (overriden_by endpoint_timeouts (ls_timeouts l)))"

definition tls_parts ::
  "config_env \<Rightarrow> SettingsCompiled \<Rightarrow> HostSettings \<Rightarrow> ListenHttpEndpointType \<Rightarrow> app_config
     \<Rightarrow> (bytes option \<times> bytes option \<times> bytes option) script" where
  "tls_parts E S host http_type c =
     (if \<not> is_https_or_mcp http_type then (Ok (None, None, None), c)
      else
        then_do (make_sure_ssl_cert_exists E S host c) (\<lambda>ssl_cert_id c.
        then_do (make_sure_client_ca_exists E S host c) (\<lambda>client_cert_ca c.
        then_do (get_google_auth_credentials S host c) (\<lambda>g_auth c.
          (Ok (g_auth, Some ssl_cert_id, client_cert_ca), c)))))"

definition compile_http_configuration ::
  "config_env \<Rightarrow> SettingsCompiled \<Rightarrow> EndpointHttpHostString \<Rightarrow> HostSettings \<Rightarrow> ListenHttpEndpointType \<Rightarrow> app_config \<Rightarrow> HttpEndpointInfo script" where
  "compile_http_configuration E S host_endpoint host http_type c =
     then_do (get_endpoint_white_listed_ip S host c) (\<lambda>whitelisted_ip c.
     then_do (get_endpoint_users_list S host c) (\<lambda>allowed_user_list c.
     let (global_rules, endpoint_rules) = get_endpoint_modify_headers S host in
     then_do (tls_parts E S host http_type c) (\<lambda>(g_auth, ssl_cert_id, client_cert_ca) c.
     then_do (get_oauth_credentials E S host c) (\<lambda>oauth c.
     if oauth \<noteq> None \<and> http_type = ListenMcp then (Err (OAuthOnMcp (hs_src host_endpoint)), c)
     else
       let endpoint_timeouts = overriden_by (get_global_timeouts S) (es_timeouts (ho_endpoint host));
           endpoint_resolved = resolve_timeouts endpoint_timeouts;
           mcp_resolved = mcp_timeouts endpoint_timeouts (ho_locations host);
           e = ho_endpoint host
       in then_do (compile_http_locations E S http_type (hs_src host_endpoint) endpoint_timeouts (ho_locations host), c) (\<lambda>locations c.
          then_do (get_mcp_buffer_size e, c) (\<lambda>buffer_size c.
            (Ok (new_endpoint_info
               \<lparr>pp_host_endpoint = host_endpoint, pp_listen_endpoint_type = http_type,
                pp_inject_country = unwrap_or False (es_inject_country e), pp_g_auth = g_auth, pp_oauth = oauth,
                pp_ssl_certificate_id = ssl_cert_id, pp_client_certificate_id = client_cert_ca,
                pp_whitelisted_ip_list_id = whitelisted_ip, pp_locations = locations, pp_allowed_user_list_id = allowed_user_list,
                pp_global_modify_headers = global_rules, pp_endpoint_modify_headers = endpoint_rules,
                pp_keep_alive = unwrap_or True (es_keep_alive e),
                pp_track_metrics_by_all_domains = unwrap_or False (es_track_metrics_by_all_domains e),
                pp_hsts = unwrap_or False (es_hsts e),
                pp_mcp_settings = \<lparr>me_read_timeout = rt_read_timeout mcp_resolved, me_write_timeout = rt_write_timeout mcp_resolved,
                  me_buffer_size = buffer_size\<rparr>,
                pp_timeouts = (rt_read_timeout endpoint_resolved, rt_write_timeout endpoint_resolved)\<rparr>), c)))))))"

definition new_tcp_endpoint ::
  "config_env \<Rightarrow> SettingsCompiled \<Rightarrow> EndpointHttpHostString \<Rightarrow> HostSettings \<Rightarrow> app_config \<Rightarrow> TcpEndpointHostConfig script" where
  "new_tcp_endpoint E S host_endpoint host c =
     (case ho_locations host of
        [] \<Rightarrow> (Err (NoTcpLocation (hs_src host_endpoint)), c)
      | l # _ \<Rightarrow>
          (case ls_proxy_pass_to l of
             None \<Rightarrow> (Err ProxyPassToRequired, c)
           | Some proxy_pass_to \<Rightarrow>
               then_do (get_endpoint_white_listed_ip S host c) (\<lambda>ip_white_list_id c.
               then_do (try_parse E S proxy_pass_to, c) (\<lambda>remote_host c.
                 let resolved = resolve_timeouts (overriden_by (get_global_timeouts S) (es_timeouts (ho_endpoint host))) in
                 (Ok \<lparr>th_host_endpoint = host_endpoint, th_remote_host = remote_host, th_ip_white_list_id = ip_white_list_id,
                     th_timeouts = (rt_read_timeout resolved, rt_write_timeout resolved)\<rparr>, c)))))"

section \<open>Ports\<close>

definition check_endpoint_type :: "HttpListenPortConfiguration \<Rightarrow> HttpEndpointInfo \<Rightarrow> unit compiled" where
  "check_endpoint_type config ep =
     (if can_be_under_the_same_port (lp_listen_endpoint_type config) (ep_listen_endpoint_type ep) then Ok ()
      else Err (PortTypeConflict (hs_src (ep_host_endpoint ep))))"

definition merge_http_into_existing :: "ListenConfiguration option \<Rightarrow> HttpEndpointInfo \<Rightarrow> HttpListenPortConfiguration compiled" where
  "merge_http_into_existing existing ep =
     (case existing of
        None \<Rightarrow> Ok (new_listen_port ep)
      | Some (HttpPort config) \<Rightarrow> rbind (check_endpoint_type config ep) (\<lambda>_. Ok (insert_or_replace_configuration ep config))
      | Some (TcpPort _) \<Rightarrow> Err (AlreadyTcp (hs_src (ep_host_endpoint ep)))
      | Some (McpPort config) \<Rightarrow> rbind (check_endpoint_type config ep) (\<lambda>_. Ok (insert_or_replace_configuration ep config)))"

definition compile_http_host ::
  "config_env \<Rightarrow> SettingsCompiled \<Rightarrow> EndpointHttpHostString \<Rightarrow> HostSettings \<Rightarrow> ListenConfiguration option
     \<Rightarrow> ListenHttpEndpointType \<Rightarrow> (HttpListenPortConfiguration \<Rightarrow> ListenConfiguration) \<Rightarrow> app_config \<Rightarrow> ListenConfiguration script" where
  "compile_http_host E S host_endpoint host existing http_type wrap c =
     then_do (compile_http_configuration E S host_endpoint host http_type c) (\<lambda>ep c.
     then_do (merge_http_into_existing existing ep, c) (\<lambda>config c. (Ok (wrap config), c)))"

definition compile_host_configuration ::
  "config_env \<Rightarrow> SettingsCompiled \<Rightarrow> EndpointHttpHostString \<Rightarrow> HostSettings \<Rightarrow> ListenConfiguration option \<Rightarrow> app_config
     \<Rightarrow> ListenConfiguration script" where
  "compile_host_configuration E S host_endpoint host existing c =
     then_do (get_endpoint_type (ho_endpoint host), c) (\<lambda>t c.
       case t of
         EtHttp1 \<Rightarrow> compile_http_host E S host_endpoint host existing ListenHttp1 HttpPort c
       | EtHttp2 \<Rightarrow> compile_http_host E S host_endpoint host existing ListenHttp2 HttpPort c
       | EtHttps1 \<Rightarrow> compile_http_host E S host_endpoint host existing ListenHttps1 HttpPort c
       | EtHttps2 \<Rightarrow> compile_http_host E S host_endpoint host existing ListenHttps2 HttpPort c
       | EtTcp \<Rightarrow> then_do (new_tcp_endpoint E S host_endpoint host c) (\<lambda>tcp c. (Ok (TcpPort tcp), c))
       | EtMcp \<Rightarrow> compile_http_host E S host_endpoint host existing ListenMcp McpPort c)"

section \<open>Reloading\<close>

text \<open>The ports of a configuration, by the port or the path of a host.\<close>

definition port_config :: "(nat \<rightharpoonup> ListenConfiguration) \<Rightarrow> (bytes \<rightharpoonup> ListenConfiguration) \<Rightarrow> EndpointHttpHostString \<Rightarrow> ListenConfiguration option" where
  "port_config tcp unix_sockets h = (case hs_port h of Some port \<Rightarrow> tcp port | None \<Rightarrow> unix_sockets (hs_src h))"

definition set_port_config :: "EndpointHttpHostString \<Rightarrow> ListenConfiguration option \<Rightarrow> app_config \<Rightarrow> app_config" where
  "set_port_config h config c =
     (case hs_port h of
        Some port \<Rightarrow> c\<lparr>ac_tcp := (ac_tcp c)(port := config)\<rparr>
      | None \<Rightarrow> c\<lparr>ac_unix := (ac_unix c)(hs_src h := config)\<rparr>)"

text \<open>The maps a full reload builds before it swaps them in.\<close>

record draft =
  df_tcp :: "nat \<rightharpoonup> ListenConfiguration"
  df_unix :: "bytes \<rightharpoonup> ListenConfiguration"
  df_errors :: "bytes \<rightharpoonup> config_error"

definition put_draft :: "EndpointHttpHostString \<Rightarrow> ListenConfiguration \<Rightarrow> draft \<Rightarrow> draft" where
  "put_draft h config d =
     (case hs_port h of
        Some port \<Rightarrow> d\<lparr>df_tcp := (df_tcp d)(port \<mapsto> config)\<rparr>
      | None \<Rightarrow> d\<lparr>df_unix := (df_unix d)(hs_src h \<mapsto> config)\<rparr>)"

definition load_host :: "config_env \<Rightarrow> SettingsCompiled \<Rightarrow> bytes \<times> HostSettings \<Rightarrow> draft \<Rightarrow> app_config \<Rightarrow> draft script" where
  "load_host E S entry d c =
     (case new_host_string (fst entry) of
        Ok h \<Rightarrow>
          (case compile_host_configuration E S h (snd entry) (port_config (df_tcp d) (df_unix d) h) c of
             (Ok config, c1) \<Rightarrow> (Ok (put_draft h config d), c1)
           | (Err err, c1) \<Rightarrow> (Ok (d\<lparr>df_errors := (df_errors d)(hs_src h \<mapsto> err)\<rparr>), c1)
           | (Panic, c1) \<Rightarrow> (Panic, c1))
      | Err _ \<Rightarrow> (Ok d, c)
      | Panic \<Rightarrow> (Panic, c))"

fun load_hosts :: "config_env \<Rightarrow> SettingsCompiled \<Rightarrow> (bytes \<times> HostSettings) list \<Rightarrow> draft \<Rightarrow> app_config \<Rightarrow> draft script" where
  "load_hosts E S [] d c = (Ok d, c)"
| "load_hosts E S (entry # hosts) d c = then_do (load_host E S entry d c) (load_hosts E S hosts)"

definition empty_draft :: draft where
  "empty_draft = \<lparr>df_tcp = Map.empty, df_unix = Map.empty, df_errors = Map.empty\<rparr>"

definition load_everything_from_settings :: "config_env \<Rightarrow> SettingsCompiled \<Rightarrow> app_config \<Rightarrow> unit script" where
  "load_everything_from_settings E S c =
     then_do (load_hosts E S (ce_hosts E (sc_hosts S)) empty_draft c) (\<lambda>d c.
       (Ok (), c\<lparr>ac_tcp := df_tcp d, ac_unix := df_unix d, ac_errors := df_errors d\<rparr>))"

definition update_host_configuration ::
  "config_env \<Rightarrow> SettingsCompiled \<Rightarrow> EndpointHttpHostString \<Rightarrow> HostSettings \<Rightarrow> app_config \<Rightarrow> unit script" where
  "update_host_configuration E S h host c =
     then_do (compile_host_configuration E S h host (port_config (ac_tcp c) (ac_unix c) h) c) (\<lambda>config c.
       (Ok (), set_port_config h (Some config) (c\<lparr>ac_errors := (ac_errors c)(hs_src h := None)\<rparr>)))"

text \<open>A port with endpoints left is put back as an HTTP port, whatever it was.\<close>

definition delete_http_endpoint_if_exists :: "bytes \<Rightarrow> app_config \<Rightarrow> unit script" where
  "delete_http_endpoint_if_exists endpoint_id c =
     (case new_host_string endpoint_id of
        Ok h \<Rightarrow>
          let rest = (\<lambda>config. case delete_configuration h config of
                None \<Rightarrow> (Ok (), c)
              | Some new_config \<Rightarrow>
                  (Ok (), set_port_config h (if lp_endpoints new_config = [] then None else Some (HttpPort new_config)) c))
          in case port_config (ac_tcp c) (ac_unix c) h of
               None \<Rightarrow> (Ok (), c)
             | Some (HttpPort config) \<Rightarrow> rest config
             | Some (McpPort config) \<Rightarrow> rest config
             | Some (TcpPort _) \<Rightarrow> (Ok (), set_port_config h None c)
      | Err _ \<Rightarrow> (Err (BadHost endpoint_id), c)
      | Panic \<Rightarrow> (Panic, c))"

definition reload_endpoint_configuration :: "config_env \<Rightarrow> SettingsCompiled \<Rightarrow> bytes \<Rightarrow> app_config \<Rightarrow> unit script" where
  "reload_endpoint_configuration E S host_id c =
     (case List.find (\<lambda>entry. ce_eq_ci E (fst entry) host_id) (ce_hosts E (sc_hosts S)) of
        Some (id1, host) \<Rightarrow>
          (case new_host_string id1 of
             Ok h \<Rightarrow> update_host_configuration E S h host c
           | Err _ \<Rightarrow> (Err (BadHost id1), c)
           | Panic \<Rightarrow> (Panic, c))
      | None \<Rightarrow> delete_http_endpoint_if_exists host_id c)"

text \<open>All hosts of one port, compiled anew; an error of any host, or an id that does not parse, leaves the port as it was.\<close>

fun compile_port ::
  "config_env \<Rightarrow> SettingsCompiled \<Rightarrow> (EndpointHttpHostString \<Rightarrow> bool) \<Rightarrow> (bytes \<times> HostSettings) list \<Rightarrow> ListenConfiguration option
     \<Rightarrow> app_config \<Rightarrow> ListenConfiguration option script" where
  "compile_port E S mine [] config c = (Ok config, c)"
| "compile_port E S mine ((host_id, host) # hosts) config c =
     (case new_host_string host_id of
        Ok h \<Rightarrow>
          if mine h then
            then_do (compile_host_configuration E S h host config c) (\<lambda>compiled c. compile_port E S mine hosts (Some compiled) c)
          else compile_port E S mine hosts config c
      | Err _ \<Rightarrow> (Err (BadHost host_id), c)
      | Panic \<Rightarrow> (Panic, c))"

definition reload_tcp_port_configurations :: "config_env \<Rightarrow> SettingsCompiled \<Rightarrow> nat \<Rightarrow> app_config \<Rightarrow> unit script" where
  "reload_tcp_port_configurations E S port c =
     then_do (compile_port E S (\<lambda>h. hs_port h = Some port) (ce_hosts E (sc_hosts S)) None c) (\<lambda>config c.
       (Ok (), c\<lparr>ac_errors := (ac_errors c)(dec_digits port := None), ac_tcp := (ac_tcp c)(port := config)\<rparr>))"

definition reload_unix_configurations :: "config_env \<Rightarrow> SettingsCompiled \<Rightarrow> bytes \<Rightarrow> app_config \<Rightarrow> unit script" where
  "reload_unix_configurations E S path c =
     then_do (compile_port E S (\<lambda>h. hs_port h = None \<and> hs_src h = path) (ce_hosts E (sc_hosts S)) None c) (\<lambda>config c.
       (Ok (), c\<lparr>ac_errors := (ac_errors c)(path := None), ac_unix := (ac_unix c)(path := config)\<rparr>))"

end
