(* ===== verification/Config_Properties.thy ===== *)
theory Config_Properties
  imports Config_Compile
begin

text \<open>
  What the live configuration guarantees: after any sequence of reloads every endpoint refers to lists,
  credentials and certificates that are loaded, every protection of the settings is in its endpoint, and a
  full reload serves every host. And where it does not: ports whose outcome depends on the order of a \<open>HashMap\<close>.
\<close>

section \<open>Scripts\<close>

lemma then_doE:
  assumes "then_do m f = (Ok y, d)"
  obtains x c where "m = (Ok x, c)" "f x c = (Ok y, d)"
  using assms by (cases m) (auto simp: then_do_def split: outcome.splits)

lemma then_do_Ok [simp]: "then_do (Ok x, c) f = f x c" "then_do (Err e, c) f = (Err e, c)" "then_do (Panic, c) f = (Panic, c)"
  by (simp_all add: then_do_def)

text \<open>
  A script grows a configuration: it leaves the ports and the errors as they are and forgets no list, no
  credentials and no certificate.
\<close>

definition grows :: "app_config \<Rightarrow> app_config \<Rightarrow> bool" where
  "grows c d \<longleftrightarrow> ac_tcp d = ac_tcp c \<and> ac_unix d = ac_unix c \<and> ac_errors d = ac_errors c \<and>
     dom (ac_google c) \<subseteq> dom (ac_google d) \<and> dom (ac_oauth c) \<subseteq> dom (ac_oauth d) \<and> dom (ac_white_lists c) \<subseteq> dom (ac_white_lists d) \<and>
     dom (ac_users c) \<subseteq> dom (ac_users d) \<and> ac_client_ca c \<subseteq> ac_client_ca d \<and> ac_ssl_certs c \<subseteq> ac_ssl_certs d"

lemma grows_refl [simp]: "grows c c"
  by (simp add: grows_def)

lemma grows_trans: "grows a b \<Longrightarrow> grows b c \<Longrightarrow> grows a c"
  unfolding grows_def by (elim conjE, intro conjI) (simp | erule (1) order_trans)+

lemma grows_then:
  assumes "grows c (snd m)" and "\<And>x d. m = (Ok x, d) \<Longrightarrow> grows d (snd (f x d))"
  shows "grows c (snd (then_do m f))"
  using assms by (cases m) (auto simp: then_do_def split: outcome.splits intro: grows_trans)

lemma grows_ip_list: "grows c (snd (refresh_ip_list_from_settings S i c))"
  by (auto simp: refresh_ip_list_from_settings_def grows_def split: option.splits outcome.splits)

lemma grows_users: "grows c (snd (refresh_users_list_from_settings S i c))"
  by (auto simp: refresh_users_list_from_settings_def grows_def split: option.splits)

lemma grows_white_listed: "grows c (snd (get_endpoint_white_listed_ip S host c))"
  unfolding get_endpoint_white_listed_ip_def
  by (intro grows_then) (auto intro!: grows_then grows_ip_list split: option.splits)

lemma grows_users_list: "grows c (snd (get_endpoint_users_list S host c))"
  unfolding get_endpoint_users_list_def by (auto intro!: grows_then grows_users split: option.splits)

lemma grows_ssl: "grows c (snd (refresh_ssl_certs_from_sources E S i c))"
  unfolding refresh_ssl_certs_from_sources_def
  by (auto intro!: grows_then split: option.splits) (auto simp: grows_def)

lemma grows_make_ssl: "grows c (snd (make_sure_ssl_cert_exists E S host c))"
proof -
  have "grows d (snd (case refresh_ssl_certs_from_sources E S i d of (Panic, c1) \<Rightarrow> (Panic, c1) | (_, c1) \<Rightarrow> (Ok i, c1)))" for i d
    using grows_ssl [of d E S i] by (auto split: prod.splits outcome.splits)
  then show ?thesis
    unfolding make_sure_ssl_cert_exists_def by (intro grows_then) (auto split: option.splits)
qed

lemma grows_ca: "grows c (snd (refresh_ca_from_sources E S i c))"
  unfolding refresh_ca_from_sources_def
  by (auto intro!: grows_then split: option.splits) (auto simp: grows_def)

lemma grows_make_ca: "grows c (snd (make_sure_client_ca_exists E S host c))"
  unfolding make_sure_client_ca_exists_def by (intro grows_then) (auto intro!: grows_then grows_ca split: option.splits)

lemma grows_google: "grows c (snd (get_google_auth_credentials S host c))"
  unfolding get_google_auth_credentials_def
  by (intro grows_then) (auto simp: grows_def split: option.splits)

lemma grows_oauth: "grows c (snd (get_oauth_credentials E S host c))"
  unfolding get_oauth_credentials_def
  by (intro grows_then) (auto intro!: grows_then split: option.splits, auto simp: grows_def)

lemma grows_tls: "grows c (snd (tls_parts E S host t c))"
  unfolding tls_parts_def by (auto intro!: grows_then grows_make_ssl grows_make_ca grows_google)

lemma grows_http: "grows c (snd (compile_http_configuration E S h host t c))"
  unfolding compile_http_configuration_def Let_def
  by (auto intro!: grows_then grows_white_listed grows_users_list grows_tls grows_oauth split: prod.splits)

lemma grows_tcp: "grows c (snd (new_tcp_endpoint E S h host c))"
  unfolding new_tcp_endpoint_def Let_def by (auto intro!: grows_then grows_white_listed split: list.splits option.splits)

lemma grows_host: "grows c (snd (compile_host_configuration E S h host existing c))"
  unfolding compile_host_configuration_def compile_http_host_def
  by (auto intro!: grows_then grows_http grows_tcp split: EndpointTypeSettings.splits)

section \<open>Endpoints refer to what is loaded\<close>

definition refs_loaded :: "app_config \<Rightarrow> HttpEndpointInfo \<Rightarrow> bool" where
  "refs_loaded c ep \<longleftrightarrow>
     (\<forall>i. ep_g_auth ep = Some i \<longrightarrow> ac_google c i \<noteq> None) \<and>
     (\<forall>i. ep_oauth ep = Some i \<longrightarrow> ac_oauth c i \<noteq> None) \<and>
     (\<forall>i. ep_whitelisted_ip_list_id ep = Some i \<longrightarrow> ac_white_lists c i \<noteq> None) \<and>
     (\<forall>i. ep_allowed_user_list_id ep = Some i \<longrightarrow> ac_users c i \<noteq> None) \<and>
     (\<forall>i. ep_client_certificate_id ep = Some i \<longrightarrow> i \<in> ac_client_ca c) \<and>
     (is_https_or_mcp (ep_listen_endpoint_type ep) \<longleftrightarrow> ep_ssl_certificate_id ep \<noteq> None) \<and>
     (ep_listen_endpoint_type ep = ListenMcp \<longrightarrow> ep_oauth ep = None) \<and>
     (is_http1_or_mcp (ep_listen_endpoint_type ep) \<longrightarrow> (\<forall>l \<in> set (ep_locations ep). \<forall>m. lc_proxy_pass_to l \<noteq> ToMcpHttp2 m))"

lemma refs_loaded_grows: "grows c d \<Longrightarrow> refs_loaded c ep \<Longrightarrow> refs_loaded d ep"
  unfolding grows_def refs_loaded_def by (elim conjE, intro conjI) (simp | blast)+

lemma white_listed_Ok:
  assumes "get_endpoint_white_listed_ip S host c = (Ok r, d)"
  shows "get_from_host_or_templates S host es_whitelisted_ip et_whitelisted_ip = Ok r" and "r = Some i \<Longrightarrow> ac_white_lists d i \<noteq> None"
  using assms unfolding get_endpoint_white_listed_ip_def
  by (auto elim!: then_doE simp: refresh_ip_list_from_settings_def split: option.splits outcome.splits)

lemma users_list_Ok:
  assumes "get_endpoint_users_list S host c = (Ok r, d)"
  shows "es_allowed_users (ho_endpoint host) = r" and "r = Some i \<Longrightarrow> ac_users d i \<noteq> None"
  using assms unfolding get_endpoint_users_list_def
  by (auto elim!: then_doE simp: refresh_users_list_from_settings_def split: option.splits)

lemma client_ca_Ok:
  assumes "make_sure_client_ca_exists E S host c = (Ok r, d)"
  shows "get_from_host_or_templates S host es_client_certificate_ca et_client_certificate_ca = Ok r" and "r = Some i \<Longrightarrow> i \<in> ac_client_ca d"
  using assms unfolding make_sure_client_ca_exists_def
  by (auto elim!: then_doE simp: refresh_ca_from_sources_def split: option.splits if_splits)

lemma google_Ok:
  assumes "get_google_auth_credentials S host c = (Ok r, d)"
  shows "get_from_host_or_templates S host es_google_auth et_google_auth = Ok r" and "r = Some i \<Longrightarrow> ac_google d i \<noteq> None"
  using assms unfolding get_google_auth_credentials_def
  by (auto elim!: then_doE split: option.splits if_splits)

lemma oauth_Ok:
  assumes "get_oauth_credentials E S host c = (Ok r, d)"
  shows "get_from_host_or_templates S host es_oauth et_oauth = Ok r" and "r = Some i \<Longrightarrow> ac_oauth d i \<noteq> None"
  using assms unfolding get_oauth_credentials_def
  by (auto elim!: then_doE split: option.splits if_splits)

lemma tls_parts_Ok:
  assumes "tls_parts E S host t c = (Ok (g, ssl, ca), d)"
  shows "is_https_or_mcp t \<Longrightarrow> get_from_host_or_templates S host es_google_auth et_google_auth = Ok g"
    and "is_https_or_mcp t \<Longrightarrow> get_from_host_or_templates S host es_client_certificate_ca et_client_certificate_ca = Ok ca"
    and "\<not> is_https_or_mcp t \<Longrightarrow> g = None \<and> ca = None" and "is_https_or_mcp t \<longleftrightarrow> ssl \<noteq> None"
    and "g = Some i \<Longrightarrow> ac_google d i \<noteq> None" and "ca = Some i \<Longrightarrow> i \<in> ac_client_ca d"
proof -
  have "(is_https_or_mcp t \<longrightarrow> get_from_host_or_templates S host es_google_auth et_google_auth = Ok g \<and>
      get_from_host_or_templates S host es_client_certificate_ca et_client_certificate_ca = Ok ca) \<and>
    (\<not> is_https_or_mcp t \<longrightarrow> g = None \<and> ca = None) \<and> (is_https_or_mcp t \<longleftrightarrow> ssl \<noteq> None) \<and>
    (\<forall>i. g = Some i \<longrightarrow> ac_google d i \<noteq> None) \<and> (\<forall>i. ca = Some i \<longrightarrow> i \<in> ac_client_ca d)"
  proof (cases "is_https_or_mcp t")
    case True
    then obtain c1 c2 where ca: "make_sure_client_ca_exists E S host c1 = (Ok ca, c2)"
      and g: "get_google_auth_credentials S host c2 = (Ok g, d)" and ssl: "ssl \<noteq> None"
      using assms unfolding tls_parts_def by (auto elim!: then_doE)
    have "grows c2 d" using grows_google [of c2 S host] g by simp
    then show ?thesis using True client_ca_Ok [OF ca] google_Ok [OF g] ssl by (auto simp: grows_def)
  qed (use assms in \<open>auto simp: tls_parts_def\<close>)
  then show "is_https_or_mcp t \<Longrightarrow> get_from_host_or_templates S host es_google_auth et_google_auth = Ok g"
    and "is_https_or_mcp t \<Longrightarrow> get_from_host_or_templates S host es_client_certificate_ca et_client_certificate_ca = Ok ca"
    and "\<not> is_https_or_mcp t \<Longrightarrow> g = None \<and> ca = None" and "is_https_or_mcp t \<longleftrightarrow> ssl \<noteq> None"
    and "g = Some i \<Longrightarrow> ac_google d i \<noteq> None" and "ca = Some i \<Longrightarrow> i \<in> ac_client_ca d"
    by blast+
qed

lemma map_compiled_Ok: "map_compiled f xs = Ok ys \<longleftrightarrow> list_all2 (\<lambda>x y. f x = Ok y) xs ys"
  by (induction xs arbitrary: ys) (auto simp: rust_simps list_all2_Cons1)

text \<open>What a compiled endpoint carries: the host, its protections and its locations, in order.\<close>

definition location_of :: "LocationSettings \<Rightarrow> ProxyPassLocationConfig \<Rightarrow> bool" where
  "location_of l loc \<longleftrightarrow>
     lc_path loc = unwrap_or [47] (ls_path l) \<and> lc_auth_header loc = ls_auth_header l \<and> lc_ip_white_list_id loc = ls_whitelisted_ip l \<and>
     (\<forall>d. lc_proxy_pass_to loc = ToDynamicProxy d \<longrightarrow> dp_allowed_hosts d = ls_allowed_hosts l)"

lemma compile_target_dynamic:
  "compile_target E S l resolved t = Ok (ToDynamicProxy d) \<Longrightarrow> dp_allowed_hosts d = ls_allowed_hosts l"
  by (cases t) (auto simp: compile_target_def Let_def rust_simps split: option.splits)

lemma compile_location_Ok:
  "compile_location_proxy_pass_to E S l listen_host resolved = Ok loc \<Longrightarrow> location_of l loc"
  by (auto simp: compile_location_proxy_pass_to_def location_of_def new_location_config_def Let_def rust_simps
      intro: compile_target_dynamic)

lemma compile_locations_Ok:
  assumes "compile_http_locations E S t listen_host timeouts ls = Ok locs"
  shows "list_all2 location_of ls locs" and "is_http1_or_mcp t \<Longrightarrow> loc \<in> set locs \<Longrightarrow> lc_proxy_pass_to loc \<noteq> ToMcpHttp2 m"
proof -
  have *: "list_all2 (\<lambda>l loc. location_of l loc \<and> check_location t listen_host loc = Ok ()) ls locs"
    using assms unfolding compile_http_locations_def map_compiled_Ok
    by (rule list_all2_mono) (auto simp: rust_simps dest: compile_location_Ok)
  then show "list_all2 location_of ls locs" by (rule list_all2_mono) simp
  show "lc_proxy_pass_to loc \<noteq> ToMcpHttp2 m" if "is_http1_or_mcp t" "loc \<in> set locs"
    using * that by (auto simp: list_all2_conv_all_nth in_set_conv_nth check_location_def)
qed

lemma compile_http_steps:
  assumes "compile_http_configuration E S h host t c = (Ok ep, d)"
  obtains wl users g ssl ca oauth locs c1 c2 c3 where
    "get_endpoint_white_listed_ip S host c = (Ok wl, c1)" and "get_endpoint_users_list S host c1 = (Ok users, c2)"
    and "tls_parts E S host t c2 = (Ok (g, ssl, ca), c3)" and "get_oauth_credentials E S host c3 = (Ok oauth, d)"
    and "oauth = None \<or> t \<noteq> ListenMcp"
    and "compile_http_locations E S t (hs_src h) (overriden_by (get_global_timeouts S) (es_timeouts (ho_endpoint host))) (ho_locations host) = Ok locs"
    and "ep_host_endpoint ep = h" "ep_listen_endpoint_type ep = t" "ep_g_auth ep = g" "ep_oauth ep = oauth"
      "ep_ssl_certificate_id ep = ssl" "ep_client_certificate_id ep = ca" "ep_whitelisted_ip_list_id ep = wl"
      "ep_allowed_user_list_id ep = users" "ep_locations ep = locs"
  using assms unfolding compile_http_configuration_def Let_def get_endpoint_modify_headers_def prod.case
  by (auto elim!: then_doE split: if_splits simp: new_endpoint_info_def Let_def)

lemma compile_http_Ok:
  assumes "compile_http_configuration E S h host t c = (Ok ep, d)"
  shows "ep_host_endpoint ep = h" and "ep_listen_endpoint_type ep = t" and "refs_loaded d ep"
    and "list_all2 location_of (ho_locations host) (ep_locations ep)"
    and "get_from_host_or_templates S host es_whitelisted_ip et_whitelisted_ip = Ok (ep_whitelisted_ip_list_id ep)"
    and "es_allowed_users (ho_endpoint host) = ep_allowed_user_list_id ep"
    and "get_from_host_or_templates S host es_oauth et_oauth = Ok (ep_oauth ep)"
    and "is_https_or_mcp t \<Longrightarrow> get_from_host_or_templates S host es_google_auth et_google_auth = Ok (ep_g_auth ep)"
    and "is_https_or_mcp t \<Longrightarrow>
      get_from_host_or_templates S host es_client_certificate_ca et_client_certificate_ca = Ok (ep_client_certificate_id ep)"
    and "\<not> is_https_or_mcp t \<Longrightarrow> ep_g_auth ep = None \<and> ep_client_certificate_id ep = None"
proof -
  from assms obtain wl users g ssl ca oauth locs c1 c2 c3 where
    wl: "get_endpoint_white_listed_ip S host c = (Ok wl, c1)" and us: "get_endpoint_users_list S host c1 = (Ok users, c2)"
    and tls: "tls_parts E S host t c2 = (Ok (g, ssl, ca), c3)" and oa: "get_oauth_credentials E S host c3 = (Ok oauth, d)"
    and mcp: "oauth = None \<or> t \<noteq> ListenMcp"
    and locs: "compile_http_locations E S t (hs_src h) (overriden_by (get_global_timeouts S) (es_timeouts (ho_endpoint host))) (ho_locations host) = Ok locs"
    and ep [simp]: "ep_host_endpoint ep = h" "ep_listen_endpoint_type ep = t" "ep_g_auth ep = g" "ep_oauth ep = oauth"
      "ep_ssl_certificate_id ep = ssl" "ep_client_certificate_id ep = ca" "ep_whitelisted_ip_list_id ep = wl"
      "ep_allowed_user_list_id ep = users" "ep_locations ep = locs"
    by (rule compile_http_steps)
  show "ep_host_endpoint ep = h" "ep_listen_endpoint_type ep = t" by simp_all
  have "grows c1 c2" using grows_users_list [of c1 S host] us by simp
  moreover have "grows c2 c3" using grows_tls [of c2 E S host t] tls by simp
  moreover have "grows c3 d" using grows_oauth [of c3 E S host] oa by simp
  ultimately have g: "grows c1 d" "grows c2 d" "grows c3 d" by (blast intro: grows_trans)+
  show "refs_loaded d ep"
    unfolding refs_loaded_def ep
  proof (intro conjI allI impI ballI)
    show "ac_google d i \<noteq> None" if "g = Some i" for i
      using tls_parts_Ok(5) [OF tls that] g(3) by (auto simp: grows_def)
    show "ac_oauth d i \<noteq> None" if "oauth = Some i" for i using oauth_Ok(2) [OF oa that] .
    show "ac_white_lists d i \<noteq> None" if "wl = Some i" for i
      using white_listed_Ok(2) [OF wl that] g(1) by (auto simp: grows_def)
    show "ac_users d i \<noteq> None" if "users = Some i" for i
      using users_list_Ok(2) [OF us that] g(2) by (auto simp: grows_def)
    show "i \<in> ac_client_ca d" if "ca = Some i" for i
      using tls_parts_Ok(6) [OF tls that] g(3) by (auto simp: grows_def)
  qed (use tls_parts_Ok(4) [OF tls] mcp compile_locations_Ok(2) [OF locs] in auto)
  show "list_all2 location_of (ho_locations host) (ep_locations ep)" using compile_locations_Ok(1) [OF locs] by simp
  show "get_from_host_or_templates S host es_whitelisted_ip et_whitelisted_ip = Ok (ep_whitelisted_ip_list_id ep)"
    using white_listed_Ok(1) [OF wl] by simp
  show "es_allowed_users (ho_endpoint host) = ep_allowed_user_list_id ep" using users_list_Ok(1) [OF us] by simp
  show "get_from_host_or_templates S host es_oauth et_oauth = Ok (ep_oauth ep)" using oauth_Ok(1) [OF oa] by simp
  show "is_https_or_mcp t \<Longrightarrow> get_from_host_or_templates S host es_google_auth et_google_auth = Ok (ep_g_auth ep)"
    using tls_parts_Ok(1) [OF tls] by simp
  show "is_https_or_mcp t \<Longrightarrow>
      get_from_host_or_templates S host es_client_certificate_ca et_client_certificate_ca = Ok (ep_client_certificate_id ep)"
    using tls_parts_Ok(2) [OF tls] by simp
  show "\<not> is_https_or_mcp t \<Longrightarrow> ep_g_auth ep = None \<and> ep_client_certificate_id ep = None"
    using tls_parts_Ok(3) [OF tls] by simp
qed

section \<open>The ports\<close>

fun listen_endpoints :: "ListenConfiguration \<Rightarrow> HttpEndpointInfo list" where
  "listen_endpoints (HttpPort p) = lp_endpoints p"
| "listen_endpoints (McpPort p) = lp_endpoints p"
| "listen_endpoints (TcpPort _) = []"

definition port_ok :: "app_config \<Rightarrow> (EndpointHttpHostString \<Rightarrow> bool) \<Rightarrow> HttpListenPortConfiguration \<Rightarrow> bool" where
  "port_ok c here p \<longleftrightarrow>
     lp_endpoints p \<noteq> [] \<and> distinct (map (\<lambda>ep. hs_src (ep_host_endpoint ep)) (lp_endpoints p)) \<and>
     (\<forall>ep \<in> set (lp_endpoints p). here (ep_host_endpoint ep) \<and> refs_loaded c ep \<and>
        can_be_under_the_same_port (lp_listen_endpoint_type p) (ep_listen_endpoint_type ep))"

fun listen_ok :: "app_config \<Rightarrow> (EndpointHttpHostString \<Rightarrow> bool) \<Rightarrow> ListenConfiguration \<Rightarrow> bool" where
  "listen_ok c here (HttpPort p) \<longleftrightarrow> port_ok c here p"
| "listen_ok c here (McpPort p) \<longleftrightarrow> port_ok c here p"
| "listen_ok c here (TcpPort t) \<longleftrightarrow>
     here (th_host_endpoint t) \<and> (\<forall>i. th_ip_white_list_id t = Some i \<longrightarrow> ac_white_lists c i \<noteq> None)"

definition on_port :: "nat \<Rightarrow> EndpointHttpHostString \<Rightarrow> bool" where
  "on_port port h \<longleftrightarrow> hs_port h = Some port"

definition on_path :: "bytes \<Rightarrow> EndpointHttpHostString \<Rightarrow> bool" where
  "on_path path h \<longleftrightarrow> hs_port h = None \<and> hs_src h = path"

definition ports_ok :: "app_config \<Rightarrow> (nat \<rightharpoonup> ListenConfiguration) \<Rightarrow> (bytes \<rightharpoonup> ListenConfiguration) \<Rightarrow> bool" where
  "ports_ok c tcp unix_sockets \<longleftrightarrow>
     (\<forall>port l. tcp port = Some l \<longrightarrow> listen_ok c (on_port port) l) \<and> (\<forall>path l. unix_sockets path = Some l \<longrightarrow> listen_ok c (on_path path) l)"

definition config_ok :: "app_config \<Rightarrow> bool" where
  "config_ok c \<longleftrightarrow> ports_ok c (ac_tcp c) (ac_unix c)"

lemma listen_ok_grows: "grows c d \<Longrightarrow> listen_ok c here l \<Longrightarrow> listen_ok d here l"
  by (cases l) (auto simp: port_ok_def grows_def intro: refs_loaded_grows)

lemma ports_ok_grows: "grows c d \<Longrightarrow> ports_ok c tcp ux \<Longrightarrow> ports_ok d tcp ux"
  by (auto simp: ports_ok_def intro: listen_ok_grows)

lemma config_ok_grows: "grows c d \<Longrightarrow> config_ok c \<Longrightarrow> config_ok d"
  using ports_ok_grows [of c d] by (simp add: config_ok_def grows_def)

lemma replace_endpoint_set: "set (replace_endpoint ep es) \<subseteq> insert ep (set es)"
  by (induction es) auto

lemma replace_endpoint_names:
  "set (map (\<lambda>e. hs_src (ep_host_endpoint e)) (replace_endpoint ep es)) =
   insert (hs_src (ep_host_endpoint ep)) (set (map (\<lambda>e. hs_src (ep_host_endpoint e)) es))"
  by (induction es) auto

lemma replace_endpoint_distinct:
  "distinct (map (\<lambda>e. hs_src (ep_host_endpoint e)) es) \<Longrightarrow> distinct (map (\<lambda>e. hs_src (ep_host_endpoint e)) (replace_endpoint ep es))"
proof (induction es)
  case (Cons e es)
  then show ?case using replace_endpoint_names [of ep es] by auto
qed simp

lemma replace_endpoint_nonempty: "replace_endpoint ep es \<noteq> []"
  by (cases es) auto

lemma delete_endpoint_Some:
  "delete_endpoint name es = Some fs \<Longrightarrow> set fs \<subseteq> set es \<and>
   (distinct (map (\<lambda>e. hs_src (ep_host_endpoint e)) es) \<longrightarrow> distinct (map (\<lambda>e. hs_src (ep_host_endpoint e)) fs))"
proof (induction es arbitrary: fs)
  case (Cons e es)
  show ?case
  proof (cases "hs_src (ep_host_endpoint e) = name")
    case False
    then obtain gs where "delete_endpoint name es = Some gs" "fs = e # gs" using Cons.prems by auto
    with Cons.IH [of gs] show ?thesis by auto
  qed (use Cons.prems in auto)
qed simp

lemma merge_ok:
  assumes "merge_http_into_existing existing ep = Ok p" and "\<And>l. existing = Some l \<Longrightarrow> listen_ok c here l"
    and "here (ep_host_endpoint ep)" and "refs_loaded c ep"
  shows "port_ok c here p"
proof -
  have "port_ok c here (insert_or_replace_configuration ep q)"
    if "port_ok c here q" and "can_be_under_the_same_port (lp_listen_endpoint_type q) (ep_listen_endpoint_type ep)" for q
    using that assms(3,4) replace_endpoint_set [of ep "lp_endpoints q"]
    by (auto simp: port_ok_def insert_or_replace_configuration_def replace_endpoint_nonempty intro: replace_endpoint_distinct)
  moreover have "port_ok c here (new_listen_port ep)"
    using assms(3,4) by (auto simp: port_ok_def new_listen_port_def can_be_under_the_same_port_def split: ListenHttpEndpointType.splits)
  ultimately show ?thesis
    using assms(1,2) by (auto simp: merge_http_into_existing_def check_endpoint_type_def rust_simps split: option.splits ListenConfiguration.splits if_splits)
qed

lemma compile_http_host_ok:
  assumes "compile_http_host E S h host existing t wrap c = (Ok l, d)" and "\<And>k. existing = Some k \<Longrightarrow> listen_ok c here k" and "here h"
    and "wrap = HttpPort \<or> wrap = McpPort"
  shows "listen_ok d here l"
proof -
  from assms(1) obtain ep p where ep: "compile_http_configuration E S h host t c = (Ok ep, d)"
    and p: "merge_http_into_existing existing ep = Ok p" and l: "l = wrap p"
    unfolding compile_http_host_def by (auto elim!: then_doE)
  have "grows c d" using grows_http [of c E S h host t] ep by simp
  then have "port_ok d here p"
    using merge_ok [OF p] compile_http_Ok [OF ep] assms(2,3) listen_ok_grows by simp
  then show ?thesis using l assms(4) by auto
qed

lemma compile_host_cases:
  assumes "compile_host_configuration E S h host existing c = (Ok l, d)"
  obtains (http) t wrap where "compile_http_host E S h host existing t wrap c = (Ok l, d)" "wrap = HttpPort \<or> wrap = McpPort"
      "get_endpoint_type (ho_endpoint host) \<noteq> Ok EtTcp"
    | (tcp) t where "new_tcp_endpoint E S h host c = (Ok t, d)" "l = TcpPort t" "get_endpoint_type (ho_endpoint host) = Ok EtTcp"
  using assms unfolding compile_host_configuration_def by (auto elim!: then_doE split: EndpointTypeSettings.splits)

lemma new_tcp_Ok:
  assumes "new_tcp_endpoint E S h host c = (Ok t, d)"
  shows "th_host_endpoint t = h" and "th_ip_white_list_id t = Some i \<Longrightarrow> ac_white_lists d i \<noteq> None"
    and "get_from_host_or_templates S host es_whitelisted_ip et_whitelisted_ip = Ok (th_ip_white_list_id t)"
  using assms unfolding new_tcp_endpoint_def Let_def
  by (auto elim!: then_doE split: list.splits option.splits dest: white_listed_Ok)

lemma compile_host_ok:
  assumes "compile_host_configuration E S h host existing c = (Ok l, d)" and "\<And>k. existing = Some k \<Longrightarrow> listen_ok c here k" and "here h"
  shows "listen_ok d here l"
  using assms(1)
proof (cases rule: compile_host_cases)
  case http
  then show ?thesis using compile_http_host_ok [OF _ assms(2,3)] by blast
next
  case (tcp t)
  then show ?thesis using new_tcp_Ok [OF tcp(1)] assms(3) by simp
qed

definition here_of :: "EndpointHttpHostString \<Rightarrow> EndpointHttpHostString \<Rightarrow> bool" where
  "here_of h = (case hs_port h of Some port \<Rightarrow> on_port port | None \<Rightarrow> on_path (hs_src h))"

lemma here_of_refl [simp]: "here_of h h"
  by (simp add: here_of_def on_port_def on_path_def split: option.splits)

lemma port_config_ok: "ports_ok c tcp ux \<Longrightarrow> port_config tcp ux h = Some l \<Longrightarrow> listen_ok c (here_of h) l"
  by (auto simp: ports_ok_def port_config_def here_of_def split: option.splits)

lemma refs_loaded_ports [simp]:
  "refs_loaded (c\<lparr>ac_tcp := tcp\<rparr>) ep = refs_loaded c ep" "refs_loaded (c\<lparr>ac_unix := ux\<rparr>) ep = refs_loaded c ep"
  "refs_loaded (c\<lparr>ac_errors := es\<rparr>) ep = refs_loaded c ep"
  by (simp_all add: refs_loaded_def)

lemma listen_ok_ports [simp]:
  "listen_ok (c\<lparr>ac_tcp := tcp\<rparr>) here l = listen_ok c here l" "listen_ok (c\<lparr>ac_unix := ux\<rparr>) here l = listen_ok c here l"
  "listen_ok (c\<lparr>ac_errors := es\<rparr>) here l = listen_ok c here l"
  by (cases l; simp add: port_ok_def)+

lemma config_ok_errors [simp]: "config_ok (c\<lparr>ac_errors := es\<rparr>) = config_ok c"
  by (simp add: config_ok_def ports_ok_def)

lemma config_ok_set:
  "config_ok c \<Longrightarrow> (\<And>l. new = Some l \<Longrightarrow> listen_ok c (here_of h) l) \<Longrightarrow> config_ok (set_port_config h new c)"
  by (auto simp: config_ok_def ports_ok_def set_port_config_def here_of_def split: option.splits)

lemma ports_ok_put:
  "ports_ok c (df_tcp d) (df_unix d) \<Longrightarrow> listen_ok c (here_of h) l \<Longrightarrow>
   ports_ok c (df_tcp (put_draft h l d)) (df_unix (put_draft h l d))"
  by (auto simp: ports_ok_def put_draft_def here_of_def split: option.splits)

lemma load_host_cases:
  assumes "load_host E S entry d c = (Ok d', c')"
  obtains (loaded) h l where "new_host_string (fst entry) = Ok h" "d' = put_draft h l d"
      "compile_host_configuration E S h (snd entry) (port_config (df_tcp d) (df_unix d) h) c = (Ok l, c')"
    | (failed) h e where "new_host_string (fst entry) = Ok h" "d' = d\<lparr>df_errors := (df_errors d)(hs_src h \<mapsto> e)\<rparr>"
      "compile_host_configuration E S h (snd entry) (port_config (df_tcp d) (df_unix d) h) c = (Err e, c')"
    | (bad) e where "new_host_string (fst entry) = Err e" "d' = d" "c' = c"
  using assms unfolding load_host_def by (auto split: outcome.splits prod.splits)

lemma load_host_ok:
  assumes "load_host E S entry d c = (Ok d', c')" and "ports_ok c (df_tcp d) (df_unix d)"
  shows "ports_ok c' (df_tcp d') (df_unix d')"
proof -
  have g: "ports_ok c' (df_tcp d) (df_unix d)"
    if "compile_host_configuration E S h (snd entry) (port_config (df_tcp d) (df_unix d) h) c = (r, c')" for h r
    by (rule ports_ok_grows [OF _ assms(2)])
      (use grows_host [of c E S h "snd entry" "port_config (df_tcp d) (df_unix d) h"] that in simp)
  show ?thesis
    using assms(1)
  proof (cases rule: load_host_cases)
    case (loaded h l)
    have "listen_ok c' (here_of h) l" using compile_host_ok [OF loaded(3) port_config_ok [OF assms(2)]] by simp
    then show ?thesis using g [OF loaded(3)] loaded(2) ports_ok_put by simp
  next
    case (failed h e)
    then show ?thesis using g [OF failed(3)] by simp
  qed (use assms(2) in simp)
qed

lemma grows_load_host: "grows c (snd (load_host E S entry d c))"
proof (cases "new_host_string (fst entry)")
  case (Ok h)
  then show ?thesis
    using grows_host [of c E S h "snd entry" "port_config (df_tcp d) (df_unix d) h"]
    by (auto simp: load_host_def split: outcome.splits prod.splits)
qed (simp_all add: load_host_def)

lemma grows_load_hosts: "grows c (snd (load_hosts E S hosts d c))"
  by (induction hosts arbitrary: d c) (auto intro!: grows_then grows_load_host)

lemma load_hosts_ok:
  "load_hosts E S hosts d c = (Ok d', c') \<Longrightarrow> ports_ok c (df_tcp d) (df_unix d) \<Longrightarrow> ports_ok c' (df_tcp d') (df_unix d')"
  by (induction hosts arbitrary: d c) (auto elim!: then_doE dest: load_host_ok)

lemma load_everything_ok: "config_ok c \<Longrightarrow> config_ok (snd (load_everything_from_settings E S c))"
proof -
  assume c: "config_ok c"
  obtain r c' where l: "load_hosts E S (ce_hosts E (sc_hosts S)) empty_draft c = (r, c')" by force
  have "config_ok c'" using c grows_load_hosts [of c E S "ce_hosts E (sc_hosts S)" empty_draft] l config_ok_grows by simp
  moreover have "ports_ok c' (df_tcp d) (df_unix d)" if "r = Ok d" for d
    by (rule load_hosts_ok [OF l [unfolded that]]) (simp add: ports_ok_def empty_draft_def)
  ultimately show ?thesis
    using l by (cases r) (auto simp: load_everything_from_settings_def config_ok_def ports_ok_def)
qed

lemma config_ok_then:
  assumes "config_ok (snd m)" and "\<And>x d. m = (Ok x, d) \<Longrightarrow> config_ok d \<Longrightarrow> config_ok (snd (f x d))"
  shows "config_ok (snd (then_do m f))"
  using assms by (cases m) (auto simp: then_do_def split: outcome.splits)

lemma update_host_ok:
  assumes "config_ok c"
  shows "config_ok (snd (update_host_configuration E S h host c))"
  unfolding update_host_configuration_def
proof (rule config_ok_then)
  show "config_ok (snd (compile_host_configuration E S h host (port_config (ac_tcp c) (ac_unix c) h) c))"
    using grows_host assms config_ok_grows by blast
  fix l d
  assume l: "compile_host_configuration E S h host (port_config (ac_tcp c) (ac_unix c) h) c = (Ok l, d)" and d: "config_ok d"
  have "listen_ok d (here_of h) l"
    using compile_host_ok [OF l port_config_ok] assms by (simp add: config_ok_def)
  then show "config_ok (snd (Ok (), set_port_config h (Some l) (d\<lparr>ac_errors := (ac_errors d)(hs_src h := None)\<rparr>)))"
    using d by (auto intro!: config_ok_set)
qed

lemma delete_configuration_ok:
  "delete_configuration h p = Some q \<Longrightarrow> port_ok c here p \<Longrightarrow> lp_endpoints q \<noteq> [] \<Longrightarrow> port_ok c here q"
  using delete_endpoint_Some [of "hs_src h" "lp_endpoints p"] by (auto simp: delete_configuration_def port_ok_def) blast+

lemma delete_ok:
  assumes "config_ok c"
  shows "config_ok (snd (delete_http_endpoint_if_exists endpoint_id c))"
proof (cases "new_host_string endpoint_id")
  case (Ok h)
  have p: "listen_ok c (here_of h) l" if "port_config (ac_tcp c) (ac_unix c) h = Some l" for l
    using assms port_config_ok that by (simp add: config_ok_def)
  have "config_ok (set_port_config h None c)" by (rule config_ok_set [OF assms]) simp
  moreover have "config_ok (set_port_config h (Some (HttpPort q)) c)"
    if "port_config (ac_tcp c) (ac_unix c) h = Some l" "l = HttpPort p \<or> l = McpPort p" "delete_configuration h p = Some q"
      "lp_endpoints q \<noteq> []" for l p q
    using p [OF that(1)] that(2-4) by (intro config_ok_set [OF assms]) (auto intro: delete_configuration_ok)
  ultimately show ?thesis
    using Ok assms by (auto simp: delete_http_endpoint_if_exists_def Let_def split: option.splits ListenConfiguration.splits)
qed (use assms in \<open>simp_all add: delete_http_endpoint_if_exists_def\<close>)

lemma reload_endpoint_ok: "config_ok c \<Longrightarrow> config_ok (snd (reload_endpoint_configuration E S host_id c))"
  unfolding reload_endpoint_configuration_def
  by (auto split: option.splits outcome.splits intro: update_host_ok delete_ok)

lemma compile_port_ok:
  assumes "config_ok c" and "\<And>l. existing = Some l \<Longrightarrow> listen_ok c here l" and "\<And>h. mine h \<Longrightarrow> here h"
  shows "grows c (snd (compile_port E S mine hosts existing c)) \<and>
    (\<forall>l d. compile_port E S mine hosts existing c = (Ok (Some l), d) \<longrightarrow> listen_ok d here l)"
  using assms
proof (induction hosts arbitrary: existing c)
  case (Cons entry hosts)
  obtain host_id host where e: "entry = (host_id, host)" by force
  show ?case
  proof (cases "new_host_string host_id")
    case (Ok h)
    show ?thesis
    proof (cases "mine h")
      case True
      obtain r c1 where r: "compile_host_configuration E S h host existing c = (r, c1)" by force
      have g: "grows c c1" using grows_host [of c E S h host existing] r by simp
      show ?thesis
      proof (cases r)
        case (Ok l)
        have "listen_ok c1 here l" using compile_host_ok [OF r [unfolded Ok] Cons.prems(2)] Cons.prems(3) True by blast
        with Cons.IH [of c1 "Some l"] config_ok_grows [OF g Cons.prems(1)] Cons.prems(3) have
          "grows c1 (snd (compile_port E S mine hosts (Some l) c1)) \<and>
           (\<forall>l' d. compile_port E S mine hosts (Some l) c1 = (Ok (Some l'), d) \<longrightarrow> listen_ok d here l')" by simp
        then show ?thesis using e \<open>new_host_string host_id = Ok h\<close> True r Ok g by (auto intro: grows_trans)
      qed (use e \<open>new_host_string host_id = Ok h\<close> True r g in auto)
    next
      case False
      then show ?thesis using Cons.IH [OF Cons.prems] e Ok by simp
    qed
  qed (use e in simp_all)
qed simp

lemma reload_tcp_ok:
  assumes "config_ok c"
  shows "config_ok (snd (reload_tcp_port_configurations E S port c))"
proof -
  note p = compile_port_ok [OF assms, of None "on_port port" "\<lambda>h. hs_port h = Some port" E S "ce_hosts E (sc_hosts S)", simplified on_port_def, simplified]
  show ?thesis
    unfolding reload_tcp_port_configurations_def
  proof (rule config_ok_then)
    show "config_ok (snd (compile_port E S (\<lambda>h. hs_port h = Some port) (ce_hosts E (sc_hosts S)) None c))"
      using p config_ok_grows [OF _ assms] by blast
    fix l d
    assume "compile_port E S (\<lambda>h. hs_port h = Some port) (ce_hosts E (sc_hosts S)) None c = (Ok l, d)" "config_ok d"
    then show "config_ok (snd (Ok (), d\<lparr>ac_errors := (ac_errors d)(dec_digits port := None), ac_tcp := (ac_tcp d)(port := l)\<rparr>))"
      using p by (cases l) (auto simp: config_ok_def ports_ok_def on_port_def [abs_def])
  qed
qed

lemma reload_unix_ok:
  assumes "config_ok c"
  shows "config_ok (snd (reload_unix_configurations E S path c))"
proof -
  note p = compile_port_ok [OF assms, of None "on_path path" "\<lambda>h. hs_port h = None \<and> hs_src h = path" E S "ce_hosts E (sc_hosts S)", simplified on_path_def, simplified]
  show ?thesis
    unfolding reload_unix_configurations_def
  proof (rule config_ok_then)
    show "config_ok (snd (compile_port E S (\<lambda>h. hs_port h = None \<and> hs_src h = path) (ce_hosts E (sc_hosts S)) None c))"
      using p config_ok_grows [OF _ assms] by blast
    fix l d
    assume "compile_port E S (\<lambda>h. hs_port h = None \<and> hs_src h = path) (ce_hosts E (sc_hosts S)) None c = (Ok l, d)" "config_ok d"
    then show "config_ok (snd (Ok (), d\<lparr>ac_errors := (ac_errors d)(path := None), ac_unix := (ac_unix d)(path := l)\<rparr>))"
      using p by (cases l) (auto simp: config_ok_def ports_ok_def on_path_def [abs_def])
  qed
qed

section \<open>Every configuration that is ever live\<close>

text \<open>
  The flows an operator starts, each with the settings of that moment, and the timers that refresh one list or
  certificate. A flow that fails or panics on the way leaves what it has written so far.
\<close>

inductive live_config :: "app_config \<Rightarrow> bool" where
  start: "live_config new_app_config"
| load_everything: "live_config c \<Longrightarrow> live_config (snd (load_everything_from_settings E S c))"
| reload_endpoint: "live_config c \<Longrightarrow> live_config (snd (reload_endpoint_configuration E S host_id c))"
| reload_tcp_port: "live_config c \<Longrightarrow> live_config (snd (reload_tcp_port_configurations E S port c))"
| reload_unix: "live_config c \<Longrightarrow> live_config (snd (reload_unix_configurations E S path c))"
| refresh_ip_list: "live_config c \<Longrightarrow> live_config (snd (refresh_ip_list_from_settings S i c))"
| refresh_users: "live_config c \<Longrightarrow> live_config (snd (refresh_users_list_from_settings S i c))"
| refresh_ca: "live_config c \<Longrightarrow> live_config (snd (refresh_ca_from_sources E S i c))"
| refresh_ssl: "live_config c \<Longrightarrow> live_config (snd (refresh_ssl_certs_from_sources E S i c))"

lemma live_config_ok: "live_config c \<Longrightarrow> config_ok c"
proof (induction rule: live_config.induct)
  case start
  show ?case by (simp add: new_app_config_def config_ok_def ports_ok_def)
qed (auto intro: load_everything_ok reload_endpoint_ok reload_tcp_ok reload_unix_ok
    config_ok_grows [OF grows_ip_list] config_ok_grows [OF grows_users] config_ok_grows [OF grows_ca] config_ok_grows [OF grows_ssl])

text \<open>No request finds a live port without endpoints.\<close>

lemma live_port_ok:
  assumes "live_config c" and "ac_tcp c port = Some l" and "l = HttpPort p \<or> l = McpPort p"
  shows "port_ok c (on_port port) p"
proof -
  have "listen_ok c (on_port port) l" using live_config_ok [OF assms(1)] assms(2) by (simp add: config_ok_def ports_ok_def)
  then show ?thesis using assms(3) by auto
qed


section \<open>What the settings of a host ask for\<close>

definition setting_of ::
  "SettingsCompiled \<Rightarrow> HostSettings \<Rightarrow> (EndpointSettings \<Rightarrow> 'a option) \<Rightarrow> (EndpointTemplateSettings \<Rightarrow> 'a option) \<Rightarrow> 'a option" where
  "setting_of S host from_host from_template =
     (case from_host (ho_endpoint host) of
        Some x \<Rightarrow> Some x
      | None \<Rightarrow> Option.bind (es_template_id (ho_endpoint host)) (\<lambda>t. Option.bind (sc_endpoint_templates S t) from_template))"

lemma get_from_Ok: "get_from_host_or_templates S host f g = Ok r \<Longrightarrow> r = setting_of S host f g"
  by (auto simp: get_from_host_or_templates_def get_endpoint_template_def setting_of_def rust_simps split: option.splits)

definition protected_as :: "SettingsCompiled \<Rightarrow> HostSettings \<Rightarrow> HttpEndpointInfo \<Rightarrow> bool" where
  "protected_as S host ep \<longleftrightarrow>
     ep_whitelisted_ip_list_id ep = setting_of S host es_whitelisted_ip et_whitelisted_ip \<and>
     ep_allowed_user_list_id ep = es_allowed_users (ho_endpoint host) \<and>
     ep_oauth ep = setting_of S host es_oauth et_oauth \<and>
     (is_https_or_mcp (ep_listen_endpoint_type ep) \<longrightarrow>
        ep_g_auth ep = setting_of S host es_google_auth et_google_auth \<and>
        ep_client_certificate_id ep = setting_of S host es_client_certificate_ca et_client_certificate_ca) \<and>
     list_all2 location_of (ho_locations host) (ep_locations ep)"

lemma compile_http_protected:
  "compile_http_configuration E S h host t c = (Ok ep, d) \<Longrightarrow> protected_as S host ep"
  unfolding protected_as_def using compile_http_Ok [of E S h host t c ep d] by (auto dest: get_from_Ok)

text \<open>On a plain HTTP endpoint the Google sign-in and the client authority of the settings have no effect.\<close>

lemma plain_http_never_authorizes:
  assumes "compile_http_configuration E S h host t c = (Ok ep, d)" and "\<not> is_https_or_mcp t"
  shows "must_be_authorized ep = None"
  using compile_http_Ok(2,3,10) [OF assms(1)] assms(2) by (auto simp: must_be_authorized_def refs_loaded_def)

section \<open>A full reload\<close>

definition host_on :: "config_env \<Rightarrow> SettingsCompiled \<Rightarrow> nat \<Rightarrow> bytes \<Rightarrow> HostSettings \<Rightarrow> EndpointHttpHostString \<Rightarrow> bool" where
  "host_on E S p i k h \<longleftrightarrow> (i, k) \<in> set (ce_hosts E (sc_hosts S)) \<and> new_host_string i = Ok h \<and> hs_port h = Some p"

lemma new_host_string_src: "new_host_string i = Ok h \<Longrightarrow> hs_src h = i"
  by (auto simp: new_host_string_def Let_def split: if_splits option.splits)

definition endpoints_on :: "(nat \<rightharpoonup> ListenConfiguration) \<Rightarrow> nat \<Rightarrow> HttpEndpointInfo list" where
  "endpoints_on tcp p = (case tcp p of Some l \<Rightarrow> listen_endpoints l | None \<Rightarrow> [])"

lemma replace_endpoint_keeps:
  "e \<in> set es \<Longrightarrow> hs_src (ep_host_endpoint e) \<noteq> hs_src (ep_host_endpoint ep) \<Longrightarrow> e \<in> set (replace_endpoint ep es)"
  by (induction es) auto

lemma replace_endpoint_has: "ep \<in> set (replace_endpoint ep es)"
  by (induction es) auto

lemma merge_endpoints:
  "merge_http_into_existing existing ep = Ok p \<Longrightarrow>
   lp_endpoints p = (case existing of Some l \<Rightarrow> replace_endpoint ep (listen_endpoints l) | None \<Rightarrow> [ep])"
  by (auto simp: merge_http_into_existing_def new_listen_port_def insert_or_replace_configuration_def rust_simps
      split: option.splits ListenConfiguration.splits)

text \<open>A host that compiles is the only change to the endpoints of its port.\<close>

lemma compile_host_endpoints:
  assumes "compile_host_configuration E S h host existing c = (Ok l, d)" and "get_endpoint_type (ho_endpoint host) \<noteq> Ok EtTcp"
  obtains ep where "ep_host_endpoint ep = h" "protected_as S host ep" "\<exists>p. l = HttpPort p \<or> l = McpPort p"
    "listen_endpoints l = (case existing of Some k \<Rightarrow> replace_endpoint ep (listen_endpoints k) | None \<Rightarrow> [ep])"
  using assms(1)
proof (cases rule: compile_host_cases)
  case (http t wrap)
  from http(1) obtain ep p where ep: "compile_http_configuration E S h host t c = (Ok ep, d)"
    and p: "merge_http_into_existing existing ep = Ok p" and l: "l = wrap p"
    unfolding compile_http_host_def by (auto elim!: then_doE)
  have "listen_endpoints l = lp_endpoints p" "\<exists>p. l = HttpPort p \<or> l = McpPort p" using l http(2) by auto
  then show ?thesis
    using that [of ep] compile_http_Ok(1) [OF ep] compile_http_protected [OF ep] merge_endpoints [OF p] by simp
qed (use assms(2) in simp)

text \<open>The hosts of one port that are already compiled: each is in the errors or among the endpoints, and nothing else is.\<close>

definition loaded_so_far :: "SettingsCompiled \<Rightarrow> nat \<Rightarrow> (bytes \<times> HostSettings) set \<Rightarrow> draft \<Rightarrow> bool" where
  "loaded_so_far S p hosts d \<longleftrightarrow>
     (\<forall>l. df_tcp d p = Some l \<longrightarrow> (\<exists>q. l = HttpPort q \<or> l = McpPort q)) \<and>
     (\<forall>(i, k) \<in> hosts. \<forall>h. new_host_string i = Ok h \<and> hs_port h = Some p \<longrightarrow>
        df_errors d i \<noteq> None \<or> (\<exists>ep \<in> set (endpoints_on (df_tcp d) p). ep_host_endpoint ep = h \<and> protected_as S k ep)) \<and>
     (\<forall>ep \<in> set (endpoints_on (df_tcp d) p). \<exists>(i, k) \<in> hosts. new_host_string i = Ok (ep_host_endpoint ep) \<and>
        hs_port (ep_host_endpoint ep) = Some p \<and> protected_as S k ep)"

lemma loaded_so_far_step:
  assumes step: "load_host E S (i, k) d c = (Ok d', c')" and inv: "loaded_so_far S p hosts d" and new: "i \<notin> fst ` hosts"
    and no_tcp: "\<And>h. new_host_string i = Ok h \<Longrightarrow> hs_port h = Some p \<Longrightarrow> get_endpoint_type (ho_endpoint k) \<noteq> Ok EtTcp"
  shows "loaded_so_far S p (insert (i, k) hosts) d'"
  using step
proof (cases rule: load_host_cases)
  case (loaded h l)
  show ?thesis
  proof (cases "hs_port h = Some p")
    case True
    obtain ep where ep: "ep_host_endpoint ep = h" "protected_as S k ep" and l: "\<exists>q. l = HttpPort q \<or> l = McpPort q"
      and es: "listen_endpoints l = (case df_tcp d p of Some m \<Rightarrow> replace_endpoint ep (listen_endpoints m) | None \<Rightarrow> [ep])"
      using compile_host_endpoints [OF loaded(3)] no_tcp loaded(1) True by (auto simp: port_config_def)
    have es': "endpoints_on (df_tcp d') p = replace_endpoint ep (endpoints_on (df_tcp d) p)"
      using es loaded(2) True by (simp add: endpoints_on_def put_draft_def split: option.splits)
    have d': "df_tcp d' p = Some l" "df_errors d' = df_errors d" using loaded(2) True by (simp_all add: put_draft_def)
    have kept: "e \<in> set (endpoints_on (df_tcp d') p)"
      if "e \<in> set (endpoints_on (df_tcp d) p)" "new_host_string j = Ok (ep_host_endpoint e)" "(j, m) \<in> hosts" for e j m
      unfolding es' using that new ep(1) new_host_string_src loaded(1) by (intro replace_endpoint_keeps) force+
    show ?thesis
      unfolding loaded_so_far_def
    proof (intro conjI)
      show "\<forall>l. df_tcp d' p = Some l \<longrightarrow> (\<exists>q. l = HttpPort q \<or> l = McpPort q)" using d' l by simp
      show "\<forall>(j, m) \<in> insert (i, k) hosts. \<forall>h. new_host_string j = Ok h \<and> hs_port h = Some p \<longrightarrow>
          df_errors d' j \<noteq> None \<or> (\<exists>ep \<in> set (endpoints_on (df_tcp d') p). ep_host_endpoint ep = h \<and> protected_as S m ep)"
        using inv kept ep replace_endpoint_has [of ep] loaded(1) unfolding loaded_so_far_def d' es'
        by (fastforce simp: es')
      show "\<forall>e \<in> set (endpoints_on (df_tcp d') p). \<exists>(j, m) \<in> insert (i, k) hosts. new_host_string j = Ok (ep_host_endpoint e) \<and>
          hs_port (ep_host_endpoint e) = Some p \<and> protected_as S m e"
        using inv ep loaded(1) True replace_endpoint_set [of ep "endpoints_on (df_tcp d) p"] unfolding loaded_so_far_def es' by fastforce
    qed
  next
    case False
    then have "df_tcp d' p = df_tcp d p" "df_errors d' = df_errors d"
      using loaded(2) by (auto simp: put_draft_def split: option.splits)
    then show ?thesis using inv False loaded(1) unfolding loaded_so_far_def endpoints_on_def by auto
  qed
next
  case (failed h e)
  then show ?thesis using inv new_host_string_src [OF failed(1)] unfolding loaded_so_far_def endpoints_on_def by fastforce
next
  case (bad e)
  then show ?thesis using inv unfolding loaded_so_far_def by auto
qed

lemma loaded_so_far_all:
  assumes "load_hosts E S hosts d c = (Ok d', c')" and "loaded_so_far S p seen d" and "distinct (map fst hosts)" and "fst ` seen \<inter> fst ` set hosts = {}"
    and "\<And>i k h. (i, k) \<in> set hosts \<Longrightarrow> new_host_string i = Ok h \<Longrightarrow> hs_port h = Some p \<Longrightarrow> get_endpoint_type (ho_endpoint k) \<noteq> Ok EtTcp"
  shows "loaded_so_far S p (seen \<union> set hosts) d'"
  using assms
proof (induction hosts arbitrary: d c seen)
  case (Cons entry hosts)
  obtain i k where e: "entry = (i, k)" by force
  obtain d1 c1 where step: "load_host E S (i, k) d c = (Ok d1, c1)" and rest: "load_hosts E S hosts d1 c1 = (Ok d', c')"
    using Cons.prems(1) e by (auto elim: then_doE)
  have "loaded_so_far S p (insert (i, k) seen) d1"
    by (rule loaded_so_far_step [OF step Cons.prems(2)]) (use Cons.prems(4,5) e in auto)
  from Cons.IH [OF rest this] Cons.prems(3-5) e show ?case by auto
qed simp

lemma load_everything_loaded:
  assumes "load_everything_from_settings E S c = (Ok (), d)" and "distinct (map fst (ce_hosts E (sc_hosts S)))"
    and "\<And>i k h. host_on E S p i k h \<Longrightarrow> get_endpoint_type (ho_endpoint k) \<noteq> Ok EtTcp"
  obtains df where "ac_tcp d = df_tcp df" "ac_errors d = df_errors df" "loaded_so_far S p (set (ce_hosts E (sc_hosts S))) df"
    "ports_ok d (df_tcp df) (df_unix df)"
proof -
  obtain df c' where l: "load_hosts E S (ce_hosts E (sc_hosts S)) empty_draft c = (Ok df, c')"
    and d: "d = c'\<lparr>ac_tcp := df_tcp df, ac_unix := df_unix df, ac_errors := df_errors df\<rparr>"
    using assms(1) unfolding load_everything_from_settings_def by (auto elim: then_doE)
  have "loaded_so_far S p ({} \<union> set (ce_hosts E (sc_hosts S))) df"
    by (rule loaded_so_far_all [OF l _ assms(2)])
      (use assms(3) in \<open>auto simp: loaded_so_far_def empty_draft_def endpoints_on_def host_on_def\<close>)
  moreover have "ports_ok c' (df_tcp df) (df_unix df)"
    by (rule load_hosts_ok [OF l]) (simp add: ports_ok_def empty_draft_def)
  ultimately show ?thesis using that [of df] d by (auto simp: ports_ok_def)
qed


section \<open>Examples\<close>

definition sample_endpoint :: EndpointSettings where
  "sample_endpoint = \<lparr>es_endpoint_type = as_bytes ''https'', es_ssl_certificate = None, es_client_certificate_ca = None, es_google_auth = None,
     es_oauth = None, es_modify_http_headers = None, es_inject_country = None, es_whitelisted_ip = None, es_template_id = None,
     es_allowed_users = None, es_keep_alive = None, es_track_metrics_by_all_domains = None, es_hsts = None, es_mcp_buffer_size = None,
     es_timeouts = default_timeouts\<rparr>"

definition sample_location :: LocationSettings where
  "sample_location = \<lparr>ls_path = None, ls_proxy_pass_to = Some (as_bytes ''http://10.0.0.1''), ls_location_type = Some (as_bytes ''http''), ls_domain_name = None,
     ls_modify_http_headers = None, ls_default_file = None, ls_status_code = None, ls_content_type = None, ls_body = None,
     ls_whitelisted_ip = None, ls_compress = None, ls_auth_header = Some (as_bytes ''key''), ls_allowed_hosts = None, ls_timeouts = default_timeouts\<rparr>"

definition sample_host :: "bytes option \<Rightarrow> HostSettings" where
  "sample_host users = \<lparr>ho_endpoint = sample_endpoint\<lparr>es_allowed_users := users\<rparr>, ho_locations = [sample_location]\<rparr>"

definition sample_settings :: "(bytes \<times> HostSettings) list \<Rightarrow> SettingsCompiled" where
  "sample_settings hosts = new_settings_compiled\<lparr>sc_hosts := hosts, sc_allowed_users := [as_bytes ''staff'' \<mapsto> [as_bytes ''ann'']]\<rparr>"

definition sample_remote :: "bytes \<Rightarrow> remote_endpoint" where
  "sample_remote s = \<lparr>re_text = s, re_scheme = Some SchemeHttp, re_host = s, re_host_port = s, re_path_and_query = None\<rparr>"

definition sample_config_env :: "((bytes \<times> HostSettings) list \<Rightarrow> (bytes \<times> HostSettings) list) \<Rightarrow> config_env" where
  "sample_config_env ord = \<lparr>ce_parse_ssh = (\<lambda>s. Some (None, s)), ce_try_parse = (\<lambda>s. Some (sample_remote s)), ce_read_key = (\<lambda>_. False),
     ce_load_file = (\<lambda>_. None), ce_crl_ok = (\<lambda>_. False), ce_ca_ok = (\<lambda>_. False), ce_ssl_ok = (\<lambda>_ _. False), ce_signing_key = (\<lambda>_. None),
     ce_default_key_file = (\<lambda>i. i), ce_location_id = (\<lambda>_ _ _. 0), ce_eq_ci = (=), ce_hosts = ord\<rparr>"


lemma sample_locations: "\<exists>locs. compile_http_locations (sample_config_env ord) S ListenHttps1 listen_host t [sample_location] = Ok locs"
  by (simp add: compile_http_locations_def compile_location_proxy_pass_to_def sample_location_def get_location_type_def as_bytes_inject
      compile_target_def compile_model_def rust_simps Let_def try_parse_def sample_config_env_def starts_with_def as_bytes_def parse_remote_def
      check_location_def new_location_config_def)

lemma sample_compiles:
  assumes "users = None \<or> users = Some (as_bytes ''staff'')"
  shows "\<exists>ep d. compile_http_configuration (sample_config_env ord) (sample_settings hosts) h (sample_host users) ListenHttps1 c = (Ok ep, d)"
proof -
  obtain locs where "compile_http_locations (sample_config_env ord) (sample_settings hosts) ListenHttps1 (hs_src h)
     (overriden_by (get_global_timeouts (sample_settings hosts)) (es_timeouts (ho_endpoint (sample_host users)))) [sample_location] = Ok locs"
    using sample_locations by blast
  moreover have "\<exists>n. get_mcp_buffer_size (ho_endpoint (sample_host users)) = Ok n"
    by (simp add: get_mcp_buffer_size_def sample_host_def sample_endpoint_def)
  moreover have "\<exists>d. get_endpoint_users_list (sample_settings hosts) (sample_host users) c = (Ok users, d)"
    using assms by (auto simp: get_endpoint_users_list_def refresh_users_list_from_settings_def sample_host_def sample_settings_def sample_endpoint_def)
  ultimately show ?thesis
    by (auto simp: compile_http_configuration_def get_endpoint_white_listed_ip_def get_from_host_or_templates_def get_endpoint_template_def sample_host_def
      sample_endpoint_def rust_simps get_endpoint_modify_headers_def tls_parts_def make_sure_ssl_cert_exists_def make_sure_client_ca_exists_def
      get_google_auth_credentials_def get_oauth_credentials_def is_https_or_mcp_def Let_def)
qed

definition sample_443 :: EndpointHttpHostString where "sample_443 = \<lparr>hs_src = as_bytes ''443'', hs_port = Some 443, hs_index = None\<rparr>"
definition sample_a :: EndpointHttpHostString where "sample_a = \<lparr>hs_src = as_bytes ''a.com:443'', hs_port = Some 443, hs_index = Some 5\<rparr>"
definition sample_b :: EndpointHttpHostString where "sample_b = \<lparr>hs_src = as_bytes ''b.com:443'', hs_port = Some 443, hs_index = Some 5\<rparr>"

lemma sample_names:
  "new_host_string (as_bytes ''443'') = Ok sample_443" "new_host_string (as_bytes ''a.com:443'') = Ok sample_a"
  "new_host_string (as_bytes ''b.com:443'') = Ok sample_b"
  by (simp_all add: sample_443_def sample_a_def sample_b_def new_host_string_def as_bytes_def starts_with_def parse_unsigned_def Let_def is_digit_def dec_value_def)

lemma sample_load:
  assumes "new_host_string i1 = Ok h1" "new_host_string i2 = Ok h2" "hs_port h1 = Some 443" "hs_port h2 = Some 443" "i1 \<noteq> i2"
    and "users1 = None \<or> users1 = Some (as_bytes ''staff'')" "users2 = None \<or> users2 = Some (as_bytes ''staff'')"
    and "ord hosts = [(i1, sample_host users1), (i2, sample_host users2)]"
  obtains ep1 ep2 d where "load_everything_from_settings (sample_config_env ord) (sample_settings hosts) c = (Ok (), d)"
     "ac_tcp d 443 = Some (HttpPort \<lparr>lp_endpoints = [ep1, ep2], lp_listen_endpoint_type = ListenHttps1\<rparr>)"
     "ac_errors d = Map.empty" "ep_host_endpoint ep1 = h1" "ep_host_endpoint ep2 = h2"
     "ep_allowed_user_list_id ep1 = users1" "ep_allowed_user_list_id ep2 = users2"
proof -
  let ?S = "sample_settings hosts"
  obtain ep1 c1 where 1: "compile_http_configuration (sample_config_env ord) ?S h1 (sample_host users1) ListenHttps1 c = (Ok ep1, c1)"
    using sample_compiles [OF assms(6)] by blast
  obtain ep2 c2 where 2: "compile_http_configuration (sample_config_env ord) ?S h2 (sample_host users2) ListenHttps1 c1 = (Ok ep2, c2)"
    using sample_compiles [OF assms(7)] by blast
  have t: "get_endpoint_type (ho_endpoint (sample_host u)) = Ok EtHttps1" for u
    by (simp add: get_endpoint_type_def sample_host_def sample_endpoint_def as_bytes_inject)
  have u: "es_allowed_users (ho_endpoint (sample_host u)) = u" for u by (simp add: sample_host_def)
  note f = compile_http_Ok(1,2) [OF 1] compile_http_Ok(6) [OF 1, unfolded u, symmetric] compile_http_Ok(1,2) [OF 2]
    compile_http_Ok(6) [OF 2, unfolded u, symmetric] new_host_string_src [OF assms(1)] new_host_string_src [OF assms(2)]
  have "ce_hosts (sample_config_env ord) (sc_hosts ?S) = [(i1, sample_host users1), (i2, sample_host users2)]"
    using assms(8) by (simp add: sample_config_env_def sample_settings_def)
  then show ?thesis
    using f assms(1-5)
    by (intro that [of "c2\<lparr>ac_tcp := [443 \<mapsto> HttpPort \<lparr>lp_endpoints = [ep1, ep2], lp_listen_endpoint_type = ListenHttps1\<rparr>],
        ac_unix := Map.empty, ac_errors := Map.empty\<rparr>" ep1 ep2])
      (simp_all add: load_everything_from_settings_def load_host_def compile_host_configuration_def t 1 2 compile_http_host_def port_config_def
        put_draft_def empty_draft_def merge_http_into_existing_def new_listen_port_def check_endpoint_type_def can_be_under_the_same_port_def
        insert_or_replace_configuration_def rust_simps)
qed

definition sample_hosts :: "(bytes \<times> HostSettings) list" where
  "sample_hosts = [(as_bytes ''a.com:443'', sample_host (Some (as_bytes ''staff''))), (as_bytes ''b.com:443'', sample_host None)]"

lemma sample_host_on:
  "host_on (sample_config_env (\<lambda>hosts. hosts)) (sample_settings sample_hosts) p i k h \<longleftrightarrow>
     p = 443 \<and> (i = as_bytes ''a.com:443'' \<and> k = sample_host (Some (as_bytes ''staff'')) \<and> h = sample_a \<or> i = as_bytes ''b.com:443'' \<and> k = sample_host None \<and> h = sample_b)"
proof -
  have "hs_port sample_a = Some 443" "hs_port sample_b = Some 443" by (simp_all add: sample_a_def sample_b_def)
  then show ?thesis by (auto simp: host_on_def sample_hosts_def sample_config_env_def sample_settings_def sample_names)
qed


definition sample_shared :: "(bytes \<times> HostSettings) list" where
  "sample_shared = [(as_bytes ''a.com:443'', sample_host (Some (as_bytes ''staff''))), (as_bytes ''443'', sample_host None)]"

text \<open>
  C40. Where that condition fails, the order in which a \<open>HashMap
\<close> happens to yield the hosts decides who answers: a
  host without a server name, \<open>443\<close>, that shares its port with \<open>a.com:443\<close> answers for \<open>a.com\<close> when it comes first, so that
  one load of the settings asks for a user of the list and another load of the same settings asks for nobody.\<close>

theorem shared_port_order_decides:
  "\<exists>d1 d2 q1 q2 ep1 ep2.
     load_everything_from_settings (sample_config_env (\<lambda>hosts. hosts)) (sample_settings sample_shared) new_app_config = (Ok (), d1) \<and>
     load_everything_from_settings (sample_config_env rev) (sample_settings sample_shared) new_app_config = (Ok (), d2) \<and>
     ac_tcp d1 443 = Some (HttpPort q1) \<and> ac_tcp d2 443 = Some (HttpPort q2) \<and>
     get_http_endpoint_info q1 (Some (as_bytes ''a.com'')) = Ok (Some ep1) \<and> ep_allowed_user_list_id ep1 = Some (as_bytes ''staff'') \<and>
     get_http_endpoint_info q2 (Some (as_bytes ''a.com'')) = Ok (Some ep2) \<and> ep_allowed_user_list_id ep2 = None"
proof -
  have n: "as_bytes ''a.com:443'' \<noteq> as_bytes ''443''" "hs_port sample_a = Some 443" "hs_port sample_443 = Some 443"
      "is_my_server_name sample_a (as_bytes ''a.com'')" "is_my_server_name sample_443 (as_bytes ''a.com'')"
    by (simp_all add: as_bytes_inject sample_a_def sample_443_def is_my_server_name_def get_server_name_def as_bytes_def eq_no_case_def to_lower_case_def)
  have ord: "(\<lambda>hosts. hosts) sample_shared = [(as_bytes ''a.com:443'', sample_host (Some (as_bytes ''staff''))), (as_bytes ''443'', sample_host None)]"
      "rev sample_shared = [(as_bytes ''443'', sample_host None), (as_bytes ''a.com:443'', sample_host (Some (as_bytes ''staff'')))]"
    by (simp_all add: sample_shared_def)
  obtain ep1 ep2 d where d: "load_everything_from_settings (sample_config_env (\<lambda>hosts. hosts)) (sample_settings sample_shared) new_app_config = (Ok (), d)"
     "ac_tcp d 443 = Some (HttpPort \<lparr>lp_endpoints = [ep1, ep2], lp_listen_endpoint_type = ListenHttps1\<rparr>)"
     "ac_errors d = Map.empty" "ep_host_endpoint ep1 = sample_a" "ep_host_endpoint ep2 = sample_443"
     "ep_allowed_user_list_id ep1 = Some (as_bytes ''staff'')" "ep_allowed_user_list_id ep2 = None"
    by (rule sample_load [where ord = "\<lambda>hosts. hosts", OF sample_names(2,1) n(2,3,1) disjI2 [OF refl] disjI1 [OF refl] ord(1)])
  obtain ep1' ep2' d' where d': "load_everything_from_settings (sample_config_env rev) (sample_settings sample_shared) new_app_config = (Ok (), d')"
     "ac_tcp d' 443 = Some (HttpPort \<lparr>lp_endpoints = [ep1', ep2'], lp_listen_endpoint_type = ListenHttps1\<rparr>)"
     "ac_errors d' = Map.empty" "ep_host_endpoint ep1' = sample_443" "ep_host_endpoint ep2' = sample_a"
     "ep_allowed_user_list_id ep1' = None" "ep_allowed_user_list_id ep2' = Some (as_bytes ''staff'')"
    by (rule sample_load [where ord = rev, OF sample_names(1,2) n(3,2) n(1) [symmetric] disjI1 [OF refl] disjI2 [OF refl] ord(2)])
  from d d' n(4,5) show ?thesis by (simp add: get_http_endpoint_info_def is_my_endpoint_def)
qed

end
