(* ===== verification/Tls_Accept.thy ===== *)
theory Tls_Accept
  imports H1_Authorize Ip_Filter Gateway_Handlers
begin

text \<open>
  How a TLS connection is accepted: \<open>src/src/tcp_listener/https\<close>, \<open>src/src/ssl/client_certificates_cache.rs\<close> and the
  choice of certificate of \<open>src/src/configurations/http_listen_port_configuration.rs\<close>. Authorities and client
  certificates, the certificate verifier, the configuration of a handshake, the handshake itself with the errors
  it is rejected for, and what an accepted or rejected connection leads to. X.509, PEM and rustls are arguments;
  the text of error messages, logs and metrics are left out.
\<close>

section \<open>Client certificates and their authorities\<close>

text \<open>
  What is read of a parsed certificate; a common name that is not a string is \<open>None\<close>. \<open>tl_certs\<close> gives the PEM
  sections of a file, an error for a broken one. \<open>tl_completes\<close> is what rustls decides: its last argument says whether
  it asked for a client certificate, and what the callbacks of the verifier returned for the one it got.
\<close>

record x509 =
  xc_common_names :: "bytes option list"
  xc_dns_names :: "bytes list"
  xc_issuer :: bytes
  xc_serial :: bytes
  xc_public_key :: bytes
  xc_not_after :: int

text \<open>A client, as far as it gets: its hello, the certificate it sends and the signature it makes with its key.\<close>

record tls_client =
  tc_in_time :: bool
  tc_hello :: "bytes option option"
  tc_certificate :: "bytes option"
  tc_signature :: bytes

record tls_lib =
  tl_from_der :: "bytes \<Rightarrow> x509 option"
  tl_signed_by :: "x509 \<Rightarrow> bytes \<Rightarrow> bool"
  tl_certs :: "bytes \<Rightarrow> bytes option list"
  tl_completes :: "tls_client \<Rightarrow> (bool \<times> bool) option option \<Rightarrow> bool"

type_synonym file_source = "bytes option \<times> bytes"

record ClientCertificateCa =
  cca_content :: bytes
  cca_names :: "bytes list"
  cca_file_source :: file_source
  cca_crl_list :: "bytes list"
  cca_crl_file_source :: "file_source option"

fun issuer_names :: "tls_lib \<Rightarrow> bytes list \<Rightarrow> bytes list panics" where
  "issuer_names L [] = Ok []"
| "issuer_names L (ca # cas) =
     (case tl_from_der L ca of
        None \<Rightarrow> Panic
      | Some cert \<Rightarrow> rbind (issuer_names L cas) (\<lambda>names. Ok (xc_issuer cert # names)))"

definition new_client_ca ::
  "tls_lib \<Rightarrow> bytes list \<Rightarrow> file_source \<Rightarrow> bytes list \<Rightarrow> file_source option \<Rightarrow> ClientCertificateCa panics" where
  "new_client_ca L certs ca_file_source crl_list crl_file_source =
     rbind (issuer_names L certs) (\<lambda>names.
       case certs of
         [] \<Rightarrow> Panic
       | content # _ \<Rightarrow> Ok \<lparr>cca_content = content, cca_names = names, cca_file_source = ca_file_source, cca_crl_list = crl_list,
           cca_crl_file_source = crl_file_source\<rparr>)"

fun unwrap_all :: "'a option list \<Rightarrow> 'a list panics" where
  "unwrap_all [] = Ok []"
| "unwrap_all (x # xs) = (case x of None \<Rightarrow> Panic | Some y \<Rightarrow> rbind (unwrap_all xs) (\<lambda>ys. Ok (y # ys)))"

definition client_ca_from_bytes ::
  "tls_lib \<Rightarrow> bytes \<Rightarrow> file_source \<Rightarrow> (bytes list \<times> file_source) option \<Rightarrow> ClientCertificateCa panics" where
  "client_ca_from_bytes L src file_source crl =
     rbind (unwrap_all (tl_certs L src)) (\<lambda>certs.
       case crl of
         Some (records, source) \<Rightarrow> new_client_ca L certs file_source records (Some source)
       | None \<Rightarrow> new_client_ca L certs file_source [] None)"

text \<open>\<open>iter_common_name().next()\<close>: the first common name, the empty string without one, a panic for one that is not a string.\<close>

definition first_common_name :: "x509 \<Rightarrow> bytes panics" where
  "first_common_name cert =
     (case xc_common_names cert of [] \<Rightarrow> Ok [] | None # _ \<Rightarrow> Panic | Some cn # _ \<Rightarrow> Ok cn)"

definition verify_cert :: "tls_lib \<Rightarrow> ClientCertificateCa \<Rightarrow> bytes \<Rightarrow> bytes \<Rightarrow> ClientCertificateData option panics" where
  "verify_cert L ca certificate_to_check ca_id1 =
     (case tl_from_der L (cca_content ca) of
        None \<Rightarrow> Panic
      | Some issuer \<Rightarrow>
          (case tl_from_der L certificate_to_check of
             None \<Rightarrow> Panic
           | Some cert_to_check \<Rightarrow>
               rbind (first_common_name cert_to_check) (\<lambda>cn.
                 if tl_signed_by L cert_to_check (xc_public_key issuer) then
                   if list_ex (\<lambda>serial. serial = xc_serial cert_to_check) (cca_crl_list ca) then Ok None
                   else Ok (Some \<lparr>cc_cn = cn, cc_ca_id = ca_id1\<rparr>)
                 else Ok None)))"

definition ca_update_crl :: "bytes list \<Rightarrow> ClientCertificateCa \<Rightarrow> ClientCertificateCa" where
  "ca_update_crl crl ca = ca\<lparr>cca_crl_list := crl\<rparr>"

text \<open>The cache of authorities, and the refresh of their revocation lists; \<open>order\<close> is the order of the hash map.\<close>

type_synonym ca_cache = "bytes \<rightharpoonup> ClientCertificateCa"

definition get_list_of_crl :: "bytes list \<Rightarrow> ca_cache \<Rightarrow> (bytes \<times> file_source) list" where
  "get_list_of_crl order data =
     List.map_filter (\<lambda>i. case data i of
        None \<Rightarrow> None
      | Some ca \<Rightarrow> map_option (\<lambda>source. (i, source)) (cca_crl_file_source ca)) order"

definition cache_update_crl :: "bytes \<Rightarrow> bytes list \<Rightarrow> ca_cache \<Rightarrow> ca_cache" where
  "cache_update_crl i crl data =
     (case data i of None \<Rightarrow> data | Some ca \<Rightarrow> data(i \<mapsto> ca_update_crl crl ca))"

text \<open>\<open>load\<close> reads a file, \<open>read_crl\<close> is \<open>my_tls::crl::read\<close>.\<close>

definition update_crl ::
  "(file_source \<Rightarrow> bytes option) \<Rightarrow> (bytes \<Rightarrow> bytes list option) \<Rightarrow> bytes \<times> file_source \<Rightarrow> ca_cache \<Rightarrow> ca_cache" where
  "update_crl load read_crl itm data =
     (case load (snd itm) of
        None \<Rightarrow> data
      | Some content \<Rightarrow> (case read_crl content of None \<Rightarrow> data | Some crl \<Rightarrow> cache_update_crl (fst itm) crl data))"

definition crl_refresher_tick ::
  "(file_source \<Rightarrow> bytes option) \<Rightarrow> (bytes \<Rightarrow> bytes list option) \<Rightarrow> bytes list \<Rightarrow> ca_cache \<Rightarrow> ca_cache" where
  "crl_refresher_tick load read_crl order data = fold (update_crl load read_crl) (get_list_of_crl order data) data"

section \<open>The configuration of a handshake\<close>

fun find_ssl_certificate :: "bytes \<Rightarrow> HttpEndpointInfo list \<Rightarrow> (bytes \<times> HttpEndpointInfo) option" where
  "find_ssl_certificate server_name [] = None"
| "find_ssl_certificate server_name (ep # eps) =
     (if is_my_endpoint ep server_name then
        case ep_ssl_certificate_id ep of
          Some ssl_id \<Rightarrow> Some (ssl_id, ep)
        | None \<Rightarrow> find_ssl_certificate server_name eps
      else find_ssl_certificate server_name eps)"

definition get_ssl_certificate :: "HttpListenPortConfiguration \<Rightarrow> bytes \<Rightarrow> (bytes \<times> HttpEndpointInfo) option" where
  "get_ssl_certificate c server_name = find_ssl_certificate server_name (lp_endpoints c)"

record MyClientCertVerifier =
  cv_ca :: ClientCertificateCa
  cv_ca_id :: bytes

record 'cert server_config =
  sv_key :: 'cert
  sv_verifier :: "MyClientCertVerifier option"
  sv_alpn :: "bytes list"

text \<open>What is live: certificates by id, the self-signed one, the authorities and the white lists.\<close>

record 'cert tls_env =
  te_certs :: "'cert cert_cache"
  te_self_signed :: 'cert
  te_client_ca :: ca_cache
  te_white_lists :: "bytes \<rightharpoonup> WhitelistedIp list"

datatype CreateConfigError = ConfigCertificateUnavailable bytes | ConfigOther

definition get_alpn_protocol :: "bool \<Rightarrow> bytes list" where
  "get_alpn_protocol https2 =
     (if https2 then [as_bytes ''h2'', as_bytes ''http/1.1'', as_bytes ''http/1.0''] else [as_bytes ''http/1.1''])"

definition resolve_client_ca :: "'cert tls_env \<Rightarrow> HttpEndpointInfo \<Rightarrow> (CreateConfigError, ClientCertificateCa option) outcome" where
  "resolve_client_ca T ep =
     (case ep_client_certificate_id ep of
        None \<Rightarrow> Ok None
      | Some client_cert_ca_id \<Rightarrow>
          (case te_client_ca T client_cert_ca_id of
             Some client_cert_ca \<Rightarrow> Ok (Some client_cert_ca)
           | None \<Rightarrow> Err (ConfigCertificateUnavailable (hs_src (ep_host_endpoint ep)))))"

definition resolve_keys :: "'cert tls_env \<Rightarrow> bytes \<Rightarrow> HttpEndpointInfo \<Rightarrow> (CreateConfigError, 'cert \<times> ClientCertificateCa option) outcome" where
  "resolve_keys T ssl_cert_id ep =
     (if ssl_cert_id = as_bytes SELF_SIGNED_CERT_NAME then
        rbind (resolve_client_ca T ep) (\<lambda>ca. Ok (te_self_signed T, ca))
      else case te_certs T (to_str ssl_cert_id) of
        None \<Rightarrow> Err (ConfigCertificateUnavailable (hs_src (ep_host_endpoint ep)))
      | Some ssl_cert_holder \<Rightarrow> rbind (resolve_client_ca T ep) (\<lambda>ca. Ok (ch_ssl_cert ssl_cert_holder, ca)))"

definition create_config ::
  "'cert tls_env \<Rightarrow> HttpListenPortConfiguration \<Rightarrow> bytes \<Rightarrow> (CreateConfigError, 'cert server_config \<times> HttpEndpointInfo) outcome" where
  "create_config T configuration server_name =
     (case get_ssl_certificate configuration server_name of
        None \<Rightarrow> Err ConfigOther
      | Some (ssl_cert_id, ep) \<Rightarrow>
          rbind (resolve_keys T ssl_cert_id ep) (\<lambda>(key, client_cert_ca).
            let alpn = get_alpn_protocol (\<not> is_http1_or_mcp (ep_listen_endpoint_type ep)) in
            case client_cert_ca of
              Some ca \<Rightarrow>
                (case ep_client_certificate_id ep of
                   None \<Rightarrow> Panic
                 | Some ca_id1 \<Rightarrow> Ok (\<lparr>sv_key = key, sv_verifier = Some \<lparr>cv_ca = ca, cv_ca_id = ca_id1\<rparr>, sv_alpn = alpn\<rparr>, ep))
            | None \<Rightarrow> Ok (\<lparr>sv_key = key, sv_verifier = None, sv_alpn = alpn\<rparr>, ep)))"

section \<open>The handshake\<close>

text \<open>
  The callbacks of \<open>MyClientCertVerifier\<close>. A certificate that is accepted is put into the cell of the handshake;
  both signature callbacks assert that the signature is valid.
\<close>

definition verify_client_cert :: "tls_lib \<Rightarrow> MyClientCertVerifier \<Rightarrow> bytes \<Rightarrow> ClientCertificateData option panics" where
  "verify_client_cert L v end_entity = verify_cert L (cv_ca v) end_entity (cv_ca_id v)"

definition verify_tls_signature :: "MyClientCertVerifier \<Rightarrow> bytes \<Rightarrow> bytes \<Rightarrow> bool" where
  "verify_tls_signature v cert dss = True"

text \<open>\<open>into_stream\<close>: whether the handshake succeeds, and the cell afterwards.\<close>

definition tls_handshake ::
  "tls_lib \<Rightarrow> tls_client \<Rightarrow> 'cert server_config \<Rightarrow> (bool \<times> ClientCertificateData option) panics" where
  "tls_handshake L client config =
     (case sv_verifier config of
        None \<Rightarrow> Ok (tl_completes L client None, None)
      | Some v \<Rightarrow>
          (case tc_certificate client of
             None \<Rightarrow> Ok (tl_completes L client (Some None), None)
           | Some cert \<Rightarrow>
               rbind (verify_client_cert L v cert) (\<lambda>cell.
                 Ok (tl_completes L client (Some (Some (cell \<noteq> None, verify_tls_signature v cert (tc_signature client)))), cell))))"

datatype TlsAcceptError =
    ClientCertRequired bytes
  | UnknownServerName
  | MalformedTls
  | TlsOther "bytes option"
  | CertificateUnavailable bytes

definition tls_error_host :: "TlsAcceptError \<Rightarrow> bytes option" where
  "tls_error_host err =
     (case err of
        ClientCertRequired host \<Rightarrow> Some host
      | CertificateUnavailable host \<Rightarrow> Some host
      | TlsOther host \<Rightarrow> host
      | UnknownServerName \<Rightarrow> None
      | MalformedTls \<Rightarrow> None)"

definition should_penalise_client :: "TlsAcceptError \<Rightarrow> bool" where
  "should_penalise_client err = (case err of CertificateUnavailable _ \<Rightarrow> False | _ \<Rightarrow> True)"

definition block_severity :: "TlsAcceptError \<Rightarrow> FailureSeverity" where
  "block_severity err = (case err of MalformedTls \<Rightarrow> Hard | _ \<Rightarrow> Soft)"

definition from_create_error :: "bytes \<Rightarrow> CreateConfigError \<Rightarrow> TlsAcceptError" where
  "from_create_error endpoint_host err =
     (case err of ConfigCertificateUnavailable host \<Rightarrow> CertificateUnavailable host | ConfigOther \<Rightarrow> TlsOther (Some endpoint_host))"

text \<open>The future \<open>handshake\<close>; a panic unwinds out of it.\<close>

definition accept_handshake ::
  "tls_lib \<Rightarrow> 'cert tls_env \<Rightarrow> HttpListenPortConfiguration \<Rightarrow> tls_client
     \<Rightarrow> (TlsAcceptError, 'cert server_config \<times> HttpEndpointInfo \<times> ClientCertificateData option) outcome" where
  "accept_handshake L T configuration client =
     (case tc_hello client of
        None \<Rightarrow> Err MalformedTls
      | Some None \<Rightarrow> Err UnknownServerName
      | Some (Some server_name) \<Rightarrow>
          (case get_http_endpoint_info configuration (Some server_name) of
             Ok (Some named) \<Rightarrow>
               rbind (map_err (from_create_error (hs_src (ep_host_endpoint named))) (create_config T configuration server_name))
                 (\<lambda>(config, ep).
                   case tls_handshake L client config of
                     Ok (True, cell) \<Rightarrow> Ok (config, ep, cell)
                   | Ok (False, _) \<Rightarrow>
                       Err (if sv_verifier config \<noteq> None then ClientCertRequired (hs_src (ep_host_endpoint named))
                            else TlsOther (Some (hs_src (ep_host_endpoint named))))
                   | _ \<Rightarrow> Panic)
           | Ok None \<Rightarrow> Err UnknownServerName
           | _ \<Rightarrow> Panic))"

definition lazy_accept_tcp_stream ::
  "tls_lib \<Rightarrow> 'cert tls_env \<Rightarrow> HttpListenPortConfiguration \<Rightarrow> tls_client
     \<Rightarrow> (TlsAcceptError, 'cert server_config \<times> HttpEndpointInfo \<times> ClientCertificateData option) outcome" where
  "lazy_accept_tcp_stream L T configuration client =
     (if \<not> tc_in_time client then Err (TlsOther None)
      else case accept_handshake L T configuration client of Panic \<Rightarrow> Err (TlsOther None) | result \<Rightarrow> result)"

section \<open>An accepted connection\<close>

text \<open>What the task of the connection ends in: nothing, or a server for the endpoint and the certificate of the client.\<close>

datatype tls_served =
    TlsRejected TlsAcceptError
  | TlsNotWhiteListed HttpEndpointInfo
  | ServeHttp1 HttpEndpointInfo "ClientCertificateData option"
  | ServeHttp2 HttpEndpointInfo "ClientCertificateData option"
  | ServeMcp HttpEndpointInfo

definition serve_endpoint :: "HttpEndpointInfo \<Rightarrow> ClientCertificateData option \<Rightarrow> tls_served" where
  "serve_endpoint ep cert =
     (case ep_listen_endpoint_type ep of
        ListenHttp1 \<Rightarrow> ServeHttp1 ep cert
      | ListenHttp2 \<Rightarrow> ServeHttp2 ep cert
      | ListenHttps1 \<Rightarrow> ServeHttp1 ep cert
      | ListenHttps2 \<Rightarrow> ServeHttp2 ep cert
      | ListenMcp \<Rightarrow> ServeMcp ep)"

definition endpoint_admits_ip :: "'cert tls_env \<Rightarrow> HttpEndpointInfo \<Rightarrow> IpAddr option \<Rightarrow> bool panics" where
  "endpoint_admits_ip T ep connection_ip =
     (case (ep_whitelisted_ip_list_id ep, connection_ip) of
        (Some ip_list_id, Some client_ip) \<Rightarrow> config_white_listed (te_white_lists T) ip_list_id client_ip
      | _ \<Rightarrow> Ok True)"

definition handle_connection ::
  "clock_lib \<Rightarrow> int \<Rightarrow> tls_lib \<Rightarrow> 'cert tls_env \<Rightarrow> HttpListenPortConfiguration \<Rightarrow> IpAddr option \<Rightarrow> tls_client \<Rightarrow> IpBlocklist
     \<Rightarrow> tls_served panics \<times> IpBlocklist" where
  "handle_connection cl now L T configuration connection_ip client bl =
     (case lazy_accept_tcp_stream L T configuration client of
        Panic \<Rightarrow> (Panic, bl)
      | Err err \<Rightarrow>
          if should_penalise_client err then
            case connection_ip of
              None \<Rightarrow> (Ok (TlsRejected err), bl)
            | Some ip \<Rightarrow>
                (case register_failure cl now ip (block_severity err) bl of
                   Ok (_, bl1) \<Rightarrow> (Ok (TlsRejected err), bl1)
                 | _ \<Rightarrow> (Panic, bl))
          else (Ok (TlsRejected err), bl)
      | Ok (config, ep, cert) \<Rightarrow>
          let bl1 = (case connection_ip of Some ip \<Rightarrow> register_success ip bl | None \<Rightarrow> bl) in
          (case endpoint_admits_ip T ep connection_ip of
             Ok True \<Rightarrow> (Ok (serve_endpoint ep cert), bl1)
           | Ok False \<Rightarrow> (Ok (TlsNotWhiteListed ep), bl1)
           | _ \<Rightarrow> (Panic, bl1)))"

end
