(* ===== verification/Tls_Certificates.thy ===== *)
theory Tls_Certificates
  imports Tls_Accept Config_Compile
begin

text \<open>
  The server certificates that are live: \<open>src/src/ssl\<close>, the upload of a certificate
  (\<open>src/src/scripts/init_ssl_cert_manually.rs\<close>), the status of the endpoints that need one
  (\<open>src/src/scripts/ssl_endpoints.rs\<close>) and the renewal timer (\<open>src/src/timers/ssl_certs_refresh_timer.rs\<close>).
  PEM, keys, X.509 and the calendar are arguments; the cache of \<open>SslCertificate\<close>'s details is left out, since it
  only saves a computation.
\<close>

section \<open>A certificate\<close>

record SslCertificate =
  sl_chain :: "bytes list"
  sl_key :: bytes

record SslCertInfo =
  si_cn :: bytes
  si_expires :: int

text \<open>
  \<open>pk_private_key\<close> is the first key of a PEM file, \<open>pk_supported\<close> says that the key is of a supported type,
  \<open>pk_mismatch\<close> that key and leaf definitely do not belong together.
\<close>

record key_lib =
  pk_tls :: tls_lib
  pk_private_key :: "bytes \<Rightarrow> bytes option"
  pk_supported :: "bytes \<Rightarrow> bool"
  pk_mismatch :: "bytes \<Rightarrow> bytes list \<Rightarrow> bool"
  pk_full_days :: "int \<Rightarrow> int \<Rightarrow> int"

datatype cert_error =
    BrokenCertificate
  | NoCertificate
  | NoPrivateKey
  | UnsupportedKey
  | KeyMismatch
  | EmptyCertId
  | ReservedCertId
  | NoEndpoint
  | NoDomain
  | NothingToCompare
  | NotCovered "bytes list"

fun load_certs_loop :: "bytes option list \<Rightarrow> (cert_error, bytes list) outcome" where
  "load_certs_loop [] = Ok []"
| "load_certs_loop (c # cs) =
     (case c of None \<Rightarrow> Err BrokenCertificate | Some cert \<Rightarrow> rbind (load_certs_loop cs) (\<lambda>r. Ok (cert # r)))"

definition load_certs :: "key_lib \<Rightarrow> bytes \<Rightarrow> (cert_error, bytes list) outcome" where
  "load_certs K src =
     rbind (load_certs_loop (tl_certs (pk_tls K) src)) (\<lambda>r. if r = [] then Err NoCertificate else Ok r)"

definition new_ssl_certificate :: "key_lib \<Rightarrow> bytes \<Rightarrow> bytes \<Rightarrow> (cert_error, SslCertificate) outcome" where
  "new_ssl_certificate K private_key certificates_content =
     rbind (ok_or NoPrivateKey (pk_private_key K private_key)) (\<lambda>key.
     rbind (load_certs K certificates_content) (\<lambda>certs.
       if \<not> pk_supported K key then Err UnsupportedKey
       else if pk_mismatch K key certs then Err KeyMismatch
       else Ok \<lparr>sl_chain = certs, sl_key = key\<rparr>))"

text \<open>The earliest expiry of the chain and all its common names.\<close>

definition chain_certs :: "key_lib \<Rightarrow> SslCertificate \<Rightarrow> x509 list" where
  "chain_certs K c = List.map_filter (tl_from_der (pk_tls K)) (sl_chain c)"

definition earlier :: "int option \<Rightarrow> int \<Rightarrow> int option" where
  "earlier expires from_cer = (case expires of Some e \<Rightarrow> Some (if from_cer < e then from_cer else e) | None \<Rightarrow> Some from_cer)"

definition append_cn :: "bytes option \<Rightarrow> bytes option \<Rightarrow> bytes option" where
  "append_cn found attr =
     (case attr of None \<Rightarrow> found | Some cn \<Rightarrow> Some (case found of Some f \<Rightarrow> f @ [59] @ cn | None \<Rightarrow> cn))"

definition get_cert_info :: "key_lib \<Rightarrow> SslCertificate \<Rightarrow> SslCertInfo" where
  "get_cert_info K c =
     (let certs = chain_certs K c;
          found_cn = foldl append_cn None (concat (map xc_common_names certs));
          expires = foldl earlier None (map xc_not_after certs)
      in \<lparr>si_cn = (case found_cn of Some cn \<Rightarrow> cn | None \<Rightarrow> as_bytes ''Unknown''),
          si_expires = (case expires of Some e \<Rightarrow> e | None \<Rightarrow> 0) * 1000000\<rparr>)"

definition push_unique_domain :: "bytes \<Rightarrow> bytes list \<Rightarrow> bytes list" where
  "push_unique_domain name result = (if list_ex (\<lambda>itm. eq_no_case itm name) result then result else result @ [name])"

definition get_domains :: "key_lib \<Rightarrow> SslCertificate \<Rightarrow> bytes list" where
  "get_domains K c =
     (case sl_chain c of
        [] \<Rightarrow> []
      | leaf # _ \<Rightarrow>
          (case tl_from_der (pk_tls K) leaf of
             None \<Rightarrow> []
           | Some cert \<Rightarrow>
               fold push_unique_domain (List.map_filter (\<lambda>cn. cn) (xc_common_names cert))
                 (fold push_unique_domain (xc_dns_names cert) [])))"

section \<open>Which endpoints need which certificate\<close>

datatype SslCertStatus = StatusMissing | StatusExpired | StatusExpiringSoon | StatusValid

record SslEndpointCertStatus =
  es_endpoint_host :: bytes
  es_server_name :: "bytes option"
  es_cert_id :: bytes
  es_cert_status :: SslCertStatus
  es_cert_info :: "SslCertInfo option"
  es_days_to_expire :: "int option"

definition EXPIRING_SOON_DAYS :: int where "EXPIRING_SOON_DAYS = 7"

definition http_endpoints :: "ListenConfiguration \<Rightarrow> HttpEndpointInfo list" where
  "http_endpoints listen =
     (case listen of HttpPort http \<Rightarrow> lp_endpoints http | McpPort http \<Rightarrow> lp_endpoints http | TcpPort _ \<Rightarrow> [])"

definition collect_endpoints :: "ListenConfiguration \<Rightarrow> (bytes \<times> bytes option \<times> bytes) list" where
  "collect_endpoints listen =
     List.map_filter (\<lambda>ep. case ep_ssl_certificate_id ep of
        None \<Rightarrow> None
      | Some ssl_cert_id \<Rightarrow>
          if ssl_cert_id = as_bytes SELF_SIGNED_CERT_NAME then None
          else Some (hs_src (ep_host_endpoint ep), get_server_name (ep_host_endpoint ep), ssl_cert_id))
       (http_endpoints listen)"

definition cert_status :: "key_lib \<Rightarrow> int \<Rightarrow> SslCertificate cert_holder option \<Rightarrow> SslCertStatus" where
  "cert_status K now holder =
     (case holder of
        None \<Rightarrow> StatusMissing
      | Some h \<Rightarrow>
          let expires = si_expires (get_cert_info K (ch_ssl_cert h)) in
          if expires \<le> now then StatusExpired
          else if pk_full_days K expires now \<le> EXPIRING_SOON_DAYS then StatusExpiringSoon
          else StatusValid)"

text \<open>\<open>listens\<close>: the values of the two maps of listening ports and sockets.\<close>

definition get_ssl_endpoints_status ::
  "key_lib \<Rightarrow> int \<Rightarrow> ListenConfiguration list \<Rightarrow> SslCertificate cert_cache \<Rightarrow> SslEndpointCertStatus list" where
  "get_ssl_endpoints_status K now listens cache =
     map (\<lambda>(endpoint_host, server_name, cert_id).
        \<lparr>es_endpoint_host = endpoint_host, es_server_name = server_name, es_cert_id = cert_id,
         es_cert_status = cert_status K now (cache (to_str cert_id)),
         es_cert_info = map_option (\<lambda>h. get_cert_info K (ch_ssl_cert h)) (cache (to_str cert_id)),
         es_days_to_expire =
           map_option (\<lambda>h. pk_full_days K (si_expires (get_cert_info K (ch_ssl_cert h))) now) (cache (to_str cert_id))\<rparr>)
       (concat (map collect_endpoints listens))"

section \<open>The upload of a certificate\<close>

definition wildcard_match :: "bytes \<Rightarrow> bytes \<Rightarrow> bool" where
  "wildcard_match pattern domain =
     (case strip_prefix pattern (as_bytes ''*.'') of
        Some suffix \<Rightarrow>
          if 46 \<notin> set suffix then False
          else (case split_once 46 domain of Some (_, rest) \<Rightarrow> eq_no_case rest suffix | None \<Rightarrow> False)
      | None \<Rightarrow> eq_no_case pattern domain)"

definition cert_covers_domain :: "bytes list \<Rightarrow> bytes \<Rightarrow> bool" where
  "cert_covers_domain cert_domains domain = list_ex (\<lambda>pattern. wildcard_match pattern domain) cert_domains"

text \<open>\<open>push_required\<close>, without the source of a requirement, which only its error message names.\<close>

definition push_required :: "bytes \<Rightarrow> bytes list \<Rightarrow> bytes list" where
  "push_required domain required = (if list_ex (\<lambda>req. eq_no_case req domain) required then required else required @ [domain])"

record InitSslCertResult =
  ir_cert_id :: bytes
  ir_info :: SslCertInfo
  ir_covered_domains :: "bytes list"
  ir_validated_sni :: "bytes list"

definition required_sni :: "SslEndpointCertStatus list \<Rightarrow> bytes list \<Rightarrow> bytes list" where
  "required_sni referencing existing_domains =
     fold push_required existing_domains (fold push_required (List.map_filter es_server_name referencing) [])"

definition init_ssl_cert_manually ::
  "key_lib \<Rightarrow> int \<Rightarrow> ListenConfiguration list \<Rightarrow> bytes \<Rightarrow> bytes \<Rightarrow> bytes \<Rightarrow> SslCertificate cert_cache
     \<Rightarrow> (cert_error, InitSslCertResult) outcome \<times> SslCertificate cert_cache" where
  "init_ssl_cert_manually K now listens cert_id0 cert_pem private_key_pem cache =
     (let cert_id = trim cert_id0 in
      if cert_id = [] then (Err EmptyCertId, cache)
      else if cert_id = as_bytes SELF_SIGNED_CERT_NAME then (Err ReservedCertId, cache)
      else case new_ssl_certificate K private_key_pem cert_pem of
        Err e \<Rightarrow> (Err e, cache)
      | Panic \<Rightarrow> (Panic, cache)
      | Ok ssl_cert \<Rightarrow>
          let referencing = filter (\<lambda>ep. es_cert_id ep = cert_id) (get_ssl_endpoints_status K now listens cache);
              cert_domains = get_domains K ssl_cert;
              existing_domains = (case cache (to_str cert_id) of Some holder \<Rightarrow> get_domains K (ch_ssl_cert holder) | None \<Rightarrow> []);
              required = required_sni referencing existing_domains
          in if referencing = [] then (Err NoEndpoint, cache)
             else if cert_domains = [] then (Err NoDomain, cache)
             else if required = [] then (Err NothingToCompare, cache)
             else let uncovered = filter (\<lambda>req. \<not> cert_covers_domain cert_domains req) required in
               if uncovered \<noteq> [] then (Err (NotCovered uncovered), cache)
               else (Ok \<lparr>ir_cert_id = cert_id, ir_info = get_cert_info K ssl_cert, ir_covered_domains = cert_domains,
                         ir_validated_sni = filter (cert_covers_domain cert_domains) required\<rparr>,
                     cache_add_or_update (to_str cert_id) ssl_cert ManuallyProvided cert_pem private_key_pem cache))"

section \<open>Renewal\<close>

text \<open>\<open>load\<close> reads a file; the sources of a certificate are kept as they are written in the settings.\<close>

definition try_renew_cert ::
  "key_lib \<Rightarrow> (string \<Rightarrow> bytes option) \<Rightarrow> int \<Rightarrow> string \<times> SslCertificate cert_holder \<Rightarrow> SslCertificate cert_cache \<Rightarrow> SslCertificate cert_cache" where
  "try_renew_cert K load now itm cache =
     (case itm of (cert_id, ssl_holder) \<Rightarrow>
        (case ch_origin ssl_holder of
           LocalSource private_key_src cert_src \<Rightarrow>
             if pk_full_days K (si_expires (get_cert_info K (ch_ssl_cert ssl_holder))) now > 7 then cache
             else (case (load cert_src, load private_key_src) of
                     (Some certificates_content, Some private_key_content) \<Rightarrow>
                       (case new_ssl_certificate K private_key_content certificates_content of
                          Ok ssl_cert \<Rightarrow>
                            cache_add_or_update cert_id ssl_cert (LocalSource private_key_src cert_src) certificates_content
                              private_key_content cache
                        | _ \<Rightarrow> cache)
                   | _ \<Rightarrow> cache)
         | GatewayPushed _ \<Rightarrow> cache
         | ManuallyProvided \<Rightarrow> cache))"

text \<open>A tick takes a list of the certificates, ordered by id, and renews one after the other.\<close>

definition ssl_certs_refresh_tick ::
  "key_lib \<Rightarrow> (string \<Rightarrow> bytes option) \<Rightarrow> int \<Rightarrow> string list \<Rightarrow> SslCertificate cert_cache \<Rightarrow> SslCertificate cert_cache" where
  "ssl_certs_refresh_tick K load now ids cache =
     fold (try_renew_cert K load now) (List.map_filter (\<lambda>i. map_option (\<lambda>h. (i, h)) (cache i)) ids) cache"

end
