(* ===== verification/Tls_Properties.thy ===== *)
theory Tls_Properties
  imports Tls_Certificates
begin

text \<open>
  What the TLS side guarantees: which connections are served and under which certificate, what an uploaded server
  certificate has to cover, and what the timers change.
\<close>

section \<open>Accepted connections\<close>

text \<open>
  The documented behaviour of rustls with a client certificate verifier that offers and therefore demands
  client authentication: a handshake without certificate fails, and so does one for which a callback fails.
\<close>

definition rustls_enforces :: "tls_lib \<Rightarrow> bool" where
  "rustls_enforces L \<longleftrightarrow>
     (\<forall>client. \<not> tl_completes L client (Some None)) \<and>
     (\<forall>client verified possessed. tl_completes L client (Some (Some (verified, possessed))) \<longrightarrow> verified \<and> possessed)"

text \<open>The client sent a certificate with this common name that the authority signed and did not revoke.\<close>

definition presented :: "tls_lib \<Rightarrow> ClientCertificateCa \<Rightarrow> tls_client \<Rightarrow> bytes \<Rightarrow> bool" where
  "presented L ca client cn \<longleftrightarrow> (\<exists>der cert issuer.
     tc_certificate client = Some der \<and> tl_from_der L der = Some cert \<and> tl_from_der L (cca_content ca) = Some issuer \<and>
     tl_signed_by L cert (xc_public_key issuer) \<and> xc_serial cert \<notin> set (cca_crl_list ca) \<and> first_common_name cert = Ok cn)"

lemma verify_cert_sound:
  assumes "verify_cert L ca der ca_id1 = Ok (Some data)" and "tc_certificate client = Some der"
  shows "presented L ca client (cc_cn data) \<and> cc_ca_id data = ca_id1"
  using assms
  by (auto simp: verify_cert_def presented_def list_ex_iff rust_simps split: option.splits if_splits)

lemma tls_handshake_sound:
  assumes "tls_handshake L client config = Ok (True, cell)" and "rustls_enforces L"
  shows "case sv_verifier config of
      None \<Rightarrow> cell = None
    | Some v \<Rightarrow> \<exists>data. cell = Some data \<and> presented L (cv_ca v) client (cc_cn data) \<and> cc_ca_id data = cv_ca_id v"
proof (cases "sv_verifier config")
  case (Some v)
  with assms obtain der where der: "tc_certificate client = Some der"
    by (cases "tc_certificate client") (auto simp: tls_handshake_def rustls_enforces_def)
  with assms Some obtain data where "verify_cert L (cv_ca v) der (cv_ca_id v) = Ok (Some data)" "cell = Some data"
    by (cases cell) (auto simp: tls_handshake_def verify_client_cert_def rustls_enforces_def rust_simps)
  with verify_cert_sound [OF _ der] Some show ?thesis by simp
qed (use assms in \<open>simp add: tls_handshake_def\<close>)

lemma find_ssl_certificate_sound:
  "find_ssl_certificate name eps = Some (ssl_id, ep) \<Longrightarrow>
     ep \<in> set eps \<and> is_my_endpoint ep name \<and> ep_ssl_certificate_id ep = Some ssl_id"
  by (induction eps) (auto split: if_splits option.splits)

lemma resolve_client_ca_Ok:
  "resolve_client_ca T ep = Ok ca \<Longrightarrow>
     ca = (case ep_client_certificate_id ep of None \<Rightarrow> None | Some i \<Rightarrow> te_client_ca T i) \<and> (ep_client_certificate_id ep \<noteq> None \<longrightarrow> ca \<noteq> None)"
  by (cases "ep_client_certificate_id ep"; cases "te_client_ca T (the (ep_client_certificate_id ep))") (auto simp: resolve_client_ca_def)

lemma resolve_keys_Ok: "resolve_keys T i ep = Ok (key, ca) \<Longrightarrow> resolve_client_ca T ep = Ok ca"
  by (auto simp: resolve_keys_def rust_simps split: option.splits if_splits)

lemma create_config_sound:
  assumes "create_config T configuration name = Ok (config, ep)"
  shows "ep \<in> set (lp_endpoints configuration) \<and> is_my_endpoint ep name \<and> ep_ssl_certificate_id ep \<noteq> None \<and>
    (case ep_client_certificate_id ep of
       None \<Rightarrow> sv_verifier config = None
     | Some i \<Rightarrow> \<exists>ca. te_client_ca T i = Some ca \<and> sv_verifier config = Some \<lparr>cv_ca = ca, cv_ca_id = i\<rparr>)"
proof -
  obtain i ep1 where found: "get_ssl_certificate configuration name = Some (i, ep1)"
    using assms by (auto simp: create_config_def split: option.splits)
  with assms obtain key ca where keys: "resolve_keys T i ep1 = Ok (key, ca)"
    by (auto simp: create_config_def rust_simps)
  note ca = resolve_client_ca_Ok [OF resolve_keys_Ok [OF keys]]
  from assms found keys have "ep = ep1" "sv_verifier config = (case ca of None \<Rightarrow> None | Some x \<Rightarrow> Some \<lparr>cv_ca = x, cv_ca_id = the (ep_client_certificate_id ep)\<rparr>)"
    by (auto simp: create_config_def Let_def split: option.splits)
  then show ?thesis
    using find_ssl_certificate_sound [of name "lp_endpoints configuration" i ep] found ca
    by (auto simp: get_ssl_certificate_def split: option.splits)
qed

lemma map_err_Ok [rust_simps]: "map_err f m = Ok x \<longleftrightarrow> m = Ok x"
  by (cases m) auto

lemma lazy_accept_sound:
  assumes "lazy_accept_tcp_stream L T configuration client = Ok (config, ep, cell)"
  obtains name where "tc_hello client = Some (Some name)" "create_config T configuration name = Ok (config, ep)"
    "tls_handshake L client config = Ok (True, cell)"
proof -
  have accept: "accept_handshake L T configuration client = Ok (config, ep, cell)"
    using assms by (auto simp: lazy_accept_tcp_stream_def split: if_splits outcome.splits)
  then obtain name where name: "tc_hello client = Some (Some name)"
    by (auto simp: accept_handshake_def split: option.splits)
  with accept obtain named where named: "get_http_endpoint_info configuration (Some name) = Ok (Some named)"
    by (auto simp: accept_handshake_def split: outcome.splits option.splits)
  with accept name obtain config1 ep1 where config1: "create_config T configuration name = Ok (config1, ep1)"
    by (auto simp: accept_handshake_def rust_simps)
  with accept name named have "ep = ep1 \<and> config = config1 \<and> tls_handshake L client config = Ok (True, cell)"
    by (auto simp: accept_handshake_def split: outcome.splits prod.splits bool.splits)
  with name config1 that show ?thesis by blast
qed

lemma handle_connection_served:
  assumes "handle_connection cl now L T configuration ip client bl = (Ok served, bl1)"
    and "served = ServeHttp1 ep cert \<or> served = ServeHttp2 ep cert \<or> served = ServeMcp ep"
  obtains config cell where "lazy_accept_tcp_stream L T configuration client = Ok (config, ep, cell)"
    "endpoint_admits_ip T ep ip = Ok True" "served \<noteq> ServeMcp ep \<Longrightarrow> cert = cell"
  using assms
  by (auto simp: handle_connection_def serve_endpoint_def Let_def
      split: outcome.splits if_splits option.splits prod.splits bool.splits ListenHttpEndpointType.splits)


text \<open>
  A client proves nothing but that it has a copy of the certificate: rustls leaves the check of the signature made with the client's key
  to the verifier, which asserts every one, so a client without the key gets the same answer.
\<close>

theorem client_key_not_proved:
  fixes T :: "'cert tls_env"
  assumes "\<And>c s x. tl_completes L (c\<lparr>tc_signature := s\<rparr>) x = tl_completes L c x"
  shows "handle_connection cl now L T configuration connection_ip (client\<lparr>tc_signature := s\<rparr>) bl =
    handle_connection cl now L T configuration connection_ip client bl"
proof -
  have handshake: "tls_handshake L (client\<lparr>tc_signature := s\<rparr>) config = tls_handshake L client config" for config :: "'cert server_config"
    by (auto simp: tls_handshake_def verify_tls_signature_def assms split: option.split)
  have "accept_handshake L T configuration (client\<lparr>tc_signature := s\<rparr>) = accept_handshake L T configuration client"
    unfolding accept_handshake_def handshake by simp
  then show ?thesis by (simp add: handle_connection_def lazy_accept_tcp_stream_def)
qed

text \<open>A rejection counts against the address, hard only for bytes that are no TLS, and not while a certificate is missing.\<close>

lemma tls_rejection_counted:
  assumes "handle_connection cl now L T configuration (Some ip) client bl = (Ok (TlsRejected err), bl1)"
  shows "(if should_penalise_client err then \<exists>b. register_failure cl now ip (block_severity err) bl = Ok (b, bl1) else bl1 = bl) \<and>
    (block_severity err = Hard \<longrightarrow> tc_hello client = None)"
proof -
  have "lazy_accept_tcp_stream L T configuration client = Err err"
    using assms by (auto simp: handle_connection_def serve_endpoint_def Let_def
      split: outcome.splits if_splits option.splits prod.splits bool.splits ListenHttpEndpointType.splits)
  moreover from this have "block_severity err = Hard \<longrightarrow> tc_hello client = None"
    by (cases "create_config T configuration (the (the (tc_hello client)))")
      (auto simp: lazy_accept_tcp_stream_def accept_handshake_def block_severity_def from_create_error_def
      split: if_splits outcome.splits option.splits prod.splits bool.splits TlsAcceptError.splits CreateConfigError.splits)
  ultimately show ?thesis using assms
    by (auto simp: handle_connection_def split: if_splits outcome.splits)
qed

section \<open>Revocation\<close>

lemma update_crl_other: "j \<noteq> fst itm \<Longrightarrow> update_crl load read_crl itm data j = data j"
  by (auto simp: update_crl_def cache_update_crl_def split: option.splits)

lemma fold_update_other: "j \<notin> fst ` set items \<Longrightarrow> fold (update_crl load read_crl) items data j = data j"
  by (induction items arbitrary: data) (auto simp: update_crl_other)

lemma fold_update_at:
  assumes "distinct (map fst items)" and "(i, source) \<in> set items" and "data i = Some ca"
    and "load source = Some content" and "read_crl content = Some crl"
  shows "fold (update_crl load read_crl) items data i = Some (ca_update_crl crl ca)"
  using assms
proof (induction items arbitrary: data)
  case (Cons itm items)
  show ?case
  proof (cases "itm = (i, source)")
    case True
    then have "update_crl load read_crl itm data i = Some (ca_update_crl crl ca)"
      using Cons.prems by (simp add: update_crl_def cache_update_crl_def)
    then show ?thesis using Cons.prems(1) True by (simp add: fold_update_other)
  next
    case False
    then have mem: "(i, source) \<in> set items" using Cons.prems(2) by auto
    then have "i \<in> fst ` set items" by force
    then have "fst itm \<noteq> i" using Cons.prems(1) by auto
    then show ?thesis using Cons mem by (simp add: update_crl_other)
  qed
qed simp

lemma map_filter_mem: "y \<in> set (List.map_filter f xs) \<longleftrightarrow> (\<exists>x \<in> set xs. f x = Some y)"
  by (induction xs) (auto simp: map_filter_simps split: option.splits)

lemma list_of_crl_at:
  assumes "i \<in> set order" and "data i = Some ca" and "cca_crl_file_source ca = Some source"
  shows "(i, source) \<in> set (get_list_of_crl order data)"
  using assms by (force simp: get_list_of_crl_def map_filter_mem)

lemma list_of_crl_distinct: "distinct order \<Longrightarrow> distinct (map fst (get_list_of_crl order data))"
proof (induction order)
  case (Cons i order)
  have "fst ` set (get_list_of_crl order data) \<subseteq> set order"
    by (auto simp: get_list_of_crl_def map_filter_mem split: option.splits)
  with Cons show ?case
    by (auto simp: get_list_of_crl_def map_filter_simps split: option.splits)
qed (simp add: get_list_of_crl_def map_filter_simps)

text \<open>
  C9. After a tick of the refresh timer that can read the revocation list of an authority, no connection is served under a certificate of
  that authority whose serial number is in the list, for every endpoint that demands the authority.
\<close>

theorem revoked_certificate_refused:
  assumes "rustls_enforces L" and "distinct order" and "ca_id1 \<in> set order"
    and "te_client_ca T ca_id1 = Some ca" and "cca_crl_file_source ca = Some source"
    and "load source = Some content" and "read_crl content = Some crl"
    and "tc_certificate client = Some der" and "tl_from_der L der = Some x" and "xc_serial x \<in> set crl"
    and "ep_client_certificate_id ep = Some ca_id1"
    and "handle_connection cl now L (T\<lparr>te_client_ca := crl_refresher_tick load read_crl order (te_client_ca T)\<rparr>) configuration
      connection_ip client bl = (Ok served, bl1)"
  shows "served \<noteq> ServeHttp1 ep cert \<and> served \<noteq> ServeHttp2 ep cert \<and> served \<noteq> ServeMcp ep"
proof (rule ccontr)
  let ?T = "T\<lparr>te_client_ca := crl_refresher_tick load read_crl order (te_client_ca T)\<rparr>"
  have refreshed: "te_client_ca ?T ca_id1 = Some (ca_update_crl crl ca)"
    using fold_update_at [of "get_list_of_crl order (te_client_ca T)" ca_id1 source "te_client_ca T" ca load content read_crl crl]
      list_of_crl_distinct [OF assms(2), of "te_client_ca T"] list_of_crl_at [of ca_id1 order "te_client_ca T" ca source] assms(3-7)
    by (simp add: crl_refresher_tick_def)
  assume "\<not> ?thesis"
  then have "served = ServeHttp1 ep cert \<or> served = ServeHttp2 ep cert \<or> served = ServeMcp ep" by blast
  then obtain config cell where "lazy_accept_tcp_stream L ?T configuration client = Ok (config, ep, cell)"
    using handle_connection_served [OF assms(12)] by metis
  then obtain name where "create_config ?T configuration name = Ok (config, ep)" "tls_handshake L client config = Ok (True, cell)"
    using lazy_accept_sound by metis
  from create_config_sound [OF this(1)] tls_handshake_sound [OF this(2) assms(1)] refreshed assms(11)
  obtain cn where "presented L (ca_update_crl crl ca) client cn" by auto
  then show False using assms(8-10) by (simp add: presented_def ca_update_crl_def)
qed

section \<open>The names a certificate covers\<close>

fun labels :: "bytes \<Rightarrow> bytes list" where
  "labels [] = [[]]"
| "labels (c # cs) = (if c = 46 then [] # labels cs else (c # hd (labels cs)) # tl (labels cs))"

text \<open>
  A name is covered by itself, letter case aside, and by a star before two labels or more when it has these labels after one of its own.
\<close>

definition covers_name :: "bytes \<Rightarrow> bytes \<Rightarrow> bool" where
  "covers_name pattern domain \<longleftrightarrow>
     (if hd (labels pattern) = [42] \<and> tl (labels pattern) \<noteq> [] then
        2 \<le> length (tl (labels pattern)) \<and> map lname (tl (labels domain)) = map lname (tl (labels pattern))
      else map lname (labels domain) = map lname (labels pattern))"

fun joined :: "bytes list \<Rightarrow> bytes" where
  "joined [] = []"
| "joined [l] = l"
| "joined (l # ls) = l @ 46 # joined ls"

lemma labels_not_Nil [simp]: "labels s \<noteq> []"
  by (cases s) auto

lemma joined_labels [simp]: "joined (labels s) = s"
proof (induction s)
  case (Cons c s)
  then show ?case by (cases "labels s"; cases "tl (labels s)") auto
qed simp

lemma lower_dot: "to_lower_case c = 46 \<longleftrightarrow> c = 46"
  by (auto simp: to_lower_case_def word_less_nat_alt word_le_nat_alt unat_word_ariths)

lemma labels_lname: "labels (lname s) = map lname (labels s)"
proof (induction s)
  case (Cons c s)
  then show ?case using labels_not_Nil [of s] by (cases "labels s") (auto simp: lower_dot)
qed simp

lemma no_case_labels: "eq_no_case a b \<longleftrightarrow> map lname (labels a) = map lname (labels b)"
  using joined_labels [of "lname a"] joined_labels [of "lname b"] by (metis eq_no_case_def labels_lname)

lemma labels_without_dot: "46 \<notin> set s \<Longrightarrow> labels s = [s]"
  by (induction s) auto

lemma labels_at_dot: "46 \<notin> set l \<Longrightarrow> labels (l @ 46 # r) = l # labels r"
  by (induction l) auto

lemma dots_of_labels: "46 \<in> set s \<longleftrightarrow> 2 \<le> length (labels s)"
proof (induction s)
  case (Cons c s)
  then show ?case using labels_not_Nil [of s] by (cases "labels s") (auto simp: Suc_le_eq)
qed simp

lemma split_once_labels: "split_once 46 s = Some (l, r) \<longleftrightarrow> (\<exists>ls. labels s = l # ls \<and> ls = labels r)"
proof
  assume "split_once 46 s = Some (l, r)"
  then show "\<exists>ls. labels s = l # ls \<and> ls = labels r" using split_once_Some [of 46 s l r] by (simp add: labels_at_dot)
next
  assume "\<exists>ls. labels s = l # ls \<and> ls = labels r"
  then have l: "labels s = l # labels r" by simp
  then have "46 \<in> set s" using dots_of_labels [of s] labels_not_Nil [of r] by (cases "labels r") auto
  then obtain l1 r1 where s: "split_once 46 s = Some (l1, r1)" using split_once_None [of 46 s] by (cases "split_once 46 s") auto
  then have "labels s = l1 # labels r1" using split_once_Some [OF s] by (simp add: labels_at_dot)
  with l have "l1 = l" and "labels r1 = labels r" by simp_all
  then have "l1 = l \<and> r1 = r" by (metis joined_labels)
  with s show "split_once 46 s = Some (l, r)" by simp
qed

lemma wildcard_match_covers: "wildcard_match pattern domain = covers_name pattern domain"
proof (cases "strip_prefix pattern (as_bytes ''*.'')")
  case None
  have "\<not> (hd (labels pattern) = [42] \<and> tl (labels pattern) \<noteq> [])"
  proof
    assume star: "hd (labels pattern) = [42] \<and> tl (labels pattern) \<noteq> []"
    then have "46 \<in> set pattern" using dots_of_labels [of pattern] by (cases "labels pattern"; cases "tl (labels pattern)") auto
    then obtain l r where lr: "split_once 46 pattern = Some (l, r)" using split_once_None [of 46 pattern] by (cases "split_once 46 pattern") auto
    with star have "pattern = 42 # 46 # r" using split_once_Some [OF lr] split_once_labels [of pattern l r] by auto
    with None show False by (simp add: strip_prefix_def starts_with_def as_bytes_def)
  qed
  with None show ?thesis by (auto simp: wildcard_match_def covers_name_def no_case_labels)
next
  case (Some suffix)
  then have p: "pattern = 42 # 46 # suffix"
    by (auto simp: strip_prefix_def starts_with_def as_bytes_def take_Suc split: if_splits) (cases pattern; cases "tl pattern"; simp)
  have "(case split_once 46 domain of Some (_, rest) \<Rightarrow> eq_no_case rest suffix | None \<Rightarrow> False) \<longleftrightarrow>
      map lname (tl (labels domain)) = map lname (labels suffix)"
  proof (cases "split_once 46 domain")
    case None
    then show ?thesis using split_once_None [of 46 domain] by (simp add: labels_without_dot)
  next
    case (Some lr)
    then show ?thesis using split_once_labels [of domain "fst lr" "snd lr"] by (auto simp: no_case_labels split: prod.splits)
  qed
  with Some p show ?thesis by (simp add: wildcard_match_def covers_name_def dots_of_labels)
qed

lemma covers_no_case: "covers_name pattern a \<Longrightarrow> eq_no_case a b \<Longrightarrow> covers_name pattern b"
  by (auto simp: covers_name_def no_case_labels map_tl split: if_splits)

section \<open>Uploads and renewals\<close>

lemma push_required_mem:
  "(\<exists>r \<in> set (push_required d required). eq_no_case r x) \<longleftrightarrow> eq_no_case d x \<or> (\<exists>r \<in> set required. eq_no_case r x)"
  by (auto simp: push_required_def list_ex_iff eq_no_case_def)

lemma fold_push_mem:
  "(\<exists>r \<in> set (fold push_required ds required). eq_no_case r x) \<longleftrightarrow>
     (\<exists>d \<in> set ds. eq_no_case d x) \<or> (\<exists>r \<in> set required. eq_no_case r x)"
  by (induction ds arbitrary: required) (auto simp: push_required_mem)

lemma required_covered:
  assumes "\<forall>r \<in> set (required_sni referencing existing). cert_covers_domain domains r"
    and "x \<in> set existing \<or> (\<exists>ep \<in> set referencing. es_server_name ep = Some x)"
  shows "\<exists>p \<in> set domains. covers_name p x"
proof -
  have "\<exists>r \<in> set (required_sni referencing existing). eq_no_case r x"
    using assms(2) map_filter_mem [of x es_server_name referencing] unfolding required_sni_def fold_push_mem by (auto simp: eq_no_case_def)
  then obtain r where "cert_covers_domain domains r" "eq_no_case r x" using assms(1) by blast
  then show ?thesis using covers_no_case by (auto simp: cert_covers_domain_def list_ex_iff wildcard_match_covers)
qed

text \<open>The endpoints that refer to a certificate.\<close>

definition refers_to :: "ListenConfiguration list \<Rightarrow> bytes \<Rightarrow> HttpEndpointInfo \<Rightarrow> bool" where
  "refers_to listens cert_id ep \<longleftrightarrow> (\<exists>listen \<in> set listens. ep \<in> set (http_endpoints listen)) \<and> ep_ssl_certificate_id ep = Some cert_id"

lemma collect_endpoints_mem:
  "(host, name, i) \<in> set (collect_endpoints listen) \<longleftrightarrow> (\<exists>ep \<in> set (http_endpoints listen).
     ep_ssl_certificate_id ep = Some i \<and> i \<noteq> as_bytes SELF_SIGNED_CERT_NAME \<and>
     host = hs_src (ep_host_endpoint ep) \<and> name = get_server_name (ep_host_endpoint ep))"
  unfolding collect_endpoints_def map_filter_mem by (auto split: option.splits)

lemma status_mem:
  "(\<exists>st \<in> set (get_ssl_endpoints_status K now listens cache). es_cert_id st = i \<and> es_server_name st = name) \<longleftrightarrow>
     (\<exists>listen \<in> set listens. \<exists>host. (host, name, i) \<in> set (collect_endpoints listen))"
  by (force simp: get_ssl_endpoints_status_def)

lemma status_of_endpoint:
  assumes "cert_id \<noteq> as_bytes SELF_SIGNED_CERT_NAME"
  shows "(\<exists>st \<in> set (get_ssl_endpoints_status K now listens cache). es_cert_id st = cert_id \<and> es_server_name st = name) \<longleftrightarrow>
    (\<exists>ep. refers_to listens cert_id ep \<and> get_server_name (ep_host_endpoint ep) = name)"
  using assms unfolding status_mem collect_endpoints_mem refers_to_def by blast

lemma resolve_keys_cert:
  "resolve_keys T i ep = Ok (key, ca) \<Longrightarrow> i \<noteq> as_bytes SELF_SIGNED_CERT_NAME \<Longrightarrow> te_certs T (to_str i) = Some holder \<Longrightarrow> key = ch_ssl_cert holder"
  by (auto simp: resolve_keys_def rust_simps)

lemma create_config_key:
  assumes "create_config T configuration name = Ok (config, ep)" and "get_ssl_certificate configuration name = Some (i, ep1)"
    and "i \<noteq> as_bytes SELF_SIGNED_CERT_NAME" and "te_certs T (to_str i) = Some holder"
  shows "sv_key config = ch_ssl_cert holder"
proof -
  obtain key ca where keys: "resolve_keys T i ep1 = Ok (key, ca)"
    using assms(1,2) by (auto simp: create_config_def rust_simps)
  with assms(1,2) have "sv_key config = key"
    by (auto simp: create_config_def Let_def split: option.splits)
  with resolve_keys_cert [OF keys assms(3,4)] show ?thesis by simp
qed

lemma new_certificate_no_panic: "new_ssl_certificate K key pem \<noteq> Panic"
proof -
  have "load_certs_loop cs \<noteq> Panic" for cs
    by (induction cs) (auto simp: rust_simps split: option.splits)
  then show ?thesis by (cases "pk_private_key K key") (auto simp: new_ssl_certificate_def load_certs_def rust_simps split: if_splits)
qed


text \<open>The renewal timer leaves uploaded certificates and those of a gateway alone.\<close>

lemma try_renew_other: "j \<noteq> fst itm \<or> (\<forall>a b. ch_origin (snd itm) \<noteq> LocalSource a b) \<Longrightarrow> try_renew_cert K load now itm cache j = cache j"
  by (cases itm) (auto simp: try_renew_cert_def cache_add_or_update_def split: SslCertificateOrigin.splits if_splits option.splits outcome.splits)

lemma refresh_tick_keeps:
  assumes "cache i = Some h" and "\<forall>a b. ch_origin h \<noteq> LocalSource a b"
  shows "ssl_certs_refresh_tick K load now ids cache i = Some h"
proof -
  have "fold (try_renew_cert K load now) items c i = c i" if "\<forall>itm \<in> set items. fst itm = i \<longrightarrow> snd itm = h" for items c
    using that assms(2) by (induction items arbitrary: c) (auto simp: try_renew_other)
  moreover have "\<forall>itm \<in> set (List.map_filter (\<lambda>j. map_option (\<lambda>x. (j, x)) (cache j)) ids). fst itm = i \<longrightarrow> snd itm = h"
    unfolding map_filter_mem using assms(1) by (auto simp: map_filter_mem)
  ultimately show ?thesis using assms(1) by (simp add: ssl_certs_refresh_tick_def)
qed

text \<open>
  But a tick works on the certificates it has read at its start: a certificate that is uploaded while it loads the files is
  replaced by the renewed one, and is under its source again.
\<close>

lemma stale_renewal_replaces_upload:
  assumes "ch_origin h = LocalSource key_src cert_src" and "pk_full_days K (si_expires (get_cert_info K (ch_ssl_cert h))) now \<le> 7"
    and "load cert_src = Some pem" and "load key_src = Some key" and "new_ssl_certificate K key pem = Ok cert"
  shows "try_renew_cert K load now (i, h) (cache_add_or_update i uploaded ManuallyProvided pem1 key1 cache) i =
    Some \<lparr>ch_ssl_cert = cert, ch_origin = LocalSource key_src cert_src, ch_cert_pem = pem, ch_private_key_pem = key\<rparr>"
  using assms by (simp add: try_renew_cert_def cache_add_or_update_def)

section \<open>A run\<close>

text \<open>An authority whose certificate is the byte 1, a certificate of it that is the byte 2, and an endpoint that demands it.\<close>

definition demo_tls :: tls_lib where
  "demo_tls = \<lparr>
     tl_from_der = (\<lambda>der.
       if der = [1] then Some \<lparr>xc_common_names = [], xc_dns_names = [], xc_issuer = [8], xc_serial = [0], xc_public_key = [9], xc_not_after = 1\<rparr>
       else if der = [2] then Some \<lparr>xc_common_names = [Some (as_bytes ''joe'')], xc_dns_names = [as_bytes ''*.B.c''], xc_issuer = [8],
         xc_serial = [5], xc_public_key = [7], xc_not_after = 1\<rparr>
       else None),
     tl_signed_by = (\<lambda>x key. key = [9]),
     tl_certs = (\<lambda>src. [Some src]),
     tl_completes = (\<lambda>client x. case x of None \<Rightarrow> True | Some None \<Rightarrow> False | Some (Some (verified, possessed)) \<Rightarrow> verified \<and> possessed)\<rparr>"

definition demo_tls_endpoint :: HttpEndpointInfo where
  "demo_tls_endpoint = new_endpoint_info
     \<lparr>pp_host_endpoint = \<lparr>hs_src = as_bytes ''a.b.c:1'', hs_port = Some 1, hs_index = Some 5\<rparr>,
      pp_listen_endpoint_type = ListenHttps1, pp_inject_country = False, pp_g_auth = None, pp_oauth = None,
      pp_ssl_certificate_id = Some (as_bytes ''7''), pp_client_certificate_id = Some (as_bytes ''ca''), pp_whitelisted_ip_list_id = None,
      pp_locations = [], pp_allowed_user_list_id = None, pp_global_modify_headers = None, pp_endpoint_modify_headers = None,
      pp_keep_alive = True, pp_track_metrics_by_all_domains = False, pp_hsts = False,
      pp_mcp_settings = \<lparr>me_read_timeout = 1, me_write_timeout = 1, me_buffer_size = 1\<rparr>, pp_timeouts = (1, 1)\<rparr>"

definition demo_port :: HttpListenPortConfiguration where
  "demo_port = new_listen_port demo_tls_endpoint"

definition demo_ca :: ClientCertificateCa where
  "demo_ca = \<lparr>cca_content = [1], cca_names = [[8]], cca_file_source = (None, [1]), cca_crl_list = [], cca_crl_file_source = Some (None, [3])\<rparr>"

definition demo_keys :: key_lib where
  "demo_keys = \<lparr>pk_tls = demo_tls, pk_private_key = Some, pk_supported = (\<lambda>_. True), pk_mismatch = (\<lambda>_ _. False), pk_full_days = (\<lambda>a b. a - b)\<rparr>"

definition demo_tls_env :: "SslCertificate tls_env" where
  "demo_tls_env =
     \<lparr>te_certs = [''7'' \<mapsto> \<lparr>ch_ssl_cert = \<lparr>sl_chain = [[2]], sl_key = [6]\<rparr>, ch_origin = ManuallyProvided, ch_cert_pem = [2], ch_private_key_pem = [6]\<rparr>],
      te_self_signed = \<lparr>sl_chain = [], sl_key = []\<rparr>, te_client_ca = [as_bytes ''ca'' \<mapsto> demo_ca], te_white_lists = Map.empty\<rparr>"

definition demo_tls_client :: tls_client where
  "demo_tls_client = \<lparr>tc_in_time = True, tc_hello = Some (Some (as_bytes ''A.b.c'')), tc_certificate = Some [2], tc_signature = []\<rparr>"

definition demo_clock :: clock_lib where
  "demo_clock = \<lparr>full_seconds_since = (\<lambda>a b. a - b), add_seconds = (+)\<rparr>"

definition joe :: ClientCertificateData where
  "joe = \<lparr>cc_cn = as_bytes ''joe'', cc_ca_id = as_bytes ''ca''\<rparr>"

lemma demo_enforces: "rustls_enforces demo_tls"
  by (simp add: rustls_enforces_def demo_tls_def)

lemma demo_connection:
  "handle_connection demo_clock 0 demo_tls demo_tls_env demo_port None demo_tls_client new_blocklist =
     (Ok (ServeHttp1 demo_tls_endpoint (Some joe)), new_blocklist)"
  by code_simp

lemma demo_revoked:
  "handle_connection demo_clock 0 demo_tls (demo_tls_env\<lparr>te_client_ca := crl_refresher_tick (\<lambda>_. Some [5]) (\<lambda>c. Some [c]) [as_bytes ''ca''] (te_client_ca demo_tls_env)\<rparr>)
     demo_port None demo_tls_client new_blocklist = (Ok (TlsRejected (ClientCertRequired (as_bytes ''a.b.c:1''))), new_blocklist)"
  by code_simp

lemma demo_upload:
  "fst (init_ssl_cert_manually demo_keys 0 [HttpPort demo_port] (as_bytes ''7'') [2] [6] (te_certs demo_tls_env)) =
     Ok \<lparr>ir_cert_id = as_bytes ''7'', ir_info = \<lparr>si_cn = as_bytes ''joe'', si_expires = 1000000\<rparr>,
       ir_covered_domains = [as_bytes ''*.B.c'', as_bytes ''joe''], ir_validated_sni = [as_bytes ''a.b.c'', as_bytes ''*.B.c'', as_bytes ''joe'']\<rparr>"
  by code_simp


theorem client_key_not_proved_witness:
  "handle_connection demo_clock 0 demo_tls demo_tls_env demo_port None (demo_tls_client\<lparr>tc_signature := [13]\<rparr>) new_blocklist =
     (Ok (ServeHttp1 demo_tls_endpoint (Some joe)), new_blocklist)"
proof -
  have "tl_completes demo_tls (c\<lparr>tc_signature := s\<rparr>) x = tl_completes demo_tls c x" for c s x by (simp add: demo_tls_def)
  then show ?thesis using client_key_not_proved [where L = demo_tls] demo_connection by metis
qed

theorem revoked_certificate_refused_witness:
  "TlsRejected (ClientCertRequired (as_bytes ''a.b.c:1'')) \<noteq> ServeHttp1 demo_tls_endpoint (Some joe)"
proof -
  have ep: "ep_client_certificate_id demo_tls_endpoint = Some (as_bytes ''ca'')" by code_simp
  have env: "te_client_ca demo_tls_env (as_bytes ''ca'') = Some demo_ca" by (simp add: demo_tls_env_def)
  have x: "tl_from_der demo_tls [2] = Some \<lparr>xc_common_names = [Some (as_bytes ''joe'')], xc_dns_names = [as_bytes ''*.B.c''], xc_issuer = [8],
      xc_serial = [5], xc_public_key = [7], xc_not_after = 1\<rparr>" by (simp add: demo_tls_def)
  show ?thesis
    using revoked_certificate_refused [OF demo_enforces _ _ env _ _ _ _ x _ ep demo_revoked, of "(None, [3])" "[5]" "[[5]]" "Some joe"]
    by (simp add: demo_ca_def demo_tls_client_def)
qed


end
