(* ===== verification/Pool_Gc.thy ===== *)
theory Pool_Gc
  imports H1_Pool_Properties H2_Pool H2_Handler Tls_Certificates
begin

text \<open>
  The garbage collection of upstream pools: \<open>src/src/timers/gc_pools_timer.rs\<close>. Every location of the live configuration keeps the
  pool of its id in one of six registries; the others are drained. Which registry a location needs is computed a
  second time, next to \<open>create_data_source\<close>; the two have to agree, or a tick drains a pool in use.
\<close>

section \<open>Registries\<close>

datatype pool_family = H1Tcp | H1Tls | H1Uds | H2Tcp | H2Tls | H2Uds

text \<open>The registry that \<open>execute\<close> of a content source asks for the pool of its location.\<close>

fun pool_of_source :: "HttpProxyPassContentSource \<Rightarrow> pool_family option" where
  "pool_of_source (Http1Source _) = Some H1Tcp"
| "pool_of_source (Https1Source _) = Some H1Tls"
| "pool_of_source (UnixHttp1Source _) = Some H1Uds"
| "pool_of_source (Http2Source _) = Some H2Tcp"
| "pool_of_source (Https2Source _) = Some H2Tls"
| "pool_of_source (UnixHttp2Source _) = Some H2Uds"
| "pool_of_source _ = None"

text \<open>The registries of HTTP/1 pools are kept with their pools, those of HTTP/2 pools map to them.\<close>

record pool_registries =
  pr_h1_tcp :: pools_state
  pr_h1_tls :: pools_state
  pr_h1_uds :: pools_state
  pr_h2_tcp :: h2_registry
  pr_h2_tls :: h2_registry
  pr_h2_uds :: h2_registry

record DesiredKeys =
  dk_h1_tcp :: "int set"
  dk_h1_tls :: "int set"
  dk_h1_uds :: "int set"
  dk_h2_tcp :: "int set"
  dk_h2_tls :: "int set"
  dk_h2_uds :: "int set"

definition default_desired_keys :: DesiredKeys where
  "default_desired_keys = \<lparr>dk_h1_tcp = {}, dk_h1_tls = {}, dk_h1_uds = {}, dk_h2_tcp = {}, dk_h2_tls = {}, dk_h2_uds = {}\<rparr>"

section \<open>The pools that are needed\<close>

datatype PoolFamily = FamilyH1 | FamilyH2

definition absorb_scheme :: "PoolFamily \<Rightarrow> scheme \<Rightarrow> int \<Rightarrow> DesiredKeys \<Rightarrow> DesiredKeys" where
  "absorb_scheme family s location_id out =
     (case family of
        FamilyH1 \<Rightarrow>
          (case s of
             SchemeHttp \<Rightarrow> out\<lparr>dk_h1_tcp := insert location_id (dk_h1_tcp out)\<rparr>
           | SchemeWs \<Rightarrow> out\<lparr>dk_h1_tcp := insert location_id (dk_h1_tcp out)\<rparr>
           | SchemeHttps \<Rightarrow> out\<lparr>dk_h1_tls := insert location_id (dk_h1_tls out)\<rparr>
           | SchemeWss \<Rightarrow> out\<lparr>dk_h1_tls := insert location_id (dk_h1_tls out)\<rparr>
           | SchemeUnixSocket \<Rightarrow> out\<lparr>dk_h1_uds := insert location_id (dk_h1_uds out)\<rparr>)
      | FamilyH2 \<Rightarrow>
          (case s of
             SchemeHttp \<Rightarrow> out\<lparr>dk_h2_tcp := insert location_id (dk_h2_tcp out)\<rparr>
           | SchemeHttps \<Rightarrow> out\<lparr>dk_h2_tls := insert location_id (dk_h2_tls out)\<rparr>
           | SchemeWs \<Rightarrow> out\<lparr>dk_h1_tcp := insert location_id (dk_h1_tcp out)\<rparr>
           | SchemeWss \<Rightarrow> out\<lparr>dk_h1_tls := insert location_id (dk_h1_tls out)\<rparr>
           | SchemeUnixSocket \<Rightarrow> out\<lparr>dk_h2_uds := insert location_id (dk_h2_uds out)\<rparr>))"

definition absorb_remote :: "PoolFamily \<Rightarrow> ProxyPassToModel \<Rightarrow> int \<Rightarrow> DesiredKeys \<Rightarrow> DesiredKeys" where
  "absorb_remote family m location_id out =
     (case pt_remote_host m of
        Direct remote_host \<Rightarrow>
          (case re_scheme remote_host of None \<Rightarrow> out | Some s \<Rightarrow> absorb_scheme family s location_id out)
      | _ \<Rightarrow> out)"

definition absorb_location :: "ProxyPassLocationConfig \<Rightarrow> DesiredKeys \<Rightarrow> DesiredKeys" where
  "absorb_location l out =
     (case lc_proxy_pass_to l of
        ToUnixHttp1 _ \<Rightarrow> out\<lparr>dk_h1_uds := insert (lc_id l) (dk_h1_uds out)\<rparr>
      | ToUnixHttp2 _ \<Rightarrow> out\<lparr>dk_h2_uds := insert (lc_id l) (dk_h2_uds out)\<rparr>
      | ToHttp1 m \<Rightarrow> absorb_remote FamilyH1 m (lc_id l) out
      | ToMcpHttp1 m \<Rightarrow> absorb_remote FamilyH1 m (lc_id l) out
      | ToHttp2 m \<Rightarrow> absorb_remote FamilyH2 m (lc_id l) out
      | ToMcpHttp2 m \<Rightarrow> absorb_remote FamilyH2 m (lc_id l) out
      | _ \<Rightarrow> out)"

text \<open>\<open>listens\<close>: the values of the two maps of listening ports and sockets.\<close>

definition collect_desired_keys :: "ListenConfiguration list \<Rightarrow> DesiredKeys" where
  "collect_desired_keys listens =
     fold (\<lambda>listen out. fold (\<lambda>ep out. fold absorb_location (ep_locations ep) out) (http_endpoints listen) out)
       listens default_desired_keys"

definition gc_pools_tick :: "ListenConfiguration list \<Rightarrow> pool_registries \<Rightarrow> pool_registries" where
  "gc_pools_tick listens r =
     (let desired = collect_desired_keys listens in
      \<lparr>pr_h1_tcp = drain_unused (dk_h1_tcp desired) (pr_h1_tcp r),
       pr_h1_tls = drain_unused (dk_h1_tls desired) (pr_h1_tls r),
       pr_h1_uds = drain_unused (dk_h1_uds desired) (pr_h1_uds r),
       pr_h2_tcp = fst (h2_drain_unused (dk_h2_tcp desired) (pr_h2_tcp r)),
       pr_h2_tls = fst (h2_drain_unused (dk_h2_tls desired) (pr_h2_tls r)),
       pr_h2_uds = fst (h2_drain_unused (dk_h2_uds desired) (pr_h2_uds r))\<rparr>)"

section \<open>The two computations agree\<close>

fun keys_of :: "pool_family \<Rightarrow> DesiredKeys \<Rightarrow> int set" where
  "keys_of H1Tcp d = dk_h1_tcp d"
| "keys_of H1Tls d = dk_h1_tls d"
| "keys_of H1Uds d = dk_h1_uds d"
| "keys_of H2Tcp d = dk_h2_tcp d"
| "keys_of H2Tls d = dk_h2_tls d"
| "keys_of H2Uds d = dk_h2_uds d"

text \<open>The requests of a location take their connections from a registry.\<close>

definition uses_pool :: "ProxyPassLocationConfig \<Rightarrow> pool_family \<Rightarrow> bool" where
  "uses_pool l f \<longleftrightarrow> (\<exists>E source. create_data_source E (lc_proxy_pass_to l) = Ok source \<and> pool_of_source source = Some f)"

definition live_location :: "ListenConfiguration list \<Rightarrow> ProxyPassLocationConfig \<Rightarrow> bool" where
  "live_location listens l \<longleftrightarrow> (\<exists>listen \<in> set listens. \<exists>ep \<in> set (http_endpoints listen). l \<in> set (ep_locations ep))"

definition unix_direct :: "ProxyPassLocationConfig \<Rightarrow> bool" where
  "unix_direct l \<longleftrightarrow> (case lc_proxy_pass_to l of
      ToUnixHttp1 m \<Rightarrow> \<exists>r. pt_remote_host m = Direct r
    | ToUnixHttp2 m \<Rightarrow> \<exists>r. pt_remote_host m = Direct r
    | _ \<Rightarrow> True)"

abbreviation from_pool :: "HttpProxyPassContentSource panics \<Rightarrow> pool_family \<Rightarrow> bool" where
  "from_pool m f \<equiv> \<exists>source. m = Ok source \<and> pool_of_source source = Some f"

definition direct_source :: "PoolFamily \<Rightarrow> remote_endpoint \<Rightarrow> HttpProxyPassContentSource panics" where
  "direct_source family = (case family of FamilyH1 \<Rightarrow> direct_http1_source | FamilyH2 \<Rightarrow> direct_http2_source)"

lemma absorb_scheme_keys:
  "re_scheme r = Some s \<Longrightarrow> keys_of f (absorb_scheme family s i out) =
     (if from_pool (direct_source family r) f then insert i (keys_of f out) else keys_of f out)"
  by (cases family; cases s; cases f)
    (simp_all add: absorb_scheme_def direct_source_def direct_http1_source_def direct_http2_source_def)

lemma absorb_remote_keys:
  "keys_of f (absorb_remote family m i out) =
     (if \<exists>r. pt_remote_host m = Direct r \<and> from_pool (direct_source family r) f then insert i (keys_of f out) else keys_of f out)"
proof (cases "pt_remote_host m")
  case (Direct r)
  then show ?thesis
    by (cases "re_scheme r"; cases family)
      (simp_all add: absorb_remote_def absorb_scheme_keys direct_source_def direct_http1_source_def direct_http2_source_def)
qed (simp_all add: absorb_remote_def)

lemma local_path_no_pool: "new_local_path_source home p d = Ok source \<Longrightarrow> pool_of_source source = None"
  by (auto simp: new_local_path_source_def rust_simps split: if_splits)

lemma uses_remote:
  "lc_proxy_pass_to l = ToHttp1 m \<or> lc_proxy_pass_to l = ToMcpHttp1 m \<Longrightarrow>
     uses_pool l f \<longleftrightarrow> (\<exists>r. pt_remote_host m = Direct r \<and> from_pool (direct_source FamilyH1 r) f)"
  "lc_proxy_pass_to l = ToHttp2 m \<or> lc_proxy_pass_to l = ToMcpHttp2 m \<Longrightarrow>
     uses_pool l f \<longleftrightarrow> (\<exists>r. pt_remote_host m = Direct r \<and> from_pool (direct_source FamilyH2 r) f)"
  by (auto simp: uses_pool_def create_data_source_def remote_source_def direct_source_def
      split: MyReverseProxyRemoteEndpoint.splits if_splits)

lemma uses_other:
  "lc_proxy_pass_to l = ToUnixHttp1 m \<Longrightarrow> uses_pool l f \<longleftrightarrow> f = H1Uds \<and> (\<exists>r. pt_remote_host m = Direct r)"
  "lc_proxy_pass_to l = ToUnixHttp2 m \<Longrightarrow> uses_pool l f \<longleftrightarrow> f = H2Uds \<and> (\<exists>r. pt_remote_host m = Direct r)"
  "lc_proxy_pass_to l = ToStatic c \<Longrightarrow> \<not> uses_pool l f"
  "lc_proxy_pass_to l = ToDrop \<Longrightarrow> \<not> uses_pool l f"
  "lc_proxy_pass_to l = ToDynamicProxy d \<Longrightarrow> \<not> uses_pool l f"
  "lc_proxy_pass_to l = ToFilesPath p \<Longrightarrow> \<not> uses_pool l f"
  by (auto simp: uses_pool_def create_data_source_def unix_source_def
      split: MyReverseProxyRemoteEndpoint.splits if_splits dest: local_path_no_pool)

lemma absorb_location_keys:
  "unix_direct l \<Longrightarrow> keys_of f (absorb_location l out) = (if uses_pool l f then insert (lc_id l) (keys_of f out) else keys_of f out)"
  by (cases "lc_proxy_pass_to l"; cases f)
    (auto simp: absorb_location_def absorb_remote_keys [of H1Tcp, simplified] absorb_remote_keys [of H1Tls, simplified]
      absorb_remote_keys [of H1Uds, simplified] absorb_remote_keys [of H2Tcp, simplified] absorb_remote_keys [of H2Tls, simplified]
      absorb_remote_keys [of H2Uds, simplified] uses_remote uses_other unix_direct_def)

lemma fold_keys:
  assumes "\<And>x out. x \<in> set xs \<Longrightarrow> keys_of f (g x out) = keys_of f out \<union> k x"
  shows "keys_of f (fold g xs out) = keys_of f out \<union> (\<Union>x \<in> set xs. k x)"
  using assms by (induction xs arbitrary: out) (auto simp: Un_assoc)

lemma collect_keys:
  assumes "\<forall>l. live_location listens l \<longrightarrow> unix_direct l"
  shows "keys_of f (collect_desired_keys listens) = {lc_id l |l. live_location listens l \<and> uses_pool l f}"
proof -
  let ?k = "\<lambda>l. if uses_pool l f then {lc_id l} else {}"
  have locations: "keys_of f (fold absorb_location (ep_locations ep) out) = keys_of f out \<union> (\<Union>l \<in> set (ep_locations ep). ?k l)"
    if "listen \<in> set listens" "ep \<in> set (http_endpoints listen)" for listen ep out
  proof (rule fold_keys)
    fix l out
    assume "l \<in> set (ep_locations ep)"
    then have "unix_direct l" using that assms by (auto simp: live_location_def)
    then show "keys_of f (absorb_location l out) = keys_of f out \<union> ?k l" by (simp add: absorb_location_keys)
  qed
  have endpoints: "keys_of f (fold (\<lambda>ep out. fold absorb_location (ep_locations ep) out) (http_endpoints listen) out) =
      keys_of f out \<union> (\<Union>ep \<in> set (http_endpoints listen). \<Union>l \<in> set (ep_locations ep). ?k l)"
    if "listen \<in> set listens" for listen out
    by (rule fold_keys) (use that locations in auto)
  have "keys_of f (collect_desired_keys listens) = keys_of f default_desired_keys \<union>
      (\<Union>listen \<in> set listens. \<Union>ep \<in> set (http_endpoints listen). \<Union>l \<in> set (ep_locations ep). ?k l)"
    unfolding collect_desired_keys_def by (rule fold_keys) (use endpoints in auto)
  then show ?thesis by (cases f) (auto simp: default_desired_keys_def live_location_def split: if_splits)
qed

section \<open>What a tick keeps\<close>

text \<open>The pool that a registry has for a location.\<close>

abbreviation h1_pool_for :: "pools_state \<Rightarrow> int \<Rightarrow> (H1Pool + H2Pool) option" where
  "h1_pool_for st i \<equiv> map_option (\<lambda>q. Inl (st_pools st ! q)) (st_registry st i)"

fun pool_for :: "pool_family \<Rightarrow> pool_registries \<Rightarrow> int \<Rightarrow> (H1Pool + H2Pool) option" where
  "pool_for H1Tcp r i = h1_pool_for (pr_h1_tcp r) i"
| "pool_for H1Tls r i = h1_pool_for (pr_h1_tls r) i"
| "pool_for H1Uds r i = h1_pool_for (pr_h1_uds r) i"
| "pool_for H2Tcp r i = map_option Inr (pr_h2_tcp r i)"
| "pool_for H2Tls r i = map_option Inr (pr_h2_tls r i)"
| "pool_for H2Uds r i = map_option Inr (pr_h2_uds r i)"

definition registry_ok :: "pools_state \<Rightarrow> bool" where
  "registry_ok st \<longleftrightarrow> (\<forall>i q. st_registry st i = Some q \<longrightarrow> q < length (st_pools st) \<and> (\<forall>j. st_registry st j = Some q \<longrightarrow> j = i))"

lemma registry_step: "pool_step st st1 \<Longrightarrow> registry_ok st \<Longrightarrow> registry_ok st1"
proof (induction rule: pool_step.induct)
  case (ensure st location_id params)
  then show ?case by (auto simp: registry_ok_def ensure_pool_def less_SucI split: option.splits)
next
  case (drain st active)
  then show ?case by (auto simp: registry_ok_def drain_unused_def split: if_splits)
qed (auto simp: registry_ok_def)

lemma registry_reachable: "reachable st \<Longrightarrow> registry_ok st"
  unfolding reachable_def
  by (induction rule: rtranclp_induct) (auto intro: registry_step, simp add: registry_ok_def new_registry_def)

lemma drained_pool: "registry_ok st \<Longrightarrow> h1_pool_for (drain_unused active st) i = (if i \<in> active then h1_pool_for st i else None)"
proof (cases "st_registry st i")
  case (Some q)
  moreover assume "registry_ok st"
  ultimately have "q < length (st_pools st)" "i \<in> active \<Longrightarrow> \<not> (\<exists>j. st_registry st j = Some q \<and> j \<notin> active)"
    by (auto simp: registry_ok_def)
  then show ?thesis using Some by (cases "i \<in> active"; simp add: drain_nth) (auto simp: drain_unused_def)
qed (simp add: drain_unused_def)

text \<open>
  C27. A tick of the pool collector keeps exactly the pools that are in use: the pool a registry has for a location id stays as it is when
  some location of the live configuration with that id takes its connections from that registry, and leaves the registry otherwise.
  (Unix socket targets are taken to be direct ones; for others \<open>create_data_source\<close> panics and no pool exists.)
\<close>

theorem gc_keeps_used_pools:
  assumes "reachable (pr_h1_tcp r)" and "reachable (pr_h1_tls r)" and "reachable (pr_h1_uds r)"
    and "\<forall>l. live_location listens l \<longrightarrow> unix_direct l"
  shows "pool_for f (gc_pools_tick listens r) i =
    (if \<exists>l. live_location listens l \<and> lc_id l = i \<and> uses_pool l f then pool_for f r i else None)"
proof -
  have active: "i \<in> keys_of f (collect_desired_keys listens) \<longleftrightarrow> (\<exists>l. live_location listens l \<and> lc_id l = i \<and> uses_pool l f)"
    using collect_keys [OF assms(4)] by auto
  have "pool_for f (gc_pools_tick listens r) i = (if i \<in> keys_of f (collect_desired_keys listens) then pool_for f r i else None)"
    using assms(1-3) by (cases f) (simp_all add: gc_pools_tick_def Let_def drained_pool registry_reachable h2_drain_unused_def)
  then show ?thesis by (simp only: active)
qed

section \<open>A run\<close>

text \<open>An endpoint with one location, number 1, that forwards to an HTTP upstream.\<close>

definition gc_target :: remote_endpoint where
  "gc_target = \<lparr>re_text = as_bytes ''http://u'', re_scheme = Some SchemeHttp, re_host = as_bytes ''u'', re_host_port = as_bytes ''u:80'',
     re_path_and_query = None\<rparr>"

definition gc_location :: ProxyPassLocationConfig where
  "gc_location = new_location_config (as_bytes ''/'') None None
     (ToHttp1 \<lparr>pt_remote_host = Direct gc_target, pt_request_timeout = 1, pt_connect_timeout = 1, pt_pool_tuning = default_pool_tuning\<rparr>)
     False None 1"

definition gc_listens :: "ListenConfiguration list" where
  "gc_listens = [HttpPort (new_listen_port (new_endpoint_info
     \<lparr>pp_host_endpoint = \<lparr>hs_src = as_bytes ''a:1'', hs_port = Some 1, hs_index = Some 1\<rparr>,
      pp_listen_endpoint_type = ListenHttp1, pp_inject_country = False, pp_g_auth = None, pp_oauth = None,
      pp_ssl_certificate_id = None, pp_client_certificate_id = None, pp_whitelisted_ip_list_id = None,
      pp_locations = [gc_location], pp_allowed_user_list_id = None, pp_global_modify_headers = None, pp_endpoint_modify_headers = None,
      pp_keep_alive = True, pp_track_metrics_by_all_domains = False, pp_hsts = False,
      pp_mcp_settings = \<lparr>me_read_timeout = 1, me_write_timeout = 1, me_buffer_size = 1\<rparr>, pp_timeouts = (1, 1)\<rparr>))]"

definition gc_registries :: pool_registries where
  "gc_registries = \<lparr>pr_h1_tcp = one_pool (small_pool [] 0 0) 0 [], pr_h1_tls = new_registry, pr_h1_uds = new_registry,
     pr_h2_tcp = [1 \<mapsto> new_h2_pool \<lparr>m2_pool_size = 1, m2_health_check_path = None, m2_hot_window = 1, m2_revive_cooldown = 1\<rparr>],
     pr_h2_tls = Map.empty, pr_h2_uds = Map.empty\<rparr>"

theorem gc_keeps_used_pools_witness:
  "pool_for H1Tcp (gc_pools_tick gc_listens gc_registries) 1 = Some (Inl (small_pool [] 0 0)) \<and>
   pool_for H2Tcp (gc_pools_tick gc_listens gc_registries) 1 = None"
proof -
  have target: "lc_proxy_pass_to gc_location = ToHttp1 \<lparr>pt_remote_host = Direct gc_target, pt_request_timeout = 1, pt_connect_timeout = 1,
      pt_pool_tuning = default_pool_tuning\<rparr>" and number: "lc_id gc_location = 1"
    by (simp_all add: gc_location_def new_location_config_def)
  have live: "live_location gc_listens l \<longleftrightarrow> l = gc_location" for l
    by (simp add: live_location_def gc_listens_def http_endpoints_def new_listen_port_def new_endpoint_info_def Let_def)
  have uses: "uses_pool gc_location f \<longleftrightarrow> f = H1Tcp" for f
    using uses_remote(1) [OF disjI1, OF target] by (auto simp: direct_source_def direct_http1_source_def gc_target_def)
  have start: "reachable (pr_h1_tcp gc_registries)" "reachable (pr_h1_tls gc_registries)" "reachable (pr_h1_uds gc_registries)"
    using one_pool_init by (simp_all add: gc_registries_def reachable_def)
  have "\<forall>l. live_location gc_listens l \<longrightarrow> unix_direct l" using live target by (simp add: unix_direct_def)
  note gc = gc_keeps_used_pools [OF start this, of _ 1]
  show ?thesis using gc [of H1Tcp] gc [of H2Tcp] by (simp add: live uses number gc_registries_def one_pool_def)
qed

end
