(* ===== verification/Tunnels.thy ===== *)
theory Tunnels
  imports H1_Guards Config_Compile
begin

text \<open>
  Connections that are relayed byte by byte: the pump \<open>copy_streams\<close> (\<open>src/src/tcp_utils/copy_streams.rs\<close>), the websocket
  tunnel of the HTTP/1 pipeline (\<open>src/src/h1_proxy_server/pipeline/ws_tunnel.rs\<close>), the forwarding of TCP ports
  (\<open>src/src/tcp_listener/tcp_port_forward\<close>), the pump of an MCP connection (\<open>src/src/tcp_listener/mcp/run_mcp_connection.rs\<close>), and what an
  accepted TCP or unix connection is handed to (\<open>listen_tcp_server.rs\<close>, \<open>listen_unix_server.rs\<close>). The two pumps of a tunnel are
  independent tasks with a reader and a writer each. Connects are arguments; logs and traffic counters are left out.
\<close>

section \<open>The pump\<close>

datatype copy_end = CopyEnded | CopyWriteFailed

text \<open>\<open>get_mut().unwrap()\<close> panics on a full buffer.\<close>

function copy_streams :: "nat \<times> nat \<Rightarrow> arrival list \<Rightarrow> loop_buffer \<Rightarrow> write_half \<Rightarrow> copy_end panics \<times> write_half" where
  "copy_streams timeouts src lb w =
     (let buf = lb_get_data lb in
      case (if length buf > 0 then write_all_with_timeout (snd timeouts) buf w else (Ok (), w)) of
        (Ok _, w1) \<Rightarrow>
          (case read_more (fst timeouts) (if length buf > 0 then commit_read (length buf) lb else lb) src of
             (Ok _, lb1, src1) \<Rightarrow> copy_streams timeouts src1 lb1 w1
           | (Err BufferAllocationFail, lb1, src1) \<Rightarrow> (Panic, w1)
           | (Err _, lb1, src1) \<Rightarrow> (Ok CopyEnded, shutdown_socket w1)
           | (Panic, lb1, src1) \<Rightarrow> (Panic, w1))
      | (_, w1) \<Rightarrow> (Ok CopyWriteFailed, w1))"
  by pat_completeness auto
termination
  by (relation "measure (\<lambda>(_, src, _, _). src_size src)") (auto dest: read_more_decreases [OF sym])

declare copy_streams.simps [simp del]

text \<open>The pump of an MCP connection: its own buffer; a read never gives zero bytes. \<open>forwarded\<close> counts the bytes.\<close>

function link_tcp_streams :: "McpEndpointSettings \<Rightarrow> arrival list \<Rightarrow> u64 \<Rightarrow> write_half \<Rightarrow> write_half \<times> u64" where
  "link_tcp_streams m src forwarded w =
     (case read_with_timeout (me_read_timeout m) (me_buffer_size m) src of
        (Ok bs, src1) \<Rightarrow>
          (case write_all_with_timeout (me_write_timeout m) bs w of
             (Ok _, w1) \<Rightarrow> link_tcp_streams m src1 (forwarded + of_nat (length bs)) w1
           | (_, w1) \<Rightarrow> (shutdown_socket w1, forwarded))
      | (_, src1) \<Rightarrow> (shutdown_socket w, forwarded))"
  by pat_completeness auto
termination
  by (relation "measure (\<lambda>(_, src, _, _). src_size src)") (auto dest: read_with_timeout_Ok(4) [OF sym])

declare link_tcp_streams.simps [simp del]

section \<open>The websocket tunnel\<close>

text \<open>
  How the tunnel ends: closed before it is open, with the client half and the upstream if there is one; or open, with the head that went
  to the client and the ends of the pumps to the client and to the upstream.
\<close>

datatype tunnel_end =
    TunnelRefused write_half "OwnedUpstream option"
  | TunnelOpen bytes "copy_end panics \<times> write_half" "copy_end panics \<times> write_half"
  | TunnelPanics

text \<open>
  The context is what the reader of \<open>H1_Pipeline\<close> hands over; \<open>connection\<close> is its \<open>http_connection_info\<close>. \<open>None\<close> is a loop of the head or
  the body parser that does not return.
\<close>

definition open_tunnel ::
  "worker_libs \<Rightarrow> nat \<Rightarrow> UpgradeContext \<Rightarrow> arrival list \<Rightarrow> loop_buffer \<Rightarrow> OwnedUpstream \<Rightarrow> Http1Headers
     \<Rightarrow> bytes \<times> bool \<times> loop_buffer \<Rightarrow> arrival list \<Rightarrow> write_half \<Rightarrow> tunnel_end option" where
  "open_tunnel L fuel ctx client_src client_leftover o1 h response resp_src client_write =
     (case response of (head, is_upgrade, resp_lb) \<Rightarrow>
        (case write_all_with_timeout (ug_write_timeout ctx) head client_write of
           (Ok _, w1) \<Rightarrow>
             if \<not> is_upgrade then
               (case transfer_body (wl_find_seq L) (write_all_with_timeout (snd (ep_timeouts (ug_endpoint ctx)))) (fst (ep_timeouts (ug_endpoint ctx))) fuel resp_lb resp_src (h1_content_length h) w1 of
                  None \<Rightarrow> None
                | Some (r, _, _, w2) \<Rightarrow> Some (if r = Panic then TunnelPanics else TunnelRefused (shutdown_socket w2) (Some o1)))
             else Some (TunnelOpen head
               (copy_streams (ep_timeouts (ug_endpoint ctx)) resp_src resp_lb w1)
               (copy_streams (ep_timeouts (ug_endpoint ctx)) client_src client_leftover (ou_write o1)))
         | (_, w1) \<Rightarrow> Some (TunnelRefused (shutdown_socket w1) (Some o1))))"

definition run_ws_tunnel ::
  "worker_libs \<Rightarrow> (ProxyPassToConfig \<Rightarrow> (NetworkError, OwnedUpstream) outcome) \<Rightarrow> connection_info \<Rightarrow> nat \<Rightarrow> UpgradeContext \<Rightarrow> arrival list \<Rightarrow> loop_buffer \<Rightarrow> write_half \<Rightarrow> tunnel_end option" where
  "run_ws_tunnel L connect connection fuel ctx client_src client_leftover client_write =
     (case connect (ug_proxy_pass_to ctx) of
        Err _ \<Rightarrow> Some (TunnelRefused (shutdown_socket client_write) None)
      | Panic \<Rightarrow> Some TunnelPanics
      | Ok o1 \<Rightarrow>
          (case send_head_bytes (ug_head ctx) (ug_write_timeout ctx) o1 of
             (False, o2) \<Rightarrow> Some (TunnelRefused (shutdown_socket client_write) (Some o2))
           | (True, o2) \<Rightarrow>
               (case read_headers (wl_find_seq L) (wl_find_byte L) (wl_eq_ci L) (fst (ep_timeouts (ug_endpoint ctx)))
                       (new_loop_buffer (wl_memory L)) (ou_read o2) of
                  (None, lb, src) \<Rightarrow> None
                | (Some Panic, lb, src) \<Rightarrow> Some TunnelPanics
                | (Some (Err _), lb, src) \<Rightarrow> Some (TunnelRefused (shutdown_socket client_write) (Some o2))
                | (Some (Ok h), lb, src) \<Rightarrow>
                    (case compile_headers (wl_find_seq L) (wl_find_byte L) (wl_tokens L) (wl_env L) h (ResponseHeaders (endpoint_rules_of (ug_endpoint ctx)))
                            connection None None None lb of
                       None \<Rightarrow> None
                     | Some Panic \<Rightarrow> Some TunnelPanics
                     | Some (Err _) \<Rightarrow> Some (TunnelRefused (shutdown_socket client_write) (Some o2))
                     | Some (Ok response) \<Rightarrow> open_tunnel L fuel ctx client_src client_leftover o2 h response src client_write))))"

section \<open>Forwarded ports and accepted connections\<close>

text \<open>
  \<open>handle_port_forward\<close> after a connect: both pumps, with fresh buffers; without an upstream the client is closed. \<open>memory\<close> is what
  the allocator left in the buffers.
\<close>

definition port_forward ::
  "bytes \<Rightarrow> nat \<times> nat \<Rightarrow> (NetworkError, arrival list \<times> write_half) outcome \<Rightarrow> arrival list \<Rightarrow> write_half
     \<Rightarrow> ((copy_end panics \<times> write_half) \<times> (copy_end panics \<times> write_half)) + write_half" where
  "port_forward memory timeouts remote server_src server_write =
     (case remote of
        Ok (remote_src, remote_write) \<Rightarrow>
          Inl (copy_streams timeouts server_src (new_loop_buffer memory) remote_write,
               copy_streams timeouts remote_src (new_loop_buffer memory) server_write)
      | _ \<Rightarrow> Inr (shutdown_socket server_write))"

datatype accepted_as =
    NotConfigured
  | StartHttp1 HttpListenPortConfiguration
  | StartHttp2 HttpListenPortConfiguration
  | StartTls HttpListenPortConfiguration
  | ForwardOverGateway TcpEndpointHostConfig bytes remote_endpoint
  | ForwardOverSsh TcpEndpointHostConfig bytes remote_endpoint
  | ForwardDirect TcpEndpointHostConfig remote_endpoint

definition get_white_list_id :: "ListenConfiguration \<Rightarrow> bytes option" where
  "get_white_list_id listen = (case listen of HttpPort _ \<Rightarrow> None | TcpPort c \<Rightarrow> th_ip_white_list_id c | McpPort _ \<Rightarrow> None)"

definition dispatch_tcp :: "ListenConfiguration \<Rightarrow> accepted_as" where
  "dispatch_tcp listen =
     (case listen of
        HttpPort c \<Rightarrow>
          (case lp_listen_endpoint_type c of
             ListenHttp1 \<Rightarrow> StartHttp1 c
           | ListenHttp2 \<Rightarrow> StartHttp2 c
           | ListenHttps1 \<Rightarrow> StartTls c
           | ListenHttps2 \<Rightarrow> StartTls c
           | ListenMcp \<Rightarrow> StartTls c)
      | TcpPort c \<Rightarrow>
          (case th_remote_host c of
             Gateway i r \<Rightarrow> ForwardOverGateway c i r
           | OverSsh credentials r \<Rightarrow> ForwardOverSsh c credentials r
           | Direct r \<Rightarrow> ForwardDirect c r)
      | McpPort c \<Rightarrow> StartTls c)"

definition handle_accepted_tcp :: "app_config \<Rightarrow> nat \<Rightarrow> IpAddr \<Rightarrow> accepted_as panics" where
  "handle_accepted_tcp config port ip =
     (case ac_tcp config port of
        None \<Rightarrow> Ok NotConfigured
      | Some listen \<Rightarrow>
          (case get_white_list_id listen of
             None \<Rightarrow> Ok (dispatch_tcp listen)
           | Some list_id \<Rightarrow>
               rbind (config_white_listed (ac_white_lists config) list_id ip) (\<lambda>white.
                 Ok (if white then dispatch_tcp listen else NotConfigured))))"

text \<open>A unix socket has no TLS and no SSH: such a configuration panics, and with it the accept loop.\<close>

definition handle_accepted_unix :: "app_config \<Rightarrow> bytes \<Rightarrow> accepted_as panics" where
  "handle_accepted_unix config listen_host =
     (case ac_unix config listen_host of
        None \<Rightarrow> Ok NotConfigured
      | Some listen \<Rightarrow>
          (case dispatch_tcp listen of
             StartTls _ \<Rightarrow> Panic
           | ForwardOverSsh _ _ _ \<Rightarrow> Panic
           | served \<Rightarrow> Ok served))"

section \<open>What is relayed\<close>

lemma read_more_Err:
  assumes "read_more t lb src = (Err e, lb1, src1)" and "lb_ok lb" and "length (lb_get_data lb) < length (lb_data lb)"
  shows "e \<noteq> BufferAllocationFail \<and> pending src = []"
proof
  have "fst (get_mut lb) \<noteq> None" using get_mut_None [OF assms(2)] assms(3) by simp
  then show "e \<noteq> BufferAllocationFail"
    using assms(1) by (auto simp: read_more_def split: prod.splits option.splits outcome.splits)
  show "pending src = []"
    using read_more_available [OF assms(2,3), of src t] assms(1) by fastforce
qed

lemma write_if_any:
  assumes "(if length buf > 0 then write_all_with_timeout t buf w else (Ok (), w)) = (r, w1)"
  shows "\<exists>k. wh_wire w1 = wh_wire w @ take k buf" and "r = Ok () \<Longrightarrow> wh_wire w1 = wh_wire w @ buf"
    and "healthy w \<Longrightarrow> r = Ok () \<and> healthy w1"
  using assms write_prefix [of t buf w] write_Ok [of t buf w w1] write_healthy [of w t buf]
  by (auto split: if_splits intro: exI [of _ 0])

lemma copy_streams_relays:
  assumes "lb_ok lb" and "0 < length (lb_data lb)" and "copy_streams timeouts src lb w = (r, w1)"
  shows "(\<exists>k. wh_wire w1 = wh_wire w @ take k (stream_of lb src) \<and>
      (r = Ok CopyEnded \<and> k = length (stream_of lb src) \<and> wh_shut w1 \<or> r = Ok CopyWriteFailed)) \<and> (healthy w \<longrightarrow> r = Ok CopyEnded)"
  using assms
proof (induction timeouts src lb w rule: copy_streams.induct)
  case (1 timeouts src lb w)
  let ?buf = "lb_get_data lb"
  let ?lb = "if length ?buf > 0 then commit_read (length ?buf) lb else lb"
  have lb: "lb_ok ?lb" "lb_get_data ?lb = []" "lb_data ?lb = lb_data lb" using commit_keeps [OF "1.prems"(1), of "length ?buf"] "1.prems"(1) by auto
  obtain r0 w0 where w0: "(if length ?buf > 0 then write_all_with_timeout (snd timeouts) ?buf w else (Ok (), w)) = (r0, w0)"
    by (cases "if length ?buf > 0 then write_all_with_timeout (snd timeouts) ?buf w else (Ok (), w)")
  note wr = write_if_any [OF w0]
  show ?case
  proof (cases "r0 = Ok ()")
    case False
    then have "r = Ok CopyWriteFailed" "w1 = w0" "\<not> healthy w"
      using "1.prems"(3) w0 wr(3) by (subst (asm) copy_streams.simps, cases r0, auto simp: Let_def)+
    moreover obtain k where "wh_wire w0 = wh_wire w @ take k ?buf" using wr(1) by blast
    ultimately show ?thesis by (auto simp: stream_of_def intro!: exI [of _ "min k (length ?buf)"] simp: min_def)
  next
    case True
    note wire = wr(2) [OF True]
    show ?thesis
    proof (cases rule: read_more_cases [of "fst timeouts" ?lb src])
      case (1 lb1 src1)
      note ok = read_more_Ok [OF 1 lb(1)]
      have rest: "stream_of lb1 src1 = pending src" using ok(3) lb(2) by (simp add: stream_of_def)
      have "copy_streams timeouts src1 lb1 w0 = (r, w1)"
        using "1.prems"(3) w0 True 1 by (subst (asm) copy_streams.simps) (simp add: Let_def)
      then have "(\<exists>k. wh_wire w1 = wh_wire w0 @ take k (stream_of lb1 src1) \<and>
          (r = Ok CopyEnded \<and> k = length (stream_of lb1 src1) \<and> wh_shut w1 \<or> r = Ok CopyWriteFailed)) \<and> (healthy w0 \<longrightarrow> r = Ok CopyEnded)"
        using "1.IH" [OF refl w0 [symmetric] True 1 [symmetric]] ok(1,2) "1.prems"(2) lb(3) by simp
      then obtain k where k: "wh_wire w1 = wh_wire w0 @ take k (pending src)"
          "r = Ok CopyEnded \<and> k = length (pending src) \<and> wh_shut w1 \<or> r = Ok CopyWriteFailed" "healthy w0 \<longrightarrow> r = Ok CopyEnded"
        unfolding rest by blast
      then show ?thesis using wire wr(3) by (intro conjI exI [of _ "length ?buf + k"]) (auto simp: stream_of_def)
    next
      case (2 e lb1 src1)
      have e: "e \<noteq> BufferAllocationFail" "pending src = []" using read_more_Err [OF 2 lb(1)] lb(2,3) "1.prems"(2) by auto
      have "(r, w1) = (Ok CopyEnded, shutdown_socket w0)"
        using "1.prems"(3) w0 True 2 e(1) by (subst (asm) copy_streams.simps) (cases e; simp add: Let_def)
      then show ?thesis using wire e(2) by (auto simp: stream_of_def shutdown_socket_def intro!: exI [of _ "length ?buf"])
    qed
  qed
qed

lemma data_of_window: "lb_get_data lb \<noteq> [] \<Longrightarrow> 0 < length (lb_data lb)"
  by (cases "lb_data lb") (auto simp: lb_get_data_def)

lemma response_head_read:
  assumes "read_headers f fb eq_ci t (new_loop_buffer memory) src0 = (Some (Ok h), lb, src)" and "find_seq_ok f"
    and "compile_headers f fb tokens env h kind cn identity mcp ho lb = Some (Ok (out, ws, lb1))"
  shows "lb_ok lb1 \<and> 0 < length (lb_data lb1) \<and> stream_of lb1 src = drop (h1_end h) (pending src0) \<and>
    (\<exists>n. parse_head f fb eq_ci (take n (pending src0)) = Some (Ok (Some h)))"
proof -
  have empty: "lb_ok (new_loop_buffer memory)" "lb_get_data (new_loop_buffer memory) = []"
    by (simp_all add: new_loop_buffer_def lb_ok_def lb_get_data_def)
  note k = read_headers_keeps [OF assms(1) empty(1)]
  then have e: "h1_end h \<le> length (lb_get_data lb)" using parse_head_end [OF assms(2)] by blast
  have "lb_get_data lb \<noteq> []"
  proof
    assume "lb_get_data lb = []"
    with k obtain i where "f [] HTTP_CR_LF 0 = Some i" by (auto simp: parse_head_def split: option.splits)
    from find_seq_bound [OF assms(2) _ this] show False by (simp add: HTTP_CR_LF_def)
  qed
  then have "0 < length (lb_data lb)" by (rule data_of_window)
  moreover have "pending src0 = lb_get_data lb @ pending src" using k empty(2) by (simp add: stream_of_def)
  ultimately show ?thesis
    using k e commit_keeps [OF _ e] unfolding compile_headers_commit [OF assms(3)]
    by (auto simp: stream_of_def intro: exI [of _ "length (lb_get_data lb)"])
qed

text \<open>
  C28. A websocket tunnel that opens is transparent. The upstream gets the request head and then the bytes that the client sends after its
  request, the client gets the rewritten response head and then the bytes that the upstream sends after its own: in each direction exactly
  a prefix, all of it when the writing side is healthy, and then the half-close; the pumps do not panic.
\<close>

theorem ws_tunnel_transparent:
  assumes "run_ws_tunnel L connect connection fuel ctx client_src client_leftover client_write = Some (TunnelOpen head (r1, w1) (r2, w2))"
    and "find_seq_ok (wl_find_seq L)" and "lb_ok client_leftover" and "0 < length (lb_data client_leftover)"
  shows "\<exists>upstream h k1 k2. connect (ug_proxy_pass_to ctx) = Ok upstream \<and>
    (\<exists>n. parse_head (wl_find_seq L) (wl_find_byte L) (wl_eq_ci L) (take n (pending (ou_read upstream))) = Some (Ok (Some h))) \<and>
    r1 \<in> {Ok CopyEnded, Ok CopyWriteFailed} \<and> r2 \<in> {Ok CopyEnded, Ok CopyWriteFailed} \<and>
    wh_wire w1 = wh_wire client_write @ head @ take k1 (drop (h1_end h) (pending (ou_read upstream))) \<and>
    (healthy client_write \<longrightarrow> r1 = Ok CopyEnded \<and> k1 = length (drop (h1_end h) (pending (ou_read upstream))) \<and> wh_shut w1) \<and>
    wh_wire w2 = wh_wire (ou_write upstream) @ ug_head ctx @ take k2 (stream_of client_leftover client_src) \<and>
    (healthy (ou_write upstream) \<longrightarrow> r2 = Ok CopyEnded \<and> k2 = length (stream_of client_leftover client_src) \<and> wh_shut w2)"
proof -
  obtain o1 where o1: "connect (ug_proxy_pass_to ctx) = Ok o1" using assms(1) by (auto simp: run_ws_tunnel_def split: outcome.splits)
  obtain o2 where o2: "send_head_bytes (ug_head ctx) (ug_write_timeout ctx) o1 = (True, o2)"
    using assms(1) o1 by (auto simp: run_ws_tunnel_def split: prod.splits bool.splits)
  obtain h lb src where h: "read_headers (wl_find_seq L) (wl_find_byte L) (wl_eq_ci L) (fst (ep_timeouts (ug_endpoint ctx)))
      (new_loop_buffer (wl_memory L)) (ou_read o2) = (Some (Ok h), lb, src)"
    using assms(1) o1 o2 by (auto simp: run_ws_tunnel_def split: prod.splits option.splits outcome.splits)
  obtain out ws lb1 where c: "compile_headers (wl_find_seq L) (wl_find_byte L) (wl_tokens L) (wl_env L) h (ResponseHeaders (endpoint_rules_of (ug_endpoint ctx)))
      connection None None None lb = Some (Ok (out, ws, lb1))"
    using assms(1) o1 o2 h by (auto simp: run_ws_tunnel_def split: option.splits outcome.splits)
  have opened: "open_tunnel L fuel ctx client_src client_leftover o2 h (out, ws, lb1) src client_write = Some (TunnelOpen head (r1, w1) (r2, w2))"
    using assms(1) o1 o2 h c by (simp add: run_ws_tunnel_def)
  then obtain w0 where w0: "write_all_with_timeout (ug_write_timeout ctx) head client_write = (Ok (), w0)" "out = head"
      "copy_streams (ep_timeouts (ug_endpoint ctx)) src lb1 w0 = (r1, w1)"
      "copy_streams (ep_timeouts (ug_endpoint ctx)) client_src client_leftover (ou_write o2) = (r2, w2)"
    by (auto simp: open_tunnel_def split: prod.splits outcome.splits if_splits option.splits)
  have up: "wh_wire (ou_write o2) = wh_wire (ou_write o1) @ ug_head ctx" "ou_read o2 = ou_read o1"
    "healthy (ou_write o1) \<Longrightarrow> healthy (ou_write o2)"
    using o2 write_Ok write_healthy
    by (auto simp: send_head_bytes_def upstream_sink_def split: if_splits prod.splits) (metis prod.inject)+
  note head = response_head_read [OF h assms(2) c]
  note down = copy_streams_relays [OF _ _ w0(3)] and upward = copy_streams_relays [OF assms(3,4) w0(4)]
  have ready: "healthy client_write \<Longrightarrow> healthy w0" using write_healthy [of client_write] w0(1) by (metis prod.inject)
  obtain k1 where k1: "wh_wire w1 = wh_wire w0 @ take k1 (stream_of lb1 src)"
    "r1 = Ok CopyEnded \<and> k1 = length (stream_of lb1 src) \<and> wh_shut w1 \<or> r1 = Ok CopyWriteFailed" "healthy w0 \<longrightarrow> r1 = Ok CopyEnded"
    using down head by blast
  obtain k2 where k2: "wh_wire w2 = wh_wire (ou_write o2) @ take k2 (stream_of client_leftover client_src)"
    "r2 = Ok CopyEnded \<and> k2 = length (stream_of client_leftover client_src) \<and> wh_shut w2 \<or> r2 = Ok CopyWriteFailed"
    "healthy (ou_write o2) \<longrightarrow> r2 = Ok CopyEnded"
    using upward by blast
  show ?thesis
    by (intro exI [of _ o1] exI [of _ h] exI [of _ k1] exI [of _ k2])
      (use o1 k1 k2 ready up head write_Ok [OF w0(1)] in auto)
qed

text \<open>A port is forwarded only for an address that the white list of the port admits; the pumps relay what each side sends.\<close>

lemma forward_admits:
  assumes "handle_accepted_tcp config port ip = Ok served" and "served \<noteq> NotConfigured"
  shows "\<exists>listen. ac_tcp config port = Some listen \<and> served = dispatch_tcp listen \<and>
    (\<forall>list_id. get_white_list_id listen = Some list_id \<longrightarrow> config_white_listed (ac_white_lists config) list_id ip = Ok True)"
  using assms by (auto simp: handle_accepted_tcp_def rust_simps split: option.splits if_splits)

lemma port_forward_relays:
  assumes "port_forward memory timeouts (Ok (remote_src, remote_write)) server_src server_write = Inl ((r1, w1), (r2, w2))" and "memory \<noteq> []"
  shows "\<exists>k1 k2. wh_wire w1 = wh_wire remote_write @ take k1 (pending server_src) \<and> wh_wire w2 = wh_wire server_write @ take k2 (pending remote_src) \<and>
    (healthy remote_write \<longrightarrow> k1 = length (pending server_src)) \<and> (healthy server_write \<longrightarrow> k2 = length (pending remote_src))"
proof -
  have empty: "lb_ok (new_loop_buffer memory)" "0 < length (lb_data (new_loop_buffer memory))" "stream_of (new_loop_buffer memory) src = pending src" for src
    using assms(2) by (auto simp: new_loop_buffer_def lb_ok_def stream_of_def lb_get_data_def BUFFER_CAPACITY_def)
  have "copy_streams timeouts server_src (new_loop_buffer memory) remote_write = (r1, w1)"
    "copy_streams timeouts remote_src (new_loop_buffer memory) server_write = (r2, w2)"
    using assms(1) by (simp_all add: port_forward_def)
  from this [THEN copy_streams_relays [OF empty(1,2)]] show ?thesis by (auto simp: empty(3))
qed

section \<open>A run\<close>

lemma slice_at_position:
  assumes "at_position src (Some p) = Some v" and "v \<noteq> []" and "last v \<noteq> last src"
  shows "slice src (hp_start p) (hp_end p) = Ok v"
proof -
  have v: "take (hp_end p - hp_start p) (drop (hp_start p) src) = v" using assms(1) by (simp add: at_position_def)
  have "hp_end p \<le> length src"
  proof (rule ccontr)
    assume "\<not> hp_end p \<le> length src"
    with v have "drop (hp_start p) src = v" by simp
    with assms(2,3) show False by (metis drop_eq_Nil last_drop not_le)
  qed
  moreover have "hp_start p \<le> hp_end p" using v assms(2) by (cases "hp_start p \<le> hp_end p") auto
  ultimately show ?thesis using v by (simp add: slice_def)
qed

abbreviation demo_lines :: "(bytes \<times> bytes) list" where
  "demo_lines \<equiv> [(as_bytes ''Upgrade'', as_bytes '' websocket'')]"

abbreviation demo_status :: bytes where
  "demo_status \<equiv> as_bytes ''HTTP/1.1 101 S''"

definition demo_response :: bytes where
  "demo_response = demo_status @ HTTP_CR_LF @ concat (map line_wire demo_lines) @ HTTP_CR_LF @ [7, 8]"

definition demo_half :: write_half where
  "demo_half = \<lparr>wh_wire = [], wh_shut = False, wh_ahead = []\<rparr>"

definition demo_connect :: "ProxyPassToConfig \<Rightarrow> (NetworkError, OwnedUpstream) outcome" where
  "demo_connect _ = Ok \<lparr>ou_id = 1, ou_write = demo_half, ou_read = [Arrive demo_response], ou_disconnected = False\<rparr>"

definition demo_upgrade :: UpgradeContext where
  "demo_upgrade = \<lparr>ug_proxy_pass_to = lc_proxy_pass_to demo_location, ug_endpoint = demo_endpoint, ug_location_id = 1,
     ug_head = [1, 2], ug_write_timeout = 6\<rparr>"

definition demo_leftover :: loop_buffer where
  "demo_leftover = \<lparr>lb_data = [3, 0], lb_from = 0, lb_to = 1\<rparr>"

lemma demo_status_ok: "13 \<notin> set demo_status" "verify_http11_first_line demo_status = Ok ()"
  by (simp_all add: verify_http11_first_line_def split_literal as_bytes_def is_whitespace_def
      is_valid_status_code_def is_digit_def parse_unsigned_def dec_value_def)

lemma demo_lines_ok: "list_all line_ok demo_lines" "framing eq_ci_ref demo_lines NoBody = Some NoBody"
  "last_value (as_bytes ''upgrade'') demo_lines None = Some (as_bytes ''websocket'')"
  by (simp_all add: line_ok_def literal_names)

lemma demo_tunnel:
  "\<exists>head p1 p2. run_ws_tunnel test_libs demo_connect plain_client 3 demo_upgrade [Arrive [4]] demo_leftover demo_half = Some (TunnelOpen head p1 p2)"
proof -
  note libs = find_ref_ok find_byte_ref_ok
  have src: "demo_response = demo_status @ HTTP_CR_LF @ concat (map line_wire demo_lines) @ HTTP_CR_LF @ [7, 8]"
    by (simp add: demo_response_def)
  from parse_lines_Some [OF libs demo_lines_ok(1) demo_status_ok src demo_lines_ok(2)] obtain h where
    h: "parse_head find_ref find_byte_ref eq_ci_ref demo_response = Some (Ok (Some h))" "h1_first_line_end h = length demo_status"
      "at_position demo_response (h1_upgrade_value h) = Some (as_bytes ''websocket'')"
    unfolding demo_lines_ok(3) by blast
  obtain p where p: "h1_upgrade_value h = Some p" using h(3) by (auto simp: at_position_def)
  have "as_bytes ''websocket'' \<noteq> []" "last (as_bytes ''websocket'') \<noteq> last demo_response" by (simp_all add: src as_bytes_def)
  note sl = slice_at_position [OF h(3) [unfolded p] this]
  have ws: "web_socket_upgrade demo_response h = Ok True"
    by (simp add: web_socket_upgrade_def p sl) (simp add: as_bytes_def)
  have "demo_response \<noteq> []" "length demo_response \<le> length (take BUFFER_CAPACITY (replicate 60 0))"
    by (simp_all add: src line_wire_def HTTP_CR_LF_def BUFFER_CAPACITY_def)
  from read_headers_one_arrival [OF this h(1)] obtain lb where
    r: "read_headers find_ref find_byte_ref eq_ci_ref (fst (ep_timeouts demo_endpoint)) (new_loop_buffer (replicate 60 0)) [Arrive demo_response] = (Some (Ok h), lb, [])"
      "lb_get_data lb = demo_response"
    by blast
  have "\<exists>head. compile_headers find_ref find_byte_ref (\<lambda>_. []) (\<lambda>_. None) h (ResponseHeaders (endpoint_rules_of demo_endpoint))
      plain_client None None None lb = Some (Ok (head, True, commit_read (h1_end h) lb))"
    by (rule exI, rule compile_headers_lines [OF libs demo_lines_ok(1) r(2) [unfolded src] h(2), where pv = "\<lambda>v. v"])
      (use ws r(2) in \<open>simp_all add: kind_rules_def endpoint_rules_of_def demo_endpoint_def new_endpoint_info_def new_response_rules_def default_modify_headers_def\<close>)
  then obtain head where c: "compile_headers find_ref find_byte_ref (\<lambda>_. []) (\<lambda>_. None) h (ResponseHeaders (endpoint_rules_of demo_endpoint))
      plain_client None None None lb = Some (Ok (head, True, commit_read (h1_end h) lb))" by blast
  show ?thesis
    using r(1) c
    by (simp add: run_ws_tunnel_def demo_upgrade_def demo_connect_def demo_half_def test_libs_def send_head_bytes_def upstream_sink_def
        write_all_with_timeout_def open_tunnel_def)
qed

theorem ws_tunnel_transparent_witness:
  "\<exists>head w1 w2. run_ws_tunnel test_libs demo_connect plain_client 3 demo_upgrade [Arrive [4]] demo_leftover demo_half =
      Some (TunnelOpen head (Ok CopyEnded, w1) (Ok CopyEnded, w2)) \<and> wh_wire w2 = [1, 2, 3, 4]"
proof -
  obtain head r1 w1 r2 w2 where
    t: "run_ws_tunnel test_libs demo_connect plain_client 3 demo_upgrade [Arrive [4]] demo_leftover demo_half = Some (TunnelOpen head (r1, w1) (r2, w2))"
    using demo_tunnel by auto
  have "find_seq_ok (wl_find_seq test_libs)" "lb_ok demo_leftover" "0 < length (lb_data demo_leftover)"
    by (simp_all add: test_libs_def find_ref_ok demo_leftover_def lb_ok_def)
  from ws_tunnel_transparent [OF t this] have "r1 = Ok CopyEnded" "r2 = Ok CopyEnded" "wh_wire w2 = [1, 2, 3, 4]"
    by (auto simp: demo_upgrade_def demo_connect_def demo_half_def demo_leftover_def stream_of_def lb_get_data_def healthy_def)
  with t show ?thesis by blast
qed

end
