(* ===== verification/Spec2Isabelle.thy ===== *)
theory Spec2Isabelle
  imports Gateway_Invariant Gateway_Handshake Gateway_Writer H1_Worker H1_Guards H1_Pool_Properties H2_Properties H2_Pool_Properties Config_Properties Tls_Properties Pool_Gc Tunnels
begin

text \<open>
  A verification development for \<open>my-reverse-proxy\<close>.
\<close>

end
